(* ===== verification/Aether_Prelude.thy ===== *)
theory Aether_Prelude
  imports Main "HOL-Library.Char_ord" "HOL-Library.List_Lexorder"
begin

text \<open>
  The shared prelude: Python values the components have in common, and the lemmas their
  proofs share.

  \<^item> Strings are lists of code points below 256 (one \<open>char\<close> per Python character);
    \<open>strip\<close>, \<open>casefold\<close>, \<open>str_in\<close> and \<open>join\<close> are the \<open>str\<close> methods the sources use.
  \<^item> A Python \<open>dict\<close> with its insertion order is an association list; \<open>dict_set\<close> stores a key,
    \<open>dict_get\<close> reads one, \<open>dict_update\<close> is \<open>{**a, **b}\<close>.
  \<^item> A raised exception is \<open>Inl e\<close>, a returned value \<open>Inr v\<close>.
  \<^item> Instants are whole seconds (every stored time of the sources is cut to seconds).
  \<^item> \<open>new_id\<close> takes the hexadecimal digits of the fresh \<open>uuid4\<close> as an argument.
\<close>

named_theorems py_simps "equations of the Python library functions"
named_theorems wf_intros "introduction rules for well-formedness"

section \<open>Strings\<close>

definition py_space :: "char \<Rightarrow> bool" where
  "py_space c = (let n = (of_char c :: nat) in
     (9 \<le> n \<and> n \<le> 13) \<or> (28 \<le> n \<and> n \<le> 32) \<or> n = 133 \<or> n = 160)"

definition strip :: "string \<Rightarrow> string" where
  "strip s = rev (dropWhile py_space (rev (dropWhile py_space s)))"

abbreviation blank :: "string \<Rightarrow> bool" where
  "blank s \<equiv> strip s = []"

definition fold_char :: "char \<Rightarrow> string" where
  "fold_char c = (let n = (of_char c :: nat) in
     if (65 \<le> n \<and> n \<le> 90) \<or> (192 \<le> n \<and> n \<le> 222 \<and> n \<noteq> 215) then [char_of (n + 32)]
     else if n = 223 then ''ss'' else [c])"

definition casefold :: "string \<Rightarrow> string" where
  "casefold s = concat (map fold_char s)"

text \<open>\<open>str.lower\<close> on Latin-1 text.\<close>

definition lower_char :: "char \<Rightarrow> char" where
  "lower_char c = (let n = (of_char c :: nat) in
     if (65 \<le> n \<and> n \<le> 90) \<or> (192 \<le> n \<and> n \<le> 222 \<and> n \<noteq> 215) then char_of (n + 32) else c)"

definition lower :: "string \<Rightarrow> string" where
  "lower s = map lower_char s"

fun starts_with :: "string \<Rightarrow> string \<Rightarrow> bool" where
  "starts_with [] s = True"
| "starts_with (p # ps) [] = False"
| "starts_with (p # ps) (c # s) = (c = p \<and> starts_with ps s)"

fun str_in :: "string \<Rightarrow> string \<Rightarrow> bool" where
  "str_in sub [] = (sub = [])"
| "str_in sub (c # s) = (starts_with sub (c # s) \<or> str_in sub s)"

fun join :: "string \<Rightarrow> string list \<Rightarrow> string" where
  "join sep [] = []"
| "join sep [x] = x"
| "join sep (x # y # xs) = x @ sep @ join sep (y # xs)"

text \<open>\<open>" ".join(s.split())\<close>: the words of a string, one space apart.\<close>

fun words_acc :: "string \<Rightarrow> string \<Rightarrow> string list" where
  "words_acc acc [] = (if acc = [] then [] else [rev acc])"
| "words_acc acc (c # s) =
     (if py_space c then (if acc = [] then words_acc [] s else rev acc # words_acc [] s)
      else words_acc (c # acc) s)"

definition squeeze :: "string \<Rightarrow> string" where
  "squeeze s = join '' '' (words_acc [] s)"

text \<open>\<open>x or default\<close> on strings and on optional strings.\<close>

definition str_or :: "string \<Rightarrow> string \<Rightarrow> string" where
  "str_or s d = (if s = [] then d else s)"

definition ostr_or :: "string option \<Rightarrow> string \<Rightarrow> string" where
  "ostr_or s d = (case s of None \<Rightarrow> d | Some t \<Rightarrow> str_or t d)"

section \<open>Numbers as text\<close>

definition digit_char :: "nat \<Rightarrow> char" where
  "digit_char n = char_of (48 + n)"

fun nat_str :: "nat \<Rightarrow> string" where
  "nat_str n = (if n < 10 then [digit_char n] else nat_str (n div 10) @ [digit_char (n mod 10)])"

declare nat_str.simps [simp del]

definition int_str :: "int \<Rightarrow> string" where
  "int_str i = (if i < 0 then CHR ''-'' # nat_str (nat (- i)) else nat_str (nat i))"

definition is_digit :: "char \<Rightarrow> bool" where
  "is_digit c = (let n = (of_char c :: nat) in 48 \<le> n \<and> n \<le> 57)"

definition digit_val :: "char \<Rightarrow> nat" where
  "digit_val c = of_char c - 48"

definition digits_val :: "string \<Rightarrow> nat" where
  "digits_val ds = foldl (\<lambda>n c. 10 * n + digit_val c) 0 ds"

section \<open>Dictionaries\<close>

type_synonym ('k, 'v) dict = "('k \<times> 'v) list"

abbreviation dict_get :: "('k, 'v) dict \<Rightarrow> 'k \<Rightarrow> 'v option" where
  "dict_get d k \<equiv> map_of d k"

fun dict_set :: "'k \<Rightarrow> 'v \<Rightarrow> ('k, 'v) dict \<Rightarrow> ('k, 'v) dict" where
  "dict_set k v [] = [(k, v)]"
| "dict_set k v ((k', v') # d) = (if k = k' then (k, v) # d else (k', v') # dict_set k v d)"

definition dict_pop :: "'k \<Rightarrow> ('k, 'v) dict \<Rightarrow> ('k, 'v) dict" where
  "dict_pop k d = filter (\<lambda>kv. fst kv \<noteq> k) d"

definition dict_update :: "('k, 'v) dict \<Rightarrow> ('k, 'v) dict \<Rightarrow> ('k, 'v) dict" where
  "dict_update d e = foldl (\<lambda>d kv. dict_set (fst kv) (snd kv) d) d e"

definition dict_of_pairs :: "('k \<times> 'v) list \<Rightarrow> ('k, 'v) dict" where
  "dict_of_pairs kvs = dict_update [] kvs"

abbreviation keys :: "('k, 'v) dict \<Rightarrow> 'k list" where
  "keys d \<equiv> map fst d"

text \<open>\<open>tuple(dict.fromkeys(blockers))\<close>: the first occurrence of each.\<close>

definition from_keys :: "string list \<Rightarrow> string list" where
  "from_keys xs = keys (dict_of_pairs (map (\<lambda>x. (x, ())) xs))"

section \<open>Results, instants, identifiers\<close>

definition bindE :: "'e + 'a \<Rightarrow> ('a \<Rightarrow> 'e + 'b) \<Rightarrow> 'e + 'b" where
  "bindE r f = (case r of Inl e \<Rightarrow> Inl e | Inr a \<Rightarrow> f a)"

definition of_option :: "'e \<Rightarrow> 'a option \<Rightarrow> 'e + 'a" where
  "of_option e x = (case x of None \<Rightarrow> Inl e | Some a \<Rightarrow> Inr a)"

type_synonym instant = int

definition pad :: "nat \<Rightarrow> int \<Rightarrow> string" where
  "pad w i = (let s = int_str i in replicate (w - length s) (CHR ''0'') @ s)"

text \<open>
  Days since 1970-01-01 to year, month and day of the proleptic Gregorian calendar (the
  calendar of \<open>datetime\<close>), and the text \<open>YYYY-MM-DDTHH:MM:SSZ\<close> of \<open>_iso\<close> and \<open>utc_now\<close>.
\<close>

definition civil :: "int \<Rightarrow> int \<times> int \<times> int" where
  "civil d = (let z = d + 719468; era = z div 146097; doe = z mod 146097;
      yoe = (doe - doe div 1460 + doe div 36524 - doe div 146096) div 365;
      doy = doe - (365 * yoe + yoe div 4 - yoe div 100);
      mp = (5 * doy + 2) div 153; dd = doy - (153 * mp + 2) div 5 + 1;
      m = (if mp < 10 then mp + 3 else mp - 9);
      y = yoe + era * 400 + (if m \<le> 2 then 1 else 0)
    in (y, m, dd))"

definition date_text :: "instant \<Rightarrow> string" where
  "date_text t = (case civil (t div 86400) of (y, m, d) \<Rightarrow>
     pad 4 y @ ''-'' @ pad 2 m @ ''-'' @ pad 2 d)"

definition iso :: "instant \<Rightarrow> string" where
  "iso t = (let s = t mod 86400 in
     date_text t @ ''T'' @ pad 2 (s div 3600) @ '':'' @ pad 2 (s div 60 mod 60) @ '':'' @
     pad 2 (s mod 60) @ ''Z'')"

text \<open>
  \<open>new_id(prefix)\<close>: every prefix of the sources is a literal of lower-case letters and
  hyphens, on which \<open>strip().replace(" ", "_").lower()\<close> is the identity.
\<close>

definition new_id :: "string \<Rightarrow> string \<Rightarrow> string" where
  "new_id prefix hex = prefix @ ''.'' @ take 16 hex"

section \<open>Lemmas\<close>

lemma strip_Nil [simp]: "strip [] = []"
  by (simp add: strip_def)

lemma bindE_simps [simp]: "bindE (Inl e) f = Inl e" "bindE (Inr a) f = f a"
  by (simp_all add: bindE_def)

lemma bindE_Inr_conv: "bindE r f = Inr b \<longleftrightarrow> (\<exists>a. r = Inr a \<and> f a = Inr b)"
  by (cases r) auto

lemma of_option_simps [simp]: "of_option e None = Inl e" "of_option e (Some a) = Inr a"
  by (simp_all add: of_option_def)

lemma dict_get_set [simp]: "dict_get (dict_set k v d) k' = (if k' = k then Some v else dict_get d k')"
  by (induction d) auto

lemma keys_dict_set: "keys (dict_set k v d) = (if k \<in> set (keys d) then keys d else keys d @ [k])"
  by (induction d) (auto simp: rev_image_eqI)

lemma distinct_dict_set [simp]: "distinct (keys d) \<Longrightarrow> distinct (keys (dict_set k v d))"
  by (simp add: keys_dict_set)

lemma set_dict_set: "kv \<in> set (dict_set k v d) \<Longrightarrow> kv = (k, v) \<or> kv \<in> set d"
  by (induction d) (auto split: if_splits)

lemma set_dict_set_eq: "distinct (keys d) \<Longrightarrow> set (dict_set k v d) = insert (k, v) {x \<in> set d. fst x \<noteq> k}"
proof (induction d)
  case (Cons kv d)
  then have "fst x \<noteq> fst kv" if "x \<in> set d" for x using that by (auto simp: image_iff)
  with Cons show ?case by (cases kv) auto
qed simp

lemma dict_set_fresh: "k \<notin> set (keys d) \<Longrightarrow> dict_set k v d = d @ [(k, v)]"
  by (induction d) auto

lemma dict_update_Nil [simp]: "dict_update d [] = d"
  by (simp add: dict_update_def)

lemma dict_update_Cons [simp]: "dict_update d (kv # e) = dict_update (dict_set (fst kv) (snd kv) d) e"
  by (simp add: dict_update_def)

lemma distinct_dict_update: "distinct (keys d) \<Longrightarrow> distinct (keys (dict_update d e))"
  by (induction e arbitrary: d) auto

lemma distinct_dict_of_pairs [simp]: "distinct (keys (dict_of_pairs kvs))"
  by (simp add: dict_of_pairs_def distinct_dict_update)

lemma set_dict_update: "kv \<in> set (dict_update d e) \<Longrightarrow> kv \<in> set d \<or> kv \<in> set e"
proof (induction e arbitrary: d)
  case (Cons x e)
  from Cons.IH [of "dict_set (fst x) (snd x) d"] Cons.prems show ?case
    by (auto dest: set_dict_set)
qed simp

lemma dict_update_append:
  "distinct (keys d @ keys e) \<Longrightarrow> dict_update d e = d @ e"
proof (induction e arbitrary: d)
  case (Cons kv e)
  then have "dict_set (fst kv) (snd kv) d = d @ [kv]"
    by (simp add: dict_set_fresh)
  with Cons show ?case by simp
qed simp

lemma dict_of_pairs_id [simp]: "distinct (keys kvs) \<Longrightarrow> dict_of_pairs kvs = kvs"
  by (simp add: dict_of_pairs_def dict_update_append)

lemma dict_get_pop [simp]: "dict_get (dict_pop k d) k' = (if k' = k then None else dict_get d k')"
  by (induction d) (auto simp: dict_pop_def)

lemma distinct_dict_pop: "distinct (keys d) \<Longrightarrow> distinct (keys (dict_pop k d))"
  by (induction d) (auto simp: dict_pop_def)

lemma dict_set_nonempty: "dict_set k v d \<noteq> []"
  by (cases d) (auto split: if_splits)

lemma from_keys_empty [simp]: "from_keys xs = [] \<longleftrightarrow> xs = []"
proof -
  have "dict_update d (map (\<lambda>x. (x, ())) ys) \<noteq> []" if "d \<noteq> []" for d :: "(string, unit) dict" and ys
    using that by (induction ys arbitrary: d) (simp_all add: dict_set_nonempty)
  then show ?thesis by (cases xs) (simp_all add: from_keys_def dict_of_pairs_def)
qed

lemma find_distinct:
  "distinct (map key xs) \<Longrightarrow> x \<in> set xs \<Longrightarrow> find (\<lambda>r. key r = key x) xs = Some x"
  by (induction xs) (auto simp: rev_image_eqI)

lemma find_sorted_least:
  assumes "find P (sort_key k xs) = Some x"
  shows "x \<in> set xs \<and> P x \<and> (\<forall>y \<in> set xs. P y \<longrightarrow> k x \<le> k y)"
proof -
  have "sorted (map k (sort_key k xs))" by simp
  moreover from assms obtain i where i: "i < length (sort_key k xs)" "P (sort_key k xs ! i)" "x = sort_key k xs ! i"
    "\<forall>j < i. \<not> P (sort_key k xs ! j)"
    by (auto simp: find_Some_iff)
  ultimately have "k x \<le> k y" if "y \<in> set xs" "P y" for y
  proof -
    from that obtain j where j: "j < length (sort_key k xs)" "y = sort_key k xs ! j"
      by (metis in_set_conv_nth set_sort)
    then have "i \<le> j" using i(4) that(2) not_less by blast
    then show ?thesis using \<open>sorted (map k (sort_key k xs))\<close> i j by (auto simp: sorted_iff_nth_mono)
  qed
  with i show ?thesis by (metis nth_mem set_sort)
qed

subsection \<open>Decimal digits\<close>

lemma of_char_digit_char [simp]: "n < 10 \<Longrightarrow> of_char (digit_char n) = 48 + n"
  by (simp add: digit_char_def)

lemma digit_val_digit_char [simp]: "n < 10 \<Longrightarrow> digit_val (digit_char n) = n"
  by (simp add: digit_val_def)

lemma is_digit_digit_char [simp]: "n < 10 \<Longrightarrow> is_digit (digit_char n)"
  by (simp add: is_digit_def)

lemma nat_str_digits: "\<forall>c \<in> set (nat_str n). is_digit c"
proof (induction n rule: nat_str.induct)
  case (1 n)
  then show ?case by (subst nat_str.simps) auto
qed

lemma nat_str_nonempty [simp]: "nat_str n \<noteq> []"
  by (subst nat_str.simps) simp

lemma digits_val_snoc [simp]: "digits_val (ds @ [c]) = 10 * digits_val ds + digit_val c"
  by (simp add: digits_val_def)

lemma digits_val_nat_str [simp]: "digits_val (nat_str n) = n"
proof (induction n rule: nat_str.induct)
  case (1 n)
  show ?case
  proof (cases "n < 10")
    case True
    then show ?thesis by (subst nat_str.simps) (simp add: digits_val_def)
  next
    case False
    with 1 show ?thesis by (subst nat_str.simps) simp
  qed
qed

lemma digits_no_minus: "is_digit c \<Longrightarrow> c \<noteq> CHR ''-''"
  by (auto simp: is_digit_def)

lemma find_append: "find P (xs @ ys) = (case find P xs of None \<Rightarrow> find P ys | Some x \<Rightarrow> Some x)"
  by (induction xs) auto

lemma find_SomeD: "find P xs = Some x \<Longrightarrow> x \<in> set xs \<and> P x"
  by (auto simp: find_Some_iff)

end
