(* ===== verification/Aether_Json.thy ===== *)
theory Aether_Json
  imports Aether_Prelude
begin

text \<open>
  The part of Python's \<open>json\<close> library the sources use: \<open>json.dumps(..., sort_keys=True)\<close> in
  both separator styles and with and without \<open>ensure_ascii\<close>, and \<open>json.loads\<close>, as executable
  functions on text. The main result is the round trip \<open>loads_dumps\<close>: reading back what
  was written gives the value with its object keys sorted, so equal canonical texts mean
  equal values. Both are the interface \<open>text_codec\<close>, which the stores that keep JSON text
  use.

  A float is represented by its literal: \<open>json\<close> writes \<open>float.__repr__\<close> and reads the literal
  back, and distinct doubles have distinct representations. \<open>\uXXXX\<close> escapes above
  \<open>\u00ff\<close> are outside the model's characters and are read as an error.
\<close>

section \<open>Values\<close>

datatype json = JNull | JBool bool | JInt int | JFloat string | JStr string
  | JList "json list" | JObj "(string \<times> json) list"

text \<open>\<open>sort_keys\<close>: every object with its keys in code point order.\<close>

primrec norm :: "json \<Rightarrow> json" where
  "norm JNull = JNull"
| "norm (JBool b) = JBool b"
| "norm (JInt i) = JInt i"
| "norm (JFloat t) = JFloat t"
| "norm (JStr s) = JStr s"
| "norm (JList xs) = JList (map norm xs)"
| "norm (JObj kvs) = JObj (sort_key fst (map (map_prod id norm) kvs))"

section \<open>Writing\<close>

text \<open>Whether non-ASCII is escaped, and the space after \<open>,\<close> and \<open>:\<close>.\<close>

datatype fmt = Fmt (f_ascii: bool) (f_space: string)

definition hex_char :: "nat \<Rightarrow> char" where
  "hex_char n = (if n < 10 then digit_char n else char_of (87 + n))"

definition esc_char :: "bool \<Rightarrow> char \<Rightarrow> string" where
  "esc_char asc c = (let n = (of_char c :: nat) in
     if n = 34 then [CHR 0x5C, CHR 0x22]
     else if n = 92 then [CHR 0x5C, CHR 0x5C]
     else if n = 10 then [CHR 0x5C, CHR ''n'']
     else if n = 13 then [CHR 0x5C, CHR ''r'']
     else if n = 9 then [CHR 0x5C, CHR ''t'']
     else if n = 12 then [CHR 0x5C, CHR ''f'']
     else if n = 8 then [CHR 0x5C, CHR ''b'']
     else if n < 32 \<or> (asc \<and> 126 < n)
       then [CHR 0x5C, CHR ''u'', CHR ''0'', CHR ''0'', hex_char (n div 16), hex_char (n mod 16)]
     else [c])"

definition quote :: "bool \<Rightarrow> string \<Rightarrow> string" where
  "quote asc s = CHR 0x22 # concat (map (esc_char asc) s) @ [CHR 0x22]"

primrec dump :: "fmt \<Rightarrow> json \<Rightarrow> string" where
  "dump f JNull = ''null''"
| "dump f (JBool b) = (if b then ''true'' else ''false'')"
| "dump f (JInt i) = int_str i"
| "dump f (JFloat t) = t"
| "dump f (JStr s) = quote (f_ascii f) s"
| "dump f (JList xs) = CHR ''['' # join (CHR '','' # f_space f) (map (dump f) xs) @ [CHR '']'']"
| "dump f (JObj kvs) = CHR ''{'' # join (CHR '','' # f_space f)
     (map (\<lambda>kt. quote (f_ascii f) (fst kt) @ CHR '':'' # f_space f @ snd kt)
        (map (map_prod id (dump f)) kvs)) @ [CHR ''}'']"

definition dumps :: "fmt \<Rightarrow> json \<Rightarrow> string" where
  "dumps f v = dump f (norm v)"

section \<open>Reading\<close>

definition json_ws :: "char \<Rightarrow> bool" where
  "json_ws c = (let n = (of_char c :: nat) in n = 32 \<or> n = 9 \<or> n = 10 \<or> n = 13)"

abbreviation skip_ws :: "string \<Rightarrow> string" where
  "skip_ws s \<equiv> dropWhile json_ws s"

definition hex_val :: "char \<Rightarrow> nat option" where
  "hex_val c = (let n = (of_char c :: nat) in
     if 48 \<le> n \<and> n \<le> 57 then Some (n - 48)
     else if 97 \<le> n \<and> n \<le> 102 then Some (n - 87)
     else if 65 \<le> n \<and> n \<le> 70 then Some (n - 55) else None)"

definition hex4 :: "char \<Rightarrow> char \<Rightarrow> char \<Rightarrow> char \<Rightarrow> nat option" where
  "hex4 a b c d = (case (hex_val a, hex_val b, hex_val c, hex_val d) of
     (Some w, Some x, Some y, Some z) \<Rightarrow> Some (4096 * w + 256 * x + 16 * y + z) | _ \<Rightarrow> None)"

definition unescape :: "char \<Rightarrow> char option" where
  "unescape e = (let n = (of_char e :: nat) in
     if n = 34 then Some (CHR 0x22) else if n = 92 then Some (CHR 0x5C)
     else if n = 47 then Some (CHR ''/'') else if n = 98 then Some (CHR 0x08)
     else if n = 102 then Some (CHR 0x0C) else if n = 110 then Some (CHR 0x0A)
     else if n = 114 then Some (CHR 0x0D) else if n = 116 then Some (CHR 0x09) else None)"

definition cons_char :: "char \<Rightarrow> (string \<times> string) option \<Rightarrow> (string \<times> string) option" where
  "cons_char c r = map_option (\<lambda>(t, u). (c # t, u)) r"

fun parse_chars :: "string \<Rightarrow> (string \<times> string) option" where
  "parse_chars [] = None"
| "parse_chars (c # s) =
     (if c = CHR 0x22 then Some ([], s)
      else if c = CHR 0x5C then
        (case s of
           e # s' \<Rightarrow>
             (if e = CHR ''u'' then
                (case s' of
                   w # x # y # z # s'' \<Rightarrow>
                     (case hex4 w x y z of
                        Some n \<Rightarrow> (if n < 256 then cons_char (char_of n) (parse_chars s'') else None)
                      | None \<Rightarrow> None)
                 | _ \<Rightarrow> None)
              else (case unescape e of Some d \<Rightarrow> cons_char d (parse_chars s') | None \<Rightarrow> None))
         | [] \<Rightarrow> None)
      else if (of_char c :: nat) < 32 then None
      else cons_char c (parse_chars s))"

definition num_char :: "char \<Rightarrow> bool" where
  "num_char c = (is_digit c \<or> c \<in> set ''+-.eE'')"

definition unsigned :: "string \<Rightarrow> string" where
  "unsigned t = (case t of c # u \<Rightarrow> if c = CHR ''-'' then u else t | [] \<Rightarrow> [])"

definition int_digits :: "string \<Rightarrow> bool" where
  "int_digits u = (u \<noteq> [] \<and> list_all is_digit u \<and> (length u = 1 \<or> hd u \<noteq> CHR ''0''))"

definition int_lit :: "string \<Rightarrow> bool" where
  "int_lit t = int_digits (unsigned t)"

definition int_val :: "string \<Rightarrow> int" where
  "int_val t = (if t \<noteq> [] \<and> hd t = CHR ''-'' then - int (digits_val (tl t)) else int (digits_val t))"

definition exp_lit :: "string \<Rightarrow> bool" where
  "exp_lit r = (case r of [] \<Rightarrow> False | c # s \<Rightarrow> c \<in> set ''eE'' \<and>
     (let d = (case s of x # s' \<Rightarrow> if x \<in> set ''+-'' then s' else s | [] \<Rightarrow> [])
      in d \<noteq> [] \<and> list_all is_digit d))"

definition frac_lit :: "string \<Rightarrow> bool" where
  "frac_lit r = (case r of [] \<Rightarrow> False | c # s \<Rightarrow>
     if c = CHR ''.''
     then takeWhile is_digit s \<noteq> [] \<and> (dropWhile is_digit s = [] \<or> exp_lit (dropWhile is_digit s))
     else exp_lit r)"

definition float_lit :: "string \<Rightarrow> bool" where
  "float_lit t = (let u = unsigned t in
     int_digits (takeWhile is_digit u) \<and> frac_lit (dropWhile is_digit u))"

definition parse_number :: "string \<Rightarrow> (json \<times> string) option" where
  "parse_number s = (let t = takeWhile num_char s; r = dropWhile num_char s in
     if int_lit t then Some (JInt (int_val t), r)
     else if float_lit t then Some (JFloat t, r) else None)"

definition parse_word :: "string \<Rightarrow> (json \<times> string) option" where
  "parse_word s =
     (if starts_with ''null'' s then Some (JNull, drop 4 s)
      else if starts_with ''true'' s then Some (JBool True, drop 4 s)
      else if starts_with ''false'' s then Some (JBool False, drop 5 s)
      else if starts_with ''NaN'' s then Some (JFloat ''NaN'', drop 3 s)
      else if starts_with ''Infinity'' s then Some (JFloat ''Infinity'', drop 8 s)
      else if starts_with ''-Infinity'' s then Some (JFloat ''-Infinity'', drop 9 s)
      else parse_number s)"

text \<open>
  Recursive descent, one unit of fuel per call: \<open>loads\<close> starts with one more than the
  length of the text, which every text that \<open>dumps\<close> writes is read with
  (\<open>parse_value_dump\<close>).
\<close>

fun parse_value :: "nat \<Rightarrow> string \<Rightarrow> (json \<times> string) option"
and parse_elems :: "nat \<Rightarrow> string \<Rightarrow> (json list \<times> string) option"
and parse_members :: "nat \<Rightarrow> string \<Rightarrow> ((string \<times> json) list \<times> string) option" where
  "parse_value 0 s = None"
| "parse_value (Suc n) s = (case s of [] \<Rightarrow> None | c # r \<Rightarrow>
     if c = CHR 0x22 then
       (case parse_chars r of None \<Rightarrow> None | Some (t, r') \<Rightarrow> Some (JStr t, r'))
     else if c = CHR ''['' then
       (if skip_ws r \<noteq> [] \<and> hd (skip_ws r) = CHR '']'' then Some (JList [], tl (skip_ws r))
        else (case parse_elems n (skip_ws r) of None \<Rightarrow> None | Some (xs, r') \<Rightarrow> Some (JList xs, r')))
     else if c = CHR ''{'' then
       (if skip_ws r \<noteq> [] \<and> hd (skip_ws r) = CHR ''}'' then Some (JObj [], tl (skip_ws r))
        else (case parse_members n (skip_ws r) of None \<Rightarrow> None
              | Some (kvs, r') \<Rightarrow> Some (JObj (dict_of_pairs kvs), r')))
     else parse_word s)"
| "parse_elems 0 s = None"
| "parse_elems (Suc n) s = (case parse_value n s of None \<Rightarrow> None | Some (v, r) \<Rightarrow>
     (case skip_ws r of [] \<Rightarrow> None | c # r' \<Rightarrow>
        if c = CHR '','' then
          (case parse_elems n (skip_ws r') of None \<Rightarrow> None | Some (vs, r'') \<Rightarrow> Some (v # vs, r''))
        else if c = CHR '']'' then Some ([v], r') else None))"
| "parse_members 0 s = None"
| "parse_members (Suc n) s = (case s of [] \<Rightarrow> None | q # s0 \<Rightarrow>
     if q \<noteq> CHR 0x22 then None else
     (case parse_chars s0 of None \<Rightarrow> None | Some (k, r0) \<Rightarrow>
       (case skip_ws r0 of [] \<Rightarrow> None | m # r1 \<Rightarrow>
         if m \<noteq> CHR '':'' then None else
         (case parse_value n (skip_ws r1) of None \<Rightarrow> None | Some (v, r) \<Rightarrow>
           (case skip_ws r of [] \<Rightarrow> None | c # r' \<Rightarrow>
             if c = CHR '','' then
               (case parse_members n (skip_ws r') of None \<Rightarrow> None
                | Some (kvs, r'') \<Rightarrow> Some ((k, v) # kvs, r''))
             else if c = CHR ''}'' then Some ([(k, v)], r') else None)))))"

definition loads :: "string \<Rightarrow> json option" where
  "loads s = (case parse_value (Suc (length s)) (skip_ws s) of None \<Rightarrow> None
     | Some (v, r) \<Rightarrow> if skip_ws r = [] then Some v else None)"

section \<open>Well-formed values\<close>

text \<open>Dictionaries have distinct keys and a float is the text of a float.\<close>

definition float_text :: "string \<Rightarrow> bool" where
  "float_text t = (float_lit t \<or> t \<in> {''NaN'', ''Infinity'', ''-Infinity''})"

primrec wf_json :: "json \<Rightarrow> bool" where
  "wf_json JNull = True"
| "wf_json (JBool b) = True"
| "wf_json (JInt i) = True"
| "wf_json (JFloat t) = float_text t"
| "wf_json (JStr s) = True"
| "wf_json (JList xs) = list_all id (map wf_json xs)"
| "wf_json (JObj kvs) = (distinct (keys kvs) \<and> list_all snd (map (map_prod id wf_json) kvs))"

definition wf_fmt :: "fmt \<Rightarrow> bool" where
  "wf_fmt f = list_all json_ws (f_space f)"

section \<open>The interface of a text codec\<close>

text \<open>
  What the stores rely on: decoding an encoded value gives its canonical form. Encoding is
  then injective up to that form.
\<close>

locale text_codec =
  fixes enc :: "'a \<Rightarrow> string"
    and dec :: "string \<Rightarrow> 'a option"
    and canon :: "'a \<Rightarrow> 'a"
    and ok :: "'a \<Rightarrow> bool"
  assumes dec_enc: "ok v \<Longrightarrow> dec (enc v) = Some (canon v)"
begin

lemma enc_inject: "ok v \<Longrightarrow> ok w \<Longrightarrow> enc v = enc w \<Longrightarrow> canon v = canon w"
  using dec_enc [of v] dec_enc [of w] by simp

lemma dec_enc_not_None: "ok v \<Longrightarrow> dec (enc v) \<noteq> None"
  by (simp add: dec_enc)

end

section \<open>The round trip\<close>

subsection \<open>Strings\<close>

lemma hex_val_hex_char [simp]: "n < 16 \<Longrightarrow> hex_val (hex_char n) = Some n"
  by (auto simp: hex_val_def hex_char_def digit_char_def Let_def)

lemma of_char_lt [simp]: "(of_char c :: nat) < 256"
  by (simp add: of_char_def) 

lemma hex4_esc: "n < 256 \<Longrightarrow> hex4 (CHR ''0'') (CHR ''0'') (hex_char (n div 16)) (hex_char (n mod 16)) = Some n"
proof -
  assume "n < 256"
  then have "n div 16 < 16" "n mod 16 < 16" by auto
  moreover have "hex_val (CHR ''0'') = Some 0" by (simp add: hex_val_def)
  ultimately show ?thesis by (simp add: hex4_def)
qed

lemma of_char_eq_iff: "(of_char c :: nat) = of_char d \<longleftrightarrow> c = d"
  by simp

lemma parse_chars_esc: "parse_chars (esc_char asc c @ s) = cons_char c (parse_chars s)"
proof (cases "c \<in> {CHR 0x22, CHR 0x5C, CHR 0x0A, CHR 0x0D, CHR 0x09, CHR 0x0C, CHR 0x08}")
  case True
  then show ?thesis by (auto simp: esc_char_def unescape_def)
next
  case False
  let ?n = "of_char c :: nat"
  have eq: "(?n = of_char d) = (c = d)" for d by simp
  have ne: "?n \<noteq> 34" "?n \<noteq> 92" "?n \<noteq> 10" "?n \<noteq> 13" "?n \<noteq> 9" "?n \<noteq> 12" "?n \<noteq> 8"
    using False eq [of "CHR 0x22"] eq [of "CHR 0x5C"] eq [of "CHR 0x0A"] eq [of "CHR 0x0D"]
      eq [of "CHR 0x09"] eq [of "CHR 0x0C"] eq [of "CHR 0x08"] by simp_all
  show ?thesis
  proof (cases "?n < 32 \<or> (asc \<and> 126 < ?n)")
    case True
    then have "esc_char asc c =
        [CHR 0x5C, CHR ''u'', CHR ''0'', CHR ''0'', hex_char (?n div 16), hex_char (?n mod 16)]"
      using ne by (simp add: esc_char_def Let_def)
    then show ?thesis by (simp add: hex4_esc)
  next
    case False
    then have "esc_char asc c = [c]" using ne by (simp add: esc_char_def Let_def)
    moreover from False have "\<not> ?n < 32" by simp
    moreover from \<open>c \<notin> _\<close> have "c \<noteq> CHR 0x22" "c \<noteq> CHR 0x5C" by simp_all
    ultimately show ?thesis by simp
  qed
qed

lemma parse_chars_quote: "parse_chars (concat (map (esc_char asc) s) @ CHR 0x22 # r) = Some (s, r)"
  by (induction s) (simp_all add: parse_chars_esc cons_char_def)

subsection \<open>Numbers\<close>

definition delim :: "string \<Rightarrow> bool" where
  "delim r = (r = [] \<or> \<not> num_char (hd r))"

lemma delim_while [simp]:
  "delim r \<Longrightarrow> takeWhile num_char r = []" "delim r \<Longrightarrow> dropWhile num_char r = r"
  by (cases r; simp add: delim_def)+

lemma digit_num_char: "is_digit c \<Longrightarrow> num_char c"
  by (simp add: num_char_def)

lemma digits_num_char: "list_all is_digit t \<Longrightarrow> \<forall>c \<in> set t. num_char c"
  by (auto simp: list_all_iff num_char_def)

lemma nat_str_head: "length (nat_str n) = 1 \<or> hd (nat_str n) \<noteq> CHR ''0''"
proof (induction n rule: nat_str.induct)
  case (1 n)
  show ?case
  proof (cases "n < 10")
    case True
    then show ?thesis by (simp add: nat_str.simps [of n])
  next
    case False
    have "hd (nat_str (n div 10)) \<noteq> CHR ''0''"
    proof (cases "n div 10 < 10")
      case True
      then have "of_char (digit_char (n div 10)) = (48 + n div 10 :: nat)" by simp
      with False have "digit_char (n div 10) \<noteq> CHR ''0''" by auto
      with True show ?thesis by (simp add: nat_str.simps [of "n div 10"])
    next
      case False
      then have "length (nat_str (n div 10)) \<noteq> 1" by (simp add: nat_str.simps [of "n div 10"])
      with 1 \<open>\<not> n < 10\<close> show ?thesis by blast
    qed
    with False show ?thesis by (simp add: nat_str.simps [of n])
  qed
qed

lemma nat_str_int_digits: "int_digits (nat_str n)"
  using nat_str_digits [of n] nat_str_head [of n] by (auto simp: int_digits_def list_all_iff)

lemma nat_str_hd_digit: "is_digit (hd (nat_str n))"
  using nat_str_digits [of n] by simp

lemma unsigned_digit: "is_digit (hd t) \<Longrightarrow> unsigned t = t"
  by (auto simp: unsigned_def is_digit_def split: list.splits)

lemma int_str_lit: "int_lit (int_str i)" "int_val (int_str i) = i"
  "\<forall>c \<in> set (int_str i). num_char c"
proof -
  have m: "hd (nat_str n) \<noteq> CHR ''-''" for n
    using nat_str_hd_digit [of n] by (rule digits_no_minus)
  show "int_lit (int_str i)"
    using nat_str_int_digits unsigned_digit [OF nat_str_hd_digit]
    by (simp add: int_lit_def int_str_def unsigned_def)
  show "int_val (int_str i) = i" using m by (auto simp: int_str_def int_val_def)
  show "\<forall>c \<in> set (int_str i). num_char c"
    using nat_str_digits by (auto simp: int_str_def num_char_def)
qed

lemma parse_number_int: "delim r \<Longrightarrow> parse_number (int_str i @ r) = Some (JInt i, r)"
  by (simp add: parse_number_def takeWhile_append dropWhile_append int_str_lit Let_def)

lemma exp_lit_num: "exp_lit r \<Longrightarrow> \<forall>c \<in> set r. num_char c"
  by (auto simp: exp_lit_def num_char_def list_all_iff Let_def split: list.splits if_splits)

lemma span_num:
  assumes "\<forall>c \<in> set (dropWhile is_digit s). num_char c"
  shows "\<forall>c \<in> set s. num_char c"
proof -
  have "\<forall>c \<in> set (takeWhile is_digit s) \<union> set (dropWhile is_digit s). num_char c"
    using assms by (auto dest: set_takeWhileD intro: digit_num_char)
  then show ?thesis by (metis set_append takeWhile_dropWhile_id)
qed

lemma frac_lit_num: "frac_lit r \<Longrightarrow> \<forall>c \<in> set r. num_char c"
proof (cases r)
  case (Cons c s)
  assume f: "frac_lit r"
  show ?thesis
  proof (cases "c = CHR ''.''")
    case True
    then have "dropWhile is_digit s = [] \<or> exp_lit (dropWhile is_digit s)"
      using f Cons by (simp add: frac_lit_def)
    then have "\<forall>c \<in> set (dropWhile is_digit s). num_char c" by (elim disjE) (simp_all add: exp_lit_num del: dropWhile_eq_Nil_conv)
    then have "\<forall>c \<in> set s. num_char c" by (rule span_num)
    with Cons True show ?thesis by (simp add: num_char_def)
  next
    case False
    then show ?thesis using f Cons exp_lit_num [of r] by (simp add: frac_lit_def)
  qed
qed (simp add: frac_lit_def)

lemma unsigned_num: "\<forall>c \<in> set (unsigned t). num_char c \<Longrightarrow> \<forall>c \<in> set t. num_char c"
  by (cases t) (auto simp: unsigned_def num_char_def split: if_splits)

lemma float_lit_num: "float_lit t \<Longrightarrow> \<forall>c \<in> set t. num_char c"
  by (rule unsigned_num, rule span_num, rule frac_lit_num) (simp add: float_lit_def Let_def)

lemma float_lit_not_int: "float_lit t \<Longrightarrow> \<not> int_lit t"
proof
  assume f: "float_lit t" and i: "int_lit t"
  from i have "list_all is_digit (unsigned t)" by (simp add: int_lit_def int_digits_def)
  then have "dropWhile is_digit (unsigned t) = []" by (simp add: list_all_iff)
  with f show False by (simp add: float_lit_def Let_def frac_lit_def)
qed

lemma parse_number_float: "float_lit t \<Longrightarrow> delim r \<Longrightarrow> parse_number (t @ r) = Some (JFloat t, r)"
  by (simp add: parse_number_def takeWhile_append dropWhile_append float_lit_num float_lit_not_int Let_def)

lemma takeWhile_hd: "takeWhile P s \<noteq> [] \<Longrightarrow> s \<noteq> [] \<and> P (hd s)"
  by (cases s) (auto split: if_splits)

definition num_head :: "string \<Rightarrow> bool" where
  "num_head t = (t \<noteq> [] \<and> (is_digit (hd t) \<or> (hd t = CHR ''-'' \<and> tl t \<noteq> [] \<and> is_digit (hd (tl t)))))"

lemma float_lit_head: "float_lit t \<Longrightarrow> num_head t"
proof -
  assume "float_lit t"
  then have "takeWhile is_digit (unsigned t) \<noteq> []" by (simp add: float_lit_def int_digits_def Let_def)
  then have "unsigned t \<noteq> [] \<and> is_digit (hd (unsigned t))" by (rule takeWhile_hd)
  then show ?thesis by (cases t) (auto simp: unsigned_def num_head_def split: if_splits)
qed

lemma int_str_head: "num_head (int_str i)"
  by (auto simp: int_str_def nat_str_hd_digit num_head_def)

lemma digit_not_word: "is_digit c \<Longrightarrow> c \<notin> set ''ntfNI-''"
  by (auto simp: is_digit_def)

lemma parse_word_number: "num_head t \<Longrightarrow> parse_word (t @ r) = parse_number (t @ r)"
proof -
  assume h: "num_head t"
  then obtain c u where t: "t = c # u" by (cases t) (auto simp: num_head_def)
  show ?thesis
  proof (cases "is_digit c")
    case True
    then show ?thesis using t digit_not_word [OF True] by (simp add: parse_word_def)
  next
    case False
    with h t obtain d w where "c = CHR ''-''" "u = d # w" "is_digit d"
      by (cases u) (auto simp: num_head_def)
    then show ?thesis using t digit_not_word [of d] by (simp add: parse_word_def)
  qed
qed

subsection \<open>Values\<close>

lemma dump_head:
  assumes "wf_json v"
  obtains c t where "dump f v = c # t" and "\<not> json_ws c" and "c \<noteq> CHR '']''" and "c \<noteq> CHR ''}''"
proof -
  have n: "\<not> json_ws c \<and> c \<noteq> CHR '']'' \<and> c \<noteq> CHR ''}''"
    if "is_digit c \<or> c \<in> set ''-NI''" for c
    using that by (auto simp: is_digit_def json_ws_def Let_def)
  have h: "\<exists>c u. t = c # u \<and> (is_digit c \<or> c \<in> set ''-NI'')" if "num_head t" for t
    using that by (cases t) (auto simp: num_head_def)
  have "\<exists>c u. dump f v = c # u \<and> \<not> json_ws c \<and> c \<noteq> CHR '']'' \<and> c \<noteq> CHR ''}''"
  proof (cases v)
    case (JInt i)
    then show ?thesis using h [OF int_str_head [of i]] n by auto
  next
    case (JFloat t)
    with assms have "float_lit t \<or> t \<in> {''NaN'', ''Infinity'', ''-Infinity''}"
      by (simp add: float_text_def)
    then have "\<exists>c u. t = c # u \<and> (is_digit c \<or> c \<in> set ''-NI'')"
      using h [OF float_lit_head] by auto
    then show ?thesis using JFloat n by auto
  qed (auto simp: json_ws_def quote_def)
  then show ?thesis using that by blast
qed

lemma skip_ws_dump [simp]: "wf_json v \<Longrightarrow> skip_ws (dump f v @ r) = dump f v @ r"
  by (rule dump_head [of v f]) auto

lemma skip_ws_space: "wf_fmt f \<Longrightarrow> skip_ws (f_space f @ r) = skip_ws r"
  by (simp add: wf_fmt_def dropWhile_append list_all_iff)

lemma json_ws_punct [simp]:
  "\<not> json_ws (CHR '','')" "\<not> json_ws (CHR '']'')" "\<not> json_ws (CHR ''}'')" "\<not> json_ws (CHR '':'')"
  "\<not> json_ws (CHR 0x22)"
  by (simp_all add: json_ws_def)

lemma delim_punct [simp]:
  "delim []" "delim (CHR '','' # r)" "delim (CHR '']'' # r)" "delim (CHR ''}'' # r)"
  by (simp_all add: delim_def num_char_def is_digit_def)

text \<open>A value is read back from its text, whatever follows, when the fuel covers the text.\<close>

definition reads :: "fmt \<Rightarrow> json \<Rightarrow> bool" where
  "reads f v = (\<forall>n r. length (dump f v) \<le> n \<longrightarrow> delim r \<longrightarrow> parse_value n (dump f v @ r) = Some (v, r))"

lemma readsD: "reads f v \<Longrightarrow> length (dump f v) \<le> n \<Longrightarrow> delim r \<Longrightarrow> parse_value n (dump f v @ r) = Some (v, r)"
  by (simp add: reads_def)

lemma parse_elems_dump:
  assumes "wf_fmt f" and "xs \<noteq> []" and "\<forall>x \<in> set xs. wf_json x \<and> reads f x"
    and "length (join (CHR '','' # f_space f) (map (dump f) xs)) < n"
  shows "parse_elems n (join (CHR '','' # f_space f) (map (dump f) xs) @ CHR '']'' # r) = Some (xs, r)"
  using assms
proof (induction xs arbitrary: n)
  case (Cons x xs)
  from Cons.prems obtain m where n: "n = Suc m" by (cases n) auto
  show ?case
  proof (cases xs)
    case Nil
    with Cons.prems n show ?thesis by (simp add: readsD)
  next
    case (Cons y ys)
    let ?rest = "join (CHR '','' # f_space f) (map (dump f) xs)"
    obtain t where t: "?rest = dump f y @ t"
      using Cons by (cases ys) auto
    have sk: "skip_ws (f_space f @ ?rest @ CHR '']'' # r) = ?rest @ CHR '']'' # r"
      using Cons Cons.prems t by (simp add: skip_ws_space)
    have "parse_elems m (?rest @ CHR '']'' # r) = Some (xs, r)"
      using Cons Cons.prems n by (intro Cons.IH) auto
    then show ?thesis using Cons Cons.prems n sk by (simp add: readsD)
  qed
qed simp

lemma parse_members_dump:
  assumes "wf_fmt f" and "kvs \<noteq> []" and "\<forall>kv \<in> set kvs. wf_json (snd kv) \<and> reads f (snd kv)"
    and "length (join (CHR '','' # f_space f)
      (map (\<lambda>kv. quote (f_ascii f) (fst kv) @ CHR '':'' # f_space f @ dump f (snd kv)) kvs)) < n"
  shows "parse_members n (join (CHR '','' # f_space f)
      (map (\<lambda>kv. quote (f_ascii f) (fst kv) @ CHR '':'' # f_space f @ dump f (snd kv)) kvs) @ CHR ''}'' # r)
    = Some (kvs, r)"
  using assms
proof (induction kvs arbitrary: n)
  case (Cons kv kvs)
  let ?m = "\<lambda>kv. quote (f_ascii f) (fst kv) @ CHR '':'' # f_space f @ dump f (snd kv)"
  obtain k v where kv: "kv = (k, v)" by (cases kv)
  from Cons.prems obtain m where n: "n = Suc m" by (cases n) auto
  show ?case
  proof (cases kvs)
    case Nil
    with Cons.prems n kv show ?thesis
      by (simp add: readsD quote_def parse_chars_quote skip_ws_space)
  next
    case (Cons y ys)
    let ?rest = "join (CHR '','' # f_space f) (map ?m kvs)"
    obtain t where t: "?rest = CHR 0x22 # t"
      using Cons by (cases ys) (auto simp: quote_def)
    have sk: "skip_ws (f_space f @ ?rest @ CHR ''}'' # r) = ?rest @ CHR ''}'' # r"
      using t Cons.prems by (simp add: skip_ws_space)
    have "parse_members m (?rest @ CHR ''}'' # r) = Some (kvs, r)"
      using Cons Cons.prems n by (intro Cons.IH) auto
    then show ?thesis using Cons Cons.prems n sk kv
      by (simp add: readsD quote_def parse_chars_quote skip_ws_space)
  qed
qed simp

lemma wf_json_JList: "wf_json (JList xs) = (\<forall>x \<in> set xs. wf_json x)"
  by (auto simp: list_all_iff)

lemma wf_json_JObj: "wf_json (JObj kvs) = (distinct (keys kvs) \<and> (\<forall>kv \<in> set kvs. wf_json (snd kv)))"
  by (auto simp: list_all_iff)

lemma dump_JObj: "dump f (JObj kvs) = CHR ''{'' # join (CHR '','' # f_space f)
    (map (\<lambda>kv. quote (f_ascii f) (fst kv) @ CHR '':'' # f_space f @ dump f (snd kv)) kvs) @ [CHR ''}'']"
  by (simp add: comp_def)

declare wf_json.simps (6, 7) [simp del] dump.simps (7) [simp del]
declare wf_json_JList [simp] wf_json_JObj [simp]

lemma reads_word:
  assumes "\<And>r. delim r \<Longrightarrow> parse_word (dump f v @ r) = Some (v, r)"
    and "dump f v = c # t" and "c \<notin> set [CHR 0x22, CHR ''['', CHR ''{'']"
  shows "reads f v"
  unfolding reads_def
proof (intro allI impI)
  fix n r
  assume n: "length (dump f v) \<le> n" and r: "delim r"
  with assms obtain m where "n = Suc m" by (cases n) auto
  with assms(1) [OF r] assms(2,3) show "parse_value n (dump f v @ r) = Some (v, r)" by auto
qed

lemma num_head_Cons: "num_head t \<Longrightarrow> \<exists>c u. t = c # u \<and> c \<notin> set [CHR 0x22, CHR ''['', CHR ''{'']"
  by (cases t) (auto simp: num_head_def is_digit_def)

lemma reads_float: "float_text t \<Longrightarrow> reads f (JFloat t)"
proof -
  assume a: "float_text t"
  obtain c u where "t = c # u" "c \<notin> set [CHR 0x22, CHR ''['', CHR ''{'']"
    using a num_head_Cons [OF float_lit_head [of t]] by (auto simp: float_text_def)
  moreover have "parse_word (t @ r) = Some (JFloat t, r)" if "delim r" for r
  proof (cases "float_lit t")
    case True
    then show ?thesis using that by (simp add: parse_word_number float_lit_head parse_number_float)
  next
    case False
    with a consider "t = ''NaN''" | "t = ''Infinity''" | "t = ''-Infinity''"
      by (auto simp: float_text_def)
    then show ?thesis by cases (simp_all add: parse_word_def)
  qed
  ultimately show ?thesis by (intro reads_word [where c = c and t = u]) simp_all
qed

lemma reads_int: "reads f (JInt i)"
proof -
  obtain c u where "int_str i = c # u" "c \<notin> set [CHR 0x22, CHR ''['', CHR ''{'']"
    using num_head_Cons [OF int_str_head] by blast
  moreover have "parse_word (int_str i @ r) = Some (JInt i, r)" if "delim r" for r
    using that by (simp add: parse_word_number int_str_head parse_number_int)
  ultimately show ?thesis by (auto intro!: reads_word)
qed

lemma reads_list:
  assumes "wf_fmt f" and "\<forall>x \<in> set xs. wf_json x \<and> reads f x"
  shows "reads f (JList xs)"
  unfolding reads_def
proof (intro allI impI)
  fix n r
  assume n: "length (dump f (JList xs)) \<le> n"
  then obtain m where m: "n = Suc m" by (cases n) auto
  show "parse_value n (dump f (JList xs) @ r) = Some (JList xs, r)"
  proof (cases xs)
    case Nil
    then show ?thesis using m by simp
  next
    case (Cons x ys)
    let ?b = "join (CHR '','' # f_space f) (map (dump f) xs)"
    have e: "parse_elems m (?b @ CHR '']'' # r) = Some (xs, r)"
      using Cons assms n m by (intro parse_elems_dump) auto
    obtain t where "?b = dump f x @ t" using Cons by (cases ys) auto
    moreover obtain c u where "dump f x = c # u" "\<not> json_ws c" "c \<noteq> CHR '']''"
      using Cons assms(2) by (auto intro: dump_head [of x f])
    ultimately have "skip_ws (?b @ CHR '']'' # r) = ?b @ CHR '']'' # r" "hd (?b @ CHR '']'' # r) \<noteq> CHR '']''"
      by auto
    with e m show ?thesis by simp
  qed
qed

lemma reads_obj:
  assumes "wf_fmt f" and "distinct (keys kvs)" and "\<forall>kv \<in> set kvs. wf_json (snd kv) \<and> reads f (snd kv)"
  shows "reads f (JObj kvs)"
  unfolding reads_def
proof (intro allI impI)
  fix n r
  assume n: "length (dump f (JObj kvs)) \<le> n"
  then obtain m where m: "n = Suc m" by (cases n) (auto simp: dump_JObj)
  show "parse_value n (dump f (JObj kvs) @ r) = Some (JObj kvs, r)"
  proof (cases kvs)
    case Nil
    then show ?thesis using m by (simp add: dump_JObj)
  next
    case (Cons kv ys)
    let ?b = "join (CHR '','' # f_space f)
      (map (\<lambda>kv. quote (f_ascii f) (fst kv) @ CHR '':'' # f_space f @ dump f (snd kv)) kvs)"
    have e: "parse_members m (?b @ CHR ''}'' # r) = Some (kvs, r)"
      using Cons assms n m by (intro parse_members_dump) (auto simp: dump_JObj)
    obtain t where "?b = CHR 0x22 # t" using Cons by (cases ys) (auto simp: quote_def)
    with e m assms(2) show ?thesis by (simp add: dump_JObj)
  qed
qed

lemma wf_reads: "wf_fmt f \<Longrightarrow> wf_json v \<Longrightarrow> reads f v"
proof (induction v)
  case (JBool b)
  show ?case by (intro reads_word [where c = "hd (dump f (JBool b))" and t = "tl (dump f (JBool b))"])
      (auto simp: parse_word_def)
next
  case (JStr s)
  show ?case unfolding reads_def
  proof (intro allI impI)
    fix n r
    assume "length (dump f (JStr s)) \<le> n"
    then obtain m where "n = Suc m" by (cases n) (auto simp: quote_def)
    then show "parse_value n (dump f (JStr s) @ r) = Some (JStr s, r)"
      by (simp add: quote_def parse_chars_quote)
  qed
next
  case (JObj kvs)
  then show ?case by (intro reads_obj) (auto simp: prod_set_simps)
qed (auto intro: reads_int reads_float reads_list reads_word [where c = "CHR ''n''" and t = "''ull''"] simp: parse_word_def)

lemma loads_dump: "wf_fmt f \<Longrightarrow> wf_json v \<Longrightarrow> loads (dump f v) = Some v"
proof -
  assume "wf_fmt f" "wf_json v"
  moreover from this have "skip_ws (dump f v) = dump f v" using skip_ws_dump [of v f "[]"] by simp
  ultimately show ?thesis
    using readsD [OF wf_reads, of f v "Suc (length (dump f v))" "[]"] by (simp add: loads_def)
qed

subsection \<open>Sorted keys\<close>

lemma sort_key_keys: "keys (sort_key fst kvs) = sort (keys kvs)"
  for kvs :: "('k::linorder \<times> 'v) list"
proof -
  have "keys (insort_key fst kv xs) = insort (fst kv) (keys xs)" for kv and xs :: "('k \<times> 'v) list"
    by (induction xs) auto
  then show ?thesis by (induction kvs) auto
qed

lemma keys_norm: "keys (sort_key fst (map (map_prod id norm) kvs)) = sort (keys kvs)"
  by (simp only: sort_key_keys) (simp add: comp_def)

lemma wf_norm [simp]: "wf_json (norm v) = wf_json v"
proof (induction v)
  case (JObj kvs)
  then show ?case by (auto simp: keys_norm prod_set_simps)
qed (auto simp: list_all_iff)

lemma map_sort_key:
  "map (map_prod id g) (sort_key fst kvs) = sort_key fst (map (map_prod id g) kvs)"
  for kvs :: "('k::linorder \<times> 'v) list"
proof -
  have "map (map_prod id g) (insort_key fst kv xs) = insort_key fst (map_prod id g kv) (map (map_prod id g) xs)"
    for kv and xs :: "('k \<times> 'v) list"
    by (induction xs) auto
  then show ?thesis by (induction kvs) auto
qed

lemma norm_norm [simp]: "norm (norm v) = norm v"
proof (induction v)
  case (JObj kvs)
  have "map (map_prod id norm) (map (map_prod id norm) kvs) = map (map_prod id norm) kvs"
    using JObj by (auto simp: prod_set_simps)
  moreover have "sort_key fst (sort_key fst xs) = sort_key fst xs" for xs :: "(string \<times> json) list"
    by (intro sort_key_id_if_sorted) simp
  ultimately show ?case by (simp only: norm.simps map_sort_key)
qed auto

lemma loads_dumps: "wf_fmt f \<Longrightarrow> wf_json v \<Longrightarrow> loads (dumps f v) = Some (norm v)"
  by (simp add: dumps_def loads_dump)

lemma dict_get_sort_key:
  "distinct (keys kvs) \<Longrightarrow> dict_get (sort_key fst kvs) k = dict_get kvs k"
  for kvs :: "('k::linorder \<times> 'v) list"
proof -
  have "dict_get (insort_key fst kv xs) k = dict_get (kv # xs) k"
    if "fst kv \<notin> set (keys xs)" for kv and xs :: "('k \<times> 'v) list"
    using that by (induction xs) auto
  then show "distinct (keys kvs) \<Longrightarrow> ?thesis"
    by (induction kvs) (auto simp: sort_key_keys image_iff)
qed

lemma parse_word_wf: "parse_word s = Some (v, r) \<Longrightarrow> wf_json v"
  by (auto simp: parse_word_def parse_number_def float_text_def Let_def split: if_splits)

lemma wf_dict_of_pairs: "\<forall>kv \<in> set kvs. wf_json (snd kv) \<Longrightarrow> wf_json (JObj (dict_of_pairs kvs))"
  using set_dict_update [of _ "[]" kvs] by (auto simp: dict_of_pairs_def distinct_dict_update)

text \<open>Whatever is read is well-formed.\<close>

lemma parse_wf:
  "parse_value n s = Some (v, r) \<Longrightarrow> wf_json v"
  "parse_elems n s = Some (vs, r) \<Longrightarrow> \<forall>v \<in> set vs. wf_json v"
  "parse_members n s = Some (kvs, r) \<Longrightarrow> \<forall>kv \<in> set kvs. wf_json (snd kv)"
proof (induction n arbitrary: s v r vs kvs)
  case (Suc n)
  { case 1
    then show ?case
      by (auto dest!: Suc.IH parse_word_wf wf_dict_of_pairs simp del: wf_json_JObj
          split: list.splits if_splits option.splits) (simp_all add: wf_json_JObj)
  next
    case 2
    then show ?case
      by (auto dest!: Suc.IH split: list.splits if_splits option.splits)
  next
    case 3
    then show ?case
      by (auto dest!: Suc.IH split: list.splits if_splits option.splits) fastforce
  }
qed simp_all

lemma loads_wf: "loads s = Some v \<Longrightarrow> wf_json v"
  by (auto simp del: parse_value.simps simp: loads_def dest: parse_wf(1) split: option.splits if_splits)

text \<open>The three formats of the sources, each a codec on well-formed values.\<close>

definition compact_utf8 :: fmt where
  "compact_utf8 = Fmt False []"

definition compact_ascii :: fmt where
  "compact_ascii = Fmt True []"

definition spaced_utf8 :: fmt where
  "spaced_utf8 = Fmt False '' ''"

lemma wf_fmts [simp]: "wf_fmt compact_utf8" "wf_fmt compact_ascii" "wf_fmt spaced_utf8"
  by (simp_all add: wf_fmt_def compact_utf8_def compact_ascii_def spaced_utf8_def json_ws_def)

interpretation compact: text_codec "dumps compact_utf8" loads norm wf_json
  by unfold_locales (simp add: loads_dumps)

interpretation ascii: text_codec "dumps compact_ascii" loads norm wf_json
  by unfold_locales (simp add: loads_dumps)

interpretation spaced: text_codec "dumps spaced_utf8" loads norm wf_json
  by unfold_locales (simp add: loads_dumps)

end
