(* ===== verification/Jsonl_File.thy ===== *)
theory Jsonl_File
  imports Aether_Json
begin

text \<open>
  \<open>utils/jsonio.py\<close>: JSON-lines files as text. \<open>append_jsonl\<close> writes one row and a newline,
  \<open>read_jsonl\<close> splits the whole text into lines with \<open>str.splitlines\<close>, skips the blank ones
  and raises on a line that is not JSON. The event journal, the hash-chained ledger and the
  failure fingerprints are such files; what they need of one is the interface \<open>append_log\<close>,
  proved here of the text implementation for rows whose strings hold no U+0085. (The rest
  of the line separators of \<open>splitlines\<close> below U+0100 are control characters, which \<open>json\<close>
  escapes.) The last section shows what happens for a row that does hold one.
\<close>

section \<open>Lines\<close>

definition line_break :: "char \<Rightarrow> bool" where
  "line_break c = (let n = (of_char c :: nat) in
     (10 \<le> n \<and> n \<le> 13) \<or> (28 \<le> n \<and> n \<le> 30) \<or> n = 133)"

fun lines_acc :: "string \<Rightarrow> string \<Rightarrow> string list" where
  "lines_acc acc [] = (if acc = [] then [] else [rev acc])"
| "lines_acc acc (c # s) =
     (if c = CHR 0x0D \<and> s \<noteq> [] \<and> hd s = CHR 0x0A then rev acc # lines_acc [] (tl s)
      else if line_break c then rev acc # lines_acc [] s
      else lines_acc (c # acc) s)"

definition splitlines :: "string \<Rightarrow> string list" where
  "splitlines s = lines_acc [] s"

section \<open>Files\<close>

text \<open>The content of a file, \<open>None\<close> when it does not exist.\<close>

type_synonym text_file = "string option"

datatype io_error = Invalid_Jsonl nat

definition append_jsonl :: "text_file \<Rightarrow> json \<Rightarrow> text_file" where
  "append_jsonl f row =
     Some ((case f of None \<Rightarrow> [] | Some s \<Rightarrow> s) @ dumps spaced_utf8 row @ [CHR 0x0A])"

fun read_lines :: "nat \<Rightarrow> string list \<Rightarrow> io_error + json list" where
  "read_lines n [] = Inr []"
| "read_lines n (line # lines) =
     (let stripped = strip line in
      if stripped = [] then read_lines (Suc n) lines
      else (case loads stripped of
              None \<Rightarrow> Inl (Invalid_Jsonl n)
            | Some row \<Rightarrow> bindE (read_lines (Suc n) lines) (\<lambda>rows. Inr (row # rows))))"

definition read_jsonl :: "text_file \<Rightarrow> io_error + json list" where
  "read_jsonl f = (case f of None \<Rightarrow> Inr [] | Some s \<Rightarrow> read_lines 1 (splitlines s))"

section \<open>The interface of an append-only log\<close>

locale append_log =
  fixes append_row :: "'f \<Rightarrow> 'r \<Rightarrow> 'f"
    and read_rows :: "'f \<Rightarrow> 'e + 'r list"
    and canon :: "'r \<Rightarrow> 'r"
    and ok :: "'r \<Rightarrow> bool"
    and wf :: "'f \<Rightarrow> bool"
  assumes read_append: "wf f \<Longrightarrow> ok r \<Longrightarrow> read_rows f = Inr rs \<Longrightarrow>
      read_rows (append_row f r) = Inr (rs @ [canon r])"
    and wf_append: "wf f \<Longrightarrow> ok r \<Longrightarrow> wf (append_row f r)"
begin

lemma read_append_all:
  "wf f \<Longrightarrow> list_all ok rows \<Longrightarrow> read_rows f = Inr rs \<Longrightarrow>
    read_rows (foldl append_row f rows) = Inr (rs @ map canon rows) \<and> wf (foldl append_row f rows)"
proof (induction rows arbitrary: f rs)
  case (Cons r rows)
  then have "read_rows (append_row f r) = Inr (rs @ [canon r])" and "wf (append_row f r)"
    by (simp_all add: read_append wf_append)
  with Cons.IH Cons.prems show ?case by simp
qed simp

end

section \<open>The text file is such a log\<close>

text \<open>A file that only \<open>append_jsonl\<close> writes is missing, empty, or ends with a newline.\<close>

definition wf_file :: "text_file \<Rightarrow> bool" where
  "wf_file f = (case f of None \<Rightarrow> True | Some s \<Rightarrow> s = [] \<or> last s = CHR 0x0A)"

primrec no_nel :: "json \<Rightarrow> bool" where
  "no_nel JNull = True"
| "no_nel (JBool b) = True"
| "no_nel (JInt i) = True"
| "no_nel (JFloat t) = True"
| "no_nel (JStr s) = (CHR 0x85 \<notin> set s)"
| "no_nel (JList xs) = list_all id (map no_nel xs)"
| "no_nel (JObj kvs) = (list_all (\<lambda>k. CHR 0x85 \<notin> set k) (keys kvs) \<and>
     list_all snd (map (map_prod id no_nel) kvs))"

definition ok_row :: "json \<Rightarrow> bool" where
  "ok_row row = (wf_json row \<and> no_nel row \<and> (\<exists>kvs. row = JObj kvs))"

lemma lines_acc_newline:
  "lines_acc acc (f @ CHR 0x0A # s) = lines_acc acc (f @ [CHR 0x0A]) @ lines_acc [] s"
proof (induction acc f rule: lines_acc.induct)
  case (1 acc)
  then show ?case by (simp add: line_break_def)
next
  case (2 acc c f)
  show ?case
  proof (cases "c = CHR 0x0D \<and> f @ [CHR 0x0A] \<noteq> [] \<and> hd (f @ [CHR 0x0A]) = CHR 0x0A")
    case True
    then show ?thesis using 2 by (cases f) auto
  next
    case False
    then show ?thesis using 2 by (cases f) auto
  qed
qed

lemma lines_acc_one:
  "\<forall>c \<in> set t. \<not> line_break c \<Longrightarrow> lines_acc acc (t @ [CHR 0x0A]) = [rev acc @ t]"
proof (induction t arbitrary: acc)
  case (Cons c t)
  then have "c \<noteq> CHR 0x0D" by (auto simp: line_break_def)
  with Cons show ?case by simp
qed (simp add: line_break_def)

lemma splitlines_append:
  assumes "s = [] \<or> last s = CHR 0x0A" and "\<forall>c \<in> set t. \<not> line_break c"
  shows "splitlines (s @ t @ [CHR 0x0A]) = splitlines s @ [t]"
proof (cases "s = []")
  case True
  then show ?thesis using lines_acc_one [OF assms(2), of "[]"] by (simp add: splitlines_def)
next
  case False
  with assms(1) obtain u where "s = u @ [CHR 0x0A]" by (metis append_butlast_last_id)
  then show ?thesis
    using lines_acc_newline [of "[]" u "t @ [CHR 0x0A]"] lines_acc_one [OF assms(2), of "[]"]
    by (simp add: splitlines_def)
qed

lemma read_lines_append:
  "read_lines n (xs @ ys) =
     bindE (read_lines n xs) (\<lambda>rs. bindE (read_lines (n + length xs) ys) (\<lambda>ss. Inr (rs @ ss)))"
proof (induction xs arbitrary: n)
  case Nil
  then show ?case by (cases "read_lines n ys") simp_all
next
  case (Cons x xs)
  then show ?case
    by (cases "read_lines (Suc n) xs"; cases "read_lines (Suc (n + length xs)) ys")
      (auto simp: Let_def split: option.splits)
qed

lemma no_nel_JList: "no_nel (JList xs) = (\<forall>x \<in> set xs. no_nel x)"
  by (auto simp: list_all_iff)

lemma no_nel_JObj:
  "no_nel (JObj kvs) = (\<forall>kv \<in> set kvs. CHR 0x85 \<notin> set (fst kv) \<and> no_nel (snd kv))"
  by (auto simp: list_all_iff)

declare no_nel.simps (6, 7) [simp del]
declare no_nel_JList [simp] no_nel_JObj [simp]

lemma no_nel_norm [simp]: "no_nel (norm v) = no_nel v"
proof (induction v)
  case (JObj kvs)
  then show ?case by (fastforce simp: prod_set_simps)
qed auto

lemma num_char_no_break: "num_char c \<Longrightarrow> \<not> line_break c"
  by (auto simp: num_char_def is_digit_def line_break_def Let_def)

lemma hex_char_no_break: "n < 16 \<Longrightarrow> \<not> line_break (hex_char n)"
  by (auto simp: hex_char_def digit_char_def line_break_def Let_def)

lemma esc_char_no_break:
  assumes "c \<noteq> CHR 0x85"
  shows "\<forall>d \<in> set (esc_char asc c). \<not> line_break d"
proof -
  let ?n = "of_char c :: nat"
  have "?n \<noteq> 133" using assms of_char_eq_iff [of c "CHR 0x85"] by simp
  then have "\<not> line_break c" if "\<not> ?n < 32"
    using that by (simp add: line_break_def Let_def)
  moreover have "\<not> line_break (hex_char (?n div 16))" "\<not> line_break (hex_char (?n mod 16))"
    by (rule hex_char_no_break, use of_char_lt [of c] in linarith)
      (rule hex_char_no_break, simp)
  moreover have "\<forall>d \<in> set [CHR 0x5C, CHR 0x22, CHR ''n'', CHR ''r'', CHR ''t'', CHR ''f'', CHR ''b'',
      CHR ''u'', CHR ''0'']. \<not> line_break d"
    by (simp add: line_break_def)
  ultimately show ?thesis by (auto simp: esc_char_def Let_def)
qed

lemma quote_breaks: "d \<in> set (quote asc s) \<Longrightarrow> line_break d \<Longrightarrow> d = CHR 0x85 \<and> CHR 0x85 \<in> set s"
proof -
  assume d: "d \<in> set (quote asc s)" "line_break d"
  then obtain c where c: "c \<in> set s" "d \<in> set (esc_char asc c)" by (auto simp: quote_def line_break_def)
  with d(2) have e: "c = CHR 0x85" using esc_char_no_break by blast
  with c(2) d(2) have "d = CHR 0x85"
    by (cases asc) (simp_all add: esc_char_def hex_char_def digit_char_def line_break_def, auto)
  with c(1) e show ?thesis by simp
qed

lemma join_set: "d \<in> set (join sep xs) \<Longrightarrow> d \<in> set sep \<or> (\<exists>x \<in> set xs. d \<in> set x)"
  by (induction sep xs rule: join.induct) auto

lemma set_join: "x \<in> set xs \<Longrightarrow> d \<in> set x \<Longrightarrow> d \<in> set (join sep xs)"
  by (induction sep xs rule: join.induct) auto

lemma join_no_break:
  "\<forall>d \<in> set sep. \<not> line_break d \<Longrightarrow> \<forall>x \<in> set xs. \<forall>d \<in> set x. \<not> line_break d \<Longrightarrow>
    \<forall>d \<in> set (join sep xs). \<not> line_break d"
  using join_set by fastforce

text \<open>The only line break of a written text is U+0085, when a string of the value holds it.\<close>

lemma dump_breaks:
  "wf_json v \<Longrightarrow> d \<in> set (dump spaced_utf8 v) \<Longrightarrow> line_break d \<Longrightarrow> d = CHR 0x85 \<and> \<not> no_nel v"
proof (induction v arbitrary: d)
  case (JInt i)
  then show ?case using int_str_lit(3) num_char_no_break by auto
next
  case (JFloat t)
  then have "float_lit t \<or> t \<in> {''NaN'', ''Infinity'', ''-Infinity''}" by (simp add: float_text_def)
  with JFloat show ?case using float_lit_num [of t] num_char_no_break by (auto simp: line_break_def)
next
  case (JStr s)
  then show ?case using quote_breaks [of d False s] by (simp add: spaced_utf8_def)
next
  case (JList xs)
  then have "d \<in> set (join '', '' (map (dump spaced_utf8) xs))" by (auto simp: spaced_utf8_def line_break_def)
  then obtain x where "x \<in> set xs" "d \<in> set (dump spaced_utf8 x)" using JList.prems(3) by (auto simp: line_break_def dest!: join_set)
  with JList show ?case by auto
next
  case (JObj kvs)
  let ?m = "\<lambda>kv. quote False (fst kv) @ CHR '':'' # '' '' @ dump spaced_utf8 (snd kv)"
  have "d \<in> set (join '', '' (map ?m kvs))" using JObj.prems(2,3) by (auto simp: dump_JObj spaced_utf8_def line_break_def)
  then obtain kv where kv: "kv \<in> set kvs" "d \<in> set (quote False (fst kv)) \<or> d \<in> set (dump spaced_utf8 (snd kv))"
    using JObj.prems(3) by (auto simp: line_break_def dest!: join_set)
  show ?case
    using kv(2)
  proof
    assume "d \<in> set (quote False (fst kv))"
    with quote_breaks [OF this JObj.prems(3)] kv(1) show ?thesis by auto
  next
    assume "d \<in> set (dump spaced_utf8 (snd kv))"
    with JObj.IH [of kv "snd kv" d] JObj.prems kv(1) show ?thesis by (auto simp: snds.simps)
  qed
qed (auto simp: line_break_def split: if_splits)

lemma quote_nel: "CHR 0x85 \<in> set s \<Longrightarrow> CHR 0x85 \<in> set (quote False s)"
proof -
  have "esc_char False (CHR 0x85) = [CHR 0x85]" by (simp add: esc_char_def)
  then show "CHR 0x85 \<in> set s \<Longrightarrow> CHR 0x85 \<in> set (quote False s)" unfolding quote_def by (auto intro!: bexI [of _ "CHR 0x85"])
qed

lemma nel_dumped: "\<not> no_nel v \<Longrightarrow> CHR 0x85 \<in> set (dump spaced_utf8 v)"
proof (induction v)
  case (JStr s)
  then show ?case by (simp add: quote_nel spaced_utf8_def)
next
  case (JList xs)
  then obtain x where x: "x \<in> set xs" "CHR 0x85 \<in> set (dump spaced_utf8 x)" by auto
  then have "CHR 0x85 \<in> set (join '', '' (map (dump spaced_utf8) xs))" by (intro set_join [of "dump spaced_utf8 x"]) auto
  then show ?case by (simp add: spaced_utf8_def)
next
  case (JObj kvs)
  let ?m = "\<lambda>kv. quote False (fst kv) @ CHR '':'' # '' '' @ dump spaced_utf8 (snd kv)"
  obtain kv where kv: "kv \<in> set kvs" "CHR 0x85 \<in> set (fst kv) \<or> \<not> no_nel (snd kv)" using JObj.prems by auto
  then have "CHR 0x85 \<in> set (?m kv)" using quote_nel JObj.IH [of kv "snd kv"] by (auto simp: snds.simps)
  with kv(1) have "CHR 0x85 \<in> set (join '', '' (map ?m kvs))" by (intro set_join [of "?m kv"]) auto
  then show ?case by (simp add: dump_JObj spaced_utf8_def)
qed auto

lemma dump_no_break:
  "wf_json v \<Longrightarrow> no_nel v \<Longrightarrow> \<forall>d \<in> set (dump spaced_utf8 v). \<not> line_break d"
  using dump_breaks by blast

lemma strip_object: "strip (CHR ''{'' # s @ [CHR ''}'']) = CHR ''{'' # s @ [CHR ''}'']"
  by (simp add: strip_def py_space_def)

lemma strip_dumps: "ok_row row \<Longrightarrow> strip (dumps spaced_utf8 row) = dumps spaced_utf8 row"
  by (auto simp: ok_row_def dumps_def dump_JObj strip_object)

lemma dumps_nonempty: "ok_row row \<Longrightarrow> dumps spaced_utf8 row \<noteq> []"
  by (auto simp: ok_row_def dumps_def dump_JObj)

lemma read_append_jsonl:
  assumes "wf_file f" and "ok_row row" and "read_jsonl f = Inr rows"
  shows "read_jsonl (append_jsonl f row) = Inr (rows @ [norm row])"
proof -
  let ?s = "case f of None \<Rightarrow> [] | Some s \<Rightarrow> s"
  let ?t = "dumps spaced_utf8 row"
  have "\<forall>c \<in> set ?t. \<not> line_break c"
    using assms(2) dump_no_break [of "norm row"] by (simp add: ok_row_def dumps_def)
  moreover have "?s = [] \<or> last ?s = CHR 0x0A"
    using assms(1) by (cases f) (simp_all add: wf_file_def)
  ultimately have sp: "splitlines (?s @ ?t @ [CHR 0x0A]) = splitlines ?s @ [?t]"
    by (rule splitlines_append [rotated])
  have "read_lines 1 (splitlines ?s) = Inr rows"
    using assms(3) by (cases f) (simp_all add: read_jsonl_def splitlines_def)
  moreover have "loads ?t = Some (norm row)"
    using assms(2) by (simp add: ok_row_def spaced.dec_enc)
  ultimately show ?thesis
    using assms(2) sp
    by (simp add: read_jsonl_def append_jsonl_def read_lines_append strip_dumps dumps_nonempty Let_def)
qed

lemma wf_append_jsonl: "wf_file (append_jsonl f row)"
  by (simp add: wf_file_def append_jsonl_def)

lemma read_lines_wf: "read_lines n ls = Inr rows \<Longrightarrow> \<forall>r \<in> set rows. wf_json r"
proof (induction n ls arbitrary: rows rule: read_lines.induct)
  case (2 n line ls)
  then show ?case
    by (auto simp: Let_def bindE_Inr_conv dest: loads_wf split: if_splits option.splits)
qed simp

lemma read_jsonl_wf: "read_jsonl f = Inr rows \<Longrightarrow> \<forall>r \<in> set rows. wf_json r"
  by (auto simp: read_jsonl_def dest!: read_lines_wf split: option.splits)

interpretation jsonl: append_log append_jsonl read_jsonl norm ok_row wf_file
  by unfold_locales (simp_all add: read_append_jsonl wf_append_jsonl)

section \<open>A row that holds U+0085\<close>

lemma lines_acc_break:
  "\<forall>c \<in> set t. \<not> line_break c \<Longrightarrow> lines_acc acc (t @ CHR 0x85 # s) = (rev acc @ t) # lines_acc [] s"
proof (induction t arbitrary: acc)
  case (Cons c t)
  then have "c \<noteq> CHR 0x0D" by (auto simp: line_break_def)
  with Cons show ?case by simp
qed (simp add: line_break_def)

lemma splitlines_newline:
  assumes "s = [] \<or> last s = CHR 0x0A"
  shows "splitlines (s @ t) = splitlines s @ splitlines t"
proof (cases "s = []")
  case False
  with assms obtain u where "s = u @ [CHR 0x0A]" by (metis append_butlast_last_id)
  then show ?thesis using lines_acc_newline [of "[]" u t] by (simp add: splitlines_def)
qed (simp add: splitlines_def)

datatype text_position = Outside | Inside | Escaped

text \<open>Where in a JSON text a reader is after some of it: outside of strings, inside one, after a backslash.\<close>

fun text_scan :: "text_position \<Rightarrow> string \<Rightarrow> text_position" where
  "text_scan p [] = p"
| "text_scan Outside (c # s) = text_scan (if c = CHR 0x22 then Inside else Outside) s"
| "text_scan Inside (c # s) = text_scan (if c = CHR 0x22 then Outside else if c = CHR 0x5C then Escaped else Inside) s"
| "text_scan Escaped (c # s) = text_scan Inside s"

lemma scan_append: "text_scan p (s @ t) = text_scan (text_scan p s) t"
  by (induction p s rule: text_scan.induct) simp_all

lemma scan_outside: "CHR 0x22 \<notin> set s \<Longrightarrow> text_scan Outside s = Outside"
  by (induction s) auto

lemma scan_plain: "CHR 0x22 \<notin> set s \<Longrightarrow> text_scan Outside (s @ r) = text_scan Outside r"
  by (simp add: scan_append scan_outside)

lemma hex4_plain:
  assumes "hex4 w x y z = Some n"
  shows "w \<noteq> CHR 0x22" "w \<noteq> CHR 0x5C" "x \<noteq> CHR 0x22" "x \<noteq> CHR 0x5C" "y \<noteq> CHR 0x22" "y \<noteq> CHR 0x5C" "z \<noteq> CHR 0x22" "z \<noteq> CHR 0x5C"
proof -
  have "c \<noteq> CHR 0x22 \<and> c \<noteq> CHR 0x5C" if "hex_val c = Some m" for c m
    using that by (auto simp: hex_val_def is_digit_def Let_def split: if_splits)
  note plain = this
  obtain a b c d where h: "hex_val w = Some a" "hex_val x = Some b" "hex_val y = Some c" "hex_val z = Some d"
    using assms by (auto simp: hex4_def split: option.splits)
  show "w \<noteq> CHR 0x22" "w \<noteq> CHR 0x5C" "x \<noteq> CHR 0x22" "x \<noteq> CHR 0x5C" "y \<noteq> CHR 0x22" "y \<noteq> CHR 0x5C" "z \<noteq> CHR 0x22" "z \<noteq> CHR 0x5C"
    using plain [OF h(1)] plain [OF h(2)] plain [OF h(3)] plain [OF h(4)] by simp_all
qed

lemma parse_chars_scan: "parse_chars s = Some (t, r) \<Longrightarrow> text_scan Inside s = text_scan Outside r"
proof (induction s arbitrary: t rule: parse_chars.induct)
  case (2 c s)
  consider (close) "c = CHR 0x22" | (escape) "c = CHR 0x5C" | (plain) "c \<noteq> CHR 0x22" "c \<noteq> CHR 0x5C" by blast
  then show ?case
  proof cases
    case close
    then show ?thesis using 2 by simp
  next
    case escape
    with 2 obtain e s' where s: "s = e # s'" by (auto split: list.splits)
    show ?thesis
    proof (cases "e = CHR ''u''")
      case True
      with 2 escape s obtain w x y z s'' n where u: "s' = w # x # y # z # s''" "hex4 w x y z = Some n" "n < 256"
        by (auto split: list.splits option.splits if_splits)
      with 2 escape s True obtain t' where "parse_chars s'' = Some (t', r)" by (auto simp: cons_char_def)
      then have "text_scan Inside s'' = text_scan Outside r" using 2(1) [OF _ escape s True u(1) refl refl refl u(2,3)] escape by simp
      then show ?thesis using escape s True u(1) hex4_plain [OF u(2)] by simp
    next
      case False
      with 2 escape s obtain d where d: "unescape e = Some d" by (auto split: option.splits)
      with 2 escape s False obtain t' where "parse_chars s' = Some (t', r)" by (auto simp: cons_char_def)
      then show ?thesis using 2(2) [OF _ escape s False d] escape s by simp
    qed
  next
    case plain
    with 2 obtain t' where "parse_chars s = Some (t', r)" "\<not> (of_char c :: nat) < 32" by (auto simp: cons_char_def split: if_splits)
    then show ?thesis using 2(3) plain by simp
  qed
qed simp

lemma starts_with_drop: "starts_with w s \<Longrightarrow> s = w @ drop (length w) s"
  by (induction w s rule: starts_with.induct) auto

lemma skip_ws_scan: "text_scan Outside (skip_ws s) = text_scan Outside s"
proof -
  have "CHR 0x22 \<notin> set (takeWhile json_ws s)" by (auto simp: json_ws_def dest: set_takeWhileD)
  from scan_plain [OF this, of "skip_ws s"] show ?thesis by simp
qed

lemma parse_word_scan:
  assumes "parse_word s = Some (v, r)"
  shows "text_scan Outside s = text_scan Outside r"
proof -
  have w: "text_scan Outside (drop n s) = text_scan Outside s" if "starts_with w s" "CHR 0x22 \<notin> set w" "length w = n" for w n
    using scan_plain [OF that(2), of "drop (length w) s"] starts_with_drop [OF that(1)] that(3) by simp
  have "CHR 0x22 \<notin> set (takeWhile num_char s)" by (auto simp: num_char_def is_digit_def Let_def dest: set_takeWhileD)
  from scan_plain [OF this, of "dropWhile num_char s"] have "text_scan Outside (dropWhile num_char s) = text_scan Outside s" by simp
  then show ?thesis
    using assms by (auto simp: parse_word_def parse_number_def Let_def split: if_splits intro!: w [symmetric])
qed

lemma scan_tl: "s \<noteq> [] \<Longrightarrow> hd s \<noteq> CHR 0x22 \<Longrightarrow> text_scan Outside s = text_scan Outside (tl s)"
  by (cases s) auto

lemma skip_ws_Cons: "skip_ws s = c # t \<Longrightarrow> c \<noteq> CHR 0x22 \<Longrightarrow> text_scan Outside s = text_scan Outside t"
  using skip_ws_scan [of s] by simp

lemma parse_scan:
  "parse_value n s = Some (v, r) \<Longrightarrow> text_scan Outside s = text_scan Outside r"
  "parse_elems n s = Some (vs, r) \<Longrightarrow> text_scan Outside s = text_scan Outside r"
  "parse_members n s = Some (kvs, r) \<Longrightarrow> text_scan Outside s = text_scan Outside r"
proof (induction n arbitrary: s v r vs kvs)
  case (Suc n)
  have b: "text_scan Outside t = text_scan Outside (tl (skip_ws t))" if "skip_ws t \<noteq> []" "hd (skip_ws t) \<noteq> CHR 0x22" for t
    using that scan_tl [of "skip_ws t"] skip_ws_scan [of t] by simp
  { case 1
    then show ?case
      using b by (auto dest!: Suc.IH parse_word_scan parse_chars_scan simp: skip_ws_scan
          split: list.splits if_splits option.splits)
  next
    case 2
    then obtain v1 r1 where v1: "parse_value n s = Some (v1, r1)" by (auto split: option.splits)
    with 2 obtain c r' where c: "skip_ws r1 = c # r'" by (auto split: list.splits)
    have "c \<noteq> CHR 0x22" using 2 v1 c by (auto split: if_splits)
    with Suc.IH(1) [OF v1] skip_ws_Cons [OF c] have "text_scan Outside s = text_scan Outside r'" by simp
    with 2 v1 c show ?case by (auto dest!: Suc.IH simp: skip_ws_scan split: if_splits option.splits)
  next
    case 3
    then obtain s0 where s: "s = CHR 0x22 # s0" by (auto split: list.splits if_splits)
    with 3 obtain k r0 where k: "parse_chars s0 = Some (k, r0)" by (auto split: option.splits)
    with 3 s obtain r1 where r1: "skip_ws r0 = CHR '':'' # r1" by (auto split: list.splits if_splits)
    with 3 s k obtain v1 r2 where v1: "parse_value n (skip_ws r1) = Some (v1, r2)" by (auto split: option.splits)
    with 3 s k r1 obtain c r' where c: "skip_ws r2 = c # r'" by (auto split: list.splits)
    have "c \<noteq> CHR 0x22" using 3 s k r1 v1 c by (auto split: if_splits)
    then have "text_scan Outside s = text_scan Outside r'"
      using s parse_chars_scan [OF k] skip_ws_Cons [OF r1] Suc.IH(1) [OF v1] skip_ws_scan [of r1] skip_ws_Cons [OF c] by simp
    with 3 s k r1 v1 c show ?case by (auto dest!: Suc.IH simp: skip_ws_scan split: if_splits option.splits)
  }
qed simp_all

text \<open>A text that can be read does not end inside a string.\<close>

lemma loads_scan:
  assumes "loads s = Some v"
  shows "text_scan Outside s = Outside"
proof -
  obtain r where r: "parse_value (Suc (length s)) (skip_ws s) = Some (v, r)" "skip_ws r = []"
    using assms by (auto simp: loads_def simp del: parse_value.simps split: option.splits if_splits)
  from parse_scan(1) [OF r(1)] skip_ws_scan [of s] skip_ws_scan [of r] r(2) show ?thesis by simp
qed

text \<open>In a text that is written, the character stands inside strings only.\<close>

fun nel_inside :: "text_position \<Rightarrow> string \<Rightarrow> bool" where
  "nel_inside p [] = True"
| "nel_inside p (c # s) = ((c = CHR 0x85 \<longrightarrow> p = Inside) \<and> nel_inside (text_scan p [c]) s)"

lemma scan_Cons: "text_scan p (c # s) = text_scan (text_scan p [c]) s"
  using scan_append [of p "[c]" s] by simp

lemma nel_inside_append: "nel_inside p (s @ t) = (nel_inside p s \<and> nel_inside (text_scan p s) t)"
proof (induction s arbitrary: p)
  case (Cons c s)
  show ?case using Cons.IH [of "text_scan p [c]"] scan_Cons [of p c s] by simp
qed simp

definition string_closed :: "string \<Rightarrow> bool" where
  "string_closed s = (text_scan Outside s = Outside \<and> nel_inside Outside s)"

lemma string_closed_append [intro]: "string_closed s \<Longrightarrow> string_closed t \<Longrightarrow> string_closed (s @ t)"
  by (simp add: string_closed_def scan_append nel_inside_append)

lemma string_closed_plain: "CHR 0x22 \<notin> set s \<Longrightarrow> CHR 0x85 \<notin> set s \<Longrightarrow> string_closed s"
proof -
  have "CHR 0x85 \<notin> set s \<Longrightarrow> nel_inside p s" for p by (induction s arbitrary: p) auto
  then show "CHR 0x22 \<notin> set s \<Longrightarrow> CHR 0x85 \<notin> set s \<Longrightarrow> string_closed s" by (simp add: string_closed_def scan_outside)
qed

lemma hex_char_plain: "n < 16 \<Longrightarrow> hex_char n \<notin> {CHR 0x22, CHR 0x5C, CHR 0x85}"
  using hex_val_hex_char [of n] by (auto simp: hex_val_def is_digit_def)

lemma esc_char_inside: "text_scan Inside (esc_char asc c) = Inside \<and> nel_inside Inside (esc_char asc c)"
proof -
  let ?n = "of_char c :: nat"
  have "hex_char (?n div 16) \<notin> {CHR 0x22, CHR 0x5C, CHR 0x85}" "hex_char (?n mod 16) \<notin> {CHR 0x22, CHR 0x5C, CHR 0x85}"
    using of_char_lt [of c] by (intro hex_char_plain; linarith)+
  moreover have "?n = 34 \<longleftrightarrow> c = CHR 0x22" "?n = 92 \<longleftrightarrow> c = CHR 0x5C"
    using of_char_eq_iff [of c "CHR 0x22"] of_char_eq_iff [of c "CHR 0x5C"] by simp_all
  ultimately show ?thesis by (auto simp: esc_char_def Let_def)
qed

lemma string_closed_quote: "string_closed (quote asc s)"
proof -
  have "text_scan Inside (concat (map (esc_char asc) s)) = Inside \<and> nel_inside Inside (concat (map (esc_char asc) s))"
    by (induction s) (auto simp: scan_append nel_inside_append esc_char_inside)
  then show ?thesis by (simp add: string_closed_def quote_def scan_append nel_inside_append)
qed

lemma string_closed_join: "string_closed sep \<Longrightarrow> \<forall>x \<in> set xs. string_closed x \<Longrightarrow> string_closed (join sep xs)"
  by (induction sep xs rule: join.induct) (auto simp: string_closed_plain)

lemma string_closed_dump: "wf_json v \<Longrightarrow> string_closed (dump spaced_utf8 v)"
proof (induction v)
  case (JInt i)
  have "c \<noteq> CHR 0x22 \<and> c \<noteq> CHR 0x85" if "num_char c" for c using that by (auto simp: num_char_def is_digit_def Let_def)
  then show ?case using int_str_lit(3) by (intro string_closed_plain) auto
next
  case (JFloat t)
  have "c \<noteq> CHR 0x22 \<and> c \<noteq> CHR 0x85" if "num_char c" for c using that by (auto simp: num_char_def is_digit_def Let_def)
  moreover have "float_lit t \<or> t \<in> {''NaN'', ''Infinity'', ''-Infinity''}" using JFloat by (simp add: float_text_def)
  ultimately show ?case using float_lit_num [of t] by (intro string_closed_plain) auto
next
  case (JStr s)
  then show ?case by (simp add: string_closed_quote)
next
  case (JList xs)
  then have "string_closed (join '', '' (map (dump spaced_utf8) xs))" by (intro string_closed_join) (auto intro: string_closed_plain)
  then have "string_closed (''['' @ join '', '' (map (dump spaced_utf8) xs) @ '']'')" by (intro string_closed_append) (auto intro: string_closed_plain)
  then show ?case by (simp add: spaced_utf8_def)
next
  case (JObj kvs)
  let ?m = "\<lambda>kv. quote False (fst kv) @ '': '' @ dump spaced_utf8 (snd kv)"
  have "string_closed (?m kv)" if "kv \<in> set kvs" for kv
    using JObj.IH [of kv "snd kv"] JObj.prems that by (intro string_closed_append string_closed_quote) (auto simp: snds.simps intro: string_closed_plain)
  then have "string_closed (join '', '' (map ?m kvs))" by (intro string_closed_join) (auto intro: string_closed_plain)
  then have "string_closed (''{'' @ join '', '' (map ?m kvs) @ ''}'')" by (intro string_closed_append) (auto intro: string_closed_plain)
  then show ?case by (simp add: dump_JObj spaced_utf8_def)
qed (auto intro!: string_closed_plain)

lemma before_nel: "string_closed (u @ CHR 0x85 # w) \<Longrightarrow> text_scan Outside u = Inside"
  by (simp add: string_closed_def nel_inside_append)

lemma file_text: "wf_file f \<Longrightarrow> \<exists>s. (s = [] \<or> last s = CHR 0x0A) \<and>
    read_jsonl f = read_lines 1 (splitlines s) \<and>
    (\<forall>row. append_jsonl f row = Some (s @ dumps spaced_utf8 row @ [CHR 0x0A]))"
  by (cases f) (auto simp: wf_file_def read_jsonl_def append_jsonl_def splitlines_def)

text \<open>A line cut at the character is not JSON, however it is stripped.\<close>

lemma cut_line:
  assumes "wf_json row" "row = JObj kvs" "dumps spaced_utf8 row = u @ CHR 0x85 # w" "CHR 0x85 \<notin> set u"
  shows "strip u \<noteq> []" "loads (strip u) = None"
proof -
  have "string_closed (u @ CHR 0x85 # w)" using string_closed_dump [of "norm row"] assms(1,3) by (simp add: dumps_def)
  then have inside: "text_scan Outside u = Inside" by (rule before_nel)
  have "\<exists>t. dumps spaced_utf8 row = CHR ''{'' # t" by (simp add: assms(2) dumps_def dump_JObj)
  then obtain u' where u': "u = CHR ''{'' # u'" using assms(3) by (cases u) auto
  let ?sp = "rev (takeWhile py_space (rev u))"
  have s: "strip u = rev (dropWhile py_space (rev u))" by (simp add: strip_def u' py_space_def)
  have u: "u = strip u @ ?sp" unfolding s by (metis rev_append rev_rev_ident takeWhile_dropWhile_id)
  have "CHR ''{'' \<in> set u" "\<not> py_space (CHR ''{'')" by (simp_all add: u' py_space_def)
  then show "strip u \<noteq> []" unfolding s by (auto simp: dropWhile_eq_Nil_conv)
  have "CHR 0x22 \<notin> set ?sp" by (auto simp: py_space_def dest: set_takeWhileD)
  then have "text_scan Outside (strip u) \<noteq> Outside" using inside scan_outside [of ?sp] scan_append [of Outside "strip u" ?sp] u by auto
  then show "loads (strip u) = None" using loads_scan by (cases "loads (strip u)") auto
qed

lemma read_append_nel:
  assumes "wf_file f" "read_jsonl f = Inr rows" "wf_json row" "row = JObj kvs" "\<not> no_nel row"
  shows "\<exists>n. read_jsonl (append_jsonl f row) = Inl (Invalid_Jsonl n)"
proof -
  obtain s where s: "s = [] \<or> last s = CHR 0x0A" "read_jsonl f = read_lines 1 (splitlines s)"
    "append_jsonl f row = Some (s @ dumps spaced_utf8 row @ [CHR 0x0A])"
    using file_text [OF assms(1)] by blast
  have "CHR 0x85 \<in> set (dumps spaced_utf8 row)" using nel_dumped [of "norm row"] assms(5) by (simp add: dumps_def)
  then obtain u w where uw: "dumps spaced_utf8 row = u @ CHR 0x85 # w" "CHR 0x85 \<notin> set u" by (meson split_list_first)
  have "set u \<subseteq> set (dump spaced_utf8 (norm row))" using uw(1) by (auto simp: dumps_def)
  then have "\<forall>c \<in> set u. \<not> line_break c" using dump_breaks [of "norm row"] assms(3) uw(2) by fastforce
  from lines_acc_break [OF this, of "[]" "w @ [CHR 0x0A]"]
  have "splitlines (dumps spaced_utf8 row @ [CHR 0x0A]) = u # splitlines (w @ [CHR 0x0A])" by (simp add: uw(1) splitlines_def)
  with cut_line [OF assms(3,4) uw] s assms(2) show ?thesis
    by (simp add: read_jsonl_def splitlines_newline read_lines_append Let_def del: append_assoc)
qed

lemma read_append_error:
  assumes "wf_file f" and "read_jsonl f = Inl e"
  shows "read_jsonl (append_jsonl f row) = Inl e"
proof -
  obtain s where s: "s = [] \<or> last s = CHR 0x0A" "read_lines 1 (splitlines s) = Inl e"
    "append_jsonl f row = Some (s @ dumps spaced_utf8 row @ [CHR 0x0A])"
    using file_text [OF assms(1)] assms(2) by metis
  then show ?thesis by (simp add: read_jsonl_def splitlines_newline read_lines_append)
qed

lemma read_append_all_error:
  "wf_file f \<Longrightarrow> read_jsonl f = Inl e \<Longrightarrow> read_jsonl (foldl append_jsonl f rows) = Inl e"
proof (induction rows arbitrary: f)
  case (Cons r rows)
  then have "read_jsonl (append_jsonl f r) = Inl e" by (simp add: read_append_error)
  with Cons show ?case by (simp add: wf_append_jsonl)
qed simp

section \<open>Properties\<close>

text \<open>
  Appending rows and reading the file back gives the rows that were there followed by
  the appended ones, with their keys sorted: no row is lost, changed or reordered, for rows
  whose strings hold no U+0085.
\<close>

theorem jsonl_round_trip:
  assumes "wf_file f" and "read_jsonl f = Inr rows" and "list_all ok_row new"
  shows "read_jsonl (foldl append_jsonl f new) = Inr (rows @ map norm new)"
  using jsonl.read_append_all [OF assms(1,3,2)] by simp

theorem jsonl_round_trip_witness:
  "read_jsonl (foldl append_jsonl None [JObj [(''b'', JInt 1), (''a'', JStr ''x'')], JObj []]) =
    Inr [JObj [(''a'', JStr ''x''), (''b'', JInt 1)], JObj []]"
  using jsonl_round_trip [of None "[]" "[JObj [(''b'', JInt 1), (''a'', JStr ''x'')], JObj []]"]
  by (simp add: wf_file_def read_jsonl_def ok_row_def)

text \<open>
  C34: Any row with U+0085 in a string, as a value or a key at any depth, makes the file unreadable,
  and it stays so: \<open>append_jsonl\<close> writes the character as it is, \<open>read_jsonl\<close> breaks the line at
  the first one and raises on what stands before it, which ends inside a string and so is not JSON;
  and so does every later read, whatever is appended next.
\<close>

theorem nel_row_breaks_file:
  assumes "wf_file f" and "read_jsonl f = Inr rows" and "wf_json (JObj kvs)" and "\<not> no_nel (JObj kvs)"
  shows "\<exists>n. \<forall>later. read_jsonl (foldl append_jsonl (append_jsonl f (JObj kvs)) later) = Inl (Invalid_Jsonl n)"
  using read_append_nel [OF assms(1-3) refl assms(4)] read_append_all_error [OF wf_append_jsonl] by blast

theorem nel_row_breaks_file_witness:
  "\<exists>n. \<forall>later. read_jsonl (foldl append_jsonl (append_jsonl None (JObj [(''note'', JStr [CHR ''a'', CHR 0x85, CHR ''b''])])) later) =
    Inl (Invalid_Jsonl n)"
  by (rule nel_row_breaks_file [of None "[]"]) (simp_all add: wf_file_def read_jsonl_def)

end
