(* ===== verification/Event_Bus.thy ===== *)
theory Event_Bus
  imports Jsonl_File
begin

text \<open>
  \<open>events/bus.py\<close> and the event names of \<open>contracts/event_types.py\<close> that the modelled
  components emit: events, their dictionary form, subscription, publication into the durable
  JSON-lines journal, and replay. The bus is the interface \<open>append_log\<close> again, one level up:
  replaying the journal after a publication gives the old events and the new one
  (\<open>journal\<close>), which is the only fact the components that read their own events back
  rely on; they keep the journal as the list of its events.
\<close>

section \<open>Event types\<close>

datatype event_type =
    ACTION_PROPOSED | ACTION_PREFLIGHT_FAILED | ACTION_EXECUTION_REQUESTED
  | ACTION_CANCEL_INTENT_RECORDED | ACTION_CANCEL_REQUESTED | ACTION_CANCEL_UNSUPPORTED
  | ACTION_CANCEL_NOT_CONFIRMED | ACTION_CANCELED | ACTION_RECONCILIATION_REQUESTED
  | ACTION_LATE_RESULT_DISCARDED | ACTION_COMPLETED | ACTION_FAILED | ACTION_RETRY_BLOCKED
  | GOVERNANCE_APPROVED | GOVERNANCE_APPROVAL_REQUIRED | GOVERNANCE_REJECTED
  | APPROVAL_REQUESTED | APPROVAL_APPROVED | APPROVAL_REJECTED | APPROVAL_EXPIRED
  | APPROVAL_CONSUMED | APPROVAL_REPLAY_BLOCKED | ACTION_RESUME_REQUESTED
  | RUNTIME_COMMAND_REQUESTED | RUNTIME_RESULT_RECEIVED | FAILURE_DETECTED
  | MISSION_OPPORTUNITY_INTAKE | MISSION_PLAN_PROPOSED | MISSION_APPROVED | MISSION_REJECTED
  | MISSION_STARTED | MISSION_STEP_STARTED | MISSION_STEP_WAITING_APPROVAL
  | MISSION_STEP_COMPLETED | MISSION_STEP_FAILED | MISSION_PAUSED | MISSION_RESUMED
  | MISSION_CANCELLED | MISSION_STOPPED | MISSION_COMPLETED | MISSION_FAILED
  | MISSION_VALUE_RECORDED | MISSION_OUTCOME_RECORDED | MISSION_KNOWLEDGE_CANDIDATE_RECORDED
  | MISSION_CEE_LEARNING_TRIGGERED

definition event_names :: "(event_type \<times> string) list" where
  "event_names = [
    (ACTION_PROPOSED, ''action.proposed''),
    (ACTION_PREFLIGHT_FAILED, ''action.preflight.failed''),
    (ACTION_EXECUTION_REQUESTED, ''action.execution.requested''),
    (ACTION_CANCEL_INTENT_RECORDED, ''action.cancel.intent-recorded''),
    (ACTION_CANCEL_REQUESTED, ''action.cancel.requested''),
    (ACTION_CANCEL_UNSUPPORTED, ''action.cancel.unsupported''),
    (ACTION_CANCEL_NOT_CONFIRMED, ''action.cancel.not-confirmed''),
    (ACTION_CANCELED, ''action.canceled''),
    (ACTION_RECONCILIATION_REQUESTED, ''action.reconciliation.requested''),
    (ACTION_LATE_RESULT_DISCARDED, ''action.late-result.discarded''),
    (ACTION_COMPLETED, ''action.completed''),
    (ACTION_FAILED, ''action.failed''),
    (ACTION_RETRY_BLOCKED, ''action.retry.blocked''),
    (GOVERNANCE_APPROVED, ''governance.approved''),
    (GOVERNANCE_APPROVAL_REQUIRED, ''governance.approval-required''),
    (GOVERNANCE_REJECTED, ''governance.rejected''),
    (APPROVAL_REQUESTED, ''approval.requested''),
    (APPROVAL_APPROVED, ''approval.approved''),
    (APPROVAL_REJECTED, ''approval.rejected''),
    (APPROVAL_EXPIRED, ''approval.expired''),
    (APPROVAL_CONSUMED, ''approval.consumed''),
    (APPROVAL_REPLAY_BLOCKED, ''approval.replay-blocked''),
    (ACTION_RESUME_REQUESTED, ''action.resume.requested''),
    (RUNTIME_COMMAND_REQUESTED, ''runtime.command.requested''),
    (RUNTIME_RESULT_RECEIVED, ''runtime.result.received''),
    (FAILURE_DETECTED, ''evolution.failure.detected''),
    (MISSION_OPPORTUNITY_INTAKE, ''mission.opportunity.intake''),
    (MISSION_PLAN_PROPOSED, ''mission.plan.proposed''),
    (MISSION_APPROVED, ''mission.approved''),
    (MISSION_REJECTED, ''mission.rejected''),
    (MISSION_STARTED, ''mission.started''),
    (MISSION_STEP_STARTED, ''mission.step.started''),
    (MISSION_STEP_WAITING_APPROVAL, ''mission.step.waiting-approval''),
    (MISSION_STEP_COMPLETED, ''mission.step.completed''),
    (MISSION_STEP_FAILED, ''mission.step.failed''),
    (MISSION_PAUSED, ''mission.paused''),
    (MISSION_RESUMED, ''mission.resumed''),
    (MISSION_CANCELLED, ''mission.cancelled''),
    (MISSION_STOPPED, ''mission.stopped''),
    (MISSION_COMPLETED, ''mission.completed''),
    (MISSION_FAILED, ''mission.failed''),
    (MISSION_VALUE_RECORDED, ''mission.value.recorded''),
    (MISSION_OUTCOME_RECORDED, ''mission.outcome.recorded''),
    (MISSION_KNOWLEDGE_CANDIDATE_RECORDED, ''mission.knowledge-candidate.recorded''),
    (MISSION_CEE_LEARNING_TRIGGERED, ''mission.cee-learning.triggered'')]"

definition event_value :: "event_type \<Rightarrow> string" where
  "event_value t = (case dict_get event_names t of Some s \<Rightarrow> s | None \<Rightarrow> [])"

definition event_of_value :: "string \<Rightarrow> event_type option" where
  "event_of_value s = dict_get (map prod.swap event_names) s"

section \<open>Events\<close>

record event =
  ev_type :: string
  ev_actor :: string
  ev_payload :: "(string, json) dict"
  ev_severity :: string
  ev_id :: string
  ev_timestamp :: string
  ev_correlation :: "string option"
  ev_causation :: "string option"

definition json_opt :: "string option \<Rightarrow> json" where
  "json_opt s = (case s of None \<Rightarrow> JNull | Some t \<Rightarrow> JStr t)"

definition to_dict :: "event \<Rightarrow> (string, json) dict" where
  "to_dict e = [
     (''event_id'', JStr (ev_id e)),
     (''event_type'', JStr (ev_type e)),
     (''timestamp'', JStr (ev_timestamp e)),
     (''actor'', JStr (ev_actor e)),
     (''severity'', JStr (ev_severity e)),
     (''correlation_id'', json_opt (ev_correlation e)),
     (''causation_id'', json_opt (ev_causation e)),
     (''payload'', JObj (ev_payload e))]"

datatype bus_error = Bus_IO io_error | Bus_KeyError string | Bus_TypeError string

definition get_str :: "(string, json) dict \<Rightarrow> string \<Rightarrow> bus_error + string" where
  "get_str d k = (case dict_get d k of None \<Rightarrow> Inl (Bus_KeyError k)
     | Some (JStr s) \<Rightarrow> Inr s | Some _ \<Rightarrow> Inl (Bus_TypeError k))"

definition get_opt :: "(string, json) dict \<Rightarrow> string \<Rightarrow> bus_error + string option" where
  "get_opt d k = (case dict_get d k of None \<Rightarrow> Inr None | Some JNull \<Rightarrow> Inr None
     | Some (JStr s) \<Rightarrow> Inr (Some s) | Some _ \<Rightarrow> Inl (Bus_TypeError k))"

text \<open>
  \<open>Event.from_dict\<close>. A value of another JSON type than the field's annotation (which Python
  would store unchecked) is \<open>Bus_TypeError\<close>.
\<close>

definition from_dict :: "json \<Rightarrow> bus_error + event" where
  "from_dict row = (case row of
     JObj d \<Rightarrow>
       bindE (get_str d ''event_id'') (\<lambda>i.
       bindE (get_str d ''event_type'') (\<lambda>t.
       bindE (get_str d ''timestamp'') (\<lambda>ts.
       bindE (get_str d ''actor'') (\<lambda>a.
       bindE (case dict_get d ''severity'' of None \<Rightarrow> Inr ''info'' | Some _ \<Rightarrow> get_str d ''severity'') (\<lambda>sv.
       bindE (get_opt d ''correlation_id'') (\<lambda>co.
       bindE (get_opt d ''causation_id'') (\<lambda>ca.
       bindE (case dict_get d ''payload'' of None \<Rightarrow> Inr [] | Some (JObj p) \<Rightarrow> Inr p
              | Some _ \<Rightarrow> Inl (Bus_TypeError ''payload'')) (\<lambda>p.
       Inr \<lparr>ev_type = t, ev_actor = a, ev_payload = p, ev_severity = sv, ev_id = i,
            ev_timestamp = ts, ev_correlation = co, ev_causation = ca\<rparr>))))))))
   | _ \<Rightarrow> Inl (Bus_TypeError ''row''))"

section \<open>The bus\<close>

text \<open>Handlers are named by values of \<open>'h\<close>; a publication lists the handler calls it makes.\<close>

record 'h bus =
  journal_path :: text_file
  handlers :: "(string, 'h list) dict"
  wildcard_handlers :: "'h list"

definition new_bus :: "text_file \<Rightarrow> 'h bus" where
  "new_bus path = \<lparr>journal_path = path, handlers = [], wildcard_handlers = []\<rparr>"

definition subscribe :: "string \<Rightarrow> 'h \<Rightarrow> 'h bus \<Rightarrow> 'h bus" where
  "subscribe t h b =
     (if t = ''*'' then b\<lparr>wildcard_handlers := wildcard_handlers b @ [h]\<rparr>
      else b\<lparr>handlers := dict_set t
        ((case dict_get (handlers b) t of None \<Rightarrow> [] | Some hs \<Rightarrow> hs) @ [h]) (handlers b)\<rparr>)"

definition publish_row :: "text_file \<Rightarrow> event \<Rightarrow> text_file" where
  "publish_row f e = append_jsonl f (JObj (to_dict e))"

definition publish :: "event \<Rightarrow> 'h bus \<Rightarrow> ('h \<times> event) list \<times> 'h bus" where
  "publish e b =
     (map (\<lambda>h. (h, e)) ((case dict_get (handlers b) (ev_type e) of None \<Rightarrow> [] | Some hs \<Rightarrow> hs)
        @ wildcard_handlers b),
      b\<lparr>journal_path := publish_row (journal_path b) e\<rparr>)"

text \<open>\<open>emit\<close> with the default values of \<open>Event\<close>: a fresh identifier and the current time.\<close>

definition make_event :: "string \<Rightarrow> instant \<Rightarrow> string \<Rightarrow> string \<Rightarrow> (string, json) dict \<Rightarrow> string
    \<Rightarrow> string option \<Rightarrow> string option \<Rightarrow> event" where
  "make_event hex now t actor payload severity correlation causation =
     \<lparr>ev_type = t, ev_actor = actor, ev_payload = payload, ev_severity = severity,
      ev_id = new_id ''evt'' hex, ev_timestamp = iso now,
      ev_correlation = correlation, ev_causation = causation\<rparr>"

definition emit :: "string \<Rightarrow> instant \<Rightarrow> string \<Rightarrow> string \<Rightarrow> (string, json) dict \<Rightarrow> string
    \<Rightarrow> string option \<Rightarrow> string option \<Rightarrow> 'h bus \<Rightarrow> event \<times> ('h \<times> event) list \<times> 'h bus" where
  "emit hex now t actor payload severity correlation causation b =
     (let e = make_event hex now t actor payload severity correlation causation
      in (e, publish e b))"

fun map_result :: "('a \<Rightarrow> 'e + 'b) \<Rightarrow> 'a list \<Rightarrow> 'e + 'b list" where
  "map_result f [] = Inr []"
| "map_result f (x # xs) = bindE (f x) (\<lambda>y. bindE (map_result f xs) (\<lambda>ys. Inr (y # ys)))"

definition replay_file :: "text_file \<Rightarrow> bus_error + event list" where
  "replay_file f = (case read_jsonl f of Inl e \<Rightarrow> Inl (Bus_IO e) | Inr rows \<Rightarrow> map_result from_dict rows)"

definition replay :: "'h bus \<Rightarrow> bus_error + event list" where
  "replay b = replay_file (journal_path b)"

section \<open>Lemmas\<close>

lemma event_of_value [simp]: "event_of_value (event_value t) = Some t"
  by (induction t) code_simp+

lemma event_value_inject: "event_value t = event_value u \<Longrightarrow> t = u"
  by (metis event_of_value option.inject)

text \<open>The event as the journal gives it back: the payload with its keys sorted.\<close>

definition norm_dict :: "(string, json) dict \<Rightarrow> (string, json) dict" where
  "norm_dict d = sort_key fst (map (map_prod id norm) d)"

definition canon_event :: "event \<Rightarrow> event" where
  "canon_event e = e\<lparr>ev_payload := norm_dict (ev_payload e)\<rparr>"

definition nel_free :: "string option \<Rightarrow> bool" where
  "nel_free s = (case s of None \<Rightarrow> True | Some t \<Rightarrow> CHR 0x85 \<notin> set t)"

definition ok_event :: "event \<Rightarrow> bool" where
  "ok_event e = ok_row (JObj (to_dict e))"

lemma norm_json_opt [simp]: "norm (json_opt s) = json_opt s"
  by (simp add: json_opt_def split: option.splits)

lemma wf_json_opt [simp]: "wf_json (json_opt s)"
  by (simp add: json_opt_def split: option.splits)

lemma to_dict_keys: "keys (to_dict e) = [''event_id'', ''event_type'', ''timestamp'', ''actor'',
    ''severity'', ''correlation_id'', ''causation_id'', ''payload'']"
  by (simp add: to_dict_def)

lemma dict_get_norm_obj:
  "distinct (keys d) \<Longrightarrow> norm (JObj d) = JObj d' \<Longrightarrow> dict_get d' k = map_option norm (dict_get d k)"
proof -
  assume "distinct (keys d)" and n: "norm (JObj d) = JObj d'"
  then have "distinct (keys (map (map_prod id norm) d))" by (simp add: comp_def)
  from dict_get_sort_key [OF this, of k]
  have "dict_get d' k = dict_get (map (map_prod id norm) d) k" using n by auto
  then show ?thesis by (simp add: map_of_map map_prod_def)
qed

lemma from_dict_to_dict: "from_dict (norm (JObj (to_dict e))) = Inr (canon_event e)"
proof -
  obtain d where d: "norm (JObj (to_dict e)) = JObj d" by simp
  have "distinct (keys (to_dict e))" by (simp add: to_dict_keys)
  then have g: "dict_get d k = map_option norm (dict_get (to_dict e) k)" for k
    using d by (rule dict_get_norm_obj)
  show ?thesis
    unfolding d
    by (simp add: from_dict_def get_str_def get_opt_def g to_dict_def canon_event_def norm_dict_def)
      (simp add: json_opt_def split: option.splits)
qed

lemma map_result_append:
  "map_result f (xs @ ys) = bindE (map_result f xs) (\<lambda>as. bindE (map_result f ys) (\<lambda>bs. Inr (as @ bs)))"
proof (induction xs)
  case Nil
  show ?case by (cases "map_result f ys") simp_all
next
  case (Cons x xs)
  then show ?case
    by (cases "f x"; cases "map_result f xs"; cases "map_result f ys") simp_all
qed

interpretation journal: append_log publish_row replay_file canon_event ok_event wf_file
proof unfold_locales
  fix f e rs
  assume f: "wf_file f" and e: "ok_event e" and r: "replay_file f = Inr rs"
  from r obtain rows where rows: "read_jsonl f = Inr rows" "map_result from_dict rows = Inr rs"
    by (auto simp: replay_file_def split: sum.splits)
  from f e rows(1) have "read_jsonl (publish_row f e) = Inr (rows @ [norm (JObj (to_dict e))])"
    by (simp only: publish_row_def ok_event_def jsonl.read_append)
  with rows(2) show "replay_file (publish_row f e) = Inr (rs @ [canon_event e])"
    by (simp add: replay_file_def map_result_append from_dict_to_dict del: norm.simps)
qed (simp add: publish_row_def wf_append_jsonl)

lemma dict_get_subscribe:
  "t \<noteq> ''*'' \<Longrightarrow> dict_get (handlers (subscribe t h b)) t' =
    (if t' = t then Some ((case dict_get (handlers b) t of None \<Rightarrow> [] | Some hs \<Rightarrow> hs) @ [h])
     else dict_get (handlers b) t')"
  by (simp add: subscribe_def)

section \<open>Properties\<close>

text \<open>
  After an emission the journal replays to the events it had followed by the new one,
  with its fresh identifier, type, actor, severity and links as given and the payload's keys
  sorted: a component that reads its own events back from disk sees what it emitted.
\<close>

theorem replay_emit:
  assumes "wf_file (journal_path b)" and "replay b = Inr evs"
    and "ok_event (make_event hex now t actor payload severity co ca)"
    and "emit hex now t actor payload severity co ca b = (e, calls, b')"
  shows "replay b' = Inr (evs @ [canon_event e]) \<and> wf_file (journal_path b')"
  using assms journal.read_append [of "journal_path b" "make_event hex now t actor payload severity co ca" evs]
  by (auto simp: Let_def replay_def emit_def publish_def wf_append_jsonl publish_row_def)

theorem replay_emit_witness:
  "replay (snd (snd (emit ''0123456789abcdef0'' 0 ''action.proposed'' ''a'' [(''k'', JInt 1)] ''info'' None None
      (new_bus None :: unit bus)))) =
    Inr [canon_event (make_event ''0123456789abcdef0'' 0 ''action.proposed'' ''a'' [(''k'', JInt 1)] ''info'' None None)]"
proof -
  let ?e = "make_event ''0123456789abcdef0'' 0 ''action.proposed'' ''a'' [(''k'', JInt 1)] ''info'' None None"
  have ok: "ok_event ?e"
    by (simp add: ok_event_def ok_row_def to_dict_def make_event_def new_id_def json_opt_def) code_simp
  have "replay (new_bus None :: unit bus) = Inr []"
    by (simp add: replay_def replay_file_def new_bus_def read_jsonl_def)
  then show ?thesis
    using replay_emit [of "new_bus None :: unit bus" "[]" "''0123456789abcdef0''" 0 "''action.proposed''" "''a''"
        "[(''k'', JInt 1)]" "''info''" None None ?e] ok
    by (simp add: Let_def emit_def publish_def new_bus_def wf_file_def)
qed

end
