(* ===== verification/Ledger.thy ===== *)
theory Ledger
  imports Event_Bus
begin

text \<open>
  \<open>ledger/hash_chain.py\<close> and \<open>ledger/append.py\<close>: the append-only ledger whose rows carry the
  SHA-256 of their own canonical text and the hash of the row before. \<open>sha\<close> is the function
  from a text to the hexadecimal digest of its UTF-8 bytes; nothing is assumed of it.
  Appending keeps a ledger verified, and two verified ledgers of the same length with the
  same last hash hold the same rows unless two distinct row texts have the same digest.

  Comparisons of a stored hash with another JSON value are equality of JSON values.
\<close>

section \<open>Entries\<close>

type_synonym digest = "string \<Rightarrow> string"

definition ledger_canonical :: "(string, json) dict \<Rightarrow> string" where
  "ledger_canonical d = dumps compact_utf8 (JObj d)"

definition hash_entry :: "digest \<Rightarrow> (string, json) dict \<Rightarrow> string" where
  "hash_entry sha d = sha (ledger_canonical d)"

record ledger_entry =
  le_actor :: string
  le_action :: string
  le_entity_type :: string
  le_entity_id :: string
  le_summary :: string
  le_evidence_links :: "string list"
  le_payload :: "(string, json) dict"
  le_ledger_id :: string
  le_timestamp :: string
  le_correlation_id :: "string option"
  le_previous_hash :: json
  le_hash :: "string option"

definition unsigned_dict :: "ledger_entry \<Rightarrow> (string, json) dict" where
  "unsigned_dict e = [
     (''ledger_id'', JStr (le_ledger_id e)),
     (''timestamp'', JStr (le_timestamp e)),
     (''actor'', JStr (le_actor e)),
     (''action'', JStr (le_action e)),
     (''entity_type'', JStr (le_entity_type e)),
     (''entity_id'', JStr (le_entity_id e)),
     (''summary'', JStr (le_summary e)),
     (''evidence_links'', JList (map JStr (le_evidence_links e))),
     (''payload'', JObj (le_payload e)),
     (''correlation_id'', json_opt (le_correlation_id e)),
     (''previous_hash'', le_previous_hash e)]"

definition signed_dict :: "digest \<Rightarrow> ledger_entry \<Rightarrow> (string, json) dict" where
  "signed_dict sha e = (let data = unsigned_dict e in
     dict_set ''hash'' (JStr (ostr_or (le_hash e) (hash_entry sha data))) data)"

section \<open>The ledger\<close>

datatype ledger_error = Ledger_IO io_error | Ledger_AttributeError

definition json_get :: "(string, json) dict \<Rightarrow> string \<Rightarrow> json" where
  "json_get d k = (case dict_get d k of None \<Rightarrow> JNull | Some v \<Rightarrow> v)"

definition entries :: "text_file \<Rightarrow> ledger_error + json list" where
  "entries f = (case read_jsonl f of Inl e \<Rightarrow> Inl (Ledger_IO e) | Inr rows \<Rightarrow> Inr rows)"

text \<open>\<open>row.get(...)\<close>: only an object has the method.\<close>

definition as_row :: "json \<Rightarrow> ledger_error + (string, json) dict" where
  "as_row row = (case row of JObj d \<Rightarrow> Inr d | _ \<Rightarrow> Inl Ledger_AttributeError)"

definition last_hash :: "text_file \<Rightarrow> ledger_error + json" where
  "last_hash f = bindE (entries f) (\<lambda>rows.
     if rows = [] then Inr JNull
     else bindE (as_row (last rows)) (\<lambda>d. Inr (json_get d ''hash'')))"

text \<open>The keyword arguments of \<open>append\<close>; \<open>None\<close> for a list or a dictionary is the empty one.\<close>

record ledger_args =
  la_actor :: string
  la_action :: string
  la_entity_type :: string
  la_entity_id :: string
  la_summary :: string
  la_evidence_links :: "string list"
  la_payload :: "(string, json) dict"
  la_correlation_id :: "string option"

definition make_entry :: "string \<Rightarrow> instant \<Rightarrow> ledger_args \<Rightarrow> json \<Rightarrow> ledger_entry" where
  "make_entry hex now a prev =
     \<lparr>le_actor = la_actor a, le_action = la_action a, le_entity_type = la_entity_type a,
      le_entity_id = la_entity_id a, le_summary = la_summary a,
      le_evidence_links = la_evidence_links a, le_payload = la_payload a,
      le_ledger_id = new_id ''led'' hex, le_timestamp = iso now,
      le_correlation_id = la_correlation_id a, le_previous_hash = prev, le_hash = None\<rparr>"

definition append_entry :: "digest \<Rightarrow> string \<Rightarrow> instant \<Rightarrow> ledger_args \<Rightarrow> text_file
    \<Rightarrow> ledger_error + (string, json) dict \<times> text_file" where
  "append_entry sha hex now a f = bindE (last_hash f) (\<lambda>prev.
     let signed = signed_dict sha (make_entry hex now a prev)
     in Inr (signed, append_jsonl f (JObj signed)))"

text \<open>\<open>append_ledger_entry\<close>: the same append on \<open>runtime_state/ledger/ledger.jsonl\<close> under the root.\<close>

definition append_ledger_entry :: "digest \<Rightarrow> string \<Rightarrow> instant \<Rightarrow> ledger_args \<Rightarrow>
    (string list \<Rightarrow> text_file) \<Rightarrow> ledger_error + (string, json) dict \<times> (string list \<Rightarrow> text_file)" where
  "append_ledger_entry sha hex now a root =
     (let path = [''runtime_state'', ''ledger'', ''ledger.jsonl''] in
      bindE (append_entry sha hex now a (root path)) (\<lambda>(signed, f). Inr (signed, root(path := f))))"

definition row_errors :: "digest \<Rightarrow> nat \<Rightarrow> json \<Rightarrow> (string, json) dict \<Rightarrow> string list" where
  "row_errors sha idx prev row =
     (if json_get row ''previous_hash'' \<noteq> prev
      then [''row '' @ nat_str idx @ '': previous_hash mismatch''] else []) @
     (if json_get row ''hash'' \<noteq> JStr (hash_entry sha (dict_pop ''hash'' row))
      then [''row '' @ nat_str idx @ '': hash mismatch''] else [])"

fun verify_rows :: "digest \<Rightarrow> nat \<Rightarrow> json \<Rightarrow> json list \<Rightarrow> ledger_error + string list \<times> json" where
  "verify_rows sha idx prev [] = Inr ([], prev)"
| "verify_rows sha idx prev (r # rows) =
     bindE (as_row r) (\<lambda>row.
     bindE (verify_rows sha (Suc idx) (json_get row ''hash'') rows) (\<lambda>(errs, final).
     Inr (row_errors sha idx prev row @ errs, final)))"

record verify_report =
  vr_ok :: bool
  vr_entry_count :: nat
  vr_last_hash :: json
  vr_errors :: "string list"

definition verify :: "digest \<Rightarrow> text_file \<Rightarrow> ledger_error + verify_report" where
  "verify sha f = bindE (entries f) (\<lambda>rows.
     bindE (verify_rows sha 0 JNull rows) (\<lambda>(errs, final).
     Inr \<lparr>vr_ok = (errs = []), vr_entry_count = length rows, vr_last_hash = final, vr_errors = errs\<rparr>))"

section \<open>Lemmas\<close>

lemma verify_rows_append:
  "verify_rows sha idx prev rows = Inr (errs, final) \<Longrightarrow>
   verify_rows sha idx prev (rows @ [JObj d]) =
     Inr (errs @ row_errors sha (idx + length rows) final d, json_get d ''hash'')"
proof (induction rows arbitrary: idx prev errs)
  case Nil
  then show ?case by (simp add: as_row_def)
next
  case (Cons r rows)
  then obtain d0 es where "as_row r = Inr d0"
    and "verify_rows sha (Suc idx) (json_get d0 ''hash'') rows = Inr (es, final)"
    and "errs = row_errors sha idx prev d0 @ es"
    by (auto simp: bindE_Inr_conv)
  with Cons.IH show ?case by simp
qed

text \<open>The final hash is that of the last row, as \<open>last_hash\<close> reads it.\<close>

lemma verify_rows_final:
  "verify_rows sha idx prev rows = Inr (errs, final) \<Longrightarrow> rows \<noteq> [] \<Longrightarrow>
    \<exists>d. as_row (last rows) = Inr d \<and> final = json_get d ''hash''"
proof (induction rows arbitrary: idx prev errs)
  case (Cons r rows)
  then obtain d es where d: "as_row r = Inr d"
    and v: "verify_rows sha (Suc idx) (json_get d ''hash'') rows = Inr (es, final)"
    by (auto simp: bindE_Inr_conv)
  show ?case
  proof (cases "rows = []")
    case True
    with d v show ?thesis by auto
  next
    case False
    with Cons.IH v show ?thesis by simp
  qed
qed simp

lemma verify_last_hash: "verify sha f = Inr v \<Longrightarrow> last_hash f = Inr (vr_last_hash v)"
proof -
  assume "verify sha f = Inr v"
  then obtain rows errs final where "entries f = Inr rows"
    and "verify_rows sha 0 JNull rows = Inr (errs, final)" and "vr_last_hash v = final"
    by (auto simp: verify_def bindE_Inr_conv)
  then show ?thesis
    using verify_rows_final [of sha 0 JNull rows errs final] by (auto simp: last_hash_def)
qed

lemma sorted_dict_unique:
  fixes d e :: "('k::linorder, 'v) dict"
  assumes "distinct (keys d)" "distinct (keys e)" "\<And>k. dict_get d k = dict_get e k"
  shows "sort_key fst d = sort_key fst e"
proof -
  have "set d = set e" using map_of_inject_set [OF assms(1,2)] assms(3) by auto
  moreover have "distinct (keys (sort_key fst d))" "distinct (keys (sort_key fst e))"
    using assms by (simp_all add: sort_key_keys)
  ultimately show ?thesis
    by (intro map_sorted_distinct_set_unique [of fst]) (auto simp: distinct_map)
qed

lemma distinct_norm_keys: "distinct (keys d) \<Longrightarrow> distinct (keys (map (map_prod id norm) d))"
  by (simp add: comp_def)

lemma norm_obj_eqI:
  assumes "distinct (keys d)" "distinct (keys e)"
    and "\<And>k. map_option norm (dict_get d k) = map_option norm (dict_get e k)"
  shows "norm (JObj d) = norm (JObj e)"
  using assms sorted_dict_unique [OF distinct_norm_keys distinct_norm_keys, of d e]
  by (simp add: map_of_map map_prod_def)

lemma norm_obj_eqD:
  assumes "distinct (keys d)" "distinct (keys e)" "norm (JObj d) = norm (JObj e)"
  shows "map_option norm (dict_get d k) = map_option norm (dict_get e k)"
  using dict_get_norm_obj [OF assms(1), of _ k] dict_get_norm_obj [OF assms(2), of _ k] assms(3) by simp

lemma hash_entry_norm: "norm (JObj d) = norm (JObj e) \<Longrightarrow> hash_entry sha d = hash_entry sha e"
  by (simp add: hash_entry_def ledger_canonical_def dumps_def)

text \<open>What reading back gives of a signed row: its keys sorted, the same fields, a valid hash.\<close>

lemma row_errors_norm:
  assumes "distinct (keys d)" and "norm (JObj d) = JObj d'"
    and "norm (json_get d ''previous_hash'') = json_get d ''previous_hash''"
    and "norm (json_get d ''hash'') = json_get d ''hash''"
  shows "row_errors sha i prev d' = row_errors sha i prev d" "json_get d' ''hash'' = json_get d ''hash''"
proof -
  note g = dict_get_norm_obj [OF assms(1,2)]
  have h: "json_get d' k = norm (json_get d k)" for k
    by (simp add: json_get_def g split: option.splits)
  have "distinct (keys d')" using assms(1,2) keys_norm [of d] by auto
  then have "norm (JObj (dict_pop ''hash'' d')) = norm (JObj (dict_pop ''hash'' d))"
    using assms(1) by (intro norm_obj_eqI) (auto simp: distinct_dict_pop g option.map_comp comp_def)
  from hash_entry_norm [OF this, of sha]
  show "row_errors sha i prev d' = row_errors sha i prev d" "json_get d' ''hash'' = json_get d ''hash''"
    using assms(3,4) by (simp_all add: row_errors_def h)
qed

lemma signed_dict_eq:
  "le_hash e = None \<Longrightarrow>
    signed_dict sha e = unsigned_dict e @ [(''hash'', JStr (hash_entry sha (unsigned_dict e)))]"
  by (simp add: signed_dict_def Let_def ostr_or_def unsigned_dict_def)

lemma keys_unsigned_dict: "keys (unsigned_dict e) = [''ledger_id'', ''timestamp'', ''actor'', ''action'',
    ''entity_type'', ''entity_id'', ''summary'', ''evidence_links'', ''payload'', ''correlation_id'',
    ''previous_hash'']"
  by (simp add: unsigned_dict_def)

lemma signed_dict_row:
  assumes "le_hash e = None" and "norm (le_previous_hash e) = le_previous_hash e"
    and "d = signed_dict sha e"
  shows "distinct (keys d)" "json_get d ''previous_hash'' = le_previous_hash e"
    "json_get d ''hash'' = JStr (hash_entry sha (unsigned_dict e))"
    "dict_pop ''hash'' d = unsigned_dict e"
proof -
  have d: "d = unsigned_dict e @ [(''hash'', JStr (hash_entry sha (unsigned_dict e)))]"
    using assms(1,3) by (simp only: signed_dict_eq)
  show "distinct (keys d)" by (simp add: d keys_unsigned_dict)
  show "json_get d ''previous_hash'' = le_previous_hash e"
    by (simp add: d json_get_def unsigned_dict_def)
  show "json_get d ''hash'' = JStr (hash_entry sha (unsigned_dict e))"
    by (simp add: d json_get_def) (simp add: unsigned_dict_def)
  show "dict_pop ''hash'' d = unsigned_dict e"
    by (simp add: d dict_pop_def) (simp add: unsigned_dict_def)
qed

lemma row_errors_signed:
  assumes "le_hash e = None" and "norm (le_previous_hash e) = le_previous_hash e"
  shows "row_errors sha i (le_previous_hash e) (signed_dict sha e) = []"
  using signed_dict_row [OF assms refl, of sha] by (simp add: row_errors_def)

text \<open>The hash a verified ledger ends with is a string or null, which sorting leaves alone.\<close>

lemma verified_final_norm:
  "verify_rows sha idx prev rows = Inr ([], final) \<Longrightarrow> norm prev = prev \<Longrightarrow> norm final = final"
proof (induction rows arbitrary: idx prev)
  case (Cons r rows)
  then obtain d where "row_errors sha idx prev d = []"
    and v: "verify_rows sha (Suc idx) (json_get d ''hash'') rows = Inr ([], final)"
    by (auto simp: bindE_Inr_conv)
  then have "norm (json_get d ''hash'') = json_get d ''hash''"
    by (simp add: row_errors_def split: if_splits)
  with Cons.IH v show ?case by blast
qed simp

text \<open>Two verified suffixes that end in the same hash: the rows agree, or two texts collide.\<close>

definition collision :: "digest \<Rightarrow> (string, json) dict \<Rightarrow> (string, json) dict \<Rightarrow> bool" where
  "collision sha d e = (ledger_canonical d \<noteq> ledger_canonical e \<and> hash_entry sha d = hash_entry sha e)"

definition row_dict :: "json \<Rightarrow> (string, json) dict" where
  "row_dict r = (case r of JObj d \<Rightarrow> d | _ \<Rightarrow> [])"

lemma wf_dict_pop: "wf_json (JObj d) \<Longrightarrow> wf_json (JObj (dict_pop k d))"
  by (auto simp: distinct_dict_pop) (auto simp: dict_pop_def)

lemma rows_agree:
  assumes "wf_json (JObj d)" "wf_json (JObj e)" "\<not> collision sha (dict_pop ''hash'' d) (dict_pop ''hash'' e)"
    and "row_errors sha i p d = []" "row_errors sha i q e = []"
    and "json_get d ''hash'' = json_get e ''hash''"
  shows "norm (JObj d) = norm (JObj e)" "norm p = norm q"
proof -
  let ?d = "dict_pop ''hash'' d" and ?e = "dict_pop ''hash'' e"
  have pq: "json_get d ''previous_hash'' = p" "json_get e ''previous_hash'' = q"
    and h: "json_get d ''hash'' = JStr (hash_entry sha ?d)" "json_get e ''hash'' = JStr (hash_entry sha ?e)"
    using assms(4,5) by (auto simp: row_errors_def split: if_splits)
  with assms(3,6) have "ledger_canonical ?d = ledger_canonical ?e" by (simp add: collision_def)
  then have n: "norm (JObj ?d) = norm (JObj ?e)"
    unfolding ledger_canonical_def using assms(1,2) by (intro compact.enc_inject wf_dict_pop)
  have dk: "distinct (keys ?d)" "distinct (keys ?e)"
    using assms(1,2) by (auto simp: distinct_dict_pop)
  have g: "map_option norm (dict_get d k) = map_option norm (dict_get e k)" if "k \<noteq> ''hash''" for k
    using norm_obj_eqD [OF dk n, of k] that by simp
  have hs: "dict_get d ''hash'' = dict_get e ''hash''"
    using h assms(6) by (simp add: json_get_def split: option.splits)
  show "norm (JObj d) = norm (JObj e)"
    using assms(1,2) g hs by (intro norm_obj_eqI) (auto, metis)
  from g [of "''previous_hash''"] have "norm (json_get d ''previous_hash'') = norm (json_get e ''previous_hash'')"
    by (auto simp: json_get_def split: option.splits)
  with pq show "norm p = norm q" by simp
qed

lemma verify_rows_snoc:
  assumes "verify_rows sha 0 p (rows @ [r]) = Inr ([], h)"
  obtains d prev where "r = JObj d" "verify_rows sha 0 p rows = Inr ([], prev)"
    "row_errors sha (length rows) prev d = []" "h = json_get d ''hash''"
proof -
  have "\<exists>d prev. r = JObj d \<and> verify_rows sha i p rows = Inr ([], prev) \<and>
      row_errors sha (i + length rows) prev d = [] \<and> h = json_get d ''hash''"
    if "verify_rows sha i p (rows @ [r]) = Inr ([], h)" for i
    using that
  proof (induction rows arbitrary: i p)
    case Nil
    then show ?case by (auto simp: bindE_Inr_conv as_row_def split: json.splits)
  next
    case (Cons x rows)
    then obtain d where "as_row x = Inr d" "row_errors sha i p d = []"
      "verify_rows sha (Suc i) (json_get d ''hash'') (rows @ [r]) = Inr ([], h)"
      by (auto simp: bindE_Inr_conv)
    with Cons.IH show ?case by fastforce
  qed
  from this [OF assms] that show thesis by auto
qed

lemma verified_rows_agree:
  "verify_rows sha 0 JNull rows = Inr ([], h) \<Longrightarrow> verify_rows sha 0 JNull rows' = Inr ([], h) \<Longrightarrow>
   length rows = length rows' \<Longrightarrow> \<forall>r \<in> set rows \<union> set rows'. wf_json r \<Longrightarrow>
   (\<forall>r \<in> set rows. \<forall>s \<in> set rows'.
      \<not> collision sha (dict_pop ''hash'' (row_dict r)) (dict_pop ''hash'' (row_dict s))) \<Longrightarrow>
   map norm rows = map norm rows'"
proof (induction rows arbitrary: rows' h rule: rev_induct)
  case (snoc r rows)
  obtain s rows2 where r2: "rows' = rows2 @ [s]" using snoc.prems(3) by (cases rows' rule: rev_cases) auto
  obtain d p where d: "r = JObj d" "verify_rows sha 0 JNull rows = Inr ([], p)"
    "row_errors sha (length rows) p d = []" "h = json_get d ''hash''"
    using verify_rows_snoc [OF snoc.prems(1)] by metis
  obtain e q where e: "s = JObj e" "verify_rows sha 0 JNull rows2 = Inr ([], q)"
    "row_errors sha (length rows2) q e = []" "h = json_get e ''hash''"
    using verify_rows_snoc [OF snoc.prems(2) [unfolded r2]] by metis
  have len: "length rows = length rows2" using snoc.prems(3) r2 by simp
  have "norm (JObj d) = norm (JObj e)" "norm p = norm q"
    using rows_agree [of d e sha "length rows" p q] snoc.prems(4,5) d e r2 len
    by (auto simp: row_dict_def)
  moreover have "norm p = p" "norm q = q"
    using verified_final_norm [OF d(2)] verified_final_norm [OF e(2)] by simp_all
  ultimately have "map norm rows = map norm rows2"
    using snoc.IH [of p rows2] d e r2 len snoc.prems(4,5) by simp
  with r2 d(1) e(1) \<open>norm (JObj d) = norm (JObj e)\<close> show ?case by simp
qed simp

section \<open>Properties\<close>

text \<open>
  Appending to a verified ledger leaves it verified, with one entry more and the new
  row's hash as its last; the new row links to the hash the ledger ended with.
\<close>

theorem append_keeps_verified:
  assumes "wf_file f" and "verify sha f = Inr v" and "vr_ok v"
    and "append_entry sha hex now a f = Inr (signed, f')" and "ok_row (JObj signed)"
  shows "json_get signed ''previous_hash'' = vr_last_hash v \<and> wf_file f' \<and>
    verify sha f' = Inr \<lparr>vr_ok = True, vr_entry_count = Suc (vr_entry_count v),
      vr_last_hash = json_get signed ''hash'', vr_errors = []\<rparr>"
proof -
  obtain rows final where rows: "read_jsonl f = Inr rows" "verify_rows sha 0 JNull rows = Inr ([], final)"
    and v: "vr_last_hash v = final" "vr_entry_count v = length rows"
    using assms(2,3) by (auto simp: verify_def entries_def bindE_Inr_conv split: sum.splits)
  let ?e = "make_entry hex now a final"
  have s: "signed = signed_dict sha ?e" and f': "f' = append_jsonl f (JObj signed)"
    using assms(4) verify_last_hash [OF assms(2)] v(1) by (auto simp: append_entry_def Let_def)
  have p: "le_hash ?e = None" "norm (le_previous_hash ?e) = le_previous_hash ?e" "le_previous_hash ?e = final"
    using verified_final_norm [OF rows(2)] by (simp_all add: make_entry_def)
  note row = signed_dict_row [OF p(1,2) s]
  obtain d' where d': "norm (JObj signed) = JObj d'" by simp
  have r: "row_errors sha i final d' = []" "json_get d' ''hash'' = json_get signed ''hash''" for i
    using row_errors_norm [OF row(1) d'] row p row_errors_signed [OF p(1,2), of sha i] s
    by simp_all
  have "read_jsonl f' = Inr (rows @ [JObj d'])"
    using jsonl.read_append [OF assms(1,5) rows(1)] d' f' by simp
  then have "verify sha f' = Inr \<lparr>vr_ok = True, vr_entry_count = Suc (length rows),
      vr_last_hash = json_get signed ''hash'', vr_errors = []\<rparr>"
    using verify_rows_append [OF rows(2), of d'] r by (simp add: verify_def entries_def)
  then show ?thesis using v row(2) p(3) f' by (simp add: wf_append_jsonl)
qed

theorem append_keeps_verified_witness:
  "\<exists>signed f'. append_entry (\<lambda>s. ''h'') ''0123456789abcdef'' 0
      \<lparr>la_actor = ''a'', la_action = ''b'', la_entity_type = ''c'', la_entity_id = ''d'', la_summary = ''e'',
       la_evidence_links = [], la_payload = [], la_correlation_id = None\<rparr> None = Inr (signed, f') \<and>
    verify (\<lambda>s. ''h'') f' = Inr \<lparr>vr_ok = True, vr_entry_count = 1, vr_last_hash = JStr ''h'', vr_errors = []\<rparr>"
proof -
  let ?a = "\<lparr>la_actor = ''a'', la_action = ''b'', la_entity_type = ''c'', la_entity_id = ''d'', la_summary = ''e'',
       la_evidence_links = [], la_payload = [], la_correlation_id = None\<rparr>"
  let ?s = "signed_dict (\<lambda>s. ''h'') (make_entry ''0123456789abcdef'' 0 ?a JNull)"
  have v: "verify (\<lambda>s. ''h'') None = Inr \<lparr>vr_ok = True, vr_entry_count = 0, vr_last_hash = JNull, vr_errors = []\<rparr>"
    by (simp add: verify_def entries_def read_jsonl_def)
  have a: "append_entry (\<lambda>s. ''h'') ''0123456789abcdef'' 0 ?a None = Inr (?s, append_jsonl None (JObj ?s))"
    by (simp add: append_entry_def last_hash_def entries_def read_jsonl_def Let_def)
  have s: "?s = [(''ledger_id'', JStr ''led.0123456789abcdef''), (''timestamp'', JStr ''1970-01-01T00:00:00Z''),
     (''actor'', JStr ''a''), (''action'', JStr ''b''), (''entity_type'', JStr ''c''), (''entity_id'', JStr ''d''),
     (''summary'', JStr ''e''), (''evidence_links'', JList []), (''payload'', JObj []),
     (''correlation_id'', JNull), (''previous_hash'', JNull), (''hash'', JStr ''h'')]"
    by code_simp
  have ok: "ok_row (JObj ?s)" by (simp add: s ok_row_def)
  show ?thesis
    using append_keeps_verified [OF _ v _ a ok] a s by (auto simp: wf_file_def json_get_def)
qed

text \<open>
  C15: Tamper evidence: two ledger files that both verify, have the same number of entries
  and the same last hash hold the same rows (up to the order of keys in a row), provided no
  row text of one and different row text of the other have the same SHA-256 digest. So a
  ledger that differs from a verified one in any row, and still verifies with as many
  entries, shows another last hash.\<close>

theorem ledger_tamper_evident:
  assumes "verify sha f = Inr v" "vr_ok v" and "verify sha g = Inr w" "vr_ok w"
    and "vr_entry_count v = vr_entry_count w" and "vr_last_hash v = vr_last_hash w"
    and "entries f = Inr rows" and "entries g = Inr rows'"
    and "\<forall>r \<in> set rows. \<forall>s \<in> set rows'.
      \<not> collision sha (dict_pop ''hash'' (row_dict r)) (dict_pop ''hash'' (row_dict s))"
  shows "map norm rows = map norm rows'"
proof -
  have "\<forall>r \<in> set rows \<union> set rows'. wf_json r"
    using assms(7,8) read_jsonl_wf by (auto simp: entries_def split: sum.splits)
  moreover have "verify_rows sha 0 JNull rows = Inr ([], vr_last_hash v)"
    "verify_rows sha 0 JNull rows' = Inr ([], vr_last_hash v)" "length rows = length rows'"
    using assms(1-8) by (auto simp: verify_def bindE_Inr_conv)
  ultimately show ?thesis using assms(9) verified_rows_agree by blast
qed

theorem ledger_tamper_evident_witness:
  "\<exists>rows rows'. entries (append_jsonl None (JObj [(''hash'', JStr ''h''), (''previous_hash'', JNull)])) = Inr rows \<and>
    entries (append_jsonl (Some [CHR 0x0A]) (JObj [(''previous_hash'', JNull), (''hash'', JStr ''h'')])) = Inr rows' \<and>
    map norm rows = map norm rows'"
proof -
  let ?f = "append_jsonl None (JObj [(''hash'', JStr ''h''), (''previous_hash'', JNull)])"
  let ?g = "append_jsonl (Some [CHR 0x0A]) (JObj [(''previous_hash'', JNull), (''hash'', JStr ''h'')])"
  let ?r = "[JObj [(''hash'', JStr ''h''), (''previous_hash'', JNull)]]"
  let ?v = "\<lparr>vr_ok = True, vr_entry_count = 1, vr_last_hash = JStr ''h'', vr_errors = []\<rparr>"
  have e: "entries ?f = Inr ?r" "entries ?g = Inr ?r" by code_simp+
  have v: "verify (\<lambda>s. ''h'') ?f = Inr ?v" "verify (\<lambda>s. ''h'') ?g = Inr ?v"
    by (simp_all add: verify_def e row_errors_def json_get_def hash_entry_def as_row_def)
  show ?thesis
    using ledger_tamper_evident [OF v(1) _ v(2) _ _ _ e] e by (auto simp: collision_def row_dict_def)
qed

end
