(* ===== verification/State_Result.thy ===== *)
theory State_Result
  imports Aether_Prelude
begin

text \<open>
  Stateful code that can raise: a computation takes the state and returns an exception or a
  value together with the state it leaves. An exception keeps the effects made before it.
\<close>

type_synonym ('s, 'e, 'a) comp = "'s \<Rightarrow> ('e + 'a) \<times> 's"

definition ret :: "'a \<Rightarrow> ('s, 'e, 'a) comp" where
  "ret x s = (Inr x, s)"

definition throw :: "'e \<Rightarrow> ('s, 'e, 'a) comp" where
  "throw e s = (Inl e, s)"

definition bindS :: "('s, 'e, 'a) comp \<Rightarrow> ('a \<Rightarrow> ('s, 'e, 'b) comp) \<Rightarrow> ('s, 'e, 'b) comp" where
  "bindS m f s = (case m s of (Inl e, s') \<Rightarrow> (Inl e, s') | (Inr x, s') \<Rightarrow> f x s')"

definition getS :: "('s \<Rightarrow> 'a) \<Rightarrow> ('s, 'e, 'a) comp" where
  "getS f s = (Inr (f s), s)"

definition modS :: "('s \<Rightarrow> 's) \<Rightarrow> ('s, 'e, unit) comp" where
  "modS f s = (Inr (), f s)"

definition liftE :: "('d \<Rightarrow> 'e) \<Rightarrow> 'd + 'a \<Rightarrow> ('s, 'e, 'a) comp" where
  "liftE h r s = (case r of Inl d \<Rightarrow> (Inl (h d), s) | Inr x \<Rightarrow> (Inr x, s))"

named_theorems comp_simps "evaluation of stateful computations"

lemma comp_basic [comp_simps]:
  "ret x s = (Inr x, s)" "throw e s = (Inl e, s)" "getS f s = (Inr (f s), s)" "modS g s = (Inr (), g s)"
  by (simp_all add: ret_def throw_def getS_def modS_def)

lemma liftE_simps [comp_simps]: "liftE h (Inl d) s = (Inl (h d), s)" "liftE h (Inr x) s = (Inr x, s)"
  by (simp_all add: liftE_def)

lemma bindS_Inr: "m s = (Inr x, s') \<Longrightarrow> bindS m f s = f x s'"
  by (simp add: bindS_def)

lemma bindS_Inl: "m s = (Inl e, s') \<Longrightarrow> bindS m f s = (Inl e, s')"
  by (simp add: bindS_def)

lemma bindS_simps [comp_simps]:
  "bindS (ret x) f s = f x s" "bindS (throw e) f s = (Inl e, s)" "bindS (getS g) f s = f (g s) s"
  "bindS (modS h) k s = k () (h s)" "bindS (liftE l (Inl d)) f s = (Inl (l d), s)"
  "bindS (liftE l (Inr x)) f s = f x s"
  by (simp_all add: bindS_def comp_simps)

lemma bindS_assoc [comp_simps]: "bindS (bindS m f) g s = bindS m (\<lambda>x. bindS (f x) g) s"
  by (simp add: bindS_def split: prod.splits sum.splits)

lemma bindS_cases:
  assumes "bindS m f s = (r, s'')"
  obtains (raised) e where "m s = (Inl e, s'')" "r = Inl e"
    | (returned) x s' where "m s = (Inr x, s')" "f x s' = (r, s'')"
  using assms by (auto simp: bindS_def split: prod.splits sum.splits)

text \<open>An assertion about the state that a computation keeps, whatever it returns.\<close>

definition keeps :: "('s \<Rightarrow> bool) \<Rightarrow> ('s, 'e, 'a) comp \<Rightarrow> bool" where
  "keeps P m = (\<forall>s. P s \<longrightarrow> P (snd (m s)))"

named_theorems keeps_intros "rules for computations that keep an assertion"

lemma keepsD: "keeps P m \<Longrightarrow> P s \<Longrightarrow> m s = (r, s') \<Longrightarrow> P s'"
  by (auto simp: keeps_def dest: spec [of _ s])

lemma keeps_basic [keeps_intros]: "keeps P (ret x)" "keeps P (throw e)" "keeps P (getS f)" "keeps P (liftE h r)"
  by (auto simp: keeps_def comp_simps liftE_def split: sum.splits)

lemma keeps_modS: "(\<And>s. P s \<Longrightarrow> P (g s)) \<Longrightarrow> keeps P (modS g)"
  by (auto simp: keeps_def comp_simps)

lemma keeps_bindS [keeps_intros]: "keeps P m \<Longrightarrow> (\<And>x. keeps P (f x)) \<Longrightarrow> keeps P (bindS m f)"
  by (auto simp: keeps_def bindS_def split: prod.splits sum.splits)

lemma keeps_if [keeps_intros]: "(b \<Longrightarrow> keeps P m) \<Longrightarrow> (\<not> b \<Longrightarrow> keeps P n) \<Longrightarrow> keeps P (if b then m else n)"
  by simp

lemma keeps_option [keeps_intros]:
  "(x = None \<Longrightarrow> keeps P m) \<Longrightarrow> (\<And>y. x = Some y \<Longrightarrow> keeps P (f y)) \<Longrightarrow> keeps P (case x of None \<Rightarrow> m | Some y \<Rightarrow> f y)"
  by (cases x) simp_all

lemma keeps_prod [keeps_intros]: "(\<And>a b. keeps P (f a b)) \<Longrightarrow> keeps P (case x of (a, b) \<Rightarrow> f a b)"
  by (cases x) simp

lemma keeps_let [keeps_intros]: "(\<And>x. keeps P (f x)) \<Longrightarrow> keeps P (let x = a in f x)"
  by simp

text \<open>
  Weakest preconditions: \<open>E\<close> is to hold of the state an exception leaves, \<open>Q\<close> of a value and the
  state it comes with.
\<close>

definition wp :: "('s, 'e, 'a) comp \<Rightarrow> ('s \<Rightarrow> bool) \<Rightarrow> ('a \<Rightarrow> 's \<Rightarrow> bool) \<Rightarrow> 's \<Rightarrow> bool" where
  "wp m E Q s = (case m s of (Inl e, s') \<Rightarrow> E s' | (Inr x, s') \<Rightarrow> Q x s')"

named_theorems wp_simps "weakest preconditions with exceptions"

lemma wp_basic [wp_simps]:
  "wp (ret x) E Q s = Q x s" "wp (throw e) E Q s = E s" "wp (getS f) E Q s = Q (f s) s" "wp (modS g) E R s = R () (g s)"
  by (simp_all add: wp_def comp_simps)

lemma wp_bindS [wp_simps]: "wp (bindS m f) E Q s = wp m E (\<lambda>x. wp (f x) E Q) s"
  by (simp add: wp_def bindS_def split: prod.splits sum.splits)

lemma wp_mono: "wp m E Q s \<Longrightarrow> (\<And>x s'. Q x s' \<Longrightarrow> R x s') \<Longrightarrow> wp m E R s"
  by (simp add: wp_def split: prod.splits sum.splits)

lemma wpD: "wp m E (\<lambda>_. E) s \<Longrightarrow> E (snd (m s))"
  by (simp add: wp_def split: prod.splits sum.splits)

end
