(* ===== verification/Contracts_Actions.thy ===== *)
theory Contracts_Actions
  imports Ledger
begin

text \<open>
  \<open>contracts/actions.py\<close>: the data the governed action path works on, and the canonical action
  hash that binds an approval to one exact proposal.

  Values of type \<open>Any\<close> (arguments, metadata, outputs) are \<open>pyval\<close>; dictionary keys are
  strings. A set and an enum member carry the text \<open>str\<close> gives for them, an object of any other
  class is only that text. \<open>to_json\<close> is what \<open>json.dumps\<close> accepts (\<open>None\<close> where it raises
  \<open>TypeError\<close>), \<open>of_json\<close> what \<open>json.loads\<close> builds.
\<close>

section \<open>Python values\<close>

datatype pyval = PNone | PBool bool | PInt int | PFloat string | PStr string
  | PList "pyval list" | PTuple "pyval list" | PSet "pyval list" string
  | PDict "(string \<times> pyval) list" | PStrEnum string | PEnum pyval string | POpaque string

primrec json_safe :: "pyval \<Rightarrow> json" where
  "json_safe PNone = JNull"
| "json_safe (PBool b) = JBool b"
| "json_safe (PInt i) = JInt i"
| "json_safe (PFloat t) = JFloat t"
| "json_safe (PStr s) = JStr s"
| "json_safe (PList xs) = JList (map json_safe xs)"
| "json_safe (PTuple xs) = JList (map json_safe xs)"
| "json_safe (PSet xs t) = JList (map json_safe xs)"
| "json_safe (PDict kvs) = JObj (map (map_prod id json_safe) kvs)"
| "json_safe (PStrEnum s) = JStr s"
| "json_safe (PEnum v t) = json_safe v"
| "json_safe (POpaque t) = JStr t"

fun all_some :: "'a option list \<Rightarrow> 'a list option" where
  "all_some [] = Some []"
| "all_some (None # xs) = None"
| "all_some (Some x # xs) = map_option ((#) x) (all_some xs)"

primrec to_json :: "pyval \<Rightarrow> json option" where
  "to_json PNone = Some JNull"
| "to_json (PBool b) = Some (JBool b)"
| "to_json (PInt i) = Some (JInt i)"
| "to_json (PFloat t) = Some (JFloat t)"
| "to_json (PStr s) = Some (JStr s)"
| "to_json (PList xs) = map_option JList (all_some (map to_json xs))"
| "to_json (PTuple xs) = map_option JList (all_some (map to_json xs))"
| "to_json (PSet xs t) = None"
| "to_json (PDict kvs) =
     map_option JObj (all_some (map (\<lambda>(k, j). map_option (Pair k) j) (map (map_prod id to_json) kvs)))"
| "to_json (PStrEnum s) = Some (JStr s)"
| "to_json (PEnum v t) = None"
| "to_json (POpaque t) = None"

text \<open>\<open>json.dumps(..., default=str)\<close>: what it cannot serialise is written as its text.\<close>

primrec to_json_str :: "pyval \<Rightarrow> json" where
  "to_json_str PNone = JNull"
| "to_json_str (PBool b) = JBool b"
| "to_json_str (PInt i) = JInt i"
| "to_json_str (PFloat t) = JFloat t"
| "to_json_str (PStr s) = JStr s"
| "to_json_str (PList xs) = JList (map to_json_str xs)"
| "to_json_str (PTuple xs) = JList (map to_json_str xs)"
| "to_json_str (PSet xs t) = JStr t"
| "to_json_str (PDict kvs) = JObj (map (map_prod id to_json_str) kvs)"
| "to_json_str (PStrEnum s) = JStr s"
| "to_json_str (PEnum v t) = JStr t"
| "to_json_str (POpaque t) = JStr t"

primrec of_json :: "json \<Rightarrow> pyval" where
  "of_json JNull = PNone"
| "of_json (JBool b) = PBool b"
| "of_json (JInt i) = PInt i"
| "of_json (JFloat t) = PFloat t"
| "of_json (JStr s) = PStr s"
| "of_json (JList xs) = PList (map of_json xs)"
| "of_json (JObj kvs) = PDict (map (map_prod id of_json) kvs)"

primrec wf_py :: "pyval \<Rightarrow> bool" where
  "wf_py PNone = True"
| "wf_py (PBool b) = True"
| "wf_py (PInt i) = True"
| "wf_py (PFloat t) = float_text t"
| "wf_py (PStr s) = True"
| "wf_py (PList xs) = list_all id (map wf_py xs)"
| "wf_py (PTuple xs) = list_all id (map wf_py xs)"
| "wf_py (PSet xs t) = list_all id (map wf_py xs)"
| "wf_py (PDict kvs) = (distinct (keys kvs) \<and> list_all snd (map (map_prod id wf_py) kvs))"
| "wf_py (PStrEnum s) = True"
| "wf_py (PEnum v t) = wf_py v"
| "wf_py (POpaque t) = True"

subsection \<open>Truth and text of a value\<close>

definition zero_float :: "string \<Rightarrow> bool" where
  "zero_float t = (let m = takeWhile (\<lambda>c. c \<notin> set ''eE'') t in
     m \<noteq> [] \<and> list_all (\<lambda>c. c \<in> set ''-0.'') m)"

definition truthy :: "json \<Rightarrow> bool" where
  "truthy j = (case j of JNull \<Rightarrow> False | JBool b \<Rightarrow> b | JInt i \<Rightarrow> i \<noteq> 0
     | JFloat t \<Rightarrow> \<not> zero_float t | JStr s \<Rightarrow> s \<noteq> [] | JList xs \<Rightarrow> xs \<noteq> [] | JObj kvs \<Rightarrow> kvs \<noteq> [])"

definition repr_char :: "char \<Rightarrow> char \<Rightarrow> string" where
  "repr_char q c = (let n = (of_char c :: nat) in
     if c = q \<or> n = 92 then [CHR 0x5C, c]
     else if n = 10 then [CHR 0x5C, CHR ''n''] else if n = 13 then [CHR 0x5C, CHR ''r'']
     else if n = 9 then [CHR 0x5C, CHR ''t'']
     else if n < 32 \<or> (127 \<le> n \<and> n \<le> 160) \<or> n = 173
       then [CHR 0x5C, CHR ''x'', hex_char (n div 16), hex_char (n mod 16)]
     else [c])"

definition repr_str :: "string \<Rightarrow> string" where
  "repr_str s = (let q = (if CHR 0x27 \<in> set s \<and> CHR 0x22 \<notin> set s then CHR 0x22 else CHR 0x27) in
     q # concat (map (repr_char q) s) @ [q])"

primrec py_repr :: "json \<Rightarrow> string" where
  "py_repr JNull = ''None''"
| "py_repr (JBool b) = (if b then ''True'' else ''False'')"
| "py_repr (JInt i) = int_str i"
| "py_repr (JFloat t) = (if t = ''NaN'' then ''nan'' else if t = ''Infinity'' then ''inf''
     else if t = ''-Infinity'' then ''-inf'' else t)"
| "py_repr (JStr s) = repr_str s"
| "py_repr (JList xs) = ''['' @ join '', '' (map py_repr xs) @ '']''"
| "py_repr (JObj kvs) = ''{'' @ join '', ''
     (map (\<lambda>(k, t). repr_str k @ '': '' @ t) (map (map_prod id py_repr) kvs)) @ ''}''"

definition py_str :: "json \<Rightarrow> string" where
  "py_str j = (case j of JStr s \<Rightarrow> s | _ \<Rightarrow> py_repr j)"

text \<open>\<open>str(d.get(k) or default)\<close>.\<close>

definition get_or :: "(string, json) dict \<Rightarrow> string \<Rightarrow> string \<Rightarrow> string" where
  "get_or d k dflt = (let v = json_get d k in if truthy v then py_str v else dflt)"

section \<open>Enumerations\<close>

datatype action_target = TOOL | RUNTIME
datatype action_scope = READ | WRITE | EXECUTE | NETWORK | MEMORY
datatype action_risk = LOW | MEDIUM | HIGH | CRITICAL
datatype approval_status = PENDING | APPROVED | REJECTED | EXPIRED | EXECUTING | CONSUMED

fun target_value :: "action_target \<Rightarrow> string" where
  "target_value TOOL = ''tool''"
| "target_value RUNTIME = ''runtime''"

fun scope_value :: "action_scope \<Rightarrow> string" where
  "scope_value READ = ''read''"
| "scope_value WRITE = ''write''"
| "scope_value EXECUTE = ''execute''"
| "scope_value NETWORK = ''network''"
| "scope_value MEMORY = ''memory''"

fun risk_value :: "action_risk \<Rightarrow> string" where
  "risk_value LOW = ''low''"
| "risk_value MEDIUM = ''medium''"
| "risk_value HIGH = ''high''"
| "risk_value CRITICAL = ''critical''"

fun status_value :: "approval_status \<Rightarrow> string" where
  "status_value PENDING = ''pending''"
| "status_value APPROVED = ''approved''"
| "status_value REJECTED = ''rejected''"
| "status_value EXPIRED = ''expired''"
| "status_value EXECUTING = ''executing''"
| "status_value CONSUMED = ''consumed''"

text \<open>\<open>ActionTarget(text)\<close> and its kin: the member with that value, else \<open>ValueError\<close>.\<close>

definition enum_of :: "('a \<Rightarrow> string) \<Rightarrow> 'a list \<Rightarrow> string \<Rightarrow> 'a option" where
  "enum_of value members s = find (\<lambda>m. value m = s) members"

definition target_of :: "string \<Rightarrow> action_target option" where
  "target_of = enum_of target_value [TOOL, RUNTIME]"

definition scope_of :: "string \<Rightarrow> action_scope option" where
  "scope_of = enum_of scope_value [READ, WRITE, EXECUTE, NETWORK, MEMORY]"

definition risk_of :: "string \<Rightarrow> action_risk option" where
  "risk_of = enum_of risk_value [LOW, MEDIUM, HIGH, CRITICAL]"

definition status_of :: "string \<Rightarrow> approval_status option" where
  "status_of = enum_of status_value [PENDING, APPROVED, REJECTED, EXPIRED, EXECUTING, CONSUMED]"

section \<open>Records\<close>

record action_capability =
  cap_target :: action_target
  cap_operation :: string
  cap_description :: string
  cap_required_scopes :: "action_scope list"
  cap_reversible :: bool
  cap_input_schema :: "(string, pyval) dict"
  cap_routing_key :: "string option"
  cap_cancel_supported :: bool

record action_proposal =
  ap_target :: action_target
  ap_operation :: string
  ap_arguments :: "(string, pyval) dict"
  ap_required_scopes :: "action_scope list"
  ap_reason :: string
  ap_risk :: action_risk
  ap_reversible :: bool
  ap_correlation_id :: "string option"
  ap_retry_reason :: "string option"
  ap_metadata :: "(string, pyval) dict"
  ap_action_id :: string

record action_approval =
  aa_principal :: string
  aa_scopes :: "action_scope list"
  aa_reason :: string
  aa_approval_id :: string
  aa_action_hash :: "string option"
  aa_issued_at :: "instant option"
  aa_expires_at :: "instant option"
  aa_channel :: "string option"

record action_decision =
  ad_approved :: bool
  ad_mode :: string
  ad_reasons :: "string list"
  ad_warnings :: "string list"
  ad_decision_id :: string

record action_result =
  ar_action_id :: string
  ar_ok :: bool
  ar_status :: string
  ar_output :: pyval
  ar_error :: "string option"
  ar_metadata :: "(string, pyval) dict"
  ar_failure_fingerprint :: "string option"

record control_receipt =
  cr_action_id :: string
  cr_control_request_id :: string
  cr_status :: string
  cr_receipt_id :: string
  cr_terminal :: bool
  cr_replayed :: bool

section \<open>Payloads and the canonical hash\<close>

definition proposal_payload :: "action_proposal \<Rightarrow> (string, json) dict" where
  "proposal_payload p = [
     (''action_id'', JStr (ap_action_id p)),
     (''target'', JStr (target_value (ap_target p))),
     (''operation'', JStr (ap_operation p)),
     (''arguments'', json_safe (PDict (ap_arguments p))),
     (''required_scopes'', JList (map (JStr \<circ> scope_value) (ap_required_scopes p))),
     (''reason'', JStr (ap_reason p)),
     (''risk'', JStr (risk_value (ap_risk p))),
     (''reversible'', JBool (ap_reversible p)),
     (''correlation_id'', json_opt (ap_correlation_id p)),
     (''retry_reason'', json_opt (ap_retry_reason p)),
     (''metadata'', json_safe (PDict (ap_metadata p)))]"

definition canonical_text :: "action_proposal \<Rightarrow> string" where
  "canonical_text p = dumps compact_utf8 (JObj (dict_pop ''correlation_id'' (proposal_payload p)))"

definition canonical_action_hash :: "digest \<Rightarrow> action_proposal \<Rightarrow> string" where
  "canonical_action_hash sha p = sha (canonical_text p)"

datatype contract_error = Missing_Key string | Bad_Enum string | Bad_Type string

text \<open>\<open>dict(payload.get(k) or {})\<close>; a truthy value that is no dictionary is a type error.\<close>

definition get_dict :: "(string, json) dict \<Rightarrow> string \<Rightarrow> contract_error + (string, pyval) dict" where
  "get_dict d k = (let v = json_get d k in
     if \<not> truthy v then Inr []
     else (case v of JObj kvs \<Rightarrow> Inr (map (map_prod id of_json) kvs) | _ \<Rightarrow> Inl (Bad_Type k)))"

definition get_key :: "(string, json) dict \<Rightarrow> string \<Rightarrow> contract_error + string" where
  "get_key d k = (case dict_get d k of None \<Rightarrow> Inl (Missing_Key k) | Some v \<Rightarrow> Inr (py_str v))"

text \<open>A field the code passes on unconverted: a string or null, as its annotation says.\<close>

definition get_text_or_null :: "(string, json) dict \<Rightarrow> string \<Rightarrow> contract_error + string option" where
  "get_text_or_null d k = (case json_get d k of JNull \<Rightarrow> Inr None | JStr s \<Rightarrow> Inr (Some s)
     | _ \<Rightarrow> Inl (Bad_Type k))"

definition get_scopes :: "(string, json) dict \<Rightarrow> contract_error + action_scope list" where
  "get_scopes d = (let v = json_get d ''required_scopes'' in
     if \<not> truthy v then Inr []
     else (case v of
       JList xs \<Rightarrow> map_result (\<lambda>x. of_option (Bad_Enum (py_str x)) (scope_of (py_str x))) xs
     | _ \<Rightarrow> Inl (Bad_Type ''required_scopes'')))"

definition proposal_from_payload :: "(string, json) dict \<Rightarrow> contract_error + action_proposal" where
  "proposal_from_payload d =
     bindE (get_key d ''target'') (\<lambda>t. bindE (of_option (Bad_Enum t) (target_of t)) (\<lambda>target.
     bindE (get_key d ''operation'') (\<lambda>operation.
     bindE (get_dict d ''arguments'') (\<lambda>arguments.
     bindE (get_scopes d) (\<lambda>scopes.
     let reason = get_or d ''reason'' []; r = get_or d ''risk'' ''low'' in
     bindE (of_option (Bad_Enum r) (risk_of r)) (\<lambda>risk.
     let reversible = (case dict_get d ''reversible'' of None \<Rightarrow> True | Some v \<Rightarrow> truthy v) in
     bindE (get_text_or_null d ''correlation_id'') (\<lambda>co.
     bindE (get_text_or_null d ''retry_reason'') (\<lambda>rr.
     bindE (get_dict d ''metadata'') (\<lambda>metadata.
     bindE (get_key d ''action_id'') (\<lambda>action_id.
     Inr \<lparr>ap_target = target, ap_operation = operation, ap_arguments = arguments,
          ap_required_scopes = scopes, ap_reason = reason, ap_risk = risk,
          ap_reversible = reversible, ap_correlation_id = co, ap_retry_reason = rr,
          ap_metadata = metadata, ap_action_id = action_id\<rparr>))))))))))"

section \<open>Lemmas\<close>

lemma enum_of_value [simp]:
  "target_of (target_value t) = Some t" "scope_of (scope_value s) = Some s"
  "risk_of (risk_value r) = Some r" "status_of (status_value a) = Some a"
proof -
  show "target_of (target_value t) = Some t" by (cases t) (simp_all add: target_of_def enum_of_def)
  show "scope_of (scope_value s) = Some s" by (cases s) (simp_all add: scope_of_def enum_of_def)
  show "risk_of (risk_value r) = Some r" by (cases r) (simp_all add: risk_of_def enum_of_def)
  show "status_of (status_value a) = Some a" by (cases a) (simp_all add: status_of_def enum_of_def)
qed

lemma value_nonempty [simp]: "risk_value r \<noteq> []" "scope_value s \<noteq> []" "target_value t \<noteq> []"
proof -
  show "risk_value r \<noteq> []" by (cases r) simp_all
  show "scope_value s \<noteq> []" by (cases s) simp_all
  show "target_value t \<noteq> []" by (cases t) simp_all
qed

lemma json_safe_of_json [simp]: "json_safe (of_json j) = j"
proof (induction j)
  case (JList xs)
  then show ?case by (simp add: map_idI)
next
  case (JObj kvs)
  then show ?case by (auto simp: prod_set_simps intro!: map_idI)
qed auto

lemma json_safe_PDict_of_json [simp]:
  "map (map_prod id json_safe \<circ> map_prod id of_json) kvs = kvs"
  by (rule map_idI) auto

lemma keys_map_prod [simp]: "keys (map (map_prod id f) kvs) = keys kvs"
  by simp

lemma wf_json_safe: "wf_py v \<Longrightarrow> wf_json (json_safe v)"
proof (induction v)
  case (PDict kvs)
  then show ?case by (auto simp: list_all_iff prod_set_simps comp_def)
qed (auto simp: list_all_iff)

lemma truthy_simps [simp]:
  "truthy JNull = False" "truthy (JBool b) = b" "truthy (JInt i) = (i \<noteq> 0)"
  "truthy (JStr s) = (s \<noteq> [])" "truthy (JList xs) = (xs \<noteq> [])" "truthy (JObj kvs) = (kvs \<noteq> [])"
  by (simp_all add: truthy_def)

lemma py_str_JStr [simp]: "py_str (JStr s) = s"
  by (simp add: py_str_def)

lemma map_result_Inr: "(\<And>x. x \<in> set xs \<Longrightarrow> f x = Inr (g x)) \<Longrightarrow> map_result f xs = Inr (map g xs)"
  by (induction xs) auto

text \<open>A dictionary agrees with another up to the order of keys at every depth.\<close>

definition same_fields :: "(string, json) dict \<Rightarrow> (string, json) dict \<Rightarrow> bool" where
  "same_fields d e = (\<forall>k. map_option norm (dict_get d k) = map_option norm (dict_get e k))"

text \<open>What a stored proposal is read back as: JSON values for the arguments and the metadata.\<close>

definition stored_proposal :: "action_proposal \<Rightarrow> action_proposal" where
  "stored_proposal p = p\<lparr>
     ap_arguments := map (map_prod id of_json) (norm_dict (map (map_prod id json_safe) (ap_arguments p))),
     ap_metadata := map (map_prod id of_json) (norm_dict (map (map_prod id json_safe) (ap_metadata p)))\<rparr>"

definition wf_proposal :: "action_proposal \<Rightarrow> bool" where
  "wf_proposal p = (wf_py (PDict (ap_arguments p)) \<and> wf_py (PDict (ap_metadata p)))"

lemma keys_proposal_payload: "keys (proposal_payload p) = [''action_id'', ''target'', ''operation'',
   ''arguments'', ''required_scopes'', ''reason'', ''risk'', ''reversible'', ''correlation_id'',
   ''retry_reason'', ''metadata'']"
  by (simp add: proposal_payload_def)

lemma norm_scope_list [simp]: "map norm (map (JStr \<circ> scope_value) xs) = map (JStr \<circ> scope_value) xs"
  by simp

lemma norm_dict_json: "norm (JObj d) = JObj (norm_dict d)"
  by (simp add: norm_dict_def)

lemma norm_dict_Nil_iff [simp]: "(norm_dict d = []) = (d = [])"
proof -
  have "length (norm_dict d) = length d" by (simp add: norm_dict_def)
  then show ?thesis by (metis length_0_conv)
qed

lemma get_dict_norm:
  "json_get d k = JObj (norm_dict (map (map_prod id json_safe) kvs)) \<Longrightarrow>
    get_dict d k = Inr (map (map_prod id of_json) (norm_dict (map (map_prod id json_safe) kvs)))"
  by (auto simp: get_dict_def Let_def norm_dict_def)

lemma get_scopes_norm:
  "json_get d ''required_scopes'' = JList (map (JStr \<circ> scope_value) xs) \<Longrightarrow> get_scopes d = Inr xs"
  by (auto simp: get_scopes_def Let_def intro!: map_idI
      trans [OF map_result_Inr [where g = "\<lambda>j. the (scope_of (py_str j))"]])

text \<open>Reading back any dictionary that has the payload's fields up to the order of keys.\<close>

lemma proposal_from_stored:
  assumes "norm (JObj (proposal_payload p)) = JObj d"
  shows "proposal_from_payload d = Inr (stored_proposal p)"
proof -
  have "distinct (keys (proposal_payload p))" by (simp add: keys_proposal_payload)
  then have g: "dict_get d k = map_option norm (dict_get (proposal_payload p) k)" for k
    using assms by (rule dict_get_norm_obj)
  have j: "json_get d k = (case dict_get (proposal_payload p) k of None \<Rightarrow> JNull | Some v \<Rightarrow> norm v)" for k
    by (simp add: json_get_def g split: option.splits)
  have args: "get_dict d ''arguments'' = Inr (ap_arguments (stored_proposal p))"
    "get_dict d ''metadata'' = Inr (ap_metadata (stored_proposal p))"
    by (simp_all add: get_dict_norm j proposal_payload_def norm_dict_json stored_proposal_def del: norm.simps)
  have sc: "get_scopes d = Inr (ap_required_scopes p)"
    by (rule get_scopes_norm) (simp add: j proposal_payload_def)
  show ?thesis
    by (simp add: proposal_from_payload_def args sc get_key_def g get_or_def j get_text_or_null_def
        proposal_payload_def Let_def)
      (auto simp: stored_proposal_def json_opt_def split: option.splits)
qed

subsection \<open>The hash\<close>

lemma wf_proposal_payload: "wf_proposal p \<Longrightarrow> wf_json (JObj (proposal_payload p))"
proof -
  assume "wf_proposal p"
  then have "wf_json (json_safe (PDict (ap_arguments p)))" "wf_json (json_safe (PDict (ap_metadata p)))"
    unfolding wf_proposal_def by (blast intro: wf_json_safe)+
  then show ?thesis
    by (simp add: proposal_payload_def del: json_safe.simps wf_json_JObj)
      (simp add: wf_json_JObj del: json_safe.simps)
qed

lemma canonical_text_eq_iff:
  assumes "wf_proposal p" "wf_proposal q"
  shows "canonical_text p = canonical_text q \<longleftrightarrow>
    same_fields (dict_pop ''correlation_id'' (proposal_payload p)) (dict_pop ''correlation_id'' (proposal_payload q))"
    (is "_ = same_fields ?d ?e")
proof -
  have wf: "wf_json (JObj ?d)" "wf_json (JObj ?e)"
    using assms [THEN wf_proposal_payload] wf_dict_pop by blast+
  then have d: "distinct (keys ?d)" "distinct (keys ?e)" by simp_all
  have "canonical_text p = canonical_text q \<longleftrightarrow> norm (JObj ?d) = norm (JObj ?e)"
    unfolding canonical_text_def using compact.enc_inject [OF wf] by (auto simp: dumps_def)
  also have "\<dots> \<longleftrightarrow> same_fields ?d ?e"
    unfolding same_fields_def using norm_obj_eqI [OF d] norm_obj_eqD [OF d] by blast
  finally show ?thesis .
qed

lemma json_opt_inject [simp]: "json_opt a = json_opt b \<longleftrightarrow> a = b"
  by (auto simp: json_opt_def split: option.splits)

lemma inj_values: "inj target_value" "inj scope_value" "inj risk_value" "inj status_value"
  by (rule inj_on_inverseI [of _ "\<lambda>s. the (target_of s)"], simp,
      rule inj_on_inverseI [of _ "\<lambda>s. the (scope_of s)"], simp,
      rule inj_on_inverseI [of _ "\<lambda>s. the (risk_of s)"], simp,
      rule inj_on_inverseI [of _ "\<lambda>s. the (status_of s)"], simp)

lemma inj_scope_list: "map (JStr \<circ> scope_value) xs = map (JStr \<circ> scope_value) ys \<longleftrightarrow> xs = ys"
proof -
  have "inj (JStr \<circ> scope_value)" using inj_values(2) by (simp add: inj_def)
  then show ?thesis using inj_map_eq_map by blast
qed

text \<open>Everything of a proposal that executing it depends on.\<close>

definition same_action :: "action_proposal \<Rightarrow> action_proposal \<Rightarrow> bool" where
  "same_action p q =
     (ap_action_id p = ap_action_id q \<and> ap_target p = ap_target q \<and> ap_operation p = ap_operation q \<and>
      norm (json_safe (PDict (ap_arguments p))) = norm (json_safe (PDict (ap_arguments q))) \<and>
      ap_required_scopes p = ap_required_scopes q \<and> ap_reason p = ap_reason q \<and>
      ap_risk p = ap_risk q \<and> ap_reversible p = ap_reversible q \<and>
      ap_retry_reason p = ap_retry_reason q \<and>
      norm (json_safe (PDict (ap_metadata p))) = norm (json_safe (PDict (ap_metadata q))))"

lemma same_fields_proposal:
  "same_fields (dict_pop ''correlation_id'' (proposal_payload p)) (dict_pop ''correlation_id'' (proposal_payload q))
    \<longleftrightarrow> same_action p q" (is "?l = ?r")
proof
  assume l: ?l
  have g: "map_option norm (dict_get (proposal_payload p) k) = map_option norm (dict_get (proposal_payload q) k)"
    if "k \<noteq> ''correlation_id''" for k
    using l [unfolded same_fields_def, rule_format, of k] that by simp
  have "ap_action_id p = ap_action_id q" using g [of "''action_id''"] by (simp add: proposal_payload_def)
  moreover have "ap_target p = ap_target q"
    using g [of "''target''"] inj_values(1) by (simp add: proposal_payload_def inj_def)
  moreover have "ap_operation p = ap_operation q" using g [of "''operation''"] by (simp add: proposal_payload_def)
  moreover have "norm (json_safe (PDict (ap_arguments p))) = norm (json_safe (PDict (ap_arguments q)))"
    using g [of "''arguments''"] by (simp add: proposal_payload_def del: json_safe.simps norm.simps)
  moreover have "ap_required_scopes p = ap_required_scopes q"
    using g [of "''required_scopes''"] inj_scope_list by (simp add: proposal_payload_def comp_def)
  moreover have "ap_reason p = ap_reason q" using g [of "''reason''"] by (simp add: proposal_payload_def)
  moreover have "ap_risk p = ap_risk q"
    using g [of "''risk''"] inj_values(3) by (simp add: proposal_payload_def inj_def)
  moreover have "ap_reversible p = ap_reversible q" using g [of "''reversible''"] by (simp add: proposal_payload_def)
  moreover have "ap_retry_reason p = ap_retry_reason q" using g [of "''retry_reason''"] by (simp add: proposal_payload_def)
  moreover have "norm (json_safe (PDict (ap_metadata p))) = norm (json_safe (PDict (ap_metadata q)))"
    using g [of "''metadata''"] by (simp add: proposal_payload_def del: json_safe.simps norm.simps)
  ultimately show ?r by (simp add: same_action_def)
next
  assume ?r
  then show ?l
    by (auto simp: same_fields_def same_action_def proposal_payload_def dict_pop_def simp del: json_safe.simps norm.simps)
qed

lemma same_action_refl [simp]: "same_action p p"
  by (simp add: same_action_def)

lemma same_action_correlation [simp]: "same_action (p\<lparr>ap_correlation_id := c\<rparr>) q = same_action p q"
  "same_action p (q\<lparr>ap_correlation_id := c\<rparr>) = same_action p q"
  by (simp_all add: same_action_def)

lemma canonical_text_same_action:
  "wf_proposal p \<Longrightarrow> wf_proposal q \<Longrightarrow> canonical_text p = canonical_text q \<longleftrightarrow> same_action p q"
  by (simp only: canonical_text_eq_iff same_fields_proposal)

lemma wf_py_of_json: "wf_json j \<Longrightarrow> wf_py (of_json j)"
proof (induction j)
  case (JObj kvs)
  then show ?case by (auto simp: list_all_iff prod_set_simps comp_def)
qed (auto simp: list_all_iff)

lemma json_safe_stored:
  "json_safe (PDict (map (map_prod id of_json) d)) = JObj d"
  using json_safe_of_json [of "JObj d"] by simp

lemma stored_arguments:
  "json_safe (PDict (ap_arguments (stored_proposal p))) = norm (json_safe (PDict (ap_arguments p)))"
  "json_safe (PDict (ap_metadata (stored_proposal p))) = norm (json_safe (PDict (ap_metadata p)))"
  by (simp_all add: stored_proposal_def norm_dict_def)

lemma stored_correlation [simp]: "ap_correlation_id (stored_proposal p) = ap_correlation_id p"
  "ap_action_id (stored_proposal p) = ap_action_id p" "ap_required_scopes (stored_proposal p) = ap_required_scopes p"
  by (simp_all add: stored_proposal_def)

lemma same_action_stored [simp]: "same_action (stored_proposal p) p"
  using stored_arguments [of p]
  by (simp add: same_action_def del: json_safe.simps) (simp add: stored_proposal_def)

lemma wf_stored_proposal [wf_intros]: "wf_proposal p \<Longrightarrow> wf_proposal (stored_proposal p)"
proof -
  assume "wf_proposal p"
  then have w: "wf_json (norm (json_safe (PDict (ap_arguments p))))" "wf_json (norm (json_safe (PDict (ap_metadata p))))"
    unfolding wf_proposal_def wf_norm by (blast intro: wf_json_safe)+
  have "PDict (ap_arguments (stored_proposal p)) = of_json (norm (json_safe (PDict (ap_arguments p))))"
    "PDict (ap_metadata (stored_proposal p)) = of_json (norm (json_safe (PDict (ap_metadata p))))"
    by (simp_all add: stored_proposal_def norm_dict_def)
  with w show ?thesis unfolding wf_proposal_def by (simp only: wf_py_of_json)
qed

lemma stored_same_text: "wf_proposal p \<Longrightarrow> canonical_text (stored_proposal p) = canonical_text p"
  by (simp add: canonical_text_same_action wf_stored_proposal)

lemma hash_stored [simp]:
  "wf_proposal p \<Longrightarrow> canonical_action_hash sha (stored_proposal p) = canonical_action_hash sha p"
  by (simp add: canonical_action_hash_def stored_same_text)

section \<open>Properties\<close>

text \<open>
  C16: The canonical action hash binds exactly the action: with SHA-256 free of a collision on
  the two canonical texts, two proposals have the same hash if and only if they agree in
  identifier, target, operation, arguments and metadata (as JSON, up to key order), scopes,
  reason, risk, reversibility and retry reason; the correlation identifier does not count.
\<close>

theorem hash_binds_action:
  assumes "wf_proposal p" and "wf_proposal q"
    and "sha (canonical_text p) = sha (canonical_text q) \<Longrightarrow> canonical_text p = canonical_text q"
  shows "canonical_action_hash sha p = canonical_action_hash sha q \<longleftrightarrow> same_action p q"
  using assms canonical_text_same_action [OF assms(1,2)] by (auto simp: canonical_action_hash_def)

definition sample_proposal :: action_proposal where
  "sample_proposal = \<lparr>ap_target = TOOL, ap_operation = ''write'', ap_arguments = [(''path'', PStr ''a'')],
     ap_required_scopes = [WRITE], ap_reason = ''r'', ap_risk = LOW, ap_reversible = True,
     ap_correlation_id = None, ap_retry_reason = None, ap_metadata = [(''session_id'', PStr ''browser:s'')],
     ap_action_id = ''act.1''\<rparr>"

lemma wf_sample_proposal [simp]: "wf_proposal sample_proposal"
  by (simp add: sample_proposal_def wf_proposal_def)

theorem hash_binds_action_witness:
  "canonical_action_hash id sample_proposal \<noteq> canonical_action_hash id (sample_proposal\<lparr>ap_risk := HIGH\<rparr>)"
proof -
  have "wf_proposal (sample_proposal\<lparr>ap_risk := HIGH\<rparr>)"
    by (simp add: sample_proposal_def wf_proposal_def)
  moreover have "\<not> same_action sample_proposal (sample_proposal\<lparr>ap_risk := HIGH\<rparr>)"
    by (simp add: same_action_def sample_proposal_def)
  ultimately show ?thesis
    using hash_binds_action [of sample_proposal "sample_proposal\<lparr>ap_risk := HIGH\<rparr>" id] by simp
qed

text \<open>
  A proposal survives storage: the JSON text of its payload is read back as a proposal of
  the same action with the same correlation identifier, whose canonical hash is the hash of
  the original, so the integrity check of a stored row passes.
\<close>

theorem stored_proposal_round_trip:
  assumes "wf_proposal p"
  shows "\<exists>d q. loads (dumps spaced_utf8 (JObj (proposal_payload p))) = Some (JObj d) \<and>
    proposal_from_payload d = Inr q \<and> same_action q p \<and> ap_correlation_id q = ap_correlation_id p \<and>
    canonical_action_hash sha q = canonical_action_hash sha p"
proof -
  obtain d where d: "norm (JObj (proposal_payload p)) = JObj d" by simp
  then have "loads (dumps spaced_utf8 (JObj (proposal_payload p))) = Some (JObj d)"
    using spaced.dec_enc wf_proposal_payload [OF assms] by simp
  moreover have "proposal_from_payload d = Inr (stored_proposal p)"
    using d by (rule proposal_from_stored)
  ultimately show ?thesis using assms by auto
qed

theorem stored_proposal_round_trip_witness:
  "\<exists>d q. loads (dumps spaced_utf8 (JObj (proposal_payload sample_proposal))) = Some (JObj d) \<and>
    proposal_from_payload d = Inr q \<and> same_action q sample_proposal \<and>
    ap_correlation_id q = ap_correlation_id sample_proposal \<and>
    canonical_action_hash id q = canonical_action_hash id sample_proposal"
  by (rule stored_proposal_round_trip) simp

end
