(* ===== verification/Failure_Store.thy ===== *)
theory Failure_Store
  imports Contracts_Actions
begin

text \<open>
  \<open>actions/failure.py\<close>: the durable failure fingerprints behind the retry gate. The store is
  the list of the rows its JSON-lines file holds (\<open>file_refines\<close> ties the two together
  through the interface \<open>append_log\<close>); a later row with the same fingerprint replaces the
  earlier one.
\<close>

section \<open>Operations\<close>

type_synonym failure_rows = "(string, json) dict list"

definition action_signature :: "digest \<Rightarrow> action_proposal \<Rightarrow> string" where
  "action_signature sha p = sha (dumps compact_ascii (JObj [
     (''target'', JStr (target_value (ap_target p))),
     (''operation'', JStr (ap_operation p)),
     (''arguments'', to_json_str (PDict (ap_arguments p))),
     (''scopes'', JList (map JStr (sort (map scope_value (ap_required_scopes p)))))]))"

text \<open>The loop of \<open>open_failures\<close> that builds the dictionary from fingerprints to latest rows.\<close>

definition fp_of :: "(string, json) dict \<Rightarrow> string" where
  "fp_of row = get_or row ''fingerprint'' []"

definition fp_step :: "(string, (string, json) dict) dict \<Rightarrow> (string, json) dict
    \<Rightarrow> (string, (string, json) dict) dict" where
  "fp_step state row = (if fp_of row = [] then state else dict_set (fp_of row) row state)"

definition fp_state :: "failure_rows \<Rightarrow> (string, (string, json) dict) dict" where
  "fp_state rows = foldl fp_step [] rows"

definition is_open :: "string \<Rightarrow> (string, json) dict \<Rightarrow> bool" where
  "is_open signature row =
     (json_get row ''signature'' = JStr signature \<and> json_get row ''status'' = JStr ''open'')"

definition open_failures :: "digest \<Rightarrow> action_proposal \<Rightarrow> failure_rows \<Rightarrow> failure_rows" where
  "open_failures sha p rows = filter (is_open (action_signature sha p)) (map snd (fp_state rows))"

definition failure_fingerprint :: "digest \<Rightarrow> action_proposal \<Rightarrow> string \<Rightarrow> string \<Rightarrow> string" where
  "failure_fingerprint sha p error_type error =
     sha (action_signature sha p @ '':'' @ error_type @ '':'' @ error)"

definition failure_row :: "digest \<Rightarrow> instant \<Rightarrow> action_proposal \<Rightarrow> string \<Rightarrow> string \<Rightarrow> (string, json) dict" where
  "failure_row sha now p error_type error = [
     (''fingerprint'', JStr (failure_fingerprint sha p error_type error)),
     (''signature'', JStr (action_signature sha p)),
     (''status'', JStr ''open''),
     (''action_id'', JStr (ap_action_id p)),
     (''target'', JStr (target_value (ap_target p))),
     (''operation'', JStr (ap_operation p)),
     (''error_type'', JStr error_type),
     (''error'', JStr error),
     (''timestamp'', JStr (iso now))]"

text \<open>A row comes back from the file with its keys sorted.\<close>

definition add_row :: "failure_rows \<Rightarrow> (string, json) dict \<Rightarrow> failure_rows" where
  "add_row rows row = rows @ [norm_dict row]"

definition record_failure :: "digest \<Rightarrow> instant \<Rightarrow> action_proposal \<Rightarrow> string \<Rightarrow> string \<Rightarrow> failure_rows
    \<Rightarrow> string \<times> failure_rows" where
  "record_failure sha now p error_type error rows =
     (failure_fingerprint sha p error_type error, add_row rows (failure_row sha now p error_type error))"

definition resolved_row :: "instant \<Rightarrow> string \<Rightarrow> (string, json) dict \<Rightarrow> (string, json) dict" where
  "resolved_row now resolution row = dict_update row [
     (''status'', JStr ''resolved''),
     (''resolution'', JStr resolution),
     (''resolved_at'', JStr (iso now))]"

definition resolve_signature :: "digest \<Rightarrow> instant \<Rightarrow> action_proposal \<Rightarrow> string \<Rightarrow> failure_rows \<Rightarrow> failure_rows" where
  "resolve_signature sha now p resolution rows =
     foldl (\<lambda>rs row. add_row rs (resolved_row now resolution row)) rows (open_failures sha p rows)"

section \<open>Lemmas\<close>

lemma fp_state_snoc: "fp_state (rows @ [row]) = fp_step (fp_state rows) row"
  by (simp add: fp_state_def)

lemma fp_state_append: "fp_state (rows @ new) = foldl fp_step (fp_state rows) new"
  by (simp add: fp_state_def)

text \<open>Every row of the state is stored under its own fingerprint, and rows have distinct keys.\<close>

definition fp_inv :: "(string, (string, json) dict) dict \<Rightarrow> bool" where
  "fp_inv st = (distinct (keys st) \<and> (\<forall>(k, row) \<in> set st. k = fp_of row \<and> k \<noteq> []))"

lemma fp_inv_step: "fp_inv st \<Longrightarrow> fp_inv (fp_step st row)"
  by (auto simp: fp_inv_def fp_step_def dest!: set_dict_set)

lemma fp_inv_state: "fp_inv (fp_state rows)"
proof (induction rows rule: rev_induct)
  case Nil
  show ?case by (simp add: fp_state_def fp_inv_def)
next
  case (snoc row rows)
  then show ?case by (simp add: fp_state_snoc fp_inv_step)
qed

lemma json_get_norm_dict: "distinct (keys d) \<Longrightarrow> json_get (norm_dict d) k = norm (json_get d k)"
  using dict_get_norm_obj [OF _ norm_dict_json, of d k] by (auto simp: json_get_def split: option.splits)

lemma truthy_norm [simp]: "truthy (norm j) = truthy j"
  using norm_dict_Nil_iff norm_dict_json by (cases j) (auto simp: norm_dict_def simp del: norm.simps(7))

lemma fp_of_failure_row [simp]: "fp_of (norm_dict (failure_row sha now p t e)) = failure_fingerprint sha p t e"
proof -
  have "distinct (keys (failure_row sha now p t e))" by (simp add: failure_row_def)
  then show ?thesis
    by (simp add: fp_of_def get_or_def json_get_norm_dict Let_def) (simp add: failure_row_def json_get_def)
qed

lemma is_open_failure_row [simp]:
  "is_open s (norm_dict (failure_row sha now p t e)) = (s = action_signature sha p)"
proof -
  have "distinct (keys (failure_row sha now p t e))" by (simp add: failure_row_def)
  then show ?thesis
    by (simp add: is_open_def json_get_norm_dict) (auto simp: failure_row_def json_get_def)
qed

text \<open>Rows as the file gives them back: sorted keys, each once.\<close>

definition ok_rows :: "failure_rows \<Rightarrow> bool" where
  "ok_rows rows = (\<forall>row \<in> set rows. distinct (keys row) \<and> norm_dict row = row)"

lemma norm_dict_idem [simp]: "norm_dict (norm_dict d) = norm_dict d"
  using norm_norm [of "JObj d"] unfolding norm_dict_json by simp

lemma distinct_norm_dict [simp]: "distinct (keys (norm_dict d)) = distinct (keys d)"
  using keys_norm [of d] by (simp add: norm_dict_def)

lemma ok_rows_add: "ok_rows rows \<Longrightarrow> distinct (keys row) \<Longrightarrow> ok_rows (add_row rows row)"
  by (auto simp: ok_rows_def add_row_def)

lemma json_get_resolved_row:
  "json_get (resolved_row now res row) k =
    (if k = ''status'' then JStr ''resolved'' else if k = ''resolution'' then JStr res
     else if k = ''resolved_at'' then JStr (iso now) else json_get row k)"
  by (simp add: json_get_def resolved_row_def)

lemma distinct_resolved_row: "distinct (keys row) \<Longrightarrow> distinct (keys (resolved_row now res row))"
  by (simp add: resolved_row_def)

lemma norm_json_get: "distinct (keys row) \<Longrightarrow> norm_dict row = row \<Longrightarrow> norm (json_get row k) = json_get row k"
  using json_get_norm_dict [of row k] by simp

lemma resolved_row_facts:
  assumes "distinct (keys row)" "norm_dict row = row"
  shows "fp_of (norm_dict (resolved_row now res row)) = fp_of row"
    and "\<not> is_open s (norm_dict (resolved_row now res row))"
  using assms
  by (simp_all add: fp_of_def get_or_def is_open_def json_get_norm_dict distinct_resolved_row
      json_get_resolved_row norm_json_get)

lemma dict_set_middle: "k \<notin> set (keys d) \<Longrightarrow> dict_set k v (d @ (k, x) # e) = d @ (k, v) # e"
  by (induction d) auto

lemma foldl_dict_set_filter:
  assumes "distinct (keys (d @ e))"
  shows "foldl (\<lambda>s kv. dict_set (fst kv) (g (snd kv)) s) (d @ e) (filter P e) =
    d @ map (\<lambda>kv. (fst kv, if P kv then g (snd kv) else snd kv)) e"
  using assms
proof (induction e arbitrary: d)
  case (Cons kv e)
  let ?kv = "(fst kv, if P kv then g (snd kv) else snd kv)"
  have "foldl (\<lambda>s kv. dict_set (fst kv) (g (snd kv)) s) ((d @ [?kv]) @ e) (filter P e) =
      (d @ [?kv]) @ map (\<lambda>kv. (fst kv, if P kv then g (snd kv) else snd kv)) e"
    using Cons.prems by (intro Cons.IH) simp
  moreover have "dict_set (fst kv) v (d @ kv # e) = d @ (fst kv, v) # e" for v
    using Cons.prems dict_set_middle [of "fst kv" d v "snd kv" e] by auto
  ultimately show ?case by (cases "P kv") simp_all
qed simp

lemma fp_state_subset: "row \<in> set (map snd (fp_state rows)) \<Longrightarrow> row \<in> set rows"
proof (induction rows rule: rev_induct)
  case (snoc r rows)
  then show ?case
    by (auto simp: fp_state_snoc fp_step_def dest!: set_dict_set split: if_splits)
qed (simp add: fp_state_def)

text \<open>Resolving rewrites exactly the open rows of the signature, in place.\<close>

lemma fp_state_resolve:
  assumes "ok_rows rows"
  shows "fp_state (resolve_signature sha now p res rows) =
    map (\<lambda>kv. (fst kv, if is_open (action_signature sha p) (snd kv)
      then norm_dict (resolved_row now res (snd kv)) else snd kv)) (fp_state rows)"
proof -
  let ?S = "fp_state rows" and ?P = "\<lambda>kv. is_open (action_signature sha p) (snd kv)"
  let ?f = "\<lambda>row. norm_dict (resolved_row now res row)"
  have inv: "fp_inv ?S" by (rule fp_inv_state)
  have ok: "fp_of (?f (snd kv)) = fst kv \<and> fst kv \<noteq> []" if "kv \<in> set ?S" for kv
  proof -
    have "snd kv \<in> set rows" using that fp_state_subset by (metis image_eqI set_map)
    then show ?thesis
      using that inv assms resolved_row_facts(1) [of "snd kv"] by (auto simp: fp_inv_def ok_rows_def)
  qed
  have "resolve_signature sha now p res rows = rows @ map (?f \<circ> snd) (filter ?P ?S)"
  proof -
    have "foldl (\<lambda>rs row. add_row rs (resolved_row now res row)) rs L = rs @ map ?f L" for rs L
      by (induction L arbitrary: rs) (simp_all add: add_row_def)
    then show ?thesis by (simp add: resolve_signature_def open_failures_def filter_map comp_def)
  qed
  then have "fp_state (resolve_signature sha now p res rows) = foldl fp_step ?S (map (?f \<circ> snd) (filter ?P ?S))"
    by (simp add: fp_state_append)
  also have "\<dots> = foldl (\<lambda>s kv. dict_set (fst kv) (?f (snd kv)) s) ?S (filter ?P ?S)"
    using ok by (simp add: foldl_map fp_step_def) (auto intro!: foldl_cong)
  also have "\<dots> = [] @ map (\<lambda>kv. (fst kv, if ?P kv then ?f (snd kv) else snd kv)) ?S"
    using inv foldl_dict_set_filter [of "[]" ?S ?f ?P] by (simp add: fp_inv_def)
  finally show ?thesis by simp
qed

lemma ok_rows_resolve: "ok_rows rows \<Longrightarrow> ok_rows (resolve_signature sha now p res rows)"
proof -
  have "ok_rows rs \<Longrightarrow> \<forall>row \<in> set L. distinct (keys row) \<Longrightarrow>
      ok_rows (foldl (\<lambda>rs row. add_row rs (resolved_row now res row)) rs L)" for rs L
    by (induction L arbitrary: rs) (simp_all add: ok_rows_add distinct_resolved_row)
  moreover assume ok: "ok_rows rows"
  then have "\<forall>row \<in> set (open_failures sha p rows). distinct (keys row)"
    using fp_state_subset by (fastforce simp: open_failures_def ok_rows_def)
  ultimately show ?thesis using ok by (simp add: resolve_signature_def)
qed

lemma ok_rows_record: "ok_rows rows \<Longrightarrow> ok_rows (snd (record_failure sha now p t e rows))"
  by (simp add: record_failure_def ok_rows_add) (simp add: ok_rows_add failure_row_def)

text \<open>The list is what reading the file gives, after every append.\<close>

lemma file_refines:
  assumes "wf_file f" "ok_row (JObj row)" "read_jsonl f = Inr (map JObj rows)"
  shows "read_jsonl (append_jsonl f (JObj row)) = Inr (map JObj (add_row rows row))"
  using jsonl.read_append [OF assms] by (simp add: add_row_def norm_dict_def)

lemma open_failures_record:
  "failure_fingerprint sha p t e \<noteq> [] \<Longrightarrow> record_failure sha now p t e rows = (fp, rows') \<Longrightarrow>
    \<exists>row \<in> set (open_failures sha p rows'). fp_of row = fp"
proof -
  assume ne: "failure_fingerprint sha p t e \<noteq> []" and r: "record_failure sha now p t e rows = (fp, rows')"
  let ?row = "norm_dict (failure_row sha now p t e)"
  from r have "fp = failure_fingerprint sha p t e" "rows' = rows @ [?row]"
    by (auto simp: record_failure_def add_row_def)
  moreover from this ne have "dict_get (fp_state rows') fp = Some ?row"
    by (simp add: fp_state_snoc fp_step_def)
  ultimately show ?thesis
    by (intro bexI [of _ ?row]) (force simp: open_failures_def dest!: map_of_SomeD)+
qed

lemma resolve_open_failures:
  assumes "ok_rows rows"
  shows "open_failures sha q (resolve_signature sha now p res rows) =
    (if action_signature sha q = action_signature sha p then [] else open_failures sha q rows)"
proof -
  have ok: "distinct (keys row) \<and> norm_dict row = row" if "row \<in> snd ` set (fp_state rows)" for row
    using that fp_state_subset [of row rows] assms by (auto simp: ok_rows_def)
  have "filter (is_open s) (map (\<lambda>kv. if is_open s' (snd kv)
          then norm_dict (resolved_row now res (snd kv)) else snd kv) S) =
      (if s = s' then [] else filter (is_open s) (map snd S))"
    if "\<forall>row \<in> snd ` set S. distinct (keys row) \<and> norm_dict row = row"
    for s s' and S :: "(string, (string, json) dict) dict"
    using that
  proof (induction S)
    case (Cons kv S)
    have "\<not> is_open s (norm_dict (resolved_row now res (snd kv)))"
      using Cons.prems by (intro resolved_row_facts) simp_all
    moreover have "s = s'" if "is_open s (snd kv)" "is_open s' (snd kv)"
      using that by (simp add: is_open_def)
    moreover note Cons.IH
    ultimately show ?case using Cons.prems by (cases "is_open s' (snd kv)"; cases "is_open s (snd kv)"; cases "s = s'") simp_all
  qed simp
  with ok show ?thesis by (simp add: open_failures_def fp_state_resolve [OF assms] comp_def)
qed

section \<open>Properties\<close>

text \<open>
  Recording a failure leaves an open failure with the returned fingerprint for every
  proposal of the same signature (target, operation, arguments, set of scopes), whatever its
  identifier: the gate that asks for a retry reason then sees it.
\<close>

theorem recorded_failure_is_open:
  assumes "record_failure sha now p t e rows = (fp, rows')" and "fp \<noteq> []"
    and "action_signature sha q = action_signature sha p"
  shows "\<exists>row \<in> set (open_failures sha q rows'). fp_of row = fp"
  using open_failures_record [OF _ assms(1)] assms by (auto simp: open_failures_def record_failure_def)

theorem recorded_failure_is_open_witness:
  "\<exists>row \<in> set (open_failures id (sample_proposal\<lparr>ap_action_id := ''act.2''\<rparr>)
      (snd (record_failure id 0 sample_proposal ''E'' ''boom'' []))).
    fp_of row = fst (record_failure id 0 sample_proposal ''E'' ''boom'' [])"
  by (rule recorded_failure_is_open [of id 0 sample_proposal "''E''" "''boom''" "[]"])
    (simp_all add: record_failure_def failure_fingerprint_def action_signature_def)

text \<open>
  A success resolves exactly the open failures of its signature: afterwards that
  signature has none, and the open failures of every other signature are untouched.
\<close>

theorem resolve_clears_exactly:
  assumes "ok_rows rows"
  shows "open_failures sha p (resolve_signature sha now p res rows) = [] \<and>
    (\<forall>q. action_signature sha q \<noteq> action_signature sha p \<longrightarrow>
      open_failures sha q (resolve_signature sha now p res rows) = open_failures sha q rows)"
  using resolve_open_failures [OF assms] by simp

theorem resolve_clears_exactly_witness:
  "open_failures id sample_proposal (resolve_signature id 1 sample_proposal ''fixed''
      (snd (record_failure id 0 sample_proposal ''E'' ''boom'' []))) = []"
  using resolve_clears_exactly [OF ok_rows_record, of "[]" id sample_proposal 1 "''fixed''" id 0 sample_proposal "''E''" "''boom''"]
  by (simp add: ok_rows_def)

end
