(* ===== verification/Governance.thy ===== *)
theory Governance
  imports Contracts_Actions
begin

text \<open>
  \<open>governance/north_star_authority.py\<close>, \<open>governance/proposal.py\<close>, \<open>governance/kernel.py\<close> and
  \<open>governance/actions.py\<close>: the alignment authority with its hard vetoes, the decision ledger,
  and the action governor that turns a proposal and an optional trusted approval into a
  decision. The policy is the parsed \<open>action_policy.yaml\<close>, an argument (\<open>shipped_policy\<close> is the
  file of the repository). The alignment score is an IEEE double; all its values here are
  multiples of \<open>2\<^sup>-\<^sup>5\<^sup>4\<close>, kept as integers in that unit, with the rounding of a
  subtraction written out (\<open>fl\<close>). DNA integrity (checked once, in the authority's
  constructor) is outside the model.
\<close>

section \<open>Alignment scores\<close>

definition one_score :: int where
  "one_score = 2 ^ 54"

text \<open>The doubles written \<open>0.3\<close> and \<open>0.4\<close>.\<close>

definition score_03 :: int where
  "score_03 = 5404319552844595"

definition score_04 :: int where
  "score_04 = 7205759403792794"

text \<open>Round to nearest, ties to even: from one half on, doubles are two units apart.\<close>

definition fl :: "int \<Rightarrow> int" where
  "fl r = (if r < 2 ^ 53 \<or> even r then r
           else if even (r div 2) then r - 1 else r + 1)"

text \<open>\<open>f"{score:.2f}"\<close> for a score between zero and one.\<close>

definition score_text :: "int \<Rightarrow> string" where
  "score_text s = (let c = (s * 100) div 2 ^ 54; rest = (s * 100) mod 2 ^ 54;
      n = (if 2 ^ 53 < rest \<or> (rest = 2 ^ 53 \<and> odd c) then c + 1 else c)
    in int_str (n div 100) @ ''.'' @ pad 2 (n mod 100))"

section \<open>Proposals and reviews\<close>

datatype proposal_type = OPEN_TRADE | CLOSE_TRADE | MODIFY_SYSTEM | DEPLOY_CODE | UPDATE_BELIEF
  | EXECUTE_TASK | OTHER

text \<open>Floats the authority never looks at are kept as their text.\<close>

record gov_proposal =
  gp_action :: string
  gp_reason :: string
  gp_confidence :: string
  gp_risk_pct :: string
  gp_type :: proposal_type
  gp_metadata :: "(string, pyval) dict"

record review_result =
  rr_approved :: bool
  rr_alignment_score :: int
  rr_compounding_score :: int
  rr_veto_reason :: "string option"
  rr_warnings :: "string list"

section \<open>North Star authority\<close>

definition destructive_keywords :: "string list" where
  "destructive_keywords = [''drop database'', ''delete production'', ''wipe'', ''reset production'',
     ''deploy_live'', ''override_dee'', ''bypass_governance'', ''disable_constitution'', ''remove_rule'']"

definition skip_review_keywords :: "string list" where
  "skip_review_keywords = [''skip_review'', ''force_deploy'', ''bypass_review'', ''no_backtest'',
     ''skip_backtest'', ''force_live'']"

definition amendment_keywords :: "string list" where
  "amendment_keywords = [''north_star_is_1000'', ''north_star_is_money'', ''redefine_north_star'',
     ''change_north_star'', ''amend_north_star'']"

definition first_match :: "string \<Rightarrow> string list \<Rightarrow> string option" where
  "first_match t candidates = find (\<lambda>item. str_in item t) candidates"

text \<open>\<open>metadata.get(key) is True\<close>.\<close>

definition flag :: "(string, pyval) dict \<Rightarrow> string \<Rightarrow> bool" where
  "flag m k = (dict_get m k = Some (PBool True))"

definition full_text :: "gov_proposal \<Rightarrow> string" where
  "full_text p = casefold (gp_action p) @ '' '' @ casefold (gp_reason p)"

definition dee_approved :: "gov_proposal \<Rightarrow> bool" where
  "dee_approved p = flag (gp_metadata p) ''dee_approved''"

definition approval_path :: "gov_proposal \<Rightarrow> bool" where
  "approval_path p = flag (gp_metadata p) ''approval_path_available''"

definition constitutional :: "gov_proposal \<Rightarrow> bool" where
  "constitutional p = flag (gp_metadata p) ''constitutional_amendment''"

definition amendment :: "gov_proposal \<Rightarrow> bool" where
  "amendment p = (first_match (full_text p) amendment_keywords \<noteq> None)"

definition irreversible :: "gov_proposal \<Rightarrow> bool" where
  "irreversible p = (flag (gp_metadata p) ''irreversible'' \<or>
     first_match (full_text p) destructive_keywords \<noteq> None)"

definition hard_vetoes :: "gov_proposal \<Rightarrow> string list" where
  "hard_vetoes p =
     (case first_match (full_text p) skip_review_keywords of None \<Rightarrow> []
      | Some k \<Rightarrow> [''SC2 hard veto: review bypass attempted via '' @ [CHR 0x27] @ k @ [CHR 0x27] @ ''.'']) @
     (if amendment p \<and> \<not> (dee_approved p \<and> constitutional p)
      then [''SC1/SC5 hard veto: North Star amendment requires explicit Dee '' @
            ''approval and constitutional_amendment=true.''] else []) @
     (if irreversible p \<and> \<not> dee_approved p \<and> \<not> approval_path p
      then [''SC3 hard veto: irreversible action has no explicit Dee approval '' @
            ''and no governed approval path.''] else [])"

definition review_warnings :: "gov_proposal \<Rightarrow> string list" where
  "review_warnings p =
     (if blank (gp_reason p) then [''SC4 Violation: Proposal has no audit trail / empty reason.''] else []) @
     (if amendment p \<and> dee_approved p \<and> constitutional p
      then [''Founder-authorized North Star amendment candidate; the full '' @
            ''constitutional amendment protocol and reviewed source change remain required.''] else []) @
     (if irreversible p \<and> \<not> dee_approved p \<and> approval_path p
      then [''SC3: irreversible action requires exact Founder approval before execution.'']
      else if irreversible p \<and> dee_approved p
      then [''SC3: irreversible action carries explicit Founder approval; backup, '' @
            ''rollback, and exact action binding still apply.''] else [])"

definition raw_score :: "gov_proposal \<Rightarrow> int" where
  "raw_score p =
     (let s = (if blank (gp_reason p) then fl (one_score - score_03) else one_score)
      in if irreversible p \<and> \<not> dee_approved p \<and> approval_path p then fl (s - score_04) else s)"

definition evaluate :: "gov_proposal \<Rightarrow> review_result" where
  "evaluate p = (let
      vetoes = hard_vetoes p;
      score = (if vetoes \<noteq> [] then 0 else max 0 (min one_score (raw_score p)));
      approved = (vetoes = [] \<and> score_03 \<le> score);
      veto = (if vetoes \<noteq> [] then Some (join '' '' vetoes)
              else if \<not> approved
              then Some (''North Star alignment score '' @ score_text score @
                         '' is below veto threshold 0.3'')
              else None)
    in \<lparr>rr_approved = approved, rr_alignment_score = score, rr_compounding_score = one_score,
        rr_veto_reason = veto, rr_warnings = review_warnings p\<rparr>)"

section \<open>Governance kernel\<close>

text \<open>A row of the decision ledger: action, reason, approved, score, veto reason.\<close>

type_synonym decision_rows = "(string \<times> string \<times> bool \<times> int \<times> string option) list"

definition record_decision :: "gov_proposal \<Rightarrow> review_result \<Rightarrow> decision_rows \<Rightarrow> decision_rows" where
  "record_decision p r rows = rows @
     [(gp_action p, gp_reason p, rr_approved r, rr_alignment_score r, rr_veto_reason r)]"

definition kernel_review :: "gov_proposal \<Rightarrow> decision_rows \<Rightarrow> review_result \<times> decision_rows" where
  "kernel_review p rows = (let r = evaluate p in (r, record_decision p r rows))"

section \<open>Action policy\<close>

record auto_rule =
  rule_target :: "string option"
  rule_operation :: "string option"
  rule_scopes :: "string list"
  rule_max_risk :: string
  rule_reversible :: bool

record action_policy =
  pol_default :: "string option"
  pol_allowed_scopes :: "string list"
  pol_auto_approve :: "auto_rule list"
  pol_approval_scopes :: "string list"
  pol_approval_risks :: "string list"
  pol_approval_irreversible :: bool

definition shipped_policy :: action_policy where
  "shipped_policy = \<lparr>
     pol_default = Some ''deny'',
     pol_allowed_scopes = [''read'', ''write'', ''execute'', ''network'', ''memory''],
     pol_auto_approve = [
       \<lparr>rule_target = Some ''tool'', rule_operation = Some ''read'', rule_scopes = [''read''],
        rule_max_risk = ''low'', rule_reversible = True\<rparr>,
       \<lparr>rule_target = Some ''tool'', rule_operation = Some ''glob'', rule_scopes = [''read''],
        rule_max_risk = ''low'', rule_reversible = True\<rparr>,
       \<lparr>rule_target = Some ''tool'', rule_operation = Some ''grep'', rule_scopes = [''read''],
        rule_max_risk = ''low'', rule_reversible = True\<rparr>,
       \<lparr>rule_target = Some ''runtime'', rule_operation = Some ''echo'', rule_scopes = [''execute''],
        rule_max_risk = ''low'', rule_reversible = True\<rparr>,
       \<lparr>rule_target = Some ''runtime'', rule_operation = Some ''skill.execute'', rule_scopes = [''execute''],
        rule_max_risk = ''low'', rule_reversible = True\<rparr>],
     pol_approval_scopes = [''write'', ''network'', ''memory''],
     pol_approval_risks = [''high'', ''critical''],
     pol_approval_irreversible = True\<rparr>"

fun risk_order :: "action_risk \<Rightarrow> nat" where
  "risk_order LOW = 0"
| "risk_order MEDIUM = 1"
| "risk_order HIGH = 2"
| "risk_order CRITICAL = 3"

fun risk_pct :: "action_risk \<Rightarrow> string" where
  "risk_pct LOW = ''1.0''"
| "risk_pct MEDIUM = ''10.0''"
| "risk_pct HIGH = ''40.0''"
| "risk_pct CRITICAL = ''90.0''"

section \<open>Action governor\<close>

text \<open>\<open>{ActionScope(item) for item in ...}\<close>: a text that names no scope raises.\<close>

definition scopes_of :: "string list \<Rightarrow> contract_error + action_scope list" where
  "scopes_of xs = map_result (\<lambda>s. of_option (Bad_Enum s) (scope_of s)) xs"

text \<open>\<open>sorted(map(str, scopes))\<close> as text.\<close>

definition scopes_text :: "action_scope list \<Rightarrow> string" where
  "scopes_text xs = py_repr (JList (map JStr (sort (remdups (map scope_value xs)))))"

definition deny :: "string \<Rightarrow> string \<Rightarrow> string \<Rightarrow> string list \<Rightarrow> action_decision" where
  "deny hex md reason warnings = \<lparr>ad_approved = False, ad_mode = md, ad_reasons = [reason],
     ad_warnings = warnings, ad_decision_id = new_id ''decision'' hex\<rparr>"

definition approve :: "string \<Rightarrow> string \<Rightarrow> string list \<Rightarrow> string list \<Rightarrow> action_decision" where
  "approve hex md reasons warnings = \<lparr>ad_approved = True, ad_mode = md, ad_reasons = reasons,
     ad_warnings = warnings, ad_decision_id = new_id ''decision'' hex\<rparr>"

definition founder_approved :: "action_approval option \<Rightarrow> bool" where
  "founder_approved a = ((case a of None \<Rightarrow> [] | Some x \<Rightarrow> casefold (strip (aa_principal x)))
     \<in> set [''dee'', ''founder'', ''founder dee''])"

definition north_star_proposal :: "action_proposal \<Rightarrow> action_approval option \<Rightarrow> gov_proposal" where
  "north_star_proposal p a = \<lparr>
     gp_action = target_value (ap_target p) @ '':'' @ ap_operation p,
     gp_reason = ap_reason p, gp_confidence = ''0.5'', gp_risk_pct = risk_pct (ap_risk p),
     gp_type = EXECUTE_TASK,
     gp_metadata = [
       (''action_id'', PStr (ap_action_id p)),
       (''irreversible'', PBool (\<not> ap_reversible p)),
       (''approval_path_available'', PBool True),
       (''dee_approved'', PBool (founder_approved a))]\<rparr>"

definition rule_matches :: "action_proposal \<Rightarrow> auto_rule \<Rightarrow> action_scope list \<Rightarrow> action_risk \<Rightarrow> bool" where
  "rule_matches p rule scopes max_risk =
     (target_value (ap_target p) = (case rule_target rule of None \<Rightarrow> ''None'' | Some t \<Rightarrow> t) \<and>
      Some (ap_operation p) = rule_operation rule \<and>
      set (ap_required_scopes p) \<subseteq> set scopes \<and>
      risk_order (ap_risk p) \<le> risk_order max_risk \<and>
      (rule_reversible rule \<longrightarrow> ap_reversible p))"

fun auto_rules :: "action_proposal \<Rightarrow> auto_rule list \<Rightarrow> contract_error + bool" where
  "auto_rules p [] = Inr False"
| "auto_rules p (rule # rules) =
     bindE (scopes_of (rule_scopes rule)) (\<lambda>scopes.
     bindE (of_option (Bad_Enum (rule_max_risk rule)) (risk_of (rule_max_risk rule))) (\<lambda>max_risk.
     if rule_matches p rule scopes max_risk then Inr True else auto_rules p rules))"

definition needs_approval :: "action_policy \<Rightarrow> action_proposal \<Rightarrow> action_scope list \<Rightarrow> bool" where
  "needs_approval pol p approval_scopes =
     (set (ap_required_scopes p) \<inter> set approval_scopes \<noteq> {} \<or>
      risk_value (ap_risk p) \<in> set (pol_approval_risks pol) \<or>
      (pol_approval_irreversible pol \<and> \<not> ap_reversible p) \<or>
      pol_default pol = Some ''deny'')"

definition check_approval :: "digest \<Rightarrow> instant \<Rightarrow> string \<Rightarrow> action_proposal \<Rightarrow> action_approval
    \<Rightarrow> string list \<Rightarrow> action_decision" where
  "check_approval sha now hex p a w =
     (if blank (aa_principal a) then deny hex ''denied'' ''Approval principal is required.'' w
      else if blank (aa_reason a) then deny hex ''denied'' ''Approval reason is required.'' w
      else if ostr_or (aa_action_hash a) [] = []
        then deny hex ''denied'' ''Approval is not bound to an action hash.'' w
      else if aa_action_hash a \<noteq> Some (canonical_action_hash sha p)
        then deny hex ''denied'' ''Approval action hash does not match the exact proposal.'' w
      else if (case aa_expires_at a of None \<Rightarrow> False | Some t \<Rightarrow> t \<le> now)
        then deny hex ''denied'' ''Approval has expired.'' w
      else (let missing = filter (\<lambda>s. s \<notin> set (aa_scopes a)) (ap_required_scopes p) in
        if missing \<noteq> [] then deny hex ''denied'' (''Approval missing scopes: '' @ scopes_text missing) w
        else approve hex ''human-approved'' [''Approved by '' @ aa_principal a] w))"

text \<open>The policy part of \<open>review\<close>, after the North Star's consent with warnings \<open>w\<close>.\<close>

definition policy_review :: "digest \<Rightarrow> action_policy \<Rightarrow> instant \<Rightarrow> string \<Rightarrow> action_proposal
    \<Rightarrow> action_approval option \<Rightarrow> string list \<Rightarrow> contract_error + action_decision" where
  "policy_review sha pol now hex p a w =
     bindE (auto_rules p (pol_auto_approve pol)) (\<lambda>auto.
       if auto then Inr (approve hex ''auto-approved'' [] w)
       else bindE (scopes_of (pol_approval_scopes pol)) (\<lambda>approval_scopes.
         if \<not> needs_approval pol p approval_scopes then Inr (approve hex ''policy-approved'' [] w)
         else (case a of
           None \<Rightarrow> Inr (deny hex ''approval-required'' ''Trusted approval is required.'' w)
         | Some x \<Rightarrow> Inr (check_approval sha now hex p x w))))"

definition governor_review :: "digest \<Rightarrow> action_policy \<Rightarrow> instant \<Rightarrow> string \<Rightarrow> action_proposal
    \<Rightarrow> action_approval option \<Rightarrow> contract_error + action_decision" where
  "governor_review sha pol now hex p a =
     (if blank (ap_reason p) then Inr (deny hex ''denied'' ''Action reason is required.'' [])
      else if blank (ap_operation p) then Inr (deny hex ''denied'' ''Action operation is required.'' [])
      else bindE (scopes_of (pol_allowed_scopes pol)) (\<lambda>allowed.
        let unknown = filter (\<lambda>s. s \<notin> set allowed) (ap_required_scopes p) in
        if unknown \<noteq> [] then Inr (deny hex ''denied'' (''Unknown scopes: '' @ scopes_text unknown) [])
        else (let ns = evaluate (north_star_proposal p a) in
          if \<not> rr_approved ns
          then Inr (deny hex ''denied'' (ostr_or (rr_veto_reason ns) ''Northstar veto'') (rr_warnings ns))
          else policy_review sha pol now hex p a (rr_warnings ns))))"

section \<open>Lemmas\<close>

lemma score_values [simp]:
  "fl (one_score - score_03) = 12610078956637388" "fl (one_score - score_04) = 10808639105689190"
  "fl (12610078956637388 - score_04) = 5404319552844594" "score_03 \<le> one_score" "one_score > 0"
  by (simp_all add: fl_def one_score_def score_03_def score_04_def)

lemma score_bounds [simp]:
  "score_03 \<le> 12610078956637388" "score_03 \<le> 10808639105689190" "\<not> score_03 \<le> 5404319552844594"
  "12610078956637388 \<le> one_score" "10808639105689190 \<le> one_score" "5404319552844594 \<le> one_score"
  by (simp_all add: one_score_def score_03_def)

lemma hard_vetoes_Nil: "hard_vetoes p = [] \<longleftrightarrow>
    first_match (full_text p) skip_review_keywords = None \<and>
    (amendment p \<longrightarrow> dee_approved p \<and> constitutional p) \<and>
    (irreversible p \<longrightarrow> dee_approved p \<or> approval_path p)"
  by (auto simp: hard_vetoes_def split: option.splits)

lemma raw_score_enough: "score_03 \<le> max 0 (min one_score (raw_score p)) \<longleftrightarrow>
    \<not> (blank (gp_reason p) \<and> irreversible p \<and> \<not> dee_approved p \<and> approval_path p)"
  by (auto simp: raw_score_def Let_def)

lemma evaluate_approved:
  "rr_approved (evaluate p) \<longleftrightarrow>
     first_match (full_text p) skip_review_keywords = None \<and>
     (amendment p \<longrightarrow> dee_approved p \<and> constitutional p) \<and>
     (irreversible p \<and> \<not> dee_approved p \<longrightarrow> approval_path p \<and> \<not> blank (gp_reason p))"
  using hard_vetoes_Nil [of p] raw_score_enough [of p] by (auto simp: evaluate_def Let_def)

lemma flag_north_star [simp]:
  "dee_approved (north_star_proposal p a) = founder_approved a"
  "approval_path (north_star_proposal p a)"
  "\<not> constitutional (north_star_proposal p a)"
  by (simp_all add: dee_approved_def approval_path_def constitutional_def flag_def north_star_proposal_def)

lemma deny_approve_simps [simp]:
  "\<not> ad_approved (deny hex m r w)" "ad_approved (approve hex m rs w)"
  "ad_mode (deny hex m r w) = m" "ad_mode (approve hex m rs w) = m"
  by (simp_all add: deny_def approve_def)

definition bound_approval :: "digest \<Rightarrow> instant \<Rightarrow> action_proposal \<Rightarrow> action_approval \<Rightarrow> bool" where
  "bound_approval sha now p a =
     (\<not> blank (aa_principal a) \<and> \<not> blank (aa_reason a) \<and>
      aa_action_hash a = Some (canonical_action_hash sha p) \<and>
      (\<forall>t. aa_expires_at a = Some t \<longrightarrow> now < t) \<and>
      set (ap_required_scopes p) \<subseteq> set (aa_scopes a))"

lemma check_approval_approved:
  "ad_approved (check_approval sha now hex p a w) \<longleftrightarrow>
    bound_approval sha now p a \<and> canonical_action_hash sha p \<noteq> []"
  by (auto simp: check_approval_def bound_approval_def Let_def ostr_or_def str_or_def filter_empty_conv
      split: option.splits if_splits)

lemma check_approval_mode:
  "ad_mode (check_approval sha now hex p a w) =
    (if ad_approved (check_approval sha now hex p a w) then ''human-approved'' else ''denied'')"
  by (auto simp: check_approval_def Let_def)

lemma auto_rules_match:
  "auto_rules p rules = Inr True \<Longrightarrow> \<exists>rule \<in> set rules. \<exists>scopes max_risk.
    scopes_of (rule_scopes rule) = Inr scopes \<and> risk_of (rule_max_risk rule) = Some max_risk \<and>
    rule_matches p rule scopes max_risk"
proof (induction rules)
  case (Cons rule rules)
  then show ?case
    by (auto simp: bindE_Inr_conv of_option_def split: option.splits if_splits)
qed simp

lemma policy_review_approved:
  assumes "policy_review sha pol now hex p a w = Inr d" and "ad_approved d"
  shows "ad_mode d = ''auto-approved'' \<and> auto_rules p (pol_auto_approve pol) = Inr True
      \<or> ad_mode d = ''policy-approved'' \<and> pol_default pol \<noteq> Some ''deny''
      \<or> ad_mode d = ''human-approved'' \<and> (\<exists>x. a = Some x \<and> bound_approval sha now p x)"
proof -
  obtain auto where a: "auto_rules p (pol_auto_approve pol) = Inr auto"
    using assms(1) by (auto simp: policy_review_def bindE_Inr_conv)
  show ?thesis
  proof (cases auto)
    case True
    then show ?thesis using a assms by (auto simp: policy_review_def)
  next
    case False
    then obtain s where s: "scopes_of (pol_approval_scopes pol) = Inr s"
      using a assms(1) by (auto simp: policy_review_def bindE_Inr_conv)
    show ?thesis
    proof (cases "needs_approval pol p s")
      case True
      then show ?thesis
        using a s False assms check_approval_mode [of sha now hex p _ w]
        by (cases a) (auto simp: policy_review_def check_approval_approved)
    next
      case needs: False
      then have "d = approve hex ''policy-approved'' [] w" using a s False assms by (simp add: policy_review_def)
      with needs show ?thesis by (simp add: needs_approval_def)
    qed
  qed
qed

text \<open>What an approval by the governor means, whatever branch gave it.\<close>

lemma governor_review_approved:
  assumes "governor_review sha pol now hex p a = Inr d" and "ad_approved d"
  shows "\<not> blank (ap_reason p) \<and> \<not> blank (ap_operation p)"
    and "rr_approved (evaluate (north_star_proposal p a))"
    and "\<exists>allowed. scopes_of (pol_allowed_scopes pol) = Inr allowed \<and> set (ap_required_scopes p) \<subseteq> set allowed"
    and "policy_review sha pol now hex p a (rr_warnings (evaluate (north_star_proposal p a))) = Inr d"
proof -
  show nb: "\<not> blank (ap_reason p) \<and> \<not> blank (ap_operation p)"
    using assms by (auto simp: governor_review_def split: if_splits)
  obtain allowed where al: "scopes_of (pol_allowed_scopes pol) = Inr allowed"
    using assms(1) nb by (auto simp: governor_review_def bindE_Inr_conv)
  have un: "filter (\<lambda>s. s \<notin> set allowed) (ap_required_scopes p) = []"
  proof (rule ccontr)
    assume "filter (\<lambda>s. s \<notin> set allowed) (ap_required_scopes p) \<noteq> []"
    then show False using assms nb al by (simp add: governor_review_def Let_def) auto
  qed
  then show "\<exists>allowed. scopes_of (pol_allowed_scopes pol) = Inr allowed \<and> set (ap_required_scopes p) \<subseteq> set allowed"
    using al by (auto simp: filter_empty_conv)
  show ns: "rr_approved (evaluate (north_star_proposal p a))"
    using assms nb al un by (cases "rr_approved (evaluate (north_star_proposal p a))")
      (auto simp: governor_review_def Let_def)
  show "policy_review sha pol now hex p a (rr_warnings (evaluate (north_star_proposal p a))) = Inr d"
    using assms(1) nb al un ns by (simp add: governor_review_def Let_def)
qed

lemma approved_authority:
  assumes "governor_review sha pol now hex p a = Inr d" and "ad_approved d"
    and "pol_default pol = Some ''deny''"
  shows "\<not> blank (ap_reason p) \<and> \<not> blank (ap_operation p) \<and>
    rr_approved (evaluate (north_star_proposal p a)) \<and>
    (\<exists>allowed. scopes_of (pol_allowed_scopes pol) = Inr allowed \<and> set (ap_required_scopes p) \<subseteq> set allowed) \<and>
    ((\<exists>rule \<in> set (pol_auto_approve pol). \<exists>scopes max_risk.
        scopes_of (rule_scopes rule) = Inr scopes \<and> risk_of (rule_max_risk rule) = Some max_risk \<and>
        rule_matches p rule scopes max_risk) \<or>
     (\<exists>x. a = Some x \<and> bound_approval sha now p x))"
proof -
  note r = governor_review_approved [OF assms(1,2)]
  from policy_review_approved [OF r(4) assms(2)] assms(3)
  have "auto_rules p (pol_auto_approve pol) = Inr True \<or> (\<exists>x. a = Some x \<and> bound_approval sha now p x)"
    by blast
  with r(1,2,3) auto_rules_match show ?thesis by blast
qed

section \<open>Properties\<close>

text \<open>
  The North Star authority approves exactly when nothing in the action or its reason asks
  to skip review, a North Star amendment carries both the Founder's approval and the
  amendment flag, and an irreversible action without the Founder's approval has an approval
  path and a reason. No score and no other metadata overrides a hard veto.
\<close>

theorem north_star_decision:
  "rr_approved (evaluate p) \<longleftrightarrow>
     first_match (full_text p) skip_review_keywords = None \<and>
     (amendment p = False \<or> dee_approved p \<and> constitutional p) \<and>
     (irreversible p = False \<or> dee_approved p \<or> approval_path p \<and> strip (gp_reason p) \<noteq> [])"
  by (auto simp: evaluate_approved)

text \<open>
  C13: Nothing is approved without authority. Under a default-deny policy an approved proposal
  has a reason, an operation, allowed scopes and the North Star's consent, and either
  matches a rule of the automatic list (target, operation, scopes, risk, reversibility) or
  comes with an approval that names a principal and a reason, is bound to this proposal's
  hash, has not expired, and covers every required scope.
\<close>

theorem approved_only_with_authority:
  assumes "governor_review sha pol now hex p a = Inr d" and "ad_approved d"
    and "pol_default pol = Some ''deny''"
  shows "\<not> blank (ap_reason p) \<and> \<not> blank (ap_operation p) \<and>
    rr_approved (evaluate (north_star_proposal p a)) \<and>
    (\<exists>allowed. scopes_of (pol_allowed_scopes pol) = Inr allowed \<and> set (ap_required_scopes p) \<subseteq> set allowed) \<and>
    ((\<exists>rule \<in> set (pol_auto_approve pol). \<exists>scopes max_risk.
        scopes_of (rule_scopes rule) = Inr scopes \<and> risk_of (rule_max_risk rule) = Some max_risk \<and>
        rule_matches p rule scopes max_risk) \<or>
     (\<exists>x. a = Some x \<and> bound_approval sha now p x))"
  using assms by (rule approved_authority)

definition sample_approval :: action_approval where
  "sample_approval = \<lparr>aa_principal = ''Dee'', aa_scopes = [WRITE], aa_reason = ''ok'', aa_approval_id = ''approval.1'',
     aa_action_hash = Some (canonical_action_hash id sample_proposal), aa_issued_at = Some 0,
     aa_expires_at = Some 900, aa_channel = Some ''aionui''\<rparr>"

lemma sample_review:
  "governor_review id shipped_policy 100 ''0123456789abcdef'' sample_proposal (Some sample_approval) =
    Inr (approve ''0123456789abcdef'' ''human-approved'' [''Approved by Dee''] [])"
  by code_simp

theorem approved_only_with_authority_witness:
  "\<not> blank (ap_reason sample_proposal) \<and> \<not> blank (ap_operation sample_proposal) \<and>
    rr_approved (evaluate (north_star_proposal sample_proposal (Some sample_approval))) \<and>
    (\<exists>allowed. scopes_of (pol_allowed_scopes shipped_policy) = Inr allowed \<and>
      set (ap_required_scopes sample_proposal) \<subseteq> set allowed) \<and>
    ((\<exists>rule \<in> set (pol_auto_approve shipped_policy). \<exists>scopes max_risk.
        scopes_of (rule_scopes rule) = Inr scopes \<and> risk_of (rule_max_risk rule) = Some max_risk \<and>
        rule_matches sample_proposal rule scopes max_risk) \<or>
     (\<exists>x. Some sample_approval = Some x \<and> bound_approval id 100 sample_proposal x))"
  by (rule approved_only_with_authority [OF sample_review]) (simp_all add: shipped_policy_def)

text \<open>
  Under the shipped policy nothing runs unapproved except five harmless operations: a
  proposal approved without a trusted approval is reversible and of low risk, and is either
  one of the tools read, glob, grep with no scope beyond read, or one of the runtime
  operations echo, skill.execute with no scope beyond execute.
\<close>

theorem shipped_policy_auto_approvals:
  assumes "governor_review sha shipped_policy now hex p None = Inr d" and "ad_approved d"
  shows "ap_reversible p \<and> ap_risk p = LOW \<and>
    (ap_target p = TOOL \<and> ap_operation p \<in> {''read'', ''glob'', ''grep''} \<and> set (ap_required_scopes p) \<subseteq> {READ} \<or>
     ap_target p = RUNTIME \<and> ap_operation p \<in> {''echo'', ''skill.execute''} \<and> set (ap_required_scopes p) \<subseteq> {EXECUTE})"
proof -
  have "pol_default shipped_policy = Some ''deny''" by (simp add: shipped_policy_def)
  with policy_review_approved [OF governor_review_approved(4) [OF assms] assms(2)]
  have "auto_rules p (pol_auto_approve shipped_policy) = Inr True" by auto
  from auto_rules_match [OF this] obtain rule scopes max_risk where
    r: "rule \<in> set (pol_auto_approve shipped_policy)" "scopes_of (rule_scopes rule) = Inr scopes"
      "risk_of (rule_max_risk rule) = Some max_risk" "rule_matches p rule scopes max_risk"
    by blast
  have s: "scopes_of [''read''] = Inr [READ]" "scopes_of [''execute''] = Inr [EXECUTE]" "risk_of ''low'' = Some LOW"
    by code_simp+
  have l: "(risk_order x \<le> risk_order LOW) = (x = LOW)" for x by (cases x) simp_all
  have v: "(target_value y = ''tool'') = (y = TOOL) \<and> (target_value y = ''runtime'') = (y = RUNTIME)" for y
    by (cases y) simp_all
  from r(1) have m: "rule_max_risk rule = ''low''" "rule_reversible rule"
    unfolding shipped_policy_def by auto
  then have risk: "ap_risk p = LOW" "ap_reversible p"
    using r(3,4) s(3) l by (simp_all add: rule_matches_def del: risk_order.simps)
  from r(1) consider
      "rule_target rule = Some ''tool''" "rule_scopes rule = [''read'']"
      "rule_operation rule \<in> {Some ''read'', Some ''glob'', Some ''grep''}"
    | "rule_target rule = Some ''runtime''" "rule_scopes rule = [''execute'']"
      "rule_operation rule \<in> {Some ''echo'', Some ''skill.execute''}"
    unfolding shipped_policy_def by auto
  then show ?thesis
  proof cases
    case 1
    then show ?thesis using risk r(2,4) v s by (auto simp: rule_matches_def)
  next
    case 2
    then show ?thesis using risk r(2,4) v s by (auto simp: rule_matches_def)
  qed
qed

theorem shipped_policy_auto_approvals_witness:
  "ad_approved (approve ''0123456789abcdef'' ''auto-approved'' [] []) \<and>
    governor_review id shipped_policy 0 ''0123456789abcdef''
      (sample_proposal\<lparr>ap_operation := ''read'', ap_required_scopes := [READ]\<rparr>) None =
      Inr (approve ''0123456789abcdef'' ''auto-approved'' [] []) \<and>
    ap_risk (sample_proposal\<lparr>ap_operation := ''read'', ap_required_scopes := [READ]\<rparr>) = LOW"
proof -
  have r: "governor_review id shipped_policy 0 ''0123456789abcdef''
      (sample_proposal\<lparr>ap_operation := ''read'', ap_required_scopes := [READ]\<rparr>) None =
      Inr (approve ''0123456789abcdef'' ''auto-approved'' [] [])"
    by code_simp
  with shipped_policy_auto_approvals [OF r] show ?thesis by simp
qed

end
