(* ===== verification/Approval_Store.thy ===== *)
theory Approval_Store
  imports Contracts_Actions
begin

text \<open>
  \<open>PendingActionStore\<close> of \<open>actions/approval.py\<close>: the durable inbox of actions that wait for a
  trusted decision. The two SQLite tables are lists of rows; each method runs under the lock
  in one immediate transaction and is one step. A method returns its value or the exception
  it raises together with the store, since \<open>decide\<close> commits before it raises. JSON columns
  are kept as text and parsed again on every read. Times are instants; the stored texts have
  one fixed-width form, on which the text order of SQL is the order of time.
\<close>

section \<open>Tables\<close>

record pending_row =
  pr_approval_id :: string
  pr_action_id :: string
  pr_action_hash :: string
  pr_proposal_json :: string
  pr_status :: approval_status
  pr_requested_at :: instant
  pr_expires_at :: instant
  pr_request_channel :: "string option"
  pr_requested_by :: "string option"
  pr_request_event_id :: "string option"
  pr_decided_at :: "instant option"
  pr_decided_by :: "string option"
  pr_decision_reason :: "string option"
  pr_decision_channel :: "string option"
  pr_consumed_at :: "instant option"
  pr_result_json :: "string option"
  pr_continuation_json :: "string option"

record approval_record =
  rc_record_id :: string
  rc_approval_id :: string
  rc_action_hash :: string
  rc_decision :: approval_status
  rc_principal :: string
  rc_reason :: string
  rc_channel :: string
  rc_decided_at :: instant

record approval_store =
  as_rows :: "pending_row list"
  as_records :: "approval_record list"

definition empty_store :: approval_store where
  "empty_store = \<lparr>as_rows = [], as_records = []\<rparr>"

record pending_action =
  pa_approval_id :: string
  pa_action_id :: string
  pa_action_hash :: string
  pa_status :: approval_status
  pa_proposal :: action_proposal
  pa_requested_at :: instant
  pa_expires_at :: instant
  pa_request_channel :: "string option"
  pa_requested_by :: "string option"
  pa_decided_at :: "instant option"
  pa_decided_by :: "string option"
  pa_decision_reason :: "string option"
  pa_decision_channel :: "string option"
  pa_consumed_at :: "instant option"
  pa_result :: "action_result option"
  pa_continuation :: "json option"

datatype approval_error =
    Approval_Not_Found string
  | Approval_Expired string
  | Approval_State_Error string
  | Approval_Integrity_Error string
  | Approval_Value_Error string
  | Approval_Sql_Error
  | Approval_Json_Error
  | Approval_Contract_Error contract_error

section \<open>Results as payloads\<close>

definition result_payload :: "action_result \<Rightarrow> (string, json) dict" where
  "result_payload r = [
     (''action_id'', JStr (ar_action_id r)),
     (''ok'', JBool (ar_ok r)),
     (''status'', JStr (ar_status r)),
     (''output'', json_safe (ar_output r)),
     (''error'', json_opt (ar_error r)),
     (''metadata'', json_safe (PDict (ar_metadata r))),
     (''failure_fingerprint'', json_opt (ar_failure_fingerprint r))]"

definition result_from_payload :: "(string, json) dict \<Rightarrow> contract_error + action_result" where
  "result_from_payload d =
     bindE (get_key d ''action_id'') (\<lambda>i.
     bindE (of_option (Missing_Key ''ok'') (dict_get d ''ok'')) (\<lambda>ok.
     bindE (get_key d ''status'') (\<lambda>status.
     bindE (get_text_or_null d ''error'') (\<lambda>error.
     bindE (get_dict d ''metadata'') (\<lambda>metadata.
     bindE (get_text_or_null d ''failure_fingerprint'') (\<lambda>fp.
     Inr \<lparr>ar_action_id = i, ar_ok = truthy ok, ar_status = status, ar_output = of_json (json_get d ''output''),
          ar_error = error, ar_metadata = metadata, ar_failure_fingerprint = fp\<rparr>))))))"

section \<open>Reading rows\<close>

definition lift_contract :: "contract_error + 'a \<Rightarrow> approval_error + 'a" where
  "lift_contract r = (case r of Inl e \<Rightarrow> Inl (Approval_Contract_Error e) | Inr x \<Rightarrow> Inr x)"

text \<open>\<open>json.loads\<close> of a column that holds an object.\<close>

definition load_obj :: "string \<Rightarrow> approval_error + (string, json) dict" where
  "load_obj s = (case loads s of Some (JObj d) \<Rightarrow> Inr d | _ \<Rightarrow> Inl Approval_Json_Error)"

text \<open>A column that is null or empty text reads as \<open>None\<close>.\<close>

definition load_result :: "string option \<Rightarrow> approval_error + action_result option" where
  "load_result c = (if ostr_or c [] = [] then Inr None
     else bindE (load_obj (ostr_or c [])) (\<lambda>d. bindE (lift_contract (result_from_payload d)) (\<lambda>r. Inr (Some r))))"

definition load_continuation :: "string option \<Rightarrow> approval_error + json option" where
  "load_continuation c = (if ostr_or c [] = [] then Inr None
     else (case loads (ostr_or c []) of None \<Rightarrow> Inl Approval_Json_Error | Some j \<Rightarrow> Inr (Some j)))"

definition row_to_pending :: "digest \<Rightarrow> pending_row \<Rightarrow> approval_error + pending_action" where
  "row_to_pending sha row =
     bindE (load_obj (pr_proposal_json row)) (\<lambda>d.
     bindE (lift_contract (proposal_from_payload d)) (\<lambda>proposal.
     if canonical_action_hash sha proposal \<noteq> pr_action_hash row
     then Inl (Approval_Integrity_Error (pr_approval_id row))
     else
       bindE (load_result (pr_result_json row)) (\<lambda>result.
       bindE (load_continuation (pr_continuation_json row)) (\<lambda>continuation.
       Inr \<lparr>pa_approval_id = pr_approval_id row, pa_action_id = pr_action_id row,
            pa_action_hash = pr_action_hash row, pa_status = pr_status row, pa_proposal = proposal,
            pa_requested_at = pr_requested_at row, pa_expires_at = pr_expires_at row,
            pa_request_channel = pr_request_channel row, pa_requested_by = pr_requested_by row,
            pa_decided_at = pr_decided_at row, pa_decided_by = pr_decided_by row,
            pa_decision_reason = pr_decision_reason row, pa_decision_channel = pr_decision_channel row,
            pa_consumed_at = pr_consumed_at row, pa_result = result, pa_continuation = continuation\<rparr>))))"

definition find_row :: "string \<Rightarrow> approval_store \<Rightarrow> pending_row option" where
  "find_row i s = find (\<lambda>r. pr_approval_id r = i) (as_rows s)"

text \<open>\<open>UPDATE pending_actions SET ... WHERE ...\<close>.\<close>

definition update_rows :: "(pending_row \<Rightarrow> bool) \<Rightarrow> (pending_row \<Rightarrow> pending_row) \<Rightarrow> approval_store \<Rightarrow> approval_store" where
  "update_rows P f s = s\<lparr>as_rows := map (\<lambda>r. if P r then f r else r) (as_rows s)\<rparr>"

definition store_get :: "digest \<Rightarrow> string \<Rightarrow> approval_store \<Rightarrow> approval_error + pending_action" where
  "store_get sha i s = (case find_row i s of None \<Rightarrow> Inl (Approval_Not_Found i)
     | Some row \<Rightarrow> row_to_pending sha row)"

section \<open>Operations\<close>

type_synonym 'a approval_op = "approval_store \<Rightarrow> (approval_error + 'a) \<times> approval_store"

definition new_row :: "digest \<Rightarrow> string \<Rightarrow> instant \<Rightarrow> int \<Rightarrow> action_proposal \<Rightarrow> string option
    \<Rightarrow> string option \<Rightarrow> string option \<Rightarrow> pending_row" where
  "new_row sha hex now ttl p channel by event =
     \<lparr>pr_approval_id = new_id ''approval'' hex, pr_action_id = ap_action_id p,
      pr_action_hash = canonical_action_hash sha p,
      pr_proposal_json = dumps spaced_utf8 (JObj (proposal_payload p)),
      pr_status = PENDING, pr_requested_at = now, pr_expires_at = now + ttl,
      pr_request_channel = channel, pr_requested_by = by, pr_request_event_id = event,
      pr_decided_at = None, pr_decided_by = None, pr_decision_reason = None,
      pr_decision_channel = None, pr_consumed_at = None, pr_result_json = None,
      pr_continuation_json = None\<rparr>"

text \<open>\<open>max(1, int(ttl_seconds or self.default_ttl_seconds))\<close>.\<close>

definition effective_ttl :: "int option \<Rightarrow> int \<Rightarrow> int" where
  "effective_ttl ttl dflt = max 1 (case ttl of None \<Rightarrow> dflt | Some t \<Rightarrow> if t = 0 then dflt else t)"

text \<open>
  When two rows match (one by identifier, one by hash) the first is taken, as SQLite gives
  the one inserted first.
\<close>

definition create_or_get :: "digest \<Rightarrow> int \<Rightarrow> string \<Rightarrow> instant \<Rightarrow> int option \<Rightarrow> action_proposal \<Rightarrow> string option
    \<Rightarrow> string option \<Rightarrow> string option \<Rightarrow> (pending_action \<times> bool) approval_op" where
  "create_or_get sha dflt hex now ttl p channel by event s =
     (let h = canonical_action_hash sha p;
          row = new_row sha hex now (effective_ttl ttl dflt) p channel by event in
      case find (\<lambda>r. pr_action_id r = ap_action_id p \<or> pr_action_hash r = h) (as_rows s) of
        Some existing \<Rightarrow> (bindE (row_to_pending sha existing) (\<lambda>pa. Inr (pa, False)), s)
      | None \<Rightarrow>
          if find_row (pr_approval_id row) s \<noteq> None then (Inl Approval_Sql_Error, s)
          else (bindE (row_to_pending sha row) (\<lambda>pa. Inr (pa, True)),
                s\<lparr>as_rows := as_rows s @ [row]\<rparr>))"

definition save_continuation :: "digest \<Rightarrow> string \<Rightarrow> pyval \<Rightarrow> pending_action approval_op" where
  "save_continuation sha i continuation s =
     (if find_row i s = None then (Inl (Approval_Not_Found i), s)
      else (let s' = update_rows (\<lambda>r. pr_approval_id r = i)
              (\<lambda>r. r\<lparr>pr_continuation_json := Some (dumps spaced_utf8 (json_safe continuation))\<rparr>) s
            in (store_get sha i s', s')))"

definition store_list :: "digest \<Rightarrow> string option \<Rightarrow> approval_store \<Rightarrow> approval_error + pending_action list" where
  "store_list sha status s =
     (case status of
        None \<Rightarrow> map_result (row_to_pending sha) (sort_key (\<lambda>r. - pr_requested_at r) (as_rows s))
      | Some t \<Rightarrow> (case status_of t of
            None \<Rightarrow> Inl (Approval_Value_Error t)
          | Some st \<Rightarrow> map_result (row_to_pending sha)
              (sort_key (\<lambda>r. - pr_requested_at r) (filter (\<lambda>r. pr_status r = st) (as_rows s)))))"

definition due :: "instant \<Rightarrow> pending_row \<Rightarrow> bool" where
  "due now r = (pr_status r = PENDING \<and> pr_expires_at r \<le> now)"

definition expire_due :: "digest \<Rightarrow> instant \<Rightarrow> pending_action list approval_op" where
  "expire_due sha now s =
     (let ids = map pr_approval_id (filter (due now) (as_rows s));
          s' = update_rows (\<lambda>r. pr_approval_id r \<in> set ids) (\<lambda>r. r\<lparr>pr_status := EXPIRED\<rparr>) s
      in (map_result (\<lambda>i. store_get sha i s') ids, s'))"

definition decide :: "digest \<Rightarrow> string \<Rightarrow> instant \<Rightarrow> string \<Rightarrow> bool \<Rightarrow> string \<Rightarrow> string \<Rightarrow> string
    \<Rightarrow> pending_action approval_op" where
  "decide sha hex now i approved who reason channel s =
     (if blank who then (Inl (Approval_Value_Error ''principal is required''), s)
      else if blank reason then (Inl (Approval_Value_Error ''decision reason is required''), s)
      else if blank channel then (Inl (Approval_Value_Error ''decision channel is required''), s)
      else (case find_row i s of
        None \<Rightarrow> (Inl (Approval_Not_Found i), s)
      | Some row \<Rightarrow>
          if due now row
          then (Inl (Approval_Expired i),
                update_rows (\<lambda>r. pr_approval_id r = i) (\<lambda>r. r\<lparr>pr_status := EXPIRED\<rparr>) s)
          else if pr_status row \<noteq> PENDING then (store_get sha i s, s)
          else (let
              decision = (if approved then APPROVED else REJECTED);
              rec = \<lparr>rc_record_id = new_id ''approval-record'' hex, rc_approval_id = i,
                     rc_action_hash = pr_action_hash row, rc_decision = decision, rc_principal = who,
                     rc_reason = reason, rc_channel = channel, rc_decided_at = now\<rparr>
            in if rc_record_id rec \<in> rc_record_id ` set (as_records s) then (Inl Approval_Sql_Error, s)
               else (let s' = update_rows (\<lambda>r. pr_approval_id r = i)
                   (\<lambda>r. r\<lparr>pr_status := decision, pr_decided_at := Some now, pr_decided_by := Some who,
                          pr_decision_reason := Some reason, pr_decision_channel := Some channel\<rparr>)
                   (s\<lparr>as_records := as_records s @ [rec]\<rparr>)
                 in (store_get sha i s', s')))))"

definition claim :: "digest \<Rightarrow> string \<Rightarrow> (pending_action \<times> bool) approval_op" where
  "claim sha i s =
     (case find_row i s of
        None \<Rightarrow> (Inl (Approval_Not_Found i), s)
      | Some row \<Rightarrow>
          if pr_status row = CONSUMED then (bindE (row_to_pending sha row) (\<lambda>pa. Inr (pa, True)), s)
          else if pr_status row = EXECUTING
          then (Inl (Approval_State_Error ''Approval execution is already in progress''), s)
          else if pr_status row = EXPIRED then (Inl (Approval_Expired i), s)
          else if pr_status row \<noteq> APPROVED
          then (Inl (Approval_State_Error (''Approval is not executable from state: '' @ status_value (pr_status row))), s)
          else (let s' = update_rows (\<lambda>r. pr_approval_id r = i \<and> pr_status r = APPROVED)
                  (\<lambda>r. r\<lparr>pr_status := EXECUTING\<rparr>) s
                in (bindE (store_get sha i s') (\<lambda>pa. Inr (pa, False)), s')))"

definition finalize :: "digest \<Rightarrow> instant \<Rightarrow> string \<Rightarrow> action_result \<Rightarrow> pending_action approval_op" where
  "finalize sha now i result s =
     (if length (filter (\<lambda>r. pr_approval_id r = i \<and> pr_status r = EXECUTING) (as_rows s)) \<noteq> 1
      then (Inl (Approval_State_Error ''Approval was not in executing state during finalization''), s)
      else (let s' = update_rows (\<lambda>r. pr_approval_id r = i \<and> pr_status r = EXECUTING)
              (\<lambda>r. r\<lparr>pr_status := CONSUMED, pr_consumed_at := Some now,
                     pr_result_json := Some (dumps spaced_utf8 (JObj (result_payload result)))\<rparr>) s
            in (store_get sha i s', s')))"

definition approval_records :: "string \<Rightarrow> approval_store \<Rightarrow> approval_record list" where
  "approval_records i s = sort_key rc_decided_at (filter (\<lambda>r. rc_approval_id r = i) (as_records s))"

section \<open>Lemmas\<close>

subsection \<open>Stored rows can be read\<close>

definition wf_result :: "action_result \<Rightarrow> bool" where
  "wf_result r = (wf_py (ar_output r) \<and> wf_py (PDict (ar_metadata r)))"

definition stored_row :: "digest \<Rightarrow> pending_row \<Rightarrow> bool" where
  "stored_row sha r =
     ((\<exists>p. wf_proposal p \<and> pr_proposal_json r = dumps spaced_utf8 (JObj (proposal_payload p)) \<and>
        pr_action_hash r = canonical_action_hash sha p \<and> pr_action_id r = ap_action_id p) \<and>
      (\<forall>t. pr_result_json r = Some t \<longrightarrow>
        (\<exists>x. wf_result x \<and> t = dumps spaced_utf8 (JObj (result_payload x)))) \<and>
      (\<forall>t. pr_continuation_json r = Some t \<longrightarrow> (\<exists>j. wf_json j \<and> t = dumps spaced_utf8 j)))"

lemma load_obj_dumps: "wf_json (JObj d) \<Longrightarrow> load_obj (dumps spaced_utf8 (JObj d)) = Inr (norm_dict d)"
  using spaced.dec_enc [of "JObj d"] by (simp add: load_obj_def norm_dict_def)

lemma keys_result_payload: "keys (result_payload r) = [''action_id'', ''ok'', ''status'', ''output'', ''error'',
    ''metadata'', ''failure_fingerprint'']"
  by (simp add: result_payload_def)

lemma wf_result_payload: "wf_result r \<Longrightarrow> wf_json (JObj (result_payload r))"
proof -
  assume "wf_result r"
  then have "wf_json (json_safe (ar_output r))" "wf_json (json_safe (PDict (ar_metadata r)))"
    unfolding wf_result_def by (blast intro: wf_json_safe)+
  then show ?thesis
    by (simp add: result_payload_def del: json_safe.simps wf_json_JObj)
      (simp add: wf_json_JObj del: json_safe.simps)
qed

definition stored_result :: "action_result \<Rightarrow> action_result" where
  "stored_result r = r\<lparr>ar_output := of_json (norm (json_safe (ar_output r))),
     ar_metadata := map (map_prod id of_json) (norm_dict (map (map_prod id json_safe) (ar_metadata r)))\<rparr>"

lemma result_from_stored:
  assumes "norm (JObj (result_payload r)) = JObj d"
  shows "result_from_payload d = Inr (stored_result r)"
proof -
  have "distinct (keys (result_payload r))" by (simp add: keys_result_payload)
  then have g: "dict_get d k = map_option norm (dict_get (result_payload r) k)" for k
    using assms by (rule dict_get_norm_obj)
  have j: "json_get d k = (case dict_get (result_payload r) k of None \<Rightarrow> JNull | Some v \<Rightarrow> norm v)" for k
    by (simp add: json_get_def g split: option.splits)
  have m: "get_dict d ''metadata'' = Inr (ar_metadata (stored_result r))"
    by (simp add: get_dict_norm j result_payload_def norm_dict_json stored_result_def del: norm.simps)
  show ?thesis
    by (simp add: result_from_payload_def m get_key_def g j get_text_or_null_def result_payload_def)
      (auto simp: stored_result_def json_opt_def split: option.splits)
qed

lemma dumps_nonempty_json [simp]: "wf_json j \<Longrightarrow> dumps f j \<noteq> []"
  by (rule dump_head [of "norm j" f]) (simp_all add: dumps_def)

lemma load_result_stored:
  "\<forall>t. c = Some t \<longrightarrow> (\<exists>x. wf_result x \<and> t = dumps spaced_utf8 (JObj (result_payload x))) \<Longrightarrow>
    \<exists>r. load_result c = Inr r \<and> (r = None) = (c = None)"
proof (cases c)
  case (Some t)
  assume "\<forall>t. c = Some t \<longrightarrow> (\<exists>x. wf_result x \<and> t = dumps spaced_utf8 (JObj (result_payload x)))"
  with Some obtain x where x: "wf_result x" "t = dumps spaced_utf8 (JObj (result_payload x))" by auto
  have wf: "wf_json (JObj (result_payload x))" using x(1) by (rule wf_result_payload)
  have "t \<noteq> []" using x(2) dumps_nonempty_json [OF wf] by simp
  then have "load_result c = Inr (Some (stored_result x))"
    using Some x load_obj_dumps [OF wf] result_from_stored [OF norm_dict_json]
    by (simp add: load_result_def ostr_or_def str_or_def lift_contract_def)
  with Some show ?thesis by simp
qed (simp add: load_result_def ostr_or_def)

lemma load_continuation_stored:
  "\<forall>t. c = Some t \<longrightarrow> (\<exists>j. wf_json j \<and> t = dumps spaced_utf8 j) \<Longrightarrow> \<exists>r. load_continuation c = Inr r"
  using spaced.dec_enc by (cases c) (auto simp: load_continuation_def ostr_or_def str_or_def)

lemma row_to_pending_stored:
  assumes "stored_row sha r"
  obtains p pa where "wf_proposal p" "row_to_pending sha r = Inr pa" "pa_proposal pa = stored_proposal p"
    "pr_action_hash r = canonical_action_hash sha p" "ap_action_id p = pr_action_id r"
    "pa_approval_id pa = pr_approval_id r" "pa_action_id pa = pr_action_id r"
    "pa_action_hash pa = pr_action_hash r" "pa_status pa = pr_status r" "pa_expires_at pa = pr_expires_at r"
    "pa_decided_by pa = pr_decided_by r" "pa_decided_at pa = pr_decided_at r"
    "pa_decision_reason pa = pr_decision_reason r" "(pa_result pa = None) = (pr_result_json r = None)"
proof -
  from assms obtain p where p: "wf_proposal p" "pr_proposal_json r = dumps spaced_utf8 (JObj (proposal_payload p))"
    "pr_action_hash r = canonical_action_hash sha p" "pr_action_id r = ap_action_id p"
    by (auto simp: stored_row_def)
  have "\<forall>t. pr_result_json r = Some t \<longrightarrow> (\<exists>x. wf_result x \<and> t = dumps spaced_utf8 (JObj (result_payload x)))"
    and k: "\<forall>t. pr_continuation_json r = Some t \<longrightarrow> (\<exists>j. wf_json j \<and> t = dumps spaced_utf8 j)"
    using assms unfolding stored_row_def by blast+
  from load_result_stored [OF this(1)]
  obtain x where x: "load_result (pr_result_json r) = Inr x" "(x = None) = (pr_result_json r = None)"
    by (elim exE conjE) (rule that)
  obtain c where c: "load_continuation (pr_continuation_json r) = Inr c"
    using load_continuation_stored [OF k] by blast
  have l: "load_obj (pr_proposal_json r) = Inr (norm_dict (proposal_payload p))"
    using p by (simp add: load_obj_dumps wf_proposal_payload del: wf_json_JObj)
  have q: "proposal_from_payload (norm_dict (proposal_payload p)) = Inr (stored_proposal p)"
    by (rule proposal_from_stored) (rule norm_dict_json)
  have "\<exists>pa. row_to_pending sha r = Inr pa \<and> pa_proposal pa = stored_proposal p \<and>
    pa_approval_id pa = pr_approval_id r \<and> pa_action_id pa = pr_action_id r \<and>
    pa_action_hash pa = pr_action_hash r \<and> pa_status pa = pr_status r \<and> pa_expires_at pa = pr_expires_at r \<and>
    pa_decided_by pa = pr_decided_by r \<and> pa_decided_at pa = pr_decided_at r \<and>
    pa_decision_reason pa = pr_decision_reason r \<and> (pa_result pa = None) = (pr_result_json r = None)"
    using p(1,3) x by (simp add: row_to_pending_def l q lift_contract_def c)
  then show thesis using p by (elim exE conjE) (rule that [of p], simp_all)
qed

subsection \<open>Rows and updates\<close>

lemma find_row_SomeD: "find_row i s = Some r \<Longrightarrow> r \<in> set (as_rows s) \<and> pr_approval_id r = i"
  by (auto simp: find_row_def find_Some_iff)

lemma find_row_NoneD: "find_row i s = None \<Longrightarrow> r \<in> set (as_rows s) \<Longrightarrow> pr_approval_id r \<noteq> i"
  by (auto simp: find_row_def find_None_iff)

lemma find_map_id:
  "(\<And>r. key (f r) = key r) \<Longrightarrow> find (\<lambda>r. key r = i) (map f xs) = map_option f (find (\<lambda>r. key r = i) xs)"
  by (induction xs) auto

lemma find_row_update:
  assumes "\<And>r. pr_approval_id (f r) = pr_approval_id r"
  shows "find_row i (update_rows P f s) = map_option (\<lambda>r. if P r then f r else r) (find_row i s)"
  using assms find_map_id [of pr_approval_id "\<lambda>r. if P r then f r else r" i "as_rows s"]
  by (simp add: find_row_def update_rows_def)

definition records_of :: "string \<Rightarrow> approval_store \<Rightarrow> approval_record list" where
  "records_of i s = filter (\<lambda>c. rc_approval_id c = i) (as_records s)"

text \<open>What the immutable records say of a row: nothing before a decision, one record after.\<close>

definition decided_row :: "approval_store \<Rightarrow> pending_row \<Rightarrow> bool" where
  "decided_row s r =
     (if pr_status r \<in> {PENDING, EXPIRED} then records_of (pr_approval_id r) s = [] \<and> pr_decided_by r = None
      else (\<exists>c. records_of (pr_approval_id r) s = [c] \<and>
        rc_decision c = (if pr_status r = REJECTED then REJECTED else APPROVED) \<and>
        rc_action_hash c = pr_action_hash r \<and> pr_decided_by r = Some (rc_principal c) \<and>
        pr_decided_at r = Some (rc_decided_at c) \<and> rc_decided_at c < pr_expires_at r \<and>
        pr_decision_reason r = Some (rc_reason c) \<and> \<not> blank (rc_principal c) \<and> \<not> blank (rc_reason c)))"

definition store_inv :: "digest \<Rightarrow> approval_store \<Rightarrow> bool" where
  "store_inv sha s =
     (distinct (map pr_approval_id (as_rows s)) \<and> distinct (map pr_action_id (as_rows s)) \<and>
      distinct (map pr_action_hash (as_rows s)) \<and> distinct (map rc_record_id (as_records s)) \<and>
      (\<forall>c \<in> set (as_records s). rc_approval_id c \<in> pr_approval_id ` set (as_rows s)) \<and>
      (\<forall>r \<in> set (as_rows s). stored_row sha r \<and> decided_row s r \<and>
         (pr_result_json r = None) = (pr_status r \<noteq> CONSUMED)))"

lemma store_inv_find:
  "store_inv sha s \<Longrightarrow> find_row i s = Some r \<Longrightarrow> stored_row sha r \<and> decided_row s r"
  by (auto simp: store_inv_def dest: find_row_SomeD)

lemma store_get_inv:
  assumes "store_inv sha s" "find_row i s = Some r"
  obtains pa where "store_get sha i s = Inr pa" "row_to_pending sha r = Inr pa" "pa_status pa = pr_status r"
    "pa_approval_id pa = i"
proof -
  have "stored_row sha r" "pr_approval_id r = i"
    using assms store_inv_find find_row_SomeD by blast+
  then show thesis using that assms(2) by (auto simp: store_get_def elim!: row_to_pending_stored)
qed

text \<open>An update that keeps the identity of rows and what the invariant says of each.\<close>

lemma store_inv_update:
  assumes "store_inv sha s"
    and "\<And>r. pr_approval_id (f r) = pr_approval_id r" "\<And>r. pr_action_id (f r) = pr_action_id r"
      "\<And>r. pr_action_hash (f r) = pr_action_hash r"
    and "\<And>r. r \<in> set (as_rows s) \<Longrightarrow> P r \<Longrightarrow> stored_row sha (f r) \<and> decided_row s (f r) \<and>
      (pr_result_json (f r) = None) = (pr_status (f r) \<noteq> CONSUMED)"
  shows "store_inv sha (update_rows P f s)"
proof -
  let ?g = "\<lambda>r. if P r then f r else r"
  have m: "map pr_approval_id (map ?g (as_rows s)) = map pr_approval_id (as_rows s)"
    "map pr_action_id (map ?g (as_rows s)) = map pr_action_id (as_rows s)"
    "map pr_action_hash (map ?g (as_rows s)) = map pr_action_hash (as_rows s)"
    using assms(2-4) by auto
  have i: "pr_approval_id ` set (map ?g (as_rows s)) = pr_approval_id ` set (as_rows s)"
    using m(1) by (metis set_map)
  have d: "decided_row (update_rows P f s) r = decided_row s r" for r
    by (simp add: decided_row_def records_of_def update_rows_def)
  have rows: "as_rows (update_rows P f s) = map ?g (as_rows s)"
    "as_records (update_rows P f s) = as_records s"
    by (simp_all add: update_rows_def)
  show ?thesis
    unfolding store_inv_def d rows m i using assms(1,5) unfolding store_inv_def by auto
qed

section \<open>The interface of a single-use gate\<close>

text \<open>
  What the inbox relies on: decisions and executions move an approval only forward, and only
  a successful claim moves it from approved to executing. Over any sequence of operations an
  approval is then claimed at most once.
\<close>

fun status_edge :: "approval_status \<Rightarrow> approval_status \<Rightarrow> bool" where
  "status_edge PENDING b = True"
| "status_edge APPROVED b = (b \<in> {APPROVED, EXECUTING})"
| "status_edge EXECUTING b = (b \<in> {EXECUTING, CONSUMED})"
| "status_edge b c = (b = c)"

locale approval_gate =
  fixes status :: "'s \<Rightarrow> string \<Rightarrow> approval_status option"
    and step :: "'op \<Rightarrow> 's \<Rightarrow> 's"
    and claims :: "'op \<Rightarrow> 's \<Rightarrow> string option"
    and ok :: "'op \<Rightarrow> bool"
    and inv :: "'s \<Rightarrow> bool"
  assumes inv_step: "inv s \<Longrightarrow> ok op \<Longrightarrow> inv (step op s)"
    and status_step: "inv s \<Longrightarrow> ok op \<Longrightarrow> status s i = Some a \<Longrightarrow>
      \<exists>b. status (step op s) i = Some b \<and> status_edge a b \<and> (a = PENDING \<longrightarrow> b \<notin> {EXECUTING, CONSUMED})"
    and status_new: "inv s \<Longrightarrow> ok op \<Longrightarrow> status s i = None \<Longrightarrow> status (step op s) i \<in> {None, Some PENDING}"
    and claims_iff: "inv s \<Longrightarrow> ok op \<Longrightarrow>
      claims op s = Some i \<longleftrightarrow> status s i = Some APPROVED \<and> status (step op s) i = Some EXECUTING"
begin

fun run :: "'op list \<Rightarrow> 's \<Rightarrow> 's" where
  "run [] s = s"
| "run (op # ops) s = run ops (step op s)"

fun claim_count :: "string \<Rightarrow> 'op list \<Rightarrow> 's \<Rightarrow> nat" where
  "claim_count i [] s = 0"
| "claim_count i (op # ops) s = (if claims op s = Some i then 1 else 0) + claim_count i ops (step op s)"

definition used :: "approval_status option \<Rightarrow> bool" where
  "used a = (a \<in> {Some EXECUTING, Some CONSUMED})"

lemma inv_run: "inv s \<Longrightarrow> list_all ok ops \<Longrightarrow> inv (run ops s)"
  by (induction ops arbitrary: s) (auto simp: inv_step)

lemma used_step:
  assumes "inv s" "ok op"
  shows "used (status (step op s) i) \<longleftrightarrow> used (status s i) \<or> claims op s = Some i"
proof (cases "status s i")
  case None
  then show ?thesis using assms status_new [OF assms None] claims_iff by (auto simp: used_def)
next
  case (Some a)
  then obtain b where b: "status (step op s) i = Some b" "status_edge a b" "a = PENDING \<longrightarrow> b \<notin> {EXECUTING, CONSUMED}"
    using assms status_step by blast
  then show ?thesis using assms Some claims_iff [of s op i] by (cases a) (auto simp: used_def)
qed

text \<open>A claim is counted exactly when the approval goes from unused to used.\<close>

lemma claim_count_used:
  "inv s \<Longrightarrow> list_all ok ops \<Longrightarrow>
    claim_count i ops s = (if used (status (run ops s) i) \<and> \<not> used (status s i) then 1 else 0) \<and>
    (used (status s i) \<longrightarrow> used (status (run ops s) i))"
proof (induction ops arbitrary: s)
  case (Cons op ops)
  then have ok: "inv s" "ok op" by simp_all
  have "claims op s = Some i \<Longrightarrow> \<not> used (status s i)"
    using claims_iff [OF ok] by (simp add: used_def)
  then show ?case using Cons.IH [of "step op s"] Cons.prems ok used_step [OF ok] inv_step by auto
qed simp

lemma claimed_at_most_once: "inv s \<Longrightarrow> list_all ok ops \<Longrightarrow> claim_count i ops s \<le> 1"
  using claim_count_used by simp

text \<open>Rejection and expiry are final.\<close>

lemma final_run:
  "inv s \<Longrightarrow> list_all ok ops \<Longrightarrow> status s i = Some a \<Longrightarrow> a \<in> {REJECTED, EXPIRED, CONSUMED} \<Longrightarrow>
    status (run ops s) i = Some a"
proof (induction ops arbitrary: s)
  case (Cons op ops)
  then obtain b where "status (step op s) i = Some b" "status_edge a b"
    using status_step [of s op i a] by auto
  with Cons show ?case by (auto simp: inv_step)
qed simp

end

section \<open>The store is such a gate\<close>

datatype store_op =
    Op_Create string instant "int option" action_proposal "string option" "string option" "string option"
  | Op_Save_Continuation string pyval
  | Op_Expire_Due instant
  | Op_Decide string instant string bool string string string
  | Op_Claim string
  | Op_Finalize instant string action_result

fun store_step :: "digest \<Rightarrow> int \<Rightarrow> store_op \<Rightarrow> approval_store \<Rightarrow> approval_store" where
  "store_step sha dflt (Op_Create hex now ttl p channel by event) s =
     snd (create_or_get sha dflt hex now ttl p channel by event s)"
| "store_step sha dflt (Op_Save_Continuation i c) s = snd (save_continuation sha i c s)"
| "store_step sha dflt (Op_Expire_Due now) s = snd (expire_due sha now s)"
| "store_step sha dflt (Op_Decide hex now i approved who reason channel) s =
     snd (decide sha hex now i approved who reason channel s)"
| "store_step sha dflt (Op_Claim i) s = snd (claim sha i s)"
| "store_step sha dflt (Op_Finalize now i result) s = snd (finalize sha now i result s)"

text \<open>The approval an operation claims: \<open>claim\<close> returned with \<open>replayed\<close> false.\<close>

definition store_claims :: "digest \<Rightarrow> store_op \<Rightarrow> approval_store \<Rightarrow> string option" where
  "store_claims sha op s = (case op of
     Op_Claim i \<Rightarrow> (case fst (claim sha i s) of Inr (pa, False) \<Rightarrow> Some i | _ \<Rightarrow> None)
   | _ \<Rightarrow> None)"

fun wf_op :: "store_op \<Rightarrow> bool" where
  "wf_op (Op_Create hex now ttl p channel by event) = wf_proposal p"
| "wf_op (Op_Save_Continuation i c) = wf_py c"
| "wf_op (Op_Finalize now i result) = wf_result result"
| "wf_op op = True"

definition row_status :: "approval_store \<Rightarrow> string \<Rightarrow> approval_status option" where
  "row_status s i = map_option pr_status (find_row i s)"

subsection \<open>Every operation keeps the invariant\<close>

lemma find_row_member:
  "store_inv sha s \<Longrightarrow> r \<in> set (as_rows s) \<Longrightarrow> find_row (pr_approval_id r) s = Some r"
  unfolding find_row_def by (rule find_distinct) (simp_all add: store_inv_def)

lemma stored_row_simps [simp]:
  "stored_row sha (r\<lparr>pr_status := st\<rparr>) = stored_row sha r"
  "stored_row sha (r\<lparr>pr_status := st, pr_decided_at := a, pr_decided_by := b, pr_decision_reason := c,
     pr_decision_channel := d\<rparr>) = stored_row sha r"
  "stored_row sha (r\<lparr>pr_status := st, pr_consumed_at := e, pr_result_json := x\<rparr>) = stored_row sha (r\<lparr>pr_result_json := x\<rparr>)"
  by (simp_all add: stored_row_def)

lemma inv_create:
  assumes "store_inv sha s" "wf_proposal p"
  shows "store_inv sha (snd (create_or_get sha dflt hex now ttl p channel by event s))"
proof -
  let ?row = "new_row sha hex now (effective_ttl ttl dflt) p channel by event"
  have "store_inv sha (s\<lparr>as_rows := as_rows s @ [?row]\<rparr>)"
    if new: "\<forall>r \<in> set (as_rows s). pr_action_id r \<noteq> ap_action_id p \<and> pr_action_hash r \<noteq> canonical_action_hash sha p"
      and fresh: "find_row (pr_approval_id ?row) s = None"
  proof -
    have id: "pr_approval_id ?row \<notin> pr_approval_id ` set (as_rows s)"
      using find_row_NoneD [OF fresh] by fastforce
    then have none: "records_of (pr_approval_id ?row) s = []"
      using assms(1) unfolding store_inv_def records_of_def filter_empty_conv by metis
    have row: "stored_row sha ?row" "pr_status ?row = PENDING" "pr_decided_by ?row = None" "pr_result_json ?row = None"
      "pr_action_id ?row = ap_action_id p" "pr_action_hash ?row = canonical_action_hash sha p"
      using assms(2) by (auto simp: stored_row_def new_row_def)
    have d: "decided_row (s\<lparr>as_rows := xs\<rparr>) r = decided_row s r" for xs r
      by (simp add: decided_row_def records_of_def)
    have "decided_row s ?row" using none row by (simp add: decided_row_def)
    with assms(1) row id new show ?thesis unfolding store_inv_def d by auto
  qed
  then show ?thesis
    using assms(1) by (auto simp: create_or_get_def Let_def find_None_iff split: option.splits)
qed

lemma inv_save_continuation:
  assumes "store_inv sha s" "wf_py c"
  shows "store_inv sha (snd (save_continuation sha i c s))"
proof -
  have "store_inv sha (update_rows (\<lambda>r. pr_approval_id r = i)
      (\<lambda>r. r\<lparr>pr_continuation_json := Some (dumps spaced_utf8 (json_safe c))\<rparr>) s)"
  proof (rule store_inv_update [OF assms(1)])
    fix r assume "r \<in> set (as_rows s)" "pr_approval_id r = i"
    then have "stored_row sha r" "decided_row s r" "(pr_result_json r = None) = (pr_status r \<noteq> CONSUMED)"
      using assms(1) by (auto simp: store_inv_def)
    with wf_json_safe [OF assms(2)]
    show "stored_row sha (r\<lparr>pr_continuation_json := Some (dumps spaced_utf8 (json_safe c))\<rparr>) \<and>
      decided_row s (r\<lparr>pr_continuation_json := Some (dumps spaced_utf8 (json_safe c))\<rparr>) \<and>
      (pr_result_json (r\<lparr>pr_continuation_json := Some (dumps spaced_utf8 (json_safe c))\<rparr>) = None) =
      (pr_status (r\<lparr>pr_continuation_json := Some (dumps spaced_utf8 (json_safe c))\<rparr>) \<noteq> CONSUMED)"
      by (auto simp: stored_row_def decided_row_def)
  qed simp_all
  with assms(1) show ?thesis by (simp add: save_continuation_def Let_def)
qed

text \<open>The three status changes that touch one row.\<close>

lemma inv_set_status:
  assumes "store_inv sha s"
    and "\<And>r. r \<in> set (as_rows s) \<Longrightarrow> P r \<Longrightarrow>
      pr_status r = PENDING \<and> st = EXPIRED \<or> pr_status r = APPROVED \<and> st = EXECUTING"
  shows "store_inv sha (update_rows P (\<lambda>r. r\<lparr>pr_status := st\<rparr>) s)"
proof (rule store_inv_update [OF assms(1)])
  fix r assume r: "r \<in> set (as_rows s)" "P r"
  then have "stored_row sha r" "decided_row s r" "(pr_result_json r = None) = (pr_status r \<noteq> CONSUMED)"
    using assms(1) by (auto simp: store_inv_def)
  with assms(2) [OF r]
  show "stored_row sha (r\<lparr>pr_status := st\<rparr>) \<and> decided_row s (r\<lparr>pr_status := st\<rparr>) \<and>
    (pr_result_json (r\<lparr>pr_status := st\<rparr>) = None) = (pr_status (r\<lparr>pr_status := st\<rparr>) \<noteq> CONSUMED)"
    by (auto simp: decided_row_def)
qed simp_all

lemma due_ids:
  assumes "store_inv sha s" "r \<in> set (as_rows s)"
  shows "pr_approval_id r \<in> set (map pr_approval_id (filter (due now) (as_rows s))) \<longleftrightarrow> due now r"
proof -
  have "r' = r" if "r' \<in> set (as_rows s)" "pr_approval_id r' = pr_approval_id r" for r'
    using that find_row_member [OF assms(1)] assms(2) by (metis option.inject)
  then show ?thesis using assms(2) by (auto simp: image_iff)
qed

lemma inv_expire_due: "store_inv sha s \<Longrightarrow> store_inv sha (snd (expire_due sha now s))"
  unfolding expire_due_def Let_def snd_conv
  by (rule inv_set_status) (simp_all only: due_ids, simp_all add: due_def)

lemma inv_claim: "store_inv sha s \<Longrightarrow> store_inv sha (snd (claim sha i s))"
  by (auto simp: claim_def Let_def intro!: inv_set_status split: option.splits)

lemma inv_finalize:
  assumes "store_inv sha s" "wf_result x"
  shows "store_inv sha (snd (finalize sha now i x s))"
proof -
  let ?f = "\<lambda>r. r\<lparr>pr_status := CONSUMED, pr_consumed_at := Some now,
                     pr_result_json := Some (dumps spaced_utf8 (JObj (result_payload x)))\<rparr>"
  have "store_inv sha (update_rows (\<lambda>r. pr_approval_id r = i \<and> pr_status r = EXECUTING) ?f s)"
  proof (rule store_inv_update [OF assms(1)])
    fix r assume "r \<in> set (as_rows s)" "pr_approval_id r = i \<and> pr_status r = EXECUTING"
    then have "stored_row sha r" "decided_row s r" "pr_status r = EXECUTING"
      using assms(1) by (auto simp: store_inv_def)
    with assms(2) show "stored_row sha (?f r) \<and> decided_row s (?f r) \<and>
        (pr_result_json (?f r) = None) = (pr_status (?f r) \<noteq> CONSUMED)"
      by (auto simp: stored_row_def decided_row_def)
  qed simp_all
  with assms(1) show ?thesis by (simp add: finalize_def Let_def)
qed

lemma find_row_records [simp]: "find_row i (s\<lparr>as_records := x\<rparr>) = find_row i s"
  by (simp add: find_row_def)

lemma inv_decide_row:
  assumes "store_inv sha s" "find_row i s = Some row" "pr_status row = PENDING" "now < pr_expires_at row"
    and "rc_record_id c \<notin> rc_record_id ` set (as_records s)" "rc_approval_id c = i"
    and "rc_action_hash c = pr_action_hash row" "rc_decision c = st" "st \<in> {APPROVED, REJECTED}"
    and "rc_principal c = who" "rc_decided_at c = now" "rc_reason c = reason" "\<not> blank who" "\<not> blank reason"
  shows "store_inv sha (update_rows (\<lambda>r. pr_approval_id r = i)
     (\<lambda>r. r\<lparr>pr_status := st, pr_decided_at := Some now, pr_decided_by := Some who,
        pr_decision_reason := Some reason, pr_decision_channel := Some channel\<rparr>)
     (s\<lparr>as_records := as_records s @ [c]\<rparr>))"
proof -
  let ?f = "\<lambda>r. r\<lparr>pr_status := st, pr_decided_at := Some now, pr_decided_by := Some who,
        pr_decision_reason := Some reason, pr_decision_channel := Some channel\<rparr>"
  let ?s = "s\<lparr>as_records := as_records s @ [c]\<rparr>"
  let ?g = "\<lambda>r. if pr_approval_id r = i then ?f r else r"
  note row = find_row_SomeD [OF assms(2)]
  have rows: "as_rows (update_rows (\<lambda>r. pr_approval_id r = i) ?f ?s) = map ?g (as_rows s)"
    "as_records (update_rows (\<lambda>r. pr_approval_id r = i) ?f ?s) = as_records s @ [c]"
    by (simp_all add: update_rows_def)
  have m: "map pr_approval_id (map ?g (as_rows s)) = map pr_approval_id (as_rows s)"
    "map pr_action_id (map ?g (as_rows s)) = map pr_action_id (as_rows s)"
    "map pr_action_hash (map ?g (as_rows s)) = map pr_action_hash (as_rows s)"
    by auto
  have ids: "pr_approval_id ` set (map ?g (as_rows s)) = pr_approval_id ` set (as_rows s)"
    using m(1) by (metis set_map)
  have one: "r = row" if "r \<in> set (as_rows s)" "pr_approval_id r = i" for r
    using find_row_member [OF assms(1) that(1)] that(2) assms(2) by simp
  have "records_of i s = []" using store_inv_find [OF assms(1,2)] assms(3) row by (simp add: decided_row_def)
  then have "records_of j (update_rows (\<lambda>r. pr_approval_id r = i) ?f ?s) = (if j = i then [c] else records_of j s)" for j
    using assms(6) by (auto simp: records_of_def update_rows_def)
  then have d: "stored_row sha (?g r) \<and> decided_row (update_rows (\<lambda>r. pr_approval_id r = i) ?f ?s) (?g r) \<and>
      (pr_result_json (?g r) = None) = (pr_status (?g r) \<noteq> CONSUMED)" if "r \<in> set (as_rows s)" for r
    using that one assms(1,3,4,7-14) by (auto simp: decided_row_def store_inv_def)
  show ?thesis
    unfolding store_inv_def rows m ids
  proof (intro conjI)
    show "\<forall>r \<in> set (map ?g (as_rows s)). stored_row sha r \<and>
        decided_row (update_rows (\<lambda>r. pr_approval_id r = i) ?f ?s) r \<and>
        (pr_result_json r = None) = (pr_status r \<noteq> CONSUMED)"
      unfolding set_map by (rule ballI, erule imageE, hypsubst, rule d)
  qed (insert assms(1,5,6) row, auto simp: store_inv_def intro: rev_image_eqI)
qed

lemma inv_decide: "store_inv sha s \<Longrightarrow> store_inv sha (snd (decide sha hex now i approved who reason channel s))"
proof (cases "find_row i s")
  case (Some row)
  assume inv: "store_inv sha s"
  have due: "store_inv sha (update_rows (\<lambda>r. pr_approval_id r = i) (\<lambda>r. r\<lparr>pr_status := EXPIRED\<rparr>) s)"
    if "due now row"
    using inv that find_row_member [OF inv] Some
    by (intro inv_set_status) (auto simp: due_def)
  show ?thesis
  proof (cases "due now row \<or> pr_status row \<noteq> PENDING")
    case True
    then show ?thesis using inv due Some by (auto simp: decide_def)
  next
    case False
    then have "pr_status row = PENDING" "now < pr_expires_at row" "\<not> due now row" by (auto simp: due_def)
    then show ?thesis using inv Some
      by (auto simp: decide_def Let_def intro!: inv_decide_row simp del: stored_row_simps)
  qed
qed (simp add: decide_def)

lemma store_inv_step: "store_inv sha s \<Longrightarrow> wf_op op \<Longrightarrow> store_inv sha (store_step sha dflt op s)"
  by (cases op) (simp_all add: inv_create inv_save_continuation inv_expire_due inv_decide inv_claim inv_finalize)

subsection \<open>How every operation moves the status of a row\<close>

lemma row_status_create:
  "row_status (snd (create_or_get sha dflt hex now ttl p channel by event s)) j =
    (if row_status s j = None \<and> snd (create_or_get sha dflt hex now ttl p channel by event s) \<noteq> s \<and>
        j = new_id ''approval'' hex then Some PENDING else row_status s j)"
  by (auto simp: create_or_get_def Let_def row_status_def find_row_def find_append new_row_def split: option.splits)

lemma row_status_save: "row_status (snd (save_continuation sha i c s)) j = row_status s j"
  by (cases "find_row j s") (simp_all add: save_continuation_def Let_def find_row_update row_status_def)

lemma row_status_expire:
  "store_inv sha s \<Longrightarrow> row_status (snd (expire_due sha now s)) j =
    map_option (\<lambda>r. if due now r then EXPIRED else pr_status r) (find_row j s)"
proof (cases "find_row j s")
  case (Some r)
  moreover assume inv: "store_inv sha s"
  ultimately have "pr_approval_id r \<in> set (map pr_approval_id (filter (due now) (as_rows s))) \<longleftrightarrow> due now r"
    using due_ids find_row_SomeD by blast
  with Some show ?thesis by (simp add: expire_due_def Let_def find_row_update row_status_def del: set_map set_filter)
qed (simp add: expire_due_def Let_def find_row_update row_status_def)

lemma row_status_expire_cases:
  "store_inv sha s \<Longrightarrow> row_status (snd (expire_due sha now s)) j = row_status s j \<or>
    row_status s j = Some PENDING \<and> row_status (snd (expire_due sha now s)) j = Some EXPIRED"
  by (subst (1 2) row_status_expire) (cases "find_row j s"; auto simp: row_status_def due_def)+

lemma row_status_decide:
  "row_status (snd (decide sha hex now i approved who reason channel s)) j = row_status s j \<or>
    j = i \<and> row_status s j = Some PENDING \<and>
    row_status (snd (decide sha hex now i approved who reason channel s)) j \<in> {Some EXPIRED, Some APPROVED, Some REJECTED}"
proof (cases "find_row j s")
  case (Some r)
  then have "pr_approval_id r = j" by (auto dest: find_row_SomeD)
  with Some show ?thesis
    by (cases "j = i"; cases "find_row i s")
      (auto simp: decide_def Let_def find_row_update row_status_def due_def)
next
  case None
  then show ?thesis
    by (cases "find_row i s") (auto simp: decide_def Let_def find_row_update row_status_def)
qed

lemma row_status_claim:
  "row_status (snd (claim sha i s)) j =
    (if j = i \<and> row_status s i = Some APPROVED then Some EXECUTING else row_status s j)"
proof (cases "find_row i s")
  case (Some r)
  then have "pr_approval_id r = i" by (auto dest: find_row_SomeD)
  with Some show ?thesis
    by (cases "j = i"; cases "find_row j s")
      (auto simp: claim_def Let_def find_row_update row_status_def dest: find_row_SomeD)
qed (simp add: claim_def row_status_def)

lemma row_status_finalize:
  "row_status (snd (finalize sha now i x s)) j = row_status s j \<or>
    row_status s j = Some EXECUTING \<and> row_status (snd (finalize sha now i x s)) j = Some CONSUMED"
  by (cases "find_row j s") (auto simp: finalize_def Let_def find_row_update row_status_def)

lemma store_claims_iff:
  assumes "store_inv sha s"
  shows "fst (claim sha i s) = Inr (pa, False) \<Longrightarrow> row_status s i = Some APPROVED"
    and "row_status s i = Some APPROVED \<Longrightarrow> \<exists>pa. fst (claim sha i s) = Inr (pa, False)"
proof -
  show "fst (claim sha i s) = Inr (pa, False) \<Longrightarrow> row_status s i = Some APPROVED"
    by (auto simp: claim_def Let_def row_status_def bindE_Inr_conv split: option.splits if_splits)
  assume "row_status s i = Some APPROVED"
  then obtain row where row: "find_row i s = Some row" "pr_status row = APPROVED"
    by (auto simp: row_status_def)
  let ?s = "update_rows (\<lambda>r. pr_approval_id r = i \<and> pr_status r = APPROVED) (\<lambda>r. r\<lparr>pr_status := EXECUTING\<rparr>) s"
  have "store_inv sha ?s" using inv_claim [OF assms, of i] row by (simp add: claim_def Let_def)
  moreover have "find_row i ?s = Some (row\<lparr>pr_status := EXECUTING\<rparr>)"
    using row find_row_SomeD [OF row(1)] by (simp add: find_row_update)
  ultimately obtain pa where "store_get sha i ?s = Inr pa" by (rule store_get_inv)
  then show "\<exists>pa. fst (claim sha i s) = Inr (pa, False)" using row by (simp add: claim_def Let_def)
qed

lemma store_gate: "approval_gate row_status (store_step sha dflt) (store_claims sha) wf_op (store_inv sha)"
proof
  fix s op i a
  assume inv: "store_inv sha s" and ok: "wf_op op"
  show "store_inv sha (store_step sha dflt op s)" using inv ok by (rule store_inv_step)
  show "\<exists>b. row_status (store_step sha dflt op s) i = Some b \<and> status_edge a b \<and>
      (a = PENDING \<longrightarrow> b \<notin> {EXECUTING, CONSUMED})" if a: "row_status s i = Some a"
  proof (cases op)
    case (Op_Expire_Due now)
    with a row_status_expire_cases [OF inv, of now i] show ?thesis by (cases a) auto
  next
    case (Op_Decide hex now j approved who reason channel)
    with a row_status_decide [of sha hex now j approved who reason channel s i] show ?thesis by (cases a) auto
  next
    case (Op_Finalize now j x)
    with a row_status_finalize [of sha now j x s i] show ?thesis by (cases a) auto
  qed (use a in \<open>cases a; auto simp: row_status_create row_status_save row_status_claim\<close>)+
  show "row_status (store_step sha dflt op s) i \<in> {None, Some PENDING}" if n: "row_status s i = None"
  proof (cases op)
    case (Op_Expire_Due now)
    with n row_status_expire_cases [OF inv, of now i] show ?thesis by auto
  next
    case (Op_Decide hex now j approved who reason channel)
    with n row_status_decide [of sha hex now j approved who reason channel s i] show ?thesis by auto
  next
    case (Op_Finalize now j x)
    with n row_status_finalize [of sha now j x s i] show ?thesis by auto
  qed (use n in \<open>auto simp: row_status_create row_status_save row_status_claim\<close>)+
  show "store_claims sha op s = Some i \<longleftrightarrow>
      row_status s i = Some APPROVED \<and> row_status (store_step sha dflt op s) i = Some EXECUTING"
  proof (cases op)
    case (Op_Claim j)
    then show ?thesis
      using store_claims_iff [OF inv, of j] row_status_claim [of sha j s i]
      by (auto simp: store_claims_def split: sum.splits bool.splits)
  next
    case (Op_Expire_Due now)
    with row_status_expire_cases [OF inv, of now i] show ?thesis by (auto simp: store_claims_def)
  next
    case (Op_Decide hex now j approved who reason channel)
    with row_status_decide [of sha hex now j approved who reason channel s i] show ?thesis
      by (auto simp: store_claims_def)
  next
    case (Op_Finalize now j x)
    with row_status_finalize [of sha now j x s i] show ?thesis by (auto simp: store_claims_def)
  qed (auto simp: store_claims_def row_status_create row_status_save)
qed

interpretation store: approval_gate row_status "store_step sha dflt" "store_claims sha" wf_op "store_inv sha"
  for sha dflt
  by (rule store_gate)

lemma store_inv_empty [simp]: "store_inv sha empty_store"
  by (simp add: store_inv_def empty_store_def)

section \<open>Properties\<close>

text \<open>The states the store can reach from an empty database, and how often an approval was claimed.\<close>

fun run_store :: "digest \<Rightarrow> int \<Rightarrow> store_op list \<Rightarrow> approval_store \<Rightarrow> approval_store" where
  "run_store sha dflt [] s = s"
| "run_store sha dflt (op # ops) s = run_store sha dflt ops (store_step sha dflt op s)"

fun claims_in :: "digest \<Rightarrow> int \<Rightarrow> string \<Rightarrow> store_op list \<Rightarrow> approval_store \<Rightarrow> nat" where
  "claims_in sha dflt i [] s = 0"
| "claims_in sha dflt i (op # ops) s =
     (if store_claims sha op s = Some i then 1 else 0) + claims_in sha dflt i ops (store_step sha dflt op s)"

lemma run_store_run: "run_store sha dflt ops s = store.run sha dflt ops s"
  by (induction ops arbitrary: s) simp_all

lemma claims_in_count: "claims_in sha dflt i ops s = store.claim_count sha dflt i ops s"
  by (induction ops arbitrary: s) simp_all

text \<open>
  C14: An approval is used at most once: in any sequence of store operations (creations,
  decisions, expiries, claims, finalizations in any order, by any caller) the claims that
  hand out an approval for execution number at most one, and exactly one if and only if the
  approval has reached the executing or consumed state.
\<close>

theorem approval_claimed_at_most_once:
  assumes "list_all wf_op ops"
  shows "claims_in sha dflt i ops empty_store \<le> 1 \<and>
    (claims_in sha dflt i ops empty_store = 1 \<longleftrightarrow>
      row_status (run_store sha dflt ops empty_store) i \<in> {Some EXECUTING, Some CONSUMED})"
proof -
  have "row_status empty_store i = None" by (simp add: row_status_def find_row_def empty_store_def)
  with store.claim_count_used [OF store_inv_empty assms, of sha dflt i] show ?thesis
    by (auto simp: claims_in_count run_store_run store.used_def)
qed

definition sample_ops :: "store_op list" where
  "sample_ops = [Op_Create ''0123456789abcdef'' 0 None sample_proposal None None None,
     Op_Decide ''fedcba9876543210'' 10 ''approval.0123456789abcdef'' True ''dee'' ''ok'' ''aionui'',
     Op_Claim ''approval.0123456789abcdef'', Op_Claim ''approval.0123456789abcdef'']"

lemma sample_ops_status:
  "row_status (run_store id 900 sample_ops empty_store) ''approval.0123456789abcdef'' = Some EXECUTING"
  by code_simp

theorem approval_claimed_at_most_once_witness:
  "claims_in id 900 ''approval.0123456789abcdef'' sample_ops empty_store = 1"
proof -
  have "list_all wf_op sample_ops" by (simp add: sample_ops_def)
  from approval_claimed_at_most_once [OF this, of id 900 "''approval.0123456789abcdef''"]
  show ?thesis by (simp add: sample_ops_status)
qed

text \<open>
  C17: The store invariant holds in every reachable state: identifiers, action identifiers,
  action hashes and record identifiers are unique; an undecided or expired row has no
  approval record and no decider; a decided row has exactly one, of the decision its status
  shows, bound to the row's hash, by the principal and for the reason the row names, neither of
  them blank, dated before the row's expiry; a result is stored exactly in consumed rows; every
  stored proposal parses back to a proposal with the stored hash.
\<close>

theorem store_invariant:
  assumes "list_all wf_op ops"
  shows "store_inv sha (run_store sha dflt ops empty_store)"
  using store.inv_run [OF store_inv_empty assms] by (simp add: run_store_run)

theorem store_invariant_witness: "store_inv id (run_store id 900 sample_ops empty_store)"
  by (rule store_invariant) (simp add: sample_ops_def)

text \<open>Rejection, expiry and consumption are final, whatever operations follow.\<close>

theorem final_status_is_final:
  assumes "list_all wf_op ops" and "list_all wf_op ops'"
    and "row_status (run_store sha dflt ops empty_store) i = Some a" and "a \<in> {REJECTED, EXPIRED, CONSUMED}"
  shows "row_status (run_store sha dflt (ops @ ops') empty_store) i = Some a"
proof -
  have app: "run_store sha dflt (ops @ ops') s = run_store sha dflt ops' (run_store sha dflt ops s)" for s
    by (induction ops arbitrary: s) simp_all
  have "store_inv sha (run_store sha dflt ops empty_store)"
    using store.inv_run [OF store_inv_empty assms(1)] by (simp add: run_store_run)
  from store.final_run [OF this assms(2,3,4), of dflt] show ?thesis
    unfolding app by (simp add: run_store_run)
qed

theorem final_status_is_final_witness:
  "row_status (run_store id 900 ([Op_Create ''0123456789abcdef'' 0 None sample_proposal None None None,
       Op_Expire_Due 900] @ [Op_Decide ''0'' 901 ''approval.0123456789abcdef'' True ''dee'' ''ok'' ''aionui''])
     empty_store) ''approval.0123456789abcdef'' = Some EXPIRED"
proof (rule final_status_is_final)
  show "row_status (run_store id 900 [Op_Create ''0123456789abcdef'' 0 None sample_proposal None None None,
       Op_Expire_Due 900] empty_store) ''approval.0123456789abcdef'' = Some EXPIRED"
    by code_simp
qed simp_all

text \<open>
  No decision after expiry: deciding a pending row at or after its expiry raises
  \<open>ApprovalExpired\<close>, writes no approval record and leaves the row expired, whatever the
  decision was.
\<close>

theorem expired_cannot_be_decided:
  assumes "find_row i s = Some row" and "pr_status row = PENDING" and "pr_expires_at row \<le> now"
    and "\<not> blank who" "\<not> blank reason" "\<not> blank channel"
    and "decide sha hex now i approved who reason channel s = (res, s')"
  shows "res = Inl (Approval_Expired i) \<and> as_records s' = as_records s \<and> row_status s' i = Some EXPIRED"
proof -
  have "s' = update_rows (\<lambda>r. pr_approval_id r = i) (\<lambda>r. r\<lparr>pr_status := EXPIRED\<rparr>) s"
    "res = Inl (Approval_Expired i)"
    using assms by (auto simp: decide_def due_def)
  moreover have "pr_approval_id row = i" using find_row_SomeD [OF assms(1)] by simp
  ultimately show ?thesis using assms(1) by (simp add: row_status_def find_row_update) (simp add: update_rows_def)
qed

theorem expired_cannot_be_decided_witness:
  "\<exists>s'. decide id ''0'' 900 ''approval.0123456789abcdef'' True ''dee'' ''ok'' ''aionui''
      (run_store id 900 [Op_Create ''0123456789abcdef'' 0 None sample_proposal None None None] empty_store)
      = (Inl (Approval_Expired ''approval.0123456789abcdef''), s') \<and>
    row_status s' ''approval.0123456789abcdef'' = Some EXPIRED"
proof -
  let ?s = "run_store id 900 [Op_Create ''0123456789abcdef'' 0 None sample_proposal None None None] empty_store"
  let ?row = "new_row id ''0123456789abcdef'' 0 900 sample_proposal None None None"
  have s: "?s = \<lparr>as_rows = [?row], as_records = []\<rparr>"
    by (simp add: create_or_get_def empty_store_def Let_def find_row_def effective_ttl_def)
  obtain res s' where d: "decide id ''0'' 900 ''approval.0123456789abcdef'' True ''dee'' ''ok'' ''aionui'' ?s = (res, s')"
    by (metis surj_pair)
  have "find_row ''approval.0123456789abcdef'' ?s = Some ?row"
    unfolding s by (simp add: find_row_def new_row_def new_id_def)
  from expired_cannot_be_decided [OF this _ _ _ _ _ d] d show ?thesis
    by (simp add: new_row_def strip_def py_space_def)
qed

end
