(* ===== verification/Action_Path.thy ===== *)
theory Action_Path
  imports State_Result Failure_Store Governance Approval_Store
begin

text \<open>
  \<open>actions/path.py\<close>: the governed action path, from a proposal through preflight, the retry
  gate, governance and approval to the body that executes it, with exact-bound cancellation
  and reconciliation.

  A coroutine is cut at its awaits. \<open>execute\<close> is \<open>execute_propose\<close> up to the validator,
  \<open>execute_govern\<close> from the validator's answer to the creation of the execution task; the
  task is \<open>task_start\<close> up to the body, \<open>task_answer\<close> from the body's answer. \<open>cancel_action\<close> is
  \<open>cancel_begin\<close>, \<open>cancel_intent\<close>, \<open>cancel_finish\<close> around its two awaits. Each piece runs
  without interruption, as asyncio runs it. What a tool executor or a runtime adapter answers
  is an argument of the piece that continues. The journal is the list of events that
  \<open>replay\<close> gives (see \<open>journal\<close>); the digits of fresh identifiers come from a supply.
\<close>

section \<open>State and environment\<close>

record runtime_result =
  rt_ok :: bool
  rt_output :: pyval
  rt_error :: "string option"
  rt_metadata :: "(string, pyval) dict"

text \<open>An awaited call returns, raises (class name and message), or is cancelled.\<close>

datatype answer = Returned runtime_result | Raised string string | Task_Cancelled

record runtime_info =
  ri_adapter_id :: string
  ri_can_cancel :: bool

record path_env =
  pe_sha :: digest
  pe_policy :: action_policy
  pe_hex :: "nat \<Rightarrow> string"
  pe_has_tools :: bool
  pe_tool_validates :: bool
  pe_tool_cancels :: bool
  pe_runtimes :: "(string, runtime_info) dict"
  pe_hidden_runtime_ids :: "string list"
  pe_has_store :: bool
  pe_approval_ttl :: int
  pe_store_ttl :: int
  pe_json_error :: "(string, pyval) dict \<Rightarrow> string"

datatype task_phase = Created | Waiting "string option" | Finished

record task =
  tk_proposal :: action_proposal
  tk_requested :: string
  tk_phase :: task_phase
  tk_cancel_requested :: bool

record path_state =
  ps_journal :: "event list"
  ps_failures :: failure_rows
  ps_store :: approval_store
  ps_tasks :: "task list"
  ps_active :: "(string, nat) dict"
  ps_counter :: nat

definition initial_state :: path_state where
  "initial_state = \<lparr>ps_journal = [], ps_failures = [], ps_store = empty_store, ps_tasks = [],
     ps_active = [], ps_counter = 0\<rparr>"

datatype path_error =
    Path_Type_Error
  | Path_Runtime_Error string
  | Path_Contract_Error contract_error
  | Path_Approval_Error approval_error
  | Control_Conflict string
  | Control_Integrity string
  | Path_Cancelled

type_synonym 'a path = "(path_state, path_error, 'a) comp"

section \<open>Helpers\<close>

definition fresh_hex :: "path_env \<Rightarrow> string path" where
  "fresh_hex env st = (Inr (pe_hex env (ps_counter st)), st\<lparr>ps_counter := Suc (ps_counter st)\<rparr>)"

text \<open>\<open>event_bus.emit\<close>: a payload \<open>json\<close> cannot serialise raises before anything is written.\<close>

definition emit_event :: "path_env \<Rightarrow> instant \<Rightarrow> event_type \<Rightarrow> string \<Rightarrow> (string, pyval) dict \<Rightarrow> string
    \<Rightarrow> string option \<Rightarrow> string option \<Rightarrow> event path" where
  "emit_event env now t actor payload severity correlation causation =
     (case to_json (PDict payload) of
        Some (JObj d) \<Rightarrow>
          bindS (fresh_hex env) (\<lambda>hex.
          let e = canon_event (make_event hex now (event_value t) actor d severity correlation causation) in
          bindS (modS (\<lambda>st. st\<lparr>ps_journal := ps_journal st @ [e]\<rparr>)) (\<lambda>_. ret e))
      | _ \<Rightarrow> throw Path_Type_Error)"

definition opt_str :: "string option \<Rightarrow> pyval" where
  "opt_str s = (case s of None \<Rightarrow> PNone | Some t \<Rightarrow> PStr t)"

definition pv_get :: "(string, pyval) dict \<Rightarrow> string \<Rightarrow> pyval" where
  "pv_get d k = (case dict_get d k of None \<Rightarrow> PNone | Some v \<Rightarrow> v)"

definition pv_truthy :: "pyval \<Rightarrow> bool" where
  "pv_truthy v = (case v of PSet xs t \<Rightarrow> xs \<noteq> [] | PEnum x t \<Rightarrow> True | POpaque t \<Rightarrow> True
     | _ \<Rightarrow> truthy (json_safe v))"

text \<open>\<open>str(v)\<close>; for a container the text of its JSON form.\<close>

definition pv_str :: "pyval \<Rightarrow> string" where
  "pv_str v = (case v of PSet xs t \<Rightarrow> t | PEnum x t \<Rightarrow> t | POpaque t \<Rightarrow> t | _ \<Rightarrow> py_str (json_safe v))"

definition pv_get_or :: "(string, pyval) dict \<Rightarrow> string \<Rightarrow> string \<Rightarrow> string" where
  "pv_get_or d k dflt = (let v = pv_get d k in if pv_truthy v then pv_str v else dflt)"

definition runtime_id_of :: "action_proposal \<Rightarrow> string" where
  "runtime_id_of p = pv_get_or (ap_metadata p) ''runtime_id'' ''default''"

definition mk_result :: "action_proposal \<Rightarrow> bool \<Rightarrow> string \<Rightarrow> pyval \<Rightarrow> string option \<Rightarrow> (string, pyval) dict
    \<Rightarrow> string option \<Rightarrow> action_result" where
  "mk_result p ok status output error metadata fp =
     \<lparr>ar_action_id = ap_action_id p, ar_ok = ok, ar_status = status, ar_output = output, ar_error = error,
      ar_metadata = metadata, ar_failure_fingerprint = fp\<rparr>"

definition failed_answer :: "string \<Rightarrow> (string, pyval) dict \<Rightarrow> runtime_result" where
  "failed_answer error metadata = \<lparr>rt_ok = False, rt_output = PNone, rt_error = Some error, rt_metadata = metadata\<rparr>"

section \<open>Reading the journal\<close>

definition event_action :: "event \<Rightarrow> string" where
  "event_action e = get_or (ev_payload e) ''action_id'' []"

definition event_control :: "event \<Rightarrow> string" where
  "event_control e = get_or (ev_payload e) ''control_request_id'' []"

definition action_events :: "string \<Rightarrow> event list \<Rightarrow> event list" where
  "action_events i evs = filter (\<lambda>e. event_action e = i) evs"

definition is_type :: "event_type \<Rightarrow> event \<Rightarrow> bool" where
  "is_type t e = (ev_type e = event_value t)"

definition terminal_types :: "event_type list" where
  "terminal_types = [ACTION_COMPLETED, ACTION_FAILED, ACTION_CANCELED, ACTION_PREFLIGHT_FAILED,
     GOVERNANCE_REJECTED, APPROVAL_REJECTED, APPROVAL_EXPIRED, ACTION_RETRY_BLOCKED]"

definition is_terminal :: "event \<Rightarrow> bool" where
  "is_terminal e = (ev_type e \<in> set (map event_value terminal_types))"

definition terminal_event :: "string \<Rightarrow> event list \<Rightarrow> event option" where
  "terminal_event i evs = find is_terminal (rev (action_events i evs))"

definition canceled_event :: "string \<Rightarrow> event list \<Rightarrow> event option" where
  "canceled_event i evs = (case terminal_event i evs of
     Some e \<Rightarrow> if is_type ACTION_CANCELED e then Some e else None | None \<Rightarrow> None)"

section \<open>Execution\<close>

definition proposed_payload :: "action_proposal \<Rightarrow> (string, pyval) dict" where
  "proposed_payload p = [
     (''target'', PStr (target_value (ap_target p))),
     (''operation'', PStr (ap_operation p)),
     (''arguments'', PDict (ap_arguments p)),
     (''required_scopes'', PList (map (PStr \<circ> scope_value) (ap_required_scopes p))),
     (''reason'', PStr (ap_reason p)),
     (''risk'', PStr (risk_value (ap_risk p))),
     (''reversible'', PBool (ap_reversible p)),
     (''correlation_id'', opt_str (ap_correlation_id p)),
     (''retry_reason'', opt_str (ap_retry_reason p)),
     (''metadata'', PDict (ap_metadata p)),
     (''action_id'', PStr (ap_action_id p))]"

definition execute_propose :: "path_env \<Rightarrow> instant \<Rightarrow> action_proposal \<Rightarrow> (action_proposal \<times> event) path" where
  "execute_propose env now p =
     bindS (if ostr_or (ap_correlation_id p) [] = []
            then bindS (fresh_hex env) (\<lambda>hex. ret (new_id ''corr'' hex))
            else ret (ostr_or (ap_correlation_id p) [])) (\<lambda>co.
     let p' = p\<lparr>ap_correlation_id := Some co\<rparr> in
     bindS (emit_event env now ACTION_PROPOSED ''aether.action-path'' (proposed_payload p') ''info'' (Some co) None)
       (\<lambda>e. ret (p', e)))"

text \<open>\<open>_preflight\<close>, with the validator's answer where there is a validator to ask.\<close>

definition asks_validator :: "path_env \<Rightarrow> action_proposal \<Rightarrow> bool" where
  "asks_validator env p = (ap_target p = TOOL \<and> pe_has_tools env \<and> pe_tool_validates env)"

definition answer_result :: "answer \<Rightarrow> runtime_result" where
  "answer_result a = (case a of Returned r \<Rightarrow> r
     | Raised ty msg \<Rightarrow> failed_answer (ty @ '': '' @ msg) [(''error_type'', PStr ty)]
     | Task_Cancelled \<Rightarrow> failed_answer [] [])"

definition preflight :: "path_env \<Rightarrow> instant \<Rightarrow> action_proposal \<Rightarrow> string \<Rightarrow> answer \<Rightarrow> action_result option path" where
  "preflight env now p causation a =
     (if \<not> asks_validator env p then ret None
      else if a = Task_Cancelled then throw Path_Cancelled
      else (let r = answer_result a in
        if rt_ok r then ret None
        else (let error = ostr_or (rt_error r) ''Tool action failed preflight validation.'' in
          bindS (emit_event env now ACTION_PREFLIGHT_FAILED ''aether.action-path''
            [(''action_id'', PStr (ap_action_id p)), (''target'', PStr (target_value (ap_target p))),
             (''operation'', PStr (ap_operation p)), (''error'', PStr error), (''metadata'', PDict (rt_metadata r))]
            ''warning'' (ap_correlation_id p) (Some causation)) (\<lambda>e.
          ret (Some (mk_result p False ''preflight-failed'' PNone (Some error)
            (dict_update (rt_metadata r) [(''event_id'', PStr (ev_id e))]) None))))))"

definition decision_event_type :: "action_decision \<Rightarrow> event_type" where
  "decision_event_type d = (if ad_approved d then GOVERNANCE_APPROVED
     else if ad_mode d = ''approval-required'' then GOVERNANCE_APPROVAL_REQUIRED else GOVERNANCE_REJECTED)"

definition decision_payload :: "action_proposal \<Rightarrow> action_decision \<Rightarrow> (string, pyval) dict" where
  "decision_payload p d = [
     (''action_id'', PStr (ap_action_id p)), (''approved'', PBool (ad_approved d)), (''mode'', PStr (ad_mode d)),
     (''reasons'', PTuple (map PStr (ad_reasons d))), (''warnings'', PTuple (map PStr (ad_warnings d))),
     (''decision_id'', PStr (ad_decision_id d))]"

definition store_op_path :: "'a approval_op \<Rightarrow> 'a path" where
  "store_op_path f st = (case f (ps_store st) of
     (Inl e, s) \<Rightarrow> (Inl (Path_Approval_Error e), st\<lparr>ps_store := s\<rparr>)
   | (Inr x, s) \<Rightarrow> (Inr x, st\<lparr>ps_store := s\<rparr>))"

definition requested_payload :: "pending_action \<Rightarrow> (string, pyval) dict" where
  "requested_payload pa = [
     (''approval_id'', PStr (pa_approval_id pa)), (''action_id'', PStr (pa_action_id pa)),
     (''action_hash'', PStr (pa_action_hash pa)),
     (''target'', PStr (target_value (ap_target (pa_proposal pa)))),
     (''operation'', PStr (ap_operation (pa_proposal pa))), (''reason'', PStr (ap_reason (pa_proposal pa))),
     (''risk'', PStr (risk_value (ap_risk (pa_proposal pa)))),
     (''required_scopes'', PList (map (PStr \<circ> scope_value) (ap_required_scopes (pa_proposal pa)))),
     (''expires_at'', PStr (iso (pa_expires_at pa))), (''request_channel'', opt_str (pa_request_channel pa))]"

text \<open>The branch of \<open>execute\<close> that stores a proposal until a trusted decision.\<close>

definition request_approval :: "path_env \<Rightarrow> instant \<Rightarrow> action_proposal \<Rightarrow> action_decision \<Rightarrow> event \<Rightarrow> action_result path" where
  "request_approval env now p d governance =
     bindS (fresh_hex env) (\<lambda>hex.
     bindS (store_op_path (create_or_get (pe_sha env) (pe_store_ttl env) hex now (Some (pe_approval_ttl env)) p
        (Some (pv_get_or (ap_metadata p) ''channel'' ''unknown''))
        (Some (pv_get_or (ap_metadata p) ''user_id'' (pv_get_or (ap_metadata p) ''session_id'' (ap_reason p))))
        (Some (ev_id governance)))) (\<lambda>(pending, created).
     bindS (if created
            then emit_event env now APPROVAL_REQUESTED ''aether.action-path'' (requested_payload pending)
              ''warning'' (ap_correlation_id p) (Some (ev_id governance))
            else ret governance) (\<lambda>requested.
     ret (mk_result p False ''pending-approval'' PNone (Some ''Trusted operator approval is required.'')
       [(''decision_id'', PStr (ad_decision_id d)), (''approval_id'', PStr (pa_approval_id pending)),
        (''action_hash'', PStr (pa_action_hash pending)), (''expires_at'', PStr (iso (pa_expires_at pending))),
        (''approval_event_id'', PStr (ev_id requested)), (''created'', PBool created)] None))))"

datatype executed = Returned_Result action_result | Started_Task nat

definition start_execution :: "path_env \<Rightarrow> instant \<Rightarrow> action_proposal \<Rightarrow> event \<Rightarrow> executed path" where
  "start_execution env now p governance =
     bindS (emit_event env now ACTION_EXECUTION_REQUESTED ''aether.action-path''
       [(''action_id'', PStr (ap_action_id p)), (''target'', PStr (target_value (ap_target p))),
        (''operation'', PStr (ap_operation p))]
       ''info'' (ap_correlation_id p) (Some (ev_id governance))) (\<lambda>requested.
     bindS (getS (\<lambda>st. length (ps_tasks st))) (\<lambda>tid.
     bindS (modS (\<lambda>st. st\<lparr>
       ps_tasks := ps_tasks st @ [\<lparr>tk_proposal = p, tk_requested = ev_id requested, tk_phase = Created,
         tk_cancel_requested = False\<rparr>],
       ps_active := dict_set (ap_action_id p) tid (ps_active st)\<rparr>)) (\<lambda>_.
     ret (Started_Task tid))))"

definition prior_fingerprints :: "failure_rows \<Rightarrow> pyval" where
  "prior_fingerprints prior = PList (map (\<lambda>row. of_json (json_get row ''fingerprint'')) prior)"

text \<open>\<open>execute\<close> from the review on: the decision is journalled, then acted on.\<close>

definition review_and_start :: "path_env \<Rightarrow> instant \<Rightarrow> action_proposal \<Rightarrow> action_approval option \<Rightarrow> event \<Rightarrow> executed path" where
  "review_and_start env now p a proposed =
     bindS (fresh_hex env) (\<lambda>hex.
     bindS (liftE Path_Contract_Error (governor_review (pe_sha env) (pe_policy env) now hex p a)) (\<lambda>d.
     bindS (emit_event env now (decision_event_type d) ''aether.governance'' (decision_payload p d)
       (if ad_approved d then ''info'' else ''warning'') (ap_correlation_id p) (Some (ev_id proposed))) (\<lambda>governance.
     if ad_approved d then start_execution env now p governance
     else if ad_mode d = ''approval-required'' \<and> pe_has_store env then
       bindS (request_approval env now p d governance) (\<lambda>r. ret (Returned_Result r))
     else ret (Returned_Result (mk_result p False (ad_mode d) PNone (Some (join ''; '' (ad_reasons d)))
       [(''decision_id'', PStr (ad_decision_id d))] None)))))"

definition execute_govern :: "path_env \<Rightarrow> instant \<Rightarrow> action_proposal \<Rightarrow> action_approval option \<Rightarrow> event \<Rightarrow> answer
    \<Rightarrow> executed path" where
  "execute_govern env now p a proposed validation =
     bindS (preflight env now p (ev_id proposed) validation) (\<lambda>pre.
     case pre of Some r \<Rightarrow> ret (Returned_Result r) | None \<Rightarrow>
     bindS (getS (\<lambda>st. open_failures (pe_sha env) p (ps_failures st))) (\<lambda>prior.
     if prior \<noteq> [] \<and> blank (ostr_or (ap_retry_reason p) []) then
       bindS (emit_event env now ACTION_RETRY_BLOCKED ''aether.action-path''
         [(''action_id'', PStr (ap_action_id p)), (''prior_fingerprints'', prior_fingerprints prior)]
         ''warning'' (ap_correlation_id p) (Some (ev_id proposed))) (\<lambda>blocked.
       ret (Returned_Result (mk_result p False ''retry-blocked'' PNone
         (Some ''An unresolved identical failure exists; explicit retry_reason is required.'')
         [(''event_id'', PStr (ev_id blocked)), (''prior_fingerprints'', prior_fingerprints prior)] None)))
     else
       review_and_start env now p a proposed))"

section \<open>The execution task\<close>

definition set_phase :: "nat \<Rightarrow> task_phase \<Rightarrow> path_state \<Rightarrow> path_state" where
  "set_phase tid ph st = st\<lparr>ps_tasks := (ps_tasks st)[tid := (ps_tasks st ! tid)\<lparr>tk_phase := ph\<rparr>]\<rparr>"

text \<open>\<open>forget_execution\<close>, the callback of a finished task.\<close>

definition finish_task :: "nat \<Rightarrow> path_state \<Rightarrow> path_state" where
  "finish_task tid st = (let i = ap_action_id (tk_proposal (ps_tasks st ! tid)); st' = set_phase tid Finished st in
     if dict_get (ps_active st) i = Some tid then st'\<lparr>ps_active := dict_pop i (ps_active st)\<rparr> else st')"

text \<open>The digest of a late result: \<open>ensure_ascii\<close>, every part as text.\<close>

definition late_result_text :: "runtime_result \<Rightarrow> string" where
  "late_result_text r = dumps compact_ascii (JObj [
     (''ok'', JBool (rt_ok r)), (''output'', JStr (pv_str (rt_output r))), (''error'', json_opt (rt_error r)),
     (''metadata'', JObj (map (map_prod id (JStr \<circ> pv_str)) (rt_metadata r)))])"

definition failure_record :: "path_env \<Rightarrow> instant \<Rightarrow> action_proposal \<Rightarrow> string \<Rightarrow> string \<Rightarrow> string path" where
  "failure_record env now p error_type error st =
     (case record_failure (pe_sha env) now p error_type error (ps_failures st) of
        (fp, rows) \<Rightarrow> (Inr fp, st\<lparr>ps_failures := rows\<rparr>))"

text \<open>\<open>_complete_execution\<close> from the body's result on.\<close>

definition complete_execution :: "path_env \<Rightarrow> instant \<Rightarrow> action_proposal \<Rightarrow> string \<Rightarrow> runtime_result \<Rightarrow> action_result path" where
  "complete_execution env now p requested backend =
     bindS (getS (\<lambda>st. canceled_event (ap_action_id p) (ps_journal st))) (\<lambda>canceled.
     case canceled of
       Some terminal \<Rightarrow>
         bindS (emit_event env now ACTION_LATE_RESULT_DISCARDED ''aether.action-path''
           [(''action_id'', PStr (ap_action_id p)),
            (''result_hash'', PStr (pe_sha env (late_result_text backend))),
            (''terminal_receipt_id'', PStr (ev_id terminal))]
           ''warning'' (ap_correlation_id p) (Some (ev_id terminal))) (\<lambda>_.
         ret (mk_result p False ''canceled'' PNone None
           [(''event_id'', PStr (ev_id terminal)), (''late_result_discarded'', PBool True)] None))
     | None \<Rightarrow>
         if rt_ok backend then
           bindS (modS (\<lambda>st. st\<lparr>ps_failures := resolve_signature (pe_sha env) now p
             (ostr_or (ap_retry_reason p) ''execution succeeded'') (ps_failures st)\<rparr>)) (\<lambda>_.
           bindS (emit_event env now ACTION_COMPLETED ''aether.action-path''
             [(''action_id'', PStr (ap_action_id p)), (''output'', rt_output backend),
              (''metadata'', PDict (rt_metadata backend))]
             ''info'' (ap_correlation_id p) (Some requested)) (\<lambda>completed.
           ret (mk_result p True ''completed'' (rt_output backend) None
             (dict_update (rt_metadata backend) [(''event_id'', PStr (ev_id completed))]) None)))
         else
           (let error = ostr_or (rt_error backend) ''Action backend returned failure'';
                error_type = pv_get_or (rt_metadata backend) ''error_type'' ''BackendFailure'' in
            bindS (failure_record env now p error_type error) (\<lambda>fp.
            bindS (emit_event env now ACTION_FAILED ''aether.action-path''
              [(''action_id'', PStr (ap_action_id p)), (''error'', PStr error), (''failure_fingerprint'', PStr fp)]
              ''error'' (ap_correlation_id p) (Some requested)) (\<lambda>failed.
            bindS (emit_event env now FAILURE_DETECTED ''aether.action-path''
              [(''action_id'', PStr (ap_action_id p)), (''failure_fingerprint'', PStr fp),
               (''operation'', PStr (ap_operation p))]
              ''warning'' (ap_correlation_id p) (Some (ev_id failed))) (\<lambda>_.
            ret (mk_result p False ''failed'' PNone (Some error) (rt_metadata backend) (Some fp)))))))"

text \<open>The end of the task, by return or by exception, runs the callback.\<close>

definition end_task :: "nat \<Rightarrow> 'a path \<Rightarrow> 'a path" where
  "end_task tid m st = (case m st of (r, st') \<Rightarrow> (r, finish_task tid st'))"

text \<open>
  \<open>task_start\<close>: the task runs for the first time, through \<open>_dispatch\<close> to its await. \<open>None\<close> means
  it waits for the body; without a body to ask it completes at once.
\<close>

definition task_start :: "path_env \<Rightarrow> instant \<Rightarrow> nat \<Rightarrow> action_result option path" where
  "task_start env now tid st =
     (let t = ps_tasks st ! tid; p = tk_proposal t;
          complete = (\<lambda>error. end_task tid (bindS
            (complete_execution env now p (tk_requested t) (failed_answer error [])) (\<lambda>r. ret (Some r)))) in
      if tk_cancel_requested t then end_task tid (throw Path_Cancelled) st
      else if ap_target p = TOOL then
        (if \<not> pe_has_tools env then complete ''No tool executor configured'' st
         else (Inr None, set_phase tid (Waiting None) st))
      else
        (let rid = runtime_id_of p in
         case dict_get (pe_runtimes env) rid of
           None \<Rightarrow> complete (''Unknown runtime adapter: '' @ rid) st
         | Some _ \<Rightarrow>
             bindS (emit_event env now RUNTIME_COMMAND_REQUESTED ''aether.action-path''
               [(''action_id'', PStr (ap_action_id p)), (''runtime_id'', PStr rid), (''command'', PStr (ap_operation p))]
               ''info'' (ap_correlation_id p) (Some (tk_requested t))) (\<lambda>e.
             bindS (modS (set_phase tid (Waiting (Some (ev_id e))))) (\<lambda>_. ret None)) st))"

text \<open>The end of \<open>_dispatch\<close>: a runtime's result is recorded, and failing to record it is a failure of the body.\<close>

definition dispatch_result :: "path_env \<Rightarrow> instant \<Rightarrow> action_proposal \<Rightarrow> string option \<Rightarrow> runtime_result \<Rightarrow> runtime_result path" where
  "dispatch_result env now p wait r =
     (case wait of None \<Rightarrow> ret r
      | Some requested \<Rightarrow>
          (let adapter = (case dict_get (pe_runtimes env) (runtime_id_of p) of None \<Rightarrow> [] | Some i \<Rightarrow> ri_adapter_id i);
               payload = [(''action_id'', PStr (ap_action_id p)), (''ok'', PBool (rt_ok r)),
                 (''error'', opt_str (rt_error r)), (''metadata'', PDict (rt_metadata r))] in
           (\<lambda>st. (case emit_event env now RUNTIME_RESULT_RECEIVED adapter payload
                   (if rt_ok r then ''info'' else ''error'') (ap_correlation_id p) (Some requested) st of
              (Inr _, st') \<Rightarrow> (Inr r, st')
            | (Inl _, st') \<Rightarrow> (Inr (failed_answer (''TypeError: '' @ pe_json_error env payload) []), st')))))"

definition task_answer :: "path_env \<Rightarrow> instant \<Rightarrow> nat \<Rightarrow> string option \<Rightarrow> answer \<Rightarrow> action_result path" where
  "task_answer env now tid wait a st =
     (let t = ps_tasks st ! tid; p = tk_proposal t in
      end_task tid (case a of
        Task_Cancelled \<Rightarrow>
          bindS (getS (\<lambda>st. canceled_event (ap_action_id p) (ps_journal st))) (\<lambda>canceled.
          case canceled of
            Some terminal \<Rightarrow> ret (mk_result p False ''canceled'' PNone None [(''event_id'', PStr (ev_id terminal))] None)
          | None \<Rightarrow> throw Path_Cancelled)
      | Raised ty msg \<Rightarrow> complete_execution env now p (tk_requested t) (failed_answer (ty @ '': '' @ msg) [])
      | Returned r \<Rightarrow>
          bindS (dispatch_result env now p wait r) (complete_execution env now p (tk_requested t))) st)"

section \<open>Cancellation and reconciliation\<close>

record control_request =
  cq_action_id :: string
  cq_control_id :: string
  cq_expected_hash :: string
  cq_session_id :: string
  cq_principal :: string

text \<open>\<open>hmac.compare_digest\<close> on strings: ASCII only.\<close>

definition ascii_text :: "string \<Rightarrow> bool" where
  "ascii_text s = list_all (\<lambda>c. (of_char c :: nat) < 128) s"

definition compare_digest :: "string \<Rightarrow> string \<Rightarrow> bool path" where
  "compare_digest a b = (if ascii_text a \<and> ascii_text b then ret (a = b) else throw Path_Type_Error)"

definition control_binding_error :: string where
  "control_binding_error = ''control request ID was already bound to different action evidence''"

text \<open>The loop over the whole journal in \<open>_control_proposal\<close>.\<close>

fun check_binding :: "control_request \<Rightarrow> string \<Rightarrow> event list \<Rightarrow> unit path" where
  "check_binding q h [] = ret ()"
| "check_binding q h (e # evs) =
     (if event_control e \<noteq> cq_control_id q then check_binding q h evs
      else if event_action e \<noteq> cq_action_id q then throw (Control_Integrity control_binding_error)
      else bindS (compare_digest (get_or (ev_payload e) ''action_hash'' []) h) (\<lambda>same_hash.
        if \<not> same_hash then throw (Control_Integrity control_binding_error)
        else bindS (compare_digest (get_or (ev_payload e) ''session_id'' []) (cq_session_id q)) (\<lambda>same_session.
          if \<not> same_session then throw (Control_Integrity control_binding_error)
          else check_binding q h evs)))"

definition control_proposal :: "path_env \<Rightarrow> control_request \<Rightarrow> action_proposal path" where
  "control_proposal env q =
     (if blank (cq_control_id q) then throw (Control_Integrity ''control request ID is required'')
      else bindS (getS ps_journal) (\<lambda>evs.
        case find (is_type ACTION_PROPOSED) (action_events (cq_action_id q) evs) of
          None \<Rightarrow> throw (Control_Conflict ''action was not found'')
        | Some proposed \<Rightarrow>
            bindS (liftE Path_Contract_Error (proposal_from_payload (ev_payload proposed))) (\<lambda>p.
            let h = canonical_action_hash (pe_sha env) p in
            bindS (compare_digest h (cq_expected_hash q)) (\<lambda>same.
            if \<not> same then throw (Control_Integrity ''control action hash mismatch'')
            else bindS (compare_digest (pv_get_or (ap_metadata p) ''session_id'' []) (''browser:'' @ cq_session_id q)) (\<lambda>bound.
              if \<not> bound then throw (Control_Integrity ''control session binding mismatch'')
              else bindS (check_binding q h evs) (\<lambda>_. ret p))))))"

definition mk_receipt :: "string \<Rightarrow> string \<Rightarrow> string \<Rightarrow> string \<Rightarrow> bool \<Rightarrow> bool \<Rightarrow> control_receipt" where
  "mk_receipt i c status receipt terminal replayed =
     \<lparr>cr_action_id = i, cr_control_request_id = c, cr_status = status, cr_receipt_id = receipt,
      cr_terminal = terminal, cr_replayed = replayed\<rparr>"

definition terminal_status :: "string \<Rightarrow> string" where
  "terminal_status t = (case dict_get [
     (event_value ACTION_COMPLETED, ''succeeded''), (event_value ACTION_FAILED, ''failed''),
     (event_value ACTION_CANCELED, ''canceled''), (event_value ACTION_PREFLIGHT_FAILED, ''unavailable''),
     (event_value GOVERNANCE_REJECTED, ''rejected''), (event_value APPROVAL_REJECTED, ''rejected''),
     (event_value APPROVAL_EXPIRED, ''rejected''), (event_value ACTION_RETRY_BLOCKED, ''rejected'')] t of
     Some s \<Rightarrow> s | None \<Rightarrow> [])"

definition terminal_receipt :: "event \<Rightarrow> string \<Rightarrow> bool \<Rightarrow> control_receipt" where
  "terminal_receipt e c replayed = mk_receipt (event_action e) c (terminal_status (ev_type e)) (ev_id e) True replayed"

definition replay_status :: "string \<Rightarrow> string" where
  "replay_status t = (case dict_get [
     (event_value ACTION_CANCEL_INTENT_RECORDED, ''requested''), (event_value ACTION_CANCEL_REQUESTED, ''canceling''),
     (event_value ACTION_CANCEL_UNSUPPORTED, ''unsupported''), (event_value ACTION_CANCEL_NOT_CONFIRMED, ''not-confirmed''),
     (event_value ACTION_RECONCILIATION_REQUESTED, ''not-confirmed'')] t of
     Some s \<Rightarrow> s | None \<Rightarrow> ''not-confirmed'')"

definition control_replay :: "string \<Rightarrow> string \<Rightarrow> event list \<Rightarrow> control_receipt option" where
  "control_replay i c evs =
     (let matching = filter (\<lambda>e. event_control e = c) (action_events i evs) in
      if matching = [] then None
      else (case terminal_event i evs of
        Some e \<Rightarrow> Some (terminal_receipt e c True)
      | None \<Rightarrow> Some (mk_receipt i c (replay_status (ev_type (last matching))) (ev_id (last matching)) False True)))"

definition control_payload :: "path_env \<Rightarrow> action_proposal \<Rightarrow> control_request \<Rightarrow> (string, pyval) dict \<Rightarrow> (string, pyval) dict" where
  "control_payload env p q extra = dict_update [
     (''action_id'', PStr (ap_action_id p)), (''action_hash'', PStr (canonical_action_hash (pe_sha env) p)),
     (''control_request_id'', PStr (cq_control_id q)), (''session_id'', PStr (cq_session_id q)),
     (''principal'', PStr (cq_principal q))] extra"

text \<open>\<open>cancel_action\<close> up to the question whether cancellation is supported.\<close>

datatype 'a control_step = Answered control_receipt | Continue 'a

definition cancel_begin :: "path_env \<Rightarrow> control_request \<Rightarrow> string \<Rightarrow> (action_proposal \<times> nat) control_step path" where
  "cancel_begin env q reason =
     (if reason \<noteq> ''founder-explicit-cancel''
      then throw (Control_Integrity ''cancellation requires an explicit founder intent'')
      else if blank (cq_principal q) then throw (Control_Integrity ''cancellation principal is required'')
      else bindS (control_proposal env q) (\<lambda>p.
        bindS (getS ps_journal) (\<lambda>evs.
        case control_replay (cq_action_id q) (cq_control_id q) evs of
          Some receipt \<Rightarrow> ret (Answered receipt)
        | None \<Rightarrow>
            if list_ex (is_type ACTION_CANCEL_INTENT_RECORDED) (action_events (cq_action_id q) evs)
            then throw (Control_Conflict ''action already has a cancellation intent'')
            else if terminal_event (cq_action_id q) evs \<noteq> None
            then throw (Control_Conflict ''terminal action cannot be canceled'')
            else bindS (getS (\<lambda>st. dict_get (ps_active st) (cq_action_id q))) (\<lambda>active.
              case active of
                None \<Rightarrow> throw (Control_Conflict
                  ''action is not active; reconcile its receipt instead of resubmitting cancel'')
              | Some tid \<Rightarrow> ret (Continue (p, tid))))))"

text \<open>
  \<open>_cancel_supported\<close> from the answers it awaits: the tool executor's capabilities, or the
  operations a runtime declares cancellable.
\<close>

definition cancel_supported :: "path_env \<Rightarrow> action_proposal \<Rightarrow> action_capability list \<Rightarrow> string list \<Rightarrow> bool" where
  "cancel_supported env p caps ops =
     (if ap_target p = TOOL then
        pe_has_tools env \<and> pe_tool_cancels env \<and>
        list_ex (\<lambda>c. cap_target c = ap_target p \<and> cap_operation c = ap_operation p \<and> cap_cancel_supported c) caps
      else (case dict_get (pe_runtimes env) (runtime_id_of p) of
          None \<Rightarrow> False
        | Some i \<Rightarrow> ri_can_cancel i \<and> ap_operation p \<in> set ops))"

definition cancel_intent :: "path_env \<Rightarrow> instant \<Rightarrow> control_request \<Rightarrow> string \<Rightarrow> action_proposal \<Rightarrow> nat \<Rightarrow> bool
    \<Rightarrow> event control_step path" where
  "cancel_intent env now q reason p tid supported =
     bindS (getS ps_journal) (\<lambda>evs.
     if terminal_event (cq_action_id q) evs \<noteq> None
     then throw (Control_Conflict ''action completed while cancel support was checked'')
     else bindS (getS (\<lambda>st. dict_get (ps_active st) (cq_action_id q))) (\<lambda>active.
       if active \<noteq> Some tid then throw (Control_Conflict ''action is no longer active'')
       else bindS (emit_event env now ACTION_CANCEL_INTENT_RECORDED ''aether.action-control''
           (control_payload env p q [(''reason'', PStr reason), (''cancel_supported'', PBool supported)])
           ''info'' (ap_correlation_id p) None) (\<lambda>intent.
         if supported then ret (Continue intent)
         else bindS (emit_event env now ACTION_CANCEL_UNSUPPORTED ''aether.action-control''
             (control_payload env p q [(''reason'', PStr reason)])
             ''warning'' (ap_correlation_id p) (Some (ev_id intent))) (\<lambda>e.
           ret (Answered (mk_receipt (cq_action_id q) (cq_control_id q) ''unsupported'' (ev_id e) False False))))))"

text \<open>\<open>_cancel_backend\<close>: asked of the tool executor or of the runtime, when there is one to ask.\<close>

definition cancel_backend :: "path_env \<Rightarrow> action_proposal \<Rightarrow> answer \<Rightarrow> runtime_result" where
  "cancel_backend env p a =
     (if ap_target p = TOOL then (if pe_has_tools env then answer_result a else failed_answer ''Cancellation is unsupported'' [])
      else (case dict_get (pe_runtimes env) (runtime_id_of p) of
          Some i \<Rightarrow> if ri_can_cancel i then answer_result a else failed_answer ''Cancellation is unsupported'' []
        | None \<Rightarrow> failed_answer ''Cancellation is unsupported'' []))"

definition request_cancel :: "nat \<Rightarrow> path_state \<Rightarrow> path_state" where
  "request_cancel tid st = st\<lparr>ps_tasks := (ps_tasks st)[tid := (ps_tasks st ! tid)\<lparr>tk_cancel_requested := True\<rparr>]\<rparr>"

definition cancel_finish :: "path_env \<Rightarrow> instant \<Rightarrow> control_request \<Rightarrow> string \<Rightarrow> action_proposal \<Rightarrow> nat \<Rightarrow> event \<Rightarrow> answer
    \<Rightarrow> control_receipt path" where
  "cancel_finish env now q reason p tid intent a =
     (if a = Task_Cancelled then throw Path_Cancelled
      else (let cancellation = cancel_backend env p a in
      bindS (getS (\<lambda>st. terminal_event (cq_action_id q) (ps_journal st))) (\<lambda>terminal.
      case terminal of
        Some e \<Rightarrow> ret (terminal_receipt e (cq_control_id q) False)
      | None \<Rightarrow>
          if \<not> rt_ok cancellation then
            bindS (emit_event env now ACTION_CANCEL_NOT_CONFIRMED ''aether.action-control''
              (control_payload env p q [(''error_type'',
                PStr (pv_get_or (rt_metadata cancellation) ''error_type'' ''CancelNotAcknowledged''))])
              ''warning'' (ap_correlation_id p) (Some (ev_id intent))) (\<lambda>e.
            ret (mk_receipt (cq_action_id q) (cq_control_id q) ''not-confirmed'' (ev_id e) False False))
          else
            bindS (emit_event env now ACTION_CANCEL_REQUESTED ''aether.action-control''
              (control_payload env p q [(''reason'', PStr reason)])
              ''info'' (ap_correlation_id p) (Some (ev_id intent))) (\<lambda>requested.
            bindS (emit_event env now ACTION_CANCELED ''aether.action-control''
              (control_payload env p q [(''cancel_acknowledged'', PBool True)])
              ''info'' (ap_correlation_id p) (Some (ev_id requested))) (\<lambda>canceled.
            bindS (modS (request_cancel tid)) (\<lambda>_.
            ret (mk_receipt (cq_action_id q) (cq_control_id q) ''canceled'' (ev_id canceled) True False)))))))"

definition reconcile_action :: "path_env \<Rightarrow> instant \<Rightarrow> control_request \<Rightarrow> string \<Rightarrow> control_receipt path" where
  "reconcile_action env now q observed =
     (if blank (cq_principal q) then throw (Control_Integrity ''reconciliation principal is required'')
      else bindS (control_proposal env q) (\<lambda>p.
        bindS (getS ps_journal) (\<lambda>evs.
        case control_replay (cq_action_id q) (cq_control_id q) evs of
          Some receipt \<Rightarrow> ret receipt
        | None \<Rightarrow>
            (let own = action_events (cq_action_id q) evs in
             if list_ex (is_type ACTION_RECONCILIATION_REQUESTED) own
             then throw (Control_Conflict ''action is already reconciling'')
             else if \<not> list_ex (\<lambda>e. ev_id e = observed) own
             then throw (Control_Integrity ''observed action receipt does not belong to the exact action'')
             else (case terminal_event (cq_action_id q) evs of
               Some e \<Rightarrow> ret (terminal_receipt e (cq_control_id q) False)
             | None \<Rightarrow>
                 if \<not> list_ex (is_type ACTION_EXECUTION_REQUESTED) own
                 then throw (Control_Conflict ''action has not reached execution'')
                 else bindS (emit_event env now ACTION_RECONCILIATION_REQUESTED ''aether.action-control''
                     (control_payload env p q [(''observed_receipt_id'', PStr observed),
                       (''outcome'', PStr ''not-confirmed''), (''resubmitted'', PBool False)])
                     ''warning'' (ap_correlation_id p) (Some observed)) (\<lambda>e.
                   ret (mk_receipt (cq_action_id q) (cq_control_id q) ''not-confirmed'' (ev_id e) False False)))))))"

section \<open>Capabilities and continuations\<close>

text \<open>What each runtime answers: its operations, and those it declares cancellable.\<close>

definition runtime_capabilities :: "(string \<Rightarrow> string list) \<Rightarrow> (string \<Rightarrow> string list) \<Rightarrow> string \<times> runtime_info
    \<Rightarrow> action_capability list" where
  "runtime_capabilities ops cancellable entry =
     map (\<lambda>operation. \<lparr>cap_target = RUNTIME, cap_operation = operation,
         cap_description = ''Delegate '' @ operation @ '' to runtime adapter '' @ fst entry,
         cap_required_scopes = [EXECUTE], cap_reversible = True,
         cap_input_schema = [(''type'', PStr ''object'')], cap_routing_key = Some (fst entry),
         cap_cancel_supported = (ri_can_cancel (snd entry) \<and> operation \<in> set (cancellable (fst entry)))\<rparr>)
       (sort (remdups (ops (fst entry))))"

definition capabilities :: "path_env \<Rightarrow> action_capability list \<Rightarrow> (string \<Rightarrow> string list) \<Rightarrow> (string \<Rightarrow> string list)
    \<Rightarrow> action_capability list" where
  "capabilities env tool_caps ops cancellable =
     (if pe_has_tools env then tool_caps else []) @
     concat (map (runtime_capabilities ops cancellable)
       (filter (\<lambda>entry. fst entry \<notin> set (pe_hidden_runtime_ids env)) (pe_runtimes env)))"

definition path_save_continuation :: "path_env \<Rightarrow> string \<Rightarrow> pyval \<Rightarrow> unit path" where
  "path_save_continuation env i continuation =
     (if \<not> pe_has_store env then throw (Path_Runtime_Error ''No pending action store is configured'')
      else bindS (store_op_path (save_continuation (pe_sha env) i continuation)) (\<lambda>_. ret ()))"

end
