(* ===== verification/Action_Path_Safety.thy ===== *)
theory Action_Path_Safety
  imports Action_Path
begin

text \<open>
  What the governed action path guarantees: who may start an execution, what becomes of its
  result, how controls bind, and the invariant of every interleaving of calls, tasks and
  controls (\<open>path_step\<close>).
\<close>

section \<open>Emission\<close>

definition emitted :: "path_env \<Rightarrow> instant \<Rightarrow> event_type \<Rightarrow> string \<Rightarrow> (string, json) dict \<Rightarrow> string
    \<Rightarrow> string option \<Rightarrow> string option \<Rightarrow> path_state \<Rightarrow> event" where
  "emitted env now t actor d severity co ca st =
     canon_event (make_event (pe_hex env (ps_counter st)) now (event_value t) actor d severity co ca)"

definition with_event :: "event \<Rightarrow> path_state \<Rightarrow> path_state" where
  "with_event e st = st\<lparr>ps_journal := ps_journal st @ [e], ps_counter := Suc (ps_counter st)\<rparr>"

lemma emit_event_json:
  assumes "to_json (PDict payload) = Some (JObj d)"
  shows "emit_event env now t actor payload severity co ca st =
    (Inr (emitted env now t actor d severity co ca st), with_event (emitted env now t actor d severity co ca st) st)"
  using assms by (simp add: emit_event_def fresh_hex_def bindS_def Let_def modS_def ret_def emitted_def with_event_def)

lemma all_some_map_Some [simp]: "all_some (map (\<lambda>x. Some (f x)) xs) = Some (map f xs)"
  by (induction xs) auto

lemma to_json_PDict_shape: "to_json (PDict payload) = Some j \<Longrightarrow> \<exists>d. j = JObj d"
  by auto

lemma emit_event_cases:
  obtains (ok) d e where "to_json (PDict payload) = Some (JObj d)"
      "e = emitted env now t actor d severity co ca st"
      "emit_event env now t actor payload severity co ca st = (Inr e, with_event e st)"
    | (bad) "to_json (PDict payload) = None"
      "emit_event env now t actor payload severity co ca st = (Inl Path_Type_Error, st)"
proof (cases "to_json (PDict payload)")
  case None
  then show thesis using bad by (simp add: emit_event_def throw_def)
next
  case (Some j)
  then obtain d where "j = JObj d" using to_json_PDict_shape by blast
  with Some have t: "to_json (PDict payload) = Some (JObj d)" by simp
  show thesis by (rule ok [OF t refl emit_event_json [OF t]])
qed

lemma emitted_simps [simp]:
  "ev_type (emitted env now t actor d severity co ca st) = event_value t"
  "ev_payload (emitted env now t actor d severity co ca st) = norm_dict d"
  "ev_id (emitted env now t actor d severity co ca st) = new_id ''evt'' (pe_hex env (ps_counter st))"
  "ev_causation (emitted env now t actor d severity co ca st) = ca"
  by (simp_all add: emitted_def canon_event_def make_event_def)

lemma with_event_simps [simp]:
  "ps_journal (with_event e st) = ps_journal st @ [e]" "ps_failures (with_event e st) = ps_failures st"
  "ps_store (with_event e st) = ps_store st" "ps_tasks (with_event e st) = ps_tasks st"
  "ps_active (with_event e st) = ps_active st" "ps_counter (with_event e st) = Suc (ps_counter st)"
  by (simp_all add: with_event_def)

lemma is_type_emitted [simp]: "is_type t (emitted env now u actor d severity co ca st) = (t = u)"
  using event_value_inject by (auto simp: is_type_def)

text \<open>The fields of a serialised payload.\<close>

lemma all_some_pairs_get:
  "all_some (map (\<lambda>(k, j). map_option (Pair k) j) (map (map_prod id to_json) kvs)) = Some d \<Longrightarrow>
    keys d = keys kvs \<and> (\<forall>k. dict_get d k = (case dict_get kvs k of None \<Rightarrow> None | Some v \<Rightarrow> to_json v))"
proof (induction kvs arbitrary: d)
  case (Cons kv kvs)
  obtain k v where kv: "kv = (k, v)" by (cases kv)
  with Cons.prems obtain j where j: "to_json v = Some j" by (cases "to_json v") auto
  with Cons.prems kv obtain d' where d': "all_some (map (\<lambda>(k, j). map_option (Pair k) j) (map (map_prod id to_json) kvs)) = Some d'"
      "d = (k, j) # d'"
    by (auto simp: id_def)
  with Cons.IH [OF d'(1)] kv j show ?case by auto
qed simp

lemma to_json_dict_get:
  assumes "to_json (PDict kvs) = Some (JObj d)"
  shows "keys d = keys kvs" "dict_get d k = (case dict_get kvs k of None \<Rightarrow> None | Some v \<Rightarrow> to_json v)"
  using all_some_pairs_get [of kvs d] assms by auto

lemma payload_str:
  assumes "to_json (PDict kvs) = Some (JObj d)" "distinct (keys kvs)" "dict_get kvs k = Some (PStr s)"
  shows "json_get (norm_dict d) k = JStr s" "get_or (norm_dict d) k [] = s"
proof -
  have "json_get d k = JStr s" using to_json_dict_get(2) [OF assms(1), of k] assms(3) by (simp add: json_get_def)
  moreover have "distinct (keys d)" using to_json_dict_get(1) [OF assms(1)] assms(2) by simp
  ultimately show "json_get (norm_dict d) k = JStr s" by (simp add: json_get_norm_dict)
  then show "get_or (norm_dict d) k [] = s" by (simp add: get_or_def Let_def)
qed

section \<open>Starting an execution\<close>

lemma emit_strings:
  "emit_event env now t actor [(a, PStr x), (b, PStr y), (c, PStr z)] severity co ca st =
    (let e = emitted env now t actor [(a, JStr x), (b, JStr y), (c, JStr z)] severity co ca st in (Inr e, with_event e st))"
  by (simp add: emit_event_json Let_def)

lemma decision_payload_json: "\<exists>d. to_json (PDict (decision_payload p dec)) = Some (JObj d)"
  by (simp add: decision_payload_def comp_def)

definition new_task :: "action_proposal \<Rightarrow> event \<Rightarrow> task" where
  "new_task p e = \<lparr>tk_proposal = p, tk_requested = ev_id e, tk_phase = Created, tk_cancel_requested = False\<rparr>"

lemma start_execution_result:
  "\<exists>e. is_type ACTION_EXECUTION_REQUESTED e \<and> ev_causation e = Some (ev_id g) \<and> event_action e = ap_action_id p \<and>
    start_execution env now p g st = (Inr (Started_Task (length (ps_tasks st))),
      (with_event e st)\<lparr>ps_tasks := ps_tasks st @ [new_task p e],
         ps_active := dict_set (ap_action_id p) (length (ps_tasks st)) (ps_active st)\<rparr>)"
proof -
  let ?d = "[(''action_id'', JStr (ap_action_id p)), (''target'', JStr (target_value (ap_target p))),
     (''operation'', JStr (ap_operation p))]"
  let ?e = "emitted env now ACTION_EXECUTION_REQUESTED ''aether.action-path'' ?d ''info'' (ap_correlation_id p) (Some (ev_id g)) st"
  have a: "event_action ?e = ap_action_id p"
    by (simp add: event_action_def get_or_def Let_def json_get_norm_dict) (simp add: json_get_def)
  show ?thesis
    by (intro exI [of _ ?e]) (simp add: a start_execution_def bindS_def emit_strings Let_def comp_simps new_task_def)
qed

text \<open>What must hold for a call to start an execution, and what it then leaves.\<close>

definition may_start :: "path_env \<Rightarrow> instant \<Rightarrow> action_proposal \<Rightarrow> action_approval option \<Rightarrow> answer \<Rightarrow> path_state \<Rightarrow> bool" where
  "may_start env now p a v st =
     ((\<exists>hex d. governor_review (pe_sha env) (pe_policy env) now hex p a = Inr d \<and> ad_approved d) \<and>
      (open_failures (pe_sha env) p (ps_failures st) = [] \<or> \<not> blank (ostr_or (ap_retry_reason p) [])) \<and>
      (asks_validator env p \<longrightarrow> v \<noteq> Task_Cancelled \<and> rt_ok (answer_result v)))"

definition started_from :: "action_proposal \<Rightarrow> path_state \<Rightarrow> path_state \<Rightarrow> bool" where
  "started_from p st st' =
     (\<exists>g e. ps_journal st' = ps_journal st @ [g, e] \<and> is_type GOVERNANCE_APPROVED g \<and>
        is_type ACTION_EXECUTION_REQUESTED e \<and> ev_causation e = Some (ev_id g) \<and> event_action e = ap_action_id p \<and>
        ps_tasks st' = ps_tasks st @ [new_task p e] \<and>
        ps_active st' = dict_set (ap_action_id p) (length (ps_tasks st)) (ps_active st) \<and>
        ps_failures st' = ps_failures st \<and> ps_store st' = ps_store st)"

lemma preflight_None:
  "preflight env now p c v st = (Inr None, st') \<Longrightarrow>
    st' = st \<and> (asks_validator env p \<longrightarrow> v \<noteq> Task_Cancelled \<and> rt_ok (answer_result v))"
  by (auto simp: preflight_def comp_simps Let_def bindS_def split: if_splits prod.splits sum.splits)

lemma request_approval_not_started:
  "bindS (request_approval env now p d g) (\<lambda>r. ret (Returned_Result r)) st = (Inr x, st') \<Longrightarrow> \<exists>r. x = Returned_Result r"
  by (auto simp: ret_def elim!: bindS_cases)

lemma review_and_start_started:
  assumes "review_and_start env now p a proposed st = (Inr (Started_Task tid), st')"
  shows "(\<exists>hex d. governor_review (pe_sha env) (pe_policy env) now hex p a = Inr d \<and> ad_approved d) \<and>
    started_from p st st' \<and> tid = length (ps_tasks st)"
proof -
  let ?st2 = "st\<lparr>ps_counter := Suc (ps_counter st)\<rparr>" and ?hex = "pe_hex env (ps_counter st)"
  obtain d where d: "governor_review (pe_sha env) (pe_policy env) now ?hex p a = Inr d"
    using assms by (cases "governor_review (pe_sha env) (pe_policy env) now ?hex p a")
      (auto simp: review_and_start_def bindS_def fresh_hex_def liftE_def)
  obtain j where j: "to_json (PDict (decision_payload p d)) = Some (JObj j)" using decision_payload_json by blast
  let ?g = "emitted env now (decision_event_type d) ''aether.governance'' j
    (if ad_approved d then ''info'' else ''warning'') (ap_correlation_id p) (Some (ev_id proposed)) ?st2"
  have cont: "(if ad_approved d then start_execution env now p ?g
     else if ad_mode d = ''approval-required'' \<and> pe_has_store env then
       bindS (request_approval env now p d ?g) (\<lambda>r. ret (Returned_Result r))
     else ret (Returned_Result (mk_result p False (ad_mode d) PNone (Some (join ''; '' (ad_reasons d)))
       [(''decision_id'', PStr (ad_decision_id d))] None))) (with_event ?g ?st2) = (Inr (Started_Task tid), st')"
    using assms d unfolding review_and_start_def
    by (simp add: bindS_def [of "fresh_hex env"] fresh_hex_def comp_simps
        bindS_Inr [where m = "emit_event _ _ _ _ _ _ _ _", OF emit_event_json [OF j]])
  have ap: "ad_approved d"
    using cont request_approval_not_started by (fastforce simp: ret_def split: if_splits)
  obtain e where "is_type ACTION_EXECUTION_REQUESTED e" "ev_causation e = Some (ev_id ?g)" "event_action e = ap_action_id p"
    "start_execution env now p ?g (with_event ?g ?st2) = (Inr (Started_Task (length (ps_tasks (with_event ?g ?st2)))),
      (with_event e (with_event ?g ?st2))\<lparr>ps_tasks := ps_tasks (with_event ?g ?st2) @ [new_task p e],
       ps_active := dict_set (ap_action_id p) (length (ps_tasks (with_event ?g ?st2))) (ps_active (with_event ?g ?st2))\<rparr>)"
    using start_execution_result by blast
  moreover have "is_type GOVERNANCE_APPROVED ?g" using ap by (simp add: decision_event_type_def)
  ultimately show ?thesis
    using cont ap d by (auto simp: started_from_def intro!: exI [of _ ?g] exI [of _ e])
qed

lemma execute_govern_started:
  assumes "execute_govern env now p a proposed v st = (Inr (Started_Task tid), st')"
  shows "may_start env now p a v st \<and> started_from p st st' \<and> tid = length (ps_tasks st)"
  using assms unfolding execute_govern_def
proof (cases rule: bindS_cases)
  case (returned pre st1)
  then have None: "pre = None" by (cases pre) (auto simp: ret_def)
  note pre = preflight_None [OF returned(1) [unfolded None]]
  have "open_failures (pe_sha env) p (ps_failures st) = [] \<or> \<not> blank (ostr_or (ap_retry_reason p) [])"
    and "review_and_start env now p a proposed st = (Inr (Started_Task tid), st')"
    using returned(2) None pre by (auto simp: comp_simps ret_def elim!: bindS_cases split: if_splits)
  with review_and_start_started pre show ?thesis by (auto simp: may_start_def)
qed simp

text \<open>Conversely, an allowed call starts.\<close>

lemma execute_govern_starts:
  assumes "\<not> asks_validator env p" "open_failures (pe_sha env) p (ps_failures st) = []"
    and "governor_review (pe_sha env) (pe_policy env) now (pe_hex env (ps_counter st)) p a = Inr d" "ad_approved d"
  shows "\<exists>st'. execute_govern env now p a proposed v st = (Inr (Started_Task (length (ps_tasks st))), st') \<and> started_from p st st'"
proof -
  let ?st2 = "st\<lparr>ps_counter := Suc (ps_counter st)\<rparr>"
  obtain j where j: "to_json (PDict (decision_payload p d)) = Some (JObj j)" using decision_payload_json by blast
  let ?g = "emitted env now GOVERNANCE_APPROVED ''aether.governance'' j ''info'' (ap_correlation_id p) (Some (ev_id proposed)) ?st2"
  have "execute_govern env now p a proposed v st = start_execution env now p ?g (with_event ?g ?st2)"
    using assms by (simp add: execute_govern_def preflight_def comp_simps review_and_start_def
        bindS_def [of "fresh_hex env"] fresh_hex_def decision_event_type_def
        bindS_Inr [where m = "emit_event _ _ _ _ _ _ _ _", OF emit_event_json [OF j]])
  moreover obtain e where "is_type ACTION_EXECUTION_REQUESTED e" "ev_causation e = Some (ev_id ?g)" "event_action e = ap_action_id p"
    "start_execution env now p ?g (with_event ?g ?st2) = (Inr (Started_Task (length (ps_tasks (with_event ?g ?st2)))),
      (with_event e (with_event ?g ?st2))\<lparr>ps_tasks := ps_tasks (with_event ?g ?st2) @ [new_task p e],
       ps_active := dict_set (ap_action_id p) (length (ps_tasks (with_event ?g ?st2))) (ps_active (with_event ?g ?st2))\<rparr>)"
    using start_execution_result by blast
  ultimately show ?thesis by (auto simp: started_from_def intro!: exI [of _ ?g] exI [of _ e])
qed

section \<open>The invariant of the state\<close>

definition authorised :: "path_env \<Rightarrow> action_proposal \<Rightarrow> bool" where
  "authorised env p = (\<exists>now hex a d. governor_review (pe_sha env) (pe_policy env) now hex p a = Inr d \<and> ad_approved d)"

definition tasks_ok :: "path_env \<Rightarrow> path_state \<Rightarrow> bool" where
  "tasks_ok env st =
     ((\<forall>t \<in> set (ps_tasks st). authorised env (tk_proposal t)) \<and>
      (\<forall>i tid. dict_get (ps_active st) i = Some tid \<longrightarrow> tid < length (ps_tasks st) \<and>
         ap_action_id (tk_proposal (ps_tasks st ! tid)) = i \<and> tk_phase (ps_tasks st ! tid) \<noteq> Finished))"

text \<open>A cancellation is the first terminal event of its action.\<close>

definition cancel_ok :: "event list \<Rightarrow> bool" where
  "cancel_ok evs = (\<forall>xs e ys. evs = xs @ e # ys \<longrightarrow> is_type ACTION_CANCELED e \<longrightarrow> terminal_event (event_action e) xs = None)"

definition proposed_ok :: "event list \<Rightarrow> bool" where
  "proposed_ok evs = (\<forall>e \<in> set evs. is_type ACTION_PROPOSED e \<longrightarrow> (\<exists>s. json_get (ev_payload e) ''action_id'' = JStr s))"

definition path_ok :: "path_env \<Rightarrow> path_state \<Rightarrow> bool" where
  "path_ok env st = (tasks_ok env st \<and> cancel_ok (ps_journal st) \<and> proposed_ok (ps_journal st) \<and>
     ok_rows (ps_failures st) \<and> store_inv (pe_sha env) (ps_store st))"

lemma cancel_ok_snoc:
  "cancel_ok (evs @ [e]) \<longleftrightarrow> cancel_ok evs \<and> (is_type ACTION_CANCELED e \<longrightarrow> terminal_event (event_action e) evs = None)"
proof -
  have "evs @ [e] = xs @ x # ys \<longleftrightarrow> (ys = [] \<and> xs = evs \<and> x = e) \<or> (\<exists>zs. ys = zs @ [e] \<and> evs = xs @ x # zs)" for xs x ys
    by (cases ys rule: rev_cases) auto
  then show ?thesis unfolding cancel_ok_def by (auto; blast)
qed

lemma proposed_ok_snoc:
  "proposed_ok (evs @ [e]) \<longleftrightarrow> proposed_ok evs \<and>
    (is_type ACTION_PROPOSED e \<longrightarrow> (\<exists>s. json_get (ev_payload e) ''action_id'' = JStr s))"
  by (auto simp: proposed_ok_def)

lemma tasks_ok_same [simp]:
  "tasks_ok env (with_event e st) = tasks_ok env st" "tasks_ok env (st\<lparr>ps_counter := n\<rparr>) = tasks_ok env st"
  "tasks_ok env (st\<lparr>ps_failures := f\<rparr>) = tasks_ok env st" "tasks_ok env (st\<lparr>ps_store := s\<rparr>) = tasks_ok env st"
  by (simp_all add: tasks_ok_def)

lemma path_ok_counter [simp]: "path_ok env (st\<lparr>ps_counter := n\<rparr>) = path_ok env st"
  by (simp add: path_ok_def)

lemma keeps_fresh [keeps_intros]: "keeps (path_ok env) (fresh_hex env')"
  by (simp add: keeps_def fresh_hex_def)

lemma keeps_emit:
  assumes "t \<noteq> ACTION_CANCELED" "t \<noteq> ACTION_PROPOSED"
  shows "keeps (path_ok env) (emit_event env now t actor payload severity co ca)"
  unfolding keeps_def
proof (intro allI impI)
  fix st assume ok: "path_ok env st"
  show "path_ok env (snd (emit_event env now t actor payload severity co ca st))"
    by (rule emit_event_cases [of payload env now t actor severity co ca st])
      (use ok assms in \<open>auto simp: path_ok_def cancel_ok_snoc proposed_ok_snoc\<close>)
qed

lemma keeps_liftE_bind:
  "(\<And>x. r = Inr x \<Longrightarrow> keeps P (f x)) \<Longrightarrow> keeps P (bindS (liftE h r) f)"
  by (cases r) (auto simp: keeps_def comp_simps)

lemma keeps_getS_bind:
  "(\<And>s. P s \<Longrightarrow> P (snd (f (g s) s))) \<Longrightarrow> keeps P (bindS (getS g) f)"
  by (simp add: keeps_def comp_simps)

lemma keeps_store:
  assumes "\<And>s. store_inv (pe_sha env) s \<Longrightarrow> store_inv (pe_sha env) (snd (f s))"
  shows "keeps (path_ok env) (store_op_path f)"
  using assms by (auto simp: keeps_def store_op_path_def path_ok_def split: prod.splits sum.splits) (metis snd_conv)+

lemma decision_event_types [simp]:
  "decision_event_type d \<noteq> ACTION_CANCELED" "decision_event_type d \<noteq> ACTION_PROPOSED"
  "ACTION_CANCELED \<noteq> decision_event_type d" "ACTION_PROPOSED \<noteq> decision_event_type d"
  by (simp_all add: decision_event_type_def)

lemma keeps_preflight: "keeps (path_ok env) (preflight env now p c v)"
  unfolding preflight_def Let_def by (intro keeps_intros keeps_emit) simp_all

lemma keeps_request_approval: "wf_proposal p \<Longrightarrow> keeps (path_ok env) (request_approval env now p d g)"
  unfolding request_approval_def by (intro keeps_intros keeps_emit keeps_store) (simp_all add: inv_create)

lemma keeps_start_execution:
  assumes "authorised env p"
  shows "keeps (path_ok env) (start_execution env now p g)"
  unfolding keeps_def
proof (intro allI impI)
  fix st assume ok: "path_ok env st"
  obtain e where "is_type ACTION_EXECUTION_REQUESTED e" and r: "start_execution env now p g st = (Inr (Started_Task (length (ps_tasks st))),
      (with_event e st)\<lparr>ps_tasks := ps_tasks st @ [new_task p e],
         ps_active := dict_set (ap_action_id p) (length (ps_tasks st)) (ps_active st)\<rparr>)"
    using start_execution_result by blast
  then have "\<not> is_type ACTION_CANCELED e" "\<not> is_type ACTION_PROPOSED e"
    using event_value_inject by (fastforce simp: is_type_def)+
  with ok assms show "path_ok env (snd (start_execution env now p g st))"
    unfolding r by (auto simp: path_ok_def tasks_ok_def cancel_ok_snoc proposed_ok_snoc new_task_def nth_append)
      (meson less_SucI)
qed

lemma keeps_review_and_start:
  assumes "wf_proposal p"
  shows "keeps (path_ok env) (review_and_start env now p a proposed)"
  unfolding review_and_start_def
proof (rule keeps_bindS [OF keeps_fresh], rule keeps_liftE_bind, intro keeps_intros keeps_emit keeps_request_approval assms)
  fix hex d g
  assume "governor_review (pe_sha env) (pe_policy env) now hex p a = Inr d" and "ad_approved d"
  then show "keeps (path_ok env) (start_execution env now p g)"
    by (intro keeps_start_execution) (auto simp: authorised_def)
qed simp_all

lemma keeps_execute_govern:
  "wf_proposal p \<Longrightarrow> keeps (path_ok env) (execute_govern env now p a proposed v)"
  unfolding execute_govern_def
  by (intro keeps_intros keeps_preflight keeps_emit keeps_review_and_start) simp_all

subsection \<open>Tasks\<close>

lemma tasks_ok_update:
  assumes "tasks_ok env st" "\<And>t. tk_proposal (f t) = tk_proposal t"
    and "\<And>i k. dict_get act i = Some k \<Longrightarrow> dict_get (ps_active st) i = Some k \<and>
      (k = tid \<longrightarrow> tk_phase (f (ps_tasks st ! tid)) \<noteq> Finished)"
  shows "tasks_ok env (st\<lparr>ps_tasks := (ps_tasks st)[tid := f (ps_tasks st ! tid)], ps_active := act\<rparr>)"
proof -
  let ?ts = "(ps_tasks st)[tid := f (ps_tasks st ! tid)]"
  have nth: "?ts ! k = (if k = tid then f (ps_tasks st ! tid) else ps_tasks st ! k)" if "k < length (ps_tasks st)" for k
    using that by (auto simp: nth_list_update)
  have "authorised env (tk_proposal t)" if t: "t \<in> set ?ts" for t
  proof -
    from t obtain k where k: "k < length (ps_tasks st)" "t = ?ts ! k" by (auto simp: in_set_conv_nth)
    then have "tk_proposal t = tk_proposal (ps_tasks st ! k)" using nth [OF k(1)] assms(2) by simp
    with k(1) assms(1) show ?thesis by (simp add: tasks_ok_def)
  qed
  moreover have "k < length ?ts \<and> ap_action_id (tk_proposal (?ts ! k)) = i \<and> tk_phase (?ts ! k) \<noteq> Finished"
    if k: "dict_get act i = Some k" for i k
  proof -
    have a: "dict_get (ps_active st) i = Some k" and f: "k = tid \<longrightarrow> tk_phase (f (ps_tasks st ! tid)) \<noteq> Finished"
      using assms(3) [OF k] by simp_all
    from a have l: "k < length (ps_tasks st)" "ap_action_id (tk_proposal (ps_tasks st ! k)) = i" "tk_phase (ps_tasks st ! k) \<noteq> Finished"
      using assms(1) by (simp_all add: tasks_ok_def)
    show ?thesis unfolding nth [OF l(1)] using l f assms(2) by auto
  qed
  ultimately show ?thesis by (simp add: tasks_ok_def)
qed

lemma path_ok_update:
  assumes "path_ok env st" "\<And>t. tk_proposal (f t) = tk_proposal t"
    and "\<And>i k. dict_get act i = Some k \<Longrightarrow> dict_get (ps_active st) i = Some k \<and>
      (k = tid \<longrightarrow> tk_phase (f (ps_tasks st ! tid)) \<noteq> Finished)"
  shows "path_ok env (st\<lparr>ps_tasks := (ps_tasks st)[tid := f (ps_tasks st ! tid)], ps_active := act\<rparr>)"
  using assms tasks_ok_update [of env st f act tid] by (simp add: path_ok_def)

lemma active_task: "path_ok env st \<Longrightarrow> dict_get (ps_active st) i = Some tid \<Longrightarrow>
    ap_action_id (tk_proposal (ps_tasks st ! tid)) = i \<and> tk_phase (ps_tasks st ! tid) \<noteq> Finished"
  by (auto simp: path_ok_def tasks_ok_def)

lemma path_ok_set_phase: "ph \<noteq> Finished \<Longrightarrow> path_ok env st \<Longrightarrow> path_ok env (set_phase tid ph st)"
  using path_ok_update [of env st "\<lambda>t. t\<lparr>tk_phase := ph\<rparr>" "ps_active st" tid] by (simp add: set_phase_def)

lemma path_ok_request_cancel: "path_ok env st \<Longrightarrow> path_ok env (request_cancel tid st)"
  using path_ok_update [of env st "\<lambda>t. t\<lparr>tk_cancel_requested := True\<rparr>" "ps_active st" tid]
    active_task [of env st _ tid] by (fastforce simp: request_cancel_def)

lemma path_ok_finish_task:
  assumes "path_ok env st"
  shows "path_ok env (finish_task tid st)"
proof -
  let ?i = "ap_action_id (tk_proposal (ps_tasks st ! tid))"
  let ?f = "\<lambda>t. t\<lparr>tk_phase := Finished\<rparr>"
  have none: "\<not> (dict_get (ps_active st) i = Some tid)" if "i \<noteq> ?i \<or> dict_get (ps_active st) ?i \<noteq> Some tid" for i
    using that active_task [OF assms, of i tid] by auto
  show ?thesis
  proof (cases "dict_get (ps_active st) ?i = Some tid")
    case True
    have "path_ok env (st\<lparr>ps_tasks := (ps_tasks st)[tid := ?f (ps_tasks st ! tid)], ps_active := dict_pop ?i (ps_active st)\<rparr>)"
      using none by (intro path_ok_update [OF assms]) (auto split: if_splits)
    with True show ?thesis by (simp add: finish_task_def set_phase_def Let_def)
  next
    case False
    have "path_ok env (st\<lparr>ps_tasks := (ps_tasks st)[tid := ?f (ps_tasks st ! tid)], ps_active := ps_active st\<rparr>)"
      using none False by (intro path_ok_update [OF assms]) auto
    with False show ?thesis by (simp add: finish_task_def set_phase_def Let_def)
  qed
qed

lemma keeps_end_task: "keeps (path_ok env) m \<Longrightarrow> keeps (path_ok env) (end_task tid m)"
  by (auto simp: keeps_def end_task_def path_ok_finish_task split: prod.splits)

lemma path_ok_failures: "path_ok env st \<Longrightarrow> ok_rows rows \<Longrightarrow> path_ok env (st\<lparr>ps_failures := rows\<rparr>)"
  by (simp add: path_ok_def)

lemma keeps_failure_record [keeps_intros]: "keeps (path_ok env) (failure_record env now p ty er)"
  using ok_rows_record by (auto simp: keeps_def failure_record_def path_ok_def split: prod.splits) (metis snd_conv)

lemma keeps_complete_execution [keeps_intros]: "keeps (path_ok env) (complete_execution env now p req backend)"
  unfolding complete_execution_def
proof (intro keeps_intros keeps_emit keeps_modS)
  show "path_ok env (st\<lparr>ps_failures := resolve_signature (pe_sha env) now p r (ps_failures st)\<rparr>)" if "path_ok env st" for st r
    using that by (intro path_ok_failures) (auto simp: path_ok_def ok_rows_resolve)
qed simp_all

lemma keeps_apply: "keeps P m \<Longrightarrow> P s \<Longrightarrow> P (snd (m s))"
  by (simp add: keeps_def)

lemma keeps_task_start: "keeps (path_ok env) (task_start env now tid)"
  unfolding keeps_def
proof (intro allI impI)
  fix st assume ok: "path_ok env st"
  have c: "path_ok env (snd (end_task tid (bindS (complete_execution env now p r b) (\<lambda>r. ret (Some r))) st))" for p r b
    by (intro keeps_apply [where P = "path_ok env" and s = st] keeps_end_task keeps_intros ok)
  have w: "path_ok env (snd (bindS (emit_event env now RUNTIME_COMMAND_REQUESTED a d s x y)
      (\<lambda>e. bindS (modS (set_phase tid (Waiting (Some (ev_id e))))) (\<lambda>_. ret None)) st))" for a d s x y
    by (intro keeps_apply [where P = "path_ok env" and s = st] ok keeps_intros keeps_emit keeps_modS path_ok_set_phase) simp_all
  show "path_ok env (snd (task_start env now tid st))"
    using ok c w by (auto simp: task_start_def Let_def path_ok_set_phase end_task_def throw_def path_ok_finish_task
        split: option.splits)
qed

lemma keeps_dispatch_result [keeps_intros]: "keeps (path_ok env) (dispatch_result env now p w r)"
proof (cases w)
  case (Some x)
  then show ?thesis
    using keeps_emit [of RUNTIME_RESULT_RECEIVED env now]
    by (auto simp: dispatch_result_def Let_def keeps_def split: prod.splits sum.splits) (metis snd_conv)+
qed (simp add: dispatch_result_def keeps_intros)

lemma keeps_task_answer: "keeps (path_ok env) (task_answer env now tid w a)"
proof -
  have "keeps (path_ok env) (case a of
        Task_Cancelled \<Rightarrow>
          bindS (getS (\<lambda>st. canceled_event (ap_action_id p) (ps_journal st))) (\<lambda>canceled.
          case canceled of
            Some terminal \<Rightarrow> ret (mk_result p False ''canceled'' PNone None [(''event_id'', PStr (ev_id terminal))] None)
          | None \<Rightarrow> throw Path_Cancelled)
      | Raised ty msg \<Rightarrow> complete_execution env now p r (failed_answer (ty @ '': '' @ msg) [])
      | Returned b \<Rightarrow> bindS (dispatch_result env now p w b) (complete_execution env now p r))" for p r
    by (cases a) (auto intro!: keeps_intros)
  from keeps_end_task [OF this] show ?thesis by (simp add: keeps_def task_answer_def Let_def)
qed

subsection \<open>Controls read before they write\<close>

definition read_only :: "'a path \<Rightarrow> bool" where
  "read_only m = (\<forall>st. snd (m st) = st)"

lemma read_onlyD: "read_only m \<Longrightarrow> m st = (r, st') \<Longrightarrow> st' = st"
  by (auto simp: read_only_def dest: spec [of _ st])

lemma read_only_basic: "read_only (ret x)" "read_only (throw e)" "read_only (getS f)" "read_only (liftE h r)"
  by (auto simp: read_only_def comp_simps liftE_def split: sum.splits)

lemma read_only_bindS: "read_only m \<Longrightarrow> (\<And>x. read_only (f x)) \<Longrightarrow> read_only (bindS m f)"
  by (auto simp: read_only_def bindS_def split: prod.splits sum.splits) (metis snd_conv)+

lemma read_only_split:
  "(b \<Longrightarrow> read_only m) \<Longrightarrow> (\<not> b \<Longrightarrow> read_only n) \<Longrightarrow> read_only (if b then m else n)"
  "read_only m \<Longrightarrow> (\<And>y. read_only (g y)) \<Longrightarrow> read_only (case x of None \<Rightarrow> m | Some y \<Rightarrow> g y)"
  "(\<And>z. read_only (h z)) \<Longrightarrow> read_only (let z = w in h z)"
  by (auto split: option.splits)

lemmas read_only_intros = read_only_basic read_only_bindS read_only_split

lemma read_only_compare [intro]: "read_only (compare_digest a b)"
  unfolding compare_digest_def by (intro read_only_intros)

lemma read_only_check_binding: "read_only (check_binding q h evs)"
  by (induction evs) (auto intro!: read_only_intros)

lemma read_only_control_proposal: "read_only (control_proposal env q)"
  unfolding control_proposal_def by (intro read_only_intros read_only_compare read_only_check_binding)

lemma read_only_cancel_begin: "read_only (cancel_begin env q reason)"
  unfolding cancel_begin_def by (intro read_only_intros read_only_control_proposal)

lemma compare_digest_True: "compare_digest a b st = (Inr True, st') \<Longrightarrow> a = b"
  by (auto simp: compare_digest_def comp_simps split: if_splits)

lemma check_binding_ok:
  "check_binding q h evs st = (Inr (), st') \<Longrightarrow> e \<in> set evs \<Longrightarrow> event_control e = cq_control_id q \<Longrightarrow>
    event_action e = cq_action_id q \<and> get_or (ev_payload e) ''action_hash'' [] = h \<and>
    get_or (ev_payload e) ''session_id'' [] = cq_session_id q"
proof (induction evs arbitrary: st)
  case (Cons x evs)
  show ?case
  proof (cases "event_control x = cq_control_id q")
    case True
    with Cons.prems(1) obtain st1 st2 where "event_action x = cq_action_id q"
      "compare_digest (get_or (ev_payload x) ''action_hash'' []) h st = (Inr True, st1)"
      "compare_digest (get_or (ev_payload x) ''session_id'' []) (cq_session_id q) st1 = (Inr True, st2)"
      "check_binding q h evs st2 = (Inr (), st')"
      by (auto simp: comp_simps elim!: bindS_cases split: if_splits)
    with Cons show ?thesis by (auto dest!: compare_digest_True)
  next
    case False
    with Cons show ?thesis by (auto split: if_splits)
  qed
qed simp

text \<open>What a control that passes \<open>_control_proposal\<close> is bound to.\<close>

lemma control_proposal_ok:
  assumes "control_proposal env q st = (Inr p, st')"
  obtains e where "e \<in> set (ps_journal st)" "is_type ACTION_PROPOSED e" "event_action e = cq_action_id q"
    "proposal_from_payload (ev_payload e) = Inr p"
    "canonical_action_hash (pe_sha env) p = cq_expected_hash q"
    "pv_get_or (ap_metadata p) ''session_id'' [] = ''browser:'' @ cq_session_id q"
    "\<And>x. x \<in> set (ps_journal st) \<Longrightarrow> event_control x = cq_control_id q \<Longrightarrow> event_action x = cq_action_id q \<and>
      get_or (ev_payload x) ''action_hash'' [] = canonical_action_hash (pe_sha env) p \<and>
      get_or (ev_payload x) ''session_id'' [] = cq_session_id q"
proof -
  obtain e where e: "find (is_type ACTION_PROPOSED) (action_events (cq_action_id q) (ps_journal st)) = Some e"
    using assms by (auto simp: control_proposal_def comp_simps split: if_splits option.splits)
  then have r: "bindS (liftE Path_Contract_Error (proposal_from_payload (ev_payload e))) (\<lambda>p.
      bindS (compare_digest (canonical_action_hash (pe_sha env) p) (cq_expected_hash q)) (\<lambda>same.
      if \<not> same then throw (Control_Integrity ''control action hash mismatch'')
      else bindS (compare_digest (pv_get_or (ap_metadata p) ''session_id'' []) (''browser:'' @ cq_session_id q)) (\<lambda>bound.
        if \<not> bound then throw (Control_Integrity ''control session binding mismatch'')
        else bindS (check_binding q (canonical_action_hash (pe_sha env) p) (ps_journal st)) (\<lambda>_. ret p)))) st = (Inr p, st')"
    using assms by (auto simp: control_proposal_def comp_simps Let_def split: if_splits)
  then obtain p' st1 st2 st3 where p: "proposal_from_payload (ev_payload e) = Inr p'"
    "compare_digest (canonical_action_hash (pe_sha env) p') (cq_expected_hash q) st = (Inr True, st1)"
    "compare_digest (pv_get_or (ap_metadata p') ''session_id'' []) (''browser:'' @ cq_session_id q) st1 = (Inr True, st2)"
    "check_binding q (canonical_action_hash (pe_sha env) p') (ps_journal st) st2 = (Inr (), st3)" "p' = p"
    by (cases "proposal_from_payload (ev_payload e)") (auto simp: comp_simps elim!: bindS_cases split: if_splits)
  have "e \<in> set (ps_journal st)" "is_type ACTION_PROPOSED e" "event_action e = cq_action_id q"
    using e by (auto simp: find_Some_iff action_events_def dest!: nth_mem)
  then show thesis
    using p compare_digest_True [OF p(2)] compare_digest_True [OF p(3)] check_binding_ok [OF p(4)]
    by (intro that) auto
qed

lemma control_action_id:
  assumes "control_proposal env q st = (Inr p, st')" "proposed_ok (ps_journal st)"
  shows "ap_action_id p = cq_action_id q"
proof -
  obtain e where e: "e \<in> set (ps_journal st)" "is_type ACTION_PROPOSED e" "event_action e = cq_action_id q"
    "proposal_from_payload (ev_payload e) = Inr p"
    using control_proposal_ok [OF assms(1)] by metis
  then obtain s where s: "json_get (ev_payload e) ''action_id'' = JStr s" using assms(2) by (auto simp: proposed_ok_def)
  then have "get_key (ev_payload e) ''action_id'' = Inr s"
    by (simp add: json_get_def get_key_def split: option.splits)
  with e(4) have "ap_action_id p = s"
    by (auto simp: proposal_from_payload_def bindE_Inr_conv Let_def)
  moreover have "event_action e = s" using s by (simp add: event_action_def get_or_def Let_def)
  ultimately show ?thesis using e(3) by simp
qed

lemma control_payload_keys:
  "distinct (keys extra) \<Longrightarrow> distinct (keys (control_payload env p q extra))"
  by (simp add: control_payload_def distinct_dict_update)

lemma dict_get_update: "distinct (keys e) \<Longrightarrow> dict_get (dict_update d e) k = (case dict_get e k of None \<Rightarrow> dict_get d k | Some v \<Rightarrow> Some v)"
proof (induction e arbitrary: d)
  case (Cons kv e)
  then show ?case by (cases kv) (auto split: option.splits dest: map_of_SomeD simp: rev_image_eqI)
qed simp

lemma control_payload_action:
  assumes "to_json (PDict (control_payload env p q extra)) = Some (JObj d)" "distinct (keys extra)"
    and "''action_id'' \<notin> set (keys extra)" "''control_request_id'' \<notin> set (keys extra)"
  shows "get_or (norm_dict d) ''action_id'' [] = ap_action_id p"
    and "get_or (norm_dict d) ''control_request_id'' [] = cq_control_id q"
proof -
  have n: "dict_get extra ''action_id'' = None" "dict_get extra ''control_request_id'' = None"
    using assms(3,4) by (simp_all add: map_of_eq_None_iff)
  have "dict_get (control_payload env p q extra) ''action_id'' = Some (PStr (ap_action_id p))"
    "dict_get (control_payload env p q extra) ''control_request_id'' = Some (PStr (cq_control_id q))"
    using assms(2) n by (simp_all add: control_payload_def dict_get_update del: dict_update_Cons)
  with payload_str(2) [OF assms(1) control_payload_keys [OF assms(2)]]
  show "get_or (norm_dict d) ''action_id'' [] = ap_action_id p"
    and "get_or (norm_dict d) ''control_request_id'' [] = cq_control_id q"
    by blast+
qed

lemma terminal_event_snoc:
  "terminal_event i (evs @ [e]) =
    (if event_action e = i \<and> is_terminal e then Some e else terminal_event i evs)"
  by (simp add: terminal_event_def action_events_def)

lemma is_terminal_type: "is_terminal (emitted env now t actor d severity co ca st) = (t \<in> set terminal_types)"
  using event_value_inject by (auto simp: is_terminal_def)

lemma keeps_cancel_intent: "keeps (path_ok env) (cancel_intent env now q reason p tid supported)"
  unfolding cancel_intent_def by (intro keeps_intros keeps_emit) simp_all

lemma keeps_reconcile_action: "keeps (path_ok env) (reconcile_action env now q observed)"
proof -
  have "keeps (path_ok env) (control_proposal env q)"
    using read_only_control_proposal [of env q] by (simp add: keeps_def read_only_def)
  then show ?thesis unfolding reconcile_action_def by (intro keeps_intros keeps_emit) simp_all
qed

lemma path_ok_canceled:
  assumes "path_ok env st" "terminal_event (ap_action_id p) (ps_journal st) = None"
    and "distinct (keys extra)" "''action_id'' \<notin> set (keys extra)" "''control_request_id'' \<notin> set (keys extra)"
  shows "path_ok env (snd (emit_event env now ACTION_CANCELED actor (control_payload env p q extra) sev co ca st))"
proof (rule emit_event_cases [of "control_payload env p q extra" env now ACTION_CANCELED actor sev co ca st])
  fix d e
  assume d: "to_json (PDict (control_payload env p q extra)) = Some (JObj d)"
    and e: "e = emitted env now ACTION_CANCELED actor d sev co ca st"
    and r: "emit_event env now ACTION_CANCELED actor (control_payload env p q extra) sev co ca st = (Inr e, with_event e st)"
  have "event_action e = ap_action_id p"
    using control_payload_action(1) [OF d assms(3-5)] e by (simp add: event_action_def)
  then show ?thesis
    unfolding r using assms(1,2) e by (simp add: path_ok_def cancel_ok_snoc proposed_ok_snoc)
qed (use assms(1) in simp)

lemma cancel_finish_ok:
  assumes "path_ok env st" "ap_action_id p = cq_action_id q"
  shows "path_ok env (snd (cancel_finish env now q reason p tid intent a st))"
proof (cases "a = Task_Cancelled \<or> terminal_event (cq_action_id q) (ps_journal st) \<noteq> None \<or> \<not> rt_ok (cancel_backend env p a)")
  case True
  moreover have "path_ok env (snd (bindS (emit_event env now ACTION_CANCEL_NOT_CONFIRMED x d s co ca) (\<lambda>e. ret (f e)) st))"
    for x d s co ca and f :: "event \<Rightarrow> control_receipt"
    by (intro keeps_apply [where P = "path_ok env" and s = st] assms(1) keeps_intros keeps_emit) simp_all
  ultimately show ?thesis
    using assms(1) by (auto simp: cancel_finish_def comp_simps Let_def split: option.splits)
next
  case False
  let ?req = "emit_event env now ACTION_CANCEL_REQUESTED ''aether.action-control''
    (control_payload env p q [(''reason'', PStr reason)]) ''info'' (ap_correlation_id p) (Some (ev_id intent))"
  let ?can = "\<lambda>requested. emit_event env now ACTION_CANCELED ''aether.action-control''
    (control_payload env p q [(''cancel_acknowledged'', PBool True)]) ''info'' (ap_correlation_id p) (Some (ev_id requested))"
  have ok1: "path_ok env (snd (?req st))" using keeps_emit assms(1) by (simp add: keeps_def)
  have t1: "terminal_event (cq_action_id q) (ps_journal (snd (?req st))) = None"
    using False by (cases rule: emit_event_cases [of "control_payload env p q [(''reason'', PStr reason)]" env now
        ACTION_CANCEL_REQUESTED "''aether.action-control''" "''info''" "ap_correlation_id p" "Some (ev_id intent)" st])
      (simp_all add: terminal_event_snoc is_terminal_type terminal_types_def)
  have ok2: "path_ok env (snd (?can e (snd (?req st))))" for e
    using path_ok_canceled [OF ok1, of p "[(''cancel_acknowledged'', PBool True)]"] t1 assms(2) by simp
  have eq: "cancel_finish env now q reason p tid intent a st =
      bindS ?req (\<lambda>requested. bindS (?can requested) (\<lambda>canceled. bindS (modS (request_cancel tid)) (\<lambda>_.
        ret (mk_receipt (cq_action_id q) (cq_control_id q) ''canceled'' (ev_id canceled) True False)))) st"
    using False by (simp add: cancel_finish_def comp_simps Let_def)
  obtain r1 s1 where q1: "?req st = (r1, s1)" by (cases "?req st")
  show ?thesis
  proof (cases r1)
    case (Inl err)
    then show ?thesis unfolding eq using q1 ok1 by (simp add: bindS_def)
  next
    case (Inr x)
    obtain r2 s2 where q2: "?can x s1 = (r2, s2)" by (cases "?can x s1")
    have "path_ok env s2" using ok2 [of x] q1 q2 by simp
    then show ?thesis unfolding eq using q1 q2 Inr path_ok_request_cancel
      by (cases r2) (simp_all add: bindS_def comp_simps)
  qed
qed

section \<open>Every interleaving\<close>

text \<open>Coroutines suspended at an await, besides the execution tasks.\<close>

datatype frame =
    Awaiting_Validation action_proposal "action_approval option" event
  | Awaiting_Cancel_Support control_request string action_proposal nat
  | Awaiting_Cancel_Backend control_request string action_proposal nat event

type_synonym config = "path_state \<times> frame list"

text \<open>The event types the approval inbox emits on the same bus.\<close>

definition inbox_types :: "event_type set" where
  "inbox_types = {APPROVAL_APPROVED, APPROVAL_REJECTED, APPROVAL_EXPIRED, APPROVAL_CONSUMED,
     APPROVAL_REPLAY_BLOCKED, ACTION_RESUME_REQUESTED}"

inductive path_step :: "path_env \<Rightarrow> config \<Rightarrow> config \<Rightarrow> bool" for env where
  propose: "wf_proposal p \<Longrightarrow> execute_propose env now p st = (Inr (p', e), st') \<Longrightarrow>
    path_step env (st, fs) (st', fs @ [Awaiting_Validation p' a e])"
| propose_raises: "wf_proposal p \<Longrightarrow> execute_propose env now p st = (Inl err, st') \<Longrightarrow> path_step env (st, fs) (st', fs)"
| govern: "execute_govern env now p a e v st = (r, st') \<Longrightarrow>
    path_step env (st, fs @ Awaiting_Validation p a e # gs) (st', fs @ gs)"
| start: "tid < length (ps_tasks st) \<Longrightarrow> tk_phase (ps_tasks st ! tid) = Created \<Longrightarrow>
    task_start env now tid st = (r, st') \<Longrightarrow> path_step env (st, fs) (st', fs)"
| answer: "tid < length (ps_tasks st) \<Longrightarrow> tk_phase (ps_tasks st ! tid) = Waiting w \<Longrightarrow>
    task_answer env now tid w a st = (r, st') \<Longrightarrow> path_step env (st, fs) (st', fs)"
| cancel: "cancel_begin env q reason st = (Inr (Continue (p, tid)), st') \<Longrightarrow>
    path_step env (st, fs) (st', fs @ [Awaiting_Cancel_Support q reason p tid])"
| intent: "cancel_intent env now q reason p tid (cancel_supported env p caps ops) st = (Inr (Continue e), st') \<Longrightarrow>
    path_step env (st, fs @ Awaiting_Cancel_Support q reason p tid # gs)
      (st', fs @ Awaiting_Cancel_Backend q reason p tid e # gs)"
| intent_ends: "cancel_intent env now q reason p tid (cancel_supported env p caps ops) st = (r, st') \<Longrightarrow>
    (\<nexists>e. r = Inr (Continue e)) \<Longrightarrow>
    path_step env (st, fs @ Awaiting_Cancel_Support q reason p tid # gs) (st', fs @ gs)"
| finish: "cancel_finish env now q reason p tid e a st = (r, st') \<Longrightarrow>
    path_step env (st, fs @ Awaiting_Cancel_Backend q reason p tid e # gs) (st', fs @ gs)"
| reconcile: "reconcile_action env now q observed st = (r, st') \<Longrightarrow> path_step env (st, fs) (st', fs)"
| inbox_store: "wf_op op \<Longrightarrow>
    path_step env (st, fs) (st\<lparr>ps_store := store_step (pe_sha env) (pe_store_ttl env) op (ps_store st)\<rparr>, fs)"
| inbox_event: "t \<in> inbox_types \<Longrightarrow> emit_event env now t actor payload sev co ca st = (r, st') \<Longrightarrow>
    path_step env (st, fs) (st', fs)"

inductive reachable :: "path_env \<Rightarrow> config \<Rightarrow> bool" for env where
  initial: "reachable env (initial_state, [])"
| step: "reachable env c \<Longrightarrow> path_step env c c' \<Longrightarrow> reachable env c'"

fun frame_ok :: "frame \<Rightarrow> bool" where
  "frame_ok (Awaiting_Validation p a e) = wf_proposal p"
| "frame_ok (Awaiting_Cancel_Support q reason p tid) = (ap_action_id p = cq_action_id q)"
| "frame_ok (Awaiting_Cancel_Backend q reason p tid e) = (ap_action_id p = cq_action_id q)"

definition config_ok :: "path_env \<Rightarrow> config \<Rightarrow> bool" where
  "config_ok env c = (path_ok env (fst c) \<and> list_all frame_ok (snd c))"

lemma proposed_payload_action:
  "to_json (PDict (proposed_payload p)) = Some (JObj d) \<Longrightarrow> json_get (norm_dict d) ''action_id'' = JStr (ap_action_id p)"
  by (erule payload_str(1)) (simp_all add: proposed_payload_def)

lemma execute_propose_ok:
  assumes "path_ok env st" "wf_proposal p"
  shows "path_ok env (snd (execute_propose env now p st))"
    and "execute_propose env now p st = (Inr (p', e), st') \<Longrightarrow> wf_proposal p'"
proof -
  have em: "path_ok env (snd (emit_event env now ACTION_PROPOSED actor (proposed_payload r) sev co ca s))"
    if "path_ok env s" for s r actor sev co ca
    by (rule emit_event_cases [of "proposed_payload r" env now ACTION_PROPOSED actor sev co ca s])
      (use that proposed_payload_action in \<open>auto simp: path_ok_def cancel_ok_snoc proposed_ok_snoc\<close>)
  show "path_ok env (snd (execute_propose env now p st))"
    unfolding execute_propose_def Let_def
    by (intro keeps_apply [where P = "path_ok env" and s = st] assms(1) keeps_intros) (simp add: keeps_def em)
  show "wf_proposal p'" if "execute_propose env now p st = (Inr (p', e), st')"
    using that assms(2)
    by (auto simp: execute_propose_def comp_simps fresh_hex_def bindS_def Let_def wf_proposal_def
        split: prod.splits sum.splits if_splits)
qed

lemma cancel_begin_frame:
  assumes "cancel_begin env q reason st = (Inr (Continue (p, tid)), st')" "path_ok env st"
  shows "ap_action_id p = cq_action_id q"
proof -
  have "\<exists>st1. control_proposal env q st = (Inr p, st1)"
    using assms(1) unfolding cancel_begin_def
    by (auto simp: comp_simps elim!: bindS_cases split: if_splits option.splits)
  then show ?thesis using assms(2) control_action_id by (auto simp: path_ok_def)
qed

lemma path_step_ok: "path_step env c c' \<Longrightarrow> config_ok env c \<Longrightarrow> config_ok env c'"
proof (induction rule: path_step.induct)
  case (propose p now st p' e st' fs a)
  then show ?case using execute_propose_ok [of env st p now] by (auto simp: config_ok_def)
next
  case (propose_raises p now st err st' fs)
  then show ?case using execute_propose_ok(1) [of env st p now] by (simp add: config_ok_def)
next
  case (govern now p a e v st r st' fs gs)
  then show ?case using keepsD [OF keeps_execute_govern] by (auto simp: config_ok_def)
next
  case (start tid st now r st' fs)
  then show ?case using keepsD [OF keeps_task_start] by (auto simp: config_ok_def)
next
  case (answer tid st w now a r st' fs)
  then show ?case using keepsD [OF keeps_task_answer] by (auto simp: config_ok_def)
next
  case (cancel q reason st p tid st' fs)
  then show ?case
    using cancel_begin_frame [of env q reason st p tid st'] read_onlyD [OF read_only_cancel_begin cancel(1)]
    by (auto simp: config_ok_def)
next
  case (intent now q reason p tid caps ops st e st' fs gs)
  then show ?case using keepsD [OF keeps_cancel_intent] by (auto simp: config_ok_def)
next
  case (intent_ends now q reason p tid caps ops st r st' fs gs)
  then show ?case using keepsD [OF keeps_cancel_intent] by (auto simp: config_ok_def)
next
  case (finish now q reason p tid e a st r st' fs gs)
  then show ?case using cancel_finish_ok [of env st p q now reason tid e a] by (auto simp: config_ok_def)
next
  case (reconcile now q observed st r st' fs)
  then show ?case using keepsD [OF keeps_reconcile_action] by (auto simp: config_ok_def)
next
  case (inbox_store op st fs)
  then show ?case using store_inv_step by (auto simp: config_ok_def path_ok_def)
next
  case (inbox_event t now actor payload sev co ca st r st' fs)
  then show ?case using keepsD [OF keeps_emit, of t env st now actor payload sev co ca r st']
    by (auto simp: config_ok_def inbox_types_def)
qed

lemma reachable_ok: "reachable env c \<Longrightarrow> config_ok env c"
proof (induction rule: reachable.induct)
  case initial
  show ?case
    by (simp add: config_ok_def path_ok_def tasks_ok_def initial_state_def cancel_ok_def proposed_ok_def ok_rows_def)
next
  case (step c c')
  then show ?case using path_step_ok by blast
qed

section \<open>Where tasks come from\<close>

text \<open>The proposals of the tasks, in the order of their creation: only a reviewed call adds one.\<close>

definition task_proposals :: "path_state \<Rightarrow> action_proposal list" where
  "task_proposals st = map tk_proposal (ps_tasks st)"

lemma task_proposals_same [simp]:
  "task_proposals (with_event e st) = task_proposals st" "task_proposals (st\<lparr>ps_counter := n\<rparr>) = task_proposals st"
  "task_proposals (st\<lparr>ps_failures := f\<rparr>) = task_proposals st" "task_proposals (st\<lparr>ps_store := s\<rparr>) = task_proposals st"
  by (simp_all add: task_proposals_def)

lemma map_update_same: "(i < length xs \<Longrightarrow> f x = f (xs ! i)) \<Longrightarrow> map f (xs[i := x]) = map f xs"
  by (metis list_update_beyond list_update_id map_update not_le)

lemma task_proposals_updates [simp]:
  "task_proposals (set_phase tid ph st) = task_proposals st" "task_proposals (request_cancel tid st) = task_proposals st"
  "task_proposals (finish_task tid st) = task_proposals st"
  by (simp_all add: task_proposals_def set_phase_def request_cancel_def finish_task_def Let_def map_update_same)

abbreviation same_tasks :: "'a path \<Rightarrow> action_proposal list \<Rightarrow> bool" where
  "same_tasks m ps \<equiv> keeps (\<lambda>st. task_proposals st = ps) m"

lemma same_emit: "same_tasks (emit_event env now t actor payload sev co ca) ps"
  unfolding keeps_def
proof (intro allI impI)
  fix st assume "task_proposals st = ps"
  then show "task_proposals (snd (emit_event env now t actor payload sev co ca st)) = ps"
    by (cases rule: emit_event_cases [of payload env now t actor sev co ca st]) auto
qed

lemma same_basic:
  "same_tasks (fresh_hex env) ps" "same_tasks (failure_record env now p ty er) ps" "same_tasks (store_op_path f) ps"
  "same_tasks (modS (request_cancel tid)) ps" "same_tasks (modS (set_phase tid ph)) ps"
  "same_tasks (modS (\<lambda>st. st\<lparr>ps_failures := g st\<rparr>)) ps"
  by (auto simp: keeps_def fresh_hex_def failure_record_def store_op_path_def modS_def split: prod.splits sum.splits)

lemma same_read_only: "read_only m \<Longrightarrow> same_tasks m ps"
  by (simp add: keeps_def read_only_def)

lemma same_end_task: "same_tasks m ps \<Longrightarrow> same_tasks (end_task tid m) ps"
  by (auto simp: keeps_def end_task_def split: prod.splits)

lemmas same_intros = keeps_intros same_emit same_basic same_end_task

lemma same_complete: "same_tasks (complete_execution env now p req b) ps"
  unfolding complete_execution_def Let_def by (intro same_intros)

lemma same_dispatch: "same_tasks (dispatch_result env now p w r) ps"
proof (cases w)
  case (Some x)
  then show ?thesis
    using same_emit [where t = RUNTIME_RESULT_RECEIVED and ps = ps]
    by (auto simp: dispatch_result_def Let_def keeps_def split: prod.splits sum.splits) (metis snd_conv)+
qed (simp add: dispatch_result_def keeps_intros)

lemma same_task_start: "same_tasks (task_start env now tid) ps"
  unfolding keeps_def
proof (intro allI impI)
  fix st assume st: "task_proposals st = ps"
  note on_st = keeps_apply [where P = "\<lambda>s. task_proposals s = ps" and s = st]
  have c: "task_proposals (snd (end_task tid (bindS (complete_execution env now p r b) (\<lambda>r. ret (Some r))) st)) = ps" for p r b
    by (intro on_st same_intros same_complete st)
  have w: "task_proposals (snd (bindS (emit_event env now RUNTIME_COMMAND_REQUESTED a d s x y)
      (\<lambda>e. bindS (modS (set_phase tid (Waiting (Some (ev_id e))))) (\<lambda>_. ret None)) st)) = ps" for a d s x y
    by (intro on_st same_intros st)
  show "task_proposals (snd (task_start env now tid st)) = ps"
    using st c w by (auto simp: task_start_def Let_def end_task_def throw_def split: option.splits)
qed

lemma same_task_answer: "same_tasks (task_answer env now tid w a) ps"
proof -
  have "same_tasks (case a of
        Task_Cancelled \<Rightarrow>
          bindS (getS (\<lambda>st. canceled_event (ap_action_id p) (ps_journal st))) (\<lambda>canceled.
          case canceled of
            Some terminal \<Rightarrow> ret (mk_result p False ''canceled'' PNone None [(''event_id'', PStr (ev_id terminal))] None)
          | None \<Rightarrow> throw Path_Cancelled)
      | Raised ty msg \<Rightarrow> complete_execution env now p r (failed_answer (ty @ '': '' @ msg) [])
      | Returned b \<Rightarrow> bindS (dispatch_result env now p w b) (complete_execution env now p r)) ps" for p r
    by (cases a) (auto intro!: same_intros same_complete same_dispatch)
  from same_end_task [OF this] show ?thesis by (simp add: keeps_def task_answer_def Let_def)
qed

lemma same_controls:
  "same_tasks (cancel_begin env q reason) ps" "same_tasks (cancel_intent env now q reason p tid supported) ps"
  "same_tasks (cancel_finish env now q reason p tid e a) ps" "same_tasks (reconcile_action env now q observed) ps"
proof -
  show "same_tasks (cancel_begin env q reason) ps" by (rule same_read_only [OF read_only_cancel_begin])
  show "same_tasks (cancel_intent env now q reason p tid supported) ps"
    unfolding cancel_intent_def by (intro same_intros)
  show "same_tasks (cancel_finish env now q reason p tid e a) ps"
    unfolding cancel_finish_def Let_def by (intro same_intros)
  show "same_tasks (reconcile_action env now q observed) ps"
    unfolding reconcile_action_def Let_def by (intro same_intros same_read_only [OF read_only_control_proposal])
qed

lemma same_calls:
  "same_tasks (execute_propose env now p) ps" "same_tasks (preflight env now p c v) ps" "same_tasks (request_approval env now p d g) ps"
proof -
  show "same_tasks (execute_propose env now p) ps" unfolding execute_propose_def Let_def by (intro same_intros)
  show "same_tasks (preflight env now p c v) ps" unfolding preflight_def Let_def by (intro same_intros)
  show "same_tasks (request_approval env now p d g) ps" unfolding request_approval_def by (intro same_intros)
qed

text \<open>The review of a call either starts its task or adds none.\<close>

definition adds_only_by_start :: "executed path \<Rightarrow> bool" where
  "adds_only_by_start m = (\<forall>st r st'. m st = (r, st') \<longrightarrow>
     task_proposals st' = task_proposals st \<or> (\<exists>tid. r = Inr (Started_Task tid)))"

lemma adds_only_same: "(\<And>ps. same_tasks m ps) \<Longrightarrow> adds_only_by_start m"
  unfolding adds_only_by_start_def keeps_def by (metis snd_conv)

lemma adds_only_bind:
  assumes "\<And>ps. same_tasks m ps" "\<And>x. adds_only_by_start (f x)"
  shows "adds_only_by_start (bindS m f)"
  unfolding adds_only_by_start_def
proof (intro allI impI)
  fix st r st' assume b: "bindS m f st = (r, st')"
  obtain r1 s1 where m: "m st = (r1, s1)" by (cases "m st")
  have s1: "task_proposals s1 = task_proposals st" using keepsD [OF assms(1) refl m] .
  show "task_proposals st' = task_proposals st \<or> (\<exists>tid. r = Inr (Started_Task tid))"
  proof (cases r1)
    case (Inl x)
    then show ?thesis using b m s1 by (simp add: bindS_def)
  next
    case (Inr x)
    then have "f x s1 = (r, st')" using b m by (simp add: bindS_def)
    then show ?thesis using assms(2) [of x] s1 unfolding adds_only_by_start_def by metis
  qed
qed

lemma start_execution_result_adds: "adds_only_by_start (start_execution env now p g)"
  unfolding adds_only_by_start_def using start_execution_result by (metis fst_conv)

lemma adds_only_ret: "adds_only_by_start (ret x)"
  by (simp add: adds_only_by_start_def ret_def)

lemma adds_only_if: "(b \<Longrightarrow> adds_only_by_start m) \<Longrightarrow> (\<not> b \<Longrightarrow> adds_only_by_start n) \<Longrightarrow> adds_only_by_start (if b then m else n)"
  by simp

lemma adds_only_option: "adds_only_by_start m \<Longrightarrow> (\<And>y. adds_only_by_start (f y)) \<Longrightarrow> adds_only_by_start (case x of None \<Rightarrow> m | Some y \<Rightarrow> f y)"
  by (cases x) simp_all

lemmas adds_only_intros = adds_only_bind adds_only_ret adds_only_if adds_only_option start_execution_result_adds
  same_emit same_basic same_calls same_read_only read_only_basic

lemma adds_only_execute_govern: "adds_only_by_start (execute_govern env now p a e v)"
proof -
  have "adds_only_by_start (review_and_start env now p a e)"
    unfolding review_and_start_def by (intro adds_only_intros)
  then show ?thesis unfolding execute_govern_def by (intro adds_only_intros)
qed

text \<open>A run: the configurations of an interleaving, first to last.\<close>

inductive path_run :: "path_env \<Rightarrow> config list \<Rightarrow> bool" for env where
  run_initial: "path_run env [(initial_state, [])]"
| run_step: "path_run env cs \<Longrightarrow> path_step env (last cs) c \<Longrightarrow> path_run env (cs @ [c])"

text \<open>
  The step from \<open>c\<close> to \<open>c'\<close> is the review, at \<open>now\<close>, of a call waiting with proposal \<open>p\<close> and
  the approval \<open>a\<close> it was made with, and it starts task \<open>k\<close>.
\<close>

definition starts_task :: "path_env \<Rightarrow> instant \<Rightarrow> action_proposal \<Rightarrow> action_approval option \<Rightarrow> nat \<Rightarrow> config \<Rightarrow> config \<Rightarrow> bool" where
  "starts_task env now p a k c c' =
     (\<exists>e v fs gs. snd c = fs @ Awaiting_Validation p a e # gs \<and> snd c' = fs @ gs \<and> k = length (ps_tasks (fst c)) \<and>
        execute_govern env now p a e v (fst c) = (Inr (Started_Task k), fst c'))"

lemma path_step_tasks:
  assumes "path_step env c c'"
  shows "task_proposals (fst c') = task_proposals (fst c) \<or>
    (\<exists>now p a. starts_task env now p a (length (ps_tasks (fst c))) c c' \<and> task_proposals (fst c') = task_proposals (fst c) @ [p])"
  using assms
proof (induction rule: path_step.induct)
  case (govern now p a e v st r st' fs gs)
  show ?case
  proof (cases "task_proposals st' = task_proposals st")
    case False
    then obtain tid where r: "r = Inr (Started_Task tid)"
      using adds_only_execute_govern govern unfolding adds_only_by_start_def by blast
    have s: "started_from p st st' \<and> tid = length (ps_tasks st)"
      using execute_govern_started [OF govern [unfolded r]] by simp
    then have "task_proposals st' = task_proposals st @ [p]"
      by (auto simp: started_from_def task_proposals_def new_task_def)
    moreover have "starts_task env now p a (length (ps_tasks st)) (st, fs @ Awaiting_Validation p a e # gs) (st', fs @ gs)"
      unfolding starts_task_def using govern r s by fastforce
    ultimately show ?thesis by auto
  qed simp
next
  case (propose p now st p' e st' fs a)
  then show ?case using keepsD [OF same_calls(1) refl] by fastforce
next
  case (propose_raises p now st err st' fs)
  then show ?case using keepsD [OF same_calls(1) refl] by fastforce
next
  case (start tid st now r st' fs)
  then show ?case using keepsD [OF same_task_start refl] by fastforce
next
  case (answer tid st w now a r st' fs)
  then show ?case using keepsD [OF same_task_answer refl] by fastforce
next
  case (cancel q reason st p tid st' fs)
  then show ?case using keepsD [OF same_controls(1) refl] by fastforce
next
  case (intent now q reason p tid caps ops st e st' fs gs)
  then show ?case using keepsD [OF same_controls(2) refl] by fastforce
next
  case (intent_ends now q reason p tid caps ops st r st' fs gs)
  then show ?case using keepsD [OF same_controls(2) refl] by fastforce
next
  case (finish now q reason p tid e a st r st' fs gs)
  then show ?case using keepsD [OF same_controls(3) refl] by fastforce
next
  case (reconcile now q observed st r st' fs)
  then show ?case using keepsD [OF same_controls(4) refl] by fastforce
next
  case (inbox_event t now actor payload sev co ca st r st' fs)
  then show ?case using keepsD [OF same_emit refl] by fastforce
qed simp

lemma path_run_not_empty: "path_run env cs \<Longrightarrow> cs \<noteq> []"
  by (induction rule: path_run.induct) simp_all

lemma reachable_path_run: "reachable env c \<Longrightarrow> \<exists>cs. path_run env cs \<and> last cs = c"
proof (induction rule: reachable.induct)
  case initial
  show ?case using path_run.run_initial by (metis last.simps)
next
  case (step c c')
  then obtain cs where "path_run env cs" "last cs = c" by blast
  with step.hyps(2) have "path_run env (cs @ [c'])" by (intro path_run.run_step) simp_all
  then show ?case by (metis last_snoc)
qed

lemma path_run_task_origin:
  "path_run env cs \<Longrightarrow> k < length (ps_tasks (fst (last cs))) \<Longrightarrow>
    \<exists>i now p a. Suc i < length cs \<and> starts_task env now p a k (cs ! i) (cs ! Suc i) \<and>
      tk_proposal (ps_tasks (fst (last cs)) ! k) = p"
proof (induction rule: path_run.induct)
  case run_initial
  then show ?case by (simp add: initial_state_def)
next
  case (run_step cs c)
  note nonempty = path_run_not_empty [OF run_step.hyps(1)]
  let ?old = "fst (last cs)"
  have nth: "tk_proposal (ps_tasks st ! j) = task_proposals st ! j" if "j < length (ps_tasks st)" for st j
    using that by (simp add: task_proposals_def)
  have len: "length (ps_tasks st) = length (task_proposals st)" for st by (simp add: task_proposals_def)
  from path_step_tasks [OF run_step.hyps(2)] show ?case
  proof (elim disjE exE conjE)
    assume same: "task_proposals (fst c) = task_proposals ?old"
    with run_step.prems have k: "k < length (ps_tasks ?old)" by (simp add: len)
    from run_step.IH [OF k] obtain i now p a where "Suc i < length cs" "starts_task env now p a k (cs ! i) (cs ! Suc i)"
      "tk_proposal (ps_tasks ?old ! k) = p" by blast
    with same k run_step.prems show ?thesis
      by (intro exI [of _ i]) (auto simp: nth_append nth)
  next
    fix now p a
    assume s: "starts_task env now p a (length (ps_tasks ?old)) (last cs) c" and t: "task_proposals (fst c) = task_proposals ?old @ [p]"
    show ?thesis
    proof (cases "k < length (ps_tasks ?old)")
      case True
      from run_step.IH [OF True] obtain i now' p' a' where "Suc i < length cs" "starts_task env now' p' a' k (cs ! i) (cs ! Suc i)"
        "tk_proposal (ps_tasks ?old ! k) = p'" by blast
      with t True run_step.prems show ?thesis
        by (intro exI [of _ i]) (auto simp: nth_append nth len)
    next
      case False
      then have k: "k = length (ps_tasks ?old)" using t run_step.prems by (simp add: len)
      have "tk_proposal (ps_tasks (fst c) ! k) = p" using t k run_step.prems by (simp add: nth len nth_append)
      moreover have "(cs @ [c]) ! (length cs - 1) = last cs" "(cs @ [c]) ! Suc (length cs - 1) = c"
        using nonempty by (simp_all add: nth_append last_conv_nth)
      ultimately show ?thesis using s k nonempty by (intro exI [of _ "length cs - 1"]) auto
    qed
  qed
qed

section \<open>Lemmas behind the properties\<close>

lemma cancel_ok_unique:
  assumes "cancel_ok evs"
  shows "length (filter (\<lambda>e. is_type ACTION_CANCELED e \<and> event_action e = i) evs) \<le> 1"
  using assms
proof (induction evs rule: rev_induct)
  case (snoc e evs)
  have t: "terminal_event i evs \<noteq> None" if "x \<in> set evs" "is_type ACTION_CANCELED x" "event_action x = i" for x
    using that by (auto simp: terminal_event_def action_events_def find_None_iff is_terminal_def is_type_def terminal_types_def)
  show ?case
  proof (cases "is_type ACTION_CANCELED e \<and> event_action e = i")
    case True
    with snoc.prems have "terminal_event i evs = None" by (auto simp: cancel_ok_snoc)
    with t have "filter (\<lambda>e. is_type ACTION_CANCELED e \<and> event_action e = i) evs = []"
      by (auto simp: filter_empty_conv)
    with True show ?thesis by simp
  next
    case False
    with snoc show ?thesis by (auto simp: cancel_ok_snoc)
  qed
qed simp

lemma control_replay_seen:
  assumes "e \<in> set evs" "event_action e = i" "event_control e = c"
  shows "\<exists>r. control_replay i c evs = Some r \<and> cr_replayed r"
proof -
  have "filter (\<lambda>e. event_control e = c) (action_events i evs) \<noteq> []"
    using assms by (auto simp: action_events_def filter_empty_conv)
  then show ?thesis by (auto simp: control_replay_def Let_def terminal_receipt_def mk_receipt_def split: option.splits)
qed

text \<open>The whole of a completion, by its three outcomes.\<close>

lemma complete_late:
  assumes "canceled_event (ap_action_id p) (ps_journal st) = Some terminal"
  shows "\<exists>e. is_type ACTION_LATE_RESULT_DISCARDED e \<and> complete_execution env now p req backend st =
    (Inr (mk_result p False ''canceled'' PNone None
       [(''event_id'', PStr (ev_id terminal)), (''late_result_discarded'', PBool True)] None), with_event e st)"
  using assms by (simp add: complete_execution_def comp_simps bindS_def emit_strings Let_def) (metis is_type_emitted)

lemma canceled_event_snoc:
  "\<not> is_terminal e \<Longrightarrow> canceled_event i (evs @ [e]) = canceled_event i evs"
  by (simp add: canceled_event_def terminal_event_snoc)

lemma dispatch_result_journal:
  "\<exists>r' new. dispatch_result env now p w r st = (Inr r', st\<lparr>ps_journal := ps_journal st @ new,
      ps_counter := ps_counter st + length new\<rparr>) \<and> list_all (is_type RUNTIME_RESULT_RECEIVED) new"
proof (cases w)
  case None
  then show ?thesis by (auto simp: dispatch_result_def comp_simps intro!: exI [of _ "[]"])
next
  case (Some x)
  let ?a = "case dict_get (pe_runtimes env) (runtime_id_of p) of None \<Rightarrow> [] | Some i \<Rightarrow> ri_adapter_id i"
  let ?d = "[(''action_id'', PStr (ap_action_id p)), (''ok'', PBool (rt_ok r)),
                 (''error'', opt_str (rt_error r)), (''metadata'', PDict (rt_metadata r))]"
  show ?thesis
  proof (rule emit_event_cases [of ?d env now RUNTIME_RESULT_RECEIVED ?a "if rt_ok r then ''info'' else ''error''"
        "ap_correlation_id p" "Some x" st])
    fix d e
    assume "e = emitted env now RUNTIME_RESULT_RECEIVED ?a d (if rt_ok r then ''info'' else ''error'') (ap_correlation_id p) (Some x) st"
      and "emit_event env now RUNTIME_RESULT_RECEIVED ?a ?d (if rt_ok r then ''info'' else ''error'') (ap_correlation_id p) (Some x) st = (Inr e, with_event e st)"
    then show ?thesis using Some by (intro exI [of _ r] exI [of _ "[e]"]) (simp add: dispatch_result_def with_event_def Let_def)
  next
    assume "emit_event env now RUNTIME_RESULT_RECEIVED ?a ?d (if rt_ok r then ''info'' else ''error'') (ap_correlation_id p) (Some x) st = (Inl Path_Type_Error, st)"
    then show ?thesis using Some by (intro exI [of _ "failed_answer (''TypeError: '' @ pe_json_error env ?d) []"] exI [of _ "[]"])
        (simp add: dispatch_result_def Let_def)
  qed
qed

lemma canceled_event_append:
  "list_all (is_type RUNTIME_RESULT_RECEIVED) new \<Longrightarrow> canceled_event i (evs @ new) = canceled_event i evs"
proof (induction new rule: rev_induct)
  case (snoc e new)
  have "\<not> is_terminal e" using snoc.prems event_value_inject
    by (auto simp: is_terminal_def is_type_def terminal_types_def)
  with snoc canceled_event_snoc [of e i "evs @ new"] show ?case by simp
qed simp

lemma end_task_journal [simp]:
  "ps_journal (finish_task tid st) = ps_journal st" "ps_failures (finish_task tid st) = ps_failures st"
  "ps_store (finish_task tid st) = ps_store st"
  by (simp_all add: finish_task_def set_phase_def Let_def)

lemma task_answer_late:
  assumes "canceled_event (ap_action_id (tk_proposal (ps_tasks st ! tid))) (ps_journal st) = Some terminal"
    and "task_answer env now tid w (Returned r) st = (res, st')"
  shows "\<exists>result new e. res = Inr result \<and> ar_status result = ''canceled'' \<and> \<not> ar_ok result \<and>
    ps_journal st' = ps_journal st @ new @ [e] \<and> list_all (is_type RUNTIME_RESULT_RECEIVED) new \<and>
    is_type ACTION_LATE_RESULT_DISCARDED e \<and> ps_failures st' = ps_failures st"
proof -
  let ?p = "tk_proposal (ps_tasks st ! tid)" and ?req = "tk_requested (ps_tasks st ! tid)"
  obtain r' new where d: "dispatch_result env now ?p w r st = (Inr r', st\<lparr>ps_journal := ps_journal st @ new,
      ps_counter := ps_counter st + length new\<rparr>)" (is "_ = (_, ?st1)") and new: "list_all (is_type RUNTIME_RESULT_RECEIVED) new"
    using dispatch_result_journal by blast
  have "canceled_event (ap_action_id ?p) (ps_journal ?st1) = Some terminal"
    using assms(1) canceled_event_append [OF new] by simp
  from complete_late [OF this, of env now ?req r'] obtain e where e: "is_type ACTION_LATE_RESULT_DISCARDED e"
    "complete_execution env now ?p ?req r' ?st1 = (Inr (mk_result ?p False ''canceled'' PNone None
       [(''event_id'', PStr (ev_id terminal)), (''late_result_discarded'', PBool True)] None), with_event e ?st1)"
    by blast
  from assms(2) e(2) have "res = Inr (mk_result ?p False ''canceled'' PNone None
       [(''event_id'', PStr (ev_id terminal)), (''late_result_discarded'', PBool True)] None)"
    "st' = finish_task tid (with_event e ?st1)"
    by (simp_all add: task_answer_def Let_def end_task_def bindS_Inr [where m = "dispatch_result _ _ _ _ _", OF d])
  then show ?thesis using e(1) new by (auto simp: mk_result_def)
qed

text \<open>The intent piece of a cancellation that is still possible always records an intent.\<close>

definition recorded_intent :: "string \<Rightarrow> event list \<Rightarrow> bool" where
  "recorded_intent i evs = (\<exists>e \<in> set evs. is_type ACTION_CANCEL_INTENT_RECORDED e \<and> event_action e = i)"

lemma cancel_intent_records:
  assumes "terminal_event (cq_action_id q) (ps_journal st) = None"
    and "dict_get (ps_active st) (cq_action_id q) = Some tid" "ap_action_id p = cq_action_id q"
  shows "\<exists>x st' new. cancel_intent env now q reason p tid b st = (Inr x, st') \<and> ps_journal st' = ps_journal st @ new \<and>
    ps_active st' = ps_active st \<and> terminal_event (cq_action_id q) (ps_journal st') = None \<and>
    recorded_intent (cq_action_id q) new"
proof -
  let ?x = "[(''reason'', PStr reason), (''cancel_supported'', PBool b)]" and ?y = "[(''reason'', PStr reason)]"
  obtain d d' where d: "to_json (PDict (control_payload env p q ?x)) = Some (JObj d)"
    and d': "to_json (PDict (control_payload env p q ?y)) = Some (JObj d')"
    by (simp add: control_payload_def)
  let ?e = "emitted env now ACTION_CANCEL_INTENT_RECORDED ''aether.action-control'' d ''info'' (ap_correlation_id p) None st"
  let ?u = "emitted env now ACTION_CANCEL_UNSUPPORTED ''aether.action-control'' d' ''warning'' (ap_correlation_id p)
    (Some (ev_id ?e)) (with_event ?e st)"
  have "event_action ?e = cq_action_id q"
    using control_payload_action(1) [OF d] assms(3) by (simp add: event_action_def)
  moreover have "\<not> is_terminal ?e" "\<not> is_terminal ?u" by (simp_all add: is_terminal_type terminal_types_def)
  moreover have "cancel_intent env now q reason p tid b st = (if b then (Inr (Continue ?e), with_event ?e st)
      else (Inr (Answered (mk_receipt (cq_action_id q) (cq_control_id q) ''unsupported'' (ev_id ?u) False False)),
        with_event ?u (with_event ?e st)))"
    using assms(1,2) by (simp add: cancel_intent_def comp_simps bindS_Inr [where m = "emit_event _ _ _ _ _ _ _ _", OF emit_event_json [OF d]]
        bindS_Inr [where m = "emit_event _ _ _ _ _ _ _ _", OF emit_event_json [OF d']])
  ultimately show ?thesis
    using assms(1) terminal_event_snoc [of "cq_action_id q" "ps_journal st @ [?e]" ?u]
    by (cases b) (auto simp: terminal_event_snoc recorded_intent_def)
qed

lemma cancel_begin_Continue:
  assumes "cancel_begin env q reason st = (Inr (Continue (p, tid)), st')"
  shows "control_proposal env q st = (Inr p, st)" "terminal_event (cq_action_id q) (ps_journal st) = None"
    "dict_get (ps_active st) (cq_action_id q) = Some tid"
proof -
  obtain st1 where c: "control_proposal env q st = (Inr p, st1)"
    and r: "terminal_event (cq_action_id q) (ps_journal st1) = None" "dict_get (ps_active st1) (cq_action_id q) = Some tid"
    using assms unfolding cancel_begin_def
    by (auto simp: comp_simps elim!: bindS_cases split: if_splits option.splits)
  with read_onlyD [OF read_only_control_proposal c]
  show "control_proposal env q st = (Inr p, st)" "terminal_event (cq_action_id q) (ps_journal st) = None"
    "dict_get (ps_active st) (cq_action_id q) = Some tid"
    by simp_all
qed

text \<open>The two other outcomes of a completion.\<close>

abbreviation completed_payload :: "action_proposal \<Rightarrow> runtime_result \<Rightarrow> (string, pyval) dict" where
  "completed_payload p r \<equiv> [(''action_id'', PStr (ap_action_id p)), (''output'', rt_output r), (''metadata'', PDict (rt_metadata r))]"

lemma complete_success:
  assumes "canceled_event (ap_action_id p) (ps_journal st) = None" "rt_ok r"
    and "to_json (PDict (completed_payload p r)) = Some (JObj d)"
  shows "\<exists>e result st'. complete_execution env now p req r st = (Inr result, st') \<and> ar_ok result \<and>
    is_type ACTION_COMPLETED e \<and> event_action e = ap_action_id p \<and> ps_journal st' = ps_journal st @ [e] \<and>
    ps_failures st' = resolve_signature (pe_sha env) now p (ostr_or (ap_retry_reason p) ''execution succeeded'') (ps_failures st)"
proof -
  let ?st = "st\<lparr>ps_failures := resolve_signature (pe_sha env) now p (ostr_or (ap_retry_reason p) ''execution succeeded'') (ps_failures st)\<rparr>"
  let ?e = "emitted env now ACTION_COMPLETED ''aether.action-path'' d ''info'' (ap_correlation_id p) (Some req) ?st"
  have a: "event_action ?e = ap_action_id p"
    using payload_str(2) [OF assms(3), of "''action_id''"] by (simp add: event_action_def)
  show ?thesis
    using assms a by (intro exI [of _ ?e])
      (simp add: complete_execution_def comp_simps mk_result_def
        bindS_Inr [where m = "emit_event _ _ _ _ _ _ _ _", OF emit_event_json [OF assms(3)]] del: to_json.simps)
qed

lemma complete_failure:
  assumes "canceled_event (ap_action_id p) (ps_journal st) = None" "\<not> rt_ok r"
  shows "\<exists>e f result ty er fp rows st'. complete_execution env now p req r st = (Inr result, st') \<and> \<not> ar_ok result \<and>
    is_type ACTION_FAILED e \<and> is_type FAILURE_DETECTED f \<and> event_action e = ap_action_id p \<and>
    ps_journal st' = ps_journal st @ [e, f] \<and> ar_failure_fingerprint result = Some fp \<and>
    record_failure (pe_sha env) now p ty er (ps_failures st) = (fp, rows) \<and> ps_failures st' = rows"
proof -
  let ?er = "ostr_or (rt_error r) ''Action backend returned failure''"
  let ?ty = "pv_get_or (rt_metadata r) ''error_type'' ''BackendFailure''"
  obtain fp rows where rec: "record_failure (pe_sha env) now p ?ty ?er (ps_failures st) = (fp, rows)" by (metis surj_pair)
  let ?st = "st\<lparr>ps_failures := rows\<rparr>"
  let ?d = "[(''action_id'', JStr (ap_action_id p)), (''error'', JStr ?er), (''failure_fingerprint'', JStr fp)]"
  let ?e = "emitted env now ACTION_FAILED ''aether.action-path'' ?d ''error'' (ap_correlation_id p) (Some req) ?st"
  let ?f = "emitted env now FAILURE_DETECTED ''aether.action-path''
    [(''action_id'', JStr (ap_action_id p)), (''failure_fingerprint'', JStr fp), (''operation'', JStr (ap_operation p))]
    ''warning'' (ap_correlation_id p) (Some (ev_id ?e)) (with_event ?e ?st)"
  have a: "event_action ?e = ap_action_id p"
    by (simp add: event_action_def get_or_def Let_def json_get_norm_dict) (simp add: json_get_def)
  have "complete_execution env now p req r st = (Inr (mk_result p False ''failed'' PNone (Some ?er) (rt_metadata r) (Some fp)),
      with_event ?f (with_event ?e ?st))"
    using assms rec by (simp add: complete_execution_def comp_simps Let_def bindS_def failure_record_def emit_strings)
  with a rec show ?thesis
    by (intro exI [of _ ?e] exI [of _ ?f]) (auto simp: mk_result_def)
qed

lemma complete_unserialisable:
  assumes "canceled_event (ap_action_id p) (ps_journal st) = None" "rt_ok r"
    and "to_json (PDict (completed_payload p r)) = None"
  shows "complete_execution env now p req r st = (Inl Path_Type_Error,
    st\<lparr>ps_failures := resolve_signature (pe_sha env) now p (ostr_or (ap_retry_reason p) ''execution succeeded'') (ps_failures st)\<rparr>)"
  using assms by (simp add: complete_execution_def comp_simps bindS_def emit_event_def del: to_json.simps)

lemma task_answer_tool:
  "task_answer env now tid None (Returned r) st =
    end_task tid (complete_execution env now (tk_proposal (ps_tasks st ! tid)) (tk_requested (ps_tasks st ! tid)) r) st"
  by (simp add: task_answer_def Let_def dispatch_result_def end_task_def comp_simps)

lemma complete_keeps_tasks:
  assumes "complete_execution env now p req r st = (res, st')"
  shows "ps_tasks st' = ps_tasks st \<and> ps_active st' = ps_active st"
proof -
  have k: "keeps (\<lambda>s. ps_tasks s = ts \<and> ps_active s = ac) (emit_event env now t actor payload sev co ca)" for t actor payload sev co ca ts ac
    unfolding keeps_def
  proof (intro allI impI)
    fix s :: path_state assume "ps_tasks s = ts \<and> ps_active s = ac"
    then show "ps_tasks (snd (emit_event env now t actor payload sev co ca s)) = ts \<and>
        ps_active (snd (emit_event env now t actor payload sev co ca s)) = ac"
      by (cases rule: emit_event_cases [of payload env now t actor sev co ca s]) auto
  qed
  have f: "keeps (\<lambda>s. ps_tasks s = ts \<and> ps_active s = ac) (failure_record env now p ty er)" for ty er ts ac
    by (auto simp: keeps_def failure_record_def split: prod.splits)
  have "keeps (\<lambda>s. ps_tasks s = ps_tasks st \<and> ps_active s = ps_active st) (complete_execution env now p req r)"
    unfolding complete_execution_def by (intro keeps_intros k f keeps_modS) simp_all
  from keepsD [OF this _ assms] show ?thesis by simp
qed

section \<open>A sample run\<close>

definition sample_sha :: digest where
  "sample_sha s = s"

definition sample_env :: path_env where
  "sample_env = \<lparr>pe_sha = sample_sha, pe_policy = shipped_policy, pe_hex = (\<lambda>n. pad 16 (int n)), pe_has_tools = True,
     pe_tool_validates = False, pe_tool_cancels = True, pe_runtimes = [], pe_hidden_runtime_ids = [],
     pe_has_store = True, pe_approval_ttl = 900, pe_store_ttl = 900, pe_json_error = (\<lambda>_. ''not serialisable'')\<rparr>"

definition read_proposal :: action_proposal where
  "read_proposal = sample_proposal\<lparr>ap_operation := ''read'', ap_required_scopes := [READ],
     ap_correlation_id := Some ''corr.1''\<rparr>"

lemma read_proposal_review:
  "\<exists>d. governor_review sample_sha shipped_policy 0 ''0000000000000001'' read_proposal None = Inr d \<and> ad_approved d"
proof -
  have "governor_review sample_sha shipped_policy 0 ''0000000000000001'' read_proposal None =
      Inr (approve ''0000000000000001'' ''auto-approved'' [] [])"
    by code_simp
  then show ?thesis by simp
qed

definition sample_event :: event where
  "sample_event = emitted sample_env 0 ACTION_PROPOSED ''aether.action-path''
     [(''target'', JStr ''tool''), (''operation'', JStr ''read''), (''arguments'', JObj [(''path'', JStr ''a'')]),
      (''required_scopes'', JList [JStr ''read'']), (''reason'', JStr ''r''), (''risk'', JStr ''low''),
      (''reversible'', JBool True), (''correlation_id'', JStr ''corr.1''), (''retry_reason'', JNull),
      (''metadata'', JObj [(''session_id'', JStr ''browser:s'')]), (''action_id'', JStr ''act.1'')]
     ''info'' (Some ''corr.1'') None initial_state"

lemma sample_propose:
  "execute_propose sample_env 0 read_proposal initial_state =
    (Inr (read_proposal, sample_event), with_event sample_event initial_state)"
  by (simp add: execute_propose_def comp_simps read_proposal_def sample_proposal_def ostr_or_def str_or_def Let_def
      sample_event_def bindS_def emit_event_json [where d = "[(''target'', JStr ''tool''), (''operation'', JStr ''read''), (''arguments'', JObj [(''path'', JStr ''a'')]),
      (''required_scopes'', JList [JStr ''read'']), (''reason'', JStr ''r''), (''risk'', JStr ''low''),
      (''reversible'', JBool True), (''correlation_id'', JStr ''corr.1''), (''retry_reason'', JNull),
      (''metadata'', JObj [(''session_id'', JStr ''browser:s'')]), (''action_id'', JStr ''act.1'')]"]
      proposed_payload_def opt_str_def)

lemma sample_started:
  obtains st where "execute_govern sample_env 0 read_proposal None sample_event Task_Cancelled
      (with_event sample_event initial_state) = (Inr (Started_Task 0), st)"
    "started_from read_proposal (with_event sample_event initial_state) st" "reachable sample_env (st, [])"
proof -
  let ?st = "with_event sample_event initial_state"
  have hex: "pe_hex sample_env (ps_counter ?st) = ''0000000000000001''"
    by (simp add: sample_env_def initial_state_def) code_simp
  have env: "pe_sha sample_env = sample_sha" "pe_policy sample_env = shipped_policy" "\<not> asks_validator sample_env read_proposal"
    by (simp_all add: sample_env_def asks_validator_def)
  have fs: "open_failures (pe_sha sample_env) read_proposal (ps_failures ?st) = []"
    by (simp add: initial_state_def open_failures_def fp_state_def)
  obtain st where s: "execute_govern sample_env 0 read_proposal None sample_event Task_Cancelled ?st =
      (Inr (Started_Task (length (ps_tasks ?st))), st)" "started_from read_proposal ?st st"
    using execute_govern_starts [OF env(3) fs, of 0 None _ sample_event Task_Cancelled] read_proposal_review
    unfolding env hex by blast
  have "wf_proposal read_proposal" by (simp add: read_proposal_def sample_proposal_def wf_proposal_def)
  from path_step.propose [OF this sample_propose, of "[]" None]
  have "reachable sample_env (?st, [] @ Awaiting_Validation read_proposal None sample_event # [])"
    using reachable.intros by fastforce
  from reachable.step [OF this path_step.govern [OF s(1)]] s show thesis
    by (intro that [of st]) (simp_all add: initial_state_def)
qed

definition control_event :: "event_type \<Rightarrow> event" where
  "control_event ty = \<lparr>ev_type = event_value ty, ev_actor = ''aether.action-control'',
     ev_payload = [(''action_hash'', JStr (canonical_action_hash sample_sha read_proposal)), (''action_id'', JStr ''act.1''),
       (''control_request_id'', JStr ''c1''), (''session_id'', JStr ''s'')],
     ev_severity = ''info'', ev_id = ''evt.c'', ev_timestamp = ''t'', ev_correlation = None, ev_causation = None\<rparr>"

definition sample_control :: control_request where
  "sample_control = \<lparr>cq_action_id = ''act.1'', cq_control_id = ''c1'',
     cq_expected_hash = canonical_action_hash sample_sha read_proposal, cq_session_id = ''s'', cq_principal = ''dee''\<rparr>"

definition sample_task :: task where
  "sample_task = \<lparr>tk_proposal = read_proposal, tk_requested = ''evt.r'', tk_phase = Waiting None, tk_cancel_requested = False\<rparr>"

definition control_state :: "event list \<Rightarrow> path_state" where
  "control_state evs = initial_state\<lparr>ps_journal := sample_event # evs, ps_tasks := [sample_task],
     ps_active := [(''act.1'', 0)], ps_counter := 9\<rparr>"

lemma control_event_fields [simp]:
  "event_action (control_event ty) = ''act.1''" "event_control (control_event ty) = ''c1''"
  "is_type ty' (control_event ty) = (ty' = ty)"
  "get_or (ev_payload (control_event ty)) ''action_hash'' [] = canonical_action_hash sample_sha read_proposal"
  "get_or (ev_payload (control_event ty)) ''session_id'' [] = ''s''"
proof -
  have "canonical_action_hash sample_sha read_proposal \<noteq> []" by code_simp
  then show "get_or (ev_payload (control_event ty)) ''action_hash'' [] = canonical_action_hash sample_sha read_proposal"
    by (simp add: control_event_def get_or_def json_get_def Let_def)
  show "is_type ty' (control_event ty) = (ty' = ty)"
    using event_value_inject by (auto simp: is_type_def control_event_def)
qed (simp_all add: event_action_def event_control_def control_event_def get_or_def json_get_def Let_def)

lemma sample_event_fields:
  "event_action sample_event = ''act.1''" "event_control sample_event = []" "is_type ACTION_PROPOSED sample_event"
  "proposal_from_payload (ev_payload sample_event) = Inr read_proposal"
proof -
  show "is_type ACTION_PROPOSED sample_event" by (simp add: sample_event_def)
  have p: "ev_payload sample_event = [(''action_id'', JStr ''act.1''), (''arguments'', JObj [(''path'', JStr ''a'')]),
      (''correlation_id'', JStr ''corr.1''), (''metadata'', JObj [(''session_id'', JStr ''browser:s'')]),
      (''operation'', JStr ''read''), (''reason'', JStr ''r''), (''required_scopes'', JList [JStr ''read'']),
      (''retry_reason'', JNull), (''reversible'', JBool True), (''risk'', JStr ''low''), (''target'', JStr ''tool'')]"
    unfolding sample_event_def emitted_simps by code_simp
  show "event_action sample_event = ''act.1''" "event_control sample_event = []"
    by (simp_all add: event_action_def event_control_def get_or_def json_get_def Let_def p)
  show "proposal_from_payload (ev_payload sample_event) = Inr read_proposal"
    unfolding p by code_simp
qed

lemma sample_control_proposal:
  "control_proposal sample_env sample_control (control_state (map control_event tys)) =
    (Inr read_proposal, control_state (map control_event tys))"
proof -
  let ?st = "control_state (map control_event tys)" and ?h = "canonical_action_hash sample_sha read_proposal"
  have asc: "ascii_text ?h" "ascii_text ''s''" "ascii_text ''browser:s''" "\<not> blank ''c1''" by code_simp+
  have s: "pv_get_or (ap_metadata read_proposal) ''session_id'' [] = ''browser:s''" by code_simp
  have b: "check_binding sample_control ?h (map control_event tys) st = (Inr (), st)" for st
    by (induction tys) (simp_all add: comp_simps sample_control_def compare_digest_def asc)
  have b': "check_binding sample_control ?h (ps_journal ?st) ?st = (Inr (), ?st)"
    using b by (simp add: control_state_def sample_event_fields) (simp add: sample_control_def)
  have f: "find (is_type ACTION_PROPOSED) (action_events (cq_action_id sample_control) (ps_journal ?st)) = Some sample_event"
    by (simp add: control_state_def action_events_def sample_event_fields sample_control_def)
  have env: "pe_sha sample_env = sample_sha" by (simp add: sample_env_def)
  show ?thesis
    using asc s b' f
    by (simp add: control_proposal_def comp_simps Let_def sample_event_fields env compare_digest_def bindS_def [of "check_binding _ _ _"])
      (simp add: sample_control_def comp_simps)
qed

section \<open>Properties\<close>

text \<open>
  The authority of one call: of its proposal \<open>p\<close> and the approval \<open>a\<close> it was made with, at the
  instant of its review. Without an approval, only a rule of the automatic list gives it.
\<close>

definition call_authority :: "path_env \<Rightarrow> instant \<Rightarrow> action_proposal \<Rightarrow> action_approval option \<Rightarrow> bool" where
  "call_authority env now p a =
     (\<not> blank (ap_reason p) \<and> rr_approved (evaluate (north_star_proposal p a)) \<and>
      (\<exists>allowed. scopes_of (pol_allowed_scopes (pe_policy env)) = Inr allowed \<and> set (ap_required_scopes p) \<subseteq> set allowed) \<and>
      ((\<exists>rule \<in> set (pol_auto_approve (pe_policy env)). \<exists>scopes max_risk.
          scopes_of (rule_scopes rule) = Inr scopes \<and> risk_of (rule_max_risk rule) = Some max_risk \<and>
          rule_matches p rule scopes max_risk) \<or>
       (case a of None \<Rightarrow> False | Some x \<Rightarrow> bound_approval (pe_sha env) now p x)))"

lemma reviewed_call_authority:
  assumes "execute_govern env now p a e v st = (Inr (Started_Task k), st')" "pol_default (pe_policy env) = Some ''deny''"
  shows "call_authority env now p a"
proof -
  obtain hex d where d: "governor_review (pe_sha env) (pe_policy env) now hex p a = Inr d" "ad_approved d"
    using execute_govern_started [OF assms(1)] unfolding may_start_def by blast
  note au = approved_authority [OF d assms(2)]
  show ?thesis unfolding call_authority_def using au by (cases a) simp_all
qed

text \<open>
  C1: In every run of calls, tasks, controls and inbox operations, every task, hence every
  body that can be reached, was started by the review of one waiting call and carries that
  call's proposal. With a default-deny policy this call had a reason and the consent of the
  North Star, its scopes were allowed, and its proposal matches a rule of the automatic list or
  the approval presented with this very call is bound to its exact hash, unexpired at the
  instant of this review, and covers its scopes. A call without an approval runs by a rule only.
\<close>

theorem every_execution_is_authorised:
  assumes "path_run env cs" and "pol_default (pe_policy env) = Some ''deny''" and "k < length (ps_tasks (fst (last cs)))"
  shows "\<exists>i now p a. Suc i < length cs \<and> starts_task env now p a k (cs ! i) (cs ! Suc i) \<and>
    tk_proposal (ps_tasks (fst (last cs)) ! k) = p \<and> call_authority env now p a"
proof -
  obtain i now p a where i: "Suc i < length cs" "starts_task env now p a k (cs ! i) (cs ! Suc i)"
    "tk_proposal (ps_tasks (fst (last cs)) ! k) = p"
    using path_run_task_origin [OF assms(1,3)] by blast
  then obtain e v where "execute_govern env now p a e v (fst (cs ! i)) = (Inr (Started_Task k), fst (cs ! Suc i))"
    unfolding starts_task_def by blast
  from reviewed_call_authority [OF this assms(2)] i show ?thesis by blast
qed

theorem every_execution_is_authorised_witness:
  "\<exists>cs i now a. path_run sample_env cs \<and> length (ps_tasks (fst (last cs))) = 1 \<and>
    starts_task sample_env now read_proposal a 0 (cs ! i) (cs ! Suc i) \<and> call_authority sample_env now read_proposal a"
proof (rule sample_started)
  fix st
  assume st: "started_from read_proposal (with_event sample_event initial_state) st" "reachable sample_env (st, [])"
  then have t: "length (ps_tasks st) = 1" "tk_proposal (ps_tasks st ! 0) = read_proposal"
    by (auto simp: started_from_def new_task_def initial_state_def)
  obtain cs where cs: "path_run sample_env cs" "last cs = (st, [])" using reachable_path_run [OF st(2)] by blast
  have d: "pol_default (pe_policy sample_env) = Some ''deny''" by (simp add: sample_env_def shipped_policy_def)
  have l: "0 < length (ps_tasks (fst (last cs)))" "length (ps_tasks (fst (last cs))) = 1"
    "tk_proposal (ps_tasks (fst (last cs)) ! 0) = read_proposal" using cs(2) t by simp_all
  from every_execution_is_authorised [OF cs(1) d l(1)] show ?thesis using cs(1) l by auto
qed

text \<open>
  A call starts an execution only when the governor approved this proposal, no identical
  failure is open unless the proposal gives a retry reason, and the tool's validator (if there
  is one) accepted it; it then journals the approval and the execution request that it
  causes, adds exactly one new task for this proposal and makes it the active one of its
  action. No other state changes.
\<close>

theorem execution_starts_only_when_allowed:
  assumes "execute_govern env now p a proposed v st = (Inr (Started_Task tid), st')"
  shows "may_start env now p a v st \<and> started_from p st st' \<and> tid = length (ps_tasks st)"
  using assms by (rule execute_govern_started)

theorem execution_starts_only_when_allowed_witness:
  "\<exists>st'. may_start sample_env 0 read_proposal None Task_Cancelled (with_event sample_event initial_state) \<and>
    started_from read_proposal (with_event sample_event initial_state) st'"
proof (rule sample_started)
  fix st
  assume "execute_govern sample_env 0 read_proposal None sample_event Task_Cancelled
      (with_event sample_event initial_state) = (Inr (Started_Task 0), st)"
  from execution_starts_only_when_allowed [OF this] show ?thesis by blast
qed

text \<open>
  A result that arrives after the action was cancelled is discarded: the call returns a
  cancelled result, the journal gains the discard record (and at most the runtime's raw
  receipt) but no completion or failure, and the failure store is untouched.
\<close>

theorem late_result_is_discarded:
  assumes "canceled_event (ap_action_id (tk_proposal (ps_tasks st ! tid))) (ps_journal st) = Some terminal"
    and "task_answer env now tid w (Returned r) st = (res, st')"
  shows "\<exists>result new e. res = Inr result \<and> ar_status result = ''canceled'' \<and> \<not> ar_ok result \<and>
    ps_journal st' = ps_journal st @ new @ [e] \<and> list_all (is_type RUNTIME_RESULT_RECEIVED) new \<and>
    is_type ACTION_LATE_RESULT_DISCARDED e \<and> ps_failures st' = ps_failures st"
  using assms by (rule task_answer_late)

theorem late_result_is_discarded_witness:
  "\<exists>result st'. task_answer sample_env 5 0 None
      (Returned \<lparr>rt_ok = True, rt_output = PStr ''late'', rt_error = None, rt_metadata = []\<rparr>)
      (control_state [control_event ACTION_CANCELED]) = (Inr result, st') \<and> ar_status result = ''canceled'' \<and>
      ps_failures st' = []"
proof -
  let ?st = "control_state [control_event ACTION_CANCELED]"
  let ?a = "Returned \<lparr>rt_ok = True, rt_output = PStr ''late'', rt_error = None, rt_metadata = []\<rparr>"
  obtain res st' where r: "task_answer sample_env 5 0 None ?a ?st = (res, st')" by (metis surj_pair)
  have "is_terminal (control_event ACTION_CANCELED)"
    by (simp add: is_terminal_def terminal_types_def control_event_def)
  then have "canceled_event (ap_action_id (tk_proposal (ps_tasks ?st ! 0))) (ps_journal ?st) = Some (control_event ACTION_CANCELED)"
    by (simp add: canceled_event_def terminal_event_def action_events_def control_state_def sample_task_def
        read_proposal_def sample_proposal_def)
  from late_result_is_discarded [OF this r] r show ?thesis by (auto simp: control_state_def initial_state_def)
qed

text \<open>
  C33: In every interleaving an action is cancelled at most once, and only before any other
  terminal event of it: an \<open>ACTION_CANCELED\<close> event is the first terminal event of its action
  in the journal, even when several cancellations run concurrently.
\<close>

theorem cancellation_is_unique_and_first:
  assumes "reachable env (st, fs)"
  shows "length (filter (\<lambda>e. is_type ACTION_CANCELED e \<and> event_action e = i) (ps_journal st)) \<le> 1 \<and>
    (\<forall>xs e ys. ps_journal st = xs @ e # ys \<longrightarrow> is_type ACTION_CANCELED e \<longrightarrow> terminal_event (event_action e) xs = None)"
proof -
  have "cancel_ok (ps_journal st)" using reachable_ok [OF assms] by (simp add: config_ok_def path_ok_def)
  with cancel_ok_unique show ?thesis unfolding cancel_ok_def by blast
qed

theorem cancellation_is_unique_and_first_witness:
  "\<exists>st. reachable sample_env (st, []) \<and> ps_tasks st \<noteq> [] \<and>
    length (filter (\<lambda>e. is_type ACTION_CANCELED e \<and> event_action e = ''act.1'') (ps_journal st)) \<le> 1"
proof (rule sample_started)
  fix st
  assume st: "started_from read_proposal (with_event sample_event initial_state) st" "reachable sample_env (st, [])"
  then have "ps_tasks st \<noteq> []" by (auto simp: started_from_def)
  with cancellation_is_unique_and_first [OF st(2), of "''act.1''"] st(2) show ?thesis by blast
qed

text \<open>
  Controls are idempotent: once the journal has an event of an action under a control
  identifier, every later cancellation or reconciliation of that action with this
  identifier that is not refused returns the recorded receipt, marked as a replay, and
  changes nothing.
\<close>

theorem control_replay_changes_nothing:
  assumes "e \<in> set (ps_journal st)" and "event_action e = cq_action_id q" and "event_control e = cq_control_id q"
  shows "(\<forall>r st'. reconcile_action env now q observed st = (Inr r, st') \<longrightarrow> st' = st \<and> cr_replayed r) \<and>
    (\<forall>x st'. cancel_begin env q reason st = (Inr x, st') \<longrightarrow> st' = st \<and> (\<exists>r. x = Answered r \<and> cr_replayed r))"
proof -
  obtain r where r: "control_replay (cq_action_id q) (cq_control_id q) (ps_journal st) = Some r" "cr_replayed r"
    using control_replay_seen [OF assms] by blast
  have c: "st1 = st" if "control_proposal env q st = (Inr p, st1)" for p st1
    using read_onlyD [OF read_only_control_proposal that] .
  show ?thesis
  proof (intro conjI allI impI)
    fix x st' assume "reconcile_action env now q observed st = (Inr x, st')"
    then show "st' = st" "cr_replayed x"
      using r c by (auto simp: reconcile_action_def comp_simps elim!: bindS_cases split: if_splits)
  next
    fix x st' assume "cancel_begin env q reason st = (Inr x, st')"
    then show "st' = st" "\<exists>r. x = Answered r \<and> cr_replayed r"
      using r c by (auto simp: cancel_begin_def comp_simps elim!: bindS_cases split: if_splits)
  qed
qed

theorem control_replay_changes_nothing_witness:
  "\<exists>r. reconcile_action sample_env 5 sample_control ''evt.c'' (control_state [control_event ACTION_CANCEL_INTENT_RECORDED])
    = (Inr r, control_state [control_event ACTION_CANCEL_INTENT_RECORDED]) \<and> cr_replayed r"
proof -
  let ?st = "control_state (map control_event [ACTION_CANCEL_INTENT_RECORDED])"
  have e: "control_event ACTION_CANCEL_INTENT_RECORDED \<in> set (ps_journal ?st)" by (simp add: control_state_def)
  have q: "event_action (control_event ACTION_CANCEL_INTENT_RECORDED) = cq_action_id sample_control"
    "event_control (control_event ACTION_CANCEL_INTENT_RECORDED) = cq_control_id sample_control"
    by (simp_all add: sample_control_def)
  have p: "\<not> blank (cq_principal sample_control)" by (simp add: sample_control_def strip_def py_space_def)
  obtain r where "reconcile_action sample_env 5 sample_control ''evt.c'' ?st = (Inr r, ?st)"
    using sample_control_proposal [of "[ACTION_CANCEL_INTENT_RECORDED]"] control_replay_seen [OF e q] p
    by (auto simp: reconcile_action_def bindS_Inr comp_simps)
  with control_replay_changes_nothing [OF e q] show ?thesis by auto
qed

text \<open>
  A control is bound: cancellation or reconciliation goes ahead only when the journal has
  the proposal of that action, its canonical hash is the expected one, its session is the
  caller's browser session, and every earlier event under the same control identifier is of
  the same action, hash and session.
\<close>

theorem control_is_bound:
  assumes "control_proposal env q st = (Inr p, st')"
  shows "st' = st \<and> canonical_action_hash (pe_sha env) p = cq_expected_hash q \<and>
    pv_get_or (ap_metadata p) ''session_id'' [] = ''browser:'' @ cq_session_id q \<and>
    (\<exists>e \<in> set (ps_journal st). is_type ACTION_PROPOSED e \<and> event_action e = cq_action_id q \<and>
      proposal_from_payload (ev_payload e) = Inr p) \<and>
    (\<forall>x \<in> set (ps_journal st). event_control x = cq_control_id q \<longrightarrow> event_action x = cq_action_id q \<and>
      get_or (ev_payload x) ''action_hash'' [] = cq_expected_hash q \<and>
      get_or (ev_payload x) ''session_id'' [] = cq_session_id q)"
proof (rule control_proposal_ok [OF assms], intro conjI)
  show "st' = st" using read_onlyD [OF read_only_control_proposal assms] .
qed auto

theorem control_is_bound_witness:
  "canonical_action_hash (pe_sha sample_env) read_proposal = cq_expected_hash sample_control \<and>
    pv_get_or (ap_metadata read_proposal) ''session_id'' [] = ''browser:'' @ cq_session_id sample_control"
  using control_is_bound [OF sample_control_proposal [of "[]"]] by blast

text \<open>
  The guard against a second cancellation intent does not hold across the await: two
  controls that both pass \<open>cancel_begin\<close> before either asks for support both record an intent,
  so the action has two cancellation intents.
\<close>

theorem concurrent_cancels_record_two_intents:
  assumes "cancel_begin env q reason st = (Inr (Continue (p, tid)), st1)"
    and "cancel_begin env q' reason st1 = (Inr (Continue (p', tid)), st2)"
    and "cq_action_id q = cq_action_id q'" and "proposed_ok (ps_journal st)"
  shows "\<exists>x st3 y st4. cancel_intent env now q reason p tid b st2 = (Inr x, st3) \<and>
    cancel_intent env now q' reason p' tid b st3 = (Inr y, st4) \<and>
    2 \<le> length (filter (\<lambda>e. is_type ACTION_CANCEL_INTENT_RECORDED e \<and> event_action e = cq_action_id q) (ps_journal st4))"
proof -
  note s1 = read_onlyD [OF read_only_cancel_begin assms(1)] and s2 = read_onlyD [OF read_only_cancel_begin assms(2)]
  have c: "ap_action_id p = cq_action_id q" "ap_action_id p' = cq_action_id q"
    "terminal_event (cq_action_id q) (ps_journal st) = None" "dict_get (ps_active st) (cq_action_id q) = Some tid"
    using cancel_begin_Continue [OF assms(1)] cancel_begin_Continue [OF assms(2)] control_action_id assms(3,4) s1
    by auto
  obtain x st3 new where 1: "cancel_intent env now q reason p tid b st2 = (Inr x, st3)"
    "ps_journal st3 = ps_journal st2 @ new" "ps_active st3 = ps_active st2"
    "terminal_event (cq_action_id q) (ps_journal st3) = None" "recorded_intent (cq_action_id q) new"
    using cancel_intent_records [of q st2 tid p env now reason b] c s1 s2 by auto
  obtain y st4 new' where 2: "cancel_intent env now q' reason p' tid b st3 = (Inr y, st4)"
    "ps_journal st4 = ps_journal st3 @ new'" "recorded_intent (cq_action_id q) new'"
    using cancel_intent_records [of q' st3 tid p' env now reason b] c 1 s1 s2 assms(3) by auto
  have "1 \<le> length (filter (\<lambda>e. is_type ACTION_CANCEL_INTENT_RECORDED e \<and> event_action e = i) xs)"
    if "recorded_intent i xs" for i xs
    using that by (auto simp: recorded_intent_def Suc_le_eq filter_empty_conv)
  from this [OF 1(5)] this [OF 2(3)] 1(1,2) 2(1,2) show ?thesis by auto
qed

lemma sample_cancel_begin:
  "c \<noteq> [] \<Longrightarrow> \<not> blank c \<Longrightarrow>
    cancel_begin sample_env (sample_control\<lparr>cq_control_id := c\<rparr>) ''founder-explicit-cancel'' (control_state []) =
    (Inr (Continue (read_proposal, 0)), control_state [])"
proof -
  assume c: "c \<noteq> []" "\<not> blank c"
  let ?q = "sample_control\<lparr>cq_control_id := c\<rparr>" and ?st = "control_state []"
  have asc: "ascii_text (canonical_action_hash sample_sha read_proposal)" "ascii_text ''browser:s''" "\<not> blank ''dee''"
    by code_simp+
  have s: "pv_get_or (ap_metadata read_proposal) ''session_id'' [] = ''browser:s''" by code_simp
  have "\<not> is_terminal sample_event" "is_type ACTION_CANCEL_INTENT_RECORDED sample_event = False"
    by (simp_all add: sample_event_def is_terminal_type terminal_types_def)
  then show ?thesis
    using c asc s sample_event_fields
    by (simp add: cancel_begin_def control_proposal_def comp_simps Let_def control_state_def action_events_def
        sample_control_def compare_digest_def sample_env_def control_replay_def terminal_event_def)
qed

theorem concurrent_cancels_record_two_intents_witness:
  "\<exists>x st3 y st4.
    cancel_intent sample_env 5 (sample_control\<lparr>cq_control_id := ''c1''\<rparr>) ''founder-explicit-cancel'' read_proposal 0 True
      (control_state []) = (Inr x, st3) \<and>
    cancel_intent sample_env 5 (sample_control\<lparr>cq_control_id := ''c2''\<rparr>) ''founder-explicit-cancel'' read_proposal 0 True
      st3 = (Inr y, st4) \<and>
    2 \<le> length (filter (\<lambda>e. is_type ACTION_CANCEL_INTENT_RECORDED e \<and> event_action e = ''act.1'') (ps_journal st4))"
proof -
  have c: "''c1'' \<noteq> []" "\<not> blank ''c1''" "''c2'' \<noteq> []" "\<not> blank ''c2''" by code_simp+
  have "json_get (ev_payload sample_event) ''action_id'' = JStr ''act.1''"
    unfolding sample_event_def emitted_simps by code_simp
  then have "proposed_ok (ps_journal (control_state []))" by (simp add: proposed_ok_def control_state_def)
  from concurrent_cancels_record_two_intents [OF sample_cancel_begin [OF c(1,2)] sample_cancel_begin [OF c(3,4)] _ this]
  show ?thesis by (simp add: sample_control_def)
qed

text \<open>
  What a tool answers becomes evidence: when the action was not cancelled and its output
  and metadata are JSON, the task returns a result with the tool's verdict, the last terminal
  event of the action is its completion or failure, a success leaves no open failure for the
  same action signature, a failure leaves one open under the returned fingerprint, and the
  task is no longer the active one.
\<close>

theorem tool_answer_becomes_evidence:
  assumes "canceled_event (ap_action_id p) (ps_journal st) = None" and "p = tk_proposal (ps_tasks st ! tid)"
    and "to_json (PDict (completed_payload p r)) \<noteq> None" and "ok_rows (ps_failures st)"
    and "task_answer env now tid None (Returned r) st = (res, st')"
  shows "\<exists>result e. res = Inr result \<and> ar_ok result = rt_ok r \<and>
    terminal_event (ap_action_id p) (ps_journal st') = Some e \<and>
    is_type (if rt_ok r then ACTION_COMPLETED else ACTION_FAILED) e \<and>
    (if rt_ok r then open_failures (pe_sha env) p (ps_failures st') = []
     else (\<exists>fp. ar_failure_fingerprint result = Some fp \<and>
       (fp = [] \<or> (\<exists>row \<in> set (open_failures (pe_sha env) p (ps_failures st')). fp_of row = fp)))) \<and>
    dict_get (ps_active st') (ap_action_id p) \<noteq> Some tid"
proof -
  let ?req = "tk_requested (ps_tasks st ! tid)"
  obtain res1 st1 where c: "complete_execution env now p ?req r st = (res1, st1)" by (metis surj_pair)
  have r: "res = res1" "st' = finish_task tid st1"
    using assms(2,5) c by (auto simp: task_answer_tool end_task_def)
  have "dict_get (ps_active st') (ap_action_id p) \<noteq> Some tid"
    using complete_keeps_tasks [OF c] assms(2) r by (auto simp: finish_task_def set_phase_def Let_def)
  moreover have "\<exists>result e. res1 = Inr result \<and> ar_ok result = rt_ok r \<and>
    terminal_event (ap_action_id p) (ps_journal st1) = Some e \<and>
    is_type (if rt_ok r then ACTION_COMPLETED else ACTION_FAILED) e \<and>
    (if rt_ok r then open_failures (pe_sha env) p (ps_failures st1) = []
     else (\<exists>fp. ar_failure_fingerprint result = Some fp \<and>
       (fp = [] \<or> (\<exists>row \<in> set (open_failures (pe_sha env) p (ps_failures st1)). fp_of row = fp))))"
  proof (cases "rt_ok r")
    case True
    obtain d where "to_json (PDict (completed_payload p r)) = Some (JObj d)" using assms(3) to_json_PDict_shape by blast
    from complete_success [OF assms(1) True this, of env now ?req] c True
    show ?thesis using resolve_open_failures [OF assms(4)]
      by (auto simp: terminal_event_snoc is_terminal_def is_type_def terminal_types_def)
  next
    case False
    from complete_failure [OF assms(1) False, of env now ?req] obtain e f result ty er fp rows st2 where
      q: "complete_execution env now p ?req r st = (Inr result, st2)" "\<not> ar_ok result"
      "is_type ACTION_FAILED e" "is_type FAILURE_DETECTED f" "event_action e = ap_action_id p"
      "ps_journal st2 = ps_journal st @ [e, f]" "ar_failure_fingerprint result = Some fp"
      "record_failure (pe_sha env) now p ty er (ps_failures st) = (fp, rows)" "ps_failures st2 = rows" by blast
    have "is_terminal e" "\<not> is_terminal f"
      using q(3,4) by (auto simp: is_terminal_def is_type_def terminal_types_def dest: event_value_inject)
    then have "terminal_event (ap_action_id p) (ps_journal st @ [e, f]) = Some e"
      using q(5) by (simp add: terminal_event_def action_events_def)
    with q c False show ?thesis
      using open_failures_record [of "pe_sha env" p ty er now "ps_failures st" fp rows]
      by (auto simp: record_failure_def)
  qed
  ultimately show ?thesis using r by auto
qed

theorem tool_answer_becomes_evidence_witness:
  "\<exists>result st'. task_answer sample_env 5 0 None
      (Returned \<lparr>rt_ok = False, rt_output = PNone, rt_error = Some ''boom'', rt_metadata = []\<rparr>) (control_state []) = (Inr result, st') \<and>
    (\<exists>e. terminal_event ''act.1'' (ps_journal st') = Some e \<and> is_type ACTION_FAILED e)"
proof -
  let ?st = "control_state []" and ?r = "\<lparr>rt_ok = False, rt_output = PNone, rt_error = Some ''boom'', rt_metadata = []\<rparr>"
  obtain res st' where r: "task_answer sample_env 5 0 None (Returned ?r) ?st = (res, st')" by (metis surj_pair)
  have p: "read_proposal = tk_proposal (ps_tasks ?st ! 0)" "ap_action_id read_proposal = ''act.1''" "ok_rows (ps_failures ?st)"
    by (simp_all add: control_state_def sample_task_def read_proposal_def sample_proposal_def ok_rows_def initial_state_def)
  have "\<not> is_terminal sample_event" by (simp add: sample_event_def is_terminal_type terminal_types_def)
  then have "canceled_event (ap_action_id read_proposal) (ps_journal ?st) = None"
    by (simp add: canceled_event_def terminal_event_def action_events_def control_state_def)
  from tool_answer_becomes_evidence [OF this p(1) _ p(3) r] r p(2) show ?thesis by auto
qed

text \<open>
  An output that is not JSON leaves no evidence: the tool succeeded, but journalling the
  completion raises, so the call ends with an exception, the journal has neither a completion
  nor a failure of it, earlier failures of the signature are marked resolved, and the task is
  no longer active, so it can be neither cancelled nor found complete.
\<close>

theorem unserialisable_output_leaves_no_evidence:
  assumes "canceled_event (ap_action_id p) (ps_journal st) = None" and "p = tk_proposal (ps_tasks st ! tid)"
    and "rt_ok r" and "to_json (rt_output r) = None" and "ok_rows (ps_failures st)"
    and "task_answer env now tid None (Returned r) st = (res, st')"
  shows "res = Inl Path_Type_Error \<and> ps_journal st' = ps_journal st \<and>
    open_failures (pe_sha env) p (ps_failures st') = [] \<and> dict_get (ps_active st') (ap_action_id p) \<noteq> Some tid"
proof -
  have "to_json (PDict (completed_payload p r)) = None" using assms(4) by simp
  note c = complete_unserialisable [OF assms(1,3) this, of env now "tk_requested (ps_tasks st ! tid)"]
  let ?rows = "resolve_signature (pe_sha env) now p (ostr_or (ap_retry_reason p) ''execution succeeded'') (ps_failures st)"
  have r: "res = Inl Path_Type_Error" "st' = finish_task tid (st\<lparr>ps_failures := ?rows\<rparr>)"
    using assms(2,6) c by (simp_all add: task_answer_tool end_task_def)
  have "dict_get (ps_active st') (ap_action_id p) \<noteq> Some tid"
    using assms(2) by (simp add: r(2) finish_task_def set_phase_def Let_def)
  then show ?thesis
    using resolve_open_failures [OF assms(5), of "pe_sha env" p now p] by (simp add: r)
qed

theorem unserialisable_output_leaves_no_evidence_witness:
  "\<exists>st'. task_answer sample_env 5 0 None
      (Returned \<lparr>rt_ok = True, rt_output = POpaque ''<obj>'', rt_error = None, rt_metadata = []\<rparr>) (control_state [])
    = (Inl Path_Type_Error, st') \<and> ps_journal st' = ps_journal (control_state [])"
proof -
  let ?st = "control_state []" and ?r = "\<lparr>rt_ok = True, rt_output = POpaque ''<obj>'', rt_error = None, rt_metadata = []\<rparr>"
  obtain res st' where r: "task_answer sample_env 5 0 None (Returned ?r) ?st = (res, st')" by (metis surj_pair)
  have p: "read_proposal = tk_proposal (ps_tasks ?st ! 0)" "ok_rows (ps_failures ?st)"
    by (simp_all add: control_state_def sample_task_def ok_rows_def initial_state_def)
  have "\<not> is_terminal sample_event" by (simp add: sample_event_def is_terminal_type terminal_types_def)
  then have "canceled_event (ap_action_id read_proposal) (ps_journal ?st) = None"
    by (simp add: canceled_event_def terminal_event_def action_events_def control_state_def)
  from unserialisable_output_leaves_no_evidence [OF this p(1) _ _ p(2) r] r show ?thesis by auto
qed

end
