(* ===== verification/Approval_Inbox.thy ===== *)
theory Approval_Inbox
  imports Action_Path_Safety
begin

text \<open>
  \<open>TrustedApprovalInbox\<close> of \<open>actions/approval.py\<close>: the service that records a trusted decision
  and resumes the approved action exactly once. It shares the store and the journal with the
  action path, so it works on the state of the path. \<open>decide_and_resume\<close> is cut at the await
  of \<open>action_path.execute\<close>: \<open>decide_and_resume\<close> ends with an outcome or with the proposal and
  the trusted approval to execute, \<open>resume_finish\<close> takes the result of that execution.
\<close>

section \<open>Operations\<close>

record approval_outcome =
  ao_pending :: pending_action
  ao_result :: "action_result option"
  ao_replayed :: bool

definition outcome :: "pending_action \<Rightarrow> approval_outcome" where
  "outcome pa = \<lparr>ao_pending = pa, ao_result = None, ao_replayed = False\<rparr>"

definition replayed_outcome :: "pending_action \<Rightarrow> approval_outcome" where
  "replayed_outcome pa = \<lparr>ao_pending = pa, ao_result = pa_result pa, ao_replayed = True\<rparr>"

definition store_read :: "(approval_store \<Rightarrow> approval_error + 'a) \<Rightarrow> 'a path" where
  "store_read f = bindS (getS ps_store) (\<lambda>s. liftE Path_Approval_Error (f s))"

definition inbox_emit :: "path_env \<Rightarrow> instant \<Rightarrow> event_type \<Rightarrow> (string, pyval) dict \<Rightarrow> string \<Rightarrow> pending_action
    \<Rightarrow> event path" where
  "inbox_emit env now t payload severity pa =
     emit_event env now t ''aether.approval-inbox'' payload severity (ap_correlation_id (pa_proposal pa)) None"

fun emit_expired :: "path_env \<Rightarrow> instant \<Rightarrow> pending_action list \<Rightarrow> unit path" where
  "emit_expired env now [] = ret ()"
| "emit_expired env now (pa # pas) =
     bindS (inbox_emit env now APPROVAL_EXPIRED
       [(''approval_id'', PStr (pa_approval_id pa)), (''action_id'', PStr (pa_action_id pa)),
        (''action_hash'', PStr (pa_action_hash pa)), (''expires_at'', PStr (iso (pa_expires_at pa)))]
       ''warning'' pa) (\<lambda>_. emit_expired env now pas)"

definition sweep_expired :: "path_env \<Rightarrow> instant \<Rightarrow> pending_action list path" where
  "sweep_expired env now =
     bindS (store_op_path (expire_due (pe_sha env) now)) (\<lambda>records.
     bindS (emit_expired env now records) (\<lambda>_. ret records))"

definition inbox_list :: "path_env \<Rightarrow> instant \<Rightarrow> string option \<Rightarrow> pending_action list path" where
  "inbox_list env now status =
     bindS (sweep_expired env now) (\<lambda>_. store_read (store_list (pe_sha env) status))"

definition inbox_get :: "path_env \<Rightarrow> instant \<Rightarrow> string \<Rightarrow> pending_action path" where
  "inbox_get env now i = bindS (sweep_expired env now) (\<lambda>_. store_read (store_get (pe_sha env) i))"

text \<open>The call of \<open>store.decide\<close>; \<open>None\<close> when it raised \<open>ApprovalExpired\<close>.\<close>

definition try_decide :: "path_env \<Rightarrow> instant \<Rightarrow> string \<Rightarrow> string \<Rightarrow> bool \<Rightarrow> string \<Rightarrow> string \<Rightarrow> string
    \<Rightarrow> pending_action option path" where
  "try_decide env now hex i approved who reason channel st =
     (case decide (pe_sha env) hex now i approved who reason channel (ps_store st) of
        (Inr pa, s) \<Rightarrow> (Inr (Some pa), st\<lparr>ps_store := s\<rparr>)
      | (Inl (Approval_Expired j), s) \<Rightarrow> (Inr None, st\<lparr>ps_store := s\<rparr>)
      | (Inl e, s) \<Rightarrow> (Inl (Path_Approval_Error e), st\<lparr>ps_store := s\<rparr>))"

datatype resumption = Outcome approval_outcome | Resume pending_action action_approval

definition decided_payload :: "pending_action \<Rightarrow> (string, pyval) dict" where
  "decided_payload pa = [
     (''approval_id'', PStr (pa_approval_id pa)), (''action_id'', PStr (pa_action_id pa)),
     (''action_hash'', PStr (pa_action_hash pa)), (''principal'', opt_str (pa_decided_by pa)),
     (''reason'', opt_str (pa_decision_reason pa)), (''channel'', opt_str (pa_decision_channel pa))]"

text \<open>\<open>str(x)\<close> of an optional text.\<close>

definition none_str :: "string option \<Rightarrow> string" where
  "none_str s = (case s of None \<Rightarrow> ''None'' | Some t \<Rightarrow> t)"

definition trusted_approval :: "pending_action \<Rightarrow> action_approval" where
  "trusted_approval pa = \<lparr>aa_principal = none_str (pa_decided_by pa),
     aa_scopes = ap_required_scopes (pa_proposal pa), aa_reason = none_str (pa_decision_reason pa),
     aa_approval_id = pa_approval_id pa, aa_action_hash = Some (pa_action_hash pa),
     aa_issued_at = pa_decided_at pa, aa_expires_at = Some (pa_expires_at pa),
     aa_channel = pa_decision_channel pa\<rparr>"

text \<open>From the claim to the execution.\<close>

definition claim_and_resume :: "path_env \<Rightarrow> instant \<Rightarrow> string \<Rightarrow> resumption path" where
  "claim_and_resume env now i =
     bindS (store_op_path (claim (pe_sha env) i)) (\<lambda>(claimed, replayed).
     if replayed then ret (Outcome (replayed_outcome claimed))
     else bindS (inbox_emit env now ACTION_RESUME_REQUESTED
       [(''approval_id'', PStr (pa_approval_id claimed)), (''action_id'', PStr (pa_action_id claimed)),
        (''action_hash'', PStr (pa_action_hash claimed)), (''principal'', opt_str (pa_decided_by claimed))]
       ''info'' claimed) (\<lambda>_.
     ret (Resume claimed (trusted_approval claimed))))"

definition act_on_decision :: "path_env \<Rightarrow> instant \<Rightarrow> string \<Rightarrow> bool \<Rightarrow> string \<Rightarrow> pending_action \<Rightarrow> resumption path" where
  "act_on_decision env now i approved who pa =
     (if \<not> approved \<and> pa_status pa \<in> {APPROVED, EXECUTING, CONSUMED} then
        bindS (inbox_emit env now APPROVAL_REPLAY_BLOCKED
          [(''approval_id'', PStr (pa_approval_id pa)), (''action_id'', PStr (pa_action_id pa)),
           (''principal'', PStr who), (''requested_decision'', PStr ''rejected''),
           (''existing_status'', PStr (status_value (pa_status pa)))] ''warning'' pa) (\<lambda>_.
        ret (Outcome (replayed_outcome pa)))
      else if pa_status pa = REJECTED then
        bindS (inbox_emit env now APPROVAL_REJECTED (decided_payload pa) ''warning'' pa) (\<lambda>_. ret (Outcome (outcome pa)))
      else if pa_status pa = EXPIRED then ret (Outcome (outcome pa))
      else if pa_status pa = CONSUMED then
        bindS (inbox_emit env now APPROVAL_REPLAY_BLOCKED
          [(''approval_id'', PStr (pa_approval_id pa)), (''action_id'', PStr (pa_action_id pa)),
           (''principal'', PStr who), (''cached_result'', PBool True)] ''warning'' pa) (\<lambda>_.
        ret (Outcome (replayed_outcome pa)))
      else if pa_status pa \<noteq> APPROVED then
        throw (Path_Approval_Error (Approval_State_Error
          (''Approval cannot resume from state: '' @ status_value (pa_status pa))))
      else bindS (inbox_emit env now APPROVAL_APPROVED (decided_payload pa) ''info'' pa) (\<lambda>_.
        claim_and_resume env now i))"

definition decide_and_resume :: "path_env \<Rightarrow> instant \<Rightarrow> string \<Rightarrow> bool \<Rightarrow> string \<Rightarrow> string \<Rightarrow> string \<Rightarrow> resumption path" where
  "decide_and_resume env now i approved who reason channel =
     bindS (fresh_hex env) (\<lambda>hex.
     bindS (try_decide env now hex i approved who reason channel) (\<lambda>decided.
     case decided of
       None \<Rightarrow>
         bindS (store_read (store_get (pe_sha env) i)) (\<lambda>expired.
         bindS (inbox_emit env now APPROVAL_EXPIRED
           [(''approval_id'', PStr i), (''action_id'', PStr (pa_action_id expired))] ''warning'' expired) (\<lambda>_.
         ret (Outcome (outcome expired))))
     | Some pa \<Rightarrow> act_on_decision env now i approved who pa))"

definition resume_finish :: "path_env \<Rightarrow> instant \<Rightarrow> string \<Rightarrow> action_result \<Rightarrow> approval_outcome path" where
  "resume_finish env now i result =
     bindS (store_op_path (finalize (pe_sha env) now i result)) (\<lambda>finalized.
     bindS (inbox_emit env now APPROVAL_CONSUMED
       [(''approval_id'', PStr (pa_approval_id finalized)), (''action_id'', PStr (pa_action_id finalized)),
        (''action_hash'', PStr (pa_action_hash finalized)), (''result_status'', PStr (ar_status result)),
        (''result_ok'', PBool (ar_ok result))]
       (if ar_ok result then ''info'' else ''error'') finalized) (\<lambda>_.
     ret \<lparr>ao_pending = finalized, ao_result = Some result, ao_replayed = False\<rparr>))"

section \<open>Effects on the store\<close>

text \<open>The inbox's payloads hold texts only, so its events are always written.\<close>

lemma opt_str_json [simp]: "to_json (opt_str s) = Some (json_opt s)"
  by (simp add: opt_str_def json_opt_def split: option.splits)

lemma inbox_emit_returns:
  assumes "to_json (PDict payload) = Some (JObj d)"
  obtains e where "inbox_emit env now t payload severity pa st = (Inr e, with_event e st)"
  using emit_event_json [OF assms] by (auto simp: inbox_emit_def)

lemma emit_expired_store: "\<exists>st'. emit_expired env now pas st = (Inr (), st') \<and> ps_store st' = ps_store st"
proof (induction pas arbitrary: st)
  case (Cons pa pas)
  obtain e where e: "inbox_emit env now APPROVAL_EXPIRED
       [(''approval_id'', PStr (pa_approval_id pa)), (''action_id'', PStr (pa_action_id pa)),
        (''action_hash'', PStr (pa_action_hash pa)), (''expires_at'', PStr (iso (pa_expires_at pa)))]
       ''warning'' pa st = (Inr e, with_event e st)"
    by (rule inbox_emit_returns) auto
  show ?case using Cons.IH [of "with_event e st"] by (simp add: bindS_def e)
qed (simp add: comp_simps)

lemma store_op_path_store: "ps_store (snd (store_op_path f st)) = snd (f (ps_store st))"
  by (simp add: store_op_path_def split: prod.splits sum.splits)

lemma sweep_expired_store: "ps_store (snd (sweep_expired env now st)) = snd (expire_due (pe_sha env) now (ps_store st))"
proof (cases "store_op_path (expire_due (pe_sha env) now) st")
  case (Pair r st1)
  have s: "ps_store st1 = snd (expire_due (pe_sha env) now (ps_store st))"
    using store_op_path_store [of "expire_due (pe_sha env) now" st] by (simp add: Pair)
  show ?thesis
  proof (cases r)
    case (Inr pas)
    obtain st2 where "emit_expired env now pas st1 = (Inr (), st2)" "ps_store st2 = ps_store st1"
      using emit_expired_store by blast
    then show ?thesis using Pair Inr s by (simp add: sweep_expired_def bindS_def ret_def)
  qed (use Pair s in \<open>simp add: sweep_expired_def bindS_def\<close>)
qed

lemma store_read_keeps: "snd (store_read f st) = st"
  by (simp add: store_read_def comp_simps liftE_def split: sum.splits)

lemma inbox_read_store:
  "ps_store (snd (inbox_list env now status st)) = snd (expire_due (pe_sha env) now (ps_store st))"
  "ps_store (snd (inbox_get env now i st)) = snd (expire_due (pe_sha env) now (ps_store st))"
  using sweep_expired_store [of env now st]
  by (auto simp: inbox_list_def inbox_get_def bindS_def store_read_keeps split: prod.splits sum.splits)

lemma emit_then:
  assumes "to_json (PDict payload) = Some (JObj d)"
  shows "\<exists>st'. bindS (inbox_emit env now t payload severity pa) (\<lambda>_. m) st = m st' \<and> ps_store st' = ps_store st"
proof -
  obtain e where "inbox_emit env now t payload severity pa st = (Inr e, with_event e st)"
    using assms by (rule inbox_emit_returns)
  then show ?thesis by (intro exI [of _ "with_event e st"]) (simp add: bindS_def)
qed

lemma claim_and_resume_effect:
  "\<exists>r st'. claim_and_resume env now i st = (r, st') \<and> ps_store st' = snd (claim (pe_sha env) i (ps_store st)) \<and>
    (\<forall>pa a. r = Inr (Resume pa a) \<longleftrightarrow> fst (claim (pe_sha env) i (ps_store st)) = Inr (pa, False) \<and> a = trusted_approval pa)"
proof -
  obtain c s where c: "claim (pe_sha env) i (ps_store st) = (c, s)" by (metis surj_pair)
  let ?st = "st\<lparr>ps_store := s\<rparr>"
  consider (raised) e where "c = Inl e" | (replayed) pa where "c = Inr (pa, True)" | (claimed) pa where "c = Inr (pa, False)"
    by (metis (full_types) surj_pair sum.exhaust)
  then show ?thesis
  proof cases
    case claimed
    have "\<exists>d. to_json (PDict [(''approval_id'', PStr (pa_approval_id pa)), (''action_id'', PStr (pa_action_id pa)),
        (''action_hash'', PStr (pa_action_hash pa)), (''principal'', opt_str (pa_decided_by pa))]) = Some (JObj d)" by simp
    then obtain d where "to_json (PDict [(''approval_id'', PStr (pa_approval_id pa)), (''action_id'', PStr (pa_action_id pa)),
        (''action_hash'', PStr (pa_action_hash pa)), (''principal'', opt_str (pa_decided_by pa))]) = Some (JObj d)" by blast
    from emit_then [OF this, of env now ACTION_RESUME_REQUESTED "''info''" pa "ret (Resume pa (trusted_approval pa))" ?st]
    obtain st' where "claim_and_resume env now i st = (Inr (Resume pa (trusted_approval pa)), st')" "ps_store st' = s"
      using c claimed by (auto simp: claim_and_resume_def bindS_def [of "store_op_path _"] store_op_path_def ret_def)
    then show ?thesis using c claimed by auto
  qed (use c in \<open>auto simp: claim_and_resume_def bindS_def [of "store_op_path _"] store_op_path_def ret_def\<close>)
qed

lemma act_on_decision_claims:
  assumes "approved" "pa_status pa = APPROVED"
  shows "\<exists>st1. act_on_decision env now i approved who pa st = claim_and_resume env now i st1 \<and> ps_store st1 = ps_store st"
proof -
  have "\<exists>d. to_json (PDict (decided_payload pa)) = Some (JObj d)" by (simp add: decided_payload_def)
  then obtain d where "to_json (PDict (decided_payload pa)) = Some (JObj d)" by blast
  from emit_then [OF this] show ?thesis using assms by (simp add: act_on_decision_def)
qed

lemma act_on_decision_other:
  assumes "\<not> (approved \<and> pa_status pa = APPROVED)"
  shows "\<exists>r st'. act_on_decision env now i approved who pa st = (r, st') \<and> ps_store st' = ps_store st \<and>
    (\<nexists>q a. r = Inr (Resume q a))"
proof -
  have e: "\<exists>r st'. bindS (inbox_emit env now t payload severity pa) (\<lambda>_. ret (Outcome x)) st = (r, st') \<and>
      ps_store st' = ps_store st \<and> (\<forall>q a. r \<noteq> Inr (Resume q a))"
    if "\<exists>d. to_json (PDict payload) = Some (JObj d)" for t payload severity x
    using that emit_then [of payload _ env now t severity pa "ret (Outcome x)" st] by (auto simp: ret_def)
  show ?thesis using assms by (auto simp: act_on_decision_def decided_payload_def comp_basic intro!: e)
qed

text \<open>What \<open>decide_and_resume\<close> does to the store, and when it resumes.\<close>

lemma decide_and_resume_effect:
  assumes "decide (pe_sha env) (pe_hex env (ps_counter st)) now i approved who reason channel (ps_store st) = (d, s)"
    and "decide_and_resume env now i approved who reason channel st = (r, st')"
  shows "if approved \<and> (\<exists>pa. d = Inr pa \<and> pa_status pa = APPROVED)
    then ps_store st' = snd (claim (pe_sha env) i s) \<and>
      (\<forall>pa a. r = Inr (Resume pa a) \<longleftrightarrow> fst (claim (pe_sha env) i s) = Inr (pa, False) \<and> a = trusted_approval pa)
    else ps_store st' = s \<and> (\<nexists>pa a. r = Inr (Resume pa a))"
proof (cases d)
  case (Inr pa)
  let ?st = "st\<lparr>ps_counter := Suc (ps_counter st), ps_store := s\<rparr>"
  have *: "act_on_decision env now i approved who pa ?st = (r, st')"
    using assms Inr by (simp add: decide_and_resume_def bindS_def fresh_hex_def try_decide_def)
  show ?thesis
  proof (cases "approved \<and> pa_status pa = APPROVED")
    case True
    then obtain st1 where "claim_and_resume env now i st1 = (r, st')" "ps_store st1 = s"
      using * act_on_decision_claims [of approved pa env now i who ?st] by auto
    with True Inr show ?thesis using claim_and_resume_effect [of env now i st1] by auto
  next
    case False
    with Inr * show ?thesis using act_on_decision_other [of approved pa env now i who ?st] by auto
  qed
next
  case (Inl e)
  then show ?thesis
    using assms
    by (cases e) (auto simp: decide_and_resume_def bindS_def fresh_hex_def try_decide_def store_read_def getS_def liftE_def
      ret_def inbox_emit_def emit_event_json split: sum.splits prod.splits)
qed

section \<open>Sequences of calls\<close>

text \<open>
  The calls that touch the approval store, from the inbox and from the action path, in any
  order. The continuation of \<open>decide_and_resume\<close> after the execution is a call of its own.
\<close>

datatype inbox_op =
    Inbox_Sweep instant
  | Inbox_List instant "string option"
  | Inbox_Get instant string
  | Inbox_Decide instant string bool string string string
  | Inbox_Finish instant string action_result
  | Path_Request instant action_proposal action_decision event
  | Path_Continue string pyval

fun inbox_step :: "path_env \<Rightarrow> inbox_op \<Rightarrow> path_state \<Rightarrow> path_state" where
  "inbox_step env (Inbox_Sweep now) st = snd (sweep_expired env now st)"
| "inbox_step env (Inbox_List now status) st = snd (inbox_list env now status st)"
| "inbox_step env (Inbox_Get now i) st = snd (inbox_get env now i st)"
| "inbox_step env (Inbox_Decide now i approved who reason channel) st =
     snd (decide_and_resume env now i approved who reason channel st)"
| "inbox_step env (Inbox_Finish now i result) st = snd (resume_finish env now i result st)"
| "inbox_step env (Path_Request now p d g) st = snd (request_approval env now p d g st)"
| "inbox_step env (Path_Continue i c) st = snd (path_save_continuation env i c st)"

text \<open>The approval a call hands to the action path for execution.\<close>

definition resumed :: "path_env \<Rightarrow> inbox_op \<Rightarrow> path_state \<Rightarrow> string option" where
  "resumed env op st = (case op of
     Inbox_Decide now i approved who reason channel \<Rightarrow>
       (case fst (decide_and_resume env now i approved who reason channel st) of
          Inr (Resume pa a) \<Rightarrow> Some (pa_approval_id pa) | _ \<Rightarrow> None)
   | _ \<Rightarrow> None)"

fun inbox_op_ok :: "inbox_op \<Rightarrow> bool" where
  "inbox_op_ok (Inbox_Finish now i result) = wf_result result"
| "inbox_op_ok (Path_Request now p d g) = wf_proposal p"
| "inbox_op_ok (Path_Continue i c) = wf_py c"
| "inbox_op_ok op = True"

fun run_inbox :: "path_env \<Rightarrow> inbox_op list \<Rightarrow> path_state \<Rightarrow> path_state" where
  "run_inbox env [] st = st"
| "run_inbox env (op # ops) st = run_inbox env ops (inbox_step env op st)"

fun resumptions :: "path_env \<Rightarrow> string \<Rightarrow> inbox_op list \<Rightarrow> path_state \<Rightarrow> nat" where
  "resumptions env i [] st = 0"
| "resumptions env i (op # ops) st =
     (if resumed env op st = Some i then 1 else 0) + resumptions env i ops (inbox_step env op st)"

text \<open>Every call refines a list of store operations that claims exactly what the call resumes.\<close>

definition refines_store :: "path_env \<Rightarrow> inbox_op \<Rightarrow> path_state \<Rightarrow> store_op list \<Rightarrow> bool" where
  "refines_store env op st sops =
     (list_all wf_op sops \<and>
      ps_store (inbox_step env op st) = run_store (pe_sha env) (pe_store_ttl env) sops (ps_store st) \<and>
      (\<forall>i. claims_in (pe_sha env) (pe_store_ttl env) i sops (ps_store st) = (if resumed env op st = Some i then 1 else 0)))"

lemma row_to_pending_fields:
  "row_to_pending sha row = Inr pa \<Longrightarrow> pa_approval_id pa = pr_approval_id row \<and> pa_status pa = pr_status row \<and>
    pa_action_hash pa = pr_action_hash row \<and> pa_expires_at pa = pr_expires_at row \<and>
    pa_decided_by pa = pr_decided_by row \<and> pa_decision_reason pa = pr_decision_reason row \<and>
    canonical_action_hash sha (pa_proposal pa) = pr_action_hash row"
  by (auto simp: row_to_pending_def bindE_Inr_conv split: if_splits)

lemma store_get_row:
  "store_get sha i s = Inr pa \<Longrightarrow> \<exists>row. find_row i s = Some row \<and> row_to_pending sha row = Inr pa \<and> pr_approval_id row = i"
  by (auto simp: store_get_def split: option.splits dest: find_row_SomeD)

lemma claim_id: "fst (claim sha i s) = Inr (pa, r) \<Longrightarrow> pa_approval_id pa = i"
  by (auto simp: claim_def Let_def bindE_Inr_conv split: option.splits if_splits
      dest!: store_get_row row_to_pending_fields find_row_SomeD)

lemma decide_refines:
  "\<exists>sops. refines_store env (Inbox_Decide now i approved who reason channel) st sops"
proof -
  let ?sha = "pe_sha env" and ?op = "Op_Decide (pe_hex env (ps_counter st)) now i approved who reason channel"
  obtain d s where d: "decide ?sha (pe_hex env (ps_counter st)) now i approved who reason channel (ps_store st) = (d, s)"
    by (metis surj_pair)
  obtain r st' where r: "decide_and_resume env now i approved who reason channel st = (r, st')" by (metis surj_pair)
  have s: "store_step ?sha (pe_store_ttl env) ?op (ps_store st) = s" by (simp add: d)
  note e = decide_and_resume_effect [OF d r]
  show ?thesis
  proof (cases "approved \<and> (\<exists>pa. d = Inr pa \<and> pa_status pa = APPROVED)")
    case True
    then have e: "ps_store st' = snd (claim ?sha i s)"
      "\<And>pa a. r = Inr (Resume pa a) \<longleftrightarrow> fst (claim ?sha i s) = Inr (pa, False) \<and> a = trusted_approval pa"
      using e by simp_all
    have "resumed env (Inbox_Decide now i approved who reason channel) st = Some j \<longleftrightarrow>
        store_claims ?sha (Op_Claim i) s = Some j" for j
      using e(2) claim_id [of ?sha i s]
      by (auto simp: resumed_def store_claims_def r split: sum.splits resumption.splits bool.splits)
    then have "refines_store env (Inbox_Decide now i approved who reason channel) st [?op, Op_Claim i]"
      using e(1) by (simp add: refines_store_def r d) (simp add: store_claims_def)
    then show ?thesis by blast
  next
    case False
    then have "ps_store st' = s" "\<And>pa a. r \<noteq> Inr (Resume pa a)"
      using e unfolding if_not_P [OF False] by blast+
    then have "refines_store env (Inbox_Decide now i approved who reason channel) st [?op]"
      using r d by (auto simp: refines_store_def resumed_def store_claims_def split: sum.splits resumption.splits)
    then show ?thesis by blast
  qed
qed

lemma resume_finish_store:
  "ps_store (snd (resume_finish env now i result st)) = snd (finalize (pe_sha env) now i result (ps_store st))"
proof (cases "store_op_path (finalize (pe_sha env) now i result) st")
  case (Pair r st1)
  have s: "ps_store st1 = snd (finalize (pe_sha env) now i result (ps_store st))"
    using store_op_path_store [of "finalize (pe_sha env) now i result" st] by (simp add: Pair)
  show ?thesis
  proof (cases r)
    case (Inr pa)
    let ?p = "[(''approval_id'', PStr (pa_approval_id pa)), (''action_id'', PStr (pa_action_id pa)),
        (''action_hash'', PStr (pa_action_hash pa)), (''result_status'', PStr (ar_status result)),
        (''result_ok'', PBool (ar_ok result))]"
    have "\<exists>d. to_json (PDict ?p) = Some (JObj d)" by simp
    then obtain d where "to_json (PDict ?p) = Some (JObj d)" by blast
    from emit_then [OF this, of env now APPROVAL_CONSUMED "if ar_ok result then ''info'' else ''error''" pa
        "ret \<lparr>ao_pending = pa, ao_result = Some result, ao_replayed = False\<rparr>" st1]
    show ?thesis using Pair Inr s by (auto simp: resume_finish_def bindS_def [of "store_op_path _"] ret_def)
  qed (use Pair s in \<open>simp add: resume_finish_def bindS_def\<close>)
qed

lemma request_approval_store:
  "ps_store (snd (request_approval env now p d g st)) =
    snd (create_or_get (pe_sha env) (pe_store_ttl env) (pe_hex env (ps_counter st)) now (Some (pe_approval_ttl env)) p
        (Some (pv_get_or (ap_metadata p) ''channel'' ''unknown''))
        (Some (pv_get_or (ap_metadata p) ''user_id'' (pv_get_or (ap_metadata p) ''session_id'' (ap_reason p))))
        (Some (ev_id g)) (ps_store st))"
proof -
  have e: "\<exists>e. emit_event env now APPROVAL_REQUESTED ''aether.action-path'' (requested_payload pa) ''warning'' co ca s
      = (Inr e, with_event e s)" for pa co ca s
    by (rule emit_event_cases [of "requested_payload pa" env now APPROVAL_REQUESTED "''aether.action-path''" "''warning''" co ca s])
      (auto simp: requested_payload_def comp_def)
  let ?f = "create_or_get (pe_sha env) (pe_store_ttl env) (pe_hex env (ps_counter st)) now (Some (pe_approval_ttl env)) p
        (Some (pv_get_or (ap_metadata p) ''channel'' ''unknown''))
        (Some (pv_get_or (ap_metadata p) ''user_id'' (pv_get_or (ap_metadata p) ''session_id'' (ap_reason p))))
        (Some (ev_id g))"
  obtain c s where c: "?f (ps_store st) = (c, s)" by (metis surj_pair)
  let ?st = "st\<lparr>ps_counter := Suc (ps_counter st), ps_store := s\<rparr>"
  show ?thesis
  proof (cases c)
    case (Inr x)
    then obtain pa created where x: "c = Inr (pa, created)" by (cases x) auto
    obtain e where "emit_event env now APPROVAL_REQUESTED ''aether.action-path'' (requested_payload pa) ''warning''
        (ap_correlation_id p) (Some (ev_id g)) ?st = (Inr e, with_event e ?st)"
      using e by blast
    then show ?thesis using c x
      by (cases created) (simp_all add: request_approval_def bindS_def fresh_hex_def store_op_path_def ret_def)
  qed (use c in \<open>simp add: request_approval_def bindS_def fresh_hex_def store_op_path_def\<close>)
qed

lemma inbox_refines:
  assumes "inbox_op_ok op"
  shows "\<exists>sops. refines_store env op st sops"
proof (cases op)
  case (Inbox_Decide now i approved who reason channel)
  then show ?thesis using decide_refines by simp
next
  case (Inbox_Sweep now)
  then have "refines_store env op st [Op_Expire_Due now]"
    by (simp add: refines_store_def resumed_def store_claims_def sweep_expired_store)
  then show ?thesis by blast
next
  case (Inbox_List now x)
  then have "refines_store env op st [Op_Expire_Due now]"
    by (simp add: refines_store_def resumed_def store_claims_def inbox_read_store)
  then show ?thesis by blast
next
  case (Inbox_Get now x)
  then have "refines_store env op st [Op_Expire_Due now]"
    by (simp add: refines_store_def resumed_def store_claims_def inbox_read_store)
  then show ?thesis by blast
next
  case (Inbox_Finish now i result)
  then have "refines_store env op st [Op_Finalize now i result]" using assms
    by (simp add: refines_store_def resumed_def store_claims_def resume_finish_store)
  then show ?thesis by blast
next
  case (Path_Request now p d g)
  then have "refines_store env op st [Op_Create (pe_hex env (ps_counter st)) now (Some (pe_approval_ttl env)) p
        (Some (pv_get_or (ap_metadata p) ''channel'' ''unknown''))
        (Some (pv_get_or (ap_metadata p) ''user_id'' (pv_get_or (ap_metadata p) ''session_id'' (ap_reason p))))
        (Some (ev_id g))]" using assms
    by (simp add: refines_store_def resumed_def store_claims_def request_approval_store)
  then show ?thesis by blast
next
  case (Path_Continue i c)
  then have "refines_store env op st (if pe_has_store env then [Op_Save_Continuation i c] else [])"
    using assms store_op_path_store [of "save_continuation (pe_sha env) i c" st]
    by (auto simp: refines_store_def resumed_def store_claims_def path_save_continuation_def bindS_def comp_basic
        split: prod.splits sum.splits)
  then show ?thesis by blast
qed

lemma run_store_append: "run_store sha dflt (xs @ ys) s = run_store sha dflt ys (run_store sha dflt xs s)"
  by (induction xs arbitrary: s) simp_all

lemma claims_in_append:
  "claims_in sha dflt i (xs @ ys) s = claims_in sha dflt i xs s + claims_in sha dflt i ys (run_store sha dflt xs s)"
  by (induction xs arbitrary: s) simp_all

lemma run_inbox_refines:
  "list_all inbox_op_ok ops \<Longrightarrow> \<exists>sops. list_all wf_op sops \<and>
    ps_store (run_inbox env ops st) = run_store (pe_sha env) (pe_store_ttl env) sops (ps_store st) \<and>
    claims_in (pe_sha env) (pe_store_ttl env) i sops (ps_store st) = resumptions env i ops st"
proof (induction ops arbitrary: st)
  case Nil
  show ?case by (intro exI [of _ "[]"]) simp
next
  case (Cons op ops)
  then obtain xs where xs: "refines_store env op st xs" using inbox_refines [of op env st] by auto
  from Cons obtain ys where ys: "list_all wf_op ys"
    "ps_store (run_inbox env ops (inbox_step env op st)) = run_store (pe_sha env) (pe_store_ttl env) ys (ps_store (inbox_step env op st))"
    "claims_in (pe_sha env) (pe_store_ttl env) i ys (ps_store (inbox_step env op st)) = resumptions env i ops (inbox_step env op st)"
    by fastforce
  show ?case
    using xs ys by (intro exI [of _ "xs @ ys"]) (simp add: refines_store_def run_store_append claims_in_append)
qed

lemma initial_store [simp]: "ps_store initial_state = empty_store"
  by (simp add: initial_state_def)

lemma inbox_inv: "list_all inbox_op_ok ops \<Longrightarrow> store_inv (pe_sha env) (ps_store (run_inbox env ops initial_state))"
  using run_inbox_refines [of ops env initial_state] store.inv_run [OF store_inv_empty]
  by (metis initial_store run_store_run)

section \<open>Properties\<close>

text \<open>
  C2: Exactly-once resumption: over any sequence of inbox and action-path calls on one store,
  an approval is handed to the action path for execution at most once, and once exactly when
  its row has reached the executing or consumed state.
\<close>

theorem resumed_at_most_once:
  assumes "list_all inbox_op_ok ops"
  shows "resumptions env i ops initial_state \<le> 1 \<and>
    (resumptions env i ops initial_state = 1 \<longleftrightarrow>
      row_status (ps_store (run_inbox env ops initial_state)) i \<in> {Some EXECUTING, Some CONSUMED})"
proof -
  obtain sops where r: "list_all wf_op sops"
    "ps_store (run_inbox env ops initial_state) = run_store (pe_sha env) (pe_store_ttl env) sops empty_store"
    "claims_in (pe_sha env) (pe_store_ttl env) i sops empty_store = resumptions env i ops initial_state"
    using run_inbox_refines [OF assms, of env initial_state i] by auto
  have "row_status empty_store i = None" by (simp add: row_status_def find_row_def empty_store_def)
  then show ?thesis
    using r(2,3) store.claim_count_used [OF store_inv_empty r(1), of "pe_sha env" "pe_store_ttl env" i]
    by (simp add: run_store_run claims_in_count store.used_def split: if_splits)
qed

lemma executing_after_resume:
  assumes "list_all inbox_op_ok ops" and "st = run_inbox env ops initial_state"
    and "decide_and_resume env now i approved who reason channel st = (Inr (Resume pa a), st')"
  shows "approved" "row_status (ps_store st') i = Some EXECUTING" "store_get (pe_sha env) i (ps_store st') = Inr pa"
    "a = trusted_approval pa" "store_inv (pe_sha env) (ps_store st')"
proof -
  let ?sha = "pe_sha env"
  have inv: "store_inv ?sha (ps_store st)" using inbox_inv assms(1,2) by simp
  obtain d s where d: "decide ?sha (pe_hex env (ps_counter st)) now i approved who reason channel (ps_store st) = (d, s)"
    by (metis surj_pair)
  have inv': "store_inv ?sha s" using inv_decide [OF inv] d by (metis snd_conv)
  from decide_and_resume_effect [OF d assms(3)]
  have e: "approved" "ps_store st' = snd (claim ?sha i s)" "fst (claim ?sha i s) = Inr (pa, False)" "a = trusted_approval pa"
    by (auto split: if_splits)
  show "approved" "a = trusted_approval pa" using e(1,4) by simp_all
  show "row_status (ps_store st') i = Some EXECUTING"
    using e(2) store_claims_iff(1) [OF inv' e(3)] by (simp add: row_status_claim)
  show "store_get ?sha i (ps_store st') = Inr pa"
    using e(2,3) by (auto simp: claim_def Let_def bindE_Inr_conv split: option.splits if_splits)
  show "store_inv ?sha (ps_store st')" using inv_claim [OF inv'] e(2) by simp
qed

text \<open>
  C3: The approval an execution is resumed with is the recorded decision: the call was an
  approval, the row is now executing, the store holds exactly one immutable record for it
  that approves the very hash of the proposal by the principal named, and the governor finds
  the approval bound to the proposal at every instant before the row expires.
\<close>

theorem resumption_is_bound:
  assumes "list_all inbox_op_ok ops" and "st = run_inbox env ops initial_state"
    and "decide_and_resume env now i approved who reason channel st = (Inr (Resume pa a), st')"
  shows "approved \<and> pa_approval_id pa = i \<and> row_status (ps_store st') i = Some EXECUTING \<and>
    (\<exists>c. records_of i (ps_store st') = [c] \<and> rc_decision c = APPROVED \<and> rc_principal c = aa_principal a \<and>
      rc_action_hash c = canonical_action_hash (pe_sha env) (pa_proposal pa) \<and> rc_decided_at c < pa_expires_at pa) \<and>
    (\<forall>t < pa_expires_at pa. bound_approval (pe_sha env) t (pa_proposal pa) a)"
proof -
  note e = executing_after_resume [OF assms]
  obtain row where row: "find_row i (ps_store st') = Some row" "row_to_pending (pe_sha env) row = Inr pa" "pr_approval_id row = i"
    using store_get_row [OF e(3)] by blast
  have "pr_status row = EXECUTING" using e(2) row(1) by (simp add: row_status_def)
  then obtain c where c: "records_of i (ps_store st') = [c]" "rc_decision c = APPROVED" "rc_action_hash c = pr_action_hash row"
    "pr_decided_by row = Some (rc_principal c)" "rc_decided_at c < pr_expires_at row"
    "pr_decision_reason row = Some (rc_reason c)" "\<not> blank (rc_principal c)" "\<not> blank (rc_reason c)"
    using store_inv_find [OF e(5) row(1)] row(3) by (auto simp: decided_row_def)
  show ?thesis
    using e(1,2,4) c row_to_pending_fields [OF row(2)] row(3)
    by (auto simp: trusted_approval_def none_str_def bound_approval_def)
qed

lemma decide_resumes:
  assumes "store_inv (pe_sha env) (ps_store st)" and "find_row i (ps_store st) = Some row"
    and "pr_status row = PENDING" "now < pr_expires_at row"
    and "\<not> blank who" "\<not> blank reason" "\<not> blank channel"
    and "new_id ''approval-record'' (pe_hex env (ps_counter st)) \<notin> rc_record_id ` set (as_records (ps_store st))"
  shows "\<exists>pa a st'. decide_and_resume env now i True who reason channel st = (Inr (Resume pa a), st')"
proof -
  let ?sha = "pe_sha env"
  obtain d s where d: "decide ?sha (pe_hex env (ps_counter st)) now i True who reason channel (ps_store st) = (d, s)"
    by (metis surj_pair)
  have inv: "store_inv ?sha s" using inv_decide [OF assms(1)] d by (metis snd_conv)
  have ds: "d = store_get ?sha i s" "row_status s i = Some APPROVED"
    using assms d find_row_SomeD [OF assms(2)]
    by (auto simp: decide_def due_def Let_def row_status_def find_row_update)
  then obtain r where "find_row i s = Some r" "pr_status r = APPROVED" by (auto simp: row_status_def)
  then obtain pa where "d = Inr pa" "pa_status pa = APPROVED" using ds inv by (metis store_get_inv)
  moreover obtain q where "fst (claim ?sha i s) = Inr (q, False)" using store_claims_iff(2) [OF inv ds(2)] by blast
  moreover obtain r st' where "decide_and_resume env now i True who reason channel st = (r, st')" by (metis surj_pair)
  ultimately show ?thesis using decide_and_resume_effect [OF d] by auto
qed

lemma resumptions_append:
  "resumptions env i (xs @ ys) st = resumptions env i xs st + resumptions env i ys (run_inbox env xs st)"
  by (induction xs arbitrary: st) simp_all

lemma resumed_id:
  assumes "decide_and_resume env now i approved who reason channel st = (Inr (Resume pa a), st')"
  shows "pa_approval_id pa = i"
proof (cases "decide (pe_sha env) (pe_hex env (ps_counter st)) now i approved who reason channel (ps_store st)")
  case (Pair d s)
  from decide_and_resume_effect [OF Pair assms] show ?thesis by (auto dest: claim_id split: if_splits)
qed

definition sample_inbox_ops :: "inbox_op list" where
  "sample_inbox_ops = [Path_Request 0 sample_proposal (deny [] ''approval-required'' [] []) sample_event]"

definition sample_approval_id :: string where
  "sample_approval_id = new_id ''approval'' (pad 16 0)"

lemma sample_pending:
  "\<exists>row. as_rows (ps_store (run_inbox sample_env sample_inbox_ops initial_state)) = [row] \<and>
    as_records (ps_store (run_inbox sample_env sample_inbox_ops initial_state)) = [] \<and>
    pr_approval_id row = sample_approval_id \<and> pr_status row = PENDING \<and> pr_expires_at row = 900"
  by (simp add: sample_inbox_ops_def request_approval_store create_or_get_def Let_def empty_store_def find_row_def
      new_row_def sample_approval_id_def sample_env_def initial_state_def effective_ttl_def)

lemma sample_resumes:
  "\<exists>pa a st'. decide_and_resume sample_env 10 sample_approval_id True ''dee'' ''ok'' ''aionui''
    (run_inbox sample_env sample_inbox_ops initial_state) = (Inr (Resume pa a), st')"
proof -
  have "list_all inbox_op_ok sample_inbox_ops" by (simp add: sample_inbox_ops_def)
  then have "store_inv (pe_sha sample_env) (ps_store (run_inbox sample_env sample_inbox_ops initial_state))"
    by (rule inbox_inv)
  moreover have "\<not> blank ''dee''" "\<not> blank ''ok''" "\<not> blank ''aionui''" by code_simp+
  moreover obtain row where "as_rows (ps_store (run_inbox sample_env sample_inbox_ops initial_state)) = [row]"
    "as_records (ps_store (run_inbox sample_env sample_inbox_ops initial_state)) = []"
    "pr_approval_id row = sample_approval_id" "pr_status row = PENDING" "pr_expires_at row = 900"
    using sample_pending by blast
  ultimately show ?thesis
    by (intro decide_resumes [where row = row]) (simp_all add: find_row_def)
qed

theorem resumed_at_most_once_witness:
  "resumptions sample_env sample_approval_id
    (sample_inbox_ops @ [Inbox_Decide 10 sample_approval_id True ''dee'' ''ok'' ''aionui'']) initial_state = 1"
proof -
  let ?ops = "sample_inbox_ops @ [Inbox_Decide 10 sample_approval_id True ''dee'' ''ok'' ''aionui'']"
  have "list_all inbox_op_ok ?ops" by (simp add: sample_inbox_ops_def)
  from resumed_at_most_once [OF this, of sample_env sample_approval_id]
  show ?thesis using sample_resumes resumed_id [of sample_env 10 sample_approval_id]
    by (auto simp: resumptions_append resumed_def)
qed

theorem resumption_is_bound_witness:
  "\<exists>pa a st'. decide_and_resume sample_env 10 sample_approval_id True ''dee'' ''ok'' ''aionui''
      (run_inbox sample_env sample_inbox_ops initial_state) = (Inr (Resume pa a), st') \<and>
    row_status (ps_store st') sample_approval_id = Some EXECUTING"
proof -
  have "list_all inbox_op_ok sample_inbox_ops" by (simp add: sample_inbox_ops_def)
  then show ?thesis using sample_resumes resumption_is_bound [OF _ refl] by blast
qed

lemma load_result_dumps:
  assumes "wf_result x"
  shows "load_result (Some (dumps spaced_utf8 (JObj (result_payload x)))) = Inr (Some (stored_result x))"
proof -
  have wf: "wf_json (JObj (result_payload x))" using assms by (rule wf_result_payload)
  show ?thesis
    using dumps_nonempty_json [OF wf] load_obj_dumps [OF wf] result_from_stored [OF norm_dict_json]
    by (simp add: load_result_def ostr_or_def str_or_def lift_contract_def)
qed

lemma row_to_pending_result:
  "row_to_pending sha row = Inr pa \<Longrightarrow> load_result (pr_result_json row) = Inr (pa_result pa)"
  by (auto simp: row_to_pending_def bindE_Inr_conv split: if_splits)

lemma finalize_returns:
  assumes "store_inv sha s" "find_row i s = Some row" "pr_status row = EXECUTING" "wf_result x"
    and "finalize sha now i x s = (r, s')"
  shows "\<exists>pa. r = Inr pa \<and> store_get sha i s' = Inr pa \<and> pa_status pa = CONSUMED \<and>
    pa_result pa = Some (stored_result x) \<and> pa_approval_id pa = i"
proof -
  have ids: "distinct (map pr_approval_id (as_rows s))" using assms(1) by (simp add: store_inv_def)
  note row = find_row_SomeD [OF assms(2)]
  let ?P = "\<lambda>r. pr_approval_id r = i \<and> pr_status r = EXECUTING"
  have "r = row" if "r \<in> set (as_rows s)" "pr_approval_id r = i" for r
    using find_row_member [OF assms(1) that(1)] that(2) assms(2) by simp
  then have "set (filter ?P (as_rows s)) = {row}" using row assms(3) by auto
  moreover have "distinct (filter ?P (as_rows s))" using ids by (simp add: distinct_map)
  ultimately have one: "length (filter ?P (as_rows s)) = 1" using distinct_card by fastforce
  let ?f = "\<lambda>r. r\<lparr>pr_status := CONSUMED, pr_consumed_at := Some now,
      pr_result_json := Some (dumps spaced_utf8 (JObj (result_payload x)))\<rparr>"
  have s': "s' = update_rows ?P ?f s" "r = store_get sha i s'"
    using assms(5) one by (auto simp: finalize_def Let_def)
  have "store_inv sha s'" using inv_finalize [OF assms(1,4)] assms(5) by (metis snd_conv)
  moreover have f: "find_row i s' = Some (?f row)" using s'(1) assms(2,3) row by (simp add: find_row_update)
  ultimately obtain pa where pa: "store_get sha i s' = Inr pa" "row_to_pending sha (?f row) = Inr pa"
    by (rule store_get_inv)
  then show ?thesis
    using s'(2) row_to_pending_fields [OF pa(2)] row_to_pending_result [OF pa(2)] row load_result_dumps [OF assms(4)] by simp
qed

lemma decide_decided:
  assumes "find_row i s = Some row" "pr_status row \<noteq> PENDING" "\<not> blank who" "\<not> blank reason" "\<not> blank channel"
  shows "decide sha hex now i approved who reason channel s = (store_get sha i s, s)"
  using assms by (simp add: decide_def due_def)

lemma act_on_consumed:
  assumes "pa_status pa = CONSUMED"
  shows "\<exists>st'. act_on_decision env now i approved who pa st = (Inr (Outcome (replayed_outcome pa)), st') \<and> ps_store st' = ps_store st"
proof -
  have e: "\<exists>st'. bindS (inbox_emit env now t payload severity pa) (\<lambda>_. ret (Outcome x)) st = (Inr (Outcome x), st') \<and>
      ps_store st' = ps_store st"
    if "\<exists>d. to_json (PDict payload) = Some (JObj d)" for t payload severity x
    using that emit_then [of payload _ env now t severity pa "ret (Outcome x)" st] by (auto simp: ret_def)
  show ?thesis using assms by (auto simp: act_on_decision_def intro!: e)
qed

text \<open>
  Finishing a resumed execution consumes its approval and keeps its result: the outcome
  carries the result, and every later decision on the approval, by whomever and whatever it
  is, is answered with the stored result as a replay and changes nothing in the store.
\<close>

theorem consumed_approval_replays:
  assumes "list_all inbox_op_ok ops" and "st = run_inbox env ops initial_state"
    and "row_status (ps_store st) i = Some EXECUTING" and "wf_result x"
    and "resume_finish env now i x st = (r, st1)"
    and "\<not> blank who" and "\<not> blank reason" and "\<not> blank channel"
    and "decide_and_resume env t i approved who reason channel st1 = (r', st2)"
  shows "(\<exists>out. r = Inr out \<and> ao_result out = Some x \<and> pa_status (ao_pending out) = CONSUMED) \<and>
    (\<exists>out'. r' = Inr (Outcome out') \<and> ao_replayed out' \<and> ao_result out' = Some (stored_result x) \<and>
      ps_store st2 = ps_store st1)"
proof -
  have inv: "store_inv (pe_sha env) (ps_store st)" using inbox_inv assms(1,2) by simp
  obtain row where row: "find_row i (ps_store st) = Some row" "pr_status row = EXECUTING"
    using assms(3) by (auto simp: row_status_def)
  obtain f s where f: "finalize (pe_sha env) now i x (ps_store st) = (f, s)" by (metis surj_pair)
  from finalize_returns [OF inv row assms(4) f] obtain pa where
    pa: "f = Inr pa" "store_get (pe_sha env) i s = Inr pa" "pa_status pa = CONSUMED" "pa_result pa = Some (stored_result x)"
    by blast
  have s: "ps_store st1 = s" using resume_finish_store [of env now i x st] assms(5) f by simp
  let ?p = "[(''approval_id'', PStr (pa_approval_id pa)), (''action_id'', PStr (pa_action_id pa)),
        (''action_hash'', PStr (pa_action_hash pa)), (''result_status'', PStr (ar_status x)), (''result_ok'', PBool (ar_ok x))]"
  have "\<exists>d. to_json (PDict ?p) = Some (JObj d)" by simp
  then obtain d where "to_json (PDict ?p) = Some (JObj d)" by blast
  from emit_then [OF this, of env now APPROVAL_CONSUMED "if ar_ok x then ''info'' else ''error''" pa
      "ret \<lparr>ao_pending = pa, ao_result = Some x, ao_replayed = False\<rparr>" "st\<lparr>ps_store := s\<rparr>"]
  have 1: "r = Inr \<lparr>ao_pending = pa, ao_result = Some x, ao_replayed = False\<rparr>"
    using assms(5) f pa(1) by (auto simp: resume_finish_def bindS_def [of "store_op_path _"] store_op_path_def ret_def)
  obtain row' where "find_row i s = Some row'" "row_to_pending (pe_sha env) row' = Inr pa"
    using store_get_row [OF pa(2)] by blast
  then have "decide (pe_sha env) hex t i approved who reason channel s = (Inr pa, s)" for hex
    using decide_decided [of i s row' who reason channel "pe_sha env" hex t approved] assms(6-8) pa(2,3) row_to_pending_fields by simp
  then have "act_on_decision env t i approved who pa (st1\<lparr>ps_counter := Suc (ps_counter st1), ps_store := s\<rparr>) = (r', st2)"
    using assms(9) s by (simp add: decide_and_resume_def bindS_def fresh_hex_def try_decide_def)
  then have "r' = Inr (Outcome (replayed_outcome pa)) \<and> ps_store st2 = s"
    using act_on_consumed [OF pa(3)] by (metis (no_types, lifting) path_state.select_convs(3) path_state.surjective path_state.update_convs(3) prod.inject)
  then show ?thesis using 1 pa s by (simp add: replayed_outcome_def)
qed

definition sample_result :: action_result where
  "sample_result = \<lparr>ar_action_id = ''act.1'', ar_ok = True, ar_status = ''completed'', ar_output = PStr ''done'', ar_error = None,
     ar_metadata = [], ar_failure_fingerprint = None\<rparr>"

theorem consumed_approval_replays_witness:
  "\<exists>st1 out. inbox_step sample_env (Inbox_Finish 20 sample_approval_id sample_result)
      (run_inbox sample_env (sample_inbox_ops @ [Inbox_Decide 10 sample_approval_id True ''dee'' ''ok'' ''aionui'']) initial_state) = st1 \<and>
    fst (decide_and_resume sample_env 30 sample_approval_id False ''dee'' ''no'' ''aionui'' st1) = Inr (Outcome out) \<and>
    ao_replayed out \<and> ao_result out = Some (stored_result sample_result)"
proof -
  let ?ops = "sample_inbox_ops @ [Inbox_Decide 10 sample_approval_id True ''dee'' ''ok'' ''aionui'']"
  have ok: "list_all inbox_op_ok ?ops" "list_all inbox_op_ok sample_inbox_ops" by (simp_all add: sample_inbox_ops_def)
  let ?st = "run_inbox sample_env ?ops initial_state"
  have a: "run_inbox sample_env (xs @ ys) s = run_inbox sample_env ys (run_inbox sample_env xs s)" for xs ys s
    by (induction xs arbitrary: s) simp_all
  obtain pa a st' where d: "decide_and_resume sample_env 10 sample_approval_id True ''dee'' ''ok'' ''aionui''
    (run_inbox sample_env sample_inbox_ops initial_state) = (Inr (Resume pa a), st')" using sample_resumes by blast
  have ex: "row_status (ps_store ?st) sample_approval_id = Some EXECUTING"
    using executing_after_resume [OF ok(2) refl d] d by (simp add: a)
  have wf: "wf_result sample_result" by (simp add: wf_result_def sample_result_def)
  have b: "\<not> blank ''dee''" "\<not> blank ''no''" "\<not> blank ''aionui''" by code_simp+
  obtain r st1 where f: "resume_finish sample_env 20 sample_approval_id sample_result ?st = (r, st1)" by (metis surj_pair)
  obtain r' st2 where g: "decide_and_resume sample_env 30 sample_approval_id False ''dee'' ''no'' ''aionui'' st1 = (r', st2)"
    by (metis surj_pair)
  from consumed_approval_replays [OF ok(1) refl ex wf f b g] show ?thesis using f g by auto
qed

end
