(* ===== verification/Py_Float.thy ===== *)
theory Py_Float
  imports Complex_Main Aether_Prelude
begin

text \<open>
  Python floats as rational numbers. Sums, products and comparisons of the sources are exact
  here; \<open>round(x, n)\<close> is rounding to the nearest multiple of \<open>10 ^ -n\<close>, ties to the even one.
  Where a float is written into JSON its literal comes from a function argument that stands
  for \<open>float.__repr__\<close>.
\<close>

definition round_half_even :: "rat \<Rightarrow> int" where
  "round_half_even x = (let n = \<lfloor>x\<rfloor>; f = x - of_int n in
     if f < 1 / 2 then n else if 1 / 2 < f then n + 1 else if even n then n else n + 1)"

definition round_to :: "nat \<Rightarrow> rat \<Rightarrow> rat" where
  "round_to n x = of_int (round_half_even (x * 10 ^ n)) / 10 ^ n"

abbreviation round6 :: "rat \<Rightarrow> rat" where
  "round6 \<equiv> round_to 6"

lemma round_half_even_bounds: "\<lfloor>x\<rfloor> \<le> round_half_even x" "round_half_even x \<le> \<lfloor>x\<rfloor> + 1"
  by (simp_all add: round_half_even_def Let_def)

lemma round_half_even_mono:
  assumes "x \<le> y"
  shows "round_half_even x \<le> round_half_even y"
proof (cases "\<lfloor>x\<rfloor> = \<lfloor>y\<rfloor>")
  case True
  then show ?thesis using assms by (simp add: round_half_even_def Let_def)
next
  case False
  then have "\<lfloor>x\<rfloor> + 1 \<le> \<lfloor>y\<rfloor>" using floor_mono [OF assms] by simp
  then show ?thesis using round_half_even_bounds(2) [of x] round_half_even_bounds(1) [of y] by linarith
qed

lemma round_to_mono: "x \<le> y \<Longrightarrow> round_to n x \<le> round_to n y"
  by (simp add: round_to_def divide_right_mono round_half_even_mono mult_right_mono)

lemma round_half_even_of_int [simp]: "round_half_even (of_int i) = i"
  by (simp add: round_half_even_def Let_def)

lemma round_to_of_int [simp]: "round_to n (of_int i) = of_int i"
proof -
  have "of_int i * 10 ^ n = (of_int (i * 10 ^ n) :: rat)" by simp
  then have "round_to n (of_int i) = of_int (i * 10 ^ n) / 10 ^ n"
    unfolding round_to_def by (simp only: round_half_even_of_int)
  then show ?thesis by simp
qed

end
