(* ===== verification/Provider_Resilience.thy ===== *)
theory Provider_Resilience
  imports "HOL-Library.Product_Lexorder" Py_Float Ledger
begin

text \<open>
  \<open>resilience/provider.py\<close>: classification of provider failures, bounded retry delays, request
  and concurrency budgets, the circuit breaker, and the choice of a fallback provider.

  Floats are rational numbers: sums, products and comparisons are exact. \<open>float(2**64 - 1)\<close> is
  the double \<open>2 ^ 64\<close>. Where a float is written into JSON its literal comes from \<open>fr\<close>, which
  stands for \<open>float.__repr__\<close>.
\<close>

section \<open>Failure classification\<close>

datatype provider_error_kind = RATE_LIMIT | QUOTA_EXHAUSTED | SERVER_TRANSIENT | NETWORK_TRANSIENT
  | AUTHENTICATION | INVALID_REQUEST | UNSUPPORTED | UNKNOWN

record provider_error_signal =
  es_status_code :: "int option"
  es_error_code :: string
  es_message :: string
  es_retry_after_seconds :: "rat option"
  es_exception_name :: string

definition quota_markers :: "string list" where
  "quota_markers = [''insufficient_quota'', ''quota_exceeded'', ''quotaexceeded'', ''resource_exhausted'',
     ''billing_hard_limit'', ''billing limit'', ''credit balance'', ''credits exhausted'', ''spend limit'',
     ''daily limit'', ''requests per day'', ''rpd limit'', ''billing quota'']"

definition network_markers :: "string list" where
  "network_markers = [''timeout'', ''timed out'', ''connection'', ''dns'', ''network'', ''socket'']"

definition signal_text :: "provider_error_signal \<Rightarrow> string" where
  "signal_text sig = casefold (join '' '' [es_error_code sig, es_message sig, es_exception_name sig])"

definition classify_provider_error :: "provider_error_signal \<Rightarrow> provider_error_kind" where
  "classify_provider_error sig =
     (let status = es_status_code sig; text = signal_text sig in
      if status = Some 429 then
        (if \<exists>m \<in> set quota_markers. str_in m text then QUOTA_EXHAUSTED else RATE_LIMIT)
      else if status \<in> Some ` {401, 403} then AUTHENTICATION
      else if status \<in> Some ` {400, 409, 413, 415, 422} then INVALID_REQUEST
      else if status \<in> Some ` {404, 405, 410, 501} then UNSUPPORTED
      else if status \<in> Some ` {408, 425, 500, 502, 503, 504} then SERVER_TRANSIENT
      else if status = None \<and> (\<exists>m \<in> set network_markers. str_in m text) then NETWORK_TRANSIENT
      else UNKNOWN)"

definition retryable :: "provider_error_kind \<Rightarrow> bool" where
  "retryable kind = (kind \<in> {RATE_LIMIT, SERVER_TRANSIENT, NETWORK_TRANSIENT})"

definition fallback_eligible_error :: "provider_error_kind \<Rightarrow> bool" where
  "fallback_eligible_error kind =
     (kind \<in> {RATE_LIMIT, QUOTA_EXHAUSTED, SERVER_TRANSIENT, NETWORK_TRANSIENT, AUTHENTICATION, UNSUPPORTED})"

section \<open>Retry policy\<close>

datatype resilience_error = Resilience_Value_Error string | Daily_Budget_Exceeded string
  | Concurrency_Budget_Exceeded string | Resilience_Runtime_Error string

record retry_policy =
  rp_max_attempts :: int
  rp_base_delay_seconds :: rat
  rp_max_delay_seconds :: rat
  rp_max_retry_after_seconds :: rat
  rp_jitter_ratio :: rat

definition default_retry_policy :: retry_policy where
  "default_retry_policy = \<lparr>rp_max_attempts = 4, rp_base_delay_seconds = 1, rp_max_delay_seconds = 30,
     rp_max_retry_after_seconds = 300, rp_jitter_ratio = 1 / 5\<rparr>"

text \<open>\<open>__post_init__\<close>: the policy, or the error its construction raises.\<close>

definition check_retry_policy :: "retry_policy \<Rightarrow> resilience_error + retry_policy" where
  "check_retry_policy p =
     (if rp_max_attempts p < 1 then Inl (Resilience_Value_Error ''max_attempts must be at least 1'')
      else if rp_base_delay_seconds p \<le> 0 \<or> rp_max_delay_seconds p \<le> 0
        then Inl (Resilience_Value_Error ''retry delays must be positive'')
      else if rp_max_retry_after_seconds p < rp_max_delay_seconds p
        then Inl (Resilience_Value_Error ''max_retry_after_seconds must be >= max_delay_seconds'')
      else if \<not> (0 \<le> rp_jitter_ratio p \<and> rp_jitter_ratio p \<le> 1)
        then Inl (Resilience_Value_Error ''jitter_ratio must be within [0, 1]'')
      else Inr p)"

text \<open>The first eight bytes of the digest as an integer, from its hexadecimal text.\<close>

definition digest_prefix :: "string \<Rightarrow> nat" where
  "digest_prefix h = foldl (\<lambda>n c. 16 * n + (case hex_val c of None \<Rightarrow> 0 | Some v \<Rightarrow> v)) 0 (take 16 h)"

definition delay_seconds :: "digest \<Rightarrow> retry_policy \<Rightarrow> int \<Rightarrow> rat option \<Rightarrow> string \<Rightarrow> resilience_error + rat" where
  "delay_seconds sha p attempt retry_after jitter_key =
     (if attempt < 1 then Inl (Resilience_Value_Error ''attempt is 1-based'')
      else (let
          exponential = min (rp_max_delay_seconds p) (rp_base_delay_seconds p * 2 ^ nat (attempt - 1));
          fraction = of_nat (digest_prefix (sha (jitter_key @ '':'' @ int_str attempt))) / 2 ^ 64;
          jitter = exponential * rp_jitter_ratio p * fraction;
          delay = exponential + jitter;
          delay' = (case retry_after of None \<Rightarrow> delay | Some r \<Rightarrow> max delay (max 0 r))
        in Inr (round6 (min delay' (rp_max_retry_after_seconds p)))))"

definition should_retry :: "retry_policy \<Rightarrow> provider_error_kind \<Rightarrow> int \<Rightarrow> bool" where
  "should_retry p kind attempt = (attempt < rp_max_attempts p \<and> retryable kind)"

section \<open>Budgets\<close>

record daily_request_budget =
  dr_limit :: int
  dr_day_key :: string
  dr_consumed :: int

definition check_daily_budget :: "daily_request_budget \<Rightarrow> resilience_error + daily_request_budget" where
  "check_daily_budget b =
     (if dr_limit b < 1 then Inl (Resilience_Value_Error ''daily request limit must be positive'')
      else if dr_consumed b < 0 then Inl (Resilience_Value_Error ''consumed requests cannot be negative'')
      else Inr b)"

definition remaining :: "daily_request_budget \<Rightarrow> int" where
  "remaining b = max 0 (dr_limit b - dr_consumed b)"

definition rollover :: "string \<Rightarrow> daily_request_budget \<Rightarrow> daily_request_budget" where
  "rollover day b = (if day \<noteq> dr_day_key b then b\<lparr>dr_day_key := day, dr_consumed := 0\<rparr> else b)"

definition consume :: "string \<Rightarrow> int \<Rightarrow> daily_request_budget \<Rightarrow> (resilience_error + unit) \<times> daily_request_budget" where
  "consume day count b =
     (if count < 1 then (Inl (Resilience_Value_Error ''count must be positive''), b)
      else (let b' = rollover day b in
        if remaining b' < count
        then (Inl (Daily_Budget_Exceeded (''daily request budget exhausted: requested='' @ int_str count @
               '', remaining='' @ int_str (remaining b'))), b')
        else (Inr (), b'\<lparr>dr_consumed := dr_consumed b' + count\<rparr>)))"

record concurrency_budget =
  cb_limit :: int
  cb_in_flight :: int

definition check_concurrency_budget :: "concurrency_budget \<Rightarrow> resilience_error + concurrency_budget" where
  "check_concurrency_budget b =
     (if cb_limit b < 1 then Inl (Resilience_Value_Error ''concurrency limit must be positive'')
      else if cb_in_flight b < 0 then Inl (Resilience_Value_Error ''in_flight cannot be negative'')
      else Inr b)"

definition available :: "concurrency_budget \<Rightarrow> int" where
  "available b = max 0 (cb_limit b - cb_in_flight b)"

definition acquire :: "concurrency_budget \<Rightarrow> (resilience_error + unit) \<times> concurrency_budget" where
  "acquire b =
     (if cb_limit b \<le> cb_in_flight b
      then (Inl (Concurrency_Budget_Exceeded (''concurrency budget exhausted: in_flight='' @ int_str (cb_in_flight b) @
             '', limit='' @ int_str (cb_limit b))), b)
      else (Inr (), b\<lparr>cb_in_flight := cb_in_flight b + 1\<rparr>))"

definition release :: "concurrency_budget \<Rightarrow> (resilience_error + unit) \<times> concurrency_budget" where
  "release b =
     (if cb_in_flight b \<le> 0 then (Inl (Resilience_Runtime_Error ''cannot release an empty concurrency budget''), b)
      else (Inr (), b\<lparr>cb_in_flight := cb_in_flight b - 1\<rparr>))"

section \<open>Circuit breaker\<close>

datatype circuit_state = CLOSED | OPEN | HALF_OPEN

primrec circuit_value :: "circuit_state \<Rightarrow> string" where
  "circuit_value CLOSED = ''closed''"
| "circuit_value OPEN = ''open''"
| "circuit_value HALF_OPEN = ''half_open''"

record circuit_breaker =
  cc_failure_threshold :: int
  cc_cooldown_seconds :: rat
  cc_state :: circuit_state
  cc_consecutive_failures :: int
  cc_opened_at :: "rat option"
  cc_half_open_probe_in_flight :: bool

definition check_circuit_breaker :: "circuit_breaker \<Rightarrow> resilience_error + circuit_breaker" where
  "check_circuit_breaker b =
     (if cc_failure_threshold b < 1 then Inl (Resilience_Value_Error ''failure_threshold must be positive'')
      else if cc_cooldown_seconds b \<le> 0 then Inl (Resilience_Value_Error ''cooldown_seconds must be positive'')
      else Inr b)"

definition allow_request :: "rat \<Rightarrow> circuit_breaker \<Rightarrow> bool \<times> circuit_breaker" where
  "allow_request now b =
     (let probe = (\<lambda>b. if cc_half_open_probe_in_flight b then (False, b)
                       else (True, b\<lparr>cc_half_open_probe_in_flight := True\<rparr>)) in
      case cc_state b of
        CLOSED \<Rightarrow> (True, b)
      | OPEN \<Rightarrow>
          if (case cc_opened_at b of None \<Rightarrow> True | Some t \<Rightarrow> now - t < cc_cooldown_seconds b) then (False, b)
          else probe (b\<lparr>cc_state := HALF_OPEN, cc_half_open_probe_in_flight := False\<rparr>)
      | HALF_OPEN \<Rightarrow> probe b)"

definition breaker_success :: "circuit_breaker \<Rightarrow> circuit_breaker" where
  "breaker_success b = b\<lparr>cc_state := CLOSED, cc_consecutive_failures := 0, cc_opened_at := None,
     cc_half_open_probe_in_flight := False\<rparr>"

definition breaker_failure :: "provider_error_kind \<Rightarrow> rat \<Rightarrow> circuit_breaker \<Rightarrow> circuit_breaker" where
  "breaker_failure kind now b =
     (let b1 = b\<lparr>cc_half_open_probe_in_flight := False\<rparr> in
      if kind \<in> {INVALID_REQUEST, UNKNOWN} then b1
      else (let b2 = b1\<lparr>cc_consecutive_failures := cc_consecutive_failures b1 + 1\<rparr> in
        if cc_state b2 = HALF_OPEN \<or> cc_failure_threshold b2 \<le> cc_consecutive_failures b2
        then b2\<lparr>cc_state := OPEN, cc_opened_at := Some now\<rparr> else b2))"

record circuit_breaker_receipt =
  cr_provider_id :: string
  cr_state :: circuit_state
  cr_consecutive_failures :: int
  cr_opened_at :: "rat option"
  cr_observed_at :: rat
  cr_cooldown_seconds :: rat
  cr_reason :: string
  cr_receipt_id :: string

definition build_receipt :: "digest \<Rightarrow> (rat \<Rightarrow> string) \<Rightarrow> string \<Rightarrow> circuit_state \<Rightarrow> int \<Rightarrow> rat option \<Rightarrow> rat \<Rightarrow> rat
    \<Rightarrow> string \<Rightarrow> circuit_breaker_receipt" where
  "build_receipt sha fr provider_id state failures opened_at observed_at cooldown reason =
     (let payload = [
        (''schema'', JStr ''aether.provider-circuit-receipt.v1''), (''provider_id'', JStr provider_id),
        (''state'', JStr (circuit_value state)), (''consecutive_failures'', JInt failures),
        (''opened_at'', case opened_at of None \<Rightarrow> JNull | Some t \<Rightarrow> JFloat (fr t)),
        (''observed_at'', JFloat (fr observed_at)), (''cooldown_seconds'', JFloat (fr cooldown)),
        (''reason'', JStr reason)]
      in \<lparr>cr_provider_id = provider_id, cr_state = state, cr_consecutive_failures = failures,
          cr_opened_at = opened_at, cr_observed_at = observed_at, cr_cooldown_seconds = cooldown,
          cr_reason = reason, cr_receipt_id = sha (dumps compact_ascii (JObj payload))\<rparr>)"

definition breaker_receipt :: "digest \<Rightarrow> (rat \<Rightarrow> string) \<Rightarrow> string \<Rightarrow> rat \<Rightarrow> string \<Rightarrow> circuit_breaker
    \<Rightarrow> circuit_breaker_receipt" where
  "breaker_receipt sha fr provider_id observed_at reason b =
     build_receipt sha fr provider_id (cc_state b) (cc_consecutive_failures b) (cc_opened_at b) observed_at
       (cc_cooldown_seconds b) reason"

section \<open>Fallback selection\<close>

record provider_candidate =
  pc_provider_id :: string
  pc_priority :: int
  pc_capabilities :: "string list"
  pc_healthy :: bool
  pc_enabled :: bool
  pc_daily_budget_remaining :: int
  pc_concurrency_available :: int
  pc_circuit_state :: circuit_state
  pc_cooldown_until :: "rat option"
  pc_data_policy_tags :: "string list"

definition sorted_diff :: "string list \<Rightarrow> string list \<Rightarrow> string list" where
  "sorted_diff xs ys = sort (remdups (filter (\<lambda>x. x \<notin> set ys) xs))"

definition ineligibility_reasons :: "string list \<Rightarrow> string list \<Rightarrow> rat \<Rightarrow> provider_candidate \<Rightarrow> string list" where
  "ineligibility_reasons required allowed now c =
     (if pc_enabled c then [] else [''disabled'']) @
     (if pc_healthy c then [] else [''unhealthy'']) @
     (let missing = sorted_diff required (pc_capabilities c) in
      if missing = [] then [] else [''missing_capabilities:'' @ join '','' missing]) @
     (if pc_daily_budget_remaining c \<le> 0 then [''daily_budget_exhausted''] else []) @
     (if pc_concurrency_available c \<le> 0 then [''concurrency_exhausted''] else []) @
     (if pc_circuit_state c = OPEN then [''circuit_open''] else []) @
     (case pc_cooldown_until c of None \<Rightarrow> [] | Some t \<Rightarrow> if now < t then [''cooldown_active''] else []) @
     (let disallowed = sorted_diff (pc_data_policy_tags c) allowed in
      if disallowed = [] then [] else [''data_policy_disallowed:'' @ join '','' disallowed])"

record fallback_evaluation =
  fe_provider_id :: string
  fe_eligible :: bool
  fe_reasons :: "string list"

record fallback_decision =
  fd_selected_provider_id :: "string option"
  fd_evaluations :: "fallback_evaluation list"
  fd_decision_id :: string

definition candidate_key :: "provider_candidate \<Rightarrow> int \<times> string" where
  "candidate_key c = (pc_priority c, pc_provider_id c)"

definition evaluate_candidate :: "string list \<Rightarrow> string list \<Rightarrow> rat \<Rightarrow> provider_candidate \<Rightarrow> fallback_evaluation" where
  "evaluate_candidate required allowed now c =
     (let reasons = ineligibility_reasons required allowed now c in
      \<lparr>fe_provider_id = pc_provider_id c, fe_eligible = (reasons = []), fe_reasons = reasons\<rparr>)"

definition evaluations_json :: "fallback_evaluation list \<Rightarrow> json" where
  "evaluations_json es = JList (map (\<lambda>e. JObj [(''provider_id'', JStr (fe_provider_id e)),
     (''eligible'', JBool (fe_eligible e)), (''reasons'', JList (map JStr (fe_reasons e)))]) es)"

definition select_fallback :: "digest \<Rightarrow> provider_candidate list \<Rightarrow> string list \<Rightarrow> string list \<Rightarrow> rat \<Rightarrow> fallback_decision" where
  "select_fallback sha candidates required allowed now =
     (let evaluations = map (evaluate_candidate required allowed now) (sort_key candidate_key candidates);
          selected = map_option fe_provider_id (find fe_eligible evaluations);
          payload = [(''schema'', JStr ''aether.provider-fallback-decision.v1''),
            (''selected_provider_id'', json_opt selected), (''evaluations'', evaluations_json evaluations)]
      in \<lparr>fd_selected_provider_id = selected, fd_evaluations = evaluations,
          fd_decision_id = sha (dumps compact_ascii (JObj payload))\<rparr>)"

section \<open>Lemmas\<close>

lemma hex_val_bound: "hex_val c = Some v \<Longrightarrow> v < 16"
  by (auto simp: hex_val_def Let_def split: if_splits)

lemma digest_prefix_fold:
  "foldl (\<lambda>n c. 16 * n + (case hex_val c of None \<Rightarrow> 0 | Some v \<Rightarrow> v)) m cs < (m + 1) * 16 ^ length cs"
proof (induction cs arbitrary: m)
  case (Cons c cs)
  let ?m = "16 * m + (case hex_val c of None \<Rightarrow> 0 | Some v \<Rightarrow> v)"
  have "?m + 1 \<le> 16 * (m + 1)" using hex_val_bound [of c] by (cases "hex_val c") auto
  then have "(?m + 1) * 16 ^ length cs \<le> 16 * (m + 1) * 16 ^ length cs" by (rule mult_right_mono) simp
  also have "\<dots> = (m + 1) * 16 ^ length (c # cs)" by (simp add: distrib_right)
  finally have "(?m + 1) * 16 ^ length cs \<le> (m + 1) * 16 ^ length (c # cs)" .
  with Cons.IH [of ?m] show ?case unfolding foldl_Cons by (rule order_less_le_trans)
qed simp

lemma digest_prefix_bound: "digest_prefix h < 2 ^ 64"
proof -
  have "digest_prefix h < 16 ^ length (take 16 h)" using digest_prefix_fold [of 0 "take 16 h"] by (simp add: digest_prefix_def)
  also have "\<dots> \<le> 16 ^ 16" by (rule power_increasing) simp_all
  finally show ?thesis by simp
qed

lemma sorted_diff_empty: "sorted_diff xs ys = [] \<longleftrightarrow> set xs \<subseteq> set ys"
proof -
  have "sorted_diff xs ys = [] \<longleftrightarrow> set (sorted_diff xs ys) = {}" by simp
  also have "\<dots> \<longleftrightarrow> set xs \<subseteq> set ys" by (auto simp: sorted_diff_def)
  finally show ?thesis .
qed

text \<open>What it means for a provider to be eligible.\<close>

definition usable :: "string list \<Rightarrow> string list \<Rightarrow> rat \<Rightarrow> provider_candidate \<Rightarrow> bool" where
  "usable required allowed now c =
     (pc_enabled c \<and> pc_healthy c \<and> set required \<subseteq> set (pc_capabilities c) \<and> 0 < pc_daily_budget_remaining c \<and>
      0 < pc_concurrency_available c \<and> pc_circuit_state c \<noteq> OPEN \<and>
      (\<forall>t. pc_cooldown_until c = Some t \<longrightarrow> t \<le> now) \<and> set (pc_data_policy_tags c) \<subseteq> set allowed)"

lemma ineligibility_reasons_empty: "ineligibility_reasons required allowed now c = [] \<longleftrightarrow> usable required allowed now c"
  by (auto simp: ineligibility_reasons_def usable_def Let_def sorted_diff_empty split: option.splits)

section \<open>Properties\<close>

text \<open>
  Retry delays are bounded: for a policy its constructor accepts and an attempt from 1 on,
  the delay is at least the (capped) exponential delay, at least the server's retry-after
  within the policy's maximum, at most that maximum, and without a retry-after at most the
  exponential delay enlarged by the jitter ratio, each rounded to microseconds.
\<close>

theorem retry_delay_bounds:
  assumes "check_retry_policy p = Inr p" and "1 \<le> attempt"
    and "e = min (rp_max_delay_seconds p) (rp_base_delay_seconds p * 2 ^ nat (attempt - 1))"
  shows "\<exists>d. delay_seconds sha p attempt retry_after key = Inr d \<and> round6 e \<le> d \<and>
    d \<le> round6 (rp_max_retry_after_seconds p) \<and>
    (case retry_after of None \<Rightarrow> d \<le> round6 (e * (1 + rp_jitter_ratio p))
      | Some r \<Rightarrow> round6 (min r (rp_max_retry_after_seconds p)) \<le> d)"
proof -
  have p: "0 < rp_base_delay_seconds p" "0 < rp_max_delay_seconds p" "rp_max_delay_seconds p \<le> rp_max_retry_after_seconds p"
    "0 \<le> rp_jitter_ratio p" "rp_jitter_ratio p \<le> 1"
    using assms(1) by (auto simp: check_retry_policy_def split: if_splits)
  define f :: rat where "f = of_nat (digest_prefix (sha (key @ '':'' @ int_str attempt))) / 2 ^ 64"
  have f: "0 \<le> f" "f \<le> 1"
    using digest_prefix_bound [of "sha (key @ '':'' @ int_str attempt)"]
    by (simp_all add: f_def divide_le_eq_1 flip: of_nat_power_eq_of_nat_cancel_iff)
  have e: "0 < e" "e \<le> rp_max_retry_after_seconds p" using p assms(3) by auto
  have j: "0 \<le> e * rp_jitter_ratio p * f" "e * rp_jitter_ratio p * f \<le> e * rp_jitter_ratio p"
    using e p f by (simp_all add: mult_left_le)
  define d0 where "d0 = e + e * rp_jitter_ratio p * f"
  have d0: "e \<le> d0" "d0 \<le> e * (1 + rp_jitter_ratio p)" using j by (simp_all add: d0_def distrib_left)
  define d1 where "d1 = (case retry_after of None \<Rightarrow> d0 | Some r \<Rightarrow> max d0 (max 0 r))"
  have d1: "e \<le> d1" using d0(1) by (simp add: d1_def le_max_iff_disj split: option.split)
  have eq: "delay_seconds sha p attempt retry_after key = Inr (round6 (min d1 (rp_max_retry_after_seconds p)))"
    using assms(2) unfolding delay_seconds_def Let_def d1_def d0_def f_def assms(3) by simp
  have "case retry_after of None \<Rightarrow> round6 (min d1 (rp_max_retry_after_seconds p)) \<le> round6 (e * (1 + rp_jitter_ratio p))
      | Some r \<Rightarrow> round6 (min r (rp_max_retry_after_seconds p)) \<le> round6 (min d1 (rp_max_retry_after_seconds p))"
  proof (cases retry_after)
    case None
    then show ?thesis using d0(2) by (simp add: d1_def min.coboundedI1 round_to_mono)
  next
    case (Some r)
    have "min r (rp_max_retry_after_seconds p) \<le> min (max d0 (max 0 r)) (rp_max_retry_after_seconds p)"
      by (rule min.mono) simp_all
    with Some show ?thesis by (simp add: d1_def round_to_mono)
  qed
  then show ?thesis using eq d1 e(2) by (auto intro!: round_to_mono)
qed

theorem retry_delay_bounds_witness:
  "\<exists>d. delay_seconds (\<lambda>_. ''ffff'') default_retry_policy 3 (Some 120) ''k'' = Inr d \<and> 120 \<le> d \<and> d \<le> 300"
proof -
  have ok: "check_retry_policy default_retry_policy = Inr default_retry_policy"
    by (simp add: check_retry_policy_def default_retry_policy_def)
  have r: "round6 (min 120 (rp_max_retry_after_seconds default_retry_policy)) = 120"
    "round6 (rp_max_retry_after_seconds default_retry_policy) = 300"
    using round_to_of_int [of 6 120] round_to_of_int [of 6 300] by (simp_all add: default_retry_policy_def)
  show ?thesis
    using retry_delay_bounds [OF ok _ refl, of 3 "\<lambda>_. ''ffff''" "Some 120" "''k''"] r by auto
qed

text \<open>The answers to a series of requests that arrive while no result is recorded.\<close>

fun allow_requests :: "rat list \<Rightarrow> circuit_breaker \<Rightarrow> (rat \<times> bool) list" where
  "allow_requests [] b = []"
| "allow_requests (t # ts) b = (case allow_request t b of (r, b') \<Rightarrow> (t, r) # allow_requests ts b')"

lemma probe_in_flight_blocks:
  "cc_state b = HALF_OPEN \<Longrightarrow> cc_half_open_probe_in_flight b \<Longrightarrow> allow_requests ts b = map (\<lambda>t. (t, False)) ts"
  by (induction ts) (simp_all add: allow_request_def Let_def)

text \<open>
  An open circuit admits one probe: of the requests that arrive after the circuit opened
  and before the next result is recorded, those within the cooldown are refused, the first
  one after it passes, and every other one is refused.
\<close>

theorem open_circuit_admits_one_probe:
  assumes "cc_state b = OPEN" and "cc_opened_at b = Some t0"
  shows "allow_requests ts b =
    (let early = takeWhile (\<lambda>t. t - t0 < cc_cooldown_seconds b) ts;
         late = dropWhile (\<lambda>t. t - t0 < cc_cooldown_seconds b) ts in
     map (\<lambda>t. (t, False)) early @ (case late of [] \<Rightarrow> [] | t # rest \<Rightarrow> (t, True) # map (\<lambda>t. (t, False)) rest))"
proof (induction ts)
  case (Cons t ts)
  show ?case
  proof (cases "t - t0 < cc_cooldown_seconds b")
    case True
    then have "allow_request t b = (False, b)" using assms by (simp add: allow_request_def)
    with Cons True show ?thesis by (simp add: Let_def)
  next
    case False
    let ?b = "b\<lparr>cc_state := HALF_OPEN, cc_half_open_probe_in_flight := True\<rparr>"
    have "allow_request t b = (True, ?b)" using assms False by (simp add: allow_request_def)
    with False show ?thesis by (simp add: Let_def probe_in_flight_blocks)
  qed
qed simp

definition sample_breaker :: circuit_breaker where
  "sample_breaker = \<lparr>cc_failure_threshold = 3, cc_cooldown_seconds = 60, cc_state = OPEN, cc_consecutive_failures = 3,
     cc_opened_at = Some 100, cc_half_open_probe_in_flight = False\<rparr>"

theorem open_circuit_admits_one_probe_witness:
  "allow_requests [110, 150, 165, 166, 300] sample_breaker =
    [(110, False), (150, False), (165, True), (166, False), (300, False)]"
  using open_circuit_admits_one_probe [of sample_breaker 100 "[110, 150, 165, 166, 300]"]
  by (simp add: sample_breaker_def)

lemma select_fallback_spec:
  "case fd_selected_provider_id (select_fallback sha cs required allowed now) of
      None \<Rightarrow> (\<forall>c \<in> set cs. \<not> usable required allowed now c)
    | Some i \<Rightarrow> (\<exists>c \<in> set cs. pc_provider_id c = i \<and> usable required allowed now c \<and>
        (\<forall>c' \<in> set cs. usable required allowed now c' \<longrightarrow> candidate_key c \<le> candidate_key c'))"
proof -
  let ?ok = "usable required allowed now" and ?e = "evaluate_candidate required allowed now"
  have e: "fe_eligible (?e c) \<longleftrightarrow> ?ok c" for c
    by (simp add: evaluate_candidate_def Let_def ineligibility_reasons_empty)
  have m: "find fe_eligible (map ?e xs) = map_option ?e (find ?ok xs)" for xs
    by (induction xs) (simp_all add: e)
  show ?thesis
  proof (cases "find ?ok (sort_key candidate_key cs)")
    case None
    then have "\<forall>c \<in> set cs. \<not> ?ok c" by (simp add: find_None_iff)
    with None show ?thesis by (simp add: select_fallback_def Let_def m)
  next
    case (Some c)
    from find_sorted_least [OF Some]
    have "\<exists>c' \<in> set cs. pc_provider_id c' = pc_provider_id c \<and> ?ok c' \<and> (\<forall>c'' \<in> set cs. ?ok c'' \<longrightarrow> candidate_key c' \<le> candidate_key c'')"
      by blast
    with Some show ?thesis by (simp add: select_fallback_def Let_def m evaluate_candidate_def)
  qed
qed

text \<open>
  Fallback selection is a total order of preference: the selected provider is the one with
  the least priority number (then identifier) among those that are enabled, healthy, capable,
  within budget and concurrency, not behind an open circuit or cooldown, and permitted by the
  data policy; none is selected exactly when there is none; and every candidate is evaluated
  once, in that order, with its reasons empty exactly when it is eligible.
\<close>

theorem select_fallback_least:
  "(case fd_selected_provider_id (select_fallback sha cs required allowed now) of
      None \<Rightarrow> (\<forall>c \<in> set cs. \<not> usable required allowed now c)
    | Some i \<Rightarrow> (\<exists>c \<in> set cs. pc_provider_id c = i \<and> usable required allowed now c \<and>
        (\<forall>c' \<in> set cs. usable required allowed now c' \<longrightarrow> candidate_key c \<le> candidate_key c'))) \<and>
    map (\<lambda>e. (fe_provider_id e, fe_reasons e = [])) (fd_evaluations (select_fallback sha cs required allowed now)) =
      map (\<lambda>c. (pc_provider_id c, usable required allowed now c)) (sort_key candidate_key cs)"
  using select_fallback_spec [where sha = sha and cs = cs and required = required and allowed = allowed and now = now]
  by (simp add: select_fallback_def Let_def evaluate_candidate_def ineligibility_reasons_empty)

definition sample_candidate :: "string \<Rightarrow> int \<Rightarrow> circuit_state \<Rightarrow> provider_candidate" where
  "sample_candidate i prio st = \<lparr>pc_provider_id = i, pc_priority = prio, pc_capabilities = [''chat''], pc_healthy = True,
     pc_enabled = True, pc_daily_budget_remaining = 1, pc_concurrency_available = 1, pc_circuit_state = st,
     pc_cooldown_until = None, pc_data_policy_tags = []\<rparr>"

theorem select_fallback_least_witness:
  "fd_selected_provider_id (select_fallback (\<lambda>s. s) [sample_candidate ''b'' 2 CLOSED, sample_candidate ''a'' 1 OPEN] [''chat''] [] 0)
    = Some ''b''"
proof -
  let ?d = "fd_selected_provider_id (select_fallback (\<lambda>s. s) [sample_candidate ''b'' 2 CLOSED, sample_candidate ''a'' 1 OPEN] [''chat''] [] 0)"
  have "usable [''chat''] [] 0 (sample_candidate ''b'' 2 CLOSED)" "\<not> usable [''chat''] [] 0 (sample_candidate ''a'' 1 OPEN)"
    by (simp_all add: usable_def sample_candidate_def)
  moreover have "pc_provider_id (sample_candidate ''b'' 2 CLOSED) = ''b''" by (simp add: sample_candidate_def)
  ultimately show ?thesis
    using select_fallback_least [where sha = "\<lambda>s. s" and cs = "[sample_candidate ''b'' 2 CLOSED, sample_candidate ''a'' 1 OPEN]" and required = "[''chat'']" and allowed = "[]" and now = 0]
    by (cases ?d) auto
qed

end
