(* ===== verification/Provider_Runtime.thy ===== *)
theory Provider_Runtime
  imports Provider_Resilience
begin

text \<open>
  \<open>resilience/runtime.py\<close>: the persistent state of each provider (daily budget, requests in
  flight, circuit) and the router that dispatches a call to the first eligible provider and
  falls back to the next one. The two SQLite tables are dictionaries; each method is one
  transaction and one step. \<open>reservation\<close> is a context manager: \<open>reserve\<close> on entry and
  \<open>unreserve\<close> on exit, with the time of the entry. The operation a call runs and the signal of
  an exception are arguments; \<open>clock\<close> gives the time of each reading.
\<close>

section \<open>State\<close>

record provider_profile =
  pf_provider_id :: string
  pf_priority :: int
  pf_capabilities :: "string list"
  pf_daily_limit :: int
  pf_concurrency_limit :: int
  pf_failure_threshold :: int
  pf_cooldown_seconds :: rat
  pf_data_policy_tags :: "string list"
  pf_enabled :: bool

record provider_row =
  pw_day_key :: string
  pw_consumed :: int
  pw_in_flight :: int
  pw_circuit_state :: circuit_state
  pw_consecutive_failures :: int
  pw_opened_at :: "rat option"
  pw_cooldown_until :: "rat option"
  pw_updated_at :: rat

record runtime_receipt =
  rr_provider_id :: "string option"
  rr_receipt_type :: string
  rr_payload_json :: string
  rr_created_at :: rat

record provider_db =
  pd_states :: "(string, provider_row) dict"
  pd_receipts :: "(string, runtime_receipt) dict"

text \<open>\<open>datetime.fromtimestamp\<close> rounds to microseconds.\<close>

definition day_key :: "rat \<Rightarrow> string" where
  "day_key now = date_text \<lfloor>round6 now\<rfloor>"

section \<open>Operations\<close>

definition fresh_row :: "rat \<Rightarrow> provider_row" where
  "fresh_row now = \<lparr>pw_day_key = day_key now, pw_consumed = 0, pw_in_flight = 0, pw_circuit_state = CLOSED,
     pw_consecutive_failures = 0, pw_opened_at = None, pw_cooldown_until = None, pw_updated_at = now\<rparr>"

text \<open>The row after \<open>INSERT OR IGNORE\<close> and the daily rollover.\<close>

definition current_row :: "rat \<Rightarrow> provider_row option \<Rightarrow> provider_row" where
  "current_row now r = (case r of None \<Rightarrow> fresh_row now
     | Some row \<Rightarrow> if pw_day_key row \<noteq> day_key now
         then row\<lparr>pw_day_key := day_key now, pw_consumed := 0, pw_updated_at := now\<rparr> else row)"

definition set_row :: "string \<Rightarrow> provider_row \<Rightarrow> provider_db \<Rightarrow> provider_db" where
  "set_row i row db = db\<lparr>pd_states := dict_set i row (pd_states db)\<rparr>"

definition ensure :: "string \<Rightarrow> rat \<Rightarrow> provider_db \<Rightarrow> provider_row \<times> provider_db" where
  "ensure i now db = (let row = current_row now (dict_get (pd_states db) i) in (row, set_row i row db))"

definition row_candidate :: "provider_profile \<Rightarrow> rat \<Rightarrow> provider_row \<Rightarrow> provider_candidate" where
  "row_candidate p now row =
     (let cooldown_until = pw_cooldown_until row;
          state = (if pw_circuit_state row = OPEN \<and> (\<exists>t \<in> set_option cooldown_until. t \<le> now) then HALF_OPEN
                   else pw_circuit_state row)
      in \<lparr>pc_provider_id = pf_provider_id p, pc_priority = pf_priority p, pc_capabilities = pf_capabilities p,
          pc_healthy = True, pc_enabled = pf_enabled p,
          pc_daily_budget_remaining = max 0 (pf_daily_limit p - pw_consumed row),
          pc_concurrency_available = max 0 (pf_concurrency_limit p - pw_in_flight row),
          pc_circuit_state = state, pc_cooldown_until = (if state = OPEN then cooldown_until else None),
          pc_data_policy_tags = pf_data_policy_tags p\<rparr>)"

definition candidate :: "provider_profile \<Rightarrow> rat \<Rightarrow> provider_db \<Rightarrow> provider_candidate \<times> provider_db" where
  "candidate p now db = (case ensure (pf_provider_id p) now db of (row, db') \<Rightarrow> (row_candidate p now row, db'))"

text \<open>Entry of \<open>reservation\<close>; a refused reservation rolls everything back.\<close>

definition reserve :: "provider_profile \<Rightarrow> rat \<Rightarrow> provider_db \<Rightarrow> (string + unit) \<times> provider_db" where
  "reserve p now db =
     (case ensure (pf_provider_id p) now db of (row, db') \<Rightarrow>
        if pf_daily_limit p \<le> pw_consumed row then (Inl (''daily budget exhausted for '' @ pf_provider_id p), db)
        else if pf_concurrency_limit p \<le> pw_in_flight row then (Inl (''concurrency exhausted for '' @ pf_provider_id p), db)
        else (Inr (), set_row (pf_provider_id p) (row\<lparr>pw_consumed := pw_consumed row + 1,
                pw_in_flight := pw_in_flight row + 1, pw_updated_at := now\<rparr>) db'))"

text \<open>Exit of \<open>reservation\<close>, with the instant of its entry.\<close>

definition unreserve :: "provider_profile \<Rightarrow> rat \<Rightarrow> provider_db \<Rightarrow> provider_db" where
  "unreserve p now db =
     (case ensure (pf_provider_id p) now db of (row, db') \<Rightarrow>
        set_row (pf_provider_id p) (row\<lparr>pw_in_flight := max 0 (pw_in_flight row - 1), pw_updated_at := now\<rparr>) db')"

definition runtime_success :: "provider_profile \<Rightarrow> rat \<Rightarrow> provider_db \<Rightarrow> provider_db" where
  "runtime_success p now db =
     (case ensure (pf_provider_id p) now db of (row, db') \<Rightarrow>
        set_row (pf_provider_id p) (row\<lparr>pw_circuit_state := CLOSED, pw_consecutive_failures := 0, pw_opened_at := None,
          pw_cooldown_until := None, pw_updated_at := now\<rparr>) db')"

definition runtime_failure :: "provider_profile \<Rightarrow> provider_error_kind \<Rightarrow> rat \<Rightarrow> provider_db \<Rightarrow> provider_db" where
  "runtime_failure p kind now db =
     (if kind \<in> {INVALID_REQUEST, UNKNOWN} then db
      else (case ensure (pf_provider_id p) now db of (row, db') \<Rightarrow>
        (let failures = pw_consecutive_failures row + 1;
             should_open = (pw_circuit_state row = HALF_OPEN \<or> pf_failure_threshold p \<le> failures)
         in set_row (pf_provider_id p) (row\<lparr>pw_consecutive_failures := failures,
              pw_circuit_state := (if should_open then OPEN else pw_circuit_state row),
              pw_opened_at := (if should_open then Some now else pw_opened_at row),
              pw_cooldown_until := (if should_open then Some (now + pf_cooldown_seconds p) else pw_cooldown_until row),
              pw_updated_at := now\<rparr>) db')))"

definition append_receipt :: "string \<Rightarrow> string option \<Rightarrow> string \<Rightarrow> json \<Rightarrow> rat \<Rightarrow> provider_db \<Rightarrow> provider_db" where
  "append_receipt i provider ty payload now db =
     (if dict_get (pd_receipts db) i \<noteq> None then db
      else db\<lparr>pd_receipts := pd_receipts db @ [(i, \<lparr>rr_provider_id = provider, rr_receipt_type = ty,
             rr_payload_json = dumps compact_ascii payload, rr_created_at = now\<rparr>)]\<rparr>)"

section \<open>The router\<close>

datatype 'x router_exn = Op_Exn 'x | Reservation_Exn string

datatype 'x router_error = Router_Raised "'x router_exn" | No_Eligible_Provider string | Router_Key_Error string

fun candidates :: "provider_profile list \<Rightarrow> rat \<Rightarrow> provider_db \<Rightarrow> provider_candidate list \<times> provider_db" where
  "candidates [] now db = ([], db)"
| "candidates (p # ps) now db = (case candidate p now db of (c, db1) \<Rightarrow>
     case candidates ps now db1 of (cs, db2) \<Rightarrow> (c # cs, db2))"

text \<open>\<open>with self.store.reservation(profile, now=now): result = operation(profile.provider_id)\<close>.\<close>

definition reserved_call :: "(string \<Rightarrow> 'x + 'r) \<Rightarrow> provider_profile \<Rightarrow> rat \<Rightarrow> provider_db \<Rightarrow> ('x router_exn + 'r) \<times> provider_db" where
  "reserved_call operation p now db =
     (case reserve p now db of
        (Inl msg, db') \<Rightarrow> (Inl (Reservation_Exn msg), db')
      | (Inr _, db') \<Rightarrow> ((case operation (pf_provider_id p) of Inl e \<Rightarrow> Inl (Op_Exn e) | Inr r \<Rightarrow> Inr r),
          unreserve p now db'))"

text \<open>The decision of one round and the state with its receipt.\<close>

definition route :: "digest \<Rightarrow> string \<Rightarrow> string list \<Rightarrow> provider_profile list \<Rightarrow> rat \<Rightarrow> provider_db
    \<Rightarrow> string option \<times> provider_db" where
  "route sha capability allowed rem now db =
     (case candidates rem now db of (cs, db1) \<Rightarrow>
        let d = select_fallback sha cs [capability] allowed now in
        (fd_selected_provider_id d,
         append_receipt (fd_decision_id d) (fd_selected_provider_id d) ''fallback-decision''
           (JObj [(''selected_provider_id'', json_opt (fd_selected_provider_id d)),
                  (''evaluations'', evaluations_json (fd_evaluations d))]) now db1))"

lemma length_filter_find: "find P xs = Some x \<Longrightarrow> length (filter (\<lambda>y. \<not> P y) xs) < length xs"
  by (metis find_Some_iff length_filter_less nth_mem)

text \<open>
  The loop of \<open>invoke\<close>; \<open>rem\<close> holds the profiles of the remaining identifiers and \<open>k\<close> counts the
  readings of the clock. A lookup or removal of an identifier that is not there raises.
\<close>

function invoke_loop :: "digest \<Rightarrow> (nat \<Rightarrow> rat) \<Rightarrow> string \<Rightarrow> string list \<Rightarrow> (string \<Rightarrow> 'x + 'r)
    \<Rightarrow> ('x router_exn \<Rightarrow> provider_error_signal) \<Rightarrow> nat \<Rightarrow> provider_profile list \<Rightarrow> provider_db
    \<Rightarrow> ('x router_error + 'r) \<times> provider_db" where
  "invoke_loop sha clock capability allowed operation error_signal k rem db =
     (if rem = [] then (Inl (No_Eligible_Provider capability), db)
      else (case route sha capability allowed rem (clock k) db of
        (None, db1) \<Rightarrow> (Inl (No_Eligible_Provider capability), db1)
      | (Some i, db1) \<Rightarrow>
          (case find (\<lambda>p. pf_provider_id p = i) rem of
             None \<Rightarrow> (Inl (Router_Key_Error i), db1)
           | Some p \<Rightarrow>
               (case reserved_call operation p (clock k) db1 of
                  (Inr r, db2) \<Rightarrow> (Inr r, runtime_success p (clock (Suc k)) db2)
                | (Inl e, db2) \<Rightarrow>
                    (let kind = classify_provider_error (error_signal e);
                         db3 = runtime_failure p kind (clock (Suc k)) db2
                     in if \<not> fallback_eligible_error kind then (Inl (Router_Raised e), db3)
                        else invoke_loop sha clock capability allowed operation error_signal (Suc (Suc k))
                          (filter (\<lambda>q. pf_provider_id q \<noteq> i) rem) db3)))))"
  by pat_completeness auto

termination
  by (relation "measure (\<lambda>(_, _, _, _, _, _, _, rem, _). length rem)") (auto dest: length_filter_find)

declare invoke_loop.simps [simp del]

definition invoke :: "digest \<Rightarrow> (nat \<Rightarrow> rat) \<Rightarrow> provider_profile list \<Rightarrow> string \<Rightarrow> string list \<Rightarrow> (string \<Rightarrow> 'x + 'r)
    \<Rightarrow> ('x router_exn \<Rightarrow> provider_error_signal) \<Rightarrow> provider_db \<Rightarrow> ('x router_error + 'r) \<times> provider_db" where
  "invoke sha clock profiles capability allowed operation error_signal db =
     invoke_loop sha clock capability allowed operation error_signal 0 profiles db"

section \<open>Lemmas\<close>

lemma set_row_get [simp]:
  "dict_get (pd_states (set_row i row db)) j = (if j = i then Some row else dict_get (pd_states db) j)"
  by (simp add: set_row_def)

lemma current_row_idem [simp]: "current_row now (Some (current_row now r)) = current_row now r"
  by (simp add: current_row_def fresh_row_def split: option.splits)

definition row_ok :: "provider_row \<Rightarrow> bool" where
  "row_ok row = (0 \<le> pw_consumed row \<and> 0 \<le> pw_in_flight row)"

definition db_ok :: "provider_db \<Rightarrow> bool" where
  "db_ok db = (\<forall>i row. dict_get (pd_states db) i = Some row \<longrightarrow> row_ok row)"

text \<open>The state of one provider, as the next operation at \<open>now\<close> sees it.\<close>

abbreviation row_at :: "rat \<Rightarrow> provider_db \<Rightarrow> string \<Rightarrow> provider_row" where
  "row_at now db i \<equiv> current_row now (dict_get (pd_states db) i)"

lemma candidate_eq: "candidate p now db = (row_candidate p now (row_at now db (pf_provider_id p)),
    set_row (pf_provider_id p) (row_at now db (pf_provider_id p)) db)"
  by (simp add: candidate_def ensure_def Let_def)

lemma candidates_row:
  "candidates ps now db = (cs, db') \<Longrightarrow>
    cs = map (\<lambda>p. row_candidate p now (row_at now db (pf_provider_id p))) ps \<and>
    (\<forall>i. dict_get (pd_states db') i =
      (if i \<in> pf_provider_id ` set ps then Some (row_at now db i) else dict_get (pd_states db) i))"
proof (induction ps arbitrary: db cs db')
  case (Cons p ps)
  let ?db = "set_row (pf_provider_id p) (row_at now db (pf_provider_id p)) db"
  obtain cs2 db2 where c: "candidates ps now ?db = (cs2, db2)" by (metis surj_pair)
  have r: "row_at now ?db i = row_at now db i" for i by simp
  from Cons.IH [OF c] Cons.prems c show ?case by (auto simp: candidate_eq r)
qed simp

lemma append_receipt_states [simp]: "pd_states (append_receipt i provider ty payload now db) = pd_states db"
  by (simp add: append_receipt_def)

text \<open>Operations of one provider leave the rows of the others alone.\<close>

lemma other_rows:
  assumes "j \<noteq> pf_provider_id p"
  shows "dict_get (pd_states (snd (reserve p now db))) j = dict_get (pd_states db) j"
    "dict_get (pd_states (unreserve p now db)) j = dict_get (pd_states db) j"
    "dict_get (pd_states (runtime_failure p kind now db)) j = dict_get (pd_states db) j"
    "dict_get (pd_states (runtime_success p now db)) j = dict_get (pd_states db) j"
  using assms by (simp_all add: reserve_def unreserve_def runtime_failure_def runtime_success_def ensure_def Let_def)

lemma usable_row:
  "usable required allowed now (row_candidate p now row) \<longleftrightarrow>
    pf_enabled p \<and> set required \<subseteq> set (pf_capabilities p) \<and> set (pf_data_policy_tags p) \<subseteq> set allowed \<and>
    pw_consumed row < pf_daily_limit p \<and> pw_in_flight row < pf_concurrency_limit p \<and>
    (pw_circuit_state row = OPEN \<longrightarrow> (\<exists>t. pw_cooldown_until row = Some t \<and> t \<le> now))"
  by (cases "pw_cooldown_until row"; cases "pw_circuit_state row") (auto simp: usable_def row_candidate_def)

text \<open>A provider that can be used stays so while nothing is recorded for it.\<close>

lemma usable_later:
  assumes "usable required allowed now (row_candidate p now row)" "row_ok row" "now \<le> now'"
  shows "usable required allowed now' (row_candidate p now' (current_row now' (Some row)))"
    "row_ok (current_row now' (Some row))"
  using assms by (cases "pw_day_key row = day_key now'"; fastforce simp: usable_row row_ok_def current_row_def)+

lemma reserve_usable:
  assumes "usable required allowed now (row_candidate p now (row_at now db (pf_provider_id p)))"
  shows "\<exists>db'. reserve p now db = (Inr (), db')"
  using assms by (simp add: usable_row reserve_def ensure_def Let_def)

lemma route_selects:
  assumes "route sha capability allowed rem now db = (sel, db')" "p \<in> set rem"
    and "usable [capability] allowed now (row_candidate p now (row_at now db (pf_provider_id p)))"
  shows "\<exists>q \<in> set rem. sel = Some (pf_provider_id q) \<and>
    usable [capability] allowed now (row_candidate q now (row_at now db (pf_provider_id q)))"
    and "\<forall>q \<in> set rem. dict_get (pd_states db') (pf_provider_id q) = Some (row_at now db (pf_provider_id q))"
proof -
  obtain cs db1 where c: "candidates rem now db = (cs, db1)" by (metis surj_pair)
  note r = candidates_row [OF c]
  let ?c = "\<lambda>q. row_candidate q now (row_at now db (pf_provider_id q))"
  have sel: "sel = fd_selected_provider_id (select_fallback sha cs [capability] allowed now)"
    and db': "pd_states db' = pd_states db1"
    using assms(1) c by (auto simp: route_def Let_def)
  have id: "pc_provider_id (?c q) = pf_provider_id q" for q by (simp add: row_candidate_def Let_def)
  show "\<exists>q \<in> set rem. sel = Some (pf_provider_id q) \<and> usable [capability] allowed now (?c q)"
    using select_fallback_spec [where sha = sha and cs = cs and required = "[capability]" and allowed = allowed and now = now] r assms(2,3) sel
    by (auto simp: id split: option.splits)
  show "\<forall>q \<in> set rem. dict_get (pd_states db') (pf_provider_id q) = Some (row_at now db (pf_provider_id q))"
    using r db' by simp
qed

lemma invoke_loop_succeeds:
  fixes operation :: "string \<Rightarrow> 'x + 'r"
  assumes "mono clock" and "operation (pf_provider_id p) = Inr r"
  shows "distinct (map pf_provider_id rem) \<Longrightarrow> p \<in> set rem \<Longrightarrow>
    row_ok (row_at (clock k) db (pf_provider_id p)) \<Longrightarrow>
    usable [capability] allowed (clock k) (row_candidate p (clock k) (row_at (clock k) db (pf_provider_id p))) \<Longrightarrow>
    (\<And>q e. q \<in> set rem \<Longrightarrow> operation (pf_provider_id q) = Inl e \<Longrightarrow>
      fallback_eligible_error (classify_provider_error (error_signal (Op_Exn e)))) \<Longrightarrow>
    \<exists>q \<in> set rem. \<exists>r'. operation (pf_provider_id q) = Inr r' \<and>
      fst (invoke_loop sha clock capability allowed operation error_signal k rem db) = Inr r'"
proof (induction "length rem" arbitrary: rem k db rule: less_induct)
  case less
  let ?now = "clock k" and ?id = pf_provider_id
  obtain sel db1 where rt: "route sha capability allowed rem ?now db = (sel, db1)" by (metis surj_pair)
  from route_selects [OF rt less.prems(2,4)] obtain q where q: "q \<in> set rem" "sel = Some (?id q)"
    "usable [capability] allowed ?now (row_candidate q ?now (row_at ?now db (?id q)))"
    "\<forall>q \<in> set rem. dict_get (pd_states db1) (?id q) = Some (row_at ?now db (?id q))" by blast
  have f: "find (\<lambda>p. ?id p = ?id q) rem = Some q"
    using find_distinct [OF less.prems(1) q(1)] by simp
  from q(1,4) have row: "row_at ?now db1 (?id q) = row_at ?now db (?id q)" by simp
  then obtain db2 where res: "reserve q ?now db1 = (Inr (), db2)" using reserve_usable [of "[capability]" allowed ?now q db1] q(3) by auto
  have ne: "rem \<noteq> []" using q(1) by auto
  show ?case
  proof (cases "operation (?id q)")
    case (Inr r')
    then have "fst (invoke_loop sha clock capability allowed operation error_signal k rem db) = Inr r'"
      using ne rt q(2) f res by (subst invoke_loop.simps) (simp add: reserved_call_def)
    with Inr q(1) show ?thesis by blast
  next
    case (Inl e)
    let ?kind = "classify_provider_error (error_signal (Op_Exn e))"
    let ?db3 = "runtime_failure q ?kind (clock (Suc k)) (unreserve q ?now db2)"
    let ?rem = "filter (\<lambda>p. ?id p \<noteq> ?id q) rem"
    have el: "fallback_eligible_error ?kind" using less.prems(5) q(1) Inl by blast
    have eq: "invoke_loop sha clock capability allowed operation error_signal k rem db =
        invoke_loop sha clock capability allowed operation error_signal (Suc (Suc k)) ?rem ?db3"
      using ne rt q(2) f res Inl el by (subst invoke_loop.simps) (simp add: reserved_call_def Let_def)
    have "p \<noteq> q" using Inl assms(2) by auto
    then have pq: "?id p \<noteq> ?id q" using less.prems(1,2) q(1) by (auto simp: distinct_map dest: inj_onD)
    have "dict_get (pd_states ?db3) (?id p) = Some (row_at ?now db (?id p))"
      using other_rows [OF pq] res q(4) less.prems(2) by (metis snd_conv)
    then have r3: "row_at t ?db3 (?id p) = current_row t (Some (row_at ?now db (?id p)))" for t by simp
    have le: "?now \<le> clock (Suc (Suc k))" using assms(1) by (simp add: monoD)
    have "length ?rem < length rem" using length_filter_find [OF f] by simp
    then have "\<exists>q \<in> set ?rem. \<exists>r'. operation (?id q) = Inr r' \<and>
        fst (invoke_loop sha clock capability allowed operation error_signal (Suc (Suc k)) ?rem ?db3) = Inr r'"
      using less.prems pq usable_later [OF less.prems(4,3) le]
      by (intro less.hyps) (auto simp: r3 distinct_map_filter)
    with eq show ?thesis by auto
  qed
qed

section \<open>Interleavings of reservations\<close>

text \<open>
  The store is shared: requests of several callers interleave. A configuration is the database
  and the reservations that are open, each with its profile and the instant of its entry.
\<close>

type_synonym store_config = "provider_db \<times> (provider_profile \<times> rat) list"

inductive provider_step :: "provider_profile list \<Rightarrow> store_config \<Rightarrow> store_config \<Rightarrow> bool" for profiles where
  enter: "p \<in> set profiles \<Longrightarrow> reserve p now db = (Inr (), db') \<Longrightarrow>
    provider_step profiles (db, held) (db', (p, now) # held)"
| refused: "p \<in> set profiles \<Longrightarrow> reserve p now db = (Inl msg, db') \<Longrightarrow> provider_step profiles (db, held) (db', held)"
| leave: "provider_step profiles (db, xs @ (p, now) # ys) (unreserve p now db, xs @ ys)"
| look: "p \<in> set profiles \<Longrightarrow> provider_step profiles (db, held) (snd (candidate p now db), held)"
| succeed: "p \<in> set profiles \<Longrightarrow> provider_step profiles (db, held) (runtime_success p now db, held)"
| fail: "p \<in> set profiles \<Longrightarrow> provider_step profiles (db, held) (runtime_failure p kind now db, held)"
| receipt: "provider_step profiles (db, held) (append_receipt i provider ty payload now db, held)"

definition empty_db :: provider_db where
  "empty_db = \<lparr>pd_states = [], pd_receipts = []\<rparr>"

inductive provider_reachable :: "provider_profile list \<Rightarrow> store_config \<Rightarrow> bool" for profiles where
  start: "provider_reachable profiles (empty_db, [])"
| step: "provider_reachable profiles c \<Longrightarrow> provider_step profiles c c' \<Longrightarrow> provider_reachable profiles c'"

definition in_flight :: "provider_db \<Rightarrow> string \<Rightarrow> int" where
  "in_flight db i = (case dict_get (pd_states db) i of None \<Rightarrow> 0 | Some row \<Rightarrow> pw_in_flight row)"

definition held_of :: "string \<Rightarrow> (provider_profile \<times> rat) list \<Rightarrow> (provider_profile \<times> rat) list" where
  "held_of i held = filter (\<lambda>x. pf_provider_id (fst x) = i) held"

text \<open>The row counts the open reservations, which stay within the limits.\<close>

definition flight_ok :: "provider_profile list \<Rightarrow> store_config \<Rightarrow> bool" where
  "flight_ok profiles c =
     (fst ` set (snd c) \<subseteq> set profiles \<and> (\<forall>i. in_flight (fst c) i = int (length (held_of i (snd c)))) \<and>
      (\<forall>p \<in> set profiles. in_flight (fst c) (pf_provider_id p) \<le> max 0 (pf_concurrency_limit p)) \<and>
      (\<forall>p \<in> set profiles. \<forall>row. dict_get (pd_states (fst c)) (pf_provider_id p) = Some row \<longrightarrow>
         0 \<le> pw_consumed row \<and> pw_consumed row \<le> max 0 (pf_daily_limit p)))"

lemma current_row_flight [simp]: "pw_in_flight (current_row now r) = (case r of None \<Rightarrow> 0 | Some row \<Rightarrow> pw_in_flight row)"
  by (simp add: current_row_def fresh_row_def split: option.split)

lemma current_row_consumed:
  "pw_consumed (current_row now r) = 0 \<or> (\<exists>row. r = Some row \<and> pw_consumed (current_row now r) = pw_consumed row)"
  by (simp add: current_row_def fresh_row_def split: option.split)

lemma in_flight_set_row: "in_flight (set_row i row db) j = (if j = i then pw_in_flight row else in_flight db j)"
  by (simp add: in_flight_def)

lemma flight_ok_quiet:
  assumes "flight_ok profiles (db, held)" "p \<in> set profiles"
    and "pw_in_flight row = in_flight db (pf_provider_id p)" "pw_consumed row = pw_consumed (row_at now db (pf_provider_id p))"
    and "distinct (map pf_provider_id profiles)"
  shows "flight_ok profiles (set_row (pf_provider_id p) row db, held)"
proof -
  have "q = p" if "q \<in> set profiles" "pf_provider_id q = pf_provider_id p" for q
    using that assms(2,5) by (auto simp: distinct_map dest: inj_onD)
  moreover have "0 \<le> pw_consumed row \<and> pw_consumed row \<le> max 0 (pf_daily_limit p)"
    using current_row_consumed [of now "dict_get (pd_states db) (pf_provider_id p)"] assms(1,2,4) by (auto simp: flight_ok_def)
  ultimately show ?thesis using assms(1,2,3) by (auto simp: flight_ok_def in_flight_set_row)
qed

lemma set_row_twice [simp]: "set_row i a (set_row i b db) = set_row i a db"
proof -
  have "dict_set i a (dict_set i b d) = dict_set i a d" for d by (induction d) auto
  then show ?thesis by (simp add: set_row_def)
qed

lemma flight_ok_step:
  assumes "distinct (map pf_provider_id profiles)"
  shows "provider_step profiles c c' \<Longrightarrow> flight_ok profiles c \<Longrightarrow> flight_ok profiles c'"
proof (induction rule: provider_step.induct)
  case (enter p now db db' held)
  let ?i = "pf_provider_id p" and ?row = "row_at now db (pf_provider_id p)"
  have r: "pw_consumed ?row < pf_daily_limit p" "in_flight db ?i < pf_concurrency_limit p"
    "db' = set_row ?i (?row\<lparr>pw_consumed := pw_consumed ?row + 1, pw_in_flight := pw_in_flight ?row + 1, pw_updated_at := now\<rparr>) db"
    using enter(2) by (auto simp: reserve_def ensure_def Let_def in_flight_def split: if_splits)
  have u: "q = p" if "q \<in> set profiles" "pf_provider_id q = ?i" for q
    using that enter(1) assms by (auto simp: distinct_map dest: inj_onD)
  have c: "0 \<le> pw_consumed ?row"
    using current_row_consumed [of now "dict_get (pd_states db) ?i"] enter(1,3) by (auto simp: flight_ok_def)
  have f: "pw_in_flight ?row = in_flight db ?i" by (simp add: in_flight_def)
  show ?case using enter(1,3) r(1,2) c unfolding r(3)
    by (auto simp: flight_ok_def in_flight_set_row held_of_def f simp del: current_row_flight dest: u)
next
  case (refused p now db msg db' held)
  then have "db' = db" by (auto simp: reserve_def split: prod.splits if_splits)
  with refused show ?case by simp
next
  case (leave db xs p now ys)
  let ?i = "pf_provider_id p" and ?row = "row_at now db (pf_provider_id p)"
  have p: "p \<in> set profiles" using leave by (auto simp: flight_ok_def)
  have u: "q = p" if "q \<in> set profiles" "pf_provider_id q = ?i" for q
    using that p assms by (auto simp: distinct_map dest: inj_onD)
  have d: "unreserve p now db = set_row ?i (?row\<lparr>pw_in_flight := max 0 (pw_in_flight ?row - 1), pw_updated_at := now\<rparr>) db"
    by (simp add: unreserve_def ensure_def Let_def)
  have n: "in_flight db j = int (length (held_of j (xs @ (p, now) # ys)))" for j
    using leave by (simp add: flight_ok_def)
  have c: "0 \<le> pw_consumed ?row \<and> pw_consumed ?row \<le> max 0 (pf_daily_limit p)"
    using current_row_consumed [of now "dict_get (pd_states db) ?i"] p leave by (auto simp: flight_ok_def)
  have f: "pw_in_flight ?row = in_flight db ?i" by (simp add: in_flight_def)
  have l: "in_flight db (pf_provider_id q) \<le> max 0 (pf_concurrency_limit q)" if "q \<in> set profiles" for q
    using that leave unfolding flight_ok_def fst_conv by blast
  show ?case unfolding d using leave n n [of ?i] c l [OF p]
    by (auto simp: flight_ok_def in_flight_set_row held_of_def f simp del: current_row_flight dest: u)
next
  case (look p now db held)
  then show ?case using flight_ok_quiet [OF look(2,1) _ _ assms] by (simp add: candidate_eq in_flight_def)
next
  case (succeed p now db held)
  then show ?case using flight_ok_quiet [OF succeed(2,1) _ _ assms]
    by (simp add: runtime_success_def ensure_def Let_def in_flight_def)
next
  case (fail p kind now db held)
  then show ?case using flight_ok_quiet [OF fail(2,1) _ _ assms]
    by (simp add: runtime_failure_def ensure_def Let_def in_flight_def)
next
  case (receipt db held i provider ty payload now)
  have "in_flight (append_receipt i provider ty payload now db) = in_flight db" by (simp add: in_flight_def fun_eq_iff)
  with receipt show ?case unfolding flight_ok_def fst_conv snd_conv append_receipt_states by metis
qed

lemma flight_ok_reachable:
  assumes "distinct (map pf_provider_id profiles)"
  shows "provider_reachable profiles c \<Longrightarrow> flight_ok profiles c"
proof (induction rule: provider_reachable.induct)
  case start
  show ?case by (simp add: flight_ok_def in_flight_def held_of_def empty_db_def)
next
  case (step c c')
  then show ?case using flight_ok_step [OF assms] by blast
qed

section \<open>Properties\<close>

text \<open>
  C35: Reservations stay within the limits: however the calls of several callers interleave and
  whatever their clocks say, every provider's row counts exactly the reservations that are
  open, at most its concurrency limit are open at a time, and the requests its row counts as
  consumed never exceed its daily limit.
\<close>

theorem reservations_within_limits:
  assumes "distinct (map pf_provider_id profiles)" and "provider_reachable profiles (db, held)" and "p \<in> set profiles"
  shows "in_flight db (pf_provider_id p) = int (length (held_of (pf_provider_id p) held)) \<and>
    int (length (held_of (pf_provider_id p) held)) \<le> max 0 (pf_concurrency_limit p) \<and>
    (\<forall>row. dict_get (pd_states db) (pf_provider_id p) = Some row \<longrightarrow>
      0 \<le> pw_consumed row \<and> pw_consumed row \<le> max 0 (pf_daily_limit p))"
  using flight_ok_reachable [OF assms(1,2)] assms(3) by (auto simp: flight_ok_def)

definition sample_profile :: "string \<Rightarrow> int \<Rightarrow> provider_profile" where
  "sample_profile i prio = \<lparr>pf_provider_id = i, pf_priority = prio, pf_capabilities = [''chat''], pf_daily_limit = 1,
     pf_concurrency_limit = 2, pf_failure_threshold = 3, pf_cooldown_seconds = 60, pf_data_policy_tags = [], pf_enabled = True\<rparr>"

lemma sample_reserve:
  "reserve (sample_profile ''a'' 1) now empty_db =
    (Inr (), set_row ''a'' ((fresh_row now)\<lparr>pw_consumed := 1, pw_in_flight := 1, pw_updated_at := now\<rparr>) empty_db)"
  by (simp add: reserve_def ensure_def Let_def sample_profile_def current_row_def fresh_row_def empty_db_def)

theorem reservations_within_limits_witness:
  "in_flight (snd (reserve (sample_profile ''a'' 1) 10 empty_db)) ''a'' = 1"
proof -
  let ?p = "sample_profile ''a'' 1" and ?db = "snd (reserve (sample_profile ''a'' 1) 10 empty_db)"
  have "provider_reachable [?p] (?db, [(?p, 10)])"
    by (rule provider_reachable.step [OF provider_reachable.start enter]) (simp_all add: sample_reserve)
  from reservations_within_limits [OF _ this, of ?p] show ?thesis
    by (simp add: held_of_def) (simp add: sample_profile_def)
qed

text \<open>
  C36: A call succeeds whenever some provider can serve it. The clock must not go back, the ids of
  the profiles be distinct, and nobody else use the database during the call. Then, if one of the
  profiles has a well-formed row (or none yet), is eligible when the call arrives and its operation
  returns, and the other operations fail only with errors that allow a fallback, the call
  terminates with the value some provider returned, whatever failed before it.\<close>

theorem invoke_succeeds:
  fixes operation :: "string \<Rightarrow> 'x + 'r"
  assumes "mono clock" and "distinct (map pf_provider_id profiles)" and "p \<in> set profiles"
    and "operation (pf_provider_id p) = Inr r" and "row_ok (row_at (clock 0) db (pf_provider_id p))"
    and "usable [capability] allowed (clock 0) (fst (candidate p (clock 0) db))"
    and "\<And>q e. q \<in> set profiles \<Longrightarrow> operation (pf_provider_id q) = Inl e \<Longrightarrow>
      fallback_eligible_error (classify_provider_error (error_signal (Op_Exn e)))"
  shows "\<exists>q \<in> set profiles. \<exists>r'. operation (pf_provider_id q) = Inr r' \<and>
    fst (invoke sha clock profiles capability allowed operation error_signal db) = Inr r'"
  using invoke_loop_succeeds [of clock operation p r profiles 0 db capability allowed error_signal sha] assms
  by (simp add: invoke_def candidate_eq)

definition sample_signal :: "nat router_exn \<Rightarrow> provider_error_signal" where
  "sample_signal e = \<lparr>es_status_code = Some 503, es_error_code = [], es_message = [], es_retry_after_seconds = None,
     es_exception_name = []\<rparr>"

definition sample_operation :: "string \<Rightarrow> nat + string" where
  "sample_operation i = (if i = ''a'' then Inl 1 else Inr ''hello'')"

theorem invoke_succeeds_witness:
  "fst (invoke (\<lambda>s. s) (\<lambda>_. 5) [sample_profile ''a'' 1, sample_profile ''b'' 2] ''chat'' [] sample_operation sample_signal empty_db)
    = Inr ''hello''"
proof -
  let ?ps = "[sample_profile ''a'' 1, sample_profile ''b'' 2]" and ?b = "sample_profile ''b'' 2"
  have ids: "pf_provider_id (sample_profile i n) = i" for i n by (simp add: sample_profile_def)
  have "fallback_eligible_error (classify_provider_error (sample_signal (Op_Exn e)))" for e
    by (simp add: classify_provider_error_def Let_def sample_signal_def fallback_eligible_error_def image_iff)
  moreover have "usable [''chat''] [] 5 (fst (candidate ?b 5 empty_db))"
    by (simp add: candidate_eq usable_row) (simp add: sample_profile_def current_row_def fresh_row_def empty_db_def)
  moreover have "row_ok (row_at 5 empty_db ''b'')" by (simp add: row_ok_def current_row_def fresh_row_def empty_db_def)
  ultimately obtain r' where "sample_operation ''a'' = Inr r' \<or> sample_operation ''b'' = Inr r'"
    "fst (invoke (\<lambda>s. s) (\<lambda>_. 5) ?ps ''chat'' [] sample_operation sample_signal empty_db) = Inr r'"
    using invoke_succeeds [where clock = "\<lambda>_. 5" and profiles = ?ps and p = ?b and operation = sample_operation and r = "''hello''"
        and error_signal = sample_signal and capability = "''chat''" and allowed = "[]" and db = empty_db and sha = "\<lambda>s. s"]
    by (auto simp: ids mono_def sample_operation_def)
  then show ?thesis by (auto simp: sample_operation_def)
qed

text \<open>
  A reservation that is released after midnight forgets the new day's budget: the release
  runs the rollover with the instant of the entry, so a row that already counts requests of
  today is set back to the earlier day with nothing consumed, and a request that today's
  exhausted budget refused is then admitted.
\<close>

theorem late_release_forgets_budget:
  assumes "dict_get (pd_states db) (pf_provider_id p) = Some row" and "pw_day_key row = day_key today"
    and "pf_daily_limit p \<le> pw_consumed row" and "0 < pf_daily_limit p"
    and "day_key entered \<noteq> day_key today" and "1 \<le> pw_in_flight row" and "pw_in_flight row \<le> pf_concurrency_limit p"
  shows "fst (reserve p today db) = Inl (''daily budget exhausted for '' @ pf_provider_id p) \<and>
    fst (reserve p today (unreserve p entered db)) = Inr ()"
  using assms by (simp add: reserve_def unreserve_def ensure_def Let_def current_row_def)

theorem late_release_forgets_budget_witness:
  "\<exists>db. provider_reachable [sample_profile ''a'' 1] (db, [(sample_profile ''a'' 1, 86401), (sample_profile ''a'' 1, 86399)]) \<and>
    fst (reserve (sample_profile ''a'' 1) 86402 db) = Inl ''daily budget exhausted for a'' \<and>
    fst (reserve (sample_profile ''a'' 1) 86402 (unreserve (sample_profile ''a'' 1) 86399 db)) = Inr ()"
proof -
  let ?p = "sample_profile ''a'' 1"
  have f: "round6 86399 = 86399" "round6 86401 = 86401" "round6 86402 = 86402"
    using round_to_of_int [of 6 86399] round_to_of_int [of 6 86401] round_to_of_int [of 6 86402] by simp_all
  have "date_text 86399 = ''1970-01-01''" "date_text 86401 = ''1970-01-02''" "date_text 86402 = ''1970-01-02''" by code_simp+
  then have k: "day_key 86399 = ''1970-01-01''" "day_key 86401 = ''1970-01-02''" "day_key 86402 = ''1970-01-02''"
    by (simp_all add: day_key_def f)
  let ?r1 = "(fresh_row 86399)\<lparr>pw_consumed := 1, pw_in_flight := 1, pw_updated_at := 86399\<rparr>"
  let ?r2 = "?r1\<lparr>pw_day_key := day_key 86401, pw_consumed := 1, pw_in_flight := 2, pw_updated_at := 86401\<rparr>"
  let ?db1 = "set_row ''a'' ?r1 empty_db" and ?db2 = "set_row ''a'' ?r2 empty_db"
  have id: "pf_provider_id ?p = ''a''" by (simp add: sample_profile_def)
  have 1: "reserve ?p 86401 ?db1 = (Inr (), ?db2)"
    by (simp add: reserve_def ensure_def Let_def id current_row_def fresh_row_def k) (simp add: sample_profile_def)
  have "provider_reachable [?p] (?db2, [(?p, 86401), (?p, 86399)])"
    using provider_reachable.step [OF provider_reachable.step [OF provider_reachable.start enter [OF _ sample_reserve]] enter [OF _ 1]]
    by simp
  moreover have "fst (reserve ?p 86402 ?db2) = Inl (''daily budget exhausted for '' @ pf_provider_id ?p) \<and>
      fst (reserve ?p 86402 (unreserve ?p 86399 ?db2)) = Inr ()"
    by (rule late_release_forgets_budget [of _ _ ?r2]) (simp_all add: id k sample_profile_def)
  ultimately show ?thesis by (auto simp: id)
qed

end
