(* ===== verification/Mission_Contracts.thy ===== *)
theory Mission_Contracts
  imports "HOL-Library.Product_Lexorder" Py_Float Contracts_Actions
begin

text \<open>
  \<open>contracts/missions.py\<close>: opportunity briefs, mission plans with their steps and budgets, the
  records of decisions, transitions, attempts, value evidence and outcomes, and the hashes
  that identify a brief and a plan. Amounts, probabilities and durations are rational
  numbers; \<open>fr\<close> gives their literal where they are written into JSON.
\<close>

section \<open>Enumerations\<close>

datatype mission_lane = INTERNAL_MAINTENANCE | EXTERNAL_VALUE

primrec lane_value :: "mission_lane \<Rightarrow> string" where
  "lane_value INTERNAL_MAINTENANCE = ''internal-maintenance''"
| "lane_value EXTERNAL_VALUE = ''external-value''"

datatype evidence_stance = SUPPORTS | CONTRADICTS

primrec stance_value :: "evidence_stance \<Rightarrow> string" where
  "stance_value SUPPORTS = ''supports''"
| "stance_value CONTRADICTS = ''contradicts''"

datatype mission_risk = MISSION_LOW | MISSION_MEDIUM | MISSION_HIGH | MISSION_CRITICAL

primrec mission_risk_value :: "mission_risk \<Rightarrow> string" where
  "mission_risk_value MISSION_LOW = ''low''"
| "mission_risk_value MISSION_MEDIUM = ''medium''"
| "mission_risk_value MISSION_HIGH = ''high''"
| "mission_risk_value MISSION_CRITICAL = ''critical''"

datatype mission_status = M_DRAFT | M_REVIEW_REQUIRED | M_APPROVED | M_REJECTED | M_RUNNING
  | M_WAITING_APPROVAL | M_PAUSED | M_COMPLETED | M_FAILED | M_CANCELLED | M_STOPPED

primrec mission_status_value :: "mission_status \<Rightarrow> string" where
  "mission_status_value M_DRAFT = ''draft''"
| "mission_status_value M_REVIEW_REQUIRED = ''review-required''"
| "mission_status_value M_APPROVED = ''approved''"
| "mission_status_value M_REJECTED = ''rejected''"
| "mission_status_value M_RUNNING = ''running''"
| "mission_status_value M_WAITING_APPROVAL = ''waiting-approval''"
| "mission_status_value M_PAUSED = ''paused''"
| "mission_status_value M_COMPLETED = ''completed''"
| "mission_status_value M_FAILED = ''failed''"
| "mission_status_value M_CANCELLED = ''cancelled''"
| "mission_status_value M_STOPPED = ''stopped''"

datatype step_status = S_PENDING | S_RUNNING | S_WAITING_APPROVAL | S_COMPLETED | S_FAILED | S_SKIPPED | S_CANCELLED

datatype mission_decision_type = APPROVE | REJECT

primrec decision_value :: "mission_decision_type \<Rightarrow> string" where
  "decision_value APPROVE = ''approve''"
| "decision_value REJECT = ''reject''"

datatype mission_value_kind = CLAIMED | REALIZED | VERIFIED

primrec kind_value :: "mission_value_kind \<Rightarrow> string" where
  "kind_value CLAIMED = ''claimed''"
| "kind_value REALIZED = ''realized''"
| "kind_value VERIFIED = ''verified''"

datatype mission_outcome_state = Outcome_Claimed | Outcome_Realized | Outcome_Verified | Outcome_No_Value

primrec outcome_state_value :: "mission_outcome_state \<Rightarrow> string" where
  "outcome_state_value Outcome_Claimed = ''claimed''"
| "outcome_state_value Outcome_Realized = ''realized''"
| "outcome_state_value Outcome_Verified = ''verified''"
| "outcome_state_value Outcome_No_Value = ''no-value''"

section \<open>Records\<close>

record opportunity_evidence =
  oe_source :: string
  oe_statement :: string
  oe_stance :: evidence_stance
  oe_observed_at :: string
  oe_external_reference :: "string option"
  oe_independent_source_id :: "string option"
  oe_verified :: bool
  oe_metadata :: "(string, pyval) dict"
  oe_evidence_id :: string
  oe_content_hash :: string

record expected_value_brief =
  eb_title :: string
  eb_lane :: mission_lane
  eb_problem_statement :: string
  eb_beneficiary :: string
  eb_value_proposition :: string
  eb_probability_success :: rat
  eb_upside_usd :: rat
  eb_estimated_cost_usd :: rat
  eb_estimated_duration_hours :: rat
  eb_expected_net_value_usd :: rat
  eb_revenue_hypothesis :: string
  eb_assumptions :: "string list"
  eb_evidence :: "opportunity_evidence list"
  eb_contradiction_evidence_ids :: "string list"
  eb_independent_support_count :: int
  eb_risk :: mission_risk
  eb_confidence :: rat
  eb_blockers :: "string list"
  eb_metadata :: "(string, pyval) dict"
  eb_brief_id :: string
  eb_brief_hash :: string
  eb_created_at :: instant

record mission_budget =
  mb_max_cost_usd :: rat
  mb_max_duration_seconds :: int
  mb_max_step_attempts :: int
  mb_max_high_risk_actions :: int
  mb_minimum_expected_value_usd :: rat

text \<open>\<open>MissionBudget.validate\<close>: the message of the error it raises, if any.\<close>

definition validate_budget :: "mission_budget \<Rightarrow> string option" where
  "validate_budget b =
     (if mb_max_cost_usd b < 0 then Some ''max_cost_usd cannot be negative''
      else if mb_max_duration_seconds b < 1 then Some ''max_duration_seconds must be positive''
      else if mb_max_step_attempts b < 1 then Some ''max_step_attempts must be positive''
      else if mb_max_high_risk_actions b < 0 then Some ''max_high_risk_actions cannot be negative''
      else None)"

record mission_step =
  sp_title :: string
  sp_action :: action_proposal
  sp_success_criteria :: "string list"
  sp_depends_on :: "string list"
  sp_max_attempts :: int
  sp_stop_on_failure :: bool
  sp_explicit_retry_reason :: "string option"
  sp_estimated_cost_usd :: rat
  sp_metadata :: "(string, pyval) dict"
  sp_step_id :: string
  sp_step_order :: int

record mission_plan =
  mp_brief_id :: string
  mp_objective :: string
  mp_lane :: mission_lane
  mp_northstar_alignment :: string
  mp_northstar_principle_ids :: "string list"
  mp_strategy_tags :: "string list"
  mp_steps :: "mission_step list"
  mp_budget :: mission_budget
  mp_stop_conditions :: "string list"
  mp_metadata :: "(string, pyval) dict"
  mp_mission_id :: string
  mp_plan_hash :: string
  mp_created_at :: instant

record mission_decision =
  md_mission_id :: string
  md_decision :: mission_decision_type
  md_principal :: string
  md_channel :: string
  md_reason :: string
  md_decision_id :: string
  md_decided_at :: instant

record mission_transition =
  mt_mission_id :: string
  mt_from_status :: mission_status
  mt_to_status :: mission_status
  mt_principal :: string
  mt_reason :: string
  mt_metadata :: "(string, pyval) dict"
  mt_transition_id :: string
  mt_created_at :: instant

record step_attempt =
  sa_mission_id :: string
  sa_step_id :: string
  sa_attempt_number :: int
  sa_status :: step_status
  sa_action_id :: string
  sa_approval_id :: "string option"
  sa_output :: pyval
  sa_error :: "string option"
  sa_failure_fingerprint :: "string option"
  sa_estimated_cost_usd :: rat
  sa_metadata :: "(string, pyval) dict"
  sa_attempt_id :: string
  sa_started_at :: instant
  sa_completed_at :: "instant option"

record value_evidence =
  ve_mission_id :: string
  ve_kind :: mission_value_kind
  ve_description :: string
  ve_source :: string
  ve_amount_usd :: "rat option"
  ve_external_reference :: "string option"
  ve_related_evidence_id :: "string option"
  ve_verified_by :: "string option"
  ve_metadata :: "(string, pyval) dict"
  ve_evidence_id :: string
  ve_observed_at :: instant

record mission_outcome =
  mo_mission_id :: string
  mo_state :: mission_outcome_state
  mo_achieved :: bool
  mo_summary :: string
  mo_claimed_value_usd :: rat
  mo_realized_revenue_usd :: rat
  mo_verified_revenue_usd :: rat
  mo_evidence_ids :: "string list"
  mo_lessons :: "string list"
  mo_metadata :: "(string, pyval) dict"
  mo_outcome_id :: string
  mo_created_at :: instant

record mission_execution =
  mx_mission_id :: string
  mx_status :: mission_status
  mx_completed_step_ids :: "string list"
  mx_current_step_id :: "string option"
  mx_approval_id :: "string option"
  mx_blockers :: "string list"
  mx_metadata :: "(string, pyval) dict"

section \<open>Payloads and hashes\<close>

definition evidence_hash :: "digest \<Rightarrow> string \<Rightarrow> string \<Rightarrow> string option \<Rightarrow> string" where
  "evidence_hash sha source statement reference = sha (dumps compact_utf8 (JObj [
     (''source'', JStr (strip source)), (''statement'', JStr (squeeze statement)),
     (''external_reference'', JStr (ostr_or reference []))]))"

definition opportunity_brief_hash :: "digest \<Rightarrow> (rat \<Rightarrow> string) \<Rightarrow> expected_value_brief \<Rightarrow> string" where
  "opportunity_brief_hash sha fr b = sha (dumps compact_ascii (JObj [
     (''title'', JStr (squeeze (casefold (eb_title b)))),
     (''lane'', JStr (lane_value (eb_lane b))),
     (''problem'', JStr (squeeze (casefold (eb_problem_statement b)))),
     (''beneficiary'', JStr (squeeze (casefold (eb_beneficiary b)))),
     (''value_proposition'', JStr (squeeze (casefold (eb_value_proposition b)))),
     (''probability_success'', JFloat (fr (round_to 8 (eb_probability_success b)))),
     (''upside_usd'', JFloat (fr (round_to 8 (eb_upside_usd b)))),
     (''estimated_cost_usd'', JFloat (fr (round_to 8 (eb_estimated_cost_usd b)))),
     (''evidence'', JList (map (\<lambda>(i, h, s). JList [JStr i, JStr h, JStr s])
        (sort (map (\<lambda>e. (oe_evidence_id e, oe_content_hash e, stance_value (oe_stance e))) (eb_evidence b)))))]))"

definition json_strs :: "string list \<Rightarrow> json" where
  "json_strs xs = JList (map JStr xs)"

definition step_payload :: "(rat \<Rightarrow> string) \<Rightarrow> mission_step \<Rightarrow> json" where
  "step_payload fr s = JObj [
     (''step_id'', JStr (sp_step_id s)), (''step_order'', JInt (sp_step_order s)), (''title'', JStr (sp_title s)),
     (''action'', JObj (proposal_payload (sp_action s))), (''success_criteria'', json_strs (sp_success_criteria s)),
     (''depends_on'', json_strs (sp_depends_on s)), (''max_attempts'', JInt (sp_max_attempts s)),
     (''stop_on_failure'', JBool (sp_stop_on_failure s)),
     (''explicit_retry_reason'', json_opt (sp_explicit_retry_reason s)),
     (''estimated_cost_usd'', JFloat (fr (sp_estimated_cost_usd s))),
     (''metadata'', json_safe (PDict (sp_metadata s)))]"

definition mission_plan_payload :: "(rat \<Rightarrow> string) \<Rightarrow> mission_plan \<Rightarrow> (string, json) dict" where
  "mission_plan_payload fr p = [
     (''mission_id'', JStr (mp_mission_id p)), (''brief_id'', JStr (mp_brief_id p)),
     (''objective'', JStr (mp_objective p)), (''lane'', JStr (lane_value (mp_lane p))),
     (''northstar_alignment'', JStr (mp_northstar_alignment p)),
     (''northstar_principle_ids'', json_strs (mp_northstar_principle_ids p)),
     (''strategy_tags'', json_strs (mp_strategy_tags p)),
     (''steps'', JList (map (step_payload fr) (mp_steps p))),
     (''budget'', JObj [
        (''max_cost_usd'', JFloat (fr (mb_max_cost_usd (mp_budget p)))),
        (''max_duration_seconds'', JInt (mb_max_duration_seconds (mp_budget p))),
        (''max_step_attempts'', JInt (mb_max_step_attempts (mp_budget p))),
        (''max_high_risk_actions'', JInt (mb_max_high_risk_actions (mp_budget p))),
        (''minimum_expected_value_usd'', JFloat (fr (mb_minimum_expected_value_usd (mp_budget p))))]),
     (''stop_conditions'', json_strs (mp_stop_conditions p)),
     (''metadata'', json_safe (PDict (mp_metadata p))),
     (''plan_hash'', JStr (mp_plan_hash p)), (''created_at'', JStr (iso (mp_created_at p)))]"

definition mission_plan_hash :: "digest \<Rightarrow> (rat \<Rightarrow> string) \<Rightarrow> mission_plan \<Rightarrow> string" where
  "mission_plan_hash sha fr p =
     sha (dumps compact_utf8 (JObj (dict_pop ''plan_hash'' (dict_pop ''created_at'' (mission_plan_payload fr p)))))"

end
