(* ===== verification/Mission_Governance.thy ===== *)
theory Mission_Governance
  imports Mission_Contracts
begin

text \<open>
  \<open>missions/governance.py\<close>: the rules a brief, a plan and a decision must pass. The policy file
  and the North Star's principles and strategies are a record of what the constructor reads
  from them. \<open>_has_cycle\<close> is modelled as it runs, a depth-first search over the dependency
  graph that keeps the path and the finished nodes, and is shown to decide acyclicity.
\<close>

section \<open>Policy and validation\<close>

record mission_policy =
  mg_principle_ids :: "string list"
  mg_strategy_ids :: "string list"
  mg_trusted_principals :: "string list"
  mg_minimum_independent_sources :: int
  mg_maximum_steps :: int

text \<open>What \<open>mission_orchestrator.yaml\<close> sets.\<close>

definition shipped_mission_policy :: "string list \<Rightarrow> string list \<Rightarrow> mission_policy" where
  "shipped_mission_policy principles strategies = \<lparr>mg_principle_ids = principles, mg_strategy_ids = strategies,
     mg_trusted_principals = [''founder'', ''operator''], mg_minimum_independent_sources = 2, mg_maximum_steps = 20\<rparr>"

definition evidence_blockers :: "mission_lane \<Rightarrow> opportunity_evidence \<Rightarrow> string list" where
  "evidence_blockers lane e =
     (if blank (oe_source e) \<or> blank (oe_statement e)
      then [''evidence '' @ oe_evidence_id e @ '' requires source and statement''] else []) @
     (if lane = EXTERNAL_VALUE \<and> oe_stance e = SUPPORTS \<and> ostr_or (oe_external_reference e) [] = []
      then [''external supporting evidence '' @ oe_evidence_id e @ '' requires an external reference''] else [])"

definition validate_brief :: "mission_policy \<Rightarrow> expected_value_brief \<Rightarrow> string list" where
  "validate_brief pol b =
     (if blank (eb_title b) \<or> blank (eb_problem_statement b) \<or> blank (eb_value_proposition b)
      then [''title, problem statement, and value proposition are required''] else []) @
     (if 0 \<le> eb_probability_success b \<and> eb_probability_success b \<le> 1 then []
      else [''probability_success must be between 0 and 1'']) @
     (if 0 \<le> eb_confidence b \<and> eb_confidence b \<le> 1 then [] else [''confidence must be between 0 and 1'']) @
     (if eb_upside_usd b < 0 \<or> eb_estimated_cost_usd b < 0 \<or> eb_estimated_duration_hours b < 0
      then [''upside, cost, and duration cannot be negative''] else []) @
     concat (map (evidence_blockers (eb_lane b)) (eb_evidence b)) @
     (if eb_lane b = EXTERNAL_VALUE \<and> eb_independent_support_count b < mg_minimum_independent_sources pol
      then [''external-value opportunity requires at least '' @ int_str (mg_minimum_independent_sources pol) @
            '' independent supporting sources''] else []) @
     (if eb_contradiction_evidence_ids b \<noteq> [] then [''opportunity has unresolved contradiction evidence''] else []) @
     (if eb_lane b = EXTERNAL_VALUE \<and> blank (eb_revenue_hypothesis b)
      then [''external-value opportunity requires a measurable revenue hypothesis''] else [])"

section \<open>The dependency graph\<close>

type_synonym dep_graph = "(string, string list) dict"

definition step_graph :: "mission_plan \<Rightarrow> dep_graph" where
  "step_graph plan = dict_of_pairs (map (\<lambda>s. (sp_step_id s, sp_depends_on s)) (mp_steps plan))"

definition graph_deps :: "dep_graph \<Rightarrow> string \<Rightarrow> string list" where
  "graph_deps g n = (case dict_get g n of None \<Rightarrow> [] | Some ds \<Rightarrow> ds)"

definition visit_measure :: "dep_graph \<times> string list \<times> string list \<times> string + dep_graph \<times> string list \<times> string list \<times> string list
    \<Rightarrow> nat \<times> nat" where
  "visit_measure x = (case x of
     Inl (g, visiting, visited, node) \<Rightarrow> (card (set (keys g) - set visiting), 1)
   | Inr (g, visiting, visited, deps) \<Rightarrow> (card (set (keys g) - set visiting), 2 * length deps))"

lemma graph_deps_outside: "node \<notin> set (keys g) \<Longrightarrow> graph_deps g node = []"
  by (simp add: graph_deps_def map_of_eq_None_iff [THEN iffD2])

text \<open>
  \<open>visit\<close> and its loop over the dependencies. \<open>visiting\<close> is restored whenever a visit returns
  \<open>False\<close>, and a visit that returns \<open>True\<close> ends the search, so it is passed down; \<open>visited\<close> is
  threaded.
\<close>

function (sequential) visit :: "dep_graph \<Rightarrow> string list \<Rightarrow> string list \<Rightarrow> string \<Rightarrow> bool \<times> string list"
  and visit_all :: "dep_graph \<Rightarrow> string list \<Rightarrow> string list \<Rightarrow> string list \<Rightarrow> bool \<times> string list" where
  "visit g visiting visited node =
     (if node \<in> set visited then (False, visited)
      else if node \<in> set visiting then (True, visited)
      else (case visit_all g (node # visiting) visited (graph_deps g node) of
          (True, visited') \<Rightarrow> (True, visited')
        | (False, visited') \<Rightarrow> (False, node # visited')))"
| "visit_all g visiting visited [] = (False, visited)"
| "visit_all g visiting visited (dep # deps) =
     (case visit g visiting visited dep of
        (True, visited') \<Rightarrow> (True, visited')
      | (False, visited') \<Rightarrow> visit_all g visiting visited' deps)"
  by pat_completeness auto

termination
proof (relation "inv_image (less_than <*lex*> less_than) visit_measure")
  fix g :: dep_graph and visiting visited :: "string list" and node :: string
  assume n: "node \<notin> set visiting"
  show "(Inr (g, node # visiting, visited, graph_deps g node), Inl (g, visiting, visited, node))
      \<in> inv_image (less_than <*lex*> less_than) visit_measure"
  proof (cases "node \<in> set (keys g)")
    case True
    have "card (set (keys g) - insert node (set visiting)) < card (set (keys g) - set visiting)"
      by (rule psubset_card_mono) (use True n in auto)
    then show ?thesis by (simp add: visit_measure_def)
  next
    case False
    then have "set (keys g) - insert node (set visiting) = set (keys g) - set visiting" by auto
    with False show ?thesis by (simp add: visit_measure_def graph_deps_outside)
  qed
qed (auto simp: visit_measure_def)

declare visit.simps [simp del]

text \<open>\<open>any(visit(node) for node in graph)\<close>.\<close>

definition has_cycle :: "mission_plan \<Rightarrow> bool" where
  "has_cycle plan = (let g = step_graph plan in fst (visit_all g [] [] (keys g)))"

section \<open>Validation of plans and decisions\<close>

definition step_blockers :: "string list \<Rightarrow> mission_step \<Rightarrow> string list" where
  "step_blockers known s =
     (if blank (sp_title s) \<or> sp_success_criteria s = []
      then [''step '' @ sp_step_id s @ '' requires title and success criteria''] else []) @
     (if sp_max_attempts s < 1 then [''step '' @ sp_step_id s @ '' max_attempts must be positive''] else []) @
     (if sp_estimated_cost_usd s < 0 then [''step '' @ sp_step_id s @ '' estimated cost cannot be negative''] else []) @
     (let missing = sort (remdups (filter (\<lambda>d. d \<notin> set known) (sp_depends_on s))) in
      if missing \<noteq> [] then [''step '' @ sp_step_id s @ '' has unknown dependencies: '' @ join '', '' missing] else []) @
     (if sp_step_id s \<in> set (sp_depends_on s) then [''step '' @ sp_step_id s @ '' cannot depend on itself''] else [])"

definition high_risk :: "mission_step \<Rightarrow> bool" where
  "high_risk s = (risk_value (ap_risk (sp_action s)) \<in> {mission_risk_value MISSION_HIGH, mission_risk_value MISSION_CRITICAL})"

definition plan_blockers :: "mission_policy \<Rightarrow> mission_plan \<Rightarrow> expected_value_brief \<Rightarrow> string list" where
  "plan_blockers pol plan brief =
     (let step_ids = map sp_step_id (mp_steps plan) in
     validate_brief pol brief @
     (case validate_budget (mp_budget plan) of None \<Rightarrow> [] | Some msg \<Rightarrow> [msg]) @
     (if mp_lane plan \<noteq> eb_lane brief then [''mission lane must match opportunity brief lane''] else []) @
     (if blank (mp_objective plan) \<or> blank (mp_northstar_alignment plan)
      then [''objective and explicit Northstar alignment are required''] else []) @
     (if set (mp_northstar_principle_ids plan) \<inter> set (mg_principle_ids pol) = {}
      then [''mission must bind at least one canonical Northstar sacred principle''] else []) @
     (if mp_lane plan = EXTERNAL_VALUE \<and> set (mp_strategy_tags plan) \<inter> set (mg_strategy_ids pol) = {}
      then [''external-value mission must bind at least one canonical business strategy''] else []) @
     (if mp_steps plan = [] then [''mission requires at least one bounded step''] else []) @
     (if mg_maximum_steps pol < int (length (mp_steps plan))
      then [''mission exceeds maximum step count '' @ int_str (mg_maximum_steps pol)] else []) @
     (if distinct step_ids then [] else [''mission step ids must be unique'']) @
     concat (map (step_blockers step_ids) (mp_steps plan)) @
     (if has_cycle plan then [''mission step dependency graph contains a cycle''] else []) @
     (if eb_expected_net_value_usd brief < mb_minimum_expected_value_usd (mp_budget plan)
      then [''expected net value is below the mission budget minimum''] else []) @
     (if mb_max_cost_usd (mp_budget plan) < sum_list (map sp_estimated_cost_usd (mp_steps plan))
      then [''estimated step cost exceeds mission cost budget''] else []) @
     (if mb_max_high_risk_actions (mp_budget plan) < int (length (filter high_risk (mp_steps plan)))
      then [''high-risk action count exceeds mission budget''] else []))"

definition validate_plan :: "mission_policy \<Rightarrow> mission_plan \<Rightarrow> expected_value_brief \<Rightarrow> string list" where
  "validate_plan pol plan brief = from_keys (plan_blockers pol plan brief)"

definition validate_decision :: "mission_policy \<Rightarrow> string \<Rightarrow> string \<Rightarrow> string list" where
  "validate_decision pol who reason =
     (if casefold (strip who) \<in> casefold ` set (mg_trusted_principals pol) then []
      else [''mission decision requires a trusted Founder/operator principal'']) @
     (if blank reason then [''mission decision reason is required''] else [])"

text \<open>\<open>_next_step\<close> of the orchestrator: the first step, in order, whose dependencies are done.\<close>

definition next_step :: "mission_plan \<Rightarrow> string list \<Rightarrow> mission_step option" where
  "next_step plan completed =
     find (\<lambda>s. sp_step_id s \<notin> set completed \<and> set (sp_depends_on s) \<subseteq> set completed) (sort_key sp_step_order (mp_steps plan))"

section \<open>Depth-first search decides cycles\<close>

definition dep_edges :: "dep_graph \<Rightarrow> (string \<times> string) set" where
  "dep_edges g = {(n, d). d \<in> set (graph_deps g n)}"

text \<open>Finished nodes: closed under dependencies and on no cycle.\<close>

definition settled :: "dep_graph \<Rightarrow> string set \<Rightarrow> bool" where
  "settled g V = ((\<forall>x \<in> V. \<forall>y. (x, y) \<in> dep_edges g \<longrightarrow> y \<in> V) \<and> (\<forall>x \<in> V. (x, x) \<notin> (dep_edges g)\<^sup>+))"

lemma settled_closed:
  assumes "settled g V" "(x, y) \<in> (dep_edges g)\<^sup>*" "x \<in> V"
  shows "y \<in> V"
  using assms(2,3)
proof (induction rule: rtrancl_induct)
  case (step y z)
  then show ?case using assms(1) by (auto simp: settled_def)
qed

lemma settled_insert:
  assumes "settled g V" "\<forall>d. (n, d) \<in> dep_edges g \<longrightarrow> d \<in> V"
  shows "settled g (insert n V)"
proof (cases "n \<in> V")
  case False
  have "(n, n) \<notin> (dep_edges g)\<^sup>+"
  proof
    assume "(n, n) \<in> (dep_edges g)\<^sup>+"
    then obtain d where "(n, d) \<in> dep_edges g" "(d, n) \<in> (dep_edges g)\<^sup>*" by (meson tranclD)
    with settled_closed [OF assms(1)] assms(2) False show False by blast
  qed
  then show ?thesis using assms by (auto simp: settled_def)
qed (use assms in \<open>simp add: insert_absorb\<close>)

lemma visit_sound:
  "visit g vs vd n = (b, vd') \<Longrightarrow> \<forall>v \<in> set vs. (v, n) \<in> (dep_edges g)\<^sup>+ \<Longrightarrow> b \<Longrightarrow> \<exists>x. (x, x) \<in> (dep_edges g)\<^sup>+"
  "visit_all g vs vd ds = (b, vd') \<Longrightarrow> \<forall>v \<in> set vs. \<forall>d \<in> set ds. (v, d) \<in> (dep_edges g)\<^sup>+ \<Longrightarrow> b \<Longrightarrow>
    \<exists>x. (x, x) \<in> (dep_edges g)\<^sup>+"
proof (induction g vs vd n and g vs vd ds arbitrary: b vd' and b vd' rule: visit_visit_all.induct)
  case (1 g vs vd n)
  consider (visited) "n \<in> set vd" | (again) "n \<notin> set vd" "n \<in> set vs" | (new) "n \<notin> set vd" "n \<notin> set vs" by blast
  then show ?case
  proof cases
    case visited
    with 1(2,4) show ?thesis by (simp add: visit.simps [of g])
  next
    case again
    with 1(3) show ?thesis by blast
  next
    case new
    obtain c vd1 where a: "visit_all g (n # vs) vd (graph_deps g n) = (c, vd1)" by (metis surj_pair)
    with 1(2,4) new have c: "c = True" by (cases c) (simp_all add: visit.simps [of g])
    have "\<forall>v \<in> set (n # vs). \<forall>d \<in> set (graph_deps g n). (v, d) \<in> (dep_edges g)\<^sup>+"
    proof (intro ballI)
      fix v d assume v: "v \<in> set (n # vs)" and "d \<in> set (graph_deps g n)"
      then have d: "(n, d) \<in> dep_edges g" by (simp add: dep_edges_def)
      show "(v, d) \<in> (dep_edges g)\<^sup>+"
        using v d 1(3) trancl_into_trancl [OF _ d, of v] by (cases "v = n") (simp_all add: r_into_trancl)
    qed
    from 1(1) [OF new a this] c show ?thesis by iprover
  qed
next
  case (2 g vs vd)
  then show ?case by simp
next
  case (3 g vs vd d ds)
  obtain c vd1 where v: "visit g vs vd d = (c, vd1)" by (metis surj_pair)
  show ?case
  proof (cases c)
    case True
    from 3(1) [OF v _ True] 3(4) show ?thesis by simp
  next
    case False
    with 3(3) v have r: "visit_all g vs vd1 ds = (b, vd')" by simp
    from 3(2) [OF v [symmetric] _ r] False 3(4,5) show ?thesis by simp
  qed
qed

lemma visit_complete:
  "visit g vs vd n = (b, vd') \<Longrightarrow> settled g (set vd) \<Longrightarrow> \<not> b \<Longrightarrow> settled g (set vd') \<and> insert n (set vd) \<subseteq> set vd'"
  "visit_all g vs vd ds = (b, vd') \<Longrightarrow> settled g (set vd) \<Longrightarrow> \<not> b \<Longrightarrow> settled g (set vd') \<and> set ds \<union> set vd \<subseteq> set vd'"
proof (induction g vs vd n and g vs vd ds arbitrary: b vd' and b vd' rule: visit_visit_all.induct)
  case (1 g vs vd n)
  consider (visited) "n \<in> set vd" | (again) "n \<notin> set vd" "n \<in> set vs" | (new) "n \<notin> set vd" "n \<notin> set vs" by blast
  then show ?case
  proof cases
    case visited
    with 1(2,3) show ?thesis by (simp add: visit.simps [of g] insert_absorb)
  next
    case again
    with 1(2,4) show ?thesis by (simp add: visit.simps [of g])
  next
    case new
    obtain c vd1 where a: "visit_all g (n # vs) vd (graph_deps g n) = (c, vd1)" by (metis surj_pair)
    with 1(2,4) new have c: "\<not> c" "vd' = n # vd1" by (cases c; simp add: visit.simps [of g])+
    from 1(1) [OF new a 1(3) c(1)] c(2) settled_insert [of g "set vd1" n] show ?thesis by (auto simp: dep_edges_def)
  qed
next
  case (2 g vs vd)
  then show ?case by simp
next
  case (3 g vs vd d ds)
  obtain c vd1 where v: "visit g vs vd d = (c, vd1)" by (metis surj_pair)
  with 3(3,5) have c: "\<not> c" by (cases c) simp_all
  with 3(3) v have r: "visit_all g vs vd1 ds = (b, vd')" by simp
  have 1: "settled g (set vd1) \<and> insert d (set vd) \<subseteq> set vd1" by (rule 3(1) [OF v 3(4) c])
  from 3(2) [OF v [symmetric] _ r _ 3(5)] c 1 show ?case by auto
qed

lemma cycle_iff: "fst (visit_all g [] [] (keys g)) \<longleftrightarrow> (\<exists>x. (x, x) \<in> (dep_edges g)\<^sup>+)"
proof -
  obtain b vd where v: "visit_all g [] [] (keys g) = (b, vd)" by (metis surj_pair)
  have "\<nexists>x. (x, x) \<in> (dep_edges g)\<^sup>+" if "\<not> b"
  proof
    assume "\<exists>x. (x, x) \<in> (dep_edges g)\<^sup>+"
    then obtain x where x: "(x, x) \<in> (dep_edges g)\<^sup>+" ..
    then obtain y where "(x, y) \<in> dep_edges g" by (meson tranclD)
    then have "x \<in> set (keys g)" by (cases "x \<in> set (keys g)") (auto simp: dep_edges_def graph_deps_outside)
    moreover have "settled g (set vd) \<and> set (keys g) \<subseteq> set vd"
      using visit_complete(2) [OF v] that by (auto simp: settled_def)
    ultimately show False using x by (auto simp: settled_def)
  qed
  then show ?thesis using visit_sound(2) [OF v] v by auto
qed

section \<open>Validated plans\<close>

definition step_edges :: "mission_plan \<Rightarrow> (string \<times> string) set" where
  "step_edges plan = (\<Union>s \<in> set (mp_steps plan). Pair (sp_step_id s) ` set (sp_depends_on s))"

lemma dep_edges_step_graph:
  assumes "distinct (map sp_step_id (mp_steps plan))"
  shows "dep_edges (step_graph plan) = step_edges plan"
proof -
  let ?kvs = "map (\<lambda>s. (sp_step_id s, sp_depends_on s)) (mp_steps plan)"
  have d: "distinct (map fst ?kvs)" using assms by (simp add: comp_def)
  then have g: "step_graph plan = ?kvs" by (simp add: step_graph_def)
  show ?thesis
  proof (intro set_eqI iffI)
    fix e assume "e \<in> dep_edges (step_graph plan)"
    then obtain n m where e: "e = (n, m)" "m \<in> set (graph_deps ?kvs n)" unfolding g by (auto simp: dep_edges_def)
    then obtain ds where "dict_get ?kvs n = Some ds" "m \<in> set ds"
      by (cases "dict_get ?kvs n") (simp_all add: graph_deps_def)
    then show "e \<in> step_edges plan" using map_of_SomeD [of ?kvs n ds] e(1) by (auto simp: step_edges_def)
  next
    fix e assume "e \<in> step_edges plan"
    then obtain s m where "s \<in> set (mp_steps plan)" "e = (sp_step_id s, m)" "m \<in> set (sp_depends_on s)"
      by (auto simp: step_edges_def)
    moreover from this(1) have "dict_get ?kvs (sp_step_id s) = Some (sp_depends_on s)"
      using map_of_is_SomeI [OF d] by simp
    ultimately show "e \<in> dep_edges (step_graph plan)" unfolding g by (simp add: dep_edges_def graph_deps_def)
  qed
qed

lemma has_cycle_iff:
  "distinct (map sp_step_id (mp_steps plan)) \<Longrightarrow> has_cycle plan \<longleftrightarrow> (\<exists>x. (x, x) \<in> (step_edges plan)\<^sup>+)"
  by (simp add: has_cycle_def Let_def cycle_iff dep_edges_step_graph)

text \<open>What the absence of blockers says of a plan's steps.\<close>

lemma valid_plan_steps:
  assumes "validate_plan pol plan brief = []"
  shows "distinct (map sp_step_id (mp_steps plan))" "\<not> has_cycle plan" "mp_steps plan \<noteq> []"
    "s \<in> set (mp_steps plan) \<Longrightarrow> set (sp_depends_on s) \<subseteq> sp_step_id ` set (mp_steps plan)"
    "s \<in> set (mp_steps plan) \<Longrightarrow> 1 \<le> sp_max_attempts s"
    "sum_list (map sp_estimated_cost_usd (mp_steps plan)) \<le> mb_max_cost_usd (mp_budget plan)"
proof -
  have b: "plan_blockers pol plan brief = []" using assms by (simp add: validate_plan_def)
  show "distinct (map sp_step_id (mp_steps plan))" "\<not> has_cycle plan" "mp_steps plan \<noteq> []"
    "sum_list (map sp_estimated_cost_usd (mp_steps plan)) \<le> mb_max_cost_usd (mp_budget plan)"
    using b by (auto simp: plan_blockers_def Let_def split: if_splits)
  assume s: "s \<in> set (mp_steps plan)"
  have "concat (map (step_blockers (map sp_step_id (mp_steps plan))) (mp_steps plan)) = []"
    using b by (simp only: plan_blockers_def Let_def append_is_Nil_conv)
  with s have "step_blockers (map sp_step_id (mp_steps plan)) s = []" by simp
  then have "sort (remdups (filter (\<lambda>d. d \<notin> set (map sp_step_id (mp_steps plan))) (sp_depends_on s))) = []"
    and "1 \<le> sp_max_attempts s"
    by (auto simp: step_blockers_def Let_def split: if_splits)
  then have "set (filter (\<lambda>d. d \<notin> set (map sp_step_id (mp_steps plan))) (sp_depends_on s)) = {}"
    by (metis set_sort set_remdups set_empty)
  then show "set (sp_depends_on s) \<subseteq> sp_step_id ` set (mp_steps plan)" by auto
  show "1 \<le> sp_max_attempts s" by fact
qed

lemma next_step_exists:
  assumes "validate_plan pol plan brief = []" "s0 \<in> set (mp_steps plan)" "sp_step_id s0 \<notin> set completed"
  shows "\<exists>s. next_step plan completed = Some s"
proof -
  note v = valid_plan_steps [OF assms(1)]
  let ?Q = "{x \<in> sp_step_id ` set (mp_steps plan). x \<notin> set completed}"
  have "finite (step_edges plan)" by (simp add: step_edges_def)
  moreover have "acyclic (step_edges plan)" using has_cycle_iff [OF v(1)] v(2) by (simp add: acyclic_def)
  ultimately have "wf ((step_edges plan)\<inverse>)" by (rule finite_acyclic_wf_converse)
  moreover have "sp_step_id s0 \<in> ?Q" using assms(2,3) by simp
  ultimately obtain x where x: "x \<in> ?Q" "\<And>y. (y, x) \<in> (step_edges plan)\<inverse> \<Longrightarrow> y \<notin> ?Q" by (rule wfE_min) blast
  then obtain s where s: "s \<in> set (mp_steps plan)" "x = sp_step_id s" by blast
  have "set (sp_depends_on s) \<subseteq> set completed"
  proof
    fix d assume d: "d \<in> set (sp_depends_on s)"
    then have "(d, x) \<in> (step_edges plan)\<inverse>" using s by (auto simp: step_edges_def)
    with x(2) v(4) [OF s(1)] d show "d \<in> set completed" by blast
  qed
  with s x(1) have "find (\<lambda>s. sp_step_id s \<notin> set completed \<and> set (sp_depends_on s) \<subseteq> set completed)
      (sort_key sp_step_order (mp_steps plan)) \<noteq> None"
    by (auto simp: find_None_iff)
  then show ?thesis by (simp add: next_step_def)
qed

lemma next_step_ok:
  "next_step plan completed = Some s \<Longrightarrow>
    s \<in> set (mp_steps plan) \<and> sp_step_id s \<notin> set completed \<and> set (sp_depends_on s) \<subseteq> set completed"
  unfolding next_step_def find_Some_iff by (metis nth_mem set_sort)

section \<open>Properties\<close>

text \<open>
  C20: The depth-first search of the governor decides exactly whether the dependencies of a
  plan with unique step identifiers are cyclic: it answers true if and only if some step
  reaches itself along dependencies, and it always ends.
\<close>

theorem has_cycle_correct:
  assumes "distinct (map sp_step_id (mp_steps plan))"
  shows "has_cycle plan \<longleftrightarrow>
    (\<exists>x. (x, x) \<in> {(sp_step_id s, d) | s d. s \<in> set (mp_steps plan) \<and> d \<in> set (sp_depends_on s)}\<^sup>+)"
proof -
  have "step_edges plan = {(sp_step_id s, d) | s d. s \<in> set (mp_steps plan) \<and> d \<in> set (sp_depends_on s)}"
    by (auto simp: step_edges_def)
  with has_cycle_iff [OF assms] show ?thesis by simp
qed

definition sample_step :: "string \<Rightarrow> string list \<Rightarrow> mission_step" where
  "sample_step i deps = \<lparr>sp_title = ''t'', sp_action = sample_proposal, sp_success_criteria = [''c''], sp_depends_on = deps,
     sp_max_attempts = 1, sp_stop_on_failure = True, sp_explicit_retry_reason = None, sp_estimated_cost_usd = 1,
     sp_metadata = [], sp_step_id = i, sp_step_order = 1\<rparr>"

definition sample_budget :: mission_budget where
  "sample_budget = \<lparr>mb_max_cost_usd = 10, mb_max_duration_seconds = 3600, mb_max_step_attempts = 10,
     mb_max_high_risk_actions = 0, mb_minimum_expected_value_usd = 0\<rparr>"

definition sample_plan :: "mission_step list \<Rightarrow> mission_plan" where
  "sample_plan steps = \<lparr>mp_brief_id = ''b'', mp_objective = ''o'', mp_lane = INTERNAL_MAINTENANCE, mp_northstar_alignment = ''n'',
     mp_northstar_principle_ids = [''SC1''], mp_strategy_tags = [], mp_steps = steps, mp_budget = sample_budget,
     mp_stop_conditions = [], mp_metadata = [], mp_mission_id = ''m'', mp_plan_hash = [], mp_created_at = 0\<rparr>"

definition sample_brief :: expected_value_brief where
  "sample_brief = \<lparr>eb_title = ''t'', eb_lane = INTERNAL_MAINTENANCE, eb_problem_statement = ''p'', eb_beneficiary = ''b'',
     eb_value_proposition = ''v'', eb_probability_success = 1 / 2, eb_upside_usd = 10, eb_estimated_cost_usd = 1,
     eb_estimated_duration_hours = 1, eb_expected_net_value_usd = 4, eb_revenue_hypothesis = [], eb_assumptions = [],
     eb_evidence = [], eb_contradiction_evidence_ids = [], eb_independent_support_count = 0, eb_risk = MISSION_LOW,
     eb_confidence = 1 / 2, eb_blockers = [], eb_metadata = [], eb_brief_id = ''b'', eb_brief_hash = ''h'', eb_created_at = 0\<rparr>"

theorem has_cycle_correct_witness:
  "has_cycle (sample_plan [sample_step ''a'' [''b''], sample_step ''b'' [''a'']])"
proof -
  let ?p = "sample_plan [sample_step ''a'' [''b''], sample_step ''b'' [''a'']]"
  let ?E = "{(sp_step_id s, d) | s d. s \<in> set (mp_steps ?p) \<and> d \<in> set (sp_depends_on s)}"
  have d: "distinct (map sp_step_id (mp_steps ?p))" by (simp add: sample_plan_def sample_step_def)
  have "(sp_step_id s, d) \<in> ?E" if "s \<in> set (mp_steps ?p)" "d \<in> set (sp_depends_on s)" for s d using that by blast
  from this [of "sample_step ''a'' [''b'']" "''b''"] this [of "sample_step ''b'' [''a'']" "''a''"]
  have "(''a'', ''b'') \<in> ?E" "(''b'', ''a'') \<in> ?E" by (simp_all add: sample_plan_def sample_step_def)
  then have "(''a'', ''a'') \<in> ?E\<^sup>+" by (meson r_into_trancl trancl_into_trancl)
  with has_cycle_correct [OF d] show ?thesis by blast
qed

text \<open>
  C21: A validated plan never gets stuck: whatever set of steps is completed, as long as one is
  not, there is a next step, it belongs to the plan, is not yet completed, and everything it
  depends on is.
\<close>

theorem valid_plan_never_stuck:
  assumes "validate_plan pol plan brief = []" and "\<not> sp_step_id ` set (mp_steps plan) \<subseteq> set completed"
  shows "\<exists>s \<in> set (mp_steps plan). next_step plan completed = Some s \<and> sp_step_id s \<notin> set completed \<and>
    set (sp_depends_on s) \<subseteq> set completed"
proof -
  from assms(2) obtain s0 where "s0 \<in> set (mp_steps plan)" "sp_step_id s0 \<notin> set completed" by auto
  from next_step_exists [OF assms(1) this] obtain s where "next_step plan completed = Some s" ..
  with next_step_ok [OF this] show ?thesis by auto
qed

definition sample_policy :: mission_policy where
  "sample_policy = shipped_mission_policy [''SC1''] []"

lemma sample_plan_valid: "validate_plan sample_policy (sample_plan [sample_step ''a'' [], sample_step ''b'' [''a'']]) sample_brief = []"
  by code_simp

theorem valid_plan_never_stuck_witness:
  "next_step (sample_plan [sample_step ''a'' [], sample_step ''b'' [''a'']]) [''a''] = Some (sample_step ''b'' [''a''])"
proof -
  let ?p = "sample_plan [sample_step ''a'' [], sample_step ''b'' [''a'']]"
  have "\<not> sp_step_id ` set (mp_steps ?p) \<subseteq> set [''a'']" by (simp add: sample_plan_def sample_step_def)
  from valid_plan_never_stuck [OF sample_plan_valid this] show ?thesis
    by (auto simp: sample_plan_def sample_step_def)
qed

end
