(* ===== verification/Mission_Store.thy ===== *)
theory Mission_Store
  imports Mission_Contracts
begin

text \<open>
  \<open>SQLiteMissionStore\<close> of \<open>missions/store.py\<close>: append-only tables of briefs, plans, decisions,
  transitions, attempts, value evidence and outcomes, in the order of insertion. Triggers
  refuse updates and deletions, so there is no operation that makes one. A payload column
  holds the value it encodes. Primary keys, unique columns and foreign keys are checked: a
  violation raises and leaves the table as it was.
\<close>

record mission_store =
  mi_briefs :: "expected_value_brief list"
  mi_plans :: "mission_plan list"
  mi_decisions :: "mission_decision list"
  mi_transitions :: "mission_transition list"
  mi_attempts :: "step_attempt list"
  mi_values :: "value_evidence list"
  mi_outcomes :: "mission_outcome list"

definition empty_missions :: mission_store where
  "empty_missions = \<lparr>mi_briefs = [], mi_plans = [], mi_decisions = [], mi_transitions = [], mi_attempts = [],
     mi_values = [], mi_outcomes = []\<rparr>"

datatype mission_error = Mission_Not_Found string | Mission_Blocked "string list" | Mission_Decision_Conflict string
  | Mission_Sql_Error | Mission_Stop_Iteration

type_synonym 'a mission_op = "mission_store \<Rightarrow> (mission_error + 'a) \<times> mission_store"

text \<open>\<open>ORDER BY t DESC, rowid DESC LIMIT 1\<close>.\<close>

definition latest :: "('a \<Rightarrow> instant) \<Rightarrow> 'a list \<Rightarrow> 'a option" where
  "latest t xs = (if xs = [] then None else Some (last (sort_key t xs)))"

text \<open>\<open>max(1, min(limit, bound))\<close>.\<close>

definition clip :: "int \<Rightarrow> int \<Rightarrow> nat" where
  "clip bound limit = nat (max 1 (min limit bound))"

section \<open>Briefs, plans, decisions\<close>

definition add_brief :: "expected_value_brief \<Rightarrow> expected_value_brief mission_op" where
  "add_brief b s =
     (case find (\<lambda>x. eb_brief_hash x = eb_brief_hash b) (mi_briefs s) of
        Some existing \<Rightarrow> (Inr existing, s)
      | None \<Rightarrow> if eb_brief_id b \<in> eb_brief_id ` set (mi_briefs s) then (Inl Mission_Sql_Error, s)
                else (Inr b, s\<lparr>mi_briefs := mi_briefs s @ [b]\<rparr>))"

definition get_brief :: "string \<Rightarrow> mission_store \<Rightarrow> mission_error + expected_value_brief" where
  "get_brief i s = of_option (Mission_Not_Found i) (find (\<lambda>x. eb_brief_id x = i) (mi_briefs s))"

definition list_briefs :: "int \<Rightarrow> mission_store \<Rightarrow> expected_value_brief list" where
  "list_briefs limit s = take (clip 2000 limit) (sort_key (\<lambda>x. - eb_created_at x) (mi_briefs s))"

definition get_plan :: "string \<Rightarrow> mission_store \<Rightarrow> mission_error + mission_plan" where
  "get_plan i s = of_option (Mission_Not_Found i) (find (\<lambda>x. mp_mission_id x = i) (mi_plans s))"

definition add_plan :: "mission_plan \<Rightarrow> mission_plan mission_op" where
  "add_plan p s =
     (case get_brief (mp_brief_id p) s of
        Inl e \<Rightarrow> (Inl e, s)
      | Inr _ \<Rightarrow>
          (case find (\<lambda>x. mp_plan_hash x = mp_plan_hash p) (mi_plans s) of
             Some existing \<Rightarrow> (Inr existing, s)
           | None \<Rightarrow> if mp_mission_id p \<in> mp_mission_id ` set (mi_plans s) then (Inl Mission_Sql_Error, s)
                     else (Inr p, s\<lparr>mi_plans := mi_plans s @ [p]\<rparr>)))"

definition list_plans :: "int \<Rightarrow> mission_store \<Rightarrow> mission_plan list" where
  "list_plans limit s = take (clip 2000 limit) (sort_key (\<lambda>x. - mp_created_at x) (mi_plans s))"

definition get_decision :: "string \<Rightarrow> mission_store \<Rightarrow> mission_decision option" where
  "get_decision i s = find (\<lambda>d. md_mission_id d = i) (mi_decisions s)"

definition add_decision :: "mission_decision \<Rightarrow> mission_decision mission_op" where
  "add_decision d s =
     (case get_decision (md_mission_id d) s of
        Some existing \<Rightarrow> (Inr existing, s)
      | None \<Rightarrow> if md_decision_id d \<in> md_decision_id ` set (mi_decisions s)
                   \<or> md_mission_id d \<notin> mp_mission_id ` set (mi_plans s) then (Inl Mission_Sql_Error, s)
                else (Inr d, s\<lparr>mi_decisions := mi_decisions s @ [d]\<rparr>))"

section \<open>Transitions\<close>

definition mission_transitions :: "string \<Rightarrow> mission_store \<Rightarrow> mission_transition list" where
  "mission_transitions i s = filter (\<lambda>t. mt_mission_id t = i) (mi_transitions s)"

definition status_or_draft :: "string \<Rightarrow> mission_store \<Rightarrow> mission_status" where
  "status_or_draft i s = (case latest mt_created_at (mission_transitions i s) of
     None \<Rightarrow> M_DRAFT | Some t \<Rightarrow> mt_to_status t)"

definition current_status :: "string \<Rightarrow> mission_store \<Rightarrow> mission_error + mission_status" where
  "current_status i s = bindE (get_plan i s) (\<lambda>_. Inr (status_or_draft i s))"

definition transitions :: "string \<Rightarrow> int \<Rightarrow> mission_store \<Rightarrow> mission_transition list" where
  "transitions i limit s = take (clip 5000 limit) (rev (sort_key mt_created_at (mission_transitions i s)))"

definition transition :: "string \<Rightarrow> instant \<Rightarrow> string \<Rightarrow> mission_status \<Rightarrow> string \<Rightarrow> string \<Rightarrow> (string, pyval) dict
    \<Rightarrow> mission_transition mission_op" where
  "transition hex now i to_status who reason metadata s =
     (case current_status i s of
        Inl e \<Rightarrow> (Inl e, s)
      | Inr current \<Rightarrow>
          (let latest_rows = transitions i 1 s;
               item = \<lparr>mt_mission_id = i, mt_from_status = current, mt_to_status = to_status, mt_principal = who,
                 mt_reason = reason, mt_metadata = metadata, mt_transition_id = new_id ''mission-transition'' hex,
                 mt_created_at = now\<rparr>
           in if current = to_status \<and> latest_rows \<noteq> [] then (Inr (hd latest_rows), s)
              else if mt_transition_id item \<in> mt_transition_id ` set (mi_transitions s) then (Inl Mission_Sql_Error, s)
              else (Inr item, s\<lparr>mi_transitions := mi_transitions s @ [item]\<rparr>)))"

section \<open>Attempts, value evidence, outcomes\<close>

definition add_attempt :: "step_attempt \<Rightarrow> step_attempt mission_op" where
  "add_attempt a s =
     (if sa_attempt_id a \<in> sa_attempt_id ` set (mi_attempts s) \<or> sa_mission_id a \<notin> mp_mission_id ` set (mi_plans s)
      then (Inl Mission_Sql_Error, s) else (Inr a, s\<lparr>mi_attempts := mi_attempts s @ [a]\<rparr>))"

definition attempts :: "string \<Rightarrow> string option \<Rightarrow> int \<Rightarrow> mission_store \<Rightarrow> step_attempt list" where
  "attempts i step limit s =
     take (clip 10000 limit) (sort_key sa_started_at
       (filter (\<lambda>a. sa_mission_id a = i \<and> (ostr_or step [] = [] \<or> step = Some (sa_step_id a))) (mi_attempts s)))"

definition latest_attempt :: "string \<Rightarrow> string \<Rightarrow> mission_store \<Rightarrow> step_attempt option" where
  "latest_attempt i step s =
     latest sa_started_at (filter (\<lambda>a. sa_mission_id a = i \<and> sa_step_id a = step) (mi_attempts s))"

definition add_value_evidence :: "value_evidence \<Rightarrow> value_evidence mission_op" where
  "add_value_evidence v s =
     (case get_plan (ve_mission_id v) s of
        Inl e \<Rightarrow> (Inl e, s)
      | Inr _ \<Rightarrow> if ve_evidence_id v \<in> ve_evidence_id ` set (mi_values s) then (Inl Mission_Sql_Error, s)
                 else (Inr v, s\<lparr>mi_values := mi_values s @ [v]\<rparr>))"

definition get_value_evidence :: "string \<Rightarrow> mission_store \<Rightarrow> mission_error + value_evidence" where
  "get_value_evidence i s = of_option (Mission_Not_Found i) (find (\<lambda>v. ve_evidence_id v = i) (mi_values s))"

definition value_evidence_of :: "string \<Rightarrow> mission_store \<Rightarrow> value_evidence list" where
  "value_evidence_of i s = sort_key ve_observed_at (filter (\<lambda>v. ve_mission_id v = i) (mi_values s))"

definition add_outcome :: "mission_outcome \<Rightarrow> mission_outcome mission_op" where
  "add_outcome out s =
     (if mo_outcome_id out \<in> mo_outcome_id ` set (mi_outcomes s) \<or> mo_mission_id out \<notin> mp_mission_id ` set (mi_plans s)
      then (Inl Mission_Sql_Error, s) else (Inr out, s\<lparr>mi_outcomes := mi_outcomes s @ [out]\<rparr>))"

definition latest_outcome :: "string \<Rightarrow> mission_store \<Rightarrow> mission_outcome option" where
  "latest_outcome i s = latest mo_created_at (filter (\<lambda>x. mo_mission_id x = i) (mi_outcomes s))"

text \<open>The counts of \<open>status\<close>.\<close>

definition all_statuses :: "mission_status list" where
  "all_statuses = [M_DRAFT, M_REVIEW_REQUIRED, M_APPROVED, M_REJECTED, M_RUNNING, M_WAITING_APPROVAL, M_PAUSED,
     M_COMPLETED, M_FAILED, M_CANCELLED, M_STOPPED]"

definition status_counts :: "mission_store \<Rightarrow> int \<times> int \<times> (string \<times> int) list" where
  "status_counts s =
     (let plans = list_plans 5000 s in
      (int (length (list_briefs 5000 s)), int (length plans),
       map (\<lambda>st. (mission_status_value st,
         int (length (filter (\<lambda>p. status_or_draft (mp_mission_id p) s = st) plans)))) all_statuses))"

section \<open>Lemmas\<close>

lemma insort_key_snoc: "f a \<le> f x \<Longrightarrow> insort_key f a (ys @ [x]) = insort_key f a ys @ [x]"
  by (induction ys) auto

lemma sort_key_snoc: "\<forall>y \<in> set xs. f y \<le> f x \<Longrightarrow> sort_key f (xs @ [x]) = sort_key f xs @ [x]"
  by (induction xs) (simp_all add: insort_key_snoc)

lemma latest_snoc: "\<forall>y \<in> set xs. t y \<le> t x \<Longrightarrow> latest t (xs @ [x]) = Some x"
  by (simp add: latest_def sort_key_snoc)

lemma latest_in: "latest t xs = Some x \<Longrightarrow> x \<in> set xs"
  by (auto simp: latest_def split: if_splits) (metis last_in_set set_empty set_sort)

lemma latest_None [simp]: "latest t xs = None \<longleftrightarrow> xs = []"
  by (simp add: latest_def)

end
