(* ===== verification/Mission_Orchestrator.thy ===== *)
theory Mission_Orchestrator
  imports Mission_Governance Mission_Store Action_Path
begin

text \<open>
  \<open>missions/orchestrator.py\<close>: from an opportunity over a reviewed plan to its bounded,
  resumable execution, the evidence of its value and its outcome; and the gateway adapter
  \<open>missions/execution.py\<close> that answers for pending approvals.

  \<open>run\<close> is cut at its awaits. \<open>run_begin\<close> goes to the first of them, \<open>run_approval\<close> continues
  with the answer of \<open>approval_result\<close>, \<open>run_result\<close> with the result of the action; a piece ends
  with an execution report or with what it awaits next. Each piece reads the clock once. The
  evolution engine is asked for the identifier of a trigger, the memory fabric for that of a
  record; both are arguments.
\<close>

section \<open>State\<close>

record mission_env =
  me_sha :: digest
  me_float :: "rat \<Rightarrow> string"
  me_hex :: "nat \<Rightarrow> string"
  me_policy :: mission_policy
  me_has_bus :: bool
  me_register_trigger :: "(string \<Rightarrow> string) option"
  me_has_memory :: bool
  me_maximum_steps_per_run :: int

record mission_state =
  ms_store :: mission_store
  ms_journal :: "event list"
  ms_counter :: nat

definition initial_missions :: mission_state where
  "initial_missions = \<lparr>ms_store = empty_missions, ms_journal = [], ms_counter = 0\<rparr>"

type_synonym 'a mission = "(mission_state, mission_error, 'a) comp"

definition mission_hex :: "mission_env \<Rightarrow> string mission" where
  "mission_hex env st = (Inr (me_hex env (ms_counter st)), st\<lparr>ms_counter := Suc (ms_counter st)\<rparr>)"

definition on_store :: "'a mission_op \<Rightarrow> 'a mission" where
  "on_store f st = (case f (ms_store st) of (r, s) \<Rightarrow> (r, st\<lparr>ms_store := s\<rparr>))"

definition read_store :: "(mission_store \<Rightarrow> mission_error + 'a) \<Rightarrow> 'a mission" where
  "read_store f st = (f (ms_store st), st)"

definition orchestrator_id :: string where
  "orchestrator_id = ''aether.mission-orchestrator''"

definition mission_emit :: "mission_env \<Rightarrow> instant \<Rightarrow> event_type \<Rightarrow> (string, json) dict \<Rightarrow> string \<Rightarrow> unit mission" where
  "mission_emit env now t payload severity =
     (if me_has_bus env then
        bindS (mission_hex env) (\<lambda>hex. modS (\<lambda>st. st\<lparr>ms_journal := ms_journal st @
          [canon_event (make_event hex now (event_value t) orchestrator_id payload severity None None)]\<rparr>))
      else ret ())"

definition move :: "mission_env \<Rightarrow> instant \<Rightarrow> string \<Rightarrow> mission_status \<Rightarrow> string \<Rightarrow> string \<Rightarrow> (string, pyval) dict \<Rightarrow> unit mission" where
  "move env now i to_status who reason metadata =
     bindS (mission_hex env) (\<lambda>hex.
     bindS (on_store (transition hex now i to_status who reason metadata)) (\<lambda>_. ret ()))"

definition terminal :: "mission_status \<Rightarrow> bool" where
  "terminal st = (st \<in> {M_REJECTED, M_COMPLETED, M_FAILED, M_CANCELLED, M_STOPPED})"

section \<open>Reading the progress of a mission\<close>

definition step_done :: "mission_plan \<Rightarrow> mission_store \<Rightarrow> mission_step \<Rightarrow> bool" where
  "step_done plan s step = (case latest_attempt (mp_mission_id plan) (sp_step_id step) s of
     None \<Rightarrow> False | Some a \<Rightarrow> sa_status a = S_COMPLETED)"

definition completed_step_ids :: "mission_plan \<Rightarrow> mission_store \<Rightarrow> string list" where
  "completed_step_ids plan s = remdups (map sp_step_id (filter (step_done plan s) (mp_steps plan)))"

definition next_attempt_number :: "string \<Rightarrow> string \<Rightarrow> mission_store \<Rightarrow> int" where
  "next_attempt_number i step s =
     (let ns = map sa_attempt_number (attempts i (Some step) 1000 s) in (if ns = [] then 0 else Max (set ns)) + 1)"

text \<open>\<open>unique\<close>: the last attempt row of each step and attempt number.\<close>

definition unique_attempts :: "mission_plan \<Rightarrow> mission_store \<Rightarrow> (string \<times> int, step_attempt) dict" where
  "unique_attempts plan s =
     dict_of_pairs (map (\<lambda>a. ((sa_step_id a, sa_attempt_number a), a)) (attempts (mp_mission_id plan) None 1000 s))"

definition started_at :: "mission_plan \<Rightarrow> mission_store \<Rightarrow> instant option" where
  "started_at plan s =
     map_option mt_created_at (find (\<lambda>t. mt_to_status t = M_RUNNING) (rev (transitions (mp_mission_id plan) 5000 s)))"

definition budget_blockers :: "instant \<Rightarrow> mission_plan \<Rightarrow> mission_store \<Rightarrow> string list" where
  "budget_blockers now plan s =
     (let unique = unique_attempts plan s; budget = mp_budget plan in
      (if mb_max_cost_usd budget < sum_list (map (sa_estimated_cost_usd \<circ> snd) unique)
       then [''mission cost budget exceeded''] else []) @
      (if mb_max_step_attempts budget \<le> int (length unique) then [''mission step-attempt budget exhausted''] else []) @
      (case started_at plan s of None \<Rightarrow> []
       | Some t \<Rightarrow> if mb_max_duration_seconds budget < now - t then [''mission duration budget exceeded''] else []))"

definition execution :: "mission_plan \<Rightarrow> string option \<Rightarrow> string option \<Rightarrow> string list \<Rightarrow> (string, pyval) dict
    \<Rightarrow> mission_execution mission" where
  "execution plan step approval blockers metadata =
     bindS (read_store (current_status (mp_mission_id plan))) (\<lambda>status.
     bindS (getS (\<lambda>st. completed_step_ids plan (ms_store st))) (\<lambda>completed.
     ret \<lparr>mx_mission_id = mp_mission_id plan, mx_status = status, mx_completed_step_ids = sort completed,
          mx_current_step_id = step, mx_approval_id = approval, mx_blockers = blockers, mx_metadata = metadata\<rparr>))"

section \<open>Intake, planning, decision\<close>

record opportunity_request =
  or_title :: string
  or_lane :: mission_lane
  or_problem_statement :: string
  or_beneficiary :: string
  or_value_proposition :: string
  or_probability_success :: rat
  or_upside_usd :: rat
  or_estimated_cost_usd :: rat
  or_estimated_duration_hours :: rat
  or_revenue_hypothesis :: string
  or_assumptions :: "string list"
  or_evidence :: "opportunity_evidence list"
  or_risk :: mission_risk
  or_confidence :: rat
  or_metadata :: "(string, pyval) dict"

definition normalize_evidence :: "digest \<Rightarrow> instant \<Rightarrow> opportunity_evidence \<Rightarrow> opportunity_evidence" where
  "normalize_evidence sha now e = e\<lparr>oe_observed_at := str_or (oe_observed_at e) (iso now),
     oe_content_hash := str_or (oe_content_hash e) (evidence_hash sha (oe_source e) (oe_statement e) (oe_external_reference e))\<rparr>"

definition source_of :: "opportunity_evidence \<Rightarrow> string" where
  "source_of e = ostr_or (oe_independent_source_id e) (oe_source e)"

definition supporting_sources :: "opportunity_evidence list \<Rightarrow> string list" where
  "supporting_sources es = remdups (map (casefold \<circ> strip \<circ> source_of)
     (filter (\<lambda>e. oe_stance e = SUPPORTS \<and> \<not> blank (source_of e)) es))"

definition draft_brief :: "digest \<Rightarrow> string \<Rightarrow> instant \<Rightarrow> opportunity_request \<Rightarrow> expected_value_brief" where
  "draft_brief sha hex now r =
     (let es = map (normalize_evidence sha now) (or_evidence r) in
      \<lparr>eb_title = or_title r, eb_lane = or_lane r, eb_problem_statement = or_problem_statement r,
       eb_beneficiary = or_beneficiary r, eb_value_proposition = or_value_proposition r,
       eb_probability_success = or_probability_success r, eb_upside_usd = or_upside_usd r,
       eb_estimated_cost_usd = or_estimated_cost_usd r, eb_estimated_duration_hours = or_estimated_duration_hours r,
       eb_expected_net_value_usd = or_probability_success r * or_upside_usd r - or_estimated_cost_usd r,
       eb_revenue_hypothesis = or_revenue_hypothesis r, eb_assumptions = or_assumptions r, eb_evidence = es,
       eb_contradiction_evidence_ids = map oe_evidence_id (filter (\<lambda>e. oe_stance e = CONTRADICTS) es),
       eb_independent_support_count = int (length (supporting_sources es)), eb_risk = or_risk r,
       eb_confidence = or_confidence r, eb_blockers = [], eb_metadata = or_metadata r,
       eb_brief_id = new_id ''opp-brief'' hex, eb_brief_hash = [], eb_created_at = now\<rparr>)"

definition intake_opportunity :: "mission_env \<Rightarrow> instant \<Rightarrow> opportunity_request \<Rightarrow> expected_value_brief mission" where
  "intake_opportunity env now r =
     bindS (mission_hex env) (\<lambda>hex.
     let draft = draft_brief (me_sha env) hex now r;
         brief = draft\<lparr>eb_blockers := validate_brief (me_policy env) draft\<rparr>;
         brief' = brief\<lparr>eb_brief_hash := opportunity_brief_hash (me_sha env) (me_float env) brief\<rparr> in
     bindS (on_store (add_brief brief')) (\<lambda>saved.
     bindS (mission_emit env now MISSION_OPPORTUNITY_INTAKE
       [(''brief_id'', JStr (eb_brief_id saved)), (''lane'', JStr (lane_value (eb_lane saved))),
        (''expected_net_value_usd'', JFloat (me_float env (eb_expected_net_value_usd saved))),
        (''independent_support_count'', JInt (eb_independent_support_count saved)),
        (''contradiction_count'', JInt (int (length (eb_contradiction_evidence_ids saved)))),
        (''blockers'', json_strs (eb_blockers saved))]
       (if eb_blockers saved \<noteq> [] then ''warning'' else ''info'')) (\<lambda>_.
     ret saved)))"

record plan_request =
  pq_brief_id :: string
  pq_objective :: string
  pq_northstar_alignment :: string
  pq_northstar_principle_ids :: "string list"
  pq_strategy_tags :: "string list"
  pq_steps :: "mission_step list"
  pq_budget :: mission_budget
  pq_stop_conditions :: "string list"
  pq_metadata :: "(string, pyval) dict"

text \<open>\<open>enumerate(steps, start=1)\<close>.\<close>

fun order_steps :: "int \<Rightarrow> mission_step list \<Rightarrow> mission_step list" where
  "order_steps n [] = []"
| "order_steps n (s # ss) = s\<lparr>sp_step_order := n\<rparr> # order_steps (n + 1) ss"

definition create_plan :: "mission_env \<Rightarrow> instant \<Rightarrow> plan_request \<Rightarrow> mission_plan mission" where
  "create_plan env now r =
     bindS (read_store (get_brief (pq_brief_id r))) (\<lambda>brief.
     bindS (mission_hex env) (\<lambda>hex.
     let draft = \<lparr>mp_brief_id = pq_brief_id r, mp_objective = pq_objective r, mp_lane = eb_lane brief,
           mp_northstar_alignment = pq_northstar_alignment r, mp_northstar_principle_ids = pq_northstar_principle_ids r,
           mp_strategy_tags = pq_strategy_tags r, mp_steps = order_steps 1 (pq_steps r), mp_budget = pq_budget r,
           mp_stop_conditions = pq_stop_conditions r, mp_metadata = pq_metadata r,
           mp_mission_id = new_id ''mission'' hex, mp_plan_hash = [], mp_created_at = now\<rparr>;
         blockers = validate_plan (me_policy env) draft brief in
     if blockers \<noteq> [] then throw (Mission_Blocked blockers)
     else (let plan = draft\<lparr>mp_plan_hash := mission_plan_hash (me_sha env) (me_float env) draft\<rparr> in
       bindS (on_store (add_plan plan)) (\<lambda>saved.
       bindS (move env now (mp_mission_id saved) M_REVIEW_REQUIRED orchestrator_id ''mission plan requires trusted review'' []) (\<lambda>_.
       bindS (mission_emit env now MISSION_PLAN_PROPOSED
         [(''mission_id'', JStr (mp_mission_id saved)), (''brief_id'', JStr (mp_brief_id saved)),
          (''lane'', JStr (lane_value (mp_lane saved))), (''plan_hash'', JStr (mp_plan_hash saved)),
          (''step_count'', JInt (int (length (mp_steps saved)))),
          (''max_cost_usd'', JFloat (me_float env (mb_max_cost_usd (mp_budget saved))))] ''info'') (\<lambda>_.
       ret saved))))))"

definition mission_decide :: "mission_env \<Rightarrow> instant \<Rightarrow> string \<Rightarrow> bool \<Rightarrow> string \<Rightarrow> string \<Rightarrow> string \<Rightarrow> mission_decision mission" where
  "mission_decide env now i approved who channel reason =
     (let blockers = validate_decision (me_policy env) who reason;
          requested = (if approved then APPROVE else REJECT) in
      if blockers \<noteq> [] then throw (Mission_Blocked blockers)
      else bindS (getS (\<lambda>st. get_decision i (ms_store st))) (\<lambda>existing.
        case existing of
          Some d \<Rightarrow> if md_decision d \<noteq> requested
            then throw (Mission_Decision_Conflict (''mission already has terminal decision '' @ decision_value (md_decision d)))
            else ret d
        | None \<Rightarrow>
            bindS (mission_hex env) (\<lambda>hex.
            bindS (on_store (add_decision \<lparr>md_mission_id = i, md_decision = requested, md_principal = who, md_channel = channel,
              md_reason = reason, md_decision_id = new_id ''mission-decision'' hex, md_decided_at = now\<rparr>)) (\<lambda>d.
            bindS (move env now i (if approved then M_APPROVED else M_REJECTED) who reason
              [(''decision_id'', PStr (md_decision_id d))]) (\<lambda>_.
            bindS (mission_emit env now (if approved then MISSION_APPROVED else MISSION_REJECTED)
              [(''mission_id'', JStr i), (''decision_id'', JStr (md_decision_id d)), (''principal'', JStr who),
               (''reason'', JStr reason)] (if approved then ''info'' else ''warning'')) (\<lambda>_.
            ret d))))))"

section \<open>Execution\<close>

record run_frame =
  rf_plan :: mission_plan
  rf_principal :: string
  rf_limit :: int
  rf_completed :: int

text \<open>What a piece of \<open>run\<close> ends with: a report, or the await it reached.\<close>

datatype run_step =
    Run_Done mission_execution
  | Await_Approval run_frame step_attempt
  | Await_Action run_frame mission_step int action_proposal instant

definition run_done :: "mission_execution mission \<Rightarrow> run_step mission" where
  "run_done m = bindS m (\<lambda>x. ret (Run_Done x))"

definition stop_mission :: "mission_env \<Rightarrow> instant \<Rightarrow> run_frame \<Rightarrow> string list \<Rightarrow> run_step mission" where
  "stop_mission env now f blockers =
     (let plan = rf_plan f; i = mp_mission_id plan in
      bindS (move env now i M_STOPPED (rf_principal f) (join ''; '' blockers)
        [(''stop_conditions'', PList (map PStr blockers))]) (\<lambda>_.
      bindS (mission_emit env now MISSION_STOPPED [(''mission_id'', JStr i), (''blockers'', json_strs blockers)] ''warning'') (\<lambda>_.
      run_done (execution plan None None blockers []))))"

definition mission_fingerprint :: "digest \<Rightarrow> string \<Rightarrow> string \<Rightarrow> string \<Rightarrow> string" where
  "mission_fingerprint sha i step error = sha (i @ '':'' @ step @ '':'' @ squeeze (casefold error))"

definition fail_mission :: "mission_env \<Rightarrow> instant \<Rightarrow> run_frame \<Rightarrow> mission_step \<Rightarrow> string \<Rightarrow> string option \<Rightarrow> run_step mission" where
  "fail_mission env now f step error fp =
     (let plan = rf_plan f; i = mp_mission_id plan in
      bindS (move env now i M_FAILED (rf_principal f) error
        [(''step_id'', PStr (sp_step_id step)), (''failure_fingerprint'', opt_str fp)]) (\<lambda>_.
      bindS (mission_emit env now MISSION_FAILED
        [(''mission_id'', JStr i), (''step_id'', JStr (sp_step_id step)), (''error'', JStr error),
         (''failure_fingerprint'', json_opt fp)] ''error'') (\<lambda>_.
      bindS (case me_register_trigger env of
          None \<Rightarrow> ret ()
        | Some register \<Rightarrow> mission_emit env now MISSION_CEE_LEARNING_TRIGGERED
            [(''mission_id'', JStr i),
             (''trigger_id'', JStr (register (ostr_or fp (mission_fingerprint (me_sha env) i (sp_step_id step) error)))),
             (''authority'', JStr ''learning-trigger-only'')] ''warning'') (\<lambda>_.
      run_done (execution plan (Some (sp_step_id step)) None [error] [])))))"

definition complete_mission :: "mission_env \<Rightarrow> instant \<Rightarrow> run_frame \<Rightarrow> string list \<Rightarrow> run_step mission" where
  "complete_mission env now f completed =
     (let plan = rf_plan f; i = mp_mission_id plan in
      bindS (move env now i M_COMPLETED (rf_principal f) ''all mission steps completed'' []) (\<lambda>_.
      bindS (mission_emit env now MISSION_COMPLETED
        [(''mission_id'', JStr i), (''completed_step_ids'', json_strs (sort completed))] ''info'') (\<lambda>_.
      run_done (execution plan None None [] []))))"

text \<open>The action of a step with the metadata the orchestrator adds.\<close>

definition step_action :: "mission_env \<Rightarrow> mission_plan \<Rightarrow> mission_step \<Rightarrow> bool \<Rightarrow> int \<Rightarrow> action_proposal" where
  "step_action env plan step retry n =
     (sp_action step)\<lparr>
       ap_retry_reason := (if retry then sp_explicit_retry_reason step else ap_retry_reason (sp_action step)),
       ap_metadata := dict_update (ap_metadata (sp_action step)) [
         (''mission_id'', PStr (mp_mission_id plan)), (''mission_step_id'', PStr (sp_step_id step)),
         (''mission_lane'', PStr (lane_value (mp_lane plan))),
         (''estimated_cost_usd'', PFloat (me_float env (sp_estimated_cost_usd step))),
         (''success_criteria'', PList (map PStr (sp_success_criteria step))), (''mission_attempt_number'', PInt n)]\<rparr>"

text \<open>The choice of a step and its start, up to the await of \<open>action_executor.execute\<close>.\<close>

definition start_step :: "mission_env \<Rightarrow> instant \<Rightarrow> run_frame \<Rightarrow> mission_step \<Rightarrow> run_step mission" where
  "start_step env now f step =
     (let plan = rf_plan f; i = mp_mission_id plan in
      bindS (getS (\<lambda>st. (latest_attempt i (sp_step_id step) (ms_store st), next_attempt_number i (sp_step_id step) (ms_store st))))
        (\<lambda>(latest_row, n).
      let failed = (case latest_row of None \<Rightarrow> False | Some a \<Rightarrow> sa_status a = S_FAILED) in
      if failed \<and> sp_max_attempts step < n then
        fail_mission env now f step
          (case latest_row of None \<Rightarrow> [] | Some a \<Rightarrow> ostr_or (sa_error a) ''step exhausted retry budget'')
          (case latest_row of None \<Rightarrow> None | Some a \<Rightarrow> sa_failure_fingerprint a)
      else if failed \<and> blank (ostr_or (sp_explicit_retry_reason step) []) then
        bindS (move env now i M_PAUSED (rf_principal f) ''failed step requires explicit retry reason''
          [(''step_id'', PStr (sp_step_id step))]) (\<lambda>_.
        bindS (mission_emit env now MISSION_PAUSED [(''mission_id'', JStr i), (''step_id'', JStr (sp_step_id step)),
          (''reason'', JStr ''explicit retry reason required'')] ''warning'') (\<lambda>_.
        run_done (execution plan (Some (sp_step_id step)) None
          [''explicit retry reason required before repeating failed step''] [])))
      else
        (let action = step_action env plan step failed n in
        bindS (mission_emit env now MISSION_STEP_STARTED
          [(''mission_id'', JStr i), (''step_id'', JStr (sp_step_id step)), (''step_order'', JInt (sp_step_order step)),
           (''attempt_number'', JInt n), (''action_id'', JStr (ap_action_id action))] ''info'') (\<lambda>_.
        ret (Await_Action f step n action now)))))"

definition pause_at_limit :: "mission_env \<Rightarrow> instant \<Rightarrow> run_frame \<Rightarrow> run_step mission" where
  "pause_at_limit env now f =
     (let plan = rf_plan f; i = mp_mission_id plan in
      bindS (getS (\<lambda>st. completed_step_ids plan (ms_store st))) (\<lambda>completed.
      if length completed = length (mp_steps plan) then complete_mission env now f completed
      else
        bindS (move env now i M_PAUSED (rf_principal f) ''bounded continuation checkpoint''
          [(''maximum_steps_per_run'', PInt (rf_limit f))]) (\<lambda>_.
        bindS (mission_emit env now MISSION_PAUSED [(''mission_id'', JStr i),
          (''reason'', JStr ''bounded continuation checkpoint''), (''completed_this_run'', JInt (rf_completed f))] ''info'') (\<lambda>_.
        run_done (execution plan None None [''bounded continuation checkpoint reached''] [(''continuation_allowed'', PBool True)])))))"

text \<open>The head of the \<open>while\<close> loop.\<close>

definition run_loop :: "mission_env \<Rightarrow> instant \<Rightarrow> run_frame \<Rightarrow> run_step mission" where
  "run_loop env now f =
     (let plan = rf_plan f in
      if rf_limit f \<le> rf_completed f then pause_at_limit env now f
      else bindS (getS (\<lambda>st. (completed_step_ids plan (ms_store st), budget_blockers now plan (ms_store st)))) (\<lambda>(completed, blockers).
        if length completed = length (mp_steps plan) then complete_mission env now f completed
        else if blockers \<noteq> [] then stop_mission env now f blockers
        else (case next_step plan completed of
            None \<Rightarrow> stop_mission env now f [''no executable step remains; dependency graph is blocked'']
          | Some step \<Rightarrow> start_step env now f step)))"

definition run_continue :: "mission_env \<Rightarrow> instant \<Rightarrow> run_frame \<Rightarrow> run_step mission" where
  "run_continue env now f =
     bindS (getS (\<lambda>st. budget_blockers now (rf_plan f) (ms_store st))) (\<lambda>blockers.
     if blockers \<noteq> [] then stop_mission env now f blockers else run_loop env now f)"

text \<open>\<open>_resume_waiting_approval\<close> up to its await.\<close>

definition resume_waiting :: "mission_env \<Rightarrow> instant \<Rightarrow> run_frame \<Rightarrow> run_step mission" where
  "resume_waiting env now f =
     (let plan = rf_plan f; i = mp_mission_id plan in
      bindS (getS (\<lambda>st. filter (\<lambda>a. sa_status a = S_WAITING_APPROVAL) (attempts i None 1000 (ms_store st)))) (\<lambda>waiting.
      if waiting = [] then
        bindS (move env now i M_PAUSED (rf_principal f) ''approval checkpoint missing'' []) (\<lambda>_.
        run_done (execution plan None None [''approval checkpoint missing''] []))
      else (let item = last waiting in
        if ostr_or (sa_approval_id item) [] = [] then
          run_done (execution plan (Some (sa_step_id item)) None [''approval id missing from checkpoint''] [])
        else ret (Await_Approval f item))))"

definition run_begin :: "mission_env \<Rightarrow> instant \<Rightarrow> string \<Rightarrow> string \<Rightarrow> int option \<Rightarrow> run_step mission" where
  "run_begin env now i who maximum_steps =
     bindS (read_store (get_plan i)) (\<lambda>plan.
     bindS (read_store (current_status i)) (\<lambda>status.
     let per_run = max 1 (me_maximum_steps_per_run env);
         wanted = (case maximum_steps of None \<Rightarrow> per_run | Some n \<Rightarrow> if n = 0 then per_run else n);
         f = \<lparr>rf_plan = plan, rf_principal = who, rf_limit = max 1 (min wanted per_run), rf_completed = 0\<rparr> in
     if terminal status then run_done (execution plan None None [''mission is terminal: '' @ mission_status_value status] [])
     else if status \<in> {M_DRAFT, M_REVIEW_REQUIRED}
     then throw (Mission_Blocked [''mission requires trusted approval before execution''])
     else
       bindS (if status = M_PAUSED then
                bindS (move env now i M_RUNNING who ''mission resumed'' []) (\<lambda>_.
                mission_emit env now MISSION_RESUMED [(''mission_id'', JStr i), (''principal'', JStr who)] ''info'')
              else if status = M_APPROVED then
                bindS (move env now i M_RUNNING who ''mission execution started'' []) (\<lambda>_.
                mission_emit env now MISSION_STARTED [(''mission_id'', JStr i), (''lane'', JStr (lane_value (mp_lane plan)))] ''info'')
              else ret ()) (\<lambda>_.
       bindS (read_store (current_status i)) (\<lambda>status'.
       if status' = M_WAITING_APPROVAL then resume_waiting env now f else run_continue env now f))))"

definition with_metadata :: "(string, pyval) dict \<Rightarrow> action_result \<Rightarrow> (string, pyval) dict" where
  "with_metadata d r = dict_update d (ar_metadata r)"

text \<open>\<open>run\<close> from the answer of \<open>approval_result\<close> on.\<close>

definition run_approval :: "mission_env \<Rightarrow> instant \<Rightarrow> run_frame \<Rightarrow> step_attempt \<Rightarrow> action_result option \<Rightarrow> run_step mission" where
  "run_approval env now f item result =
     (let plan = rf_plan f; i = mp_mission_id plan in
      case result of
        None \<Rightarrow> run_done (execution plan (Some (sa_step_id item)) (sa_approval_id item) [] [])
      | Some r \<Rightarrow>
          (case find (\<lambda>s. sp_step_id s = sa_step_id item) (mp_steps plan) of
             None \<Rightarrow> throw Mission_Stop_Iteration
           | Some step \<Rightarrow>
               bindS (mission_hex env) (\<lambda>hex.
               let resumed = item\<lparr>sa_attempt_id := new_id ''mission-attempt'' hex,
                     sa_metadata := dict_set ''resumed_from_approval'' (opt_str (sa_approval_id item))
                       (with_metadata (sa_metadata item) r),
                     sa_completed_at := Some now\<rparr> in
               if ar_ok r then
                 bindS (on_store (add_attempt (resumed\<lparr>sa_status := S_COMPLETED, sa_output := ar_output r, sa_error := None,
                   sa_failure_fingerprint := None\<rparr>))) (\<lambda>_.
                 bindS (move env now i M_RUNNING (rf_principal f) ''approved mission step resumed''
                   [(''approval_id'', opt_str (sa_approval_id item)), (''step_id'', PStr (sa_step_id item))]) (\<lambda>_.
                 bindS (mission_emit env now MISSION_RESUMED [(''mission_id'', JStr i), (''step_id'', JStr (sa_step_id item)),
                   (''approval_id'', json_opt (sa_approval_id item))] ''info'') (\<lambda>_.
                 bindS (mission_emit env now MISSION_STEP_COMPLETED [(''mission_id'', JStr i),
                   (''step_id'', JStr (sa_step_id item)), (''approval_id'', json_opt (sa_approval_id item))] ''info'') (\<lambda>_.
                 run_continue env now f))))
               else (let failed = resumed\<lparr>sa_status := S_FAILED, sa_error := Some (ostr_or (ar_error r) (ar_status r)),
                       sa_failure_fingerprint := ar_failure_fingerprint r\<rparr> in
                 bindS (on_store (add_attempt failed)) (\<lambda>_.
                 fail_mission env now f step (ostr_or (sa_error failed) ''approved action failed'')
                   (sa_failure_fingerprint failed))))))"

text \<open>\<open>run\<close> from the result of the action on: the rest of the loop body and the next head.\<close>

definition run_result :: "mission_env \<Rightarrow> instant \<Rightarrow> run_frame \<Rightarrow> mission_step \<Rightarrow> int \<Rightarrow> action_proposal \<Rightarrow> instant
    \<Rightarrow> action_result \<Rightarrow> run_step mission" where
  "run_result env now f step n action started r =
     (let plan = rf_plan f; i = mp_mission_id plan; sid = sp_step_id step in
      bindS (mission_hex env) (\<lambda>hex.
      let attempt = \<lparr>sa_mission_id = i, sa_step_id = sid, sa_attempt_number = n, sa_status = S_WAITING_APPROVAL,
            sa_action_id = ap_action_id action, sa_approval_id = None, sa_output = PNone, sa_error = None,
            sa_failure_fingerprint = None, sa_estimated_cost_usd = sp_estimated_cost_usd step,
            sa_metadata = dict_set ''action_status'' (PStr (ar_status r)) (ar_metadata r),
            sa_attempt_id = new_id ''mission-attempt'' hex, sa_started_at = started, sa_completed_at = Some now\<rparr>;
          next = f\<lparr>rf_completed := rf_completed f + 1\<rparr> in
      if ar_status r = ''pending-approval'' then
        (let approval_id = pv_get_or (ar_metadata r) ''approval_id'' [] in
         bindS (on_store (add_attempt (attempt\<lparr>sa_approval_id := (if approval_id = [] then None else Some approval_id),
           sa_metadata := [(''action_status'', PStr (ar_status r))], sa_completed_at := None\<rparr>))) (\<lambda>_.
         bindS (move env now i M_WAITING_APPROVAL (rf_principal f) ''mission step requires trusted action approval''
           [(''step_id'', PStr sid), (''approval_id'', PStr approval_id)]) (\<lambda>_.
         bindS (mission_emit env now MISSION_STEP_WAITING_APPROVAL [(''mission_id'', JStr i), (''step_id'', JStr sid),
           (''approval_id'', JStr approval_id)] ''warning'') (\<lambda>_.
         run_done (execution plan (Some sid) (Some approval_id) [] [])))))
      else if ar_ok r then
        bindS (on_store (add_attempt (attempt\<lparr>sa_status := S_COMPLETED, sa_output := ar_output r\<rparr>))) (\<lambda>_.
        bindS (mission_emit env now MISSION_STEP_COMPLETED [(''mission_id'', JStr i), (''step_id'', JStr sid),
          (''attempt_number'', JInt n), (''action_id'', JStr (ap_action_id action))] ''info'') (\<lambda>_.
        run_loop env now next))
      else
        bindS (on_store (add_attempt (attempt\<lparr>sa_status := S_FAILED, sa_error := ar_error r,
          sa_failure_fingerprint := ar_failure_fingerprint r\<rparr>))) (\<lambda>_.
        bindS (mission_emit env now MISSION_STEP_FAILED [(''mission_id'', JStr i), (''step_id'', JStr sid),
          (''attempt_number'', JInt n), (''failure_fingerprint'', json_opt (ar_failure_fingerprint r)),
          (''error'', json_opt (ar_error r))] ''error'') (\<lambda>_.
        if sp_stop_on_failure step \<or> sp_max_attempts step \<le> n
        then fail_mission env now f step (ostr_or (ar_error r) ''mission step failed'') (ar_failure_fingerprint r)
        else run_loop env now next))))"

section \<open>Control\<close>

definition pause :: "mission_env \<Rightarrow> instant \<Rightarrow> string \<Rightarrow> string \<Rightarrow> string \<Rightarrow> mission_execution mission" where
  "pause env now i who reason =
     bindS (read_store (current_status i)) (\<lambda>status.
     if terminal status then throw (Mission_Blocked [''cannot pause terminal mission '' @ mission_status_value status])
     else
       bindS (move env now i M_PAUSED who reason []) (\<lambda>_.
       bindS (mission_emit env now MISSION_PAUSED [(''mission_id'', JStr i), (''principal'', JStr who), (''reason'', JStr reason)] ''info'') (\<lambda>_.
       bindS (read_store (get_plan i)) (\<lambda>plan. execution plan None None [] []))))"

definition cancel :: "mission_env \<Rightarrow> instant \<Rightarrow> string \<Rightarrow> string \<Rightarrow> string \<Rightarrow> mission_execution mission" where
  "cancel env now i who reason =
     bindS (read_store (current_status i)) (\<lambda>status.
     if status = M_COMPLETED then throw (Mission_Blocked [''completed mission cannot be cancelled''])
     else
       bindS (move env now i M_CANCELLED who reason []) (\<lambda>_.
       bindS (mission_emit env now MISSION_CANCELLED [(''mission_id'', JStr i), (''principal'', JStr who), (''reason'', JStr reason)] ''warning'') (\<lambda>_.
       bindS (read_store (get_plan i)) (\<lambda>plan. execution plan None None [] []))))"

section \<open>Value and outcome\<close>

text \<open>The blockers of \<open>record_value_evidence\<close>; a missing related row raises.\<close>

definition related_blockers :: "string \<Rightarrow> rat option \<Rightarrow> value_evidence \<Rightarrow> string list" where
  "related_blockers i amount related =
     (if ve_mission_id related \<noteq> i \<or> ve_kind related \<noteq> REALIZED
      then [''verified value must reference realized evidence from the same mission''] else []) @
     (case (amount, ve_amount_usd related) of
        (Some a, Some b) \<Rightarrow> if b < a then [''verified amount cannot exceed related realized amount''] else []
      | _ \<Rightarrow> [])"

definition verified_blockers :: "mission_policy \<Rightarrow> string \<Rightarrow> rat option \<Rightarrow> string option \<Rightarrow> string option \<Rightarrow> mission_store
    \<Rightarrow> mission_error + string list" where
  "verified_blockers pol i amount related_id verified_by s =
     (let v = (if ostr_or verified_by [] = [] \<or> casefold (ostr_or verified_by []) \<notin> casefold ` set (mg_trusted_principals pol)
               then [''verified value requires a trusted Founder/operator verifier''] else []) in
      if ostr_or related_id [] = [] then Inr (v @ [''verified value must reference realized evidence''])
      else bindE (get_value_evidence (ostr_or related_id []) s) (\<lambda>related. Inr (v @ related_blockers i amount related)))"

definition value_blockers :: "mission_policy \<Rightarrow> string \<Rightarrow> mission_value_kind \<Rightarrow> string \<Rightarrow> string \<Rightarrow> rat option \<Rightarrow> string option
    \<Rightarrow> string option \<Rightarrow> string option \<Rightarrow> mission_store \<Rightarrow> mission_error + string list" where
  "value_blockers pol i kind description source amount reference related_id verified_by s =
     (let b = (if blank description \<or> blank source then [''value evidence description and source are required''] else []) @
        (case amount of None \<Rightarrow> [] | Some a \<Rightarrow> if a < 0 then [''value amount cannot be negative''] else []) @
        (if kind \<in> {REALIZED, VERIFIED} \<and> ostr_or reference [] = []
         then [''realized and verified value require an external evidence reference''] else []) in
      if kind = VERIFIED then bindE (verified_blockers pol i amount related_id verified_by s) (\<lambda>v. Inr (b @ v)) else Inr b)"

definition record_value_evidence :: "mission_env \<Rightarrow> instant \<Rightarrow> string \<Rightarrow> mission_value_kind \<Rightarrow> string \<Rightarrow> string \<Rightarrow> rat option
    \<Rightarrow> string option \<Rightarrow> string option \<Rightarrow> string option \<Rightarrow> (string, pyval) dict \<Rightarrow> value_evidence mission" where
  "record_value_evidence env now i kind description source amount reference related_id verified_by metadata =
     bindS (read_store (value_blockers (me_policy env) i kind description source amount reference related_id verified_by)) (\<lambda>blockers.
     if blockers \<noteq> [] then throw (Mission_Blocked blockers)
     else
       bindS (mission_hex env) (\<lambda>hex.
       bindS (on_store (add_value_evidence \<lparr>ve_mission_id = i, ve_kind = kind, ve_description = description, ve_source = source,
         ve_amount_usd = amount, ve_external_reference = reference, ve_related_evidence_id = related_id,
         ve_verified_by = verified_by, ve_metadata = metadata, ve_evidence_id = new_id ''mission-value'' hex,
         ve_observed_at = now\<rparr>)) (\<lambda>item.
       bindS (mission_emit env now MISSION_VALUE_RECORDED
         [(''mission_id'', JStr i), (''evidence_id'', JStr (ve_evidence_id item)), (''kind'', JStr (kind_value kind)),
          (''amount_usd'', case amount of None \<Rightarrow> JNull | Some a \<Rightarrow> JFloat (me_float env a))] ''info'') (\<lambda>_.
       ret item))))"

definition amount_of :: "mission_value_kind \<Rightarrow> value_evidence list \<Rightarrow> rat" where
  "amount_of kind vs = sum_list (map (\<lambda>v. case ve_amount_usd v of None \<Rightarrow> 0 | Some a \<Rightarrow> a) (filter (\<lambda>v. ve_kind v = kind) vs))"

definition outcome_state :: "value_evidence list \<Rightarrow> mission_outcome_state" where
  "outcome_state vs = (if 0 < amount_of VERIFIED vs then Outcome_Verified else if 0 < amount_of REALIZED vs then Outcome_Realized
     else if 0 < amount_of CLAIMED vs then Outcome_Claimed else Outcome_No_Value)"

text \<open>\<open>finalize\<close> up to the memory fabric; what it remembers is announced by \<open>finalize_remembered\<close>.\<close>

definition mission_finalize :: "mission_env \<Rightarrow> instant \<Rightarrow> string \<Rightarrow> bool \<Rightarrow> string \<Rightarrow> string list \<Rightarrow> string \<Rightarrow> mission_outcome mission" where
  "mission_finalize env now i achieved summary lessons who =
     (let blockers = validate_decision (me_policy env) who summary in
      if blockers \<noteq> [] then throw (Mission_Blocked blockers)
      else bindS (read_store (current_status i)) (\<lambda>status.
        if status \<notin> {M_COMPLETED, M_FAILED, M_STOPPED, M_CANCELLED}
        then throw (Mission_Blocked [''mission outcome requires terminal execution state; current status is '' @ mission_status_value status])
        else bindS (getS (\<lambda>st. latest_outcome i (ms_store st))) (\<lambda>prior.
          if prior \<noteq> None then throw (Mission_Blocked [''mission outcome is already finalized''])
          else bindS (read_store (get_plan i)) (\<lambda>plan.
            bindS (getS (\<lambda>st. value_evidence_of i (ms_store st))) (\<lambda>vs.
            bindS (mission_hex env) (\<lambda>hex.
            bindS (on_store (add_outcome \<lparr>mo_mission_id = i, mo_state = outcome_state vs, mo_achieved = achieved, mo_summary = summary,
              mo_claimed_value_usd = amount_of CLAIMED vs, mo_realized_revenue_usd = amount_of REALIZED vs,
              mo_verified_revenue_usd = amount_of VERIFIED vs, mo_evidence_ids = map ve_evidence_id vs, mo_lessons = lessons,
              mo_metadata = [(''principal'', PStr who), (''lane'', PStr (lane_value (mp_lane plan))), (''claimed_is_not_revenue'', PBool True)],
              mo_outcome_id = new_id ''mission-outcome'' hex, mo_created_at = now\<rparr>)) (\<lambda>out.
            bindS (mission_emit env now MISSION_OUTCOME_RECORDED
              [(''mission_id'', JStr i), (''outcome_id'', JStr (mo_outcome_id out)), (''state'', JStr (outcome_state_value (mo_state out))),
               (''claimed_value_usd'', JFloat (me_float env (mo_claimed_value_usd out))),
               (''realized_revenue_usd'', JFloat (me_float env (mo_realized_revenue_usd out))),
               (''verified_revenue_usd'', JFloat (me_float env (mo_verified_revenue_usd out)))] ''info'') (\<lambda>_.
            ret out))))))))"

definition finalize_remembered :: "mission_env \<Rightarrow> instant \<Rightarrow> string \<Rightarrow> string \<Rightarrow> unit mission" where
  "finalize_remembered env now i record_id =
     (if me_has_memory env then mission_emit env now MISSION_KNOWLEDGE_CANDIDATE_RECORDED
        [(''mission_id'', JStr i), (''record_id'', JStr record_id)] ''info'' else ret ())"

section \<open>The gateway's answer for a pending approval\<close>

definition approval_result :: "digest \<Rightarrow> string \<Rightarrow> approval_store \<Rightarrow> approval_error + action_result option" where
  "approval_result sha i s =
     (case store_get sha i s of
        Inl (Approval_Not_Found j) \<Rightarrow> Inr (Some \<lparr>ar_action_id = i, ar_ok = False, ar_status = ''approval-not-found'', ar_output = PNone,
          ar_error = Some ''approval checkpoint no longer exists'', ar_metadata = [], ar_failure_fingerprint = None\<rparr>)
      | Inl e \<Rightarrow> Inl e
      | Inr pa \<Rightarrow>
          if pa_status pa \<in> {PENDING, APPROVED, EXECUTING} then Inr None
          else if pa_status pa = CONSUMED then
            Inr (Some (case pa_result pa of Some r \<Rightarrow> r
              | None \<Rightarrow> \<lparr>ar_action_id = pa_action_id pa, ar_ok = False, ar_status = ''consumed-without-result'', ar_output = PNone,
                  ar_error = Some ''approval consumed without cached result'', ar_metadata = [], ar_failure_fingerprint = None\<rparr>))
          else Inr (Some \<lparr>ar_action_id = pa_action_id pa, ar_ok = False, ar_status = status_value (pa_status pa), ar_output = PNone,
            ar_error = Some (''mission action approval ended in state '' @ status_value (pa_status pa)),
            ar_metadata = [(''approval_id'', PStr i)], ar_failure_fingerprint = None\<rparr>))"

end
