(* ===== verification/Mission_Safety.thy ===== *)
theory Mission_Safety
  imports Mission_Orchestrator
begin

text \<open>
  The mission orchestrator as a whole: every call of it, and the runs awaiting an answer, as a
  transition system; what keeps an assertion about the store is proved once, in a locale, and
  used for each invariant.
\<close>

section \<open>Rules\<close>

text \<open>Weakest precondition of a computation that returns; an exception satisfies it.\<close>

definition yields :: "('s, 'e, 'a) comp \<Rightarrow> ('a \<Rightarrow> 's \<Rightarrow> bool) \<Rightarrow> 's \<Rightarrow> bool" where
  "yields m Q = wp m (\<lambda>_. True) Q"

named_theorems yields_simps "weakest preconditions"

lemma yields_basic [yields_simps]:
  "yields (ret x) Q s = Q x s" "yields (throw e) Q s = True" "yields (getS f) Q s = Q (f s) s"
  "yields (modS g) R s = R () (g s)"
  by (simp_all add: yields_def wp_simps)

lemma yields_bindS [yields_simps]: "yields (bindS m f) Q s = yields m (\<lambda>x. yields (f x) Q) s"
  by (simp add: yields_def wp_simps)

lemma yields_mono: "yields m Q s \<Longrightarrow> (\<And>x s'. Q x s' \<Longrightarrow> R x s') \<Longrightarrow> yields m R s"
  unfolding yields_def by (rule wp_mono)

lemma yields_trivial: "(\<And>x s'. Q x s') \<Longrightarrow> yields m Q s"
  by (simp add: yields_def wp_def split: prod.splits sum.splits)

lemma yieldsD: "yields m Q s \<Longrightarrow> m s = (Inr x, s') \<Longrightarrow> Q x s'"
  by (simp add: yields_def wp_def)

text \<open>A returned report ends a run; what is said of awaits holds of it.\<close>

lemma yields_run_done: "(\<And>x s'. Q (Run_Done x) s') \<Longrightarrow> yields (run_done m) Q s"
  by (simp add: run_done_def yields_simps yields_trivial)

lemma yields_seq: "(\<And>x s'. yields (f x) Q s') \<Longrightarrow> yields (bindS m f) Q s"
  by (simp add: yields_simps yields_trivial)

section \<open>Assertions about the store\<close>

abbreviation store_keeps :: "(mission_store \<Rightarrow> bool) \<Rightarrow> 'a mission \<Rightarrow> bool" where
  "store_keeps P \<equiv> keeps (\<lambda>st. P (ms_store st))"

lemma on_store_keeps: "(\<And>s. P s \<Longrightarrow> P (snd (f s))) \<Longrightarrow> store_keeps P (on_store f)"
  by (simp add: keeps_def on_store_def split: prod.splits) (metis snd_conv)

lemma read_store_keeps [keeps_intros]: "store_keeps P (read_store f)"
  by (simp add: keeps_def read_store_def)

lemma mission_hex_keeps [keeps_intros]: "store_keeps P (mission_hex env)"
  by (simp add: keeps_def mission_hex_def)

lemma mission_emit_keeps [keeps_intros]: "store_keeps P (mission_emit env now t payload sev)"
  unfolding mission_emit_def by (intro keeps_intros keeps_modS) simp_all

lemma execution_keeps [keeps_intros]: "store_keeps P (execution plan step approval blockers metadata)"
  unfolding execution_def by (intro keeps_intros)

lemma run_done_keeps [keeps_intros]: "keeps P m \<Longrightarrow> keeps P (run_done m)"
  unfolding run_done_def by (intro keeps_intros)

lemma get_plan_id: "get_plan i s = Inr p \<Longrightarrow> mp_mission_id p = i"
  by (auto simp: get_plan_def of_option_def find_Some_iff split: option.splits)

lemma read_plan_keeps:
  "(\<And>p. mp_mission_id p = i \<Longrightarrow> keeps Q (f p)) \<Longrightarrow> keeps Q (bindS (read_store (get_plan i)) f)"
  by (auto simp: keeps_def bindS_def read_store_def dest: get_plan_id split: sum.splits)

text \<open>
  An assertion that insertions into the other tables keep, and the insertion of a transition
  that \<open>T\<close> allows.
\<close>

locale store_assertion =
  fixes P :: "mission_store \<Rightarrow> bool" and T :: "string \<Rightarrow> mission_status \<Rightarrow> bool"
  assumes brief: "P s \<Longrightarrow> P (s\<lparr>mi_briefs := bs\<rparr>)"
    and plan: "P s \<Longrightarrow> P (s\<lparr>mi_plans := mi_plans s @ [p]\<rparr>)"
    and decision: "P s \<Longrightarrow> P (s\<lparr>mi_decisions := mi_decisions s @ [d]\<rparr>)"
    and attempt: "P s \<Longrightarrow> P (s\<lparr>mi_attempts := as\<rparr>)"
    and result: "P s \<Longrightarrow> P (s\<lparr>mi_outcomes := os\<rparr>)"
    and moved: "P s \<Longrightarrow> T i to_status \<Longrightarrow> P (snd (transition hex now i to_status who reason metadata s))"
begin

lemma move_keeps: "T i to_status \<Longrightarrow> store_keeps P (move env now i to_status who reason metadata)"
  unfolding move_def by (intro keeps_intros on_store_keeps moved)

lemma add_attempt_keeps [keeps_intros]: "store_keeps P (on_store (add_attempt a))"
  by (rule on_store_keeps) (simp add: add_attempt_def attempt)

lemma add_decision_keeps: "store_keeps P (on_store (add_decision d))"
  by (rule on_store_keeps) (simp add: add_decision_def decision split: option.splits)

lemma intake_keeps: "store_keeps P (intake_opportunity env now r)"
  unfolding intake_opportunity_def Let_def
  by (intro keeps_intros on_store_keeps) (simp add: add_brief_def brief split: option.splits)

lemma create_plan_keeps:
  assumes "\<And>i. T i M_REVIEW_REQUIRED"
  shows "store_keeps P (create_plan env now r)"
  unfolding create_plan_def Let_def using assms
  by (intro keeps_intros move_keeps on_store_keeps) (auto simp: add_plan_def plan split: option.splits sum.splits)

lemma finalize_keeps: "store_keeps P (mission_finalize env now i achieved summary lessons who)"
  unfolding mission_finalize_def Let_def
  by (intro keeps_intros on_store_keeps) (simp add: add_outcome_def result)

lemma remembered_keeps: "store_keeps P (finalize_remembered env now i rid)"
  unfolding finalize_remembered_def by (intro keeps_intros)

lemma cancel_keeps: "T i M_CANCELLED \<Longrightarrow> store_keeps P (cancel env now i who reason)"
  unfolding cancel_def by (intro keeps_intros move_keeps)

lemma pause_keeps: "T i M_PAUSED \<Longrightarrow> store_keeps P (pause env now i who reason)"
  unfolding pause_def by (intro keeps_intros move_keeps)

lemma decide_keeps:
  "T i M_APPROVED \<Longrightarrow> T i M_REJECTED \<Longrightarrow> store_keeps P (mission_decide env now i approved who channel reason)"
  unfolding mission_decide_def Let_def by (intro keeps_intros move_keeps add_decision_keeps) simp_all

lemma fail_keeps: "T (mp_mission_id (rf_plan f)) M_FAILED \<Longrightarrow> store_keeps P (fail_mission env now f step error fp)"
  unfolding fail_mission_def Let_def by (intro keeps_intros move_keeps)

lemma stop_keeps: "T (mp_mission_id (rf_plan f)) M_STOPPED \<Longrightarrow> store_keeps P (stop_mission env now f blockers)"
  unfolding stop_mission_def Let_def by (intro keeps_intros move_keeps)

lemma complete_keeps: "T (mp_mission_id (rf_plan f)) M_COMPLETED \<Longrightarrow> store_keeps P (complete_mission env now f completed)"
  unfolding complete_mission_def Let_def by (intro keeps_intros move_keeps)

lemma loop_keeps:
  assumes "\<And>x. T (mp_mission_id (rf_plan f)) x"
  shows "store_keeps P (run_loop env now f)"
  unfolding run_loop_def pause_at_limit_def start_step_def Let_def
  by (intro keeps_intros move_keeps fail_keeps stop_keeps complete_keeps assms)

lemma continue_keeps:
  assumes "\<And>x. T (mp_mission_id (rf_plan f)) x"
  shows "store_keeps P (run_continue env now f)"
  unfolding run_continue_def by (intro keeps_intros stop_keeps loop_keeps assms)

lemma resume_keeps: "T (mp_mission_id (rf_plan f)) M_PAUSED \<Longrightarrow> store_keeps P (resume_waiting env now f)"
  unfolding resume_waiting_def Let_def by (intro keeps_intros move_keeps)

lemma approval_keeps:
  assumes "\<And>x. T (mp_mission_id (rf_plan f)) x"
  shows "store_keeps P (run_approval env now f item r)"
  unfolding run_approval_def Let_def
  by (intro keeps_intros move_keeps fail_keeps continue_keeps add_attempt_keeps assms)

lemma result_keeps:
  assumes "\<And>x. T (mp_mission_id (rf_plan f)) x"
  shows "store_keeps P (run_result env now f step n action started r)"
  unfolding run_result_def Let_def
  by (intro keeps_intros move_keeps fail_keeps loop_keeps add_attempt_keeps) (simp_all add: assms)

lemma begin_keeps:
  assumes "\<And>x. T i x"
  shows "store_keeps P (run_begin env now i who n)"
  unfolding run_begin_def Let_def
  by (rule read_plan_keeps, intro keeps_intros move_keeps resume_keeps continue_keeps) (simp_all add: assms)

end

section \<open>All calls\<close>

datatype mission_call =
    Call_Intake opportunity_request
  | Call_Plan plan_request
  | Call_Decide string bool string string string
  | Call_Run string string "int option"
  | Answer_Approval run_frame step_attempt "action_result option"
  | Answer_Action run_frame mission_step int action_proposal instant action_result
  | Call_Pause string string string
  | Call_Cancel string string string
  | Call_Value string mission_value_kind string string "rat option" "string option" "string option" "string option"
      "(string, pyval) dict"
  | Call_Finalize string bool string "string list" string
  | Answer_Memory string string

text \<open>What a call awaits, if it awaits; the values the others return are not needed here.\<close>

definition no_await :: "'a mission \<Rightarrow> run_step option mission" where
  "no_await m = bindS m (\<lambda>_. ret None)"

definition may_await :: "run_step mission \<Rightarrow> run_step option mission" where
  "may_await m = bindS m (\<lambda>r. ret (case r of Run_Done x \<Rightarrow> None | _ \<Rightarrow> Some r))"

primrec mission_do :: "mission_env \<Rightarrow> instant \<Rightarrow> mission_call \<Rightarrow> run_step option mission" where
  "mission_do env now (Call_Intake r) = no_await (intake_opportunity env now r)"
| "mission_do env now (Call_Plan r) = no_await (create_plan env now r)"
| "mission_do env now (Call_Decide i ok who channel reason) = no_await (mission_decide env now i ok who channel reason)"
| "mission_do env now (Call_Run i who n) = may_await (run_begin env now i who n)"
| "mission_do env now (Answer_Approval f item r) = may_await (run_approval env now f item r)"
| "mission_do env now (Answer_Action f step n action started r) = may_await (run_result env now f step n action started r)"
| "mission_do env now (Call_Pause i who reason) = no_await (pause env now i who reason)"
| "mission_do env now (Call_Cancel i who reason) = no_await (cancel env now i who reason)"
| "mission_do env now (Call_Value i kind description source amount reference related_id verified_by metadata) =
     no_await (record_value_evidence env now i kind description source amount reference related_id verified_by metadata)"
| "mission_do env now (Call_Finalize i achieved summary lessons who) =
     no_await (mission_finalize env now i achieved summary lessons who)"
| "mission_do env now (Answer_Memory i rid) = no_await (finalize_remembered env now i rid)"

text \<open>The await that a call answers.\<close>

fun answered :: "mission_call \<Rightarrow> run_step option" where
  "answered (Answer_Approval f item r) = Some (Await_Approval f item)"
| "answered (Answer_Action f step n action started r) = Some (Await_Action f step n action started)"
| "answered _ = None"

fun frame_of :: "run_step \<Rightarrow> run_frame option" where
  "frame_of (Await_Approval f _) = Some f"
| "frame_of (Await_Action f _ _ _ _) = Some f"
| "frame_of (Run_Done _) = None"

text \<open>
  The states of the system with the runs that await an answer: calls in any order, runs of any
  number of missions, also several of the same, interleaved at their awaits.
\<close>

inductive mission_reachable :: "mission_env \<Rightarrow> mission_state \<Rightarrow> run_step list \<Rightarrow> bool" for env where
  start: "mission_reachable env initial_missions []"
| call: "mission_reachable env st awaits \<Longrightarrow> set_option (answered c) \<subseteq> set awaits \<Longrightarrow> mission_do env now c st = (r, st') \<Longrightarrow>
    mission_reachable env st' ((case r of Inr (Some a) \<Rightarrow> [a] | _ \<Rightarrow> []) @
      (case answered c of None \<Rightarrow> awaits | Some a \<Rightarrow> remove1 a awaits))"

lemma no_await_keeps [keeps_intros]: "keeps Q m \<Longrightarrow> keeps Q (no_await m)"
  unfolding no_await_def by (intro keeps_intros)

lemma may_await_keeps [keeps_intros]: "keeps Q m \<Longrightarrow> keeps Q (may_await m)"
  unfolding may_await_def by (intro keeps_intros)

context store_assertion
begin

lemma do_keeps:
  assumes "\<And>i x. T i x"
    and "\<And>i kind description source amount reference related_id verified_by metadata.
      c = Call_Value i kind description source amount reference related_id verified_by metadata \<Longrightarrow>
      store_keeps P (record_value_evidence env now i kind description source amount reference related_id verified_by metadata)"
  shows "store_keeps P (mission_do env now c)"
  using assms(2)
  by (cases c) (simp_all add: no_await_keeps may_await_keeps intake_keeps create_plan_keeps decide_keeps begin_keeps
    approval_keeps result_keeps pause_keeps cancel_keeps finalize_keeps remembered_keeps assms(1))

end

section \<open>Evidence of value\<close>

definition backed_by :: "mission_policy \<Rightarrow> value_evidence \<Rightarrow> value_evidence \<Rightarrow> bool" where
  "backed_by pol r v = (ve_related_evidence_id v = Some (ve_evidence_id r) \<and> ve_kind r = REALIZED \<and>
     ve_mission_id r = ve_mission_id v \<and> (\<forall>a b. ve_amount_usd v = Some a \<and> ve_amount_usd r = Some b \<longrightarrow> a \<le> b) \<and>
     (\<exists>who. ve_verified_by v = Some who \<and> casefold who \<in> casefold ` set (mg_trusted_principals pol)))"

definition value_ok :: "mission_policy \<Rightarrow> value_evidence set \<Rightarrow> value_evidence \<Rightarrow> bool" where
  "value_ok pol rows v = ((\<forall>a. ve_amount_usd v = Some a \<longrightarrow> 0 \<le> a) \<and>
     (ve_kind v \<noteq> CLAIMED \<longrightarrow> ostr_or (ve_external_reference v) [] \<noteq> []) \<and>
     (ve_kind v = VERIFIED \<longrightarrow> (\<exists>r \<in> rows. backed_by pol r v)))"

definition values_ok :: "mission_policy \<Rightarrow> mission_store \<Rightarrow> bool" where
  "values_ok pol s = (\<forall>v \<in> set (mi_values s). value_ok pol (set (mi_values s)) v)"

lemma transition_frame [simp]:
  "mi_values (snd (transition hex now i to_status who reason metadata s)) = mi_values s"
  "mi_decisions (snd (transition hex now i to_status who reason metadata s)) = mi_decisions s"
  "mi_plans (snd (transition hex now i to_status who reason metadata s)) = mi_plans s"
  by (simp_all add: transition_def Let_def split: sum.splits)

interpretation evidence: store_assertion "values_ok pol" "\<lambda>_ _. True" for pol
  by unfold_locales (simp_all add: values_ok_def)

lemma ostr_or_Some: "ostr_or x [] \<noteq> [] \<Longrightarrow> x = Some (ostr_or x [])"
  by (cases x) (auto simp: ostr_or_def str_or_def)

lemma value_row_ok:
  assumes "value_blockers pol i kind description source amount reference related_id verified_by s = Inr []"
    and "ve_mission_id v = i" "ve_kind v = kind" "ve_amount_usd v = amount" "ve_external_reference v = reference"
      "ve_related_evidence_id v = related_id" "ve_verified_by v = verified_by"
  shows "value_ok pol (set (mi_values s)) v"
proof -
  have "\<exists>r \<in> set (mi_values s). backed_by pol r v" if k: "kind = VERIFIED"
  proof -
    from assms(1) k obtain r where r: "get_value_evidence (ostr_or related_id []) s = Inr r"
      and ok: "related_blockers i amount r = []" "ostr_or verified_by [] \<noteq> []" "ostr_or related_id [] \<noteq> []"
        "casefold (ostr_or verified_by []) \<in> casefold ` set (mg_trusted_principals pol)"
      by (auto simp: value_blockers_def verified_blockers_def bindE_Inr_conv Let_def split: if_splits)
    from r have "r \<in> set (mi_values s)" "ve_evidence_id r = ostr_or related_id []"
      by (auto simp: get_value_evidence_def of_option_def find_Some_iff split: option.splits)
    with ok show ?thesis
      using assms(2-) ostr_or_Some [OF ok(2)] ostr_or_Some [OF ok(3)]
      by (auto simp: backed_by_def related_blockers_def not_less split: if_splits option.splits intro!: bexI [of _ r])
  qed
  with assms show ?thesis
    by (cases kind) (auto simp: value_ok_def value_blockers_def Let_def bindE_Inr_conv split: if_splits option.splits)
qed

lemma value_ok_more: "value_ok pol A v \<Longrightarrow> A \<subseteq> B \<Longrightarrow> value_ok pol B v"
  by (auto simp: value_ok_def)

lemma record_value_values:
  "store_keeps (values_ok (me_policy env))
    (record_value_evidence env now i kind description source amount reference related_id verified_by metadata)"
  (is "store_keeps ?P ?m")
  unfolding keeps_def
proof (intro allI impI)
  fix st :: mission_state assume ok: "?P (ms_store st)"
  show "?P (ms_store (snd (?m st)))"
  proof (cases "value_blockers (me_policy env) i kind description source amount reference related_id verified_by (ms_store st)")
    case (Inr blockers)
    show ?thesis
    proof (cases "blockers = []")
      case True
      let ?v = "\<lparr>ve_mission_id = i, ve_kind = kind, ve_description = description, ve_source = source,
         ve_amount_usd = amount, ve_external_reference = reference, ve_related_evidence_id = related_id,
         ve_verified_by = verified_by, ve_metadata = metadata,
         ve_evidence_id = new_id ''mission-value'' (me_hex env (ms_counter st)), ve_observed_at = now\<rparr>"
      have "?P (snd (add_value_evidence ?v (ms_store st)))"
        using ok value_row_ok [OF Inr [unfolded True], of ?v]
        by (auto simp: add_value_evidence_def values_ok_def split: sum.splits elim!: value_ok_more)
      moreover have "ms_store (snd (?m st)) = snd (add_value_evidence ?v (ms_store st))"
        using Inr True by (auto simp: record_value_evidence_def bindS_def read_store_def on_store_def mission_hex_def
          mission_emit_def comp_simps split: prod.splits sum.splits)
      ultimately show ?thesis by simp
    qed (use ok Inr in \<open>simp add: record_value_evidence_def bindS_def read_store_def comp_simps\<close>)
  qed (use ok in \<open>simp add: record_value_evidence_def bindS_def read_store_def\<close>)
qed

lemma reachable_values: "mission_reachable env st awaits \<Longrightarrow> values_ok (me_policy env) (ms_store st)"
proof (induction rule: mission_reachable.induct)
  case (call st awaits c now r st')
  have "store_keeps (values_ok (me_policy env)) (mission_do env now c)"
    by (rule evidence.do_keeps) (simp_all add: record_value_values)
  from keepsD [OF this call.IH call.hyps(3)] show ?case .
qed (simp add: initial_missions_def empty_missions_def values_ok_def)

section \<open>Review before execution\<close>

definition approved_by_trusted :: "mission_policy \<Rightarrow> mission_store \<Rightarrow> string \<Rightarrow> bool" where
  "approved_by_trusted pol s i = (\<exists>d \<in> set (mi_decisions s). md_mission_id d = i \<and> md_decision d = APPROVE \<and>
     casefold (strip (md_principal d)) \<in> casefold ` set (mg_trusted_principals pol) \<and> \<not> blank (md_reason d))"

definition paused_before_review :: "mission_store \<Rightarrow> string \<Rightarrow> bool" where
  "paused_before_review s i = (\<exists>t \<in> set (mi_transitions s). mt_mission_id t = i \<and> mt_to_status t = M_PAUSED \<and>
     mt_from_status t \<in> {M_DRAFT, M_REVIEW_REQUIRED})"

definition cleared :: "mission_policy \<Rightarrow> mission_store \<Rightarrow> string \<Rightarrow> bool" where
  "cleared pol s i = (approved_by_trusted pol s i \<or> paused_before_review s i)"

definition unreviewed :: "mission_status \<Rightarrow> bool" where
  "unreviewed x = (x \<in> {M_DRAFT, M_REVIEW_REQUIRED, M_REJECTED, M_CANCELLED})"

definition review_ok :: "mission_policy \<Rightarrow> mission_store \<Rightarrow> bool" where
  "review_ok pol s = (\<forall>t \<in> set (mi_transitions s). unreviewed (mt_to_status t) \<or> cleared pol s (mt_mission_id t))"

lemma transition_cases:
  obtains (kept) "snd (transition hex now i to_status who reason metadata s) = s"
  | (added) t where "snd (transition hex now i to_status who reason metadata s) = s\<lparr>mi_transitions := mi_transitions s @ [t]\<rparr>"
      "mt_mission_id t = i" "mt_to_status t = to_status" "mt_from_status t = status_or_draft i s"
proof (cases "current_status i s")
  case (Inr x)
  then have "x = status_or_draft i s" by (auto simp: current_status_def bindE_Inr_conv)
  let ?t = "\<lparr>mt_mission_id = i, mt_from_status = status_or_draft i s, mt_to_status = to_status, mt_principal = who,
    mt_reason = reason, mt_metadata = metadata, mt_transition_id = new_id ''mission-transition'' hex, mt_created_at = now\<rparr>"
  have "snd (transition hex now i to_status who reason metadata s) \<in> {s, s\<lparr>mi_transitions := mi_transitions s @ [?t]\<rparr>}"
    using Inr \<open>x = _\<close> by (simp add: transition_def Let_def)
  then show ?thesis using that(1) that(2) [of ?t] by auto
qed (auto simp: transition_def intro: that)

lemma cleared_mono:
  "cleared pol s i \<Longrightarrow> set (mi_decisions s) \<subseteq> set (mi_decisions s') \<Longrightarrow> set (mi_transitions s) \<subseteq> set (mi_transitions s') \<Longrightarrow>
    cleared pol s' i"
  unfolding cleared_def approved_by_trusted_def paused_before_review_def by (meson in_mono)

lemma review_ok_mono:
  "review_ok pol s \<Longrightarrow> mi_transitions s' = mi_transitions s \<Longrightarrow> set (mi_decisions s) \<subseteq> set (mi_decisions s') \<Longrightarrow> review_ok pol s'"
  unfolding review_ok_def using cleared_mono by (metis order_refl)

lemma transition_cleared: "cleared pol s j \<Longrightarrow> cleared pol (snd (transition hex now i to_status who reason metadata s)) j"
  by (rule transition_cases [of hex now i to_status who reason metadata s])
    (auto elim!: cleared_mono)

lemma transition_review:
  assumes "review_ok pol s"
    and "unreviewed to_status \<or> cleared pol (snd (transition hex now i to_status who reason metadata s)) i"
  shows "review_ok pol (snd (transition hex now i to_status who reason metadata s))"
proof (cases rule: transition_cases [of hex now i to_status who reason metadata s])
  case (added t)
  with assms transition_cleared [of pol s _ hex now i to_status who reason metadata] show ?thesis
    unfolding review_ok_def by auto
qed (use assms in simp)

interpretation clearance: store_assertion "\<lambda>s. cleared pol s j" "\<lambda>_ _. True" for pol j
  by unfold_locales (auto elim!: cleared_mono simp: transition_cleared)

interpretation review: store_assertion "review_ok pol" "\<lambda>_. unreviewed" for pol
  by unfold_locales (auto elim: review_ok_mono simp: transition_review)

interpretation mission_cleared: store_assertion "\<lambda>s. review_ok pol s \<and> cleared pol s j" "\<lambda>i _. i = j" for pol j
  by unfold_locales (auto elim: review_ok_mono cleared_mono simp: transition_review transition_cleared)

lemma keeps_at_bindS: "P (snd (m s)) \<Longrightarrow> (\<And>x. keeps P (f x)) \<Longrightarrow> P (snd (bindS m f s))"
  by (auto simp: keeps_def bindS_def split: prod.splits sum.splits)

lemma move_store:
  "ms_store (snd (move env now i to_status who reason metadata st)) =
     snd (transition (me_hex env (ms_counter st)) now i to_status who reason metadata (ms_store st))"
  by (simp add: move_def mission_hex_def on_store_def bindS_def comp_simps split: prod.splits sum.splits)

lemma status_cleared: "review_ok pol s \<Longrightarrow> unreviewed (status_or_draft i s) \<or> cleared pol s i"
  by (auto simp: status_or_draft_def review_ok_def mission_transitions_def unreviewed_def split: option.splits dest!: latest_in)

lemma transition_pause:
  assumes "review_ok pol s" "\<not> terminal (status_or_draft i s)"
  shows "review_ok pol (snd (transition hex now i M_PAUSED who reason metadata s))"
proof (cases rule: transition_cases [of hex now i M_PAUSED who reason metadata s])
  case (added t)
  consider "cleared pol s i" | "status_or_draft i s \<in> {M_DRAFT, M_REVIEW_REQUIRED}"
    using status_cleared [OF assms(1), of i] assms(2) by (auto simp: unreviewed_def terminal_def)
  then have "cleared pol (snd (transition hex now i M_PAUSED who reason metadata s)) i"
  proof cases
    case 2
    with added show ?thesis by (auto simp: cleared_def paused_before_review_def)
  qed (rule transition_cleared)
  with transition_review assms(1) show ?thesis by blast
qed (use assms in simp)

lemma current_status_Inr: "current_status i s = Inr x \<Longrightarrow> x = status_or_draft i s"
  by (auto simp: current_status_def bindE_Inr_conv)

lemma pause_review: "store_keeps (review_ok pol) (pause env now i who reason)"
  unfolding keeps_def
proof (intro allI impI)
  fix st :: mission_state assume ok: "review_ok pol (ms_store st)"
  show "review_ok pol (ms_store (snd (pause env now i who reason st)))"
  proof (cases "current_status i (ms_store st)")
    case (Inr x)
    show ?thesis
    proof (cases "terminal x")
      case False
      then have "\<not> terminal (status_or_draft i (ms_store st))" using current_status_Inr [OF Inr] by simp
      from transition_pause [OF ok this] False Inr show ?thesis
        unfolding pause_def
        by (simp add: bindS_Inr [of "read_store (current_status i)" st x st] read_store_def)
          (rule keeps_at_bindS, simp add: move_store, intro keeps_intros)
    qed (use ok Inr in \<open>simp add: pause_def bindS_def read_store_def comp_simps\<close>)
  qed (use ok in \<open>simp add: pause_def bindS_def read_store_def\<close>)
qed

text \<open>After the insertion of a decision, the rest of \<open>decide\<close> may rely on it.\<close>

lemma added_decision_review:
  assumes "review_ok pol (ms_store st)" "get_decision (md_mission_id d) (ms_store st) = None"
    and trusted: "casefold (strip (md_principal d)) \<in> casefold ` set (mg_trusted_principals pol)" "\<not> blank (md_reason d)"
    and approve: "md_decision d = APPROVE \<Longrightarrow> store_keeps (\<lambda>s. review_ok pol s \<and> cleared pol s (md_mission_id d)) (f d)"
    and reject: "md_decision d = REJECT \<Longrightarrow> store_keeps (review_ok pol) (f d)"
  shows "review_ok pol (ms_store (snd (bindS (on_store (add_decision d)) f st)))"
proof (cases "add_decision d (ms_store st)")
  case (Pair r s)
  show ?thesis
  proof (cases r)
    case (Inr d')
    with Pair assms(2) have s: "s = ms_store st\<lparr>mi_decisions := mi_decisions (ms_store st) @ [d]\<rparr>" and d': "d' = d"
      by (auto simp: add_decision_def split: if_splits)
    have run: "bindS (on_store (add_decision d)) f st = f d (st\<lparr>ms_store := s\<rparr>)"
      using Pair Inr d' by (simp add: bindS_def on_store_def)
    have ok: "review_ok pol s" using assms(1) s by (auto elim: review_ok_mono)
    show ?thesis
    proof (cases "md_decision d")
      case APPROVE
      with s trusted have "cleared pol s (md_mission_id d)" by (auto simp: cleared_def approved_by_trusted_def)
      with approve [OF APPROVE] ok show ?thesis unfolding run keeps_def by (metis mission_state.select_convs(1) mission_state.surjective mission_state.update_convs(1))
    next
      case REJECT
      with reject ok show ?thesis unfolding run keeps_def by (metis mission_state.select_convs(1) mission_state.surjective mission_state.update_convs(1))
    qed
  qed (use Pair assms(1) in \<open>auto simp: bindS_def on_store_def add_decision_def split: option.splits if_splits\<close>)
qed

lemma decide_review: "store_keeps (review_ok (me_policy env)) (mission_decide env now i approved who channel reason)"
  unfolding keeps_def
proof (intro allI impI)
  fix st :: mission_state assume ok: "review_ok (me_policy env) (ms_store st)"
  let ?m = "mission_decide env now i approved who channel reason"
  show "review_ok (me_policy env) (ms_store (snd (?m st)))"
  proof (cases "validate_decision (me_policy env) who reason = [] \<and> get_decision i (ms_store st) = None")
    case True
    then have "casefold (strip who) \<in> casefold ` set (mg_trusted_principals (me_policy env))" "\<not> blank reason"
      by (auto simp: validate_decision_def split: if_splits)
    with True ok show ?thesis
      unfolding mission_decide_def Let_def
      by (auto simp: comp_simps bindS_Inr [of "mission_hex env", OF mission_hex_def] unreviewed_def
        intro!: added_decision_review keeps_intros mission_cleared.move_keeps review.move_keeps split: if_splits)
  next
    case False
    then have "ms_store (snd (?m st)) = ms_store st" by (auto simp: mission_decide_def comp_simps Let_def)
    with ok show ?thesis by simp
  qed
qed

section \<open>Dispatch of a step\<close>

text \<open>What holds when a run reaches the await of the action of a step.\<close>

definition dispatch_ok :: "instant \<Rightarrow> run_frame \<Rightarrow> mission_step \<Rightarrow> int \<Rightarrow> action_proposal \<Rightarrow> mission_store \<Rightarrow> bool" where
  "dispatch_ok now f step n action s =
     (let p = rf_plan f; i = mp_mission_id p in
      rf_completed f < rf_limit f \<and> budget_blockers now p s = [] \<and> next_step p (completed_step_ids p s) = Some step \<and>
      (\<forall>a. latest_attempt i (sp_step_id step) s = Some a \<and> sa_status a = S_FAILED \<longrightarrow> n \<le> sp_max_attempts step \<and>
         \<not> blank (ostr_or (sp_explicit_retry_reason step) []) \<and> ap_retry_reason action = sp_explicit_retry_reason step))"

lemma yields_emit:
  "(\<And>s'. ms_store s' = ms_store s \<Longrightarrow> Q () s') \<Longrightarrow> yields (mission_emit env now t payload sev) Q s"
  by (simp add: yields_def wp_def mission_emit_def mission_hex_def bindS_def comp_simps)

lemma start_step_yields:
  assumes "\<And>x s. Q (Run_Done x) s"
    and "\<And>n action s. ms_store s = ms_store st \<Longrightarrow>
      (\<forall>a. latest_attempt (mp_mission_id (rf_plan f)) (sp_step_id step) (ms_store s) = Some a \<and> sa_status a = S_FAILED \<longrightarrow>
        n \<le> sp_max_attempts step \<and> \<not> blank (ostr_or (sp_explicit_retry_reason step) []) \<and>
        ap_retry_reason action = sp_explicit_retry_reason step) \<Longrightarrow> Q (Await_Action f step n action now) s"
  shows "yields (start_step env now f step) Q st"
  unfolding start_step_def fail_mission_def Let_def
  by (auto simp: yields_simps not_less step_action_def split: option.splits
    intro!: assms yields_emit yields_trivial [where m = "move _ _ _ _ _ _ _"] yields_run_done yields_seq)

lemma loop_yields:
  assumes "\<And>x s. Q (Run_Done x) s"
    and "\<And>step n action s. dispatch_ok now f step n action (ms_store s) \<Longrightarrow> Q (Await_Action f step n action now) s"
  shows "yields (run_loop env now f) Q st"
  unfolding run_loop_def pause_at_limit_def stop_mission_def complete_mission_def Let_def
  by (auto simp: yields_basic yields_bindS [of "getS _"] dispatch_ok_def split: option.splits
    intro!: assms start_step_yields yields_run_done yields_seq)

lemma continue_yields:
  assumes "\<And>x s. Q (Run_Done x) s"
    and "\<And>step n action s. dispatch_ok now f step n action (ms_store s) \<Longrightarrow> Q (Await_Action f step n action now) s"
  shows "yields (run_continue env now f) Q st"
  unfolding run_continue_def stop_mission_def Let_def
  by (auto simp: yields_basic yields_bindS [of "getS _"] intro!: assms loop_yields yields_run_done yields_seq)

lemma approval_yields:
  assumes "\<And>x s. Q (Run_Done x) s"
    and "\<And>step n action s. dispatch_ok now f step n action (ms_store s) \<Longrightarrow> Q (Await_Action f step n action now) s"
  shows "yields (run_approval env now f item r) Q st"
  unfolding run_approval_def fail_mission_def Let_def
  by (auto simp: yields_basic split: option.splits intro!: assms continue_yields yields_run_done yields_seq)

lemma result_yields:
  assumes "\<And>x s. Q (Run_Done x) s"
    and "\<And>g step n action s. rf_plan g = rf_plan f \<Longrightarrow> dispatch_ok now g step n action (ms_store s) \<Longrightarrow>
      Q (Await_Action g step n action now) s"
  shows "yields (run_result env now f step n action started r) Q st"
  unfolding run_result_def fail_mission_def Let_def
  by (auto simp: yields_basic split: option.splits intro!: assms loop_yields yields_run_done yields_seq)

lemma begin_yields:
  assumes "\<And>x s. Q (Run_Done x) s"
    and "\<And>g step n action s. mp_mission_id (rf_plan g) = i \<Longrightarrow> dispatch_ok now g step n action (ms_store s) \<Longrightarrow>
      Q (Await_Action g step n action now) s"
    and "\<And>g item s. mp_mission_id (rf_plan g) = i \<Longrightarrow> Q (Await_Approval g item) s"
  shows "yields (run_begin env now i who k) Q st"
proof -
  have "yields (read_store (get_plan i)) (\<lambda>plan _. mp_mission_id plan = i) st"
    by (auto simp: yields_def wp_def read_store_def dest: get_plan_id split: sum.splits)
  then show ?thesis
    unfolding run_begin_def resume_waiting_def Let_def yields_bindS [of "read_store (get_plan i)"]
    by (elim yields_mono) (auto simp: yields_basic yields_bindS [of "getS _"]
      intro!: assms continue_yields yields_run_done yields_seq)
qed

lemma run_done_frame: "run_done m s = (Inr r, s') \<Longrightarrow> frame_of r = None"
  by (auto simp: run_done_def bindS_def comp_simps split: prod.splits sum.splits)

lemma begin_unreviewed:
  assumes "review_ok pol (ms_store st)" "\<not> cleared pol (ms_store st) i"
  shows "ms_store (snd (run_begin env now i who k st)) = ms_store st \<and>
    yields (run_begin env now i who k) (\<lambda>r _. frame_of r = None) st"
proof (cases "get_plan i (ms_store st)")
  case (Inr p)
  then have status: "current_status i (ms_store st) = Inr (status_or_draft i (ms_store st))" by (simp add: current_status_def)
  from status_cleared [OF assms(1), of i] assms(2) have "unreviewed (status_or_draft i (ms_store st))" by blast
  moreover have "keeps (\<lambda>st'. ms_store st' = ms_store st) (run_done (execution p None None blockers []))" for blockers
    by (intro keeps_intros execution_keeps [of "\<lambda>s. s = ms_store st"])
  ultimately show ?thesis using Inr status
    by (auto simp: run_begin_def read_store_def bindS_Inr [of "read_store (get_plan i)" st p st] bindS_Inr [of "read_store (current_status i)" st _ st]
      Let_def unreviewed_def terminal_def comp_simps keeps_def yields_def wp_def
      split: sum.splits dest: run_done_frame)
qed (simp add: run_begin_def yields_def wp_def bindS_def read_store_def)

lemma begin_review: "store_keeps (review_ok pol) (run_begin env now i who k)"
  unfolding keeps_def
proof (intro allI impI)
  fix st :: mission_state assume ok: "review_ok pol (ms_store st)"
  show "review_ok pol (ms_store (snd (run_begin env now i who k st)))"
  proof (cases "cleared pol (ms_store st) i")
    case True
    with ok mission_cleared.begin_keeps [of i i pol env now who k] show ?thesis by (simp add: keeps_def)
  qed (use ok begin_unreviewed in simp)
qed

lemma review_do:
  assumes ok: "review_ok (me_policy env) (ms_store st)"
    and frames: "\<And>a f. answered c = Some a \<Longrightarrow> frame_of a = Some f \<Longrightarrow> cleared (me_policy env) (ms_store st) (mp_mission_id (rf_plan f))"
  shows "review_ok (me_policy env) (ms_store (snd (mission_do env now c st)))"
proof -
  have keep: "review_ok (me_policy env) (ms_store (snd (m st)))" if "store_keeps (review_ok (me_policy env)) m" for m :: "run_step option mission"
    using that ok by (simp add: keeps_def)
  have keep': "review_ok (me_policy env) (ms_store (snd (m st)))"
    if "store_keeps (\<lambda>s. review_ok (me_policy env) s \<and> cleared (me_policy env) s i) m" "cleared (me_policy env) (ms_store st) i"
    for m :: "run_step option mission" and i
    using that ok by (simp add: keeps_def)
  have "store_keeps (review_ok (me_policy env))
      (record_value_evidence env now i kind description source amount reference related_id verified_by metadata)"
    for i kind description source amount reference related_id verified_by metadata
    unfolding record_value_evidence_def
    by (intro keeps_intros on_store_keeps) (auto simp: add_value_evidence_def elim: review_ok_mono split: sum.splits)
  then show ?thesis
  proof (cases c)
    case (Answer_Approval f item r)
    with frames show ?thesis
      by (auto intro!: keep' [of "mp_mission_id (rf_plan f)"] may_await_keeps mission_cleared.approval_keeps)
  next
    case (Answer_Action f step n action started r)
    with frames show ?thesis
      by (auto intro!: keep' [of "mp_mission_id (rf_plan f)"] may_await_keeps mission_cleared.result_keeps)
  qed (simp_all add: keep no_await_keeps may_await_keeps review.intake_keeps review.create_plan_keeps review.cancel_keeps
    review.finalize_keeps review.remembered_keeps decide_review pause_review begin_review unreviewed_def)
qed

lemma may_await_Some: "may_await m s = (Inr (Some r), s') \<Longrightarrow> m s = (Inr r, s')"
  by (auto simp: may_await_def comp_simps split: run_step.splits elim!: bindS_cases)

lemma no_await_Some: "no_await m s \<noteq> (Inr (Some r), s')"
  by (auto simp: no_await_def comp_simps elim!: bindS_cases)

lemma do_await_cases:
  assumes "mission_do env now c st = (Inr (Some a), st')"
  obtains (run) i who k where "c = Call_Run i who k" "run_begin env now i who k st = (Inr a, st')"
  | (approval) f item r where "c = Answer_Approval f item r" "run_approval env now f item r st = (Inr a, st')"
  | (result) f step n action started r where "c = Answer_Action f step n action started r"
      "run_result env now f step n action started r st = (Inr a, st')"
  using assms by (cases c) (auto simp: no_await_Some dest: may_await_Some)

lemma await_dispatch:
  assumes "mission_do env now c st = (Inr (Some (Await_Action f step n action started)), st')"
  shows "dispatch_ok now f step n action (ms_store st')"
proof -
  let ?Q = "\<lambda>a s. case a of Await_Action f step n action started \<Rightarrow> dispatch_ok now f step n action (ms_store s) | _ \<Rightarrow> True"
  have b: "yields (run_begin env now i who k) ?Q st" for i who k by (rule begin_yields) simp_all
  have a: "yields (run_approval env now g item r) ?Q st" for g item r by (rule approval_yields) simp_all
  have r: "yields (run_result env now g step n action started r) ?Q st" for g step n action started r
    by (rule result_yields) simp_all
  show ?thesis
    using assms by (cases rule: do_await_cases) (auto dest: yieldsD [OF b] yieldsD [OF a] yieldsD [OF r])
qed

lemma cleared_do: "store_keeps (\<lambda>s. cleared pol s j) (mission_do env now c)"
proof (rule clearance.do_keeps)
  show "store_keeps (\<lambda>s. cleared pol s j)
      (record_value_evidence env now i kind description source amount reference related_id verified_by metadata)"
    for i kind description source amount reference related_id verified_by metadata
    unfolding record_value_evidence_def
    by (intro keeps_intros on_store_keeps) (auto simp: add_value_evidence_def elim: cleared_mono split: sum.splits)
qed simp

lemma await_cleared:
  assumes call: "mission_do env now c st = (Inr (Some a), st')" and f: "frame_of a = Some f"
    and ok: "review_ok pol (ms_store st)"
    and frames: "\<And>b g. answered c = Some b \<Longrightarrow> frame_of b = Some g \<Longrightarrow> cleared pol (ms_store st) (mp_mission_id (rf_plan g))"
  shows "cleared pol (ms_store st') (mp_mission_id (rf_plan f))"
proof (rule keepsD [OF cleared_do _ call])
  let ?same = "\<lambda>i a s. \<forall>f. frame_of a = Some f \<longrightarrow> mp_mission_id (rf_plan f) = i"
  from call show "cleared pol (ms_store st) (mp_mission_id (rf_plan f))"
  proof (cases rule: do_await_cases)
    case (run i who k)
    have "yields (run_begin env now i who k) (?same i) st" by (rule begin_yields) simp_all
    from yieldsD [OF this run(2)] f have "mp_mission_id (rf_plan f) = i" by simp
    moreover have "cleared pol (ms_store st) i"
    proof (rule ccontr)
      assume "\<not> cleared pol (ms_store st) i"
      from yieldsD [OF conjunct2 [OF begin_unreviewed [OF ok this]] run(2)] f show False by simp
    qed
    ultimately show ?thesis by simp
  next
    case (approval g item r)
    have "yields (run_approval env now g item r) (?same (mp_mission_id (rf_plan g))) st" by (rule approval_yields) simp_all
    from yieldsD [OF this approval(2)] f frames approval(1) show ?thesis by simp
  next
    case (result g step n action started r)
    have "yields (run_result env now g step n action started r) (?same (mp_mission_id (rf_plan g))) st"
      by (rule result_yields) simp_all
    from yieldsD [OF this result(2)] f frames result(1) show ?thesis by simp
  qed
qed

lemma reachable_review:
  "mission_reachable env st awaits \<Longrightarrow> review_ok (me_policy env) (ms_store st) \<and>
    (\<forall>a \<in> set awaits. \<forall>f. frame_of a = Some f \<longrightarrow> cleared (me_policy env) (ms_store st) (mp_mission_id (rf_plan f)))"
proof (induction rule: mission_reachable.induct)
  case (call st awaits c now r st')
  have frames: "cleared (me_policy env) (ms_store st) (mp_mission_id (rf_plan g))"
    if "answered c = Some b" "frame_of b = Some g" for b g
    using call.IH call.hyps(2) that by auto
  have "review_ok (me_policy env) (ms_store st')"
    using review_do [of env st c now] call.IH frames call.hyps(3) by simp
  moreover have "cleared (me_policy env) (ms_store st') (mp_mission_id (rf_plan f))"
    if "a \<in> set awaits" "frame_of a = Some f" for a f
    using keepsD [OF cleared_do _ call.hyps(3)] call.IH that by blast
  moreover have "cleared (me_policy env) (ms_store st') (mp_mission_id (rf_plan f))"
    if "r = Inr (Some a)" "frame_of a = Some f" for a f
  proof (rule await_cleared [OF _ that(2)])
    show "mission_do env now c st = (Inr (Some a), st')" using call.hyps(3) that(1) by simp
  qed (use call.IH frames in blast)+
  ultimately show ?case
    by (auto split: sum.splits option.splits dest: notin_set_remove1 set_remove1_subset [THEN subsetD])
qed (simp add: initial_missions_def empty_missions_def review_ok_def)

end
