(* ===== verification/Mission_Properties.thy ===== *)
theory Mission_Properties
  imports Mission_Safety
begin

text \<open>
  What the mission orchestrator guarantees: the bounds under which a step is dispatched, the
  review before execution and its gap, and the evidence behind verified value.
\<close>

section \<open>Budgets\<close>

lemma started_least:
  assumes "length (mission_transitions (mp_mission_id p) s) \<le> 5000"
    and "t \<in> set (mission_transitions (mp_mission_id p) s)" "mt_to_status t = M_RUNNING"
  obtains t0 where "started_at p s = Some t0" "t0 \<le> mt_created_at t"
proof -
  let ?rows = "sort_key mt_created_at (mission_transitions (mp_mission_id p) s)"
  from assms(1) have "rev (transitions (mp_mission_id p) 5000 s) = ?rows"
    by (simp add: transitions_def clip_def)
  moreover from assms(2,3) obtain u where u: "find (\<lambda>t. mt_to_status t = M_RUNNING) ?rows = Some u"
    by (metis (mono_tags, lifting) find_None_iff not_None_eq set_sort)
  moreover have "mt_created_at u \<le> mt_created_at t"
    using find_sorted_least [OF u] assms(2,3) by blast
  ultimately show ?thesis using that by (simp add: started_at_def)
qed

lemma fst_dict_set: "fst ` set (dict_set k v d) = insert k (fst ` set d)"
proof (induction d)
  case (Cons x d)
  then show ?case by (cases x) (simp add: insert_commute)
qed simp

lemma fst_dict_update: "fst ` set (dict_update d e) = fst ` set d \<union> fst ` set e"
  by (induction e arbitrary: d) (simp_all add: fst_dict_set)

lemma length_dict_of_pairs: "length (dict_of_pairs kvs) = card (fst ` set kvs)"
proof -
  have "length (dict_of_pairs kvs) = card (set (keys (dict_of_pairs kvs)))"
    by (metis distinct_card distinct_dict_of_pairs length_map)
  then show ?thesis by (simp add: dict_of_pairs_def fst_dict_update)
qed

abbreviation attempt_rows :: "string \<Rightarrow> mission_store \<Rightarrow> step_attempt list" where
  "attempt_rows i s \<equiv> filter (\<lambda>a. sa_mission_id a = i) (mi_attempts s)"

lemma unique_attempts_count:
  assumes "length (attempt_rows (mp_mission_id p) s) \<le> 1000"
  shows "length (unique_attempts p s) =
    card ((\<lambda>a. (sa_step_id a, sa_attempt_number a)) ` set (attempt_rows (mp_mission_id p) s))"
  using assms by (simp add: unique_attempts_def length_dict_of_pairs attempts_def clip_def ostr_or_def image_image)

lemma completed_iff:
  "x \<in> set (completed_step_ids p s) \<longleftrightarrow> x \<in> sp_step_id ` set (mp_steps p) \<and>
    (\<exists>a. latest_attempt (mp_mission_id p) x s = Some a \<and> sa_status a = S_COMPLETED)"
  by (auto simp: completed_step_ids_def step_done_def split: option.splits)

section \<open>Dispatch\<close>

text \<open>
  C5: Whenever the orchestrator dispatches the action of a step - at the start of a run, after an
  approval or after an earlier step - the step belongs to the plan, its last attempt is not
  completed while that of every step it depends on is, the distinct attempts of the mission are
  fewer than its budget of attempts, their cost is within its cost budget, no more time than its
  duration budget has passed since the mission first ran, and when the last attempt failed, the
  step has an explicit retry reason, which the action carries, and this attempt is within its
  maximum. (The mission has at most 1000 attempt rows and 5000 transitions: the code reads no more.)\<close>

theorem step_dispatched_within_bounds:
  assumes "mission_do env now c st = (Inr (Some (Await_Action f step n action started)), st')"
    and "p = rf_plan f" "i = mp_mission_id p" "s = ms_store st'"
    and "done = (\<lambda>x. \<exists>a. latest_attempt i x s = Some a \<and> sa_status a = S_COMPLETED)"
    and "length (attempt_rows i s) \<le> 1000" "length (mission_transitions i s) \<le> 5000"
  shows "step \<in> set (mp_steps p) \<and> \<not> done (sp_step_id step) \<and> (\<forall>d \<in> set (sp_depends_on step). done d) \<and>
    int (card ((\<lambda>a. (sa_step_id a, sa_attempt_number a)) ` set (attempt_rows i s))) < mb_max_step_attempts (mp_budget p) \<and>
    sum_list (map (sa_estimated_cost_usd \<circ> snd) (unique_attempts p s)) \<le> mb_max_cost_usd (mp_budget p) \<and>
    (\<forall>t \<in> set (mission_transitions i s). mt_to_status t = M_RUNNING \<longrightarrow>
       now - mt_created_at t \<le> mb_max_duration_seconds (mp_budget p)) \<and>
    (\<forall>a. latest_attempt i (sp_step_id step) s = Some a \<and> sa_status a = S_FAILED \<longrightarrow> n \<le> sp_max_attempts step \<and>
       \<not> blank (ostr_or (sp_explicit_retry_reason step) []) \<and> ap_retry_reason action = sp_explicit_retry_reason step)"
proof -
  from await_dispatch [OF assms(1)] assms(2-4)
  have free: "budget_blockers now p s = []" and step: "next_step p (completed_step_ids p s) = Some step"
    and retry: "\<forall>a. latest_attempt i (sp_step_id step) s = Some a \<and> sa_status a = S_FAILED \<longrightarrow> n \<le> sp_max_attempts step \<and>
       \<not> blank (ostr_or (sp_explicit_retry_reason step) []) \<and> ap_retry_reason action = sp_explicit_retry_reason step"
    unfolding dispatch_ok_def Let_def by blast+
  have "now - mt_created_at t \<le> mb_max_duration_seconds (mp_budget p)"
    if "t \<in> set (mission_transitions i s)" "mt_to_status t = M_RUNNING" for t
  proof -
    from that assms(3,7) obtain t0 where "started_at p s = Some t0" "t0 \<le> mt_created_at t" by (blast elim: started_least [of p s t])
    with free show ?thesis by (auto simp: budget_blockers_def Let_def split: if_splits)
  qed
  moreover have "int (card ((\<lambda>a. (sa_step_id a, sa_attempt_number a)) ` set (attempt_rows i s))) < mb_max_step_attempts (mp_budget p)"
    "sum_list (map (sa_estimated_cost_usd \<circ> snd) (unique_attempts p s)) \<le> mb_max_cost_usd (mp_budget p)"
    using free unique_attempts_count [OF assms(6) [unfolded assms(3)]] assms(3)
    by (auto simp: budget_blockers_def Let_def not_le not_less split: if_splits)
  moreover have "step \<in> set (mp_steps p)" "\<not> done (sp_step_id step)" "\<forall>d \<in> set (sp_depends_on step). done d"
    using next_step_ok [OF step] assms(3,5) by (auto simp: completed_iff)
  ultimately show ?thesis using retry by blast
qed

section \<open>Sample missions\<close>

text \<open>Calls one after another, the awaits they leave collected.\<close>

fun call_all :: "mission_env \<Rightarrow> (instant \<times> mission_call) list \<Rightarrow> mission_state \<times> run_step list \<Rightarrow> mission_state \<times> run_step list" where
  "call_all env [] x = x"
| "call_all env ((now, c) # cs) (st, awaits) =
     (case mission_do env now c st of (r, st') \<Rightarrow>
        call_all env cs (st', (case r of Inr (Some a) \<Rightarrow> [a] | _ \<Rightarrow> []) @ awaits))"

lemma call_all_reachable:
  "mission_reachable env st awaits \<Longrightarrow> \<forall>c \<in> snd ` set cs. answered c = None \<Longrightarrow>
    call_all env cs (st, awaits) = (st', awaits') \<Longrightarrow> mission_reachable env st' awaits'"
proof (induction env cs "(st, awaits)" arbitrary: st awaits rule: call_all.induct)
  case (2 env now c cs st awaits)
  obtain r s where d: "mission_do env now c st = (r, s)" by fastforce
  from 2(2,3) mission_reachable.call [OF 2(2) _ d]
  have "mission_reachable env s ((case r of Inr (Some a) \<Rightarrow> [a] | _ \<Rightarrow> []) @ awaits)" by simp
  with 2(1) [OF d [symmetric]] 2(3,4) d show ?case by simp
qed simp

definition sample_missions_env :: mission_env where
  "sample_missions_env = \<lparr>me_sha = \<lambda>_. ''h'', me_float = \<lambda>_. ''0'', me_hex = nat_str, me_policy = sample_policy, me_has_bus = False,
     me_register_trigger = None, me_has_memory = False, me_maximum_steps_per_run = 5\<rparr>"

definition sample_opportunity :: opportunity_request where
  "sample_opportunity = \<lparr>or_title = ''t'', or_lane = INTERNAL_MAINTENANCE, or_problem_statement = ''p'', or_beneficiary = ''b'',
     or_value_proposition = ''v'', or_probability_success = 1, or_upside_usd = 10, or_estimated_cost_usd = 1,
     or_estimated_duration_hours = 1, or_revenue_hypothesis = [], or_assumptions = [], or_evidence = [], or_risk = MISSION_LOW,
     or_confidence = 1, or_metadata = []\<rparr>"

definition sample_request :: plan_request where
  "sample_request = \<lparr>pq_brief_id = ''opp-brief.0'', pq_objective = ''o'', pq_northstar_alignment = ''n'',
     pq_northstar_principle_ids = [''SC1''], pq_strategy_tags = [], pq_steps = [sample_step ''a'' [], sample_step ''b'' [''a'']],
     pq_budget = sample_budget, pq_stop_conditions = [], pq_metadata = []\<rparr>"

text \<open>A reviewed mission, started.\<close>

definition reviewed_calls :: "(instant \<times> mission_call) list" where
  "reviewed_calls = [(0, Call_Intake sample_opportunity), (1, Call_Plan sample_request),
     (2, Call_Decide ''mission.1'' True ''founder'' ''cli'' ''good''), (3, Call_Run ''mission.1'' ''founder'' None)]"

text \<open>A mission paused while it waits for its review, then started.\<close>

definition unreviewed_calls :: "(instant \<times> mission_call) list" where
  "unreviewed_calls = [(0, Call_Intake sample_opportunity), (1, Call_Plan sample_request),
     (2, Call_Pause ''mission.1'' ''anyone'' ''later''), (3, Call_Run ''mission.1'' ''anyone'' None)]"

definition value_calls :: "(instant \<times> mission_call) list" where
  "value_calls = [(0, Call_Intake sample_opportunity), (1, Call_Plan sample_request),
     (2, Call_Value ''mission.1'' REALIZED ''d'' ''s'' (Some 5) (Some ''ref'') None None []),
     (3, Call_Value ''mission.1'' VERIFIED ''d'' ''s'' (Some 5) (Some ''ref'') (Some ''mission-value.3'') (Some ''Founder'') [])]"

text \<open>A second verification of the same realized row, and the outcome.\<close>

definition verified_twice_calls :: "(instant \<times> mission_call) list" where
  "verified_twice_calls = value_calls @
     [(4, Call_Value ''mission.1'' VERIFIED ''d'' ''s'' (Some 5) (Some ''ref'') (Some ''mission-value.3'') (Some ''operator'') []),
      (5, Call_Cancel ''mission.1'' ''founder'' ''over''), (6, Call_Finalize ''mission.1'' True ''done'' [] ''founder'')]"

text \<open>A mission cancelled before its review, then approved and started.\<close>

definition cancelled_calls :: "(instant \<times> mission_call) list" where
  "cancelled_calls = [(0, Call_Intake sample_opportunity), (1, Call_Plan sample_request),
     (2, Call_Cancel ''mission.1'' ''founder'' ''no''), (3, Call_Decide ''mission.1'' True ''founder'' ''cli'' ''good''),
     (4, Call_Run ''mission.1'' ''founder'' None)]"

abbreviation sample_run :: "(instant \<times> mission_call) list \<Rightarrow> mission_state \<times> run_step list" where
  "sample_run cs \<equiv> call_all sample_missions_env cs (initial_missions, [])"

definition dispatched :: "run_step list \<Rightarrow> bool" where
  "dispatched aw = (case aw of [Await_Action f step n action t] \<Rightarrow> True | _ \<Rightarrow> False)"

lemma reviewed_eval: "dispatched (snd (sample_run reviewed_calls))"
  by code_simp

lemma unreviewed_eval:
  "dispatched (snd (sample_run unreviewed_calls)) \<and> mi_decisions (ms_store (fst (sample_run unreviewed_calls))) = []"
  by code_simp

lemma value_eval:
  "map ve_kind (mi_values (ms_store (fst (sample_run value_calls)))) = [REALIZED, VERIFIED]"
  by code_simp

theorem verified_revenue_exceeds_realized:
  "map (\<lambda>x. (mo_realized_revenue_usd x, mo_verified_revenue_usd x)) (mi_outcomes (ms_store (fst (sample_run verified_twice_calls)))) = [(5, 10)]"
  by code_simp

theorem cancelled_mission_runs:
  "dispatched (snd (sample_run cancelled_calls)) \<and>
   map mt_to_status (mi_transitions (ms_store (fst (sample_run cancelled_calls)))) = [M_REVIEW_REQUIRED, M_CANCELLED, M_APPROVED, M_RUNNING]"
  by code_simp

lemma sample_reachable:
  assumes "sample_run cs = (st, aw)" "\<forall>c \<in> snd ` set cs. answered c = None"
  shows "mission_reachable sample_missions_env st aw"
  using call_all_reachable [OF mission_reachable.start assms(2,1)] .

lemma dispatched_obtain:
  assumes "dispatched aw" obtains f step n action t where "aw = [Await_Action f step n action t]"
  using assms by (auto simp: dispatched_def split: list.splits run_step.splits)

theorem step_dispatched_within_bounds_witness:
  "\<exists>st f step n action t. sample_run reviewed_calls = (st, [Await_Action f step n action t]) \<and> step \<in> set (mp_steps (rf_plan f))"
proof -
  define st0 where "st0 = fst (sample_run (butlast reviewed_calls))"
  have d: "mission_do sample_missions_env 3 (Call_Run ''mission.1'' ''founder'' None) st0 = (let (st, aw) = sample_run reviewed_calls in (Inr (Some (hd aw)), st))"
    unfolding st0_def by code_simp
  obtain st aw where run: "sample_run reviewed_calls = (st, aw)" by fastforce
  with reviewed_eval obtain f step n action t where aw: "aw = [Await_Action f step n action t]" by (auto elim: dispatched_obtain)
  have "mission_do sample_missions_env 3 (Call_Run ''mission.1'' ''founder'' None) st0 = (Inr (Some (Await_Action f step n action t)), st)"
    using d run aw by simp
  from step_dispatched_within_bounds [OF this refl refl refl refl]
  have "length (attempt_rows (mp_mission_id (rf_plan f)) (ms_store st)) \<le> 1000 \<Longrightarrow>
    length (mission_transitions (mp_mission_id (rf_plan f)) (ms_store st)) \<le> 5000 \<Longrightarrow> step \<in> set (mp_steps (rf_plan f))" by blast
  moreover have "(case sample_run reviewed_calls of (st, aw) \<Rightarrow> mi_attempts (ms_store st) = [] \<and> length (mi_transitions (ms_store st)) \<le> 5000)"
    by code_simp
  ultimately show ?thesis using run aw
    by (auto simp: mission_transitions_def intro: le_trans [OF length_filter_le])
qed

section \<open>Review\<close>

text \<open>
  C4: In every state that calls of the orchestrator reach, in any order and with any number of
  runs in flight, an action is dispatched only for a mission that a trusted principal has approved
  with a reason, or that somebody paused while it still waited for its review.\<close>

theorem dispatch_needs_review:
  assumes "mission_reachable env st awaits" and "Await_Action f step n action t \<in> set awaits"
  shows "(\<exists>d \<in> set (mi_decisions (ms_store st)). md_mission_id d = mp_mission_id (rf_plan f) \<and> md_decision d = APPROVE \<and>
       casefold (strip (md_principal d)) \<in> casefold ` set (mg_trusted_principals (me_policy env)) \<and> \<not> blank (md_reason d)) \<or>
    (\<exists>x \<in> set (mi_transitions (ms_store st)). mt_mission_id x = mp_mission_id (rf_plan f) \<and> mt_to_status x = M_PAUSED \<and>
       mt_from_status x \<in> {M_DRAFT, M_REVIEW_REQUIRED})"
  using reachable_review [OF assms(1)] assms(2)
  by (fastforce simp: cleared_def approved_by_trusted_def paused_before_review_def)

theorem dispatch_needs_review_witness:
  "\<exists>d \<in> set (mi_decisions (ms_store (fst (sample_run reviewed_calls)))). md_decision d = APPROVE \<and> \<not> blank (md_reason d)"
proof -
  obtain st aw where run: "sample_run reviewed_calls = (st, aw)" by fastforce
  with reviewed_eval obtain f step n action t where "aw = [Await_Action f step n action t]" by (auto elim: dispatched_obtain)
  then have aw: "Await_Action f step n action t \<in> set aw" by simp
  have r: "mission_reachable sample_missions_env st aw" by (rule sample_reachable [OF run]) (simp add: reviewed_calls_def)
  have "M_PAUSED \<notin> mt_to_status ` set (mi_transitions (ms_store (fst (sample_run reviewed_calls))))" by code_simp
  then have "mt_to_status x \<noteq> M_PAUSED" if "x \<in> set (mi_transitions (ms_store st))" for x
    using that run by (metis fst_conv image_eqI)
  with dispatch_needs_review [OF r aw] run show ?thesis by auto
qed

text \<open>
  The escape that the last property leaves is real: a run that pauses a mission which waits for its
  review and then runs it dispatches an action though no decision has been recorded.
\<close>

lemma paused_mission_runs_without_review:
  "\<exists>st f step n action t. mission_reachable sample_missions_env st [Await_Action f step n action t] \<and> mi_decisions (ms_store st) = []"
proof -
  obtain st aw where run: "sample_run unreviewed_calls = (st, aw)" by fastforce
  with unreviewed_eval obtain f step n action t where "aw = [Await_Action f step n action t]" "mi_decisions (ms_store st) = []"
    by (auto elim: dispatched_obtain)
  moreover have "mission_reachable sample_missions_env st aw"
    by (rule sample_reachable [OF run]) (simp add: unreviewed_calls_def)
  ultimately show ?thesis by blast
qed

section \<open>Value\<close>

text \<open>
  C19: In every reachable state each row of verified value names, as its related evidence, a row of
  realized value of the same mission, claims no greater amount where both rows have one, has an
  external reference, and was verified by a trusted principal.\<close>

theorem verified_value_is_backed:
  assumes "mission_reachable env st awaits" "v \<in> set (mi_values (ms_store st))" "ve_kind v = VERIFIED"
  shows "\<exists>r \<in> set (mi_values (ms_store st)). ve_related_evidence_id v = Some (ve_evidence_id r) \<and> ve_kind r = REALIZED \<and>
    ve_mission_id r = ve_mission_id v \<and> (\<forall>a b. ve_amount_usd v = Some a \<and> ve_amount_usd r = Some b \<longrightarrow> 0 \<le> a \<and> a \<le> b) \<and>
    ostr_or (ve_external_reference v) [] \<noteq> [] \<and>
    (\<exists>who. ve_verified_by v = Some who \<and> casefold who \<in> casefold ` set (mg_trusted_principals (me_policy env)))"
proof -
  from reachable_values [OF assms(1)] assms(2) have ok: "value_ok (me_policy env) (set (mi_values (ms_store st))) v"
    by (auto simp: values_ok_def)
  with assms(3) obtain r where "r \<in> set (mi_values (ms_store st))" "backed_by (me_policy env) r v"
    by (auto simp: value_ok_def)
  with ok assms(3) show ?thesis by (intro bexI [of _ r]) (auto simp: backed_by_def value_ok_def)
qed

theorem verified_value_is_backed_witness:
  "\<exists>v \<in> set (mi_values (ms_store (fst (sample_run value_calls)))). ve_kind v = VERIFIED \<and>
     (\<exists>r \<in> set (mi_values (ms_store (fst (sample_run value_calls)))). ve_kind r = REALIZED \<and> ve_related_evidence_id v = Some (ve_evidence_id r))"
proof -
  obtain st aw where run: "sample_run value_calls = (st, aw)" by fastforce
  have r: "mission_reachable sample_missions_env st aw" by (rule sample_reachable [OF run]) (simp add: value_calls_def)
  from value_eval run have "VERIFIED \<in> ve_kind ` set (mi_values (ms_store st))"
    by (metis fst_conv list.set_intros(1) list.set_intros(2) list.set_map)
  then obtain v where v: "v \<in> set (mi_values (ms_store st))" "ve_kind v = VERIFIED" by auto
  from verified_value_is_backed [OF r v] v run show ?thesis by auto
qed

end
