(* ===== verification/Oauth_Codec.thy ===== *)
theory Oauth_Codec
  imports Ledger
begin

text \<open>
  The signed tokens of the OAuth edge: \<open>_hmac_sign\<close> and \<open>_hmac_verify\<close> of
  \<open>oauth_edge/token_store.py\<close>, with the URL-safe Base64 of Python they use. HMAC-SHA256 is a
  parameter \<open>mac secret text\<close>, the digest of the UTF-8 encoding of the text. A signed body is
  JSON in ASCII; bytes outside ASCII in a body are read as an invalid token.
\<close>

type_synonym mac = "string \<Rightarrow> string \<Rightarrow> string"

section \<open>Base64\<close>

definition b64_char :: "nat \<Rightarrow> char" where
  "b64_char n = (if n < 26 then char_of (65 + n) else if n < 52 then char_of (71 + n)
     else if n < 62 then char_of (n - 4) else if n = 62 then CHR ''-'' else CHR ''_'')"

text \<open>\<open>urlsafe_b64encode\<close>.\<close>

fun b64_encode :: "string \<Rightarrow> string" where
  "b64_encode [] = []"
| "b64_encode [a] = (let x = of_char a in [b64_char (x div 4), b64_char (x mod 4 * 16), CHR ''='', CHR ''=''])"
| "b64_encode [a, b] = (let x = of_char a; y = of_char b in
     [b64_char (x div 4), b64_char (x mod 4 * 16 + y div 16), b64_char (y mod 16 * 4), CHR ''=''])"
| "b64_encode (a # b # c # s) = (let x = of_char a; y = of_char b; z = of_char c in
     [b64_char (x div 4), b64_char (x mod 4 * 16 + y div 16), b64_char (y mod 16 * 4 + z div 64), b64_char (z mod 64)] @
     b64_encode s)"

definition b64url :: "string \<Rightarrow> string" where
  "b64url s = rev (dropWhile (\<lambda>c. c = CHR ''='') (rev (b64_encode s)))"

definition b64_val :: "char \<Rightarrow> nat option" where
  "b64_val c = (let n = (of_char c :: nat) in
     if 65 \<le> n \<and> n \<le> 90 then Some (n - 65) else if 97 \<le> n \<and> n \<le> 122 then Some (n - 71)
     else if 48 \<le> n \<and> n \<le> 57 then Some (n + 4) else if c \<in> {CHR ''-'', CHR ''+''} then Some 62
     else if c \<in> {CHR ''_'', CHR ''/''} then Some 63 else None)"

text \<open>
  \<open>urlsafe_b64decode\<close>: \<open>q\<close> characters of the current group of four are read, \<open>l\<close> holds the bits
  left over from them, \<open>p\<close> counts the padding. Characters outside the alphabet are skipped; a
  group left open is an error.
\<close>

fun b64_decode :: "nat \<Rightarrow> nat \<Rightarrow> nat \<Rightarrow> string \<Rightarrow> string option" where
  "b64_decode q l p [] = (if q = 0 then Some [] else None)"
| "b64_decode q l p (c # s) =
     (if c = CHR ''='' then
        (if 2 \<le> q \<and> 4 \<le> q + Suc p then Some [] else b64_decode q l (if 2 \<le> q then Suc p else p) s)
      else (case b64_val c of
          None \<Rightarrow> b64_decode q l p s
        | Some v \<Rightarrow>
            if q = 0 then b64_decode 1 v 0 s
            else if q = 1 then map_option (Cons (char_of (l * 4 + v div 16))) (b64_decode 2 (v mod 16) 0 s)
            else if q = 2 then map_option (Cons (char_of (l * 16 + v div 4))) (b64_decode 3 (v mod 4) 0 s)
            else map_option (Cons (char_of (l * 64 + v))) (b64_decode 0 0 0 s)))"

definition ascii_only :: "string \<Rightarrow> bool" where
  "ascii_only s = list_all (\<lambda>c. (of_char c :: nat) < 128) s"

definition urlsafe_b64decode :: "string \<Rightarrow> string option" where
  "urlsafe_b64decode s = (if ascii_only s then b64_decode 0 0 0 s else None)"

section \<open>Signing\<close>

text \<open>\<open>str.split(".")\<close>.\<close>

fun split_acc :: "char \<Rightarrow> string \<Rightarrow> string \<Rightarrow> string list" where
  "split_acc d acc [] = [rev acc]"
| "split_acc d acc (c # s) = (if c = d then rev acc # split_acc d [] s else split_acc d (c # acc) s)"

abbreviation split_on :: "char \<Rightarrow> string \<Rightarrow> string list" where
  "split_on d s \<equiv> split_acc d [] s"

definition token_header :: string where
  "token_header = b64url ([CHR ''{'', CHR 0x22] @ ''alg'' @ [CHR 0x22, CHR '':'', CHR 0x22] @ ''HS256'' @ [CHR 0x22, CHR '','', CHR 0x22] @
     ''typ'' @ [CHR 0x22, CHR '':'', CHR 0x22] @ ''JWT'' @ [CHR 0x22, CHR ''}''])"

definition hmac_sign :: "mac \<Rightarrow> json \<Rightarrow> string \<Rightarrow> string" where
  "hmac_sign mac payload secret =
     (let body = b64url (dump compact_ascii payload); signing_input = token_header @ ''.'' @ body in
      signing_input @ ''.'' @ b64url (mac secret signing_input))"

definition hmac_verify :: "mac \<Rightarrow> string \<Rightarrow> string \<Rightarrow> json option" where
  "hmac_verify mac token secret =
     (case split_on (CHR ''.'') token of
        [header, body, sig] \<Rightarrow>
          if sig \<noteq> b64url (mac secret (header @ ''.'' @ body)) then None
          else (case urlsafe_b64decode (body @ replicate ((4 - length body mod 4) mod 4) (CHR ''='')) of
              None \<Rightarrow> None
            | Some bytes \<Rightarrow> if ascii_only bytes then loads bytes else None)
      | _ \<Rightarrow> None)"

section \<open>Decoding what was encoded\<close>

lemma b64_val_char [simp]: "n < 64 \<Longrightarrow> b64_val (b64_char n) = Some n"
  by (auto simp: b64_val_def b64_char_def Let_def)

lemma b64_char_range:
  assumes "n < 64"
  shows "b64_char n \<noteq> CHR ''=''" "b64_char n \<noteq> CHR ''.''" "(of_char (b64_char n) :: nat) < 128"
proof -
  have "b64_val (CHR ''='') = None" "b64_val (CHR ''.'') = None" by (simp_all add: b64_val_def)
  then show "b64_char n \<noteq> CHR ''=''" "b64_char n \<noteq> CHR ''.''" using b64_val_char [OF assms] by auto
  show "(of_char (b64_char n) :: nat) < 128" using assms by (auto simp: b64_char_def)
qed

lemma sextets:
  "(of_char a :: nat) div 4 < 64" "(of_char a :: nat) mod 4 * 16 < 64" "(of_char a :: nat) mod 4 * 16 + of_char b div 16 < 64"
  "(of_char b :: nat) mod 16 * 4 < 64" "(of_char b :: nat) mod 16 * 4 + of_char c div 64 < 64" "(of_char c :: nat) mod 64 < 64"
  using of_char_lt [of a] of_char_lt [of b] of_char_lt [of c] by linarith+

lemma strip_pad: "x \<noteq> d \<Longrightarrow> rev (dropWhile (\<lambda>c. c = d) (rev (xs @ [x] @ ys))) = xs @ [x] @ rev (dropWhile (\<lambda>c. c = d) (rev ys))"
  by (auto simp: dropWhile_append)

lemma b64url_simps:
  "b64url [] = []"
  "b64url [a] = [b64_char (of_char a div 4), b64_char (of_char a mod 4 * 16)]"
  "b64url [a, b] = [b64_char (of_char a div 4), b64_char (of_char a mod 4 * 16 + of_char b div 16), b64_char (of_char b mod 16 * 4)]"
  "b64url (a # b # c # s) = [b64_char (of_char a div 4), b64_char (of_char a mod 4 * 16 + of_char b div 16),
     b64_char (of_char b mod 16 * 4 + of_char c div 64), b64_char (of_char c mod 64)] @ b64url s"
  using strip_pad [OF b64_char_range(1) [OF sextets(6) [of c]], of "[_, _, _]"]
  by (simp_all add: b64url_def Let_def b64_char_range(1) sextets)

lemma b64url_chars: "\<forall>d \<in> set (b64url s). d \<noteq> CHR ''.'' \<and> (of_char d :: nat) < 128"
  by (induction s rule: b64_encode.induct) (auto simp: b64url_simps b64_char_range sextets simp del: of_char_lt)

lemma decode_char: "n < 64 \<Longrightarrow> b64_decode q l p (b64_char n # s) =
   (if q = 0 then b64_decode 1 n 0 s
    else if q = 1 then map_option (Cons (char_of (l * 4 + n div 16))) (b64_decode 2 (n mod 16) 0 s)
    else if q = 2 then map_option (Cons (char_of (l * 16 + n div 4))) (b64_decode 3 (n mod 4) 0 s)
    else map_option (Cons (char_of (l * 64 + n))) (b64_decode 0 0 0 s))"
  by (simp add: b64_char_range)

lemma bytes_of_sextets:
  assumes "(y::nat) < 256" "(z::nat) < 256"
  shows "x div 4 * 4 + (x mod 4 * 16) div 16 = x" "x div 4 * 4 + (x mod 4 * 16 + y div 16) div 16 = x"
    "(x mod 4 * 16 + y div 16) mod 16 * 16 + (y mod 16 * 4) div 4 = y"
    "(x mod 4 * 16 + y div 16) mod 16 * 16 + (y mod 16 * 4 + z div 64) div 4 = y"
    "(y mod 16 * 4 + z div 64) mod 4 * 64 + z mod 64 = z"
proof -
  have y: "y div 16 < 16" and z: "z div 64 < 4" using assms by linarith+
  have "(x mod 4 * 16 + y div 16) div 16 = x mod 4" "(x mod 4 * 16 + y div 16) mod 16 = y div 16" using y by simp_all
  moreover have "(y mod 16 * 4 + z div 64) div 4 = y mod 16" "(y mod 16 * 4 + z div 64) mod 4 = z div 64" using z by simp_all
  ultimately show "x div 4 * 4 + (x mod 4 * 16) div 16 = x" "x div 4 * 4 + (x mod 4 * 16 + y div 16) div 16 = x"
    "(x mod 4 * 16 + y div 16) mod 16 * 16 + (y mod 16 * 4) div 4 = y"
    "(x mod 4 * 16 + y div 16) mod 16 * 16 + (y mod 16 * 4 + z div 64) div 4 = y"
    "(y mod 16 * 4 + z div 64) mod 4 * 64 + z mod 64 = z"
    by simp_all
qed

lemma b64_round_trip: "b64_decode 0 0 0 (b64url s @ replicate ((4 - length (b64url s) mod 4) mod 4) (CHR ''='')) = Some s"
proof (induction s rule: b64_encode.induct)
  case (2 a)
  show ?case using bytes_of_sextets(1) [of 0 0 "of_char a"]
    by (simp add: b64url_simps decode_char b64_char_range(1) sextets numeral_2_eq_2)
next
  case (3 a b)
  show ?case using bytes_of_sextets(2,3) [of "of_char b" 0 "of_char a"]
    by (simp add: b64url_simps decode_char b64_char_range(1) sextets)
next
  case (4 a b c s)
  then show ?case using bytes_of_sextets(2,4) [of "of_char b" "of_char c" "of_char a"] bytes_of_sextets(5) [of "of_char b" "of_char c"]
    by (simp add: b64url_simps decode_char b64_char_range(1) sextets)
qed (simp add: b64url_simps)

section \<open>Verifying what was signed\<close>

lemma split_acc_none: "d \<notin> set s \<Longrightarrow> split_acc d acc s = [rev acc @ s]"
  by (induction s arbitrary: acc) auto

lemma split_acc_delim: "d \<notin> set s \<Longrightarrow> split_acc d acc (s @ d # t) = (rev acc @ s) # split_acc d [] t"
  by (induction s arbitrary: acc) auto

lemma hex_char_ascii: "n < 16 \<Longrightarrow> (of_char (hex_char n) :: nat) < 128"
  by (auto simp: hex_char_def digit_char_def)

lemma esc_ascii: "\<forall>d \<in> set (esc_char True c). (of_char d :: nat) < 128"
  using of_char_lt [of c] by (auto simp: esc_char_def Let_def hex_char_ascii simp del: of_char_lt)

lemma quote_ascii: "\<forall>d \<in> set (quote True s). (of_char d :: nat) < 128"
  using esc_ascii by (auto simp: quote_def)

lemma join_ascii:
  "\<forall>d \<in> set sep. (of_char d :: nat) < 128 \<Longrightarrow> \<forall>x \<in> set xs. \<forall>d \<in> set x. (of_char d :: nat) < 128 \<Longrightarrow>
    \<forall>d \<in> set (join sep xs). (of_char d :: nat) < 128"
  by (induction sep xs rule: join.induct) auto

lemma num_char_ascii: "num_char c \<Longrightarrow> (of_char c :: nat) < 128"
  by (auto simp: num_char_def is_digit_def Let_def)

lemma dump_ascii: "wf_json v \<Longrightarrow> \<forall>d \<in> set (dump compact_ascii v). (of_char d :: nat) < 128"
proof (induction v)
  case (JInt i)
  then show ?case using int_str_lit(3) num_char_ascii by auto
next
  case (JFloat t)
  then have "float_lit t \<or> t \<in> {''NaN'', ''Infinity'', ''-Infinity''}" by (simp add: float_text_def)
  then show ?case using float_lit_num [of t] num_char_ascii by auto
next
  case (JStr s)
  then show ?case using quote_ascii by (simp add: compact_ascii_def)
next
  case (JList xs)
  then have "\<forall>d \<in> set (join '','' (map (dump compact_ascii) xs)). (of_char d :: nat) < 128"
    by (intro join_ascii) auto
  then show ?case by (auto simp: compact_ascii_def)
next
  case (JObj kvs)
  let ?m = "\<lambda>kv. quote True (fst kv) @ CHR '':'' # dump compact_ascii (snd kv)"
  have "\<forall>d \<in> set (dump compact_ascii (snd kv)). (of_char d :: nat) < 128" if "kv \<in> set kvs" for kv
    using JObj that by (cases kv) (auto simp: list_all_iff)
  then have "\<forall>x \<in> set (map ?m kvs). \<forall>d \<in> set x. (of_char d :: nat) < 128"
    using quote_ascii by auto
  then have "\<forall>d \<in> set (join '','' (map ?m kvs)). (of_char d :: nat) < 128" by (intro join_ascii) auto
  then show ?case by (auto simp: compact_ascii_def dump_JObj)
qed auto

lemma token_parts:
  "split_on (CHR ''.'') (hmac_sign mac payload secret) =
    [token_header, b64url (dump compact_ascii payload), b64url (mac secret (token_header @ ''.'' @ b64url (dump compact_ascii payload)))]"
proof -
  have "CHR ''.'' \<notin> set (b64url s)" for s using b64url_chars by blast
  then show ?thesis
    unfolding hmac_sign_def Let_def token_header_def by (simp add: split_acc_none split_acc_delim)
qed

theorem hmac_round_trip:
  assumes "wf_json payload"
  shows "hmac_verify mac (hmac_sign mac payload secret) secret = Some payload"
proof -
  let ?b = "b64url (dump compact_ascii payload)"
  have "ascii_only (?b @ replicate ((4 - length ?b mod 4) mod 4) (CHR ''=''))"
  proof -
    have "list_all (\<lambda>c. (of_char c :: nat) < 128) ?b" using b64url_chars by (simp add: list_all_iff)
    moreover have "list_all (\<lambda>c. (of_char c :: nat) < 128) (replicate n (CHR ''=''))" for n by (induction n) simp_all
    ultimately show ?thesis by (simp add: ascii_only_def)
  qed
  moreover have "ascii_only (dump compact_ascii payload)"
    using dump_ascii [OF assms] by (simp add: ascii_only_def list_all_iff)
  ultimately show ?thesis
    by (simp add: hmac_verify_def token_parts urlsafe_b64decode_def b64_round_trip loads_dump assms)
qed

end
