(* ===== verification/Oauth_Tokens.thy ===== *)
theory Oauth_Tokens
  imports Oauth_Codec Complex_Main
begin

text \<open>
  \<open>TokenStore\<close> of \<open>oauth_edge/token_store.py\<close> and the browser session of \<open>oauth_edge/session.py\<close>:
  pending authorization requests in memory, signed access tokens, refresh tokens in a table. The
  column of scopes holds the list it encodes. What \<open>secrets\<close> and \<open>uuid\<close> return and the reading of
  the clock are arguments; times are rational. SHA-256 is a parameter that gives the bytes.
\<close>

section \<open>Environment and state\<close>

record oauth_env =
  og_mac :: mac
  og_sha :: "string \<Rightarrow> string"
  og_secret :: string
  og_issuer :: string
  og_audience :: string
  og_access_ttl :: int
  og_refresh_ttl :: int
  og_session_ttl :: int

definition auth_code_ttl :: rat where
  "auth_code_ttl = 300"

definition hexdigest :: "oauth_env \<Rightarrow> string \<Rightarrow> string" where
  "hexdigest env s = concat (map (\<lambda>c. let n = (of_char c :: nat) in [hex_char (n div 16), hex_char (n mod 16)]) (og_sha env s))"

record pending_auth =
  pn_request_id :: string
  pn_principal_id :: string
  pn_client_id :: string
  pn_redirect_uri :: string
  pn_scopes :: "string list"
  pn_code_challenge :: string
  pn_code_challenge_method :: string
  pn_state :: string
  pn_created_at :: rat
  pn_approved :: "bool option"
  pn_auth_code :: "string option"
  pn_approval_id :: "string option"
  pn_approving_principal :: "string option"

record refresh_row =
  rf_jti :: string
  rf_principal_id :: string
  rf_client_id :: string
  rf_scopes :: "string list"
  rf_token_hash :: string
  rf_issued_at :: rat
  rf_expires_at :: rat
  rf_revoked :: bool

record token_store =
  tk_pending :: "(string, pending_auth) dict"
  tk_refresh :: "refresh_row list"

datatype token_exn = Attribute_Error | Type_Error | Value_Error string | Integrity_Error

text \<open>The check of the secret in the constructor and in \<open>session._secret\<close>.\<close>

definition check_secret :: "string \<Rightarrow> token_exn + string" where
  "check_secret raw = (if length raw < 32 then Inl (Value_Error ''AETHER_OAUTH_EDGE_SECRET must be set and at least 32 characters'')
     else Inr raw)"

section \<open>Pending authorizations\<close>

definition put_pending :: "pending_auth \<Rightarrow> token_store \<Rightarrow> token_store" where
  "put_pending req ts = ts\<lparr>tk_pending := dict_set (pn_request_id req) req (tk_pending ts)\<rparr>"

definition create_pending_auth :: "rat \<Rightarrow> string \<Rightarrow> string \<Rightarrow> string \<Rightarrow> string \<Rightarrow> string list \<Rightarrow> string \<Rightarrow> string \<Rightarrow> string
    \<Rightarrow> token_store \<Rightarrow> pending_auth \<times> token_store" where
  "create_pending_auth now uuid principal_id client_id redirect_uri scopes challenge challenge_method state ts =
     (let req = \<lparr>pn_request_id = uuid, pn_principal_id = principal_id, pn_client_id = client_id, pn_redirect_uri = redirect_uri,
        pn_scopes = scopes, pn_code_challenge = challenge, pn_code_challenge_method = challenge_method, pn_state = state,
        pn_created_at = now, pn_approved = None, pn_auth_code = None, pn_approval_id = None, pn_approving_principal = None\<rparr>
      in (req, put_pending req ts))"

definition cancel_pending_auth :: "string \<Rightarrow> token_store \<Rightarrow> token_store" where
  "cancel_pending_auth i ts = ts\<lparr>tk_pending := dict_pop i (tk_pending ts)\<rparr>"

definition get_pending_auth :: "rat \<Rightarrow> string \<Rightarrow> token_store \<Rightarrow> pending_auth option \<times> token_store" where
  "get_pending_auth now i ts =
     (case dict_get (tk_pending ts) i of
        None \<Rightarrow> (None, ts)
      | Some req \<Rightarrow> if auth_code_ttl < now - pn_created_at req then (None, cancel_pending_auth i ts) else (Some req, ts))"

definition approve_auth :: "rat \<Rightarrow> string \<Rightarrow> string \<Rightarrow> token_store \<Rightarrow> string option \<times> token_store" where
  "approve_auth now code i ts =
     (case get_pending_auth now i ts of
        (None, ts') \<Rightarrow> (None, ts')
      | (Some req, ts') \<Rightarrow>
          if pn_approved req \<noteq> None then (None, ts')
          else (Some code, ts'\<lparr>tk_pending := dict_set i (req\<lparr>pn_approved := Some True, pn_auth_code := Some code\<rparr>) (tk_pending ts')\<rparr>))"

definition reject_auth :: "rat \<Rightarrow> string \<Rightarrow> token_store \<Rightarrow> bool \<times> token_store" where
  "reject_auth now i ts =
     (case get_pending_auth now i ts of
        (None, ts') \<Rightarrow> (False, ts')
      | (Some req, ts') \<Rightarrow> (True, ts'\<lparr>tk_pending := dict_set i (req\<lparr>pn_approved := Some False\<rparr>) (tk_pending ts')\<rparr>))"

definition has_code :: "string \<Rightarrow> pending_auth \<Rightarrow> bool" where
  "has_code code req = (pn_auth_code req = Some code \<and> pn_approved req = Some True)"

definition consume_auth_code :: "string \<Rightarrow> token_store \<Rightarrow> pending_auth option \<times> token_store" where
  "consume_auth_code code ts =
     (case find (\<lambda>kv. has_code code (snd kv)) (tk_pending ts) of
        None \<Rightarrow> (None, ts) | Some (i, req) \<Rightarrow> (Some req, cancel_pending_auth i ts))"

definition get_pending_auth_by_code :: "rat \<Rightarrow> string \<Rightarrow> token_store \<Rightarrow> pending_auth option" where
  "get_pending_auth_by_code now code ts =
     map_option snd (find (\<lambda>kv. has_code code (snd kv) \<and> now - pn_created_at (snd kv) \<le> auth_code_ttl) (tk_pending ts))"

definition list_pending_auths :: "rat \<Rightarrow> token_store \<Rightarrow> pending_auth list" where
  "list_pending_auths now ts =
     filter (\<lambda>req. now - pn_created_at req \<le> auth_code_ttl \<and> pn_approved req = None) (map snd (tk_pending ts))"

section \<open>Access tokens\<close>

text \<open>\<open>int()\<close> of a number.\<close>

definition py_trunc :: "rat \<Rightarrow> int" where
  "py_trunc x = (if 0 \<le> x then \<lfloor>x\<rfloor> else \<lceil>x\<rceil>)"

definition access_payload :: "oauth_env \<Rightarrow> rat \<Rightarrow> string \<Rightarrow> string \<Rightarrow> string list \<Rightarrow> json" where
  "access_payload env now uuid principal_id scopes = JObj [
     (''sub'', JStr principal_id), (''principal_id'', JStr principal_id), (''scopes'', JList (map JStr scopes)),
     (''iat'', JInt (py_trunc now)), (''exp'', JInt (py_trunc now + og_access_ttl env)), (''jti'', JStr uuid),
     (''iss'', JStr (og_issuer env)), (''aud'', JStr (og_audience env))]"

definition issue_access_token :: "oauth_env \<Rightarrow> rat \<Rightarrow> string \<Rightarrow> string \<Rightarrow> string list \<Rightarrow> string \<times> int" where
  "issue_access_token env now uuid principal_id scopes =
     (hmac_sign (og_mac env) (access_payload env now uuid principal_id scopes) (og_secret env), og_access_ttl env)"

text \<open>The number a float literal denotes.\<close>

definition pow10 :: "int \<Rightarrow> rat" where
  "pow10 e = (if 0 \<le> e then 10 ^ nat e else 1 / 10 ^ nat (- e))"

definition decimal :: "string \<Rightarrow> rat" where
  "decimal t =
     (let u = unsigned t; ip = takeWhile is_digit u; r = dropWhile is_digit u;
          fp = (case r of c # s \<Rightarrow> if c = CHR ''.'' then takeWhile is_digit s else [] | [] \<Rightarrow> []);
          er = (case r of c # s \<Rightarrow> if c = CHR ''.'' then dropWhile is_digit s else r | [] \<Rightarrow> []);
          e = (case er of _ # CHR ''+'' # ds \<Rightarrow> int (digits_val ds) | _ # ds \<Rightarrow> int_val ds | [] \<Rightarrow> 0);
          v = of_nat (digits_val (ip @ fp)) * pow10 (e - int (length fp))
      in if t \<noteq> [] \<and> hd t = CHR ''-'' then - v else v)"

text \<open>\<open>value < x\<close>; \<open>None\<close> is a \<open>TypeError\<close>.\<close>

definition json_less :: "json \<Rightarrow> rat \<Rightarrow> bool option" where
  "json_less j x = (case j of
     JInt i \<Rightarrow> Some (of_int i < x)
   | JBool b \<Rightarrow> Some ((if b then 1 else 0) < x)
   | JFloat t \<Rightarrow> Some (if t = ''NaN'' \<or> t = ''Infinity'' then False else if t = ''-Infinity'' then True else decimal t < x)
   | _ \<Rightarrow> None)"

definition verify_access_token :: "oauth_env \<Rightarrow> rat \<Rightarrow> string \<Rightarrow> token_exn + (string, json) dict option" where
  "verify_access_token env now token =
     (case hmac_verify (og_mac env) token (og_secret env) of
        None \<Rightarrow> Inr None
      | Some JNull \<Rightarrow> Inr None
      | Some (JObj payload) \<Rightarrow>
          (case json_less (case dict_get payload ''exp'' of None \<Rightarrow> JInt 0 | Some j \<Rightarrow> j) now of
             None \<Rightarrow> Inl Type_Error
           | Some True \<Rightarrow> Inr None
           | Some False \<Rightarrow>
               if dict_get payload ''iss'' \<noteq> Some (JStr (og_issuer env)) then Inr None
               else if dict_get payload ''aud'' \<noteq> Some (JStr (og_audience env)) then Inr None
               else Inr (Some payload))
      | Some _ \<Rightarrow> Inl Attribute_Error)"

section \<open>Refresh tokens\<close>

definition mutate_scope :: string where
  "mutate_scope = ''aether.mutate''"

definition issue_refresh_token :: "oauth_env \<Rightarrow> rat \<Rightarrow> string \<Rightarrow> string \<Rightarrow> string \<Rightarrow> string list \<Rightarrow> string \<Rightarrow> token_store
    \<Rightarrow> (token_exn + string) \<times> token_store" where
  "issue_refresh_token env now plaintext uuid principal_id scopes client_id ts =
     (if uuid \<in> rf_jti ` set (tk_refresh ts) then (Inl Integrity_Error, ts)
      else (Inr plaintext, ts\<lparr>tk_refresh := tk_refresh ts @ [
        \<lparr>rf_jti = uuid, rf_principal_id = principal_id, rf_client_id = client_id,
         rf_scopes = filter (\<lambda>s. s \<noteq> mutate_scope) scopes, rf_token_hash = hexdigest env plaintext,
         rf_issued_at = now, rf_expires_at = now + of_int (og_refresh_ttl env), rf_revoked = False\<rparr>]\<rparr>))"

definition revoke_rows :: "(refresh_row \<Rightarrow> bool) \<Rightarrow> token_store \<Rightarrow> token_store" where
  "revoke_rows P ts = ts\<lparr>tk_refresh := map (\<lambda>r. if P r then r\<lparr>rf_revoked := True\<rparr> else r) (tk_refresh ts)\<rparr>"

definition consume_refresh_token :: "oauth_env \<Rightarrow> rat \<Rightarrow> string \<Rightarrow> string \<Rightarrow> token_store
    \<Rightarrow> (string \<times> string list) option \<times> token_store" where
  "consume_refresh_token env now plaintext client_id ts =
     (case find (\<lambda>r. rf_token_hash r = hexdigest env plaintext) (tk_refresh ts) of
        None \<Rightarrow> (None, ts)
      | Some r \<Rightarrow>
          if rf_revoked r \<or> rf_expires_at r < now then (None, ts)
          else if client_id \<noteq> [] \<and> rf_client_id r \<noteq> [] \<and> client_id \<noteq> rf_client_id r then (None, ts)
          else (Some (rf_principal_id r, rf_scopes r), revoke_rows (\<lambda>x. rf_jti x = rf_jti r) ts))"

definition revoke_all_for_principal :: "string \<Rightarrow> token_store \<Rightarrow> int \<times> token_store" where
  "revoke_all_for_principal i ts =
     (int (length (filter (\<lambda>r. rf_principal_id r = i \<and> \<not> rf_revoked r) (tk_refresh ts))),
      revoke_rows (\<lambda>r. rf_principal_id r = i \<and> \<not> rf_revoked r) ts)"

section \<open>The browser session\<close>

definition session_payload :: "oauth_env \<Rightarrow> rat \<Rightarrow> string \<Rightarrow> string \<Rightarrow> json" where
  "session_payload env now uuid who = JObj [
     (''purpose'', JStr ''founder-session''), (''sub'', JStr who), (''iat'', JInt (py_trunc now)),
     (''exp'', JInt (py_trunc now + og_session_ttl env)), (''jti'', JStr uuid)]"

definition sign_founder_session :: "oauth_env \<Rightarrow> rat \<Rightarrow> string \<Rightarrow> string \<Rightarrow> token_exn + string" where
  "sign_founder_session env now uuid who =
     bindE (check_secret (og_secret env)) (\<lambda>secret. Inr (hmac_sign (og_mac env) (session_payload env now uuid who) secret))"

text \<open>\<open>int()\<close> of a text: an optional sign and digits, single underscores between them.\<close>

fun no_double :: "string \<Rightarrow> bool" where
  "no_double (a # b # s) = (\<not> (a = CHR ''_'' \<and> b = CHR ''_'') \<and> no_double (b # s))"
| "no_double s = True"

definition py_int_text :: "string \<Rightarrow> int option" where
  "py_int_text s =
     (let t = strip s; u = (if t \<noteq> [] \<and> hd t \<in> {CHR ''-'', CHR ''+''} then tl t else t) in
      if u \<noteq> [] \<and> is_digit (hd u) \<and> is_digit (last u) \<and> list_all (\<lambda>c. is_digit c \<or> c = CHR ''_'') u \<and> no_double u
      then Some ((if hd t = CHR ''-'' then - 1 else 1) * int (digits_val (filter is_digit u))) else None)"

definition py_int :: "json \<Rightarrow> token_exn + int" where
  "py_int j = (case j of
     JInt i \<Rightarrow> Inr i
   | JBool b \<Rightarrow> Inr (if b then 1 else 0)
   | JFloat t \<Rightarrow> if t \<in> {''NaN'', ''Infinity'', ''-Infinity''} then Inl (Value_Error t) else Inr (py_trunc (decimal t))
   | JStr s \<Rightarrow> of_option (Value_Error s) (py_int_text s)
   | _ \<Rightarrow> Inl Type_Error)"

text \<open>The principal of a session is the text that \<open>sign_founder_session\<close> signed.\<close>

definition verify_founder_session :: "oauth_env \<Rightarrow> rat \<Rightarrow> string \<Rightarrow> token_exn + string option" where
  "verify_founder_session env now token =
     bindE (check_secret (og_secret env)) (\<lambda>secret.
     case hmac_verify (og_mac env) token secret of
       None \<Rightarrow> Inr None
     | Some JNull \<Rightarrow> Inr None
     | Some (JObj payload) \<Rightarrow>
         if dict_get payload ''purpose'' \<noteq> Some (JStr ''founder-session'') then Inr None
         else bindE (py_int (case dict_get payload ''exp'' of None \<Rightarrow> JInt 0 | Some j \<Rightarrow> j)) (\<lambda>e.
           if e < py_trunc now then Inr None
           else Inr (case dict_get payload ''sub'' of Some (JStr who) \<Rightarrow> Some who | _ \<Rightarrow> None))
     | Some _ \<Rightarrow> Inl Attribute_Error)"

end
