(* ===== verification/Oauth_Edge.thy ===== *)
theory Oauth_Edge
  imports Oauth_Tokens Approval_Store State_Result
begin

text \<open>
  The OAuth edge: the principal registry (\<open>oauth_edge/registry.py\<close>), the operator's credential
  (\<open>approvals/auth.py\<close>), the link to the trusted approval inbox (\<open>oauth_edge/approval_inbox.py\<close>), and
  the endpoints of \<open>oauth_edge/server.py\<close> that decide who gets a token and which request is passed
  on. A handler runs on one event loop without an await, except \<open>mcp_proxy\<close>, which ends with the
  upstream request. Parsed request fields are arguments, pages are the data they show (a dash in a
  message is a hyphen here), and a request body is its text.
\<close>

section \<open>Principals and operators\<close>

definition sq :: "string \<Rightarrow> string" where
  "sq s = CHR 0x27 # s @ [CHR 0x27]"

record principal_entry =
  pe_id :: "string option"
  pe_display_name :: "string option"
  pe_client_id :: "string option"
  pe_allowed_scopes :: "string list"
  pe_redirect_uris :: "string list"
  pe_mutation_authority :: bool

record principal_rec =
  pc_id :: string
  pc_display_name :: string
  pc_client :: string
  pc_allowed_scopes :: "string list"
  pc_redirect_uris :: "string list"
  pc_mutation_authority :: bool

record principal_registry =
  rg_by_id :: "(string, principal_rec) dict"
  rg_by_client_id :: "(string, principal_rec) dict"

datatype registry_exn = Registry_Value_Error string | Registry_Key_Error string

definition allows_redirect_uri :: "string \<Rightarrow> principal_rec \<Rightarrow> bool" where
  "allows_redirect_uri u p = (u \<in> set (pc_redirect_uris p))"

definition effective_scopes :: "string list \<Rightarrow> principal_rec \<Rightarrow> string list" where
  "effective_scopes requested p =
     filter (\<lambda>s. s \<in> set (pc_allowed_scopes p) \<and> (s = mutate_scope \<longrightarrow> pc_mutation_authority p)) requested"

definition load_entry :: "principal_entry \<Rightarrow> registry_exn + principal_rec" where
  "load_entry e =
     (if pe_redirect_uris e = []
      then Inl (Registry_Value_Error (''principal '' @ sq (case pe_id e of None \<Rightarrow> ''None'' | Some i \<Rightarrow> i) @
        '' has no redirect_uris - every principal must declare an exact redirect URI allowlist (P0 #6).''))
      else bindE (of_option (Registry_Key_Error ''id'') (pe_id e)) (\<lambda>i.
        bindE (of_option (Registry_Key_Error ''display_name'') (pe_display_name e)) (\<lambda>n.
        bindE (of_option (Registry_Key_Error ''client_id'') (pe_client_id e)) (\<lambda>c.
        Inr \<lparr>pc_id = i, pc_display_name = n, pc_client = c, pc_allowed_scopes = pe_allowed_scopes e,
          pc_redirect_uris = pe_redirect_uris e, pc_mutation_authority = pe_mutation_authority e\<rparr>))))"

fun load_registry :: "principal_entry list \<Rightarrow> principal_registry \<Rightarrow> registry_exn + principal_registry" where
  "load_registry [] g = Inr g"
| "load_registry (e # es) g = bindE (load_entry e) (\<lambda>p.
     load_registry es (g\<lparr>rg_by_id := dict_set (pc_id p) p (rg_by_id g),
       rg_by_client_id := dict_set (pc_client p) p (rg_by_client_id g)\<rparr>))"

record operator_auth =
  oc_token :: string
  oc_principal :: string

definition make_operator_auth :: "string \<Rightarrow> string \<Rightarrow> operator_auth" where
  "make_operator_auth token who = \<lparr>oc_token = strip token, oc_principal = strip who\<rparr>"

definition operator_configured :: "operator_auth \<Rightarrow> bool" where
  "operator_configured a = (oc_token a \<noteq> [] \<and> oc_principal a \<noteq> [])"

datatype operator_exn = Operator_Auth_Error string | Operator_Type_Error

text \<open>\<open>hmac.compare_digest\<close> on text: both sides must be ASCII.\<close>

definition compare_text :: "string \<Rightarrow> string \<Rightarrow> bool option" where
  "compare_text a b = (if ascii_only a \<and> ascii_only b then Some (a = b) else None)"

definition authenticate :: "operator_auth \<Rightarrow> string option \<Rightarrow> operator_exn + string" where
  "authenticate a supplied =
     (let candidate = strip (ostr_or supplied []) in
      if \<not> operator_configured a then Inl (Operator_Auth_Error ''Trusted operator token is not configured'')
      else if candidate = [] then Inl (Operator_Auth_Error ''Invalid trusted operator token'')
      else (case compare_text candidate (oc_token a) of
          None \<Rightarrow> Inl Operator_Type_Error
        | Some False \<Rightarrow> Inl (Operator_Auth_Error ''Invalid trusted operator token'')
        | Some True \<Rightarrow> Inr (oc_principal a)))"

section \<open>State\<close>

record edge_env =
  eg_oauth :: oauth_env
  eg_registry :: principal_registry
  eg_operator :: operator_auth
  eg_approval_ttl :: int
  eg_action_sha :: digest
  eg_fresh :: "nat \<Rightarrow> string"
  eg_mcp_token :: string
  eg_mcp_operator_token :: string
  eg_admin_token :: string
  eg_upstream :: string
  eg_upstream_token :: string

record audit_row =
  au_ts :: rat
  au_event :: string
  au_data :: "(string, json) dict"

record edge_state =
  ed_tokens :: token_store
  ed_store :: approval_store
  ed_audit :: "audit_row list"
  ed_counter :: nat

definition initial_edge :: edge_state where
  "initial_edge = \<lparr>ed_tokens = \<lparr>tk_pending = [], tk_refresh = []\<rparr>, ed_store = empty_store, ed_audit = [], ed_counter = 0\<rparr>"

record pending_view =
  pv_request_id :: string
  pv_principal_id :: string
  pv_display_name :: string
  pv_scopes :: "string list"
  pv_created_at :: rat
  pv_age_seconds :: int

record mcp_forward =
  mf_method :: string
  mf_url :: string
  mf_headers :: "(string, string) dict"
  mf_body :: string
  mf_principal :: json
  mf_scopes :: "json list"
  mf_auth_source :: string
  mf_path :: string

text \<open>
  \<open>Login_Redirect\<close> sets the session cookie; \<open>Forward\<close> is the request to the upstream, with what the
  audit line after it needs.
\<close>

datatype edge_response =
    Error_Page int string string
  | Consent_Page string principal_rec "string list" bool string
  | Json_Page int "(string, json) dict"
  | Pending_Page "pending_view list"
  | Redirect_To string
  | Login_Page int "string option"
  | Login_Redirect string string
  | Forward mcp_forward
  | Upstream_Page int "(string, string) dict" string

type_synonym 'a edge = "(edge_state, token_exn, 'a) comp"

definition fresh :: "edge_env \<Rightarrow> string edge" where
  "fresh env st = (Inr (eg_fresh env (ed_counter st)), st\<lparr>ed_counter := Suc (ed_counter st)\<rparr>)"

definition on_tokens :: "(token_store \<Rightarrow> 'a \<times> token_store) \<Rightarrow> 'a edge" where
  "on_tokens f st = (case f (ed_tokens st) of (r, ts) \<Rightarrow> (Inr r, st\<lparr>ed_tokens := ts\<rparr>))"

definition on_refresh :: "(token_store \<Rightarrow> (token_exn + 'a) \<times> token_store) \<Rightarrow> 'a edge" where
  "on_refresh f st = (case f (ed_tokens st) of (r, ts) \<Rightarrow> (r, st\<lparr>ed_tokens := ts\<rparr>))"

text \<open>An exception of the approval store is an answer here: the callers catch it.\<close>

definition on_approvals :: "'a approval_op \<Rightarrow> (approval_error + 'a) edge" where
  "on_approvals f st = (case f (ed_store st) of (r, s) \<Rightarrow> (Inr r, st\<lparr>ed_store := s\<rparr>))"

definition raise_or :: "token_exn + 'a \<Rightarrow> 'a edge" where
  "raise_or r st = (r, st)"

definition audit :: "rat \<Rightarrow> string \<Rightarrow> (string, json) dict \<Rightarrow> unit edge" where
  "audit now event data = modS (\<lambda>st. st\<lparr>ed_audit := ed_audit st @ [\<lparr>au_ts = now, au_event = event, au_data = data\<rparr>]\<rparr>)"

definition scopes_json :: "string list \<Rightarrow> json" where
  "scopes_json ss = JList (map JStr ss)"

definition opt_json :: "string option \<Rightarrow> json" where
  "opt_json s = (case s of None \<Rightarrow> JNull | Some t \<Rightarrow> JStr t)"

primrec exn_class :: "approval_error \<Rightarrow> string" where
  "exn_class (Approval_Not_Found i) = ''ApprovalNotFound''"
| "exn_class (Approval_Expired i) = ''ApprovalExpired''"
| "exn_class (Approval_State_Error m) = ''ApprovalStateError''"
| "exn_class (Approval_Integrity_Error i) = ''ApprovalIntegrityError''"
| "exn_class (Approval_Value_Error m) = ''ValueError''"
| "exn_class Approval_Sql_Error = ''IntegrityError''"
| "exn_class Approval_Json_Error = ''JSONDecodeError''"
| "exn_class (Approval_Contract_Error e) =
     (case e of Missing_Key k \<Rightarrow> ''KeyError'' | Bad_Enum v \<Rightarrow> ''ValueError'' | Bad_Type v \<Rightarrow> ''TypeError'')"

section \<open>The trusted approval inbox\<close>

definition oauth_proposal :: "string \<Rightarrow> string \<Rightarrow> string \<Rightarrow> string \<Rightarrow> string list \<Rightarrow> string \<Rightarrow> string \<Rightarrow> action_proposal" where
  "oauth_proposal hex request_id principal_id client_id scopes redirect_uri state =
     \<lparr>ap_target = TOOL, ap_operation = ''oauth.authorize'', ap_arguments = [], ap_required_scopes = [READ],
      ap_reason = ''Authorize principal '' @ sq principal_id @ '' (client '' @ sq client_id @ '') to connect via OAuth.'',
      ap_risk = MEDIUM, ap_reversible = True, ap_correlation_id = None, ap_retry_reason = None,
      ap_metadata = [(''oauth_request_id'', PStr request_id), (''principal_id'', PStr principal_id), (''client_id'', PStr client_id),
        (''scopes'', PList (map PStr scopes)), (''redirect_uri'', PStr redirect_uri), (''state'', PStr state), (''channel'', PStr ''oauth'')],
      ap_action_id = new_id ''act'' hex\<rparr>"

definition submit_oauth_proposal :: "edge_env \<Rightarrow> rat \<Rightarrow> string \<Rightarrow> string \<Rightarrow> string \<Rightarrow> string list \<Rightarrow> string \<Rightarrow> string
    \<Rightarrow> (approval_error + pending_action \<times> bool) edge" where
  "submit_oauth_proposal env now request_id principal_id client_id scopes redirect_uri state =
     bindS (fresh env) (\<lambda>hex.
     bindS (fresh env) (\<lambda>hex'.
     on_approvals (create_or_get (eg_action_sha env) (eg_approval_ttl env) hex' (py_trunc now) (Some (eg_approval_ttl env))
       (oauth_proposal hex request_id principal_id client_id scopes redirect_uri state) (Some ''oauth'') (Some principal_id) None)))"

definition mark_decision :: "edge_env \<Rightarrow> rat \<Rightarrow> string \<Rightarrow> bool \<Rightarrow> string \<Rightarrow> string \<Rightarrow> (approval_error + pending_action) edge" where
  "mark_decision env now i approved who reason =
     bindS (fresh env) (\<lambda>hex. on_approvals (decide (eg_action_sha env) hex (py_trunc now) i approved who reason ''http''))"

section \<open>Who decides\<close>

definition current_founder :: "edge_env \<Rightarrow> rat \<Rightarrow> string option \<Rightarrow> string option edge" where
  "current_founder env now cookie =
     (case cookie of None \<Rightarrow> ret None | Some t \<Rightarrow> if t = [] then ret None else raise_or (verify_founder_session (eg_oauth env) now t))"

definition authenticate_founder :: "edge_env \<Rightarrow> rat \<Rightarrow> string option \<Rightarrow> string option \<Rightarrow> string option edge" where
  "authenticate_founder env now cookie header =
     (if ostr_or header [] \<noteq> [] then ret (case authenticate (eg_operator env) header of Inl e \<Rightarrow> None | Inr who \<Rightarrow> Some who)
      else current_founder env now cookie)"

definition operator_rejection_status :: "edge_env \<Rightarrow> int" where
  "operator_rejection_status env = (if operator_configured (eg_operator env) then 401 else 503)"

definition safer_redirect_target :: "string \<Rightarrow> string" where
  "safer_redirect_target t = (if \<not> starts_with ''/'' t \<or> starts_with ''//'' t then ''/oauth/authorize'' else t)"

definition oauth_login :: "edge_env \<Rightarrow> rat \<Rightarrow> string \<Rightarrow> string \<Rightarrow> edge_response edge" where
  "oauth_login env now operator_token nxt =
     (case authenticate (eg_operator env) (Some operator_token) of
        Inl e \<Rightarrow> ret (Login_Page (operator_rejection_status env) (Some ''Invalid Founder operator token.''))
      | Inr who \<Rightarrow>
          bindS (fresh env) (\<lambda>uuid.
          bindS (raise_or (sign_founder_session (eg_oauth env) now uuid who)) (\<lambda>cookie.
          ret (Login_Redirect (str_or (safer_redirect_target nxt) ''/oauth/authorize'') cookie))))"

section \<open>Authorization\<close>

definition register_client :: "edge_env \<Rightarrow> (string, json) dict \<Rightarrow> token_exn + edge_response" where
  "register_client env body =
     (case (case dict_get body ''client_id'' of
          None \<Rightarrow> Inr (dict_get (rg_by_client_id (eg_registry env)) [])
        | Some (JStr c) \<Rightarrow> Inr (dict_get (rg_by_client_id (eg_registry env)) c)
        | Some (JList _) \<Rightarrow> Inl Type_Error
        | Some (JObj _) \<Rightarrow> Inl Type_Error
        | Some _ \<Rightarrow> Inr None) of
        Inl e \<Rightarrow> Inl e
      | Inr None \<Rightarrow> Inr (Json_Page 400 [(''error'', JStr ''invalid_client_metadata'')])
      | Inr (Some p) \<Rightarrow> Inr (Json_Page 201 [(''client_id'', JStr (pc_client p)), (''client_name'', JStr (pc_display_name p)),
          (''grant_types'', scopes_json [''authorization_code'', ''refresh_token'']), (''response_types'', scopes_json [''code'']),
          (''token_endpoint_auth_method'', JStr ''none''), (''scope'', JStr (join '' '' (sort (remdups (pc_allowed_scopes p)))))]))"

record authorize_request =
  az_response_type :: string
  az_client_id :: string
  az_redirect_uri :: string
  az_scope :: string
  az_state :: string
  az_code_challenge :: string
  az_code_challenge_method :: string
  az_cookie :: "string option"
  az_path :: string
  az_query :: string

definition set_approval_id :: "string \<Rightarrow> string \<Rightarrow> token_store \<Rightarrow> unit \<times> token_store" where
  "set_approval_id i a ts = ((), case dict_get (tk_pending ts) i of None \<Rightarrow> ts
     | Some req \<Rightarrow> ts\<lparr>tk_pending := dict_set i (req\<lparr>pn_approval_id := Some a\<rparr>) (tk_pending ts)\<rparr>)"

definition set_approving_principal :: "string \<Rightarrow> string \<Rightarrow> token_store \<Rightarrow> unit \<times> token_store" where
  "set_approving_principal i who ts = ((), case dict_get (tk_pending ts) i of None \<Rightarrow> ts
     | Some req \<Rightarrow> ts\<lparr>tk_pending := dict_set i (req\<lparr>pn_approving_principal := Some who\<rparr>) (tk_pending ts)\<rparr>)"

definition authorize :: "edge_env \<Rightarrow> rat \<Rightarrow> authorize_request \<Rightarrow> edge_response edge" where
  "authorize env now r =
     (if az_response_type r \<noteq> ''code'' then ret (Error_Page 400 ''unsupported_response_type'' (''Only '' @ sq ''code'' @ '' is supported.''))
      else (case dict_get (rg_by_client_id (eg_registry env)) (az_client_id r) of
        None \<Rightarrow> ret (Error_Page 400 ''unauthorized_client'' (''Unknown client_id: '' @ az_client_id r))
      | Some p \<Rightarrow>
          if az_redirect_uri r = [] then ret (Error_Page 400 ''invalid_request'' ''redirect_uri is required.'')
          else if \<not> allows_redirect_uri (az_redirect_uri r) p
          then ret (Error_Page 400 ''unauthorized_client'' (''redirect_uri is not registered for client '' @ sq (az_client_id r) @
            ''. Only Founder-registered redirect URIs are accepted.''))
          else if az_code_challenge r = [] then ret (Error_Page 400 ''invalid_request'' ''PKCE code_challenge is required.'')
          else if az_code_challenge_method r \<noteq> ''S256'' then ret (Error_Page 400 ''invalid_request'' ''Only PKCE S256 is supported.'')
          else (let scopes = effective_scopes (words_acc [] (az_scope r)) p in
            bindS (fresh env) (\<lambda>uuid.
            bindS (on_tokens (create_pending_auth now uuid (pc_id p) (az_client_id r) (az_redirect_uri r) scopes
              (az_code_challenge r) (az_code_challenge_method r) (az_state r))) (\<lambda>pending.
            bindS (submit_oauth_proposal env now (pn_request_id pending) (pc_id p) (az_client_id r) scopes (az_redirect_uri r)
              (az_state r)) (\<lambda>submitted.
            case submitted of
              Inl e \<Rightarrow>
                bindS (on_tokens (\<lambda>ts. ((), cancel_pending_auth (pn_request_id pending) ts))) (\<lambda>_.
                ret (Error_Page 503 ''governance_unavailable''
                  (''The authorization could not be recorded in the Trusted Approval Inbox; please retry. ('' @ exn_class e @ '')'')))
            | Inr (pa, _) \<Rightarrow>
                bindS (on_tokens (set_approval_id (pn_request_id pending) (pa_approval_id pa))) (\<lambda>_.
                bindS (audit now ''auth_requested'' [(''request_id'', JStr (pn_request_id pending)), (''principal_id'', JStr (pc_id p)),
                  (''scopes'', scopes_json scopes)]) (\<lambda>_.
                bindS (current_founder env now (az_cookie r)) (\<lambda>founder.
                ret (Consent_Page (pn_request_id pending) p scopes (founder \<noteq> None)
                  (if az_query r = [] then az_path r else az_path r @ ''?'' @ az_query r)))))))))))"

section \<open>The decision of the Founder\<close>

definition json_error :: "int \<Rightarrow> string \<Rightarrow> string \<Rightarrow> edge_response" where
  "json_error status err description = Json_Page status [(''error'', JStr err), (''error_description'', JStr description)]"

definition with_query :: "string \<Rightarrow> string \<Rightarrow> string" where
  "with_query uri query = uri @ (if str_in ''?'' uri then ''&'' else ''?'') @ query"

text \<open>
  \<open>now\<close> is the reading of the clock by the first look at the request, \<open>now'\<close> the reading by the
  decision and what follows it.
\<close>

definition approve_endpoint :: "edge_env \<Rightarrow> rat \<Rightarrow> rat \<Rightarrow> string \<Rightarrow> string option \<Rightarrow> string option \<Rightarrow> edge_response edge" where
  "approve_endpoint env now now' request_id cookie header =
     bindS (authenticate_founder env now cookie header) (\<lambda>operator.
     case operator of
       None \<Rightarrow> ret (Json_Page (operator_rejection_status env) [(''error'', JStr ''invalid_operator_token'')])
     | Some who \<Rightarrow>
         bindS (on_tokens (get_pending_auth now request_id)) (\<lambda>found.
         case found of
           None \<Rightarrow> ret (Error_Page 400 ''invalid_request'' ''Authorization request not found or expired.'')
         | Some pending \<Rightarrow>
             if ostr_or (pn_approval_id pending) [] = []
             then ret (Error_Page 503 ''governance_unavailable''
               ''This request has no linked governed approval; it cannot be authorized.'')
             else
               bindS (mark_decision env now' (ostr_or (pn_approval_id pending) []) True who
                 ''OAuth authorization approved by Founder via HTML consent'') (\<lambda>decided.
               case decided of
                 Inl e \<Rightarrow> ret (Error_Page 503 ''governance_failed''
                   (''The governed approval could not be recorded; no code was issued. ('' @ exn_class e @ '')''))
               | Inr pa \<Rightarrow>
                   if pa_status pa \<noteq> APPROVED
                   then ret (Error_Page 409 ''not_approved''
                     (''Governed approval ended in '' @ sq (status_value (pa_status pa)) @ '' - no code was issued.''))
                   else
                     bindS (fresh env) (\<lambda>code.
                     bindS (on_tokens (approve_auth now' code request_id)) (\<lambda>issued.
                     case issued of
                       None \<Rightarrow> ret (Error_Page 400 ''invalid_request'' ''Could not approve request.'')
                     | Some code \<Rightarrow>
                         bindS (on_tokens (set_approving_principal request_id who)) (\<lambda>_.
                         bindS (audit now' ''auth_approved'' [(''request_id'', JStr request_id),
                           (''principal_id'', JStr (pn_principal_id pending)), (''approving_principal'', JStr who)]) (\<lambda>_.
                         ret (Redirect_To (with_query (pn_redirect_uri pending)
                           (''code='' @ code @ ''&state='' @ pn_state pending))))))))))"

definition reject_endpoint :: "edge_env \<Rightarrow> rat \<Rightarrow> rat \<Rightarrow> string \<Rightarrow> string option \<Rightarrow> string option \<Rightarrow> edge_response edge" where
  "reject_endpoint env now now' request_id cookie header =
     bindS (authenticate_founder env now cookie header) (\<lambda>operator.
     case operator of
       None \<Rightarrow> ret (Json_Page (operator_rejection_status env) [(''error'', JStr ''invalid_operator_token'')])
     | Some who \<Rightarrow>
         bindS (on_tokens (get_pending_auth now request_id)) (\<lambda>found.
         case found of
           None \<Rightarrow> ret (Error_Page 400 ''invalid_request'' ''Authorization request not found or expired.'')
         | Some pending \<Rightarrow>
             if ostr_or (pn_approval_id pending) [] = []
             then ret (Error_Page 503 ''governance_unavailable''
               ''This request has no linked governed approval; it cannot be rejected.'')
             else
               bindS (mark_decision env now' (ostr_or (pn_approval_id pending) []) False who
                 ''OAuth authorization rejected by Founder via HTML consent'') (\<lambda>decided.
               case decided of
                 Inl e \<Rightarrow> ret (Error_Page 503 ''governance_failed''
                   (''The governed rejection could not be recorded. ('' @ exn_class e @ '')''))
               | Inr pa \<Rightarrow>
                   if pa_status pa \<noteq> REJECTED
                   then ret (Error_Page 409 ''not_rejected''
                     (''Governed decision ended in '' @ sq (status_value (pa_status pa)) @ '' - no rejection was recorded.''))
                   else
                     bindS (on_tokens (reject_auth now' request_id)) (\<lambda>_.
                     bindS (on_tokens (set_approving_principal request_id who)) (\<lambda>_.
                     bindS (audit now' ''auth_rejected'' [(''request_id'', JStr request_id),
                       (''principal_id'', JStr (pn_principal_id pending)), (''approving_principal'', JStr who)]) (\<lambda>_.
                     ret (Redirect_To (with_query (pn_redirect_uri pending)
                       (''error=access_denied&state='' @ pn_state pending)))))))))"

section \<open>Tokens\<close>

definition token_page :: "string \<Rightarrow> int \<Rightarrow> string \<Rightarrow> string list \<Rightarrow> edge_response" where
  "token_page access expires_in refresh scopes = Json_Page 200 [(''access_token'', JStr access), (''token_type'', JStr ''Bearer''),
     (''expires_in'', JInt expires_in), (''refresh_token'', JStr refresh), (''scope'', JStr (join '' '' scopes))]"

definition pkce_challenge :: "edge_env \<Rightarrow> string \<Rightarrow> string" where
  "pkce_challenge env verifier = b64url (og_sha (eg_oauth env) verifier)"

definition handle_code_exchange :: "edge_env \<Rightarrow> rat \<Rightarrow> rat \<Rightarrow> string option \<Rightarrow> string option \<Rightarrow> string option \<Rightarrow> string option
    \<Rightarrow> edge_response edge" where
  "handle_code_exchange env now now' code redirect_uri client_id verifier =
     (if ostr_or code [] = [] then ret (json_error 400 ''invalid_request'' ''code is required'')
      else
        bindS (getS (\<lambda>st. get_pending_auth_by_code now (ostr_or code []) (ed_tokens st))) (\<lambda>found.
        case found of
          None \<Rightarrow> ret (json_error 400 ''invalid_grant'' ''Invalid or expired authorization code'')
        | Some pending \<Rightarrow>
            if Some (pn_client_id pending) \<noteq> client_id then ret (json_error 400 ''invalid_grant'' ''client_id mismatch'')
            else if Some (pn_redirect_uri pending) \<noteq> redirect_uri
            then ret (json_error 400 ''invalid_grant'' ''redirect_uri mismatch'')
            else if ostr_or verifier [] = [] then ret (json_error 400 ''invalid_grant'' ''PKCE code_verifier is required'')
            else if pkce_challenge env (ostr_or verifier []) \<noteq> pn_code_challenge pending
            then ret (json_error 400 ''invalid_grant'' ''PKCE verification failed'')
            else
              bindS (on_tokens (consume_auth_code (ostr_or code []))) (\<lambda>consumed.
              case consumed of
                None \<Rightarrow> ret (json_error 400 ''invalid_grant'' ''Authorization code already used'')
              | Some _ \<Rightarrow>
                  bindS (fresh env) (\<lambda>uuid.
                  let (access, expires_in) = issue_access_token (eg_oauth env) now' uuid (pn_principal_id pending) (pn_scopes pending) in
                  bindS (fresh env) (\<lambda>plaintext.
                  bindS (fresh env) (\<lambda>jti.
                  bindS (on_refresh (issue_refresh_token (eg_oauth env) now' plaintext jti (pn_principal_id pending)
                    (pn_scopes pending) (pn_client_id pending))) (\<lambda>refresh.
                  bindS (audit now' ''token_issued'' [(''principal_id'', JStr (pn_principal_id pending)),
                    (''scopes'', scopes_json (pn_scopes pending)), (''ttl'', JInt expires_in)]) (\<lambda>_.
                  ret (token_page access expires_in refresh (pn_scopes pending))))))))))"

definition handle_refresh :: "edge_env \<Rightarrow> rat \<Rightarrow> rat \<Rightarrow> string option \<Rightarrow> string \<Rightarrow> edge_response edge" where
  "handle_refresh env now now' refresh_token client_id =
     (if ostr_or refresh_token [] = [] then ret (json_error 400 ''invalid_request'' ''refresh_token is required'')
      else
        bindS (on_tokens (consume_refresh_token (eg_oauth env) now (ostr_or refresh_token []) client_id)) (\<lambda>result.
        case result of
          None \<Rightarrow> ret (json_error 400 ''invalid_grant'' ''Invalid or expired refresh token'')
        | Some (principal_id, scopes) \<Rightarrow>
            bindS (fresh env) (\<lambda>uuid.
            let (access, expires_in) = issue_access_token (eg_oauth env) now' uuid principal_id scopes in
            bindS (fresh env) (\<lambda>plaintext.
            bindS (fresh env) (\<lambda>jti.
            bindS (on_refresh (issue_refresh_token (eg_oauth env) now' plaintext jti principal_id scopes client_id)) (\<lambda>refresh.
            bindS (audit now' ''token_refreshed'' [(''principal_id'', JStr principal_id), (''scopes'', scopes_json scopes)]) (\<lambda>_.
            ret (token_page access expires_in refresh scopes))))))))"

record token_request =
  tq_grant_type :: string
  tq_code :: "string option"
  tq_redirect_uri :: "string option"
  tq_client_id :: "string option"
  tq_code_verifier :: "string option"
  tq_refresh_token :: "string option"

definition token_endpoint :: "edge_env \<Rightarrow> rat \<Rightarrow> rat \<Rightarrow> token_request \<Rightarrow> edge_response edge" where
  "token_endpoint env now now' r =
     (if tq_grant_type r = ''authorization_code''
      then handle_code_exchange env now now' (tq_code r) (tq_redirect_uri r) (tq_client_id r) (tq_code_verifier r)
      else if tq_grant_type r = ''refresh_token'' then handle_refresh env now now' (tq_refresh_token r) (ostr_or (tq_client_id r) [])
      else ret (Json_Page 400 [(''error'', JStr ''unsupported_grant_type'')]))"

definition revoke_token :: "edge_env \<Rightarrow> rat \<Rightarrow> string \<Rightarrow> edge_response edge" where
  "revoke_token env now token =
     bindS (on_tokens (consume_refresh_token (eg_oauth env) now token [])) (\<lambda>result.
     bindS (case result of
         None \<Rightarrow> ret ()
       | Some (principal_id, _) \<Rightarrow> audit now ''token_revoked'' [(''principal_id'', JStr principal_id),
           (''reason'', JStr ''explicit_revocation'')]) (\<lambda>_.
     ret (Json_Page 200 [])))"

end
