(* ===== verification/Oauth_Proxy.thy ===== *)
theory Oauth_Proxy
  imports Oauth_Edge
begin

text \<open>
  The part of \<open>oauth_edge/server.py\<close> behind the tokens: the map from tools to scopes, the internal
  list of pending requests, and \<open>mcp_proxy\<close>, which checks a bearer token, enforces the scopes of a
  tool call and passes the request on with headers of its own. The upstream server is outside; its
  answer is an argument of \<open>mcp_finish\<close>. A request body is the text its bytes encode. What a
  refusal says about the offending tool is left out.
\<close>

section \<open>Scopes of tools\<close>

definition TOOL_SCOPE_MAP :: "(string, string list) dict" where
  "TOOL_SCOPE_MAP = [
     (''aether_living_capabilities'', [''aether.read'']),
     (''workspace_list'', [''aether.read'']),
     (''workspace_tree'', [''aether.read'']),
     (''file_read'', [''aether.read'']),
     (''file_search'', [''aether.read'']),
     (''file_glob'', [''aether.read'']),
     (''file_hash'', [''aether.read'']),
     (''runtime_status'', [''aether.read'']),
     (''runtime_health'', [''aether.read'']),
     (''runtime_adapters'', [''aether.read'']),
     (''service_status'', [''aether.read'']),
     (''logs_tail'', [''aether.read'']),
     (''get_verification_receipt'', [''aether.read'']),
     (''get_runtime_task'', [''aether.read'']),
     (''git_status'', [''aether.read'']),
     (''git_log'', [''aether.read'']),
     (''git_diff'', [''aether.read'']),
     (''run_verification'', [''aether.diagnostic'']),
     (''runtime_telemetry'', [''aether.diagnostic'']),
     (''workspace_edit'', [''aether.mutate'']),
     (''workspace_apply_patch'', [''aether.mutate'']),
     (''workspace_rollback'', [''aether.mutate''])]"

definition LIVING_MACHINE_TOOLS :: "string list" where
  "LIVING_MACHINE_TOOLS = [''aether_living_capabilities'', ''workspace_list'', ''workspace_tree'', ''file_read'', ''file_search'',
     ''file_glob'', ''file_hash'', ''runtime_status'', ''runtime_health'', ''runtime_adapters'', ''runtime_telemetry'',
     ''service_status'', ''logs_tail'', ''run_verification'', ''get_verification_receipt'', ''get_runtime_task'', ''git_status'',
     ''git_diff'', ''git_log'', ''workspace_edit'', ''workspace_apply_patch'', ''workspace_rollback'']"

section \<open>Bearer tokens\<close>

text \<open>The credential of a bearer header: \<open>authorization[7:].strip()\<close> behind the prefix.\<close>

definition bearer_token :: "string \<Rightarrow> string option" where
  "bearer_token authorization =
     (if starts_with ''bearer '' (lower authorization) then Some (strip (drop 7 authorization)) else None)"

definition compare_secret :: "string \<Rightarrow> string \<Rightarrow> token_exn + bool" where
  "compare_secret a b = of_option Type_Error (compare_text a b)"

definition verify_internal_token :: "edge_env \<Rightarrow> string option \<Rightarrow> token_exn + bool" where
  "verify_internal_token env authorization =
     (if ostr_or authorization [] = [] then Inr False
      else (case bearer_token (ostr_or authorization []) of
          None \<Rightarrow> Inr False
        | Some token \<Rightarrow> if eg_admin_token env = [] then Inr False else compare_secret token (eg_admin_token env)))"

definition get_display_name :: "edge_env \<Rightarrow> string \<Rightarrow> string" where
  "get_display_name env i = (case dict_get (rg_by_id (eg_registry env)) i of None \<Rightarrow> i | Some p \<Rightarrow> pc_display_name p)"

definition list_pending :: "edge_env \<Rightarrow> rat \<Rightarrow> string option \<Rightarrow> edge_response edge" where
  "list_pending env now authorization =
     bindS (raise_or (verify_internal_token env authorization)) (\<lambda>ok.
     if \<not> ok then ret (Json_Page 401 [(''detail'', JStr ''authentication_required'')])
     else bindS (getS (\<lambda>st. list_pending_auths now (ed_tokens st))) (\<lambda>ps.
       ret (Pending_Page (map (\<lambda>p. \<lparr>pv_request_id = pn_request_id p, pv_principal_id = pn_principal_id p,
         pv_display_name = get_display_name env (pn_principal_id p), pv_scopes = pn_scopes p,
         pv_created_at = pn_created_at p, pv_age_seconds = py_trunc (now - pn_created_at p)\<rparr>) ps))))"

section \<open>The proxy\<close>

record mcp_request =
  mq_method :: string
  mq_path :: string
  mq_query :: string
  mq_headers :: "(string \<times> string) list"
  mq_body :: string

text \<open>\<open>request.headers.get("authorization", "")\<close>: names arrive in lower case, the first one counts.\<close>

definition authorization_header :: "mcp_request \<Rightarrow> string" where
  "authorization_header r = (case find (\<lambda>kv. fst kv = ''authorization'') (mq_headers r) of None \<Rightarrow> [] | Some kv \<Rightarrow> snd kv)"

record auth_context =
  ac_principal :: json
  ac_scopes :: "json list"
  ac_source :: string

text \<open>\<open>list(payload.get("scopes", []))\<close>.\<close>

definition payload_scopes :: "(string, json) dict \<Rightarrow> token_exn + json list" where
  "payload_scopes payload = (case dict_get payload ''scopes'' of
     None \<Rightarrow> Inr []
   | Some (JList ss) \<Rightarrow> Inr ss
   | Some (JStr s) \<Rightarrow> Inr (map (\<lambda>c. JStr [c]) s)
   | Some (JObj kvs) \<Rightarrow> Inr (map JStr (keys kvs))
   | Some _ \<Rightarrow> Inl Type_Error)"

definition legacy_context :: "edge_env \<Rightarrow> string \<Rightarrow> token_exn + auth_context option" where
  "legacy_context env token =
     bindE (if eg_mcp_token env = [] then Inr False else compare_secret token (eg_mcp_token env)) (\<lambda>developer.
     if developer
     then Inr (Some \<lparr>ac_principal = JNull, ac_scopes = map JStr [''aether.read'', ''aether.diagnostic''],
       ac_source = ''developer-direct''\<rparr>)
     else bindE (if eg_mcp_operator_token env = [] then Inr False else compare_secret token (eg_mcp_operator_token env)) (\<lambda>operator.
       if operator
       then Inr (Some \<lparr>ac_principal = JNull, ac_scopes = map JStr [''aether.read'', ''aether.diagnostic'', ''aether.mutate''],
         ac_source = ''operator-direct''\<rparr>)
       else Inr None))"

definition bearer_context :: "edge_env \<Rightarrow> rat \<Rightarrow> string \<Rightarrow> token_exn + auth_context option" where
  "bearer_context env now token =
     bindE (verify_access_token (eg_oauth env) now token) (\<lambda>verified.
     case verified of
       Some payload \<Rightarrow>
         bindE (payload_scopes payload) (\<lambda>scopes.
         Inr (Some \<lparr>ac_principal = (case dict_get payload ''principal_id'' of None \<Rightarrow> JStr ''unknown'' | Some j \<Rightarrow> j),
           ac_scopes = scopes, ac_source = ''oauth''\<rparr>))
     | None \<Rightarrow> legacy_context env token)"

text \<open>
  The scope check, with the branch the code takes. Only the bodies of \<open>POST\<close> are looked at. Every
  exception inside it is swallowed, and the request is passed on: a body that is not JSON, a body or
  \<open>params\<close> that is not an object, a name that cannot be hashed, and a denial that fails
  (\<open>deny_tool\<close>).
\<close>

datatype scope_verdict = Pass | Nameless | Unclassified json | Insufficient json

definition tool_scopes :: "json \<Rightarrow> string list option" where
  "tool_scopes tool = (case tool of JStr t \<Rightarrow> dict_get TOOL_SCOPE_MAP t | _ \<Rightarrow> None)"

definition check_tool :: "json list \<Rightarrow> json \<Rightarrow> scope_verdict" where
  "check_tool scopes tool =
     (if \<not> truthy tool then Nameless
      else (case tool of
          JList _ \<Rightarrow> Pass
        | JObj _ \<Rightarrow> Pass
        | _ \<Rightarrow> (case tool_scopes tool of
            None \<Rightarrow> Unclassified tool
          | Some required \<Rightarrow> if required \<noteq> [] \<and> \<not> list_all (\<lambda>s. JStr s \<in> set scopes) required then Insufficient tool else Pass)))"

definition scope_check :: "json list \<Rightarrow> string \<Rightarrow> string \<Rightarrow> scope_verdict" where
  "scope_check scopes meth body =
     (if body = [] \<or> meth \<noteq> ''POST'' then Pass
      else (case loads body of
          Some (JObj d) \<Rightarrow>
            if dict_get d ''method'' \<noteq> Some (JStr ''tools/call'') then Pass
            else (case (case dict_get d ''params'' of None \<Rightarrow> JObj [] | Some p \<Rightarrow> p) of
                JObj params \<Rightarrow> check_tool scopes (case dict_get params ''name'' of None \<Rightarrow> JStr [] | Some t \<Rightarrow> t)
              | _ \<Rightarrow> Pass)
        | _ \<Rightarrow> Pass))"

primrec json_text :: "json \<Rightarrow> token_exn + string" where
  "json_text (JStr s) = Inr s"
| "json_text JNull = Inl Type_Error"
| "json_text (JBool b) = Inl Type_Error"
| "json_text (JInt i) = Inl Type_Error"
| "json_text (JFloat t) = Inl Type_Error"
| "json_text (JList xs) = Inl Type_Error"
| "json_text (JObj d) = Inl Type_Error"

definition forward_headers :: "edge_env \<Rightarrow> auth_context \<Rightarrow> (string \<times> string) list \<Rightarrow> token_exn + (string, string) dict" where
  "forward_headers env ac headers =
     bindE (map_result json_text (ac_scopes ac)) (\<lambda>scopes.
     let h = dict_set ''X-Aether-Principal-Scopes'' (join '' '' scopes)
           (dict_set ''Authorization'' (''Bearer '' @ eg_upstream_token env)
             (dict_of_pairs (filter (\<lambda>kv. lower (fst kv) \<notin> {''authorization'', ''host'', ''content-length''}) headers))) in
     bindE (if ac_principal ac = JNull then Inr h
            else bindE (json_text (ac_principal ac)) (\<lambda>who. Inr (dict_set ''X-Aether-Principal-Id'' who h))) (\<lambda>h'.
     Inr (dict_set ''X-Aether-Auth-Source'' (ac_source ac) h')))"

definition upstream_path :: "mcp_request \<Rightarrow> string" where
  "upstream_path r = (if mq_path r = [] then ''/mcp'' else ''/mcp/'' @ mq_path r)"

definition log_scope_denied :: "rat \<Rightarrow> auth_context \<Rightarrow> json \<Rightarrow> unit edge" where
  "log_scope_denied now ac tool = audit now ''scope_denied'' [(''principal_id'', ac_principal ac),
     (''auth_source'', JStr (ac_source ac)), (''requested_scope'', tool)]"

definition forward_to_upstream :: "edge_env \<Rightarrow> auth_context \<Rightarrow> mcp_request \<Rightarrow> edge_response edge" where
  "forward_to_upstream env ac r =
     bindS (raise_or (forward_headers env ac (mq_headers r))) (\<lambda>headers.
     ret (Forward \<lparr>mf_method = mq_method r,
       mf_url = eg_upstream env @ upstream_path r @ (if mq_query r = [] then [] else ''?'' @ mq_query r),
       mf_headers = headers, mf_body = mq_body r, mf_principal = ac_principal ac, mf_scopes = ac_scopes ac,
       mf_auth_source = ac_source ac, mf_path = upstream_path r\<rparr>))"

text \<open>
  The two denials log and then build their answer inside the same \<open>try\<close>. Either can raise: the log
  cannot be written, or the answer cannot be encoded (a tool name with a lone surrogate makes both
  fail). The exception is swallowed like the others, and the request goes on to the upstream. What
  happens is an argument.
\<close>

datatype denial_outcome = Denial_Answered | Denial_Unlogged | Denial_Unanswerable

definition deny_tool :: "edge_env \<Rightarrow> rat \<Rightarrow> denial_outcome \<Rightarrow> auth_context \<Rightarrow> mcp_request \<Rightarrow> json \<Rightarrow> string \<Rightarrow> edge_response edge" where
  "deny_tool env now w ac r tool error =
     (case w of
        Denial_Answered \<Rightarrow> bindS (log_scope_denied now ac tool) (\<lambda>_. ret (Json_Page 403 [(''error'', JStr error)]))
      | Denial_Unlogged \<Rightarrow> forward_to_upstream env ac r
      | Denial_Unanswerable \<Rightarrow> bindS (log_scope_denied now ac tool) (\<lambda>_. forward_to_upstream env ac r))"

definition mcp_proxy :: "edge_env \<Rightarrow> rat \<Rightarrow> denial_outcome \<Rightarrow> mcp_request \<Rightarrow> edge_response edge" where
  "mcp_proxy env now w r =
     (case bearer_token (authorization_header r) of
        None \<Rightarrow> ret (Json_Page 401 [(''error'', JStr ''authentication_required'')])
      | Some token \<Rightarrow>
          bindS (raise_or (bearer_context env now token)) (\<lambda>context.
          case context of
            None \<Rightarrow> ret (Json_Page 401 [(''error'', JStr ''invalid_token'')])
          | Some ac \<Rightarrow>
              (case scope_check (ac_scopes ac) (mq_method r) (mq_body r) of
                 Nameless \<Rightarrow> ret (json_error 400 ''invalid_request'' ''tools/call requires params.name'')
               | Unclassified tool \<Rightarrow> deny_tool env now w ac r tool ''unclassified_tool''
               | Insufficient tool \<Rightarrow> deny_tool env now w ac r tool ''insufficient_scope''
               | Pass \<Rightarrow> forward_to_upstream env ac r)))"

text \<open>What happens when the upstream has answered.\<close>

definition mcp_finish :: "rat \<Rightarrow> mcp_forward \<Rightarrow> int \<Rightarrow> (string \<times> string) list \<Rightarrow> string \<Rightarrow> edge_response edge" where
  "mcp_finish now f status headers content =
     bindS (audit now ''mcp_proxy'' [(''principal_id'', mf_principal f), (''auth_source'', JStr (mf_auth_source f)),
       (''scopes'', JList (mf_scopes f)), (''method'', JStr (mf_method f)), (''path'', JStr (mf_path f)),
       (''upstream_status'', JInt status)]) (\<lambda>_.
     ret (Upstream_Page status
       (dict_of_pairs (filter (\<lambda>kv. lower (fst kv) \<notin> {''content-encoding'', ''transfer-encoding'', ''content-length''}) headers))
       content))"

end
