(* ===== verification/Oauth_Safety.thy ===== *)
theory Oauth_Safety
  imports Oauth_Proxy
begin

text \<open>
  The OAuth edge as a whole: its calls as a transition system, interleaved with other users of the
  shared approval store, and the invariant that ties every authorization code to a request of a
  registered client and to a durable approval of that very request.
\<close>

section \<open>Weakest preconditions of the primitives\<close>

lemma wp_edge [wp_simps]:
  "wp (fresh env) E Q st = Q (eg_fresh env (ed_counter st)) (st\<lparr>ed_counter := Suc (ed_counter st)\<rparr>)"
  "wp (audit now event data) E R st = R () (st\<lparr>ed_audit := ed_audit st @ [\<lparr>au_ts = now, au_event = event, au_data = data\<rparr>]\<rparr>)"
  "wp (on_tokens f) E S st = S (fst (f (ed_tokens st))) (st\<lparr>ed_tokens := snd (f (ed_tokens st))\<rparr>)"
  "wp (on_approvals g) E T st = T (fst (g (ed_store st))) (st\<lparr>ed_store := snd (g (ed_store st))\<rparr>)"
  "wp (raise_or r) E U st = (case r of Inl e \<Rightarrow> E st | Inr x \<Rightarrow> U x st)"
  "wp (on_refresh h) E V st = (case fst (h (ed_tokens st)) of Inl e \<Rightarrow> E (st\<lparr>ed_tokens := snd (h (ed_tokens st))\<rparr>)
     | Inr x \<Rightarrow> V x (st\<lparr>ed_tokens := snd (h (ed_tokens st))\<rparr>))"
  by (simp_all add: wp_def fresh_def audit_def comp_simps on_tokens_def on_approvals_def raise_or_def on_refresh_def
      case_prod_beta split: sum.splits)

section \<open>The invariant\<close>

definition request_proposal :: "string \<Rightarrow> pending_auth \<Rightarrow> action_proposal" where
  "request_proposal hex req = oauth_proposal hex (pn_request_id req) (pn_principal_id req) (pn_client_id req) (pn_scopes req)
     (pn_redirect_uri req) (pn_state req)"

text \<open>The request comes from a registered client, within what the registry grants it.\<close>

definition registered :: "edge_env \<Rightarrow> pending_auth \<Rightarrow> bool" where
  "registered env req =
     (\<exists>p. dict_get (rg_by_client_id (eg_registry env)) (pn_client_id req) = Some p \<and> pn_principal_id req = pc_id p \<and>
       pn_redirect_uri req \<in> set (pc_redirect_uris p) \<and> set (pn_scopes req) \<subseteq> set (pc_allowed_scopes p) \<and>
       (mutate_scope \<in> set (pn_scopes req) \<longrightarrow> pc_mutation_authority p) \<and> pn_code_challenge req \<noteq> [])"

definition linked :: "edge_env \<Rightarrow> approval_store \<Rightarrow> string \<Rightarrow> pending_auth \<Rightarrow> bool" where
  "linked env s a req = (\<exists>hex. \<exists>row \<in> set (as_rows s). pr_approval_id row = a \<and>
     pr_action_hash row = canonical_action_hash (eg_action_sha env) (request_proposal hex req))"

definition approved_in :: "edge_env \<Rightarrow> approval_store \<Rightarrow> string \<Rightarrow> pending_auth \<Rightarrow> bool" where
  "approved_in env s a req = (\<exists>hex. \<exists>c \<in> set (as_records s). rc_approval_id c = a \<and> rc_decision c = APPROVED \<and>
     rc_action_hash c = canonical_action_hash (eg_action_sha env) (request_proposal hex req))"

definition pending_ok :: "edge_env \<Rightarrow> nat \<Rightarrow> approval_store \<Rightarrow> string \<Rightarrow> pending_auth \<Rightarrow> bool" where
  "pending_ok env n s i req =
     (registered env req \<and> pn_request_id req = i \<and> (\<forall>a. pn_approval_id req = Some a \<longrightarrow> linked env s a req) \<and>
      (\<forall>c. pn_auth_code req = Some c \<longrightarrow> (\<exists>m < n. c = eg_fresh env m) \<and>
        (\<exists>a. pn_approval_id req = Some a \<and> approved_in env s a req)))"

definition codes_unique :: "(string, pending_auth) dict \<Rightarrow> bool" where
  "codes_unique d = (\<forall>i j p q c. dict_get d i = Some p \<and> dict_get d j = Some q \<and> pn_auth_code p = Some c \<and> pn_auth_code q = Some c \<longrightarrow> i = j)"

definition refresh_ok :: "edge_env \<Rightarrow> refresh_row \<Rightarrow> bool" where
  "refresh_ok env r =
     (\<exists>c p. dict_get (rg_by_client_id (eg_registry env)) c = Some p \<and> rf_principal_id r = pc_id p \<and>
       set (rf_scopes r) \<subseteq> set (pc_allowed_scopes p) - {mutate_scope})"

definition token_inv :: "edge_env \<Rightarrow> nat \<Rightarrow> approval_store \<Rightarrow> token_store \<Rightarrow> bool" where
  "token_inv env n s ts =
     (distinct (keys (tk_pending ts)) \<and> (\<forall>i req. dict_get (tk_pending ts) i = Some req \<longrightarrow> pending_ok env n s i req) \<and>
      codes_unique (tk_pending ts) \<and> (\<forall>r \<in> set (tk_refresh ts). refresh_ok env r))"

text \<open>No row of the approval store has an action identifier that is still to be drawn.\<close>

definition unused_actions :: "edge_env \<Rightarrow> nat \<Rightarrow> nat \<Rightarrow> approval_store \<Rightarrow> bool" where
  "unused_actions env N n s = (\<forall>r \<in> set (as_rows s). \<forall>m. n \<le> m \<and> m < N \<longrightarrow> pr_action_id r \<noteq> new_id ''act'' (eg_fresh env m))"

text \<open>
  An identifier keeps sixteen characters of what is drawn, so the draws can only be distinct up to
  some bound \<open>N\<close>; the invariant is about states that have not gone beyond it.
\<close>

definition distinct_draws :: "edge_env \<Rightarrow> nat \<Rightarrow> bool" where
  "distinct_draws env N = distinct (map (\<lambda>m. take 16 (eg_fresh env m)) [0..<N])"

lemma distinct_drawsD:
  assumes "distinct_draws env N" "m < N" "n < N" "take 16 (eg_fresh env m) = take 16 (eg_fresh env n)"
  shows "m = n"
  using assms inj_onD [of "\<lambda>m. take 16 (eg_fresh env m)" "{0..<N}"] by (simp add: distinct_draws_def distinct_map)

definition edge_inv :: "edge_env \<Rightarrow> nat \<Rightarrow> edge_state \<Rightarrow> bool" where
  "edge_inv env N st =
     (store_inv (eg_action_sha env) (ed_store st) \<and> unused_actions env N (ed_counter st) (ed_store st) \<and>
      token_inv env (ed_counter st) (ed_store st) (ed_tokens st))"

lemma edge_inv_audit [simp]: "edge_inv env N (st\<lparr>ed_audit := a\<rparr>) = edge_inv env N st"
  by (simp add: edge_inv_def)

section \<open>The approval store only grows\<close>

definition store_ext :: "approval_store \<Rightarrow> approval_store \<Rightarrow> bool" where
  "store_ext s s' = ((\<forall>r \<in> set (as_rows s). \<exists>r' \<in> set (as_rows s'). pr_approval_id r' = pr_approval_id r \<and>
       pr_action_hash r' = pr_action_hash r) \<and> set (as_records s) \<subseteq> set (as_records s'))"

lemma store_ext_refl [simp]: "store_ext s s"
  by (auto simp: store_ext_def)

lemma store_ext_update:
  assumes "\<And>r. pr_approval_id (f r) = pr_approval_id r" "\<And>r. pr_action_hash (f r) = pr_action_hash r"
    and "as_rows s' = as_rows s" "set (as_records s) \<subseteq> set (as_records s')"
  shows "store_ext s (update_rows P f s')"
proof -
  have "\<exists>r' \<in> set (as_rows (update_rows P f s')). pr_approval_id r' = pr_approval_id r \<and> pr_action_hash r' = pr_action_hash r"
    if "r \<in> set (as_rows s)" for r
    using that assms(1-3) by (intro bexI [of _ "if P r then f r else r"]) (auto simp: update_rows_def)
  then show ?thesis using assms(4) by (auto simp: store_ext_def update_rows_def)
qed

lemma store_ext_step: "store_ext s (store_step sha dflt op s)"
proof (cases op)
  case (Op_Create hex now ttl p channel who event)
  then show ?thesis by (auto simp: create_or_get_def Let_def store_ext_def split: option.splits)
qed (auto simp: save_continuation_def expire_due_def decide_def claim_def finalize_def Let_def intro!: store_ext_update
    split: option.splits)

lemma action_ids_create:
  "pr_action_id ` set (as_rows (snd (create_or_get sha dflt hex now ttl p channel who event s))) \<subseteq>
    insert (ap_action_id p) (pr_action_id ` set (as_rows s))"
  by (auto simp: create_or_get_def Let_def new_row_def split: option.splits if_splits)

lemma action_ids_update [simp]:
  assumes "\<And>r. pr_action_id (f r) = pr_action_id r"
  shows "pr_action_id ` set (as_rows (update_rows P f s)) = pr_action_id ` set (as_rows s)"
proof -
  have "map pr_action_id (as_rows (update_rows P f s)) = map pr_action_id (as_rows s)"
    using assms by (simp add: update_rows_def)
  then show ?thesis by (metis set_map)
qed

lemma action_ids_other:
  "pr_action_id ` set (as_rows (snd (save_continuation sha i c s))) = pr_action_id ` set (as_rows s)"
  "pr_action_id ` set (as_rows (snd (expire_due sha now s))) = pr_action_id ` set (as_rows s)"
  "pr_action_id ` set (as_rows (snd (decide sha hex now i approved who reason channel s))) = pr_action_id ` set (as_rows s)"
  "pr_action_id ` set (as_rows (snd (claim sha i s))) = pr_action_id ` set (as_rows s)"
  "pr_action_id ` set (as_rows (snd (finalize sha now i x s))) = pr_action_id ` set (as_rows s)"
  by (simp_all add: save_continuation_def expire_due_def decide_def claim_def finalize_def Let_def split: option.split)

lemma action_ids_step:
  "pr_action_id ` set (as_rows (store_step sha dflt op s)) \<subseteq> pr_action_id ` set (as_rows s) \<union>
    (case op of Op_Create hex now ttl p channel who event \<Rightarrow> {ap_action_id p} | _ \<Rightarrow> {})"
  using action_ids_create by (cases op) (simp_all add: action_ids_other)

lemma linked_mono: "linked env s a req \<Longrightarrow> store_ext s s' \<Longrightarrow> linked env s' a req"
  unfolding linked_def store_ext_def by metis

lemma approved_mono: "approved_in env s a req \<Longrightarrow> store_ext s s' \<Longrightarrow> approved_in env s' a req"
  unfolding approved_in_def store_ext_def by blast

lemma pending_ok_mono:
  assumes "pending_ok env n s i req" "n \<le> n'" "store_ext s s'"
  shows "pending_ok env n' s' i req"
  using assms(1) linked_mono [OF _ assms(3)] approved_mono [OF _ assms(3)] order_less_le_trans [OF _ assms(2)]
  unfolding pending_ok_def by blast

lemma token_inv_mono: "token_inv env n s ts \<Longrightarrow> n \<le> n' \<Longrightarrow> store_ext s s' \<Longrightarrow> token_inv env n' s' ts"
  unfolding token_inv_def using pending_ok_mono by blast

lemma edge_inv_draw: "edge_inv env N st \<Longrightarrow> ed_counter st \<le> n \<Longrightarrow> edge_inv env N (st\<lparr>ed_counter := n\<rparr>)"
  using token_inv_mono [of env "ed_counter st" "ed_store st" "ed_tokens st" n "ed_store st"]
  by (auto simp: edge_inv_def unused_actions_def)

lemma edge_inv_fresh: "edge_inv env N st \<Longrightarrow> edge_inv env N (st\<lparr>ed_counter := Suc (ed_counter st)\<rparr>)"
  by (simp add: edge_inv_draw)

section \<open>Token operations\<close>

lemma token_inv_put:
  assumes "token_inv env n s ts" "pending_ok env n s i req"
    and "\<And>c j q. pn_auth_code req = Some c \<Longrightarrow> dict_get (tk_pending ts) j = Some q \<Longrightarrow> j \<noteq> i \<Longrightarrow> pn_auth_code q \<noteq> Some c"
  shows "token_inv env n s (ts\<lparr>tk_pending := dict_set i req (tk_pending ts)\<rparr>)"
  using assms unfolding token_inv_def codes_unique_def by (auto simp: distinct_dict_set split: if_splits)

lemma token_inv_cancel: "token_inv env n s ts \<Longrightarrow> token_inv env n s (cancel_pending_auth i ts)"
  unfolding token_inv_def codes_unique_def cancel_pending_auth_def by (auto simp: distinct_dict_pop split: if_splits)

lemma token_inv_get: "token_inv env n s ts \<Longrightarrow> token_inv env n s (snd (get_pending_auth now i ts))"
  by (auto simp: get_pending_auth_def token_inv_cancel split: option.splits)

lemma get_pending_Some: "get_pending_auth now i ts = (Some req, ts') \<Longrightarrow>
    ts' = ts \<and> dict_get (tk_pending ts) i = Some req \<and> now - pn_created_at req \<le> auth_code_ttl"
  by (auto simp: get_pending_auth_def split: option.splits if_splits)

lemma token_inv_consume: "token_inv env n s ts \<Longrightarrow> token_inv env n s (snd (consume_auth_code code ts))"
  by (auto simp: consume_auth_code_def token_inv_cancel split: option.splits)

lemma token_inv_revoke: "token_inv env n s ts \<Longrightarrow> token_inv env n s (revoke_rows P ts)"
  by (auto simp: token_inv_def revoke_rows_def refresh_ok_def)

lemma token_inv_consume_refresh: "token_inv env n s ts \<Longrightarrow> token_inv env n s (snd (consume_refresh_token oenv now t c ts))"
  by (auto simp: consume_refresh_token_def token_inv_revoke split: option.splits)

lemma token_inv_issue:
  assumes "token_inv env n s ts" "dict_get (rg_by_client_id (eg_registry env)) c' = Some p" "who = pc_id p"
    "set scopes \<subseteq> set (pc_allowed_scopes p)"
  shows "token_inv env n s (snd (issue_refresh_token oenv now t jti who scopes c ts))"
  using assms by (auto simp: token_inv_def issue_refresh_token_def refresh_ok_def)

text \<open>The state of an authorization request that has been looked up and changed.\<close>

lemma pending_ok_update [simp]:
  "pending_ok env n s i (req\<lparr>pn_approving_principal := x\<rparr>) = pending_ok env n s i req"
  "pending_ok env n s i (req\<lparr>pn_approved := y\<rparr>) = pending_ok env n s i req"
  by (simp_all add: pending_ok_def registered_def linked_def approved_in_def request_proposal_def)

lemma token_inv_reput:
  assumes "token_inv env n s ts" "dict_get (tk_pending ts) i = Some req" "pending_ok env n s i req'" "pn_auth_code req' = pn_auth_code req"
  shows "token_inv env n s (ts\<lparr>tk_pending := dict_set i req' (tk_pending ts)\<rparr>)"
proof (rule token_inv_put [OF assms(1,3)])
  fix c j q
  assume "pn_auth_code req' = Some c" "dict_get (tk_pending ts) j = Some q" "j \<noteq> i"
  with assms(1,2,4) show "pn_auth_code q \<noteq> Some c" unfolding token_inv_def codes_unique_def by metis
qed

lemma token_inv_approving: "token_inv env n s ts \<Longrightarrow> token_inv env n s (snd (set_approving_principal i who ts))"
proof (cases "dict_get (tk_pending ts) i")
  case (Some req)
  assume t: "token_inv env n s ts"
  then have "pending_ok env n s i req" using Some by (simp add: token_inv_def)
  with t Some show ?thesis by (simp add: set_approving_principal_def token_inv_reput)
qed (simp add: set_approving_principal_def)

lemma token_inv_reject: "token_inv env n s ts \<Longrightarrow> token_inv env n s (snd (reject_auth now i ts))"
proof (cases "get_pending_auth now i ts")
  case (Pair r ts')
  assume t: "token_inv env n s ts"
  show ?thesis
  proof (cases r)
    case None
    with Pair token_inv_get [OF t, of now i] show ?thesis by (simp add: reject_auth_def)
  next
    case (Some req)
    with Pair have g: "ts' = ts" "dict_get (tk_pending ts) i = Some req" by (auto dest: get_pending_Some)
    then have "pending_ok env n s i req" using t by (simp add: token_inv_def)
    with g Pair Some t show ?thesis by (simp add: reject_auth_def token_inv_reput)
  qed
qed

lemma token_inv_link:
  assumes "token_inv env n s ts" "dict_get (tk_pending ts) i = Some req" "pn_auth_code req = None" "linked env s a req"
  shows "token_inv env n s (snd (set_approval_id i a ts))"
proof -
  have "pending_ok env n s i req" using assms(1,2) by (simp add: token_inv_def)
  then have "pending_ok env n s i (req\<lparr>pn_approval_id := Some a\<rparr>)"
    using assms(3,4) by (simp add: pending_ok_def registered_def linked_def request_proposal_def)
  with assms show ?thesis by (simp add: set_approval_id_def token_inv_reput)
qed

lemma token_inv_approve:
  assumes "distinct_draws env N" "n < N" "token_inv env n s ts"
    and "\<And>req. dict_get (tk_pending ts) i = Some req \<Longrightarrow> \<exists>a. pn_approval_id req = Some a \<and> approved_in env s a req"
  shows "token_inv env (Suc n) s (snd (approve_auth now (eg_fresh env n) i ts))"
proof -
  have t: "token_inv env (Suc n) s ts" using assms(3) token_inv_mono by fastforce
  obtain r ts' where g: "get_pending_auth now i ts = (r, ts')" by fastforce
  show ?thesis
  proof (cases r)
    case None
    with g token_inv_get [OF t, of now i] show ?thesis by (simp add: approve_auth_def)
  next
    case (Some req)
    with g have req: "ts' = ts" "dict_get (tk_pending ts) i = Some req" by (auto dest: get_pending_Some)
    then have "pending_ok env (Suc n) s i req" using t by (simp add: token_inv_def)
    then have "pending_ok env (Suc n) s i (req\<lparr>pn_approved := Some True, pn_auth_code := Some (eg_fresh env n)\<rparr>)"
      using assms(4) [OF req(2)] by (auto simp: pending_ok_def registered_def linked_def approved_in_def request_proposal_def)
    moreover have "pn_auth_code q \<noteq> Some (eg_fresh env n)" if q: "dict_get (tk_pending ts) j = Some q" for j q
    proof
      assume "pn_auth_code q = Some (eg_fresh env n)"
      then obtain m where "m < n" "eg_fresh env n = eg_fresh env m"
        using assms(3) q unfolding token_inv_def pending_ok_def by blast
      with assms(1,2) distinct_drawsD [of env N m n] show False by simp
    qed
    ultimately show ?thesis using g Some req t by (auto simp: approve_auth_def intro!: token_inv_put)
  qed
qed

lemma find_pending:
  assumes "token_inv env n s ts" "find P (tk_pending ts) = Some (i, req)"
  shows "dict_get (tk_pending ts) i = Some req" "P (i, req)"
proof -
  show "P (i, req)" using assms(2) by (auto simp: find_Some_iff)
  have "(i, req) \<in> set (tk_pending ts)" using assms(2) by (auto simp: find_Some_iff)
  then show "dict_get (tk_pending ts) i = Some req" using assms(1) by (simp add: token_inv_def)
qed

section \<open>Decisions\<close>

lemma wf_oauth_proposal [simp]: "wf_proposal (oauth_proposal hex i who c scopes uri state)"
  by (simp add: oauth_proposal_def wf_proposal_def list_all_iff)

lemma decide_status:
  assumes "store_inv sha s" "decide sha hex now i approved who reason channel s = (Inr pa, s')"
  shows "\<exists>row. find_row i s' = Some row \<and> pr_status row = pa_status pa"
proof -
  have inv: "store_inv sha s'" using inv_decide [OF assms(1)] assms(2) by (metis snd_conv)
  have g: "store_get sha i s' = Inr pa"
    using assms(2) by (auto simp: decide_def Let_def split: if_splits option.splits)
  then obtain row where row: "find_row i s' = Some row" by (auto simp: store_get_def split: option.splits)
  with store_get_inv [OF inv row] g show ?thesis by fastforce
qed

lemma approved_of_linked:
  assumes "store_inv (eg_action_sha env) s" "linked env s a req" "find_row a s = Some row" "pr_status row = APPROVED"
  shows "approved_in env s a req"
proof -
  obtain hex r where r: "r \<in> set (as_rows s)" "pr_approval_id r = a"
    "pr_action_hash r = canonical_action_hash (eg_action_sha env) (request_proposal hex req)"
    using assms(2) by (auto simp: linked_def)
  have "r = row" using find_row_member [OF assms(1) r(1)] r(2) assms(3) by simp
  moreover have "decided_row s row" using store_inv_find [OF assms(1,3)] by simp
  ultimately obtain c where c: "records_of a s = [c]" "rc_decision c = APPROVED" "rc_action_hash c = pr_action_hash r"
    using assms(4) r(2) by (auto simp: decided_row_def)
  then have "c \<in> set (as_records s)" "rc_approval_id c = a" by (auto simp: records_of_def filter_eq_Cons_iff)
  with c r(3) show ?thesis unfolding approved_in_def by metis
qed

lemma edge_inv_store:
  assumes "edge_inv env N st" "wf_op op"
    and "\<And>hex now ttl p channel who event m. op = Op_Create hex now ttl p channel who event \<Longrightarrow> ed_counter st \<le> m \<Longrightarrow> m < N \<Longrightarrow>
      ap_action_id p \<noteq> new_id ''act'' (eg_fresh env m)"
  shows "edge_inv env N (st\<lparr>ed_store := store_step (eg_action_sha env) dflt op (ed_store st)\<rparr>)"
proof -
  let ?s = "store_step (eg_action_sha env) dflt op (ed_store st)"
  have "unused_actions env N (ed_counter st) ?s"
    unfolding unused_actions_def
  proof (intro ballI allI impI)
    fix r m
    assume "r \<in> set (as_rows ?s)" and m: "ed_counter st \<le> m \<and> m < N"
    then have "pr_action_id r \<in> pr_action_id ` set (as_rows (ed_store st)) \<or>
        (\<exists>hex now ttl p channel who event. op = Op_Create hex now ttl p channel who event \<and> pr_action_id r = ap_action_id p)"
      using action_ids_step [of "eg_action_sha env" dflt op "ed_store st"] by (cases op) auto
    with assms(1,3) m show "pr_action_id r \<noteq> new_id ''act'' (eg_fresh env m)"
      unfolding edge_inv_def unused_actions_def by fastforce
  qed
  moreover have "token_inv env (ed_counter st) ?s (ed_tokens st)"
    using assms(1) token_inv_mono store_ext_step by (fastforce simp: edge_inv_def)
  ultimately show ?thesis using assms(1,2) store_inv_step by (simp add: edge_inv_def)
qed

lemma mark_decision_wp:
  assumes "edge_inv env N st"
    and "\<And>r st'. edge_inv env N st' \<Longrightarrow> ed_tokens st' = ed_tokens st \<Longrightarrow> ed_counter st' = Suc (ed_counter st) \<Longrightarrow>
      (\<And>pa. r = Inr pa \<Longrightarrow> \<exists>row. find_row i (ed_store st') = Some row \<and> pr_status row = pa_status pa) \<Longrightarrow> Q r st'"
  shows "wp (mark_decision env now i approved who reason) E Q st"
proof -
  let ?st = "st\<lparr>ed_counter := Suc (ed_counter st)\<rparr>"
  let ?op = "Op_Decide (eg_fresh env (ed_counter st)) (py_trunc now) i approved who reason ''http''"
  let ?d = "decide (eg_action_sha env) (eg_fresh env (ed_counter st)) (py_trunc now) i approved who reason ''http'' (ed_store st)"
  have inv: "edge_inv env N ?st" using assms(1) by (rule edge_inv_fresh)
  have "edge_inv env N (?st\<lparr>ed_store := snd ?d\<rparr>)" using edge_inv_store [OF inv, of ?op] by simp
  moreover have "\<exists>row. find_row i (snd ?d) = Some row \<and> pr_status row = pa_status pa" if "fst ?d = Inr pa" for pa
    using that decide_status [of "eg_action_sha env" "ed_store st"] assms(1) by (metis edge_inv_def prod.collapse)
  ultimately show ?thesis using assms(2) by (simp add: mark_decision_def wp_simps)
qed

lemma row_to_pending_id: "row_to_pending sha row = Inr pa \<Longrightarrow> pa_approval_id pa = pr_approval_id row"
  by (auto simp: row_to_pending_def bindE_Inr_conv split: if_splits)

lemma create_linked:
  assumes "create_or_get sha dflt hex now ttl p channel who event s = (Inr (pa, b), s')"
    and "\<forall>r \<in> set (as_rows s). pr_action_id r \<noteq> ap_action_id p"
  shows "\<exists>row \<in> set (as_rows s'). pr_approval_id row = pa_approval_id pa \<and> pr_action_hash row = canonical_action_hash sha p"
proof (cases "find (\<lambda>r. pr_action_id r = ap_action_id p \<or> pr_action_hash r = canonical_action_hash sha p) (as_rows s)")
  case None
  then obtain row where "s' = s\<lparr>as_rows := as_rows s @ [row]\<rparr>" "row_to_pending sha row = Inr pa"
    "pr_action_hash row = canonical_action_hash sha p"
    using assms(1) by (auto simp: create_or_get_def Let_def bindE_Inr_conv new_row_def split: if_splits)
  then show ?thesis using row_to_pending_id by force
next
  case (Some row)
  then have "row \<in> set (as_rows s)" "pr_action_id row = ap_action_id p \<or> pr_action_hash row = canonical_action_hash sha p"
    by (auto simp: find_Some_iff)
  moreover have "s' = s" "row_to_pending sha row = Inr pa"
    using assms(1) Some by (auto simp: create_or_get_def Let_def bindE_Inr_conv)
  ultimately show ?thesis using assms(2) row_to_pending_id by (intro bexI [of _ row]) auto
qed

lemma submit_wp:
  assumes "distinct_draws env N" "Suc (ed_counter st) < N" "edge_inv env N st"
    and "\<And>r st'. edge_inv env N st' \<Longrightarrow> ed_tokens st' = ed_tokens st \<Longrightarrow> ed_counter st' = Suc (Suc (ed_counter st)) \<Longrightarrow>
      (\<And>pa b. r = Inr (pa, b) \<Longrightarrow> \<exists>hex. \<exists>row \<in> set (as_rows (ed_store st')). pr_approval_id row = pa_approval_id pa \<and>
        pr_action_hash row = canonical_action_hash (eg_action_sha env) (oauth_proposal hex i who c scopes uri state)) \<Longrightarrow> Q r st'"
  shows "wp (submit_oauth_proposal env now i who c scopes uri state) E Q st"
proof -
  let ?n = "ed_counter st"
  let ?st = "st\<lparr>ed_counter := Suc (Suc ?n)\<rparr>"
  let ?sha = "eg_action_sha env"
  let ?p = "oauth_proposal (eg_fresh env ?n) i who c scopes uri state"
  let ?ttl = "eg_approval_ttl env"
  let ?op = "Op_Create (eg_fresh env (Suc ?n)) (py_trunc now) (Some ?ttl) ?p (Some ''oauth'') (Some who) None"
  let ?d = "create_or_get ?sha ?ttl (eg_fresh env (Suc ?n)) (py_trunc now) (Some ?ttl) ?p (Some ''oauth'') (Some who) None (ed_store st)"
  have id: "ap_action_id ?p = new_id ''act'' (eg_fresh env ?n)" by (simp add: oauth_proposal_def)
  have "edge_inv env N ?st" using edge_inv_fresh [OF edge_inv_fresh [OF assms(3)]] by simp
  then have inv: "edge_inv env N (?st\<lparr>ed_store := snd ?d\<rparr>)"
    using edge_inv_store [of env N ?st ?op ?ttl] id assms(1,2) distinct_drawsD [of env N ?n] by (fastforce simp: new_id_def)
  have "\<forall>r \<in> set (as_rows (ed_store st)). pr_action_id r \<noteq> ap_action_id ?p"
    using assms(2,3) id by (auto simp: edge_inv_def unused_actions_def)
  then have "\<exists>row \<in> set (as_rows (snd ?d)). pr_approval_id row = pa_approval_id pa \<and> pr_action_hash row = canonical_action_hash ?sha ?p"
    if "fst ?d = Inr (pa, b)" for pa b
    using that create_linked by (metis prod.collapse)
  then show ?thesis using assms(4) [OF inv] by (simp add: submit_oauth_proposal_def wp_simps) metis
qed

section \<open>The handlers\<close>

lemma edge_inv_tokens:
  "edge_inv env N st \<Longrightarrow> token_inv env (ed_counter st) (ed_store st) ts \<Longrightarrow> edge_inv env N (st\<lparr>ed_tokens := ts\<rparr>)"
  by (simp add: edge_inv_def)

lemma edge_invD: "edge_inv env N st \<Longrightarrow> token_inv env (ed_counter st) (ed_store st) (ed_tokens st)"
  by (simp add: edge_inv_def)

lemma current_founder_wp:
  "edge_inv env N st \<Longrightarrow> (\<And>r. Q r st) \<Longrightarrow> wp (current_founder env now cookie) (edge_inv env N) Q st"
  by (simp add: current_founder_def wp_simps split: option.split sum.split)

lemma authenticate_founder_wp:
  "edge_inv env N st \<Longrightarrow> (\<And>r. Q r st) \<Longrightarrow> wp (authenticate_founder env now cookie header) (edge_inv env N) Q st"
  by (simp add: authenticate_founder_def wp_simps current_founder_wp)

lemma oauth_login_inv: "edge_inv env N st \<Longrightarrow> wp (oauth_login env now tok nxt) (edge_inv env N) (\<lambda>_. edge_inv env N) st"
  by (simp add: oauth_login_def wp_simps edge_inv_fresh split: sum.split)

lemma get_pending_wp:
  assumes "edge_inv env N st" "Q None (st\<lparr>ed_tokens := cancel_pending_auth i (ed_tokens st)\<rparr>)" "Q None st"
    and "\<And>req. dict_get (tk_pending (ed_tokens st)) i = Some req \<Longrightarrow> now - pn_created_at req \<le> auth_code_ttl \<Longrightarrow> Q (Some req) st"
  shows "wp (on_tokens (get_pending_auth now i)) E Q st"
  using assms by (auto simp: wp_simps get_pending_auth_def split: option.split)

lemma edge_inv_cancel: "edge_inv env N st \<Longrightarrow> edge_inv env N (st\<lparr>ed_tokens := cancel_pending_auth i (ed_tokens st)\<rparr>)"
  by (simp add: edge_inv_def token_inv_cancel)

lemma edge_inv_approving:
  "edge_inv env N st \<Longrightarrow> edge_inv env N (st\<lparr>ed_tokens := snd (set_approving_principal i who (ed_tokens st))\<rparr>)"
  by (simp add: edge_inv_def token_inv_approving)

text \<open>What the two decision endpoints share: \<open>f\<close> runs after the governed decision was recorded.\<close>

lemma decision_wp:
  assumes inv: "edge_inv env N st"
    and body: "\<And>req who d st'. edge_inv env N st' \<Longrightarrow> ed_counter st' = Suc (ed_counter st) \<Longrightarrow>
      dict_get (tk_pending (ed_tokens st')) i = Some req \<Longrightarrow> ostr_or (pn_approval_id req) [] \<noteq> [] \<Longrightarrow>
      (\<And>pa. d = Inr pa \<Longrightarrow> \<exists>row. find_row (ostr_or (pn_approval_id req) []) (ed_store st') = Some row \<and> pr_status row = pa_status pa) \<Longrightarrow>
      wp (f req who d) (edge_inv env N) (\<lambda>_. edge_inv env N) st'"
  shows "wp (bindS (authenticate_founder env now cookie header) (\<lambda>operator. case operator of None \<Rightarrow> ret r0
      | Some who \<Rightarrow> bindS (on_tokens (get_pending_auth now i)) (\<lambda>found. case found of None \<Rightarrow> ret r1
        | Some req \<Rightarrow> if ostr_or (pn_approval_id req) [] = [] then ret r2
            else bindS (mark_decision env now' (ostr_or (pn_approval_id req) []) approved who reason) (f req who))))
    (edge_inv env N) (\<lambda>_. edge_inv env N) st"
proof -
  have "wp (if ostr_or (pn_approval_id req) [] = [] then ret r2
      else bindS (mark_decision env now' (ostr_or (pn_approval_id req) []) approved who reason) (f req who))
    (edge_inv env N) (\<lambda>_. edge_inv env N) st" if "dict_get (tk_pending (ed_tokens st)) i = Some req" for req who
    using that inv body by (auto simp: wp_simps intro!: mark_decision_wp)
  then show ?thesis
    using inv edge_inv_cancel [OF inv]
    by (auto simp: wp_simps(1-5) simp del: wp_edge intro!: authenticate_founder_wp get_pending_wp split: option.split)
qed

lemma edge_inv_approve:
  assumes "distinct_draws env N" "edge_inv env N st" "ed_counter st < N" "dict_get (tk_pending (ed_tokens st)) i = Some req"
    and "ostr_or (pn_approval_id req) [] \<noteq> []" "find_row (ostr_or (pn_approval_id req) []) (ed_store st) = Some row" "pr_status row = APPROVED"
  shows "edge_inv env N (st\<lparr>ed_counter := Suc (ed_counter st),
    ed_tokens := snd (approve_auth now (eg_fresh env (ed_counter st)) i (ed_tokens st))\<rparr>)"
proof -
  obtain a where a: "pn_approval_id req = Some a" "ostr_or (pn_approval_id req) [] = a"
    using assms(5) by (auto simp: ostr_or_def str_or_def split: option.splits if_splits)
  have "pending_ok env (ed_counter st) (ed_store st) i req"
    using edge_invD [OF assms(2)] assms(4) by (simp add: token_inv_def)
  then have "approved_in env (ed_store st) a req"
    using a assms(2,6,7) approved_of_linked by (auto simp: pending_ok_def edge_inv_def)
  then have "token_inv env (Suc (ed_counter st)) (ed_store st)
      (snd (approve_auth now (eg_fresh env (ed_counter st)) i (ed_tokens st)))"
    using a assms(3,4) by (intro token_inv_approve [OF assms(1) _ edge_invD [OF assms(2)]]) auto
  with edge_inv_fresh [OF assms(2)] show ?thesis by (simp add: edge_inv_def)
qed

lemma approve_inv:
  assumes "distinct_draws env N" "Suc (ed_counter st) < N" "edge_inv env N st"
  shows "wp (approve_endpoint env now now' i cookie header) (edge_inv env N) (\<lambda>_. edge_inv env N) st"
  unfolding approve_endpoint_def
proof (rule decision_wp [OF assms(3)], goal_cases)
  case (1 req who d st')
  then have "edge_inv env N (st'\<lparr>ed_counter := Suc (ed_counter st'),
      ed_tokens := snd (approve_auth now' (eg_fresh env (ed_counter st')) i (ed_tokens st'))\<rparr>)" if "d = Inr pa" "pa_status pa = APPROVED" for pa
    using that assms(1,2) edge_inv_approve [of env N st' i req] by auto
  with 1(1) show ?case
    using edge_inv_fresh edge_inv_approving [of env N "st'\<lparr>ed_counter := Suc (ed_counter st'),
      ed_tokens := snd (approve_auth now' (eg_fresh env (ed_counter st')) i (ed_tokens st'))\<rparr>"]
    by (auto simp: wp_simps split: sum.split option.split)
qed

lemma reject_inv:
  assumes "edge_inv env N st"
  shows "wp (reject_endpoint env now now' i cookie header) (edge_inv env N) (\<lambda>_. edge_inv env N) st"
  unfolding reject_endpoint_def
proof (rule decision_wp [OF assms], goal_cases)
  case (1 req who d st')
  then have "edge_inv env N (st'\<lparr>ed_tokens := snd (reject_auth now' i (ed_tokens st'))\<rparr>)"
    by (simp add: edge_inv_def token_inv_reject)
  from edge_inv_approving [OF this] 1(1) show ?case
    by (auto simp: wp_simps split: sum.split)
qed

text \<open>The request is stored and its proposal submitted; \<open>f\<close> runs with the answer of the inbox.\<close>

lemma request_wp:
  assumes draws: "distinct_draws env N" "Suc (Suc (ed_counter st)) < N" "edge_inv env N st"
    and p: "dict_get (rg_by_client_id (eg_registry env)) (az_client_id r) = Some p" "allows_redirect_uri (az_redirect_uri r) p"
      "az_code_challenge r \<noteq> []"
    and f: "\<And>pending d st'. edge_inv env N st' \<Longrightarrow>
      dict_get (tk_pending (ed_tokens st')) (pn_request_id pending) = Some pending \<Longrightarrow> pn_auth_code pending = None \<Longrightarrow>
      (\<And>pa b. d = Inr (pa, b) \<Longrightarrow> linked env (ed_store st') (pa_approval_id pa) pending) \<Longrightarrow>
      wp (f pending d) (edge_inv env N) (\<lambda>_. edge_inv env N) st'"
  shows "wp (bindS (fresh env) (\<lambda>uuid.
    bindS (on_tokens (create_pending_auth now uuid (pc_id p) (az_client_id r) (az_redirect_uri r) (effective_scopes ws p)
            (az_code_challenge r) meth (az_state r))) (\<lambda>pending.
    bindS (submit_oauth_proposal env now (pn_request_id pending) (pc_id p) (az_client_id r) (effective_scopes ws p) (az_redirect_uri r)
            (az_state r)) (f pending)))) (edge_inv env N) (\<lambda>_. edge_inv env N) st"
proof -
  let ?i = "eg_fresh env (ed_counter st)"
  let ?scopes = "effective_scopes ws p"
  let ?req = "fst (create_pending_auth now ?i (pc_id p) (az_client_id r) (az_redirect_uri r) ?scopes (az_code_challenge r)
    meth (az_state r) (ed_tokens st))"
  let ?st = "st\<lparr>ed_counter := Suc (ed_counter st), ed_tokens := put_pending ?req (ed_tokens st)\<rparr>"
  have "registered env ?req"
    using p by (auto simp: create_pending_auth_def Let_def registered_def allows_redirect_uri_def effective_scopes_def)
  then have "pending_ok env (Suc (ed_counter st)) (ed_store st) ?i ?req" by (simp add: pending_ok_def create_pending_auth_def Let_def)
  then have inv: "edge_inv env N ?st"
    using edge_inv_fresh [OF draws(3)] by (auto simp: edge_inv_def put_pending_def create_pending_auth_def Let_def intro!: token_inv_put)
  have "wp (bindS (submit_oauth_proposal env now (pn_request_id ?req) (pc_id p) (az_client_id r) ?scopes (az_redirect_uri r) (az_state r))
    (f ?req)) (edge_inv env N) (\<lambda>_. edge_inv env N) ?st"
    unfolding wp_bindS
  proof (rule submit_wp [OF draws(1) _ inv], goal_cases)
    case (2 d st')
    then show ?case
      by (intro f) (auto simp: put_pending_def create_pending_auth_def Let_def linked_def request_proposal_def)
  qed (use draws(2) in simp)
  then show ?thesis by (simp add: wp_simps create_pending_auth_def Let_def)
qed

lemma edge_inv_link:
  assumes "edge_inv env N st" "dict_get (tk_pending (ed_tokens st)) (pn_request_id req) = Some req" "pn_auth_code req = None"
    "linked env (ed_store st) a req"
  shows "edge_inv env N (st\<lparr>ed_tokens := snd (set_approval_id (pn_request_id req) a (ed_tokens st))\<rparr>)"
  using assms edge_invD by (intro edge_inv_tokens token_inv_link) auto

lemma authorize_inv:
  assumes "distinct_draws env N" "Suc (Suc (ed_counter st)) < N" "edge_inv env N st"
  shows "wp (authorize env now r) (edge_inv env N) (\<lambda>_. edge_inv env N) st"
proof (cases "dict_get (rg_by_client_id (eg_registry env)) (az_client_id r)")
  case (Some p)
  show ?thesis
    unfolding authorize_def Let_def Some using assms Some
    by (auto simp: wp_basic simp del: append.simps intro!: request_wp)
      (auto simp: wp_simps edge_inv_cancel edge_inv_link intro!: current_founder_wp split: sum.split)
qed (use assms(3) in \<open>simp add: authorize_def wp_simps\<close>)

lemma find_code:
  assumes "token_inv env n s ts" "get_pending_auth_by_code now code ts = Some req"
  obtains i where "dict_get (tk_pending ts) i = Some req" "has_code code req" "now - pn_created_at req \<le> auth_code_ttl"
proof -
  obtain i where i: "find (\<lambda>kv. has_code code (snd kv) \<and> now - pn_created_at (snd kv) \<le> auth_code_ttl) (tk_pending ts) = Some (i, req)"
    using assms(2) by (auto simp: get_pending_auth_by_code_def)
  from find_pending [OF assms(1) i] show thesis by (intro that [of i]) simp_all
qed

lemma exchange_inv:
  assumes "edge_inv env N st"
  shows "wp (handle_code_exchange env now now' code uri c verifier) (edge_inv env N) (\<lambda>_. edge_inv env N) st"
proof -
  let ?ts = "snd (consume_auth_code (ostr_or code []) (ed_tokens st))"
  have consumed: "edge_inv env N (st\<lparr>ed_tokens := ?ts\<rparr>)"
    using assms by (simp add: edge_inv_def token_inv_consume)
  then have used: "edge_inv env N (st\<lparr>ed_tokens := ?ts, ed_counter := Suc (Suc (Suc (ed_counter st)))\<rparr>)"
    using edge_inv_draw [of env N "st\<lparr>ed_tokens := ?ts\<rparr>"] by simp
  have "edge_inv env N (st\<lparr>ed_counter := Suc (Suc (Suc (ed_counter st))),
      ed_tokens := snd (issue_refresh_token oenv now' t jti (pn_principal_id req) (pn_scopes req) c' ?ts)\<rparr>)"
    if found: "get_pending_auth_by_code now (ostr_or code []) (ed_tokens st) = Some req" for req oenv t jti c'
  proof -
    obtain i where "dict_get (tk_pending (ed_tokens st)) i = Some req" using find_code [OF edge_invD [OF assms] found] by blast
    then have "registered env req" using edge_invD [OF assms] by (simp add: token_inv_def pending_ok_def)
    with used show ?thesis by (auto simp: edge_inv_def registered_def intro: token_inv_issue)
  qed
  with assms consumed used show ?thesis
    unfolding handle_code_exchange_def
    by (auto simp: wp_simps issue_access_token_def Let_def split: option.split sum.split)
qed

lemma consume_refresh_Some:
  assumes "consume_refresh_token oenv now t c ts = (Some (who, scopes), ts')"
  obtains r where "find (\<lambda>r. rf_token_hash r = hexdigest oenv t) (tk_refresh ts) = Some r" "r \<in> set (tk_refresh ts)"
    "rf_token_hash r = hexdigest oenv t" "\<not> rf_revoked r" "now \<le> rf_expires_at r" "who = rf_principal_id r" "scopes = rf_scopes r"
    "c = [] \<or> rf_client_id r = [] \<or> c = rf_client_id r" "ts' = revoke_rows (\<lambda>x. rf_jti x = rf_jti r) ts"
proof (cases "find (\<lambda>r. rf_token_hash r = hexdigest oenv t) (tk_refresh ts)")
  case (Some r)
  moreover from Some have "r \<in> set (tk_refresh ts)" "rf_token_hash r = hexdigest oenv t" by (auto simp: find_Some_iff)
  ultimately show thesis using assms by (intro that [of r]) (auto simp: consume_refresh_token_def split: if_splits)
qed (use assms in \<open>simp add: consume_refresh_token_def\<close>)

lemma refresh_inv:
  assumes "edge_inv env N st"
  shows "wp (handle_refresh env now now' token c) (edge_inv env N) (\<lambda>_. edge_inv env N) st"
proof -
  let ?r = "consume_refresh_token (eg_oauth env) now (ostr_or token []) c (ed_tokens st)"
  have consumed: "edge_inv env N (st\<lparr>ed_tokens := snd ?r\<rparr>)" using assms by (simp add: edge_inv_def token_inv_consume_refresh)
  then have used: "edge_inv env N (st\<lparr>ed_tokens := snd ?r, ed_counter := Suc (Suc (Suc (ed_counter st)))\<rparr>)"
    using edge_inv_draw [of env N "st\<lparr>ed_tokens := snd ?r\<rparr>"] by simp
  have "edge_inv env N (st\<lparr>ed_counter := Suc (Suc (Suc (ed_counter st))),
      ed_tokens := snd (issue_refresh_token oenv now' t jti who scopes c' (snd ?r))\<rparr>)"
    if "fst ?r = Some (who, scopes)" for who scopes oenv t jti c'
  proof -
    have "\<exists>row \<in> set (tk_refresh (ed_tokens st)). who = rf_principal_id row \<and> scopes = rf_scopes row"
      using that consume_refresh_Some by (metis prod.collapse)
    then have "\<exists>c p. dict_get (rg_by_client_id (eg_registry env)) c = Some p \<and> who = pc_id p \<and> set scopes \<subseteq> set (pc_allowed_scopes p)"
      using edge_invD [OF assms] by (fastforce simp: token_inv_def refresh_ok_def)
    with used show ?thesis by (auto simp: edge_inv_def intro: token_inv_issue)
  qed
  with assms consumed used show ?thesis
    unfolding handle_refresh_def
    by (auto simp: wp_simps issue_access_token_def Let_def split: option.split sum.split)
qed

lemma revoke_inv: "edge_inv env N st \<Longrightarrow> wp (revoke_token env now token) (edge_inv env N) (\<lambda>_. edge_inv env N) st"
  by (auto simp: revoke_token_def wp_simps edge_inv_def token_inv_consume_refresh split: option.split)

lemma list_pending_inv: "edge_inv env N st \<Longrightarrow> wp (list_pending env now a) (edge_inv env N) (\<lambda>_. edge_inv env N) st"
  by (simp add: list_pending_def wp_simps split: sum.split)

lemma mcp_proxy_inv: "edge_inv env N st \<Longrightarrow> wp (mcp_proxy env now w r) (edge_inv env N) (\<lambda>_. edge_inv env N) st"
  by (simp add: mcp_proxy_def wp_simps deny_tool_def forward_to_upstream_def log_scope_denied_def split: option.split sum.split scope_verdict.split denial_outcome.split)

section \<open>The transition system\<close>

text \<open>
  The calls of the edge, and the operations other processes make on the approval database they
  share with it.
\<close>

datatype edge_call =
    Call_Login rat string string
  | Call_Authorize rat authorize_request
  | Call_Approve rat rat string "string option" "string option"
  | Call_Reject rat rat string "string option" "string option"
  | Call_Token rat rat token_request
  | Call_Revoke rat string
  | Call_List_Pending rat "string option"
  | Call_Mcp rat denial_outcome mcp_request
  | Call_Mcp_Finish rat mcp_forward int "(string \<times> string) list" string
  | Other_Store_Op int store_op

fun serve :: "edge_env \<Rightarrow> edge_call \<Rightarrow> edge_response edge" where
  "serve env (Call_Login now tok nxt) = oauth_login env now tok nxt"
| "serve env (Call_Authorize now r) = authorize env now r"
| "serve env (Call_Approve now now' i cookie header) = approve_endpoint env now now' i cookie header"
| "serve env (Call_Reject now now' i cookie header) = reject_endpoint env now now' i cookie header"
| "serve env (Call_Token now now' r) = token_endpoint env now now' r"
| "serve env (Call_Revoke now token) = revoke_token env now token"
| "serve env (Call_List_Pending now a) = list_pending env now a"
| "serve env (Call_Mcp now w r) = mcp_proxy env now w r"
| "serve env (Call_Mcp_Finish now f status headers content) = mcp_finish now f status headers content"
| "serve env (Other_Store_Op dflt op) =
     bindS (modS (\<lambda>st. st\<lparr>ed_store := store_step (eg_action_sha env) dflt op (ed_store st)\<rparr>)) (\<lambda>_. ret (Json_Page 200 []))"

text \<open>Another process does not submit an action under an identifier that the edge draws.\<close>

definition call_ok :: "edge_env \<Rightarrow> nat \<Rightarrow> edge_call \<Rightarrow> bool" where
  "call_ok env N c = (case c of
     Other_Store_Op dflt op \<Rightarrow> wf_op op \<and> (case op of
       Op_Create hex now ttl p channel who event \<Rightarrow> list_all (\<lambda>m. ap_action_id p \<noteq> new_id ''act'' (eg_fresh env m)) [0..<N]
     | _ \<Rightarrow> True)
   | _ \<Rightarrow> True)"

text \<open>A call draws at most three times.\<close>

inductive edge_reach :: "edge_env \<Rightarrow> nat \<Rightarrow> edge_state \<Rightarrow> bool" for env N where
  start: "edge_reach env N initial_edge"
| call: "edge_reach env N st \<Longrightarrow> call_ok env N c \<Longrightarrow> ed_counter st + 3 \<le> N \<Longrightarrow> edge_reach env N (snd (serve env c st))"

lemma initial_edge_inv: "edge_inv env N initial_edge"
  by (simp add: edge_inv_def initial_edge_def unused_actions_def token_inv_def codes_unique_def empty_store_def store_inv_def)

lemma serve_inv:
  assumes "distinct_draws env N" "edge_inv env N st" "call_ok env N c" "ed_counter st + 3 \<le> N"
  shows "edge_inv env N (snd (serve env c st))"
proof (rule wpD, cases c)
  case (Other_Store_Op dflt op)
  with assms(2,3) have "edge_inv env N (st\<lparr>ed_store := store_step (eg_action_sha env) dflt op (ed_store st)\<rparr>)"
    by (intro edge_inv_store) (auto simp: call_ok_def list_all_iff)
  with Other_Store_Op show "wp (serve env c) (edge_inv env N) (\<lambda>_. edge_inv env N) st" by (simp add: wp_simps)
qed (use assms in \<open>simp_all add: oauth_login_inv authorize_inv approve_inv reject_inv exchange_inv refresh_inv revoke_inv
  list_pending_inv mcp_proxy_inv token_endpoint_def mcp_finish_def wp_simps\<close>)

lemma edge_reach_inv: "edge_reach env N st \<Longrightarrow> distinct_draws env N \<Longrightarrow> edge_inv env N st"
  by (induction rule: edge_reach.induct) (simp_all add: initial_edge_inv serve_inv)

section \<open>Assertions that every call keeps\<close>

text \<open>The authorization codes that pending requests hold.\<close>

definition live_codes :: "token_store \<Rightarrow> string set" where
  "live_codes ts = {c. \<exists>i req. dict_get (tk_pending ts) i = Some req \<and> pn_auth_code req = Some c}"

lemma live_codes_ops:
  "live_codes (cancel_pending_auth i ts) \<subseteq> live_codes ts"
  "live_codes (ts\<lparr>tk_refresh := rs\<rparr>) = live_codes ts"
  "live_codes (snd (set_approval_id i a ts)) \<subseteq> live_codes ts"
  "live_codes (snd (set_approving_principal i who ts)) \<subseteq> live_codes ts"
  by (auto simp: live_codes_def cancel_pending_auth_def set_approval_id_def set_approving_principal_def
      split: if_splits option.splits)

lemma live_codes_get: "live_codes (snd (get_pending_auth now i ts)) \<subseteq> live_codes ts"
  using live_codes_ops(1) by (simp add: get_pending_auth_def split: option.split)

lemma live_codes_reject: "live_codes (snd (reject_auth now i ts)) \<subseteq> live_codes ts"
  by (auto simp: reject_auth_def get_pending_auth_def cancel_pending_auth_def live_codes_def split: if_splits option.splits)

lemma live_codes_approve: "live_codes (snd (approve_auth now c i ts)) \<subseteq> insert c (live_codes ts)"
  by (auto simp: approve_auth_def get_pending_auth_def cancel_pending_auth_def live_codes_def split: if_splits option.splits)

lemma live_codes_consume: "live_codes (snd (consume_auth_code c ts)) \<subseteq> live_codes ts"
  using live_codes_ops(1) by (auto simp: consume_auth_code_def split: option.splits)

lemma live_codes_create:
  "live_codes (snd (create_pending_auth now i who c uri scopes ch meth state ts)) \<subseteq> live_codes ts"
  by (auto simp: create_pending_auth_def Let_def put_pending_def live_codes_def split: if_splits)

lemma refresh_rows_ops [simp]:
  "tk_refresh (cancel_pending_auth i ts) = tk_refresh ts"
  "tk_refresh (snd (set_approval_id i a ts)) = tk_refresh ts"
  "tk_refresh (snd (set_approving_principal i who ts)) = tk_refresh ts"
  "tk_refresh (snd (get_pending_auth now i ts)) = tk_refresh ts"
  "tk_refresh (snd (reject_auth now i ts)) = tk_refresh ts"
  "tk_refresh (snd (approve_auth now c i ts)) = tk_refresh ts"
  "tk_refresh (snd (consume_auth_code c ts)) = tk_refresh ts"
  "tk_refresh (snd (create_pending_auth now i who c' uri scopes ch meth state ts)) = tk_refresh ts"
  by (auto simp: cancel_pending_auth_def set_approval_id_def set_approving_principal_def get_pending_auth_def reject_auth_def
      approve_auth_def consume_auth_code_def create_pending_auth_def Let_def put_pending_def split: option.splits)

locale edge_assertion =
  fixes env :: edge_env and P :: "edge_state \<Rightarrow> bool"
  assumes draw: "P st \<Longrightarrow> P (st\<lparr>ed_counter := Suc (ed_counter st)\<rparr>)"
    and audited: "P st \<Longrightarrow> P (st\<lparr>ed_audit := as\<rparr>)"
    and approvals: "P st \<Longrightarrow> P (st\<lparr>ed_store := s\<rparr>)"
    and pending: "P st \<Longrightarrow> live_codes ts \<subseteq> live_codes (ed_tokens st) \<Longrightarrow> tk_refresh ts = tk_refresh (ed_tokens st) \<Longrightarrow>
      P (st\<lparr>ed_tokens := ts\<rparr>)"
    and coded: "P st \<Longrightarrow> live_codes ts \<subseteq> insert (eg_fresh env (ed_counter st)) (live_codes (ed_tokens st)) \<Longrightarrow>
      tk_refresh ts = tk_refresh (ed_tokens st) \<Longrightarrow> P (st\<lparr>ed_counter := Suc (ed_counter st), ed_tokens := ts\<rparr>)"
    and revoked: "P st \<Longrightarrow> P (st\<lparr>ed_tokens := revoke_rows R (ed_tokens st)\<rparr>)"
    and issued: "P st \<Longrightarrow> P (st\<lparr>ed_tokens := (ed_tokens st)\<lparr>tk_refresh := tk_refresh (ed_tokens st) @ [r]\<rparr>\<rparr>)"
begin

lemma fresh_keeps: "keeps P (fresh env)"
  by (simp add: keeps_def fresh_def draw)

lemma audit_keeps: "keeps P (audit now event data)"
  by (simp add: audit_def audited keeps_modS)

lemma on_approvals_keeps: "keeps P (on_approvals f)"
  by (simp add: keeps_def on_approvals_def approvals split: prod.split)

lemma raise_or_keeps: "keeps P (raise_or r)"
  by (simp add: keeps_def raise_or_def)

lemma on_tokens_keeps:
  "(\<And>ts. live_codes (snd (f ts)) \<subseteq> live_codes ts) \<Longrightarrow> (\<And>ts. tk_refresh (snd (f ts)) = tk_refresh ts) \<Longrightarrow> keeps P (on_tokens f)"
  by (simp add: keeps_def on_tokens_def pending case_prod_beta)

lemma consume_refresh_keeps: "keeps P (on_tokens (consume_refresh_token oenv now t c))"
  by (auto simp: keeps_def on_tokens_def consume_refresh_token_def revoked split: option.split)

lemma issue_refresh_keeps: "keeps P (on_refresh (issue_refresh_token oenv now t jti who scopes c))"
  by (simp add: keeps_def on_refresh_def issue_refresh_token_def issued)

lemma approve_keeps:
  assumes "\<And>r code. keeps P (g r code)"
  shows "keeps P (bindS (fresh env) (\<lambda>code. bindS (on_tokens (approve_auth now code i)) (g code)))"
proof -
  have "P (st\<lparr>ed_counter := Suc (ed_counter st), ed_tokens := snd (approve_auth now (eg_fresh env (ed_counter st)) i (ed_tokens st))\<rparr>)"
    if "P st" for st
    using coded [OF that live_codes_approve] by simp
  with assms show ?thesis by (simp add: keeps_def bindS_def fresh_def on_tokens_def case_prod_beta)
qed

lemma founder_keeps: "keeps P (authenticate_founder env now cookie header)" "keeps P (current_founder env now cookie)"
  unfolding authenticate_founder_def current_founder_def by (intro keeps_intros raise_or_keeps)+

lemmas token_keeps =
  on_tokens_keeps [of "get_pending_auth now i" for now i, OF live_codes_get]
  on_tokens_keeps [of "reject_auth now i" for now i, OF live_codes_reject]
  on_tokens_keeps [of "consume_auth_code c" for c, OF live_codes_consume]
  on_tokens_keeps [of "set_approval_id i a" for i a, OF live_codes_ops(3)]
  on_tokens_keeps [of "set_approving_principal i who" for i who, OF live_codes_ops(4)]
  on_tokens_keeps [of "create_pending_auth now i who c uri scopes ch meth state" for now i who c uri scopes ch meth state, OF live_codes_create]

lemma cancel_keeps: "keeps P (on_tokens (\<lambda>ts. ((), cancel_pending_auth i ts)))"
  by (rule on_tokens_keeps) (simp_all add: live_codes_ops)

lemmas edge_keeps = fresh_keeps audit_keeps on_approvals_keeps raise_or_keeps token_keeps cancel_keeps
  consume_refresh_keeps issue_refresh_keeps founder_keeps

lemma keeps_sum: "(\<And>e. keeps P (f e)) \<Longrightarrow> (\<And>x. keeps P (g x)) \<Longrightarrow> keeps P (case r of Inl e \<Rightarrow> f e | Inr x \<Rightarrow> g x)"
  by (simp split: sum.split)

lemma decisions_keep:
  "keeps P (mark_decision env now i approved who reason)" "keeps P (submit_oauth_proposal env now i who c scopes uri state)"
  unfolding mark_decision_def submit_oauth_proposal_def by (intro keeps_intros edge_keeps)+

lemma approve_endpoint_keeps: "keeps P (approve_endpoint env now now' i cookie header)"
  unfolding approve_endpoint_def by (intro approve_keeps keeps_intros keeps_sum edge_keeps decisions_keep; simp)

lemma reject_endpoint_keeps: "keeps P (reject_endpoint env now now' i cookie header)"
  unfolding reject_endpoint_def by (intro keeps_intros keeps_sum edge_keeps decisions_keep; simp)

lemma authorize_keeps: "keeps P (authorize env now r)"
  unfolding authorize_def Let_def by (intro keeps_intros keeps_sum edge_keeps decisions_keep; simp)

lemma token_endpoint_keeps: "keeps P (token_endpoint env now now' r)"
  unfolding token_endpoint_def handle_code_exchange_def handle_refresh_def issue_access_token_def
  by (intro keeps_intros keeps_sum edge_keeps; simp)

lemma keeps_verdict:
  "keeps P a \<Longrightarrow> keeps P b \<Longrightarrow> (\<And>t. keeps P (f t)) \<Longrightarrow> (\<And>t. keeps P (g t)) \<Longrightarrow>
    keeps P (case v of Pass \<Rightarrow> a | Nameless \<Rightarrow> b | Unclassified t \<Rightarrow> f t | Insufficient t \<Rightarrow> g t)"
  by (simp split: scope_verdict.split)

lemma keeps_denial:
  "keeps P a \<Longrightarrow> keeps P b \<Longrightarrow> keeps P c \<Longrightarrow>
    keeps P (case w of Denial_Answered \<Rightarrow> a | Denial_Unlogged \<Rightarrow> b | Denial_Unanswerable \<Rightarrow> c)"
  by (simp split: denial_outcome.split)

lemma mcp_keeps: "keeps P (mcp_proxy env now w r)" "keeps P (mcp_finish now f status headers content)"
  unfolding mcp_proxy_def deny_tool_def forward_to_upstream_def mcp_finish_def log_scope_denied_def by (intro keeps_intros keeps_verdict keeps_denial edge_keeps)+

lemma serve_keeps: "keeps P (serve env c)"
proof (cases c)
  case (Call_Login now tok nxt)
  then show ?thesis by (simp add: oauth_login_def) (intro keeps_intros keeps_sum edge_keeps)
next
  case (Call_Revoke now token)
  then show ?thesis by (simp add: revoke_token_def) (intro keeps_intros keeps_sum edge_keeps)
next
  case (Call_List_Pending now a)
  then show ?thesis by (simp add: list_pending_def) (intro keeps_intros keeps_sum edge_keeps)
next
  case (Other_Store_Op dflt op)
  then show ?thesis by (simp add: approvals keeps_basic keeps_bindS keeps_modS)
qed (simp_all add: authorize_keeps approve_endpoint_keeps reject_endpoint_keeps token_endpoint_keeps mcp_keeps)

end

end
