(* ===== verification/Oauth_Properties.thy ===== *)
theory Oauth_Properties
  imports Oauth_Safety
begin

text \<open>
  The properties of the OAuth edge: what a token endpoint call that succeeds has behind it, that codes
  and refresh tokens are used once, what tokens verify as, and what the proxy lets through.
\<close>

section \<open>Something used once\<close>

text \<open>
  \<open>fires\<close> marks the uses, \<open>dead\<close> the states in which no use can follow.
\<close>

locale one_shot =
  fixes step :: "'op \<Rightarrow> 's \<Rightarrow> 's" and ok :: "'op \<Rightarrow> 's \<Rightarrow> bool" and inv :: "'s \<Rightarrow> bool"
    and fires :: "'op \<Rightarrow> 's \<Rightarrow> bool" and dead :: "'s \<Rightarrow> bool"
  assumes inv_step: "inv s \<Longrightarrow> ok op s \<Longrightarrow> inv (step op s)"
    and dead_step: "inv s \<Longrightarrow> ok op s \<Longrightarrow> dead s \<Longrightarrow> dead (step op s)"
    and fires_once: "inv s \<Longrightarrow> ok op s \<Longrightarrow> fires op s \<Longrightarrow> \<not> dead s \<and> dead (step op s)"
begin

fun ok_run :: "'op list \<Rightarrow> 's \<Rightarrow> bool" where
  "ok_run [] s = True"
| "ok_run (op # ops) s = (ok op s \<and> ok_run ops (step op s))"

fun uses :: "'op list \<Rightarrow> 's \<Rightarrow> nat" where
  "uses [] s = 0"
| "uses (op # ops) s = (if fires op s then 1 else 0) + uses ops (step op s)"

lemma dead_no_use: "inv s \<Longrightarrow> ok_run ops s \<Longrightarrow> dead s \<Longrightarrow> uses ops s = 0"
  by (induction ops arbitrary: s) (use fires_once in \<open>auto simp: inv_step dead_step\<close>)

lemma used_at_most_once: "inv s \<Longrightarrow> ok_run ops s \<Longrightarrow> uses ops s \<le> 1"
proof (induction ops arbitrary: s)
  case (Cons op ops)
  then show ?case using fires_once [of s op] dead_no_use [of "step op s" ops] by (auto simp: inv_step)
qed simp

end

section \<open>Authorization codes\<close>

lemma get_pending_by_code_consumed:
  assumes "token_inv env n s ts" "get_pending_auth_by_code now code ts = Some req"
  shows "consume_auth_code code ts = (Some req, cancel_pending_auth (pn_request_id req) ts)"
proof -
  obtain i where i: "dict_get (tk_pending ts) i = Some req" "has_code code req" using find_code [OF assms] by blast
  have "find (\<lambda>kv. has_code code (snd kv)) (tk_pending ts) \<noteq> None"
    using map_of_SomeD [OF i(1)] i(2) unfolding find_None_iff by force
  then obtain j q where j: "find (\<lambda>kv. has_code code (snd kv)) (tk_pending ts) = Some (j, q)" by auto
  then have "dict_get (tk_pending ts) j = Some q" "has_code code q" using find_pending [OF assms(1) j] by simp_all
  then have "j = i" using i assms(1) unfolding token_inv_def codes_unique_def has_code_def by blast
  moreover have "pn_request_id req = i" using i(1) assms(1) by (simp add: token_inv_def pending_ok_def)
  ultimately show ?thesis using j i(1) \<open>dict_get (tk_pending ts) j = Some q\<close> by (simp add: consume_auth_code_def)
qed

text \<open>What a successful exchange did.\<close>

lemma exchange_success:
  assumes inv: "edge_inv env N st" and "handle_code_exchange env now now' code uri c verifier st = (Inr (Json_Page 200 page), st')"
  obtains req t v access refresh where "code = Some t" "t \<noteq> []" "dict_get (tk_pending (ed_tokens st)) (pn_request_id req) = Some req"
    "has_code t req" "now - pn_created_at req \<le> auth_code_ttl" "c = Some (pn_client_id req)" "uri = Some (pn_redirect_uri req)"
    "verifier = Some v" "pkce_challenge env v = pn_code_challenge req"
    "page = [(''access_token'', JStr access), (''token_type'', JStr ''Bearer''), (''expires_in'', JInt (og_access_ttl (eg_oauth env))),
       (''refresh_token'', JStr refresh), (''scope'', JStr (join '' '' (pn_scopes req)))]"
    "access = fst (issue_access_token (eg_oauth env) now' (eg_fresh env (ed_counter st)) (pn_principal_id req) (pn_scopes req))"
    "tk_pending (ed_tokens st') = dict_pop (pn_request_id req) (tk_pending (ed_tokens st))" "ed_counter st \<le> ed_counter st'"
proof (cases "get_pending_auth_by_code now (ostr_or code []) (ed_tokens st)")
  case (Some req)
  have t: "ostr_or code [] \<noteq> [] \<and> code = Some (ostr_or code []) \<and> verifier = Some (ostr_or verifier []) \<and>
      c = Some (pn_client_id req) \<and> uri = Some (pn_redirect_uri req) \<and> pkce_challenge env (ostr_or verifier []) = pn_code_challenge req"
    using assms(2) Some
    by (auto simp: handle_code_exchange_def comp_simps json_error_def ostr_or_def str_or_def split: if_splits option.splits)
  then have p: "Some (pn_client_id req) = c" "Some (pn_redirect_uri req) = uri"
    "pkce_challenge env (ostr_or verifier []) = pn_code_challenge req" "ostr_or verifier [] \<noteq> []" "ostr_or code [] \<noteq> []"
    using assms(2) Some by (auto simp: handle_code_exchange_def comp_simps json_error_def split: if_splits)
  obtain i where i: "dict_get (tk_pending (ed_tokens st)) i = Some req" "has_code (ostr_or code []) req"
    "now - pn_created_at req \<le> auth_code_ttl"
    using find_code [OF edge_invD [OF inv] Some] by blast
  then have "pn_request_id req = i" using edge_invD [OF inv] by (simp add: token_inv_def pending_ok_def)
  moreover have "tk_pending (ed_tokens st') = dict_pop (pn_request_id req) (tk_pending (ed_tokens st))" "ed_counter st \<le> ed_counter st'"
    "page = [(''access_token'', JStr (fst (issue_access_token (eg_oauth env) now' (eg_fresh env (ed_counter st)) (pn_principal_id req) (pn_scopes req)))),
      (''token_type'', JStr ''Bearer''), (''expires_in'', JInt (og_access_ttl (eg_oauth env))),
      (''refresh_token'', JStr (eg_fresh env (Suc (ed_counter st)))), (''scope'', JStr (join '' '' (pn_scopes req)))]"
    using assms(2) Some p unfolding handle_code_exchange_def
    by (auto simp: comp_simps get_pending_by_code_consumed [OF edge_invD [OF inv] Some] on_tokens_def bindS_def fresh_def
        issue_access_token_def Let_def on_refresh_def issue_refresh_token_def audit_def token_page_def cancel_pending_auth_def
        split: if_splits)
  ultimately show thesis using i t by (intro that [of "ostr_or code []" req]) auto
qed (use assms(2) in \<open>auto simp: handle_code_exchange_def comp_simps json_error_def split: if_splits\<close>)

text \<open>A call that exchanges a code for tokens.\<close>

definition exchanges :: "edge_env \<Rightarrow> string \<Rightarrow> edge_call \<Rightarrow> edge_state \<Rightarrow> bool" where
  "exchanges env code c st = (case c of
     Call_Token now now' r \<Rightarrow> tq_grant_type r = ''authorization_code'' \<and> tq_code r = Some code \<and>
       (case fst (token_endpoint env now now' r st) of Inr (Json_Page status _) \<Rightarrow> status = 200 | _ \<Rightarrow> False)
   | _ \<Rightarrow> False)"

definition code_dead :: "edge_env \<Rightarrow> nat \<Rightarrow> string \<Rightarrow> edge_state \<Rightarrow> bool" where
  "code_dead env N code st = (ed_counter st \<le> N \<longrightarrow>
     code \<notin> live_codes (ed_tokens st) \<and> (\<forall>m. ed_counter st \<le> m \<and> m < N \<longrightarrow> code \<noteq> eg_fresh env m))"

interpretation codes: edge_assertion env "code_dead env N code" for env N code
  by unfold_locales (auto simp: code_dead_def live_codes_ops(2) revoke_rows_def)

lemma exchanges_cases:
  assumes "exchanges env code c st"
  obtains now now' r page st' where "c = Call_Token now now' r"
    "handle_code_exchange env now now' (Some code) (tq_redirect_uri r) (tq_client_id r) (tq_code_verifier r) st = (Inr (Json_Page 200 page), st')"
    "snd (serve env c st) = st'"
  using assms
  by (cases c) (auto simp: exchanges_def token_endpoint_def split: sum.splits edge_response.splits, metis prod.collapse)

lemma exchange_kills_code:
  assumes draws: "distinct_draws env N" and inv: "edge_inv env N st" and "ed_counter st + 3 \<le> N" "exchanges env code c st"
  shows "\<not> code_dead env N code st \<and> code_dead env N code (snd (serve env c st))"
proof -
  obtain now now' r page st' where call: "c = Call_Token now now' r" "snd (serve env c st) = st'"
    "handle_code_exchange env now now' (Some code) (tq_redirect_uri r) (tq_client_id r) (tq_code_verifier r) st = (Inr (Json_Page 200 page), st')"
    using assms(4) by (rule exchanges_cases)
  from exchange_success [OF inv call(3)] obtain req where req: "dict_get (tk_pending (ed_tokens st)) (pn_request_id req) = Some req"
    "has_code code req" "tk_pending (ed_tokens st') = dict_pop (pn_request_id req) (tk_pending (ed_tokens st))" "ed_counter st \<le> ed_counter st'"
    by (metis option.inject)
  note t = edge_invD [OF inv]
  have "code \<in> live_codes (ed_tokens st)" using req(1,2) by (auto simp: live_codes_def has_code_def)
  moreover have "code \<notin> live_codes (ed_tokens st')"
    using req t unfolding live_codes_def token_inv_def codes_unique_def has_code_def by (auto split: if_splits) blast
  moreover obtain m where "m < ed_counter st" "code = eg_fresh env m"
    using t req(1,2) unfolding token_inv_def pending_ok_def has_code_def by blast
  then have "code \<noteq> eg_fresh env k" if "ed_counter st' \<le> k" "k < N" for k
    using that req(4) distinct_drawsD [OF draws, of m k] by auto
  ultimately show ?thesis using assms(3) call(2) by (simp add: code_dead_def)
qed

definition call_allowed :: "edge_env \<Rightarrow> nat \<Rightarrow> edge_call \<Rightarrow> edge_state \<Rightarrow> bool" where
  "call_allowed env N c st = (call_ok env N c \<and> ed_counter st + 3 \<le> N)"

interpretation code: one_shot "\<lambda>c st. snd (serve env c st)" "call_allowed env N" "\<lambda>st. distinct_draws env N \<and> edge_inv env N st"
    "exchanges env code" "code_dead env N code" for env N code
  using codes.serve_keeps
  by unfold_locales (auto simp: call_allowed_def serve_inv keeps_def exchange_kills_code)

section \<open>Refresh tokens\<close>

definition redeems :: "edge_env \<Rightarrow> string \<Rightarrow> edge_call \<Rightarrow> edge_state \<Rightarrow> bool" where
  "redeems env t c st = (case c of
     Call_Token now now' r \<Rightarrow> tq_grant_type r = ''refresh_token'' \<and> tq_refresh_token r = Some t \<and>
       (case fst (token_endpoint env now now' r st) of Inr (Json_Page status _) \<Rightarrow> status = 200 | _ \<Rightarrow> False)
   | _ \<Rightarrow> False)"

definition refresh_used :: "edge_env \<Rightarrow> string \<Rightarrow> edge_state \<Rightarrow> bool" where
  "refresh_used env t st = (case find (\<lambda>r. rf_token_hash r = hexdigest (eg_oauth env) t) (tk_refresh (ed_tokens st)) of
     None \<Rightarrow> False | Some r \<Rightarrow> rf_revoked r)"

lemma find_revoked:
  "find (\<lambda>r. rf_token_hash r = h) (tk_refresh (revoke_rows R ts)) =
    map_option (\<lambda>r. if R r then r\<lparr>rf_revoked := True\<rparr> else r) (find (\<lambda>r. rf_token_hash r = h) (tk_refresh ts))"
  using find_map_id [of rf_token_hash "\<lambda>r. if R r then r\<lparr>rf_revoked := True\<rparr> else r"] by (simp add: revoke_rows_def)

interpretation refreshed: edge_assertion env "refresh_used env t" for env t
  by unfold_locales (auto simp: refresh_used_def find_revoked find_append split: option.splits)

text \<open>What a successful refresh did.\<close>

lemma refresh_success:
  assumes "handle_refresh env now now' token c st = (Inr (Json_Page 200 page), st')"
  obtains t row access refresh new where "token = Some t" "t \<noteq> []" "row \<in> set (tk_refresh (ed_tokens st))"
    "find (\<lambda>r. rf_token_hash r = hexdigest (eg_oauth env) t) (tk_refresh (ed_tokens st)) = Some row"
    "\<not> rf_revoked row" "now \<le> rf_expires_at row" "c = [] \<or> rf_client_id row = [] \<or> c = rf_client_id row"
    "page = [(''access_token'', JStr access), (''token_type'', JStr ''Bearer''), (''expires_in'', JInt (og_access_ttl (eg_oauth env))),
       (''refresh_token'', JStr refresh), (''scope'', JStr (join '' '' (rf_scopes row)))]"
    "access = fst (issue_access_token (eg_oauth env) now' (eg_fresh env (ed_counter st)) (rf_principal_id row) (rf_scopes row))"
    "tk_refresh (ed_tokens st') = tk_refresh (revoke_rows (\<lambda>x. rf_jti x = rf_jti row) (ed_tokens st)) @ [new]"
    "rf_client_id new = c" "rf_scopes new = filter (\<lambda>s. s \<noteq> mutate_scope) (rf_scopes row)"
proof (cases "consume_refresh_token (eg_oauth env) now (ostr_or token []) c (ed_tokens st)")
  case (Pair a ts)
  have t: "ostr_or token [] \<noteq> []" using assms by (auto simp: handle_refresh_def comp_simps json_error_def)
  then have "token = Some (ostr_or token [])" by (auto simp: ostr_or_def str_or_def split: option.splits if_splits)
  moreover obtain who scopes where a: "a = Some (who, scopes)"
    using assms t Pair by (cases a) (auto simp: handle_refresh_def comp_simps json_error_def on_tokens_def bindS_def)
  from Pair [unfolded a] obtain row where row:
    "find (\<lambda>r. rf_token_hash r = hexdigest (eg_oauth env) (ostr_or token [])) (tk_refresh (ed_tokens st)) = Some row"
    "row \<in> set (tk_refresh (ed_tokens st))" "\<not> rf_revoked row" "now \<le> rf_expires_at row" "who = rf_principal_id row" "scopes = rf_scopes row"
    "c = [] \<or> rf_client_id row = [] \<or> c = rf_client_id row" "ts = revoke_rows (\<lambda>x. rf_jti x = rf_jti row) (ed_tokens st)"
    by (rule consume_refresh_Some)
  ultimately show thesis
    using assms t Pair a unfolding handle_refresh_def
    by (intro that [of "ostr_or token []" row _ "eg_fresh env (Suc (ed_counter st))" "last (tk_refresh (ed_tokens st'))"])
      (auto simp: comp_simps on_tokens_def bindS_def fresh_def issue_access_token_def Let_def on_refresh_def
        issue_refresh_token_def audit_def token_page_def split: if_splits)
qed

lemma redeem_uses:
  assumes "redeems env t c st"
  shows "\<not> refresh_used env t st \<and> refresh_used env t (snd (serve env c st))"
proof -
  obtain now now' r page st' where call: "c = Call_Token now now' r" "snd (serve env c st) = st'"
    "handle_refresh env now now' (Some t) (ostr_or (tq_client_id r) []) st = (Inr (Json_Page 200 page), st')"
    using assms
    by (cases c) (auto simp: redeems_def token_endpoint_def split: sum.splits edge_response.splits, metis prod.collapse)
  from call(3) obtain row new where row: "find (\<lambda>r. rf_token_hash r = hexdigest (eg_oauth env) t) (tk_refresh (ed_tokens st)) = Some row"
    "\<not> rf_revoked row"
    "tk_refresh (ed_tokens st') = tk_refresh (revoke_rows (\<lambda>x. rf_jti x = rf_jti row) (ed_tokens st)) @ [new]"
    by (rule refresh_success) blast
  have "refresh_used env t st'"
    unfolding refresh_used_def row(3) by (simp add: find_append find_revoked row(1))
  with row call(2) show ?thesis by (simp add: refresh_used_def)
qed

interpretation refresh: one_shot "\<lambda>c st. snd (serve env c st)" "\<lambda>_ _. True" "\<lambda>_. True" "redeems env t" "refresh_used env t" for env t
  using refreshed.serve_keeps by unfold_locales (auto simp: keeps_def redeem_uses)

fun uses_in :: "edge_env \<Rightarrow> (edge_call \<Rightarrow> edge_state \<Rightarrow> bool) \<Rightarrow> edge_call list \<Rightarrow> edge_state \<Rightarrow> nat" where
  "uses_in env f [] st = 0"
| "uses_in env f (c # cs) st = (if f c st then 1 else 0) + uses_in env f cs (snd (serve env c st))"

fun allowed_run :: "edge_env \<Rightarrow> nat \<Rightarrow> edge_call list \<Rightarrow> edge_state \<Rightarrow> bool" where
  "allowed_run env N [] st = True"
| "allowed_run env N (c # cs) st = (call_allowed env N c st \<and> allowed_run env N cs (snd (serve env c st)))"

lemma uses_in_code: "code.uses env code cs st = uses_in env (exchanges env code) cs st"
  by (induction cs arbitrary: st) simp_all

lemma uses_in_refresh: "refresh.uses env t cs st = uses_in env (redeems env t) cs st"
  by (induction cs arbitrary: st) simp_all

lemma allowed_run_code: "code.ok_run env N cs st = allowed_run env N cs st"
  by (induction cs arbitrary: st) simp_all

lemma refresh_ok_run: "refresh.ok_run env cs st"
  by (induction cs arbitrary: st) simp_all

section \<open>A sample edge\<close>

definition sample_entry :: principal_entry where
  "sample_entry = \<lparr>pe_id = Some ''claude'', pe_display_name = Some ''Claude'', pe_client_id = Some ''cl'',
     pe_allowed_scopes = [''aether.read'', ''aether.mutate''], pe_redirect_uris = [''https://c/cb''], pe_mutation_authority = True\<rparr>"

definition sample_edge_env :: edge_env where
  "sample_edge_env = \<lparr>
     eg_oauth = \<lparr>og_mac = (\<lambda>k t. ''m''), og_sha = (\<lambda>v. v), og_secret = replicate 32 (CHR ''s''), og_issuer = ''i'', og_audience = ''a'',
       og_access_ttl = 900, og_refresh_ttl = 3600, og_session_ttl = 600\<rparr>,
     eg_registry = (case load_registry [sample_entry] \<lparr>rg_by_id = [], rg_by_client_id = []\<rparr> of Inr g \<Rightarrow> g
       | Inl _ \<Rightarrow> \<lparr>rg_by_id = [], rg_by_client_id = []\<rparr>),
     eg_operator = make_operator_auth ''op'' ''founder'', eg_approval_ttl = 600, eg_action_sha = (\<lambda>_. ''h''), eg_fresh = nat_str,
     eg_mcp_token = ''dev'', eg_mcp_operator_token = [], eg_admin_token = [], eg_upstream = ''http://u'', eg_upstream_token = ''up''\<rparr>"

definition sample_authorize :: edge_call where
  "sample_authorize = Call_Authorize 100 \<lparr>az_response_type = ''code'', az_client_id = ''cl'', az_redirect_uri = ''https://c/cb'',
     az_scope = ''aether.read aether.mutate aether.diagnostic'', az_state = ''st'', az_code_challenge = b64url ''ver'',
     az_code_challenge_method = ''S256'', az_cookie = None, az_path = ''/oauth/authorize'', az_query = []\<rparr>"

definition sample_approve :: edge_call where
  "sample_approve = Call_Approve 110 111 ''0'' None (Some ''op'')"

definition sample_token_request :: token_request where
  "sample_token_request = \<lparr>tq_grant_type = ''authorization_code'', tq_code = Some ''4'', tq_redirect_uri = Some ''https://c/cb'',
     tq_client_id = Some ''cl'', tq_code_verifier = Some ''ver'', tq_refresh_token = None\<rparr>"


definition sample_row :: pending_row where
  "sample_row = new_row (\<lambda>_. ''h'') ''2'' 100 600 (oauth_proposal ''1'' ''0'' ''claude'' ''cl'' [''aether.read'', ''aether.mutate''] ''https://c/cb'' ''st'')
     (Some ''oauth'') (Some ''claude'') None"

definition sample_pending :: pending_auth where
  "sample_pending = \<lparr>pn_request_id = ''0'', pn_principal_id = ''claude'', pn_client_id = ''cl'', pn_redirect_uri = ''https://c/cb'',
     pn_scopes = [''aether.read'', ''aether.mutate''], pn_code_challenge = ''dmVy'', pn_code_challenge_method = ''S256'',
     pn_state = ''st'', pn_created_at = 100, pn_approved = None, pn_auth_code = None, pn_approval_id = Some ''approval.2'',
     pn_approving_principal = None\<rparr>"

definition sample_requested :: edge_state where
  "sample_requested = snd (serve sample_edge_env sample_authorize initial_edge)"

definition sample_approved :: edge_state where
  "sample_approved = snd (serve sample_edge_env sample_approve sample_requested)"

lemma stored_new_row: "wf_proposal p \<Longrightarrow> stored_row sha (new_row sha hex now ttl p channel who event)"
  by (auto simp: stored_row_def new_row_def)

lemma sample_stored: "stored_row (\<lambda>_. ''h'') sample_row"
  by (simp add: sample_row_def stored_new_row)

lemma sample_env:
  "eg_fresh sample_edge_env = nat_str" "eg_action_sha sample_edge_env = (\<lambda>_. ''h'')" "eg_approval_ttl sample_edge_env = 600"
  by (simp_all add: sample_edge_env_def)

lemma sample_parties:
  "dict_get (rg_by_client_id (eg_registry sample_edge_env)) ''cl'' = Some \<lparr>pc_id = ''claude'', pc_display_name = ''Claude'', pc_client = ''cl'',
     pc_allowed_scopes = [''aether.read'', ''aether.mutate''], pc_redirect_uris = [''https://c/cb''], pc_mutation_authority = True\<rparr>"
  "authenticate (eg_operator sample_edge_env) (Some ''op'') = Inr ''founder''"
  by code_simp+

lemma sample_names: "nat_str 0 = ''0''" "nat_str (Suc 0) = ''1''" "nat_str 2 = ''2''" "nat_str (Suc (Suc 0)) = ''2''" "nat_str 3 = ''3''" "nat_str 4 = ''4''"
  by code_simp+

lemma sample_requested_eval:
  "ed_tokens sample_requested = \<lparr>tk_pending = [(''0'', sample_pending)], tk_refresh = []\<rparr>"
  "ed_store sample_requested = \<lparr>as_rows = [sample_row], as_records = []\<rparr>" "ed_counter sample_requested = 3"
proof -
  have s: "effective_scopes (words_acc [] ''aether.read aether.mutate aether.diagnostic'') \<lparr>pc_id = ''claude'', pc_display_name = ''Claude'', pc_client = ''cl'',
     pc_allowed_scopes = [''aether.read'', ''aether.mutate''], pc_redirect_uris = [''https://c/cb''], pc_mutation_authority = True\<rparr> =
      [''aether.read'', ''aether.mutate'']" "b64url ''ver'' = ''dmVy''" by code_simp+
  have i: "ap_action_id (oauth_proposal h i w c s u t) = new_id ''act'' h" for h i w c s u t by (simp add: oauth_proposal_def)
  obtain pa where "row_to_pending (\<lambda>_. ''h'') sample_row = Inr pa" "pa_approval_id pa = ''approval.2''"
    by (rule row_to_pending_stored [OF sample_stored]) (simp add: sample_row_def new_row_def new_id_def)
  then have "ed_tokens sample_requested = \<lparr>tk_pending = [(''0'', sample_pending)], tk_refresh = []\<rparr> \<and>
    ed_store sample_requested = \<lparr>as_rows = [sample_row], as_records = []\<rparr> \<and> ed_counter sample_requested = 3"
    unfolding sample_row_def
    by (simp add: sample_requested_def sample_authorize_def authorize_def sample_env sample_parties sample_names allows_redirect_uri_def s bindS_def fresh_def
        on_tokens_def create_pending_auth_def Let_def put_pending_def initial_edge_def submit_oauth_proposal_def on_approvals_def
        create_or_get_def empty_store_def find_row_def effective_ttl_def py_trunc_def set_approval_id_def audit_def comp_simps
        current_founder_def sample_pending_def del: nat_str.simps words_acc.simps)
  then show "ed_tokens sample_requested = \<lparr>tk_pending = [(''0'', sample_pending)], tk_refresh = []\<rparr>"
    "ed_store sample_requested = \<lparr>as_rows = [sample_row], as_records = []\<rparr>" "ed_counter sample_requested = 3" by simp_all
qed

lemma sample_approved_eval:
  "ed_tokens sample_approved = \<lparr>tk_pending = [(''0'', sample_pending\<lparr>pn_approved := Some True, pn_auth_code := Some ''4'',
     pn_approving_principal := Some ''founder''\<rparr>)], tk_refresh = []\<rparr>" "ed_counter sample_approved = 5"
proof -
  let ?row = "sample_row\<lparr>pr_status := APPROVED, pr_decided_at := Some 111, pr_decided_by := Some ''founder'',
    pr_decision_reason := Some ''OAuth authorization approved by Founder via HTML consent'', pr_decision_channel := Some ''http''\<rparr>"
  have row: "pr_approval_id sample_row = ''approval.2''" "pr_status sample_row = PENDING" "pr_expires_at sample_row = 700"
    by (simp_all add: sample_row_def new_row_def new_id_def)
  have st: "stored_row (\<lambda>_. ''h'') ?row" using sample_stored by simp
  obtain pa where pa: "row_to_pending (\<lambda>_. ''h'') ?row = Inr pa" "pa_status pa = APPROVED"
    by (rule row_to_pending_stored [OF st]) simp
  have b: "\<not> blank ''founder''" "\<not> blank ''OAuth authorization approved by Founder via HTML consent''" "\<not> blank ''http''" by code_simp+
  have "ed_tokens sample_approved = \<lparr>tk_pending = [(''0'', sample_pending\<lparr>pn_approved := Some True, pn_auth_code := Some ''4'',
     pn_approving_principal := Some ''founder''\<rparr>)], tk_refresh = []\<rparr> \<and> ed_counter sample_approved = 5"
    using pa
    by (simp add: sample_approved_def sample_approve_def approve_endpoint_def authenticate_founder_def sample_env sample_parties sample_names
        sample_requested_eval ostr_or_def str_or_def bindS_def comp_simps on_tokens_def get_pending_auth_def auth_code_ttl_def
        sample_pending_def mark_decision_def fresh_def on_approvals_def decide_def b find_row_def row due_def py_trunc_def
        update_rows_def store_get_def Let_def approve_auth_def set_approving_principal_def audit_def with_query_def del: nat_str.simps)
  then show "ed_tokens sample_approved = \<lparr>tk_pending = [(''0'', sample_pending\<lparr>pn_approved := Some True, pn_auth_code := Some ''4'',
     pn_approving_principal := Some ''founder''\<rparr>)], tk_refresh = []\<rparr>" "ed_counter sample_approved = 5" by simp_all
qed

lemma sample_draws: "distinct_draws sample_edge_env 20" by code_simp

definition sample_issued :: edge_state where
  "sample_issued = snd (token_endpoint sample_edge_env 120 121 sample_token_request sample_approved)"

lemma sample_issued_eval:
  "\<exists>page. fst (token_endpoint sample_edge_env 120 121 sample_token_request sample_approved) = Inr (Json_Page 200 page)"
  "tk_pending (ed_tokens sample_issued) = []" "ed_counter sample_issued = 8"
  "tk_refresh (ed_tokens sample_issued) = [\<lparr>rf_jti = ''7'', rf_principal_id = ''claude'', rf_client_id = ''cl'', rf_scopes = [''aether.read''],
     rf_token_hash = ''36'', rf_issued_at = 121, rf_expires_at = 3721, rf_revoked = False\<rparr>]"
proof -
  have n: "nat_str 5 = ''5''" "nat_str 6 = ''6''" "nat_str 7 = ''7''" "b64url ''ver'' = ''dmVy''" "hexdigest (eg_oauth sample_edge_env) ''6'' = ''36''"
    by code_simp+
  have o: "og_sha (eg_oauth sample_edge_env) = (\<lambda>v. v)" "og_refresh_ttl (eg_oauth sample_edge_env) = 3600" by (simp_all add: sample_edge_env_def)
  have "\<exists>page st. token_endpoint sample_edge_env 120 121 sample_token_request sample_approved = (Inr (Json_Page 200 page), st) \<and>
      tk_pending (ed_tokens st) = [] \<and> ed_counter st = 8 \<and>
      tk_refresh (ed_tokens st) = [\<lparr>rf_jti = ''7'', rf_principal_id = ''claude'', rf_client_id = ''cl'', rf_scopes = [''aether.read''],
        rf_token_hash = ''36'', rf_issued_at = 121, rf_expires_at = 3721, rf_revoked = False\<rparr>]"
    by (simp add: sample_token_request_def token_endpoint_def handle_code_exchange_def ostr_or_def str_or_def comp_simps
        sample_approved_eval get_pending_auth_by_code_def has_code_def sample_pending_def auth_code_ttl_def pkce_challenge_def n o
        on_tokens_def bindS_def consume_auth_code_def cancel_pending_auth_def dict_pop_def fresh_def sample_env sample_names
        issue_access_token_def Let_def on_refresh_def issue_refresh_token_def mutate_scope_def audit_def token_page_def del: nat_str.simps)
  then show "\<exists>page. fst (token_endpoint sample_edge_env 120 121 sample_token_request sample_approved) = Inr (Json_Page 200 page)"
    "tk_pending (ed_tokens sample_issued) = []" "ed_counter sample_issued = 8"
    "tk_refresh (ed_tokens sample_issued) = [\<lparr>rf_jti = ''7'', rf_principal_id = ''claude'', rf_client_id = ''cl'', rf_scopes = [''aether.read''],
     rf_token_hash = ''36'', rf_issued_at = 121, rf_expires_at = 3721, rf_revoked = False\<rparr>]"
    unfolding sample_issued_def by auto
qed

lemma sample_reach:
  "edge_reach sample_edge_env 20 sample_requested" "edge_reach sample_edge_env 20 sample_approved" "edge_reach sample_edge_env 20 sample_issued"
proof -
  show r: "edge_reach sample_edge_env 20 sample_requested"
    unfolding sample_requested_def by (intro edge_reach.intros) (simp_all add: call_ok_def sample_authorize_def initial_edge_def)
  then show a: "edge_reach sample_edge_env 20 sample_approved"
    unfolding sample_approved_def by (intro edge_reach.call) (simp_all add: call_ok_def sample_approve_def sample_requested_eval)
  then have "edge_reach sample_edge_env 20 (snd (serve sample_edge_env (Call_Token 120 121 sample_token_request) sample_approved))"
    by (intro edge_reach.call) (simp_all add: call_ok_def sample_approved_eval)
  then show "edge_reach sample_edge_env 20 sample_issued" by (simp add: sample_issued_def)
qed

section \<open>Properties\<close>

text \<open>
  C10: Tokens are issued only for what the Founder approved. In every state the edge can reach, with
  other processes working on the same approval database, a successful exchange of an authorization
  code has behind it a pending request that holds this code, was made at most five minutes ago, and
  matches the exchange in client, redirect URI and PKCE challenge. The client is registered, the
  redirect URI is on its allowlist, the granted scopes are scopes of its principal, with
  \<open>aether.mutate\<close> only under mutation authority; and the approval store holds a record of an approval
  of the governed action that names exactly this request, client, scopes and redirect URI. The access
  token carries that principal and those scopes, and the request is gone afterwards. Assumed is that
  the first sixteen characters of what is drawn do not repeat within the run.
\<close>

theorem exchange_needs_approval:
  assumes "edge_reach env N st" "distinct_draws env N"
    and "token_endpoint env now now' r st = (Inr (Json_Page 200 page), st')" "tq_grant_type r = ''authorization_code''"
  shows "\<exists>code v req p hex c. tq_code r = Some code \<and> dict_get (tk_pending (ed_tokens st)) (pn_request_id req) = Some req \<and>
    pn_auth_code req = Some code \<and> now - pn_created_at req \<le> 300 \<and> tq_client_id r = Some (pn_client_id req) \<and>
    tq_redirect_uri r = Some (pn_redirect_uri req) \<and> tq_code_verifier r = Some v \<and> pkce_challenge env v = pn_code_challenge req \<and>
    dict_get (rg_by_client_id (eg_registry env)) (pn_client_id req) = Some p \<and> pn_principal_id req = pc_id p \<and>
    pn_redirect_uri req \<in> set (pc_redirect_uris p) \<and> set (pn_scopes req) \<subseteq> set (pc_allowed_scopes p) \<and>
    (mutate_scope \<in> set (pn_scopes req) \<longrightarrow> pc_mutation_authority p) \<and>
    c \<in> set (as_records (ed_store st)) \<and> pn_approval_id req = Some (rc_approval_id c) \<and> rc_decision c = APPROVED \<and>
    rc_action_hash c = canonical_action_hash (eg_action_sha env) (oauth_proposal hex (pn_request_id req) (pn_principal_id req)
      (pn_client_id req) (pn_scopes req) (pn_redirect_uri req) (pn_state req)) \<and>
    dict_get page ''access_token'' =
      Some (JStr (fst (issue_access_token (eg_oauth env) now' (eg_fresh env (ed_counter st)) (pn_principal_id req) (pn_scopes req)))) \<and>
    dict_get (tk_pending (ed_tokens st')) (pn_request_id req) = None"
proof -
  have inv: "edge_inv env N st" using assms(1,2) by (rule edge_reach_inv)
  have h: "handle_code_exchange env now now' (tq_code r) (tq_redirect_uri r) (tq_client_id r) (tq_code_verifier r) st = (Inr (Json_Page 200 page), st')"
    using assms(3,4) by (simp add: token_endpoint_def)
  obtain req code v access where req: "tq_code r = Some code"
    "dict_get (tk_pending (ed_tokens st)) (pn_request_id req) = Some req" "has_code code req" "now - pn_created_at req \<le> auth_code_ttl"
    "tq_client_id r = Some (pn_client_id req)" "tq_redirect_uri r = Some (pn_redirect_uri req)" "tq_code_verifier r = Some v"
    "pkce_challenge env v = pn_code_challenge req" "dict_get page ''access_token'' = Some (JStr access)"
    "access = fst (issue_access_token (eg_oauth env) now' (eg_fresh env (ed_counter st)) (pn_principal_id req) (pn_scopes req))"
    "tk_pending (ed_tokens st') = dict_pop (pn_request_id req) (tk_pending (ed_tokens st))"
    by (rule exchange_success [OF inv h]) (rule that; (assumption | simp))
  have ok: "pending_ok env (ed_counter st) (ed_store st) (pn_request_id req) req" using edge_invD [OF inv] req(2) by (simp add: token_inv_def)
  then obtain p where p: "dict_get (rg_by_client_id (eg_registry env)) (pn_client_id req) = Some p" "pn_principal_id req = pc_id p"
    "pn_redirect_uri req \<in> set (pc_redirect_uris p)" "set (pn_scopes req) \<subseteq> set (pc_allowed_scopes p)"
    "mutate_scope \<in> set (pn_scopes req) \<longrightarrow> pc_mutation_authority p"
    unfolding pending_ok_def registered_def by blast
  from ok req(3) obtain hex c where c: "c \<in> set (as_records (ed_store st))" "pn_approval_id req = Some (rc_approval_id c)" "rc_decision c = APPROVED"
    "rc_action_hash c = canonical_action_hash (eg_action_sha env) (request_proposal hex req)"
    unfolding pending_ok_def approved_in_def has_code_def by blast
  show ?thesis
    by (rule exI [of _ code], rule exI [of _ v], rule exI [of _ req], rule exI [of _ p], rule exI [of _ hex], rule exI [of _ c])
      (use req p c in \<open>simp add: has_code_def auth_code_ttl_def request_proposal_def\<close>)
qed

theorem exchange_needs_approval_witness:
  "\<exists>c \<in> set (as_records (ed_store sample_approved)). rc_decision c = APPROVED"
proof -
  obtain page where "token_endpoint sample_edge_env 120 121 sample_token_request sample_approved = (Inr (Json_Page 200 page), sample_issued)"
    using sample_issued_eval(1) unfolding sample_issued_def by (metis prod.collapse)
  from exchange_needs_approval [OF sample_reach(2) sample_draws this] show ?thesis by (auto simp: sample_token_request_def)
qed

text \<open>
  C12: An authorization code is good for one exchange: in every run of the edge from its start, however
  requests, decisions, exchanges and the operations of other processes are interleaved, at most one
  call exchanges a given code for tokens.
\<close>

theorem code_exchanged_once:
  assumes "distinct_draws env N" "allowed_run env N cs initial_edge"
  shows "uses_in env (exchanges env code) cs initial_edge \<le> 1"
  using code.used_at_most_once [of env N initial_edge cs code] assms
  by (simp add: uses_in_code allowed_run_code initial_edge_inv)

theorem code_exchanged_once_witness:
  "uses_in sample_edge_env (exchanges sample_edge_env ''4'') [sample_authorize, sample_approve, Call_Token 120 121 sample_token_request,
     Call_Token 122 123 sample_token_request] initial_edge \<le> 1 \<and>
   exchanges sample_edge_env ''4'' (Call_Token 120 121 sample_token_request) sample_approved"
proof
  have "snd (serve sample_edge_env sample_authorize initial_edge) = sample_requested"
    "snd (serve sample_edge_env sample_approve sample_requested) = sample_approved"
    "snd (serve sample_edge_env (Call_Token 120 121 sample_token_request) sample_approved) = sample_issued"
    by (simp_all add: sample_requested_def sample_approved_def sample_issued_def)
  then have "allowed_run sample_edge_env 20 [sample_authorize, sample_approve, Call_Token 120 121 sample_token_request,
     Call_Token 122 123 sample_token_request] initial_edge"
    by (simp add: call_allowed_def sample_requested_eval sample_approved_eval sample_issued_eval del: serve.simps)
      (simp add: call_ok_def sample_authorize_def sample_approve_def initial_edge_def)
  then show "uses_in sample_edge_env (exchanges sample_edge_env ''4'') [sample_authorize, sample_approve, Call_Token 120 121 sample_token_request,
     Call_Token 122 123 sample_token_request] initial_edge \<le> 1"
    using code_exchanged_once [OF sample_draws] by blast
  show "exchanges sample_edge_env ''4'' (Call_Token 120 121 sample_token_request) sample_approved"
    using sample_issued_eval(1) by (auto simp: exchanges_def) (simp_all add: sample_token_request_def)
qed

text \<open>
  A refresh token is redeemed at most once, from any state and over any sequence of calls: the row
  of the token is revoked when it is redeemed, rows are never removed or revived, and the row found for
  a token is always the first one with its hash.
\<close>

theorem refresh_token_redeemed_once: "uses_in env (redeems env t) cs st \<le> 1"
  using refresh.used_at_most_once [of env cs st t] by (simp add: uses_in_refresh refresh_ok_run)




lemma wf_payloads: "wf_json (access_payload env now uuid who scopes)" "wf_json (session_payload env now uuid who)"
  by (auto simp: access_payload_def session_payload_def list_all_iff)

text \<open>
  An access token verifies as what it was issued for: until it expires, \<open>verify_access_token\<close>
  returns the payload with the principal, the scopes, the expiry, the issuer and the audience it was
  signed with, and afterwards nothing. The proxy reads the principal and the scopes of that payload.
\<close>

theorem access_token_round_trip:
  "\<exists>payload. verify_access_token env now' (fst (issue_access_token env now uuid who scopes)) =
      Inr (if of_int (py_trunc now + og_access_ttl env) < now' then None else Some payload) \<and>
    dict_get payload ''principal_id'' = Some (JStr who) \<and> dict_get payload ''exp'' = Some (JInt (py_trunc now + og_access_ttl env)) \<and>
    dict_get payload ''jti'' = Some (JStr uuid) \<and> payload_scopes payload = Inr (map JStr scopes)"
proof -
  obtain payload where p: "access_payload env now uuid who scopes = JObj payload" by (simp add: access_payload_def)
  then have d: "payload = [(''sub'', JStr who), (''principal_id'', JStr who), (''scopes'', JList (map JStr scopes)),
     (''iat'', JInt (py_trunc now)), (''exp'', JInt (py_trunc now + og_access_ttl env)), (''jti'', JStr uuid),
     (''iss'', JStr (og_issuer env)), (''aud'', JStr (og_audience env))]" by (simp add: access_payload_def)
  have "hmac_verify (og_mac env) (hmac_sign (og_mac env) (JObj payload) (og_secret env)) (og_secret env) = Some (JObj payload)"
    using hmac_round_trip wf_payloads(1) p by metis
  then show ?thesis
    by (intro exI [of _ payload]) (simp add: verify_access_token_def issue_access_token_def p json_less_def d payload_scopes_def split: bool.split)
qed

text \<open>
  The two kinds of signed values are not interchangeable although they share one secret: the browser
  session of the Founder is never accepted as an access token, and an access token is never accepted
  as a session, so it approves nothing.
\<close>

theorem session_is_no_access_token:
  "(case sign_founder_session env now uuid who of Inl e \<Rightarrow> length (og_secret env) < 32
     | Inr cookie \<Rightarrow> verify_access_token env now' cookie = Inr None) \<and>
   verify_founder_session env now' (fst (issue_access_token env now uuid who scopes)) \<noteq> Inr (Some x)"
proof -
  have "hmac_verify (og_mac env) (hmac_sign (og_mac env) (session_payload env now uuid who) (og_secret env)) (og_secret env) =
      Some (session_payload env now uuid who)"
    "hmac_verify (og_mac env) (hmac_sign (og_mac env) (access_payload env now uuid who scopes) (og_secret env)) (og_secret env) =
      Some (access_payload env now uuid who scopes)"
    by (simp_all add: hmac_round_trip wf_payloads)
  then show ?thesis
    by (auto simp: sign_founder_session_def check_secret_def verify_access_token_def session_payload_def json_less_def
        verify_founder_session_def issue_access_token_def access_payload_def split: bool.splits)
qed

section \<open>The proxy\<close>





lemma forward_to_upstream_ok:
  "forward_headers env ac (mq_headers r) = Inr h \<Longrightarrow>
    \<exists>f. forward_to_upstream env ac r st = (Inr (Forward f), st) \<and> mf_body f = mq_body r \<and> mf_headers f = h"
  by (simp add: forward_to_upstream_def comp_simps bindS_def raise_or_def)


lemma deny_tool_fails:
  assumes "w \<noteq> Denial_Answered" "forward_headers env ac (mq_headers r) = Inr h"
  shows "\<exists>f st'. deny_tool env now w ac r tool error st = (Inr (Forward f), st') \<and> mf_body f = mq_body r \<and> mf_headers f = h"
proof -
  obtain st1 where "deny_tool env now w ac r tool error st = forward_to_upstream env ac r st1"
    using assms(1) by (cases w) (simp_all add: deny_tool_def log_scope_denied_def audit_def comp_simps bindS_def)
  then show ?thesis using forward_to_upstream_ok [of env ac r h st1] assms(2) by auto
qed




definition sample_mcp :: "string \<Rightarrow> mcp_request" where
  "sample_mcp body = \<lparr>mq_method = ''POST'', mq_path = [], mq_query = [],
     mq_headers = [(''authorization'', ''Bearer dev''), (''x-aether-principal-id'', ''founder'')], mq_body = body\<rparr>"

definition sample_call :: "string \<Rightarrow> json" where
  "sample_call tool = JObj [(''method'', JStr ''tools/call''), (''params'', JObj [(''name'', JStr tool)])]"

definition sample_developer :: auth_context where
  "sample_developer = \<lparr>ac_principal = JNull, ac_scopes = map JStr [''aether.read'', ''aether.diagnostic''], ac_source = ''developer-direct''\<rparr>"

lemma sample_bearer:
  "bearer_token (authorization_header (sample_mcp body)) = Some ''dev''" "bearer_context sample_edge_env now ''dev'' = Inr (Some sample_developer)"
  "forward_headers sample_edge_env sample_developer (mq_headers (sample_mcp body)) = Inr [(''x-aether-principal-id'', ''founder''),
     (''Authorization'', ''Bearer up''), (''X-Aether-Principal-Scopes'', ''aether.read aether.diagnostic''),
     (''X-Aether-Auth-Source'', ''developer-direct'')]"
proof -
  have h: "authorization_header (sample_mcp body) = ''Bearer dev''" by (simp add: authorization_header_def sample_mcp_def)
  have t: "bearer_token ''Bearer dev'' = Some ''dev''" "legacy_context sample_edge_env ''dev'' = Inr (Some sample_developer)"
    "split_on (CHR ''.'') ''dev'' = [''dev'']" by code_simp+
  show "bearer_token (authorization_header (sample_mcp body)) = Some ''dev''" by (simp only: h t)
  show "bearer_context sample_edge_env now ''dev'' = Inr (Some sample_developer)"
    by (simp add: bearer_context_def verify_access_token_def hmac_verify_def t del: split_acc.simps)
  have "mq_headers (sample_mcp body) = [(''authorization'', ''Bearer dev''), (''x-aether-principal-id'', ''founder'')]" by (simp add: sample_mcp_def)
  moreover have "forward_headers sample_edge_env sample_developer [(''authorization'', ''Bearer dev''), (''x-aether-principal-id'', ''founder'')] =
    Inr [(''x-aether-principal-id'', ''founder''), (''Authorization'', ''Bearer up''),
      (''X-Aether-Principal-Scopes'', ''aether.read aether.diagnostic''), (''X-Aether-Auth-Source'', ''developer-direct'')]" by code_simp
  ultimately show "forward_headers sample_edge_env sample_developer (mq_headers (sample_mcp body)) = Inr [(''x-aether-principal-id'', ''founder''),
     (''Authorization'', ''Bearer up''), (''X-Aether-Principal-Scopes'', ''aether.read aether.diagnostic''),
     (''X-Aether-Auth-Source'', ''developer-direct'')]" by simp
qed

lemma passed_is_forwarded:
  assumes "bearer_token (authorization_header r) = Some token" "bearer_context env now token = Inr (Some ac)"
    "scope_check (ac_scopes ac) (mq_method r) (mq_body r) = Pass" "forward_headers env ac (mq_headers r) = Inr h"
  shows "\<exists>f. mcp_proxy env now w r st = (Inr (Forward f), st) \<and> mf_body f = mq_body r \<and> mf_headers f = h"
  using assms forward_to_upstream_ok [OF assms(4), of st] by (simp add: mcp_proxy_def comp_simps bindS_def raise_or_def)


text \<open>
  Where the proxy fails open. A \<open>tools/call\<close> that names a tool the caller has no scope for, or an
  unknown tool, is forwarded unchanged when the denial cannot be logged or answered; the caller can
  bring this about with a name that has no UTF-8 encoding. And no body of another method than
  \<open>POST\<close> is looked at.
\<close>

theorem failed_denial_forwards:
  assumes "bearer_token (authorization_header r) = Some token" "bearer_context env now token = Inr (Some ac)"
    and "forward_headers env ac (mq_headers r) = Inr h"
    and "w \<noteq> Denial_Answered \<and> loads (mq_body r) = Some (JObj d) \<and> dict_get d ''method'' = Some (JStr ''tools/call'') \<and>
        dict_get d ''params'' = Some (JObj params) \<and> dict_get params ''name'' = Some (JStr tool) \<and> tool \<noteq> [] \<or>
      mq_method r \<noteq> ''POST''"
  shows "\<exists>f st'. mcp_proxy env now w r st = (Inr (Forward f), st') \<and> mf_body f = mq_body r \<and> mf_headers f = h"
proof -
  have eq: "mcp_proxy env now w r st = (case scope_check (ac_scopes ac) (mq_method r) (mq_body r) of
       Nameless \<Rightarrow> ret (json_error 400 ''invalid_request'' ''tools/call requires params.name'')
     | Unclassified tool \<Rightarrow> deny_tool env now w ac r tool ''unclassified_tool''
     | Insufficient tool \<Rightarrow> deny_tool env now w ac r tool ''insufficient_scope''
     | Pass \<Rightarrow> forward_to_upstream env ac r) st"
    by (simp add: mcp_proxy_def assms(1,2) comp_simps bindS_def raise_or_def)
  from assms(4) show ?thesis
  proof
    assume a: "w \<noteq> Denial_Answered \<and> loads (mq_body r) = Some (JObj d) \<and> dict_get d ''method'' = Some (JStr ''tools/call'') \<and>
        dict_get d ''params'' = Some (JObj params) \<and> dict_get params ''name'' = Some (JStr tool) \<and> tool \<noteq> []"
    then have "scope_check (ac_scopes ac) (mq_method r) (mq_body r) \<noteq> Nameless"
      by (auto simp: scope_check_def check_tool_def split: option.splits)
    then show ?thesis
      using a deny_tool_fails [OF _ assms(3)] forward_to_upstream_ok [OF assms(3), of st] unfolding eq
      by (cases "scope_check (ac_scopes ac) (mq_method r) (mq_body r)") auto
  next
    assume "mq_method r \<noteq> ''POST''"
    then have "scope_check (ac_scopes ac) (mq_method r) (mq_body r) = Pass" by (simp add: scope_check_def)
    then show ?thesis using forward_to_upstream_ok [OF assms(3), of st] unfolding eq by auto
  qed
qed

text \<open>
  C40: The scope check looks only at a body that is one JSON object. A body that is a JSON array, as a
  batch of calls is, passes it whatever the array holds and whatever scopes the caller has: every
  authenticated caller gets it forwarded unchanged.
\<close>

theorem batch_escapes_scope_check:
  assumes "loads (mq_body r) = Some (JList calls)"
    and "bearer_token (authorization_header r) = Some token" "bearer_context env now token = Inr (Some ac)"
    and "forward_headers env ac (mq_headers r) = Inr h"
  shows "\<exists>f. mcp_proxy env now w r st = (Inr (Forward f), st) \<and> mf_body f = mq_body r"
proof -
  have "scope_check (ac_scopes ac) (mq_method r) (mq_body r) = Pass" using assms(1) by (simp add: scope_check_def)
  from passed_is_forwarded [OF assms(2,3) this assms(4)] show ?thesis by blast
qed

theorem batch_escapes_scope_check_witness:
  "\<exists>f. mcp_proxy sample_edge_env 5 Denial_Answered (sample_mcp (dump compact_ascii (JList [sample_call ''workspace_edit'']))) initial_edge =
      (Inr (Forward f), initial_edge) \<and> JStr mutate_scope \<notin> set (ac_scopes sample_developer)"
proof -
  let ?body = "dump compact_ascii (JList [sample_call ''workspace_edit''])"
  have "loads ?body = Some (JList [sample_call ''workspace_edit''])" by (rule loads_dump) (simp_all add: sample_call_def)
  then have "loads (mq_body (sample_mcp ?body)) = Some (JList [sample_call ''workspace_edit''])" by (simp add: sample_mcp_def)
  from batch_escapes_scope_check [OF this sample_bearer]
  obtain f where "mcp_proxy sample_edge_env 5 Denial_Answered (sample_mcp ?body) initial_edge = (Inr (Forward f), initial_edge)" by blast
  moreover have "JStr mutate_scope \<notin> set (ac_scopes sample_developer)" by code_simp
  ultimately show ?thesis by blast
qed

text \<open>
  What two further checks leave open. The headers of the caller are passed on with all names but three,
  so a caller with a direct credential can name itself; and a refresh that gives no client identifier
  accepts a token bound to a client and returns one bound to none.
\<close>

lemma caller_names_itself:
  "\<exists>f. mcp_proxy sample_edge_env 5 w (sample_mcp []) st = (Inr (Forward f), st) \<and>
    dict_get (mf_headers f) ''x-aether-principal-id'' = Some ''founder''"
proof -
  have "scope_check (ac_scopes sample_developer) (mq_method (sample_mcp [])) (mq_body (sample_mcp [])) = Pass"
    by (simp add: scope_check_def sample_mcp_def)
  then obtain f where "mcp_proxy sample_edge_env 5 w (sample_mcp []) st = (Inr (Forward f), st)"
    "mf_headers f = [(''x-aether-principal-id'', ''founder''), (''Authorization'', ''Bearer up''),
      (''X-Aether-Principal-Scopes'', ''aether.read aether.diagnostic''), (''X-Aether-Auth-Source'', ''developer-direct'')]"
    using passed_is_forwarded [OF sample_bearer(1,2) _ sample_bearer(3)] by metis
  then show ?thesis by simp
qed

lemma refresh_drops_client:
  assumes "handle_refresh env now now' token [] st = (Inr (Json_Page 200 page), st')"
  shows "\<exists>row new. row \<in> set (tk_refresh (ed_tokens st)) \<and> new \<in> set (tk_refresh (ed_tokens st')) \<and> rf_client_id new = [] \<and>
    rf_scopes new = filter (\<lambda>s. s \<noteq> mutate_scope) (rf_scopes row)"
  by (rule refresh_success [OF assms]) auto

end
