(* ===== verification/Skill_Contracts.thy ===== *)
theory Skill_Contracts
  imports Py_Float Contracts_Actions
begin

text \<open>
  \<open>contracts/skills.py\<close> and \<open>skills/governance.py\<close>: what a skill is, the evidence a candidate comes
  with, benchmarks, decisions, registry records, telemetry and lifecycle, and the rules each of
  them must pass. Scores, rates and durations are rational numbers; \<open>fmt3\<close> stands for the format
  \<open>:.3f\<close> in messages. Dictionaries of a manifest hold JSON values. Texts are Latin-1, of which a
  character from 128 on takes two bytes in UTF-8.
\<close>

section \<open>Contracts\<close>

datatype skill_trigger = REPEATED_SUCCESS | CAPABILITY_GAP | REVISION

primrec trigger_value :: "skill_trigger \<Rightarrow> string" where
  "trigger_value REPEATED_SUCCESS = ''repeated-success''"
| "trigger_value CAPABILITY_GAP = ''capability-gap''"
| "trigger_value REVISION = ''revision''"

datatype candidate_status = SKILL_DRAFT | SKILL_VERIFIED | SKILL_REJECTED | SKILL_CANDIDATE_ACTIVE

datatype lifecycle_status = SKILL_ACTIVE | SKILL_STALE | SKILL_ARCHIVED | SKILL_SUPERSEDED

primrec lifecycle_value :: "lifecycle_status \<Rightarrow> string" where
  "lifecycle_value SKILL_ACTIVE = ''active''"
| "lifecycle_value SKILL_STALE = ''stale''"
| "lifecycle_value SKILL_ARCHIVED = ''archived''"
| "lifecycle_value SKILL_SUPERSEDED = ''superseded''"

datatype skill_decision_type = ACTIVATE | SKILL_REJECT

primrec decision_type_value :: "skill_decision_type \<Rightarrow> string" where
  "decision_type_value ACTIVATE = ''activate''"
| "decision_type_value SKILL_REJECT = ''reject''"

datatype lifecycle_action = MARK_STALE | ARCHIVE | REACTIVATE | SUPERSEDE

record usage_contract =
  uc_capabilities :: "string list"
  uc_input_schema :: "(string, json) dict"
  uc_output_schema :: "(string, json) dict"
  uc_side_effects :: "string list"
  uc_runtime_requirements :: "string list"

record skill_manifest =
  sm_name :: string
  sm_version :: string
  sm_summary :: string
  sm_instructions :: string
  sm_usage :: usage_contract
  sm_tags :: "string list"
  sm_metadata :: "(string, json) dict"

record skill_provenance =
  sv_trigger_type :: skill_trigger
  sv_trigger_fingerprint :: string
  sv_evidence_ids :: "string list"
  sv_observed_count :: int
  sv_successful_count :: int
  sv_source_workflow :: "string option"
  sv_generator_id :: string
  sv_prior_skill_id :: "string option"
  sv_metadata :: "(string, json) dict"

definition success_rate :: "skill_provenance \<Rightarrow> rat" where
  "success_rate p = (if sv_observed_count p \<le> 0 then 0 else of_int (sv_successful_count p) / of_int (sv_observed_count p))"

datatype check_kind = DETERMINISTIC | HELDOUT

record check_command =
  ck_argv :: "string list"
  ck_kind :: check_kind
  ck_name :: string
  ck_timeout_seconds :: int

record check_result =
  cx_name :: string
  cx_kind :: check_kind
  cx_phase :: string
  cx_passed :: bool
  cx_exit_code :: int
  cx_duration_seconds :: rat
  cx_stdout :: string
  cx_stderr :: string

record skill_candidate =
  sc_manifest :: skill_manifest
  sc_provenance :: skill_provenance
  sc_deterministic_checks :: "check_command list"
  sc_heldout_checks :: "check_command list"
  sc_rationale :: string
  sc_retry_reason :: "string option"
  sc_candidate_id :: string
  sc_created_at :: instant
  sc_status :: candidate_status
  sc_benchmark_id :: "string option"
  sc_decision_id :: "string option"
  sc_skill_id :: "string option"

record skill_benchmark =
  sb_candidate_id :: string
  sb_sandbox_id :: string
  sb_baseline_score :: rat
  sb_candidate_score :: rat
  sb_improvement :: rat
  sb_regression_count :: int
  sb_checks :: "check_result list"
  sb_passed :: bool
  sb_blockers :: "string list"
  sb_metadata :: "(string, json) dict"
  sb_benchmark_id :: string
  sb_created_at :: "instant option"

record skill_decision =
  sd_candidate_id :: string
  sd_decision :: skill_decision_type
  sd_principal :: string
  sd_channel :: string
  sd_reason :: string
  sd_decision_id :: string
  sd_decided_at :: instant
  sd_skill_id :: "string option"

record install_receipt =
  ir_adapter_id :: string
  ir_install_path :: string
  ir_activation_pointer :: string
  ir_previous_pointer_content :: "string option"
  ir_metadata :: "(string, json) dict"

record skill_record =
  sr_candidate_id :: string
  sr_manifest :: skill_manifest
  sr_provenance :: skill_provenance
  sr_artifact_hash :: string
  sr_principal :: string
  sr_reason :: string
  sr_install_receipt :: install_receipt
  sr_skill_id :: string
  sr_activated_at :: instant
  sr_lifecycle_status :: lifecycle_status

record skill_usage =
  su_skill_id :: string
  su_runtime_id :: string
  su_success :: bool
  su_duration_seconds :: rat
  su_session_id :: "string option"
  su_event_id :: "string option"
  su_error_fingerprint :: "string option"
  su_metadata :: "(string, json) dict"
  su_usage_id :: string
  su_used_at :: "instant option"

record skill_lifecycle =
  sl_skill_id :: string
  sl_action :: lifecycle_action
  sl_principal :: string
  sl_channel :: string
  sl_reason :: string
  sl_lifecycle_id :: string
  sl_created_at :: instant

record lifecycle_review =
  lr_skill_id :: string
  lr_current_status :: lifecycle_status
  lr_recommended_status :: lifecycle_status
  lr_usage_count :: int
  lr_success_rate :: rat
  lr_last_used_at :: "instant option"
  lr_reasons :: "string list"

section \<open>Hashes\<close>

definition str_list :: "string list \<Rightarrow> json" where
  "str_list xs = JList (map JStr xs)"

definition canonical_manifest_payload :: "skill_manifest \<Rightarrow> json" where
  "canonical_manifest_payload m = JObj [
     (''name'', JStr (sm_name m)), (''version'', JStr (sm_version m)), (''summary'', JStr (sm_summary m)),
     (''instructions'', JStr (sm_instructions m)),
     (''usage'', JObj [
        (''capabilities'', str_list (uc_capabilities (sm_usage m))), (''input_schema'', JObj (uc_input_schema (sm_usage m))),
        (''output_schema'', JObj (uc_output_schema (sm_usage m))), (''side_effects'', str_list (uc_side_effects (sm_usage m))),
        (''runtime_requirements'', str_list (uc_runtime_requirements (sm_usage m)))]),
     (''tags'', str_list (sm_tags m)), (''metadata'', JObj (sm_metadata m))]"

definition skill_manifest_hash :: "digest \<Rightarrow> skill_manifest \<Rightarrow> string" where
  "skill_manifest_hash sha m = sha (dumps compact_utf8 (canonical_manifest_payload m))"

definition semantic_payload :: "digest \<Rightarrow> skill_candidate \<Rightarrow> json" where
  "semantic_payload sha c = JObj [
     (''artifact_hash'', JStr (skill_manifest_hash sha (sc_manifest c))),
     (''trigger_type'', JStr (trigger_value (sv_trigger_type (sc_provenance c)))),
     (''trigger_fingerprint'', JStr (sv_trigger_fingerprint (sc_provenance c))),
     (''prior_skill_id'', json_opt (sv_prior_skill_id (sc_provenance c))),
     (''deterministic'', JList (map (\<lambda>k. str_list (ck_argv k)) (sc_deterministic_checks c))),
     (''heldout'', JList (map (\<lambda>k. str_list (ck_argv k)) (sc_heldout_checks c)))]"

definition skill_candidate_semantic_hash :: "digest \<Rightarrow> skill_candidate \<Rightarrow> string" where
  "skill_candidate_semantic_hash sha c = sha (dumps compact_utf8 (semantic_payload sha c))"

section \<open>Governance\<close>

record skill_policy =
  sk_maximum_artifact_bytes :: int
  sk_maximum_commands_per_phase :: int
  sk_maximum_command_timeout_seconds :: int
  sk_allowed_trigger_types :: "string list"
  sk_repeated_minimum_observations :: int
  sk_repeated_minimum_success_rate :: rat
  sk_repeated_minimum_evidence_records :: int
  sk_capability_gap_minimum_evidence_records :: int
  sk_revision_minimum_evidence_records :: int
  sk_minimum_candidate_score :: rat
  sk_minimum_improvement :: rat
  sk_maximum_regressions :: int
  sk_heldout_required :: bool
  sk_stale_after_days_without_usage :: int
  sk_minimum_usage_for_failure_review :: int
  sk_maximum_failure_rate :: rat
  sk_reactivation_requires_benchmark :: bool
  sk_trusted_principals :: "string list"
  sk_protected_capabilities :: "string list"

text \<open>What \<open>skill_factory.yaml\<close> sets; \<open>archive_requires_trusted_principal\<close> is read nowhere.\<close>

definition shipped_skill_policy :: skill_policy where
  "shipped_skill_policy = \<lparr>sk_maximum_artifact_bytes = 65536, sk_maximum_commands_per_phase = 4,
     sk_maximum_command_timeout_seconds = 180, sk_allowed_trigger_types = [''repeated-success'', ''capability-gap'', ''revision''],
     sk_repeated_minimum_observations = 3, sk_repeated_minimum_success_rate = 8 / 10, sk_repeated_minimum_evidence_records = 3,
     sk_capability_gap_minimum_evidence_records = 1, sk_revision_minimum_evidence_records = 1,
     sk_minimum_candidate_score = 7 / 10, sk_minimum_improvement = 1 / 100, sk_maximum_regressions = 0, sk_heldout_required = True,
     sk_stale_after_days_without_usage = 30, sk_minimum_usage_for_failure_review = 5, sk_maximum_failure_rate = 5 / 10,
     sk_reactivation_requires_benchmark = True, sk_trusted_principals = [''founder'', ''operator''],
     sk_protected_capabilities = [''identity.modify'', ''dna.modify'', ''northstar.modify'', ''belief.promote'']\<rparr>"

definition utf8_length :: "string \<Rightarrow> int" where
  "utf8_length s = int (length s + length (filter (\<lambda>c. 128 \<le> (of_char c :: nat)) s))"

definition trigger_blockers :: "skill_policy \<Rightarrow> (skill_manifest \<Rightarrow> string) \<Rightarrow> skill_candidate \<Rightarrow> skill_record option \<Rightarrow> string list" where
  "trigger_blockers pol hash c baseline =
     (let p = sc_provenance c; evidence_count = int (card (set (sv_evidence_ids p))) in
      case sv_trigger_type p of
        REPEATED_SUCCESS \<Rightarrow>
          (if sv_observed_count p < sk_repeated_minimum_observations pol then [''repeated workflow has insufficient observations''] else []) @
          (if success_rate p < sk_repeated_minimum_success_rate pol then [''repeated workflow success rate is below policy''] else []) @
          (if evidence_count < sk_repeated_minimum_evidence_records pol then [''repeated workflow has insufficient evidence records''] else [])
      | CAPABILITY_GAP \<Rightarrow>
          (if evidence_count < sk_capability_gap_minimum_evidence_records pol then [''capability gap requires evidence''] else [])
      | REVISION \<Rightarrow>
          (if evidence_count < sk_revision_minimum_evidence_records pol then [''skill revision requires evidence''] else []) @
          (if ostr_or (sv_prior_skill_id p) [] = [] then [''skill revision requires prior_skill_id''] else []) @
          (case baseline of None \<Rightarrow> [''skill revision baseline was not found'']
           | Some b \<Rightarrow> if sr_artifact_hash b = hash (sc_manifest c)
                       then [''skill revision does not change the active artifact''] else []))"

definition candidate_blockers :: "digest \<Rightarrow> skill_policy \<Rightarrow> skill_candidate \<Rightarrow> skill_record option \<Rightarrow> string list" where
  "candidate_blockers sha pol c baseline =
     (let m = sc_manifest c; p = sc_provenance c;
          artifact_size = utf8_length (dumps spaced_utf8 (canonical_manifest_payload m));
          protected = filter (\<lambda>x. x \<in> set (sk_protected_capabilities pol)) (uc_capabilities (sm_usage m)) in
      (if trigger_value (sv_trigger_type p) \<notin> set (sk_allowed_trigger_types pol)
       then [''unsupported skill trigger: '' @ trigger_value (sv_trigger_type p)] else []) @
      (if blank (sm_name m) \<or> CHR ''/'' \<in> set (sm_name m) \<or> CHR 0x5C \<in> set (sm_name m)
       then [''skill name must be non-empty and path-neutral''] else []) @
      (if blank (sm_version m) then [''skill version is required''] else []) @
      (if blank (sm_summary m) \<or> blank (sm_instructions m) then [''skill summary and instructions are required''] else []) @
      (if sk_maximum_artifact_bytes pol < artifact_size
       then [''skill artifact exceeds maximum size: '' @ int_str artifact_size] else []) @
      (if uc_capabilities (sm_usage m) = [] then [''at least one capability is required''] else []) @
      (if protected \<noteq> []
       then [''skill requests constitutionally protected capabilities: '' @ join '', '' (sort (remdups protected))] else []) @
      (if sc_deterministic_checks c = [] then [''deterministic benchmark commands are required''] else []) @
      (if sc_heldout_checks c = [] then [''held-out benchmark commands are required''] else []) @
      (if sk_maximum_commands_per_phase pol < int (length (sc_deterministic_checks c))
       then [''too many deterministic benchmark commands''] else []) @
      (if sk_maximum_commands_per_phase pol < int (length (sc_heldout_checks c))
       then [''too many held-out benchmark commands''] else []) @
      concat (map (\<lambda>k. if sk_maximum_command_timeout_seconds pol < ck_timeout_seconds k
         then [''benchmark timeout exceeds policy: '' @ ck_name k] else []) (sc_deterministic_checks c @ sc_heldout_checks c)) @
      trigger_blockers pol (skill_manifest_hash sha) c baseline @
      (case baseline of None \<Rightarrow> []
       | Some b \<Rightarrow> if sm_name (sr_manifest b) \<noteq> sm_name m then [''revision must preserve the skill name''] else []))"

definition validate_candidate :: "digest \<Rightarrow> skill_policy \<Rightarrow> skill_candidate \<Rightarrow> skill_record option \<Rightarrow> string list" where
  "validate_candidate sha pol c baseline = from_keys (candidate_blockers sha pol c baseline)"

definition benchmark_blockers :: "(rat \<Rightarrow> string) \<Rightarrow> skill_policy \<Rightarrow> skill_benchmark \<Rightarrow> string list" where
  "benchmark_blockers fmt3 pol b =
     sb_blockers b @
     (if \<not> sb_passed b then [''benchmark did not pass''] else []) @
     (if sb_candidate_score b < sk_minimum_candidate_score pol
      then [''candidate score '' @ fmt3 (sb_candidate_score b) @ '' is below minimum '' @ fmt3 (sk_minimum_candidate_score pol)] else []) @
     (if sb_improvement b < sk_minimum_improvement pol
      then [''improvement '' @ fmt3 (sb_improvement b) @ '' is below minimum '' @ fmt3 (sk_minimum_improvement pol)] else []) @
     (if sk_maximum_regressions pol < sb_regression_count b
      then [''regressions exceed policy: '' @ int_str (sb_regression_count b)] else []) @
     (if sk_heldout_required pol \<and> \<not> list_ex (\<lambda>x. cx_kind x = HELDOUT \<and> cx_phase x = ''candidate'') (sb_checks b)
      then [''held-out candidate benchmark is missing''] else [])"

definition validate_benchmark :: "(rat \<Rightarrow> string) \<Rightarrow> skill_policy \<Rightarrow> skill_benchmark \<Rightarrow> string list" where
  "validate_benchmark fmt3 pol b = from_keys (benchmark_blockers fmt3 pol b)"

definition validate_activation :: "skill_policy \<Rightarrow> string \<Rightarrow> string \<Rightarrow> string list" where
  "validate_activation pol who reason =
     (if who \<notin> set (sk_trusted_principals pol) then [''principal is not trusted for skill activation: '' @ who] else []) @
     (if length (strip reason) < 12 then [''activation reason must be explicit''] else [])"

definition validate_lifecycle :: "skill_policy \<Rightarrow> lifecycle_action \<Rightarrow> string \<Rightarrow> string \<Rightarrow> skill_record \<Rightarrow> bool \<Rightarrow> string list" where
  "validate_lifecycle pol action who reason r benchmark_passed = from_keys (
     (if length (strip reason) < 12 then [''lifecycle reason must be explicit''] else []) @
     (if action \<in> {ARCHIVE, REACTIVATE} \<and> who \<notin> set (sk_trusted_principals pol)
      then [''principal is not trusted for skill lifecycle action: '' @ who] else []) @
     (if action = REACTIVATE then
        (if sr_lifecycle_status r \<noteq> SKILL_ARCHIVED then [''only archived skills may be reactivated''] else []) @
        (if sk_reactivation_requires_benchmark pol \<and> \<not> benchmark_passed
         then [''reactivation requires a fresh passing benchmark''] else [])
      else []) @
     (if action = ARCHIVE \<and> sr_lifecycle_status r = SKILL_SUPERSEDED
      then [''superseded skill already has a terminal inactive lifecycle''] else []))"

end
