(* ===== verification/Skill_Store.thy ===== *)
theory Skill_Store
  imports Skill_Contracts
begin

text \<open>
  \<open>SQLiteSkillStore\<close> of \<open>skills/store.py\<close>: append-only tables of candidates, benchmarks, decisions,
  registry records, usage, lifecycle events and learnings, in the order of insertion. Triggers
  refuse updates and deletions. A JSON column holds the value it encodes; the hash column of a
  manifest is compared with the manifest on every read. Keys, unique columns and foreign keys are
  checked on insertion. Rows of the same second come in the order of insertion.
\<close>

record candidate_row =
  cd_candidate :: skill_candidate
  cd_artifact_hash :: string
  cd_semantic_hash :: string

record skill_learning =
  lg_skill_id :: "string option"
  lg_candidate_id :: "string option"
  lg_fingerprint :: string
  lg_outcome :: string
  lg_summary :: string
  lg_metadata :: "(string, json) dict"
  lg_created_at :: instant

record skill_store =
  ss_candidates :: "candidate_row list"
  ss_benchmarks :: "skill_benchmark list"
  ss_decisions :: "skill_decision list"
  ss_registry :: "skill_record list"
  ss_usage :: "skill_usage list"
  ss_lifecycle :: "skill_lifecycle list"
  ss_learnings :: "skill_learning list"

definition empty_skills :: skill_store where
  "empty_skills = \<lparr>ss_candidates = [], ss_benchmarks = [], ss_decisions = [], ss_registry = [], ss_usage = [],
     ss_lifecycle = [], ss_learnings = []\<rparr>"

datatype skill_error = Skill_Not_Found string | Skill_Decision_Conflict string | Skill_Integrity_Error string
  | Skill_Blocked "string list" | Skill_Sql_Error

type_synonym 'a skill_op = "skill_store \<Rightarrow> (skill_error + 'a) \<times> skill_store"

section \<open>Decisions and benchmarks\<close>

definition get_benchmark :: "string \<Rightarrow> skill_store \<Rightarrow> skill_benchmark option" where
  "get_benchmark i s = find (\<lambda>b. sb_candidate_id b = i) (ss_benchmarks s)"

definition candidate_ids :: "skill_store \<Rightarrow> string set" where
  "candidate_ids s = (\<lambda>r. sc_candidate_id (cd_candidate r)) ` set (ss_candidates s)"

definition add_benchmark :: "instant \<Rightarrow> skill_benchmark \<Rightarrow> skill_benchmark skill_op" where
  "add_benchmark now b s =
     (let n = b\<lparr>sb_created_at := Some (case sb_created_at b of None \<Rightarrow> now | Some t \<Rightarrow> t)\<rparr> in
      if sb_benchmark_id n \<in> sb_benchmark_id ` set (ss_benchmarks s) \<or> get_benchmark (sb_candidate_id n) s \<noteq> None
         \<or> sb_candidate_id n \<notin> candidate_ids s
      then (Inl Skill_Sql_Error, s) else (Inr n, s\<lparr>ss_benchmarks := ss_benchmarks s @ [n]\<rparr>))"

definition get_skill_decision :: "string \<Rightarrow> skill_store \<Rightarrow> skill_decision option" where
  "get_skill_decision i s = find (\<lambda>d. sd_candidate_id d = i) (ss_decisions s)"

definition add_skill_decision :: "skill_decision \<Rightarrow> skill_decision skill_op" where
  "add_skill_decision d s =
     (if sd_decision_id d \<in> sd_decision_id ` set (ss_decisions s) \<or> get_skill_decision (sd_candidate_id d) s \<noteq> None
         \<or> sd_candidate_id d \<notin> candidate_ids s
      then ((case get_skill_decision (sd_candidate_id d) s of
          Some existing \<Rightarrow> if sd_decision existing = sd_decision d then Inr existing
            else Inl (Skill_Decision_Conflict (''candidate '' @ sd_candidate_id d @ '' already has a terminal decision''))
        | None \<Rightarrow> Inl (Skill_Decision_Conflict (''candidate '' @ sd_candidate_id d @ '' already has a terminal decision''))), s)
      else (Inr d, s\<lparr>ss_decisions := ss_decisions s @ [d]\<rparr>))"

section \<open>Candidates\<close>

definition decorate_candidate :: "skill_store \<Rightarrow> skill_candidate \<Rightarrow> skill_candidate" where
  "decorate_candidate s c =
     (let benchmark = get_benchmark (sc_candidate_id c) s; decision = get_skill_decision (sc_candidate_id c) s in
      c\<lparr>sc_status := (case decision of
            Some d \<Rightarrow> (case sd_decision d of SKILL_REJECT \<Rightarrow> SKILL_REJECTED | ACTIVATE \<Rightarrow> SKILL_CANDIDATE_ACTIVE)
          | None \<Rightarrow> (case benchmark of Some b \<Rightarrow> if sb_passed b then SKILL_VERIFIED else SKILL_DRAFT | None \<Rightarrow> SKILL_DRAFT)),
        sc_benchmark_id := map_option sb_benchmark_id benchmark,
        sc_decision_id := map_option sd_decision_id decision,
        sc_skill_id := (case decision of Some d \<Rightarrow> (case sd_decision d of ACTIVATE \<Rightarrow> sd_skill_id d | SKILL_REJECT \<Rightarrow> None) | None \<Rightarrow> None)\<rparr>)"

definition row_skill_candidate :: "digest \<Rightarrow> candidate_row \<Rightarrow> skill_error + skill_candidate" where
  "row_skill_candidate sha r =
     (if skill_manifest_hash sha (sc_manifest (cd_candidate r)) \<noteq> cd_artifact_hash r
      then Inl (Skill_Integrity_Error (''candidate artifact hash mismatch: '' @ sc_candidate_id (cd_candidate r)))
      else Inr (cd_candidate r))"

definition read_candidate :: "digest \<Rightarrow> skill_store \<Rightarrow> candidate_row \<Rightarrow> skill_error + skill_candidate" where
  "read_candidate sha s r = bindE (row_skill_candidate sha r) (\<lambda>c. Inr (decorate_candidate s c))"

definition add_candidate :: "digest \<Rightarrow> skill_candidate \<Rightarrow> string \<Rightarrow> skill_candidate skill_op" where
  "add_candidate sha c semantic_hash s =
     (if sc_candidate_id c \<in> candidate_ids s \<or> semantic_hash \<in> cd_semantic_hash ` set (ss_candidates s)
      then (Inl Skill_Sql_Error, s)
      else (Inr c, s\<lparr>ss_candidates := ss_candidates s @
        [\<lparr>cd_candidate = c, cd_artifact_hash = skill_manifest_hash sha (sc_manifest c), cd_semantic_hash = semantic_hash\<rparr>]\<rparr>))"

definition get_candidate :: "digest \<Rightarrow> string \<Rightarrow> skill_store \<Rightarrow> skill_error + skill_candidate" where
  "get_candidate sha i s =
     bindE (of_option (Skill_Not_Found i) (find (\<lambda>r. sc_candidate_id (cd_candidate r) = i) (ss_candidates s))) (read_candidate sha s)"

definition list_candidates :: "digest \<Rightarrow> nat \<Rightarrow> skill_store \<Rightarrow> skill_error + skill_candidate list" where
  "list_candidates sha limit s =
     map_result (read_candidate sha s) (take limit (sort_key (\<lambda>r. - sc_created_at (cd_candidate r)) (ss_candidates s)))"

definition candidates_for_name :: "digest \<Rightarrow> string \<Rightarrow> nat \<Rightarrow> skill_store \<Rightarrow> skill_error + skill_candidate list" where
  "candidates_for_name sha name limit s =
     map_result (read_candidate sha s) (take limit (sort_key (\<lambda>r. - sc_created_at (cd_candidate r))
       (filter (\<lambda>r. sm_name (sc_manifest (cd_candidate r)) = name) (ss_candidates s))))"

section \<open>The registry\<close>

primrec action_status :: "lifecycle_action \<Rightarrow> lifecycle_status" where
  "action_status MARK_STALE = SKILL_STALE"
| "action_status ARCHIVE = SKILL_ARCHIVED"
| "action_status REACTIVATE = SKILL_ACTIVE"
| "action_status SUPERSEDE = SKILL_SUPERSEDED"

text \<open>
  \<open>lifecycle_events\<close>: the query orders by \<open>created_at ASC\<close> and names the skill, so SQLite scans
  the index \<open>idx_skill_lifecycle_skill (skill_id, created_at DESC)\<close> backwards: ascending instants, and
  rows of the same second latest insertion first.
\<close>

definition lifecycle_events :: "string \<Rightarrow> skill_store \<Rightarrow> skill_lifecycle list" where
  "lifecycle_events i s = sort_key sl_created_at (rev (filter (\<lambda>e. sl_skill_id e = i) (ss_lifecycle s)))"

definition decorate_record :: "skill_store \<Rightarrow> skill_record \<Rightarrow> skill_record" where
  "decorate_record s r = r\<lparr>sr_lifecycle_status :=
     foldl (\<lambda>st e. action_status (sl_action e)) SKILL_ACTIVE (lifecycle_events (sr_skill_id r) s)\<rparr>"

definition read_record :: "digest \<Rightarrow> skill_store \<Rightarrow> skill_record \<Rightarrow> skill_error + skill_record" where
  "read_record sha s r =
     (if skill_manifest_hash sha (sr_manifest r) \<noteq> sr_artifact_hash r
      then Inl (Skill_Integrity_Error (''registry artifact hash mismatch: '' @ sr_skill_id r))
      else Inr (decorate_record s r))"

definition get_record :: "digest \<Rightarrow> string \<Rightarrow> skill_store \<Rightarrow> skill_error + skill_record" where
  "get_record sha i s = bindE (of_option (Skill_Not_Found i) (find (\<lambda>r. sr_skill_id r = i) (ss_registry s))) (read_record sha s)"

definition add_record :: "skill_record \<Rightarrow> skill_record skill_op" where
  "add_record r s =
     (if sr_skill_id r \<in> sr_skill_id ` set (ss_registry s) \<or> sr_candidate_id r \<in> sr_candidate_id ` set (ss_registry s)
         \<or> sr_candidate_id r \<notin> candidate_ids s
      then (Inl Skill_Sql_Error, s) else (Inr r, s\<lparr>ss_registry := ss_registry s @ [r]\<rparr>))"

definition list_records :: "digest \<Rightarrow> nat \<Rightarrow> skill_store \<Rightarrow> skill_error + skill_record list" where
  "list_records sha limit s = map_result (read_record sha s) (take limit (sort_key (\<lambda>r. - sr_activated_at r) (ss_registry s)))"

definition active_for_name :: "digest \<Rightarrow> string \<Rightarrow> skill_store \<Rightarrow> skill_error + skill_record option" where
  "active_for_name sha name s = bindE (list_records sha 1000 s) (\<lambda>rs.
     Inr (find (\<lambda>r. sm_name (sr_manifest r) = name \<and> sr_lifecycle_status r \<in> {SKILL_ACTIVE, SKILL_STALE}) rs))"

section \<open>Usage, lifecycle, learnings\<close>

definition add_usage :: "instant \<Rightarrow> skill_usage \<Rightarrow> skill_usage skill_op" where
  "add_usage now u s =
     (let n = u\<lparr>su_used_at := Some (case su_used_at u of None \<Rightarrow> now | Some t \<Rightarrow> t)\<rparr> in
      if su_usage_id n \<in> su_usage_id ` set (ss_usage s) \<or> su_skill_id n \<notin> sr_skill_id ` set (ss_registry s)
      then (Inl Skill_Sql_Error, s) else (Inr n, s\<lparr>ss_usage := ss_usage s @ [n]\<rparr>))"

definition usages :: "string \<Rightarrow> skill_store \<Rightarrow> skill_usage list" where
  "usages i s = take 1000 (sort_key (\<lambda>u. - (case su_used_at u of None \<Rightarrow> 0 | Some t \<Rightarrow> t)) (filter (\<lambda>u. su_skill_id u = i) (ss_usage s)))"

definition add_lifecycle :: "skill_lifecycle \<Rightarrow> skill_lifecycle skill_op" where
  "add_lifecycle e s =
     (if sl_lifecycle_id e \<in> sl_lifecycle_id ` set (ss_lifecycle s) \<or> sl_skill_id e \<notin> sr_skill_id ` set (ss_registry s)
      then (Inl Skill_Sql_Error, s) else (Inr e, s\<lparr>ss_lifecycle := ss_lifecycle s @ [e]\<rparr>))"

definition add_learning :: "skill_learning \<Rightarrow> unit skill_op" where
  "add_learning l s = (Inr (), s\<lparr>ss_learnings := ss_learnings s @ [l]\<rparr>)"

definition learnings :: "string \<Rightarrow> nat \<Rightarrow> skill_store \<Rightarrow> skill_learning list" where
  "learnings fingerprint limit s =
     take limit (sort_key (\<lambda>l. - lg_created_at l) (filter (\<lambda>l. lg_fingerprint l = fingerprint) (ss_learnings s)))"

end
