(* ===== verification/Skill_Factory.thy ===== *)
theory Skill_Factory
  imports Skill_Store State_Result
begin

text \<open>
  \<open>SkillFactory\<close> of \<open>skills/factory.py\<close>. The coroutines are cut at their awaits: \<open>benchmark_begin\<close> ends
  with the call of the sandbox and \<open>benchmark_finish\<close> takes its result; \<open>decide_begin\<close> ends with the
  call of the installer, \<open>decide_install\<close> takes its receipt and ends with the candidate or with the
  call that undoes the installation, after which \<open>decide_rolled_back\<close> raises; \<open>lifecycle_begin\<close> and
  \<open>lifecycle_finish\<close> enclose the deactivation of an archived skill. Sandbox and installer are outside;
  an exception they raise ends the coroutine and changes nothing here. A piece reads the clock once.
\<close>

section \<open>State\<close>

datatype skill_event = SKILL_CANDIDATE_PROPOSED | SKILL_BENCHMARK_PASSED | SKILL_BENCHMARK_FAILED | SKILL_CANDIDATE_REJECTED
  | SKILL_ACTIVATED | SKILL_USAGE_RECORDED | SKILL_MARKED_STALE | SKILL_ARCHIVED_EVENT | SKILL_REACTIVATED | SKILL_SUPERSEDED_EVENT

primrec skill_event_value :: "skill_event \<Rightarrow> string" where
  "skill_event_value SKILL_CANDIDATE_PROPOSED = ''skill.candidate.proposed''"
| "skill_event_value SKILL_BENCHMARK_PASSED = ''skill.benchmark.passed''"
| "skill_event_value SKILL_BENCHMARK_FAILED = ''skill.benchmark.failed''"
| "skill_event_value SKILL_CANDIDATE_REJECTED = ''skill.candidate.rejected''"
| "skill_event_value SKILL_ACTIVATED = ''skill.activated''"
| "skill_event_value SKILL_USAGE_RECORDED = ''skill.usage.recorded''"
| "skill_event_value SKILL_MARKED_STALE = ''skill.marked-stale''"
| "skill_event_value SKILL_ARCHIVED_EVENT = ''skill.archived''"
| "skill_event_value SKILL_REACTIVATED = ''skill.reactivated''"
| "skill_event_value SKILL_SUPERSEDED_EVENT = ''skill.superseded''"

record skill_env =
  sf_sha :: digest
  sf_fmt3 :: "rat \<Rightarrow> string"
  sf_float :: "rat \<Rightarrow> string"
  sf_hex :: "nat \<Rightarrow> string"
  sf_policy :: skill_policy
  sf_has_bus :: bool

record skill_state =
  sf_store :: skill_store
  sf_journal :: "event list"
  sf_counter :: nat

definition initial_skills :: skill_state where
  "initial_skills = \<lparr>sf_store = empty_skills, sf_journal = [], sf_counter = 0\<rparr>"

type_synonym 'a skilled = "(skill_state, skill_error, 'a) comp"

definition skill_hex :: "skill_env \<Rightarrow> string skilled" where
  "skill_hex env st = (Inr (sf_hex env (sf_counter st)), st\<lparr>sf_counter := Suc (sf_counter st)\<rparr>)"

definition on_skills :: "'a skill_op \<Rightarrow> 'a skilled" where
  "on_skills f st = (case f (sf_store st) of (r, s) \<Rightarrow> (r, st\<lparr>sf_store := s\<rparr>))"

definition read_skills :: "(skill_store \<Rightarrow> skill_error + 'a) \<Rightarrow> 'a skilled" where
  "read_skills f st = (f (sf_store st), st)"

definition blocked :: "string list \<Rightarrow> unit skilled" where
  "blocked blockers = (if blockers \<noteq> [] then throw (Skill_Blocked blockers) else ret ())"

definition skill_emit :: "skill_env \<Rightarrow> instant \<Rightarrow> skill_event \<Rightarrow> (string, json) dict \<Rightarrow> string \<Rightarrow> unit skilled" where
  "skill_emit env now t payload severity =
     (if sf_has_bus env then
        bindS (skill_hex env) (\<lambda>hex. modS (\<lambda>st. st\<lparr>sf_journal := sf_journal st @
          [canon_event (make_event hex now (skill_event_value t) ''aether.skill-factory'' payload severity None None)]\<rparr>))
      else ret ())"

section \<open>Proposals\<close>

record skill_request =
  sq_manifest :: skill_manifest
  sq_provenance :: skill_provenance
  sq_deterministic_checks :: "check_command list"
  sq_heldout_checks :: "check_command list"
  sq_rationale :: string
  sq_retry_reason :: "string option"

definition prior_record :: "skill_env \<Rightarrow> string option \<Rightarrow> skill_record option skilled" where
  "prior_record env i =
     (if ostr_or i [] = [] then ret None
      else bindS (read_skills (get_record (sf_sha env) (ostr_or i []))) (\<lambda>r. ret (Some r)))"

definition failed_candidate :: "skill_store \<Rightarrow> string \<Rightarrow> bool" where
  "failed_candidate s i =
     ((case get_benchmark i s of Some b \<Rightarrow> \<not> sb_passed b | None \<Rightarrow> False) \<or>
      (case get_skill_decision i s of Some d \<Rightarrow> sd_decision d = SKILL_REJECT | None \<Rightarrow> False))"

definition attempt_hash :: "skill_env \<Rightarrow> string \<Rightarrow> string option \<Rightarrow> string" where
  "attempt_hash env semantic_hash retry_reason =
     (if blank (ostr_or retry_reason []) then semantic_hash
      else sf_sha env (semantic_hash @ '':'' @ squeeze (casefold (ostr_or retry_reason []))))"

definition propose :: "skill_env \<Rightarrow> instant \<Rightarrow> skill_request \<Rightarrow> skill_candidate skilled" where
  "propose env now q =
     bindS (prior_record env (sv_prior_skill_id (sq_provenance q))) (\<lambda>baseline.
     bindS (skill_hex env) (\<lambda>hex.
     let c = \<lparr>sc_manifest = sq_manifest q, sc_provenance = sq_provenance q, sc_deterministic_checks = sq_deterministic_checks q,
           sc_heldout_checks = sq_heldout_checks q, sc_rationale = sq_rationale q, sc_retry_reason = sq_retry_reason q,
           sc_candidate_id = new_id ''skill-candidate'' hex, sc_created_at = now, sc_status = SKILL_DRAFT, sc_benchmark_id = None,
           sc_decision_id = None, sc_skill_id = None\<rparr>;
         semantic = skill_candidate_semantic_hash (sf_sha env) c in
     bindS (blocked (validate_candidate (sf_sha env) (sf_policy env) c baseline)) (\<lambda>_.
     bindS (read_skills (candidates_for_name (sf_sha env) (sm_name (sq_manifest q)) 100)) (\<lambda>previous.
     bindS (getS (\<lambda>st. list_ex (\<lambda>p. skill_candidate_semantic_hash (sf_sha env) p = semantic \<and>
         failed_candidate (sf_store st) (sc_candidate_id p)) previous)) (\<lambda>failed.
     bindS (blocked (if failed \<and> blank (ostr_or (sq_retry_reason q) [])
       then [''the same failed skill candidate cannot be repeated without an explicit retry reason''] else [])) (\<lambda>_.
     bindS (on_skills (add_candidate (sf_sha env) c (attempt_hash env semantic (sq_retry_reason q)))) (\<lambda>saved.
     bindS (skill_emit env now SKILL_CANDIDATE_PROPOSED [(''candidate_id'', JStr (sc_candidate_id saved)),
       (''name'', JStr (sm_name (sq_manifest q))), (''version'', JStr (sm_version (sq_manifest q))),
       (''artifact_hash'', JStr (skill_manifest_hash (sf_sha env) (sc_manifest saved))),
       (''trigger_type'', JStr (trigger_value (sv_trigger_type (sq_provenance q)))),
       (''trigger_fingerprint'', JStr (sv_trigger_fingerprint (sq_provenance q))),
       (''evidence_ids'', str_list (sv_evidence_ids (sq_provenance q))), (''generator_id'', JStr (sv_generator_id (sq_provenance q)))]
       ''info'') (\<lambda>_.
     ret saved))))))))"

definition propose_repeated_workflow :: "skill_env \<Rightarrow> instant \<Rightarrow> skill_manifest \<Rightarrow> string \<Rightarrow> string list \<Rightarrow> int \<Rightarrow> int \<Rightarrow> string \<Rightarrow> string
    \<Rightarrow> check_command list \<Rightarrow> check_command list \<Rightarrow> string \<Rightarrow> skill_candidate skilled" where
  "propose_repeated_workflow env now manifest fingerprint evidence_ids observed successful workflow generator_id det held rationale =
     propose env now \<lparr>sq_manifest = manifest,
       sq_provenance = \<lparr>sv_trigger_type = REPEATED_SUCCESS, sv_trigger_fingerprint = fingerprint, sv_evidence_ids = evidence_ids,
         sv_observed_count = observed, sv_successful_count = successful, sv_source_workflow = Some workflow, sv_generator_id = generator_id,
         sv_prior_skill_id = None, sv_metadata = []\<rparr>,
       sq_deterministic_checks = det, sq_heldout_checks = held, sq_rationale = rationale, sq_retry_reason = None\<rparr>"

definition propose_capability_gap :: "skill_env \<Rightarrow> instant \<Rightarrow> skill_manifest \<Rightarrow> string \<Rightarrow> string list \<Rightarrow> string
    \<Rightarrow> check_command list \<Rightarrow> check_command list \<Rightarrow> string \<Rightarrow> skill_candidate skilled" where
  "propose_capability_gap env now manifest fingerprint evidence_ids generator_id det held rationale =
     propose env now \<lparr>sq_manifest = manifest,
       sq_provenance = \<lparr>sv_trigger_type = CAPABILITY_GAP, sv_trigger_fingerprint = fingerprint, sv_evidence_ids = evidence_ids,
         sv_observed_count = max 1 (int (length evidence_ids)), sv_successful_count = 0, sv_source_workflow = None,
         sv_generator_id = generator_id, sv_prior_skill_id = None, sv_metadata = []\<rparr>,
       sq_deterministic_checks = det, sq_heldout_checks = held, sq_rationale = rationale, sq_retry_reason = None\<rparr>"

definition propose_revision :: "skill_env \<Rightarrow> instant \<Rightarrow> string \<Rightarrow> skill_manifest \<Rightarrow> string list \<Rightarrow> string
    \<Rightarrow> check_command list \<Rightarrow> check_command list \<Rightarrow> string \<Rightarrow> string option \<Rightarrow> skill_candidate skilled" where
  "propose_revision env now prior_skill_id manifest evidence_ids generator_id det held rationale retry_reason =
     bindS (read_skills (get_record (sf_sha env) prior_skill_id)) (\<lambda>prior.
     bindS (getS (\<lambda>st. usages prior_skill_id (sf_store st))) (\<lambda>us.
     propose env now \<lparr>sq_manifest = manifest,
       sq_provenance = \<lparr>sv_trigger_type = REVISION, sv_trigger_fingerprint = ''revision:'' @ sr_artifact_hash prior,
         sv_evidence_ids = evidence_ids, sv_observed_count = int (length us),
         sv_successful_count = int (length (filter su_success us)), sv_source_workflow = Some (sm_name (sr_manifest prior)),
         sv_generator_id = generator_id, sv_prior_skill_id = Some prior_skill_id, sv_metadata = []\<rparr>,
       sq_deterministic_checks = det, sq_heldout_checks = held, sq_rationale = rationale, sq_retry_reason = retry_reason\<rparr>))"

section \<open>Benchmarks\<close>

datatype benchmark_step = Benchmark_Done skill_benchmark | Await_Sandbox skill_candidate "skill_record option"

definition benchmark_begin :: "skill_env \<Rightarrow> string \<Rightarrow> benchmark_step skilled" where
  "benchmark_begin env i =
     bindS (read_skills (get_candidate (sf_sha env) i)) (\<lambda>c.
     bindS (getS (\<lambda>st. get_benchmark i (sf_store st))) (\<lambda>existing.
     case existing of
       Some b \<Rightarrow> ret (Benchmark_Done b)
     | None \<Rightarrow> bindS (prior_record env (sv_prior_skill_id (sc_provenance c))) (\<lambda>baseline. ret (Await_Sandbox c baseline))))"

definition benchmark_finish :: "skill_env \<Rightarrow> instant \<Rightarrow> skill_candidate \<Rightarrow> skill_benchmark \<Rightarrow> skill_benchmark skilled" where
  "benchmark_finish env now c result =
     (let blockers = validate_benchmark (sf_fmt3 env) (sf_policy env) result;
          normalized = result\<lparr>sb_passed := (blockers = []), sb_blockers := from_keys (sb_blockers result @ blockers),
            sb_created_at := Some (case sb_created_at result of None \<Rightarrow> now | Some t \<Rightarrow> t)\<rparr> in
      bindS (on_skills (add_benchmark now normalized)) (\<lambda>saved.
      bindS (on_skills (add_learning \<lparr>lg_skill_id = None, lg_candidate_id = Some (sc_candidate_id c),
        lg_fingerprint = sv_trigger_fingerprint (sc_provenance c),
        lg_outcome = (if sb_passed saved then ''benchmark-passed'' else ''benchmark-failed''),
        lg_summary = (if sb_passed saved then ''Skill benchmark passed.'' else ''Skill benchmark failed: '' @ join ''; '' (sb_blockers saved)),
        lg_metadata = [(''benchmark_id'', JStr (sb_benchmark_id saved)), (''improvement'', JFloat (sf_float env (sb_improvement saved)))],
        lg_created_at = now\<rparr>)) (\<lambda>_.
      bindS (skill_emit env now (if sb_passed saved then SKILL_BENCHMARK_PASSED else SKILL_BENCHMARK_FAILED)
        [(''candidate_id'', JStr (sc_candidate_id c)), (''benchmark_id'', JStr (sb_benchmark_id saved)),
         (''baseline_score'', JFloat (sf_float env (sb_baseline_score saved))),
         (''candidate_score'', JFloat (sf_float env (sb_candidate_score saved))),
         (''improvement'', JFloat (sf_float env (sb_improvement saved))), (''regression_count'', JInt (sb_regression_count saved)),
         (''blockers'', str_list (sb_blockers saved))] (if sb_passed saved then ''info'' else ''warning'')) (\<lambda>_.
      ret saved))))"

section \<open>Decisions\<close>

datatype decide_step = Decide_Done skill_candidate | Await_Install skill_candidate "skill_record option" skill_benchmark string string string
  | Await_Rollback install_receipt skill_error

definition decide_begin :: "skill_env \<Rightarrow> instant \<Rightarrow> string \<Rightarrow> bool \<Rightarrow> string \<Rightarrow> string \<Rightarrow> string \<Rightarrow> bool \<Rightarrow> decide_step skilled" where
  "decide_begin env now i approved who channel reason has_installer =
     bindS (read_skills (get_candidate (sf_sha env) i)) (\<lambda>c.
     bindS (getS (\<lambda>st. get_skill_decision i (sf_store st))) (\<lambda>existing.
     case existing of
       Some d \<Rightarrow>
         if sd_decision d \<noteq> (if approved then ACTIVATE else SKILL_REJECT)
         then throw (Skill_Decision_Conflict (''candidate '' @ i @ '' already has terminal decision '' @ decision_type_value (sd_decision d)))
         else bindS (read_skills (get_candidate (sf_sha env) i)) (\<lambda>c. ret (Decide_Done c))
     | None \<Rightarrow>
         bindS (blocked (validate_activation (sf_policy env) who reason)) (\<lambda>_.
         if \<not> approved then
           bindS (skill_hex env) (\<lambda>hex.
           bindS (on_skills (add_skill_decision \<lparr>sd_candidate_id = i, sd_decision = SKILL_REJECT, sd_principal = who, sd_channel = channel,
             sd_reason = reason, sd_decision_id = new_id ''skill-decision'' hex, sd_decided_at = now, sd_skill_id = None\<rparr>)) (\<lambda>decision.
           bindS (on_skills (add_learning \<lparr>lg_skill_id = None, lg_candidate_id = Some i,
             lg_fingerprint = sv_trigger_fingerprint (sc_provenance c), lg_outcome = ''rejected'', lg_summary = reason,
             lg_metadata = [(''decision_id'', JStr (sd_decision_id decision))], lg_created_at = now\<rparr>)) (\<lambda>_.
           bindS (skill_emit env now SKILL_CANDIDATE_REJECTED [(''candidate_id'', JStr i), (''principal'', JStr who),
             (''reason'', JStr reason)] ''info'') (\<lambda>_.
           bindS (read_skills (get_candidate (sf_sha env) i)) (\<lambda>c. ret (Decide_Done c))))))
         else
           bindS (getS (\<lambda>st. get_benchmark i (sf_store st))) (\<lambda>benchmark.
           case benchmark of
             None \<Rightarrow> throw (Skill_Blocked [''skill candidate has not been benchmarked''])
           | Some b \<Rightarrow>
               bindS (blocked (validate_benchmark (sf_fmt3 env) (sf_policy env) b)) (\<lambda>_.
               bindS (blocked (if has_installer then [] else [''a runtime skill installer adapter is required''])) (\<lambda>_.
               bindS (read_skills (active_for_name (sf_sha env) (sm_name (sc_manifest c)))) (\<lambda>prior.
               bindS (blocked (case prior of
                   Some p \<Rightarrow> if sv_prior_skill_id (sc_provenance c) \<noteq> Some (sr_skill_id p)
                     then [''an active skill with this name already exists; replacement must be a revision bound to prior_skill_id''] else []
                 | None \<Rightarrow> [])) (\<lambda>_.
               ret (Await_Install c prior b who channel reason)))))))))"

text \<open>What stands between \<open>try\<close> and \<open>except\<close>.\<close>

definition register_skill :: "skill_env \<Rightarrow> instant \<Rightarrow> skill_candidate \<Rightarrow> skill_record option \<Rightarrow> string \<Rightarrow> string \<Rightarrow> string \<Rightarrow> install_receipt
    \<Rightarrow> (skill_record \<times> skill_decision) skilled" where
  "register_skill env now c prior who channel reason receipt =
     bindS (skill_hex env) (\<lambda>hex.
     bindS (on_skills (add_record \<lparr>sr_candidate_id = sc_candidate_id c, sr_manifest = sc_manifest c, sr_provenance = sc_provenance c,
       sr_artifact_hash = skill_manifest_hash (sf_sha env) (sc_manifest c), sr_principal = who, sr_reason = reason,
       sr_install_receipt = receipt, sr_skill_id = new_id ''skill'' hex, sr_activated_at = now,
       sr_lifecycle_status = SKILL_ACTIVE\<rparr>)) (\<lambda>r.
     bindS (skill_hex env) (\<lambda>hex'.
     bindS (on_skills (add_skill_decision \<lparr>sd_candidate_id = sc_candidate_id c, sd_decision = ACTIVATE, sd_principal = who,
       sd_channel = channel, sd_reason = reason, sd_decision_id = new_id ''skill-decision'' hex', sd_decided_at = now,
       sd_skill_id = Some (sr_skill_id r)\<rparr>)) (\<lambda>decision.
     bindS (case prior of
         Some p \<Rightarrow>
           if sr_skill_id p \<noteq> sr_skill_id r
           then bindS (skill_hex env) (\<lambda>hex''.
             bindS (on_skills (add_lifecycle \<lparr>sl_skill_id = sr_skill_id p, sl_action = SUPERSEDE, sl_principal = who, sl_channel = channel,
               sl_reason = ''Superseded by activated skill '' @ sr_skill_id r @ '': '' @ reason,
               sl_lifecycle_id = new_id ''skill-lifecycle'' hex'', sl_created_at = now\<rparr>)) (\<lambda>_. ret ()))
           else ret ()
       | None \<Rightarrow> ret ()) (\<lambda>_.
     ret (r, decision))))))"

definition decide_install :: "skill_env \<Rightarrow> instant \<Rightarrow> skill_candidate \<Rightarrow> skill_record option \<Rightarrow> skill_benchmark \<Rightarrow> string \<Rightarrow> string \<Rightarrow> string \<Rightarrow> install_receipt
    \<Rightarrow> decide_step skilled" where
  "decide_install env now c prior b who channel reason receipt st =
     (case register_skill env now c prior who channel reason receipt st of
        (Inl e, st') \<Rightarrow> (Inr (Await_Rollback receipt e), st')
      | (Inr (r, decision), st') \<Rightarrow>
          bindS (on_skills (add_learning \<lparr>lg_skill_id = Some (sr_skill_id r), lg_candidate_id = Some (sc_candidate_id c),
            lg_fingerprint = sv_trigger_fingerprint (sc_provenance c), lg_outcome = ''activated'', lg_summary = reason,
            lg_metadata = [(''decision_id'', JStr (sd_decision_id decision)),
              (''benchmark_id'', JStr (sb_benchmark_id b))], lg_created_at = now\<rparr>)) (\<lambda>_.
          bindS (skill_emit env now SKILL_ACTIVATED [(''candidate_id'', JStr (sc_candidate_id c)), (''skill_id'', JStr (sr_skill_id r)),
            (''name'', JStr (sm_name (sr_manifest r))), (''version'', JStr (sm_version (sr_manifest r))),
            (''artifact_hash'', JStr (sr_artifact_hash r)), (''adapter_id'', JStr (ir_adapter_id receipt)), (''principal'', JStr who)]
            ''info'') (\<lambda>_.
          bindS (read_skills (get_candidate (sf_sha env) (sc_candidate_id c))) (\<lambda>c'. ret (Decide_Done c')))) st')"

definition decide_rolled_back :: "skill_error \<Rightarrow> skill_candidate skilled" where
  "decide_rolled_back e = throw e"

section \<open>Usage and lifecycle\<close>

definition record_usage :: "skill_env \<Rightarrow> instant \<Rightarrow> skill_usage \<Rightarrow> skill_usage skilled" where
  "record_usage env now u =
     bindS (read_skills (get_record (sf_sha env) (su_skill_id u))) (\<lambda>r.
     bindS (blocked (if sr_lifecycle_status r \<in> {SKILL_ARCHIVED, SKILL_SUPERSEDED}
       then [''skill is not executable in lifecycle state '' @ lifecycle_value (sr_lifecycle_status r)] else [])) (\<lambda>_.
     bindS (on_skills (add_usage now u)) (\<lambda>saved.
     bindS (skill_emit env now SKILL_USAGE_RECORDED [(''skill_id'', JStr (su_skill_id saved)), (''usage_id'', JStr (su_usage_id saved)),
       (''runtime_id'', JStr (su_runtime_id saved)), (''success'', JBool (su_success saved)),
       (''duration_seconds'', JFloat (sf_float env (su_duration_seconds saved))), (''error_fingerprint'', json_opt (su_error_fingerprint saved))]
       (if su_success saved then ''info'' else ''warning'')) (\<lambda>_.
     ret saved))))"

definition review :: "skill_env \<Rightarrow> instant \<Rightarrow> string \<Rightarrow> skill_store \<Rightarrow> skill_error + lifecycle_review" where
  "review env now i s =
     bindE (get_record (sf_sha env) i s) (\<lambda>r.
     let us = usages i s; n = int (length us);
         rate = (if us = [] then 0 else of_int (int (length (filter su_success us))) / of_int n);
         last_used = (case us of [] \<Rightarrow> None | u # _ \<Rightarrow> su_used_at u);
         reference = (case last_used of None \<Rightarrow> sr_activated_at r | Some t \<Rightarrow> t);
         active = (sr_lifecycle_status r = SKILL_ACTIVE);
         unused = (active \<and> sk_stale_after_days_without_usage (sf_policy env) * 86400 \<le> now - reference);
         failing = (active \<and> sk_minimum_usage_for_failure_review (sf_policy env) \<le> n \<and>
           sk_maximum_failure_rate (sf_policy env) < 1 - rate) in
     Inr \<lparr>lr_skill_id = i, lr_current_status = sr_lifecycle_status r,
       lr_recommended_status = (if unused \<or> failing then SKILL_STALE else sr_lifecycle_status r),
       lr_usage_count = n, lr_success_rate = rate, lr_last_used_at = last_used,
       lr_reasons = (if unused then [''skill has not been used within the configured freshness window''] else []) @
         (if failing then [''skill failure rate exceeds curator policy''] else [])\<rparr>)"

text \<open>The review looks at the instant it is given; its event carries the clock's.\<close>

definition apply_review :: "skill_env \<Rightarrow> instant \<Rightarrow> instant \<Rightarrow> string \<Rightarrow> skill_record skilled" where
  "apply_review env reviewed now i =
     bindS (read_skills (review env reviewed i)) (\<lambda>v.
     bindS (if lr_recommended_status v = SKILL_STALE \<and> lr_current_status v = SKILL_ACTIVE then
         bindS (skill_hex env) (\<lambda>hex.
         bindS (on_skills (add_lifecycle \<lparr>sl_skill_id = i, sl_action = MARK_STALE, sl_principal = ''curator'', sl_channel = ''internal'',
           sl_reason = ''Curator marked skill stale from bounded usage telemetry review.'',
           sl_lifecycle_id = new_id ''skill-lifecycle'' hex, sl_created_at = now\<rparr>)) (\<lambda>e.
         skill_emit env now SKILL_MARKED_STALE [(''skill_id'', JStr i), (''lifecycle_id'', JStr (sl_lifecycle_id e)),
           (''reasons'', str_list (lr_reasons v)), (''usage_count'', JInt (lr_usage_count v)),
           (''success_rate'', JFloat (sf_float env (lr_success_rate v)))] ''warning''))
       else ret ()) (\<lambda>_.
     read_skills (get_record (sf_sha env) i)))"

primrec action_event :: "lifecycle_action \<Rightarrow> skill_event" where
  "action_event MARK_STALE = SKILL_MARKED_STALE"
| "action_event ARCHIVE = SKILL_ARCHIVED_EVENT"
| "action_event REACTIVATE = SKILL_REACTIVATED"
| "action_event SUPERSEDE = SKILL_SUPERSEDED_EVENT"

definition lifecycle_finish :: "skill_env \<Rightarrow> instant \<Rightarrow> string \<Rightarrow> lifecycle_action \<Rightarrow> string \<Rightarrow> string \<Rightarrow> string \<Rightarrow> skill_record skilled" where
  "lifecycle_finish env now i action who channel reason =
     bindS (skill_hex env) (\<lambda>hex.
     bindS (on_skills (add_lifecycle \<lparr>sl_skill_id = i, sl_action = action, sl_principal = who, sl_channel = channel, sl_reason = reason,
       sl_lifecycle_id = new_id ''skill-lifecycle'' hex, sl_created_at = now\<rparr>)) (\<lambda>e.
     bindS (skill_emit env now (action_event action) [(''skill_id'', JStr i), (''lifecycle_id'', JStr (sl_lifecycle_id e)),
       (''principal'', JStr who), (''reason'', JStr reason)] ''info'') (\<lambda>_.
     read_skills (get_record (sf_sha env) i))))"

datatype lifecycle_step = Lifecycle_Done skill_record | Await_Deactivate string string string string

definition lifecycle_begin :: "skill_env \<Rightarrow> instant \<Rightarrow> string \<Rightarrow> lifecycle_action \<Rightarrow> string \<Rightarrow> string \<Rightarrow> string \<Rightarrow> bool \<Rightarrow> bool
    \<Rightarrow> lifecycle_step skilled" where
  "lifecycle_begin env now i action who channel reason has_installer benchmark_passed =
     bindS (read_skills (get_record (sf_sha env) i)) (\<lambda>r.
     if action = ARCHIVE \<and> sr_lifecycle_status r = SKILL_ARCHIVED \<or> action = MARK_STALE \<and> sr_lifecycle_status r = SKILL_STALE
     then ret (Lifecycle_Done r)
     else
       bindS (blocked (validate_lifecycle (sf_policy env) action who reason r benchmark_passed)) (\<lambda>_.
       if action = ARCHIVE \<and> has_installer then ret (Await_Deactivate i who channel reason)
       else bindS (lifecycle_finish env now i action who channel reason) (\<lambda>r. ret (Lifecycle_Done r))))"

section \<open>Status\<close>

definition skill_status :: "skill_env \<Rightarrow> skill_store \<Rightarrow> skill_error + (string \<times> nat) list" where
  "skill_status env s =
     bindE (list_candidates (sf_sha env) 1000 s) (\<lambda>cs.
     bindE (list_records (sf_sha env) 1000 s) (\<lambda>rs.
     let of_candidate = (\<lambda>x. length (filter (\<lambda>c. sc_status c = x) cs)); of_record = (\<lambda>x. length (filter (\<lambda>r. sr_lifecycle_status r = x) rs)) in
     Inr [(''candidates'', length cs), (''draft'', of_candidate SKILL_DRAFT), (''verified'', of_candidate SKILL_VERIFIED),
       (''rejected'', of_candidate SKILL_REJECTED), (''activated_candidates'', of_candidate SKILL_CANDIDATE_ACTIVE),
       (''skills'', length rs), (''active'', of_record SKILL_ACTIVE), (''stale'', of_record SKILL_STALE),
       (''archived'', of_record SKILL_ARCHIVED), (''superseded'', of_record SKILL_SUPERSEDED)]))"

end
