(* ===== verification/Skill_Safety.thy ===== *)
theory Skill_Safety
  imports Skill_Factory "HOL-Library.Sublist"
begin

text \<open>
  The skill factory as a transition system: its calls, interleaved at the awaits of the sandbox and
  of the installer. The tables of the store only grow, and every registry record stays tied to a
  candidate the governor accepted, to its passing benchmark and to a trusted principal.
\<close>

section \<open>One row per candidate\<close>

text \<open>
  A table with a unique column: what is found under a key is what was put there first, whatever is
  put later.
\<close>

locale one_row =
  fixes put :: "'r \<Rightarrow> 's \<Rightarrow> ('e + 'r) \<times> 's" and lookup :: "string \<Rightarrow> 's \<Rightarrow> 'r option" and key :: "'r \<Rightarrow> string"
  assumes put_found: "put r s = (Inr r', s') \<Longrightarrow> lookup (key r) s' = Some r'"
    and put_stays: "lookup i s = Some x \<Longrightarrow> lookup i (snd (put r s)) = Some x"
    and put_other: "i \<noteq> key r \<Longrightarrow> lookup i (snd (put r s)) = lookup i s"
begin

lemma puts_stay: "lookup i s = Some x \<Longrightarrow> lookup i (foldl (\<lambda>s r. snd (put r s)) s rs) = Some x"
  by (induction rs arbitrary: s) (simp_all add: put_stays)

lemma first_wins:
  assumes "put r s = (Inr r', s')" "lookup (key r) (foldl (\<lambda>s r. snd (put r s)) s' rs) = Some x"
  shows "x = r'"
  using puts_stay [OF put_found [OF assms(1)], of rs] assms(2) by simp

lemma found_was_put:
  assumes "lookup i s = None" "lookup i (foldl (\<lambda>s r. snd (put r s)) s rs) = Some x"
  shows "\<exists>r \<in> set rs. key r = i"
  using assms
proof (induction rs arbitrary: s)
  case (Cons r rs)
  show ?case
  proof (cases "key r = i")
    case False
    with Cons.IH [of "snd (put r s)"] Cons.prems show ?thesis by (auto simp: put_other)
  qed auto
qed simp

end

lemma get_benchmark_append:
  "get_benchmark i (s\<lparr>ss_benchmarks := ss_benchmarks s @ [b]\<rparr>) =
    (case get_benchmark i s of None \<Rightarrow> if sb_candidate_id b = i then Some b else None | Some x \<Rightarrow> Some x)"
  by (simp add: get_benchmark_def find_append split: option.split)

lemma get_skill_decision_append:
  "get_skill_decision i (s\<lparr>ss_decisions := ss_decisions s @ [d]\<rparr>) =
    (case get_skill_decision i s of None \<Rightarrow> if sd_candidate_id d = i then Some d else None | Some x \<Rightarrow> Some x)"
  by (simp add: get_skill_decision_def find_append split: option.split)

lemma benchmarks_one_row: "one_row (add_benchmark now) get_benchmark sb_candidate_id"
proof
  fix r r' s s' i x
  show "get_benchmark (sb_candidate_id r) s' = Some r'" if "add_benchmark now r s = (Inr r', s')"
    using that by (auto simp: add_benchmark_def Let_def get_benchmark_append split: if_splits)
  show "get_benchmark i (snd (add_benchmark now r s)) = Some x" if "get_benchmark i s = Some x"
    using that by (simp add: add_benchmark_def Let_def get_benchmark_append)
  show "get_benchmark i (snd (add_benchmark now r s)) = get_benchmark i s" if "i \<noteq> sb_candidate_id r"
    using that by (simp add: add_benchmark_def Let_def get_benchmark_append split: option.split)
qed

interpretation benchmarks: one_row "add_benchmark now" get_benchmark sb_candidate_id for now
  by (rule benchmarks_one_row)

interpretation decisions: one_row add_skill_decision get_skill_decision sd_candidate_id
proof
  fix r r' s s' i x
  show "get_skill_decision (sd_candidate_id r) s' = Some r'" if "add_skill_decision r s = (Inr r', s')"
    using that by (auto simp: add_skill_decision_def get_skill_decision_append split: if_splits option.splits)
  show "get_skill_decision i (snd (add_skill_decision r s)) = Some x" if "get_skill_decision i s = Some x"
    using that by (simp add: add_skill_decision_def get_skill_decision_append)
  show "get_skill_decision i (snd (add_skill_decision r s)) = get_skill_decision i s" if "i \<noteq> sd_candidate_id r"
    using that by (simp add: add_skill_decision_def get_skill_decision_append split: option.split)
qed

section \<open>The tables only grow\<close>

definition skills_ext :: "skill_store \<Rightarrow> skill_store \<Rightarrow> bool" where
  "skills_ext s s' = (prefix (ss_candidates s) (ss_candidates s') \<and> prefix (ss_benchmarks s) (ss_benchmarks s') \<and>
     prefix (ss_decisions s) (ss_decisions s') \<and> prefix (ss_registry s) (ss_registry s') \<and> prefix (ss_usage s) (ss_usage s') \<and>
     prefix (ss_lifecycle s) (ss_lifecycle s') \<and> prefix (ss_learnings s) (ss_learnings s'))"

lemma skills_ext_refl [simp]: "skills_ext s s"
  by (simp add: skills_ext_def)

lemma skills_ext_trans: "skills_ext s s' \<Longrightarrow> skills_ext s' s'' \<Longrightarrow> skills_ext s s''"
  unfolding skills_ext_def by (elim conjE, intro conjI; erule (1) prefix_order.trans)

lemma skills_ext_append:
  "skills_ext s (s\<lparr>ss_candidates := ss_candidates s @ cs\<rparr>)" "skills_ext s (s\<lparr>ss_benchmarks := ss_benchmarks s @ bs\<rparr>)"
  "skills_ext s (s\<lparr>ss_decisions := ss_decisions s @ ds\<rparr>)" "skills_ext s (s\<lparr>ss_registry := ss_registry s @ rs\<rparr>)"
  "skills_ext s (s\<lparr>ss_usage := ss_usage s @ us\<rparr>)" "skills_ext s (s\<lparr>ss_lifecycle := ss_lifecycle s @ es\<rparr>)"
  "skills_ext s (s\<lparr>ss_learnings := ss_learnings s @ ls\<rparr>)"
  by (simp_all add: skills_ext_def)

lemma skills_ext_add:
  "skills_ext s (snd (add_candidate sha c h s))" "skills_ext s (snd (add_benchmark now b s))" "skills_ext s (snd (add_skill_decision d s))"
  "skills_ext s (snd (add_record r s))" "skills_ext s (snd (add_usage now u s))" "skills_ext s (snd (add_lifecycle e s))"
  "skills_ext s (snd (add_learning l s))"
  unfolding add_candidate_def add_benchmark_def add_skill_decision_def add_record_def add_usage_def add_lifecycle_def add_learning_def Let_def
  by (simp_all only: if_distrib [of snd] snd_conv skills_ext_append skills_ext_refl if_split simp_thms)

lemma get_benchmark_ext: "get_benchmark i s = Some b \<Longrightarrow> skills_ext s s' \<Longrightarrow> get_benchmark i s' = Some b"
  by (auto simp: get_benchmark_def skills_ext_def find_append elim!: prefixE)

lemma get_skill_decision_ext: "get_skill_decision i s = Some d \<Longrightarrow> skills_ext s s' \<Longrightarrow> get_skill_decision i s' = Some d"
  by (auto simp: get_skill_decision_def skills_ext_def find_append elim!: prefixE)

text \<open>What has been in the store from a state on is there in every later state.\<close>

abbreviation since :: "skill_store \<Rightarrow> skill_state \<Rightarrow> bool" where
  "since s st \<equiv> skills_ext s (sf_store st)"

lemma since_on_skills: "(\<And>s. skills_ext s (snd (f s))) \<Longrightarrow> keeps (since s0) (on_skills f)"
  unfolding keeps_def on_skills_def using skills_ext_trans by (auto simp: case_prod_beta)

lemma since_read [keeps_intros]: "keeps P (read_skills f)" "keeps P (blocked bs)"
  by (simp_all add: keeps_def read_skills_def blocked_def comp_simps)

lemma since_hex [keeps_intros]: "keeps (since s) (skill_hex env)"
  by (simp add: keeps_def skill_hex_def)

lemma since_emit [keeps_intros]: "keeps (since s) (skill_emit env now t p sev)"
  unfolding skill_emit_def by (intro keeps_intros keeps_modS) simp

lemmas since_adds [keeps_intros] = skills_ext_add [THEN since_on_skills]

lemma since_prior [keeps_intros]: "keeps P (prior_record env i)"
  unfolding prior_record_def by (intro keeps_intros)

lemma since_propose: "keeps (since s) (propose env now q)"
  unfolding propose_def by (intro keeps_intros)

lemma since_benchmark: "keeps (since s) (benchmark_begin env i)" "keeps (since s) (benchmark_finish env now c result)"
  unfolding benchmark_begin_def benchmark_finish_def by (intro keeps_intros)+

lemma since_decide_begin: "keeps (since s) (decide_begin env now i approved who channel reason has_installer)"
  unfolding decide_begin_def by (intro keeps_intros)

lemma since_register [keeps_intros]: "keeps (since s) (register_skill env now c prior who channel reason receipt)"
  unfolding register_skill_def by (intro keeps_intros)

lemma since_decide_install: "keeps (since s) (decide_install env now c prior b who channel reason receipt)"
  unfolding keeps_def
proof (intro allI impI)
  fix st
  assume st: "since s st"
  obtain r st' where r: "register_skill env now c prior who channel reason receipt st = (r, st')" by fastforce
  then have st': "since s st'" using keepsD [OF since_register st] by blast
  show "since s (snd (decide_install env now c prior b who channel reason receipt st))"
  proof (cases r)
    case (Inr x)
    obtain rec d where x: "x = (rec, d)" by fastforce
    show ?thesis unfolding decide_install_def r Inr x prod.case sum.case
      by (rule keepsD [where P = "since s" and s = st', OF _ st' prod.collapse [symmetric]]) (intro keeps_intros)
  qed (simp add: decide_install_def r st')
qed

lemma since_use: "keeps (since s) (record_usage env now u)" "keeps (since s) (apply_review env reviewed now i)"
  unfolding record_usage_def apply_review_def by (intro keeps_intros)+

lemma since_lifecycle_finish [keeps_intros]: "keeps (since s) (lifecycle_finish env now i action who channel reason)"
  unfolding lifecycle_finish_def by (intro keeps_intros)

lemma since_lifecycle_begin: "keeps (since s) (lifecycle_begin env now i action who channel reason has_installer benchmark_passed)"
  unfolding lifecycle_begin_def by (intro keeps_intros)

section \<open>What the governor has seen\<close>

text \<open>The stored candidate \<open>i\<close> has this manifest and provenance, its benchmark passes and a trusted principal wants it.\<close>

definition vetted :: "skill_env \<Rightarrow> skill_store \<Rightarrow> string \<Rightarrow> skill_manifest \<Rightarrow> skill_provenance \<Rightarrow> string \<Rightarrow> string \<Rightarrow> bool" where
  "vetted env s i m p who reason =
     ((\<exists>row \<in> set (ss_candidates s). sc_candidate_id (cd_candidate row) = i \<and> sc_manifest (cd_candidate row) = m \<and>
        sc_provenance (cd_candidate row) = p) \<and>
      (\<exists>b. get_benchmark i s = Some b \<and> validate_benchmark (sf_fmt3 env) (sf_policy env) b = []) \<and>
      validate_activation (sf_policy env) who reason = [])"

lemma vetted_ext:
  assumes "vetted env s i m p who reason" "skills_ext s s'"
  shows "vetted env s' i m p who reason"
proof -
  have "set (ss_candidates s) \<subseteq> set (ss_candidates s')" using assms(2) by (simp add: skills_ext_def set_mono_prefix)
  then show ?thesis using assms get_benchmark_ext unfolding vetted_def by blast
qed

definition candidate_ok :: "skill_env \<Rightarrow> candidate_row \<Rightarrow> bool" where
  "candidate_ok env row =
     (cd_artifact_hash row = skill_manifest_hash (sf_sha env) (sc_manifest (cd_candidate row)) \<and>
      cd_semantic_hash row = attempt_hash env (skill_candidate_semantic_hash (sf_sha env) (cd_candidate row)) (sc_retry_reason (cd_candidate row)) \<and>
      (\<exists>baseline. validate_candidate (sf_sha env) (sf_policy env) (cd_candidate row) baseline = []))"

definition record_ok :: "skill_env \<Rightarrow> skill_store \<Rightarrow> skill_record \<Rightarrow> bool" where
  "record_ok env s r =
     (vetted env s (sr_candidate_id r) (sr_manifest r) (sr_provenance r) (sr_principal r) (sr_reason r) \<and>
      sr_artifact_hash r = skill_manifest_hash (sf_sha env) (sr_manifest r))"

definition skills_inv :: "skill_env \<Rightarrow> skill_store \<Rightarrow> bool" where
  "skills_inv env s =
     (distinct (map (\<lambda>r. sc_candidate_id (cd_candidate r)) (ss_candidates s)) \<and> distinct (map cd_semantic_hash (ss_candidates s)) \<and>
      list_all (candidate_ok env) (ss_candidates s) \<and>
      list_all (\<lambda>b. sb_passed b \<longleftrightarrow> validate_benchmark (sf_fmt3 env) (sf_policy env) b = []) (ss_benchmarks s) \<and>
      list_all (record_ok env s) (ss_registry s))"

lemma record_ok_ext: "record_ok env s r \<Longrightarrow> skills_ext s s' \<Longrightarrow> record_ok env s' r"
  using vetted_ext by (auto simp: record_ok_def)

lemma records_ok_ext: "list_all (record_ok env s) rs \<Longrightarrow> skills_ext s s' \<Longrightarrow> list_all (record_ok env s') rs"
  using record_ok_ext by (auto simp: list_all_iff)

lemma skills_inv_empty: "skills_inv env empty_skills"
  by (simp add: skills_inv_def empty_skills_def)

lemma skills_inv_same:
  assumes "skills_inv env s" "skills_ext s s'" "ss_candidates s' = ss_candidates s" "ss_benchmarks s' = ss_benchmarks s" "ss_registry s' = ss_registry s"
  shows "skills_inv env s'"
  using assms records_ok_ext [of env s "ss_registry s" s'] by (simp add: skills_inv_def)

lemma skills_inv_neutral:
  assumes "skills_inv env s"
  shows "skills_inv env (snd (add_skill_decision d s))" "skills_inv env (snd (add_usage now u s))"
    "skills_inv env (snd (add_lifecycle e s))" "skills_inv env (snd (add_learning l s))"
  by (rule skills_inv_same [OF assms], rule skills_ext_add,
      (simp add: add_skill_decision_def add_usage_def add_lifecycle_def add_learning_def Let_def; fail)+)+

lemma skills_inv_candidate:
  assumes "skills_inv env s" "validate_candidate (sf_sha env) (sf_policy env) c baseline = []"
    "h = attempt_hash env (skill_candidate_semantic_hash (sf_sha env) c) (sc_retry_reason c)"
  shows "skills_inv env (snd (add_candidate (sf_sha env) c h s))"
proof -
  have "list_all (record_ok env (snd (add_candidate (sf_sha env) c h s))) (ss_registry s)"
    using assms(1) records_ok_ext skills_ext_add(1) by (fastforce simp: skills_inv_def)
  then show ?thesis using assms by (auto simp: skills_inv_def add_candidate_def candidate_ok_def candidate_ids_def image_iff)
qed

lemma skills_inv_benchmark:
  assumes "skills_inv env s" "sb_passed b \<longleftrightarrow> validate_benchmark (sf_fmt3 env) (sf_policy env) b = []"
  shows "skills_inv env (snd (add_benchmark now b s))"
proof -
  have "list_all (record_ok env (snd (add_benchmark now b s))) (ss_registry s)"
    using assms(1) records_ok_ext skills_ext_add(2) by (fastforce simp: skills_inv_def)
  moreover have "validate_benchmark (sf_fmt3 env) (sf_policy env) (b\<lparr>sb_created_at := x\<rparr>) = validate_benchmark (sf_fmt3 env) (sf_policy env) b" for x
    by (simp add: validate_benchmark_def benchmark_blockers_def)
  ultimately show ?thesis using assms by (auto simp: skills_inv_def add_benchmark_def Let_def)
qed

lemma skills_inv_record:
  assumes "skills_inv env s" "record_ok env s r"
  shows "skills_inv env (snd (add_record r s))"
proof -
  have "list_all (record_ok env (snd (add_record r s))) (r # ss_registry s)"
    using assms records_ok_ext [OF _ skills_ext_add(4), of env s "r # ss_registry s" r] by (simp add: skills_inv_def)
  then show ?thesis using assms by (auto simp: skills_inv_def add_record_def)
qed

lemma get_candidate_row:
  assumes "get_candidate sha i s = Inr c"
  obtains row where "row \<in> set (ss_candidates s)" "c = decorate_candidate s (cd_candidate row)" "sc_candidate_id (cd_candidate row) = i"
proof -
  obtain row where "find (\<lambda>r. sc_candidate_id (cd_candidate r) = i) (ss_candidates s) = Some row" "c = decorate_candidate s (cd_candidate row)"
    using assms by (auto simp: get_candidate_def read_candidate_def row_skill_candidate_def bindE_Inr_conv of_option_def
        split: option.splits if_splits)
  then show ?thesis using that [of row] by (auto dest!: find_SomeD)
qed

lemma decorate_candidate_keeps [simp]:
  "sc_manifest (decorate_candidate s c) = sc_manifest c" "sc_provenance (decorate_candidate s c) = sc_provenance c"
  "sc_candidate_id (decorate_candidate s c) = sc_candidate_id c"
  by (simp_all add: decorate_candidate_def Let_def)

section \<open>Calls and awaits\<close>

datatype skill_flight = Flight_Sandbox skill_candidate | Flight_Decide decide_step | Flight_Deactivate string string string string

fun benchmark_flights :: "skill_error + benchmark_step \<Rightarrow> skill_flight list" where
  "benchmark_flights (Inr (Await_Sandbox c baseline)) = [Flight_Sandbox c]"
| "benchmark_flights _ = []"

fun decide_flights :: "skill_error + decide_step \<Rightarrow> skill_flight list" where
  "decide_flights (Inr (Decide_Done c)) = []"
| "decide_flights (Inr await) = [Flight_Decide await]"
| "decide_flights (Inl e) = []"

fun lifecycle_flights :: "skill_error + lifecycle_step \<Rightarrow> skill_flight list" where
  "lifecycle_flights (Inr (Await_Deactivate i who channel reason)) = [Flight_Deactivate i who channel reason]"
| "lifecycle_flights _ = []"

text \<open>An await ends with an answer or, in \<open>given_up\<close>, with an exception or with the undone installation.\<close>

inductive skill_step :: "skill_env \<Rightarrow> skill_state \<times> skill_flight list \<Rightarrow> skill_state \<times> skill_flight list \<Rightarrow> bool" for env where
  propose: "skill_step env (st, fs) (snd (propose env now q st), fs)"
| benchmark: "benchmark_begin env i st = (r, st') \<Longrightarrow> skill_step env (st, fs) (st', benchmark_flights r @ fs)"
| benchmarked: "Flight_Sandbox c \<in> set fs \<Longrightarrow>
    skill_step env (st, fs) (snd (benchmark_finish env now c result st), remove1 (Flight_Sandbox c) fs)"
| decide: "decide_begin env now i approved who channel reason has_installer st = (r, st') \<Longrightarrow>
    skill_step env (st, fs) (st', decide_flights r @ fs)"
| installed: "f = Flight_Decide (Await_Install c prior b who channel reason) \<Longrightarrow> f \<in> set fs \<Longrightarrow>
    decide_install env now c prior b who channel reason receipt st = (r, st') \<Longrightarrow>
    skill_step env (st, fs) (st', decide_flights r @ remove1 f fs)"
| usage: "skill_step env (st, fs) (snd (record_usage env now u st), fs)"
| reviewed: "skill_step env (st, fs) (snd (apply_review env reviewed now i st), fs)"
| lifecycle: "lifecycle_begin env now i action who channel reason has_installer benchmark_passed st = (r, st') \<Longrightarrow>
    skill_step env (st, fs) (st', lifecycle_flights r @ fs)"
| deactivated: "f = Flight_Deactivate i who channel reason \<Longrightarrow> f \<in> set fs \<Longrightarrow>
    skill_step env (st, fs) (snd (lifecycle_finish env now i ARCHIVE who channel reason st), remove1 f fs)"
| given_up: "f \<in> set fs \<Longrightarrow> skill_step env (st, fs) (st, remove1 f fs)"

inductive skill_reach :: "skill_env \<Rightarrow> skill_state \<times> skill_flight list \<Rightarrow> bool" for env where
  start: "skill_reach env (initial_skills, [])"
| step: "skill_reach env w \<Longrightarrow> skill_step env w w' \<Longrightarrow> skill_reach env w'"

lemma skill_step_ext: "skill_step env w w' \<Longrightarrow> skills_ext (sf_store (fst w)) (sf_store (fst w'))"
proof (induction rule: skill_step.induct)
  case (propose st fs now q)
  show ?case using keepsD [OF since_propose skills_ext_refl prod.collapse [symmetric]] by fastforce
next
  case (benchmark i st r st' fs)
  then show ?case using keepsD [OF since_benchmark(1) skills_ext_refl] by fastforce
next
  case (benchmarked c fs st now result)
  show ?case using keepsD [OF since_benchmark(2) skills_ext_refl prod.collapse [symmetric]] by fastforce
next
  case (decide now i approved who channel reason has_installer st r st' fs)
  then show ?case using keepsD [OF since_decide_begin skills_ext_refl] by fastforce
next
  case (installed f c prior b who channel reason fs now receipt st r st')
  then show ?case using keepsD [OF since_decide_install skills_ext_refl] by fastforce
next
  case (usage st fs now u)
  show ?case using keepsD [OF since_use(1) skills_ext_refl prod.collapse [symmetric]] by fastforce
next
  case (reviewed st fs now i)
  show ?case using keepsD [OF since_use(2) skills_ext_refl prod.collapse [symmetric]] by fastforce
next
  case (lifecycle now i action who channel reason has_installer benchmark_passed st r st' fs)
  then show ?case using keepsD [OF since_lifecycle_begin skills_ext_refl] by fastforce
next
  case (deactivated f i who channel reason fs st now)
  show ?case using keepsD [OF since_lifecycle_finish skills_ext_refl prod.collapse [symmetric]] by fastforce
qed simp

section \<open>The invariant of all calls\<close>

definition skill_emitted :: "skill_env \<Rightarrow> instant \<Rightarrow> skill_event \<Rightarrow> (string, json) dict \<Rightarrow> string \<Rightarrow> skill_state \<Rightarrow> skill_state" where
  "skill_emitted env now t payload severity st = snd (skill_emit env now t payload severity st)"

lemma skill_emitted_store [simp]: "sf_store (skill_emitted env now t payload severity st) = sf_store st"
  by (simp add: skill_emitted_def skill_emit_def skill_hex_def bindS_def comp_simps)

lemma wp_skills [wp_simps]:
  "wp (skill_hex env) E Q st = Q (sf_hex env (sf_counter st)) (st\<lparr>sf_counter := Suc (sf_counter st)\<rparr>)"
  "wp (on_skills f) E Q' st = (case fst (f (sf_store st)) of Inl e \<Rightarrow> E (st\<lparr>sf_store := snd (f (sf_store st))\<rparr>)
     | Inr x \<Rightarrow> Q' x (st\<lparr>sf_store := snd (f (sf_store st))\<rparr>))"
  "wp (read_skills g) E R st = (case g (sf_store st) of Inl e \<Rightarrow> E st | Inr x \<Rightarrow> R x st)"
  "wp (blocked bs) E S st = (if bs \<noteq> [] then E st else S () st)"
  "wp (skill_emit env now t payload severity) E S st = S () (skill_emitted env now t payload severity st)"
  by (simp_all add: wp_def skill_hex_def on_skills_def read_skills_def blocked_def comp_simps case_prod_beta skill_emitted_def skill_emit_def
      bindS_def split: sum.splits)

abbreviation holding :: "skill_env \<Rightarrow> skill_state \<Rightarrow> bool" where
  "holding env st \<equiv> skills_inv env (sf_store st)"

lemma holding_on_skills: "(\<And>s. skills_inv env s \<Longrightarrow> skills_inv env (snd (f s))) \<Longrightarrow> keeps (holding env) (on_skills f)"
  by (auto simp: keeps_def on_skills_def case_prod_beta)

lemma holding_hex [keeps_intros]: "keeps (holding env) (skill_hex env')"
  by (simp add: keeps_def skill_hex_def)

lemma holding_emit [keeps_intros]: "keeps (holding env) (skill_emit env' now t p sev)"
  unfolding keeps_def using skill_emitted_store by (simp add: skill_emitted_def)

lemmas holding_adds [keeps_intros] = skills_inv_neutral [THEN holding_on_skills]

lemma holding_benchmark_begin: "keeps (holding env) (benchmark_begin env i)"
  unfolding benchmark_begin_def by (intro keeps_intros)

lemma holding_decide_begin: "keeps (holding env) (decide_begin env now i approved who channel reason has_installer)"
  unfolding decide_begin_def by (intro keeps_intros)

lemma holding_usage: "keeps (holding env) (record_usage env now u)"
  unfolding record_usage_def by (intro keeps_intros)

lemma holding_review: "keeps (holding env) (apply_review env reviewed now i)"
  unfolding apply_review_def by (intro keeps_intros)

lemma holding_lifecycle_finish [keeps_intros]: "keeps (holding env) (lifecycle_finish env now i action who channel reason)"
  unfolding lifecycle_finish_def by (intro keeps_intros)

lemma holding_lifecycle_begin: "keeps (holding env) (lifecycle_begin env now i action who channel reason has_installer benchmark_passed)"
  unfolding lifecycle_begin_def by (intro keeps_intros)

lemma holding_propose: "keeps (holding env) (propose env now q)"
  unfolding keeps_def
proof (intro allI impI, rule wpD)
  fix st
  assume "holding env st"
  then show "wp (propose env now q) (holding env) (\<lambda>_. holding env) st"
    by (auto simp: propose_def prior_record_def wp_simps Let_def skills_inv_candidate split: sum.split)
qed

text \<open>A verdict is stored as the governor reaches it again when it reads the stored benchmark.\<close>

lemma normalized_verdict:
  assumes "blockers = validate_benchmark fmt pol result"
  shows "(blockers = []) = (validate_benchmark fmt pol (result\<lparr>sb_passed := (blockers = []),
    sb_blockers := from_keys (sb_blockers result @ blockers), sb_created_at := t\<rparr>) = [])"
  using assms by (auto simp: validate_benchmark_def benchmark_blockers_def)

lemma holding_benchmark_finish: "keeps (holding env) (benchmark_finish env now c result)"
  unfolding benchmark_finish_def Let_def
  by (intro keeps_intros holding_on_skills skills_inv_benchmark) (simp_all add: normalized_verdict)

lemma holding_register:
  assumes "holding env st" "vetted env (sf_store st) (sc_candidate_id c) (sc_manifest c) (sc_provenance c) who reason"
  shows "wp (register_skill env now c prior who channel reason receipt) (holding env) (\<lambda>_. holding env) st"
  using assms by (auto simp: register_skill_def wp_simps skills_inv_record record_ok_def skills_inv_neutral split: sum.split option.split)

lemma holding_decide_install:
  assumes "holding env st" "vetted env (sf_store st) (sc_candidate_id c) (sc_manifest c) (sc_provenance c) who reason"
  shows "holding env (snd (decide_install env now c prior b who channel reason receipt st))"
proof -
  obtain r st' where r: "register_skill env now c prior who channel reason receipt st = (r, st')" by fastforce
  have st': "holding env st'" using wpD [OF holding_register [OF assms]] r by (metis snd_conv)
  show ?thesis
  proof (cases r)
    case (Inr x)
    obtain rec d where x: "x = (rec, d)" by fastforce
    show ?thesis unfolding decide_install_def r Inr x prod.case sum.case
      by (rule keepsD [where P = "holding env" and s = st', OF _ st' prod.collapse [symmetric]]) (intro keeps_intros)
  qed (simp add: decide_install_def r st')
qed

fun skill_flight_ok :: "skill_env \<Rightarrow> skill_store \<Rightarrow> skill_flight \<Rightarrow> bool" where
  "skill_flight_ok env s (Flight_Decide (Await_Install c prior b who channel reason)) =
     vetted env s (sc_candidate_id c) (sc_manifest c) (sc_provenance c) who reason"
| "skill_flight_ok env s _ = True"

lemma skill_flight_ok_ext: "skill_flight_ok env s f \<Longrightarrow> skills_ext s s' \<Longrightarrow> skill_flight_ok env s' f"
  by (induction env s f rule: skill_flight_ok.induct) (auto intro: vetted_ext)

lemma vetted_candidate:
  assumes "get_candidate sha i s = Inr c" "get_benchmark i s = Some b"
    "validate_benchmark (sf_fmt3 env) (sf_policy env) b = []" "validate_activation (sf_policy env) who reason = []"
  shows "vetted env s (sc_candidate_id c) (sc_manifest c) (sc_provenance c) who reason"
proof -
  obtain row where "row \<in> set (ss_candidates s)" "c = decorate_candidate s (cd_candidate row)" "sc_candidate_id (cd_candidate row) = i"
    using assms(1) by (rule get_candidate_row)
  then show ?thesis using assms(2-4) by (auto simp: vetted_def)
qed

lemma decide_begin_flight:
  "wp (decide_begin env now i approved who channel reason has_installer) (\<lambda>_. True) (\<lambda>r st'. skill_flight_ok env (sf_store st') (Flight_Decide r)) st"
  by (simp add: decide_begin_def wp_simps vetted_candidate split: sum.split option.split)

lemma decide_install_flight:
  "decide_install env now c prior b who channel reason receipt st = (r, st') \<Longrightarrow> f \<in> set (decide_flights r) \<Longrightarrow> skill_flight_ok env s f"
  by (auto simp: decide_install_def bindS_def comp_simps split: prod.splits sum.splits)

lemma decide_flights_ok:
  assumes "decide_begin env now i approved who channel reason has_installer st = (r, st')" "f \<in> set (decide_flights r)"
  shows "skill_flight_ok env (sf_store st') f"
proof -
  obtain x where "r = Inr x" "f = Flight_Decide x" using assms(2) by (induction r rule: decide_flights.induct) auto
  then show ?thesis using decide_begin_flight [of env now i approved who channel reason has_installer st] assms(1) by (simp add: wp_def)
qed

definition world_inv :: "skill_env \<Rightarrow> skill_state \<times> skill_flight list \<Rightarrow> bool" where
  "world_inv env w = (holding env (fst w) \<and> (\<forall>f \<in> set (snd w). skill_flight_ok env (sf_store (fst w)) f))"

lemma other_flights [simp]:
  "f \<in> set (benchmark_flights rb) \<Longrightarrow> skill_flight_ok env s f" "f \<in> set (lifecycle_flights rl) \<Longrightarrow> skill_flight_ok env s f"
  by (induction rb rule: benchmark_flights.induct; auto) (induction rl rule: lifecycle_flights.induct; auto)

lemma skill_step_holding:
  assumes "skill_step env w w'" "world_inv env w"
  shows "holding env (fst w')"
  using assms
proof (induction rule: skill_step.induct)
  case (installed f c prior b who channel reason fs now receipt st r st')
  then have "holding env st" "vetted env (sf_store st) (sc_candidate_id c) (sc_manifest c) (sc_provenance c) who reason"
    by (auto simp: world_inv_def)
  from holding_decide_install [OF this, of now prior b channel receipt] installed show ?case by simp
qed (auto simp: world_inv_def dest: keepsD [OF holding_benchmark_begin] keepsD [OF holding_decide_begin] keepsD [OF holding_lifecycle_begin]
    intro: keepsD [OF holding_propose _ prod.collapse [symmetric]] keepsD [OF holding_benchmark_finish _ prod.collapse [symmetric]]
      keepsD [OF holding_usage _ prod.collapse [symmetric]] keepsD [OF holding_review _ prod.collapse [symmetric]]
      keepsD [OF holding_lifecycle_finish _ prod.collapse [symmetric]])

lemma skill_step_flights:
  assumes "skill_step env w w'" "world_inv env w" "f \<in> set (snd w')"
  shows "skill_flight_ok env (sf_store (fst w')) f"
proof -
  have "f \<in> set (snd w) \<or> skill_flight_ok env (sf_store (fst w')) f"
    using assms(1,3)
    by (induction rule: skill_step.induct) (auto dest: notin_set_remove1 decide_flights_ok decide_install_flight set_remove1_subset [THEN subsetD])
  then show ?thesis using assms(2) skill_flight_ok_ext skill_step_ext [OF assms(1)] by (auto simp: world_inv_def)
qed

lemma skill_reach_inv: "skill_reach env w \<Longrightarrow> world_inv env w"
proof (induction rule: skill_reach.induct)
  case start
  then show ?case by (simp add: world_inv_def initial_skills_def skills_inv_empty)
next
  case (step w w')
  then show ?case using skill_step_holding skill_step_flights unfolding world_inv_def by blast
qed

end
