(* ===== verification/Skill_Properties.thy ===== *)
theory Skill_Properties
  imports Skill_Safety
begin

text \<open>
  What the skill factory promises in every reachable state, what the curator may do alone, and
  the places where the lifecycle lets a skill back in, loses a change or keeps a skill that was refused.
\<close>

section \<open>Statuses\<close>

lemma insort_key_greatest: "\<forall>y \<in> set xs. f y < f x \<Longrightarrow> insort_key f x xs = xs @ [x]"
  by (induction xs) auto

text \<open>Sorting is stable, so an element put in front of its equals stays in front of them.\<close>

lemma insort_key_not_last: "y \<in> set xs \<Longrightarrow> f x \<le> f y \<Longrightarrow> last (insort_key f x xs) = last xs"
  by (induction xs) (auto simp: insort_is_Cons insort_not_Nil)

text \<open>The last lifecycle event of the skill is of an earlier second.\<close>

definition clock_ok :: "instant \<Rightarrow> string \<Rightarrow> skill_store \<Rightarrow> bool" where
  "clock_ok now i s = list_all (\<lambda>e. sl_skill_id e = i \<longrightarrow> sl_created_at e < now) (ss_lifecycle s)"

lemma decorate_after:
  assumes "clock_ok (sl_created_at e) (sl_skill_id e) s"
  shows "decorate_record (s\<lparr>ss_lifecycle := ss_lifecycle s @ [e]\<rparr>) r =
    (if sr_skill_id r = sl_skill_id e then r\<lparr>sr_lifecycle_status := action_status (sl_action e)\<rparr> else decorate_record s r)"
proof (cases "sr_skill_id r = sl_skill_id e")
  case True
  then have "lifecycle_events (sr_skill_id r) (s\<lparr>ss_lifecycle := ss_lifecycle s @ [e]\<rparr>) = lifecycle_events (sr_skill_id r) s @ [e]"
    using assms by (auto simp: lifecycle_events_def clock_ok_def list_all_iff intro!: insort_key_greatest)
  with True show ?thesis by (simp add: decorate_record_def)
qed (simp add: decorate_record_def lifecycle_events_def)

lemma decorate_record_update [simp]: "decorate_record s (r\<lparr>sr_lifecycle_status := x\<rparr>) = decorate_record s r"
  by (simp add: decorate_record_def)

lemma get_recordE:
  assumes "get_record sha i s = Inr r"
  obtains row where "find (\<lambda>r. sr_skill_id r = i) (ss_registry s) = Some row" "sr_skill_id row = i" "row \<in> set (ss_registry s)"
    "r = decorate_record s row" "skill_manifest_hash sha (sr_manifest row) = sr_artifact_hash row"
proof -
  obtain row where row: "find (\<lambda>r. sr_skill_id r = i) (ss_registry s) = Some row" "read_record sha s row = Inr r"
    using assms by (auto simp: get_record_def bindE_Inr_conv of_option_def split: option.splits)
  then show ?thesis using that [of row] by (auto simp: read_record_def dest!: find_SomeD split: if_splits)
qed

lemma get_record_member: "get_record sha i s = Inr r \<Longrightarrow> i \<in> sr_skill_id ` set (ss_registry s)"
  by (erule get_recordE) auto

lemma get_record_after:
  assumes "clock_ok (sl_created_at e) (sl_skill_id e) s" "get_record sha i s = Inr r"
  shows "get_record sha i (s\<lparr>ss_lifecycle := ss_lifecycle s @ [e]\<rparr>) =
    Inr (if i = sl_skill_id e then r\<lparr>sr_lifecycle_status := action_status (sl_action e)\<rparr> else r)"
proof -
  obtain row where "find (\<lambda>r. sr_skill_id r = i) (ss_registry s) = Some row" "sr_skill_id row = i"
    "r = decorate_record s row" "skill_manifest_hash sha (sr_manifest row) = sr_artifact_hash row"
    using assms(2) by (rule get_recordE)
  then show ?thesis using decorate_after [OF assms(1), of row]
    by (simp add: get_record_def of_option_def read_record_def) (simp add: decorate_record_def)
qed

definition lifecycle_event :: "skill_env \<Rightarrow> instant \<Rightarrow> string \<Rightarrow> lifecycle_action \<Rightarrow> string \<Rightarrow> string \<Rightarrow> string \<Rightarrow> nat \<Rightarrow> skill_lifecycle" where
  "lifecycle_event env now i action who channel reason n = \<lparr>sl_skill_id = i, sl_action = action, sl_principal = who, sl_channel = channel,
     sl_reason = reason, sl_lifecycle_id = new_id ''skill-lifecycle'' (sf_hex env n), sl_created_at = now\<rparr>"

text \<open>The identifier about to be drawn is in no lifecycle row yet.\<close>

definition lifecycle_id_free :: "skill_env \<Rightarrow> skill_state \<Rightarrow> bool" where
  "lifecycle_id_free env st =
     (new_id ''skill-lifecycle'' (sf_hex env (sf_counter st)) \<notin> sl_lifecycle_id ` set (ss_lifecycle (sf_store st)))"

lemma lifecycle_finish_effect:
  assumes "get_record (sf_sha env) i (sf_store st) = Inr r" "clock_ok now i (sf_store st)" "lifecycle_id_free env st"
  obtains st' where
    "lifecycle_finish env now i action who channel reason st = (Inr (r\<lparr>sr_lifecycle_status := action_status action\<rparr>), st')"
    "sf_store st' = sf_store st\<lparr>ss_lifecycle := ss_lifecycle (sf_store st) @ [lifecycle_event env now i action who channel reason (sf_counter st)]\<rparr>"
proof -
  let ?e = "lifecycle_event env now i action who channel reason (sf_counter st)"
  let ?s = "sf_store st\<lparr>ss_lifecycle := ss_lifecycle (sf_store st) @ [?e]\<rparr>"
  have "i \<in> sr_skill_id ` set (ss_registry (sf_store st))" using assms(1) by (rule get_record_member)
  then have add: "add_lifecycle ?e (sf_store st) = (Inr ?e, ?s)"
    using assms(3) by (simp add: add_lifecycle_def lifecycle_event_def lifecycle_id_free_def)
  have get: "get_record (sf_sha env) i ?s = Inr (r\<lparr>sr_lifecycle_status := action_status action\<rparr>)"
    using get_record_after [of ?e, OF _ assms(1)] assms(2) by (simp add: lifecycle_event_def)
  have "wp (lifecycle_finish env now i action who channel reason) (\<lambda>_. False)
      (\<lambda>x st'. x = r\<lparr>sr_lifecycle_status := action_status action\<rparr> \<and> sf_store st' = ?s) st"
    using add get by (simp add: lifecycle_finish_def wp_simps lifecycle_event_def)
  then show ?thesis using that by (auto simp: wp_def split: prod.splits sum.splits)
qed

section \<open>What the governor guarantees\<close>

lemma validate_candidate_protected:
  assumes "validate_candidate sha pol c baseline = []"
  shows "set (uc_capabilities (sm_usage (sc_manifest c))) \<inter> set (sk_protected_capabilities pol) = {}"
proof -
  have "filter (\<lambda>x. x \<in> set (sk_protected_capabilities pol)) (uc_capabilities (sm_usage (sc_manifest c))) = []"
  proof (rule ccontr)
    assume "filter (\<lambda>x. x \<in> set (sk_protected_capabilities pol)) (uc_capabilities (sm_usage (sc_manifest c))) \<noteq> []"
    with assms show False
      by (simp only: validate_candidate_def candidate_blockers_def Let_def from_keys_empty append_is_Nil_conv if_True list.distinct conj_ac simp_thms)
  qed
  then show ?thesis by (auto simp: filter_empty_conv)
qed

lemma validate_benchmark_passes:
  assumes "validate_benchmark fmt3 pol b = []"
  shows "sk_minimum_candidate_score pol \<le> sb_candidate_score b" "sk_minimum_improvement pol \<le> sb_improvement b"
    "sb_regression_count b \<le> sk_maximum_regressions pol"
    "sk_heldout_required pol \<Longrightarrow> \<exists>x \<in> set (sb_checks b). cx_kind x = HELDOUT \<and> cx_phase x = ''candidate''"
  using assms by (auto simp: validate_benchmark_def benchmark_blockers_def list_ex_iff split: if_splits)

lemma validate_activation_trusted:
  "validate_activation pol who reason = [] \<longleftrightarrow> who \<in> set (sk_trusted_principals pol) \<and> 12 \<le> length (strip reason)"
  by (auto simp: validate_activation_def)

lemma registry_vetted:
  assumes "skill_reach env (st, fs)" "r \<in> set (ss_registry (sf_store st))"
  shows "\<exists>row b. row \<in> set (ss_candidates (sf_store st)) \<and> sc_candidate_id (cd_candidate row) = sr_candidate_id r \<and>
      sc_manifest (cd_candidate row) = sr_manifest r \<and> cd_artifact_hash row = sr_artifact_hash r \<and>
      get_benchmark (sr_candidate_id r) (sf_store st) = Some b \<and> sb_passed b \<and>
      sk_minimum_candidate_score (sf_policy env) \<le> sb_candidate_score b \<and> sk_minimum_improvement (sf_policy env) \<le> sb_improvement b \<and>
      sb_regression_count b \<le> sk_maximum_regressions (sf_policy env) \<and>
      (sk_heldout_required (sf_policy env) \<longrightarrow> (\<exists>x \<in> set (sb_checks b). cx_kind x = HELDOUT \<and> cx_phase x = ''candidate''))"
    and "sr_principal r \<in> set (sk_trusted_principals (sf_policy env))" "12 \<le> length (strip (sr_reason r))"
    and "set (uc_capabilities (sm_usage (sr_manifest r))) \<inter> set (sk_protected_capabilities (sf_policy env)) = {}"
proof -
  have inv: "holding env st" using skill_reach_inv [OF assms(1)] by (simp add: world_inv_def)
  then have r: "record_ok env (sf_store st) r" using assms(2) by (simp add: skills_inv_def list_all_iff)
  then obtain row b where row: "row \<in> set (ss_candidates (sf_store st))" "sc_candidate_id (cd_candidate row) = sr_candidate_id r"
      "sc_manifest (cd_candidate row) = sr_manifest r"
    and b: "get_benchmark (sr_candidate_id r) (sf_store st) = Some b" "validate_benchmark (sf_fmt3 env) (sf_policy env) b = []"
    by (auto simp: record_ok_def vetted_def)
  have ok: "candidate_ok env row" using inv row(1) by (simp add: skills_inv_def list_all_iff)
  have "b \<in> set (ss_benchmarks (sf_store st))" using b(1) by (auto simp: get_benchmark_def dest!: find_SomeD)
  then have "sb_passed b" using inv b(2) by (simp add: skills_inv_def list_all_iff)
  with row b(1) validate_benchmark_passes [OF b(2)] ok r
  show "\<exists>row b. row \<in> set (ss_candidates (sf_store st)) \<and> sc_candidate_id (cd_candidate row) = sr_candidate_id r \<and>
      sc_manifest (cd_candidate row) = sr_manifest r \<and> cd_artifact_hash row = sr_artifact_hash r \<and>
      get_benchmark (sr_candidate_id r) (sf_store st) = Some b \<and> sb_passed b \<and>
      sk_minimum_candidate_score (sf_policy env) \<le> sb_candidate_score b \<and> sk_minimum_improvement (sf_policy env) \<le> sb_improvement b \<and>
      sb_regression_count b \<le> sk_maximum_regressions (sf_policy env) \<and>
      (sk_heldout_required (sf_policy env) \<longrightarrow> (\<exists>x \<in> set (sb_checks b). cx_kind x = HELDOUT \<and> cx_phase x = ''candidate''))"
    by (intro exI [of _ row] exI [of _ b]) (auto simp: candidate_ok_def record_ok_def)
  show "sr_principal r \<in> set (sk_trusted_principals (sf_policy env))" "12 \<le> length (strip (sr_reason r))"
    using r by (simp_all add: record_ok_def vetted_def validate_activation_trusted)
  show "set (uc_capabilities (sm_usage (sr_manifest r))) \<inter> set (sk_protected_capabilities (sf_policy env)) = {}"
    using ok row(3) validate_candidate_protected [of _ _ "cd_candidate row"] unfolding candidate_ok_def by metis
qed

text \<open>
  C22: In every reachable state of the skill factory, whatever calls are interleaved at its awaits,
  a registry record has a stored candidate with the same manifest and the same hash, a stored
  benchmark of that candidate that passed and meets the thresholds of the policy, held-out check
  included, a trusted principal with an explicit reason, and no protected capability.\<close>

theorem registered_skill_vetted:
  assumes "skill_reach env (st, fs)" "r \<in> set (ss_registry (sf_store st))"
  shows "(\<exists>row b. row \<in> set (ss_candidates (sf_store st)) \<and> sc_candidate_id (cd_candidate row) = sr_candidate_id r \<and>
      sc_manifest (cd_candidate row) = sr_manifest r \<and> cd_artifact_hash row = sr_artifact_hash r \<and>
      get_benchmark (sr_candidate_id r) (sf_store st) = Some b \<and> sb_passed b \<and>
      sk_minimum_candidate_score (sf_policy env) \<le> sb_candidate_score b \<and> sk_minimum_improvement (sf_policy env) \<le> sb_improvement b \<and>
      sb_regression_count b \<le> sk_maximum_regressions (sf_policy env) \<and>
      (sk_heldout_required (sf_policy env) \<longrightarrow> (\<exists>x \<in> set (sb_checks b). cx_kind x = HELDOUT \<and> cx_phase x = ''candidate''))) \<and>
    sr_principal r \<in> set (sk_trusted_principals (sf_policy env)) \<and> 12 \<le> length (strip (sr_reason r)) \<and>
    set (uc_capabilities (sm_usage (sr_manifest r))) \<inter> set (sk_protected_capabilities (sf_policy env)) = {}"
  by (intro conjI registry_vetted [OF assms])

text \<open>What a retry reason contributes to the hash of an attempt.\<close>

definition retry_key :: "string option \<Rightarrow> string option" where
  "retry_key reason = (if blank (ostr_or reason []) then None else Some (squeeze (casefold (ostr_or reason []))))"

lemma attempt_hash_key: "retry_key a = retry_key b \<Longrightarrow> attempt_hash env h a = attempt_hash env h b"
  by (auto simp: retry_key_def attempt_hash_def split: if_splits)

text \<open>
  Two stored candidates with the same artifact, trigger, baseline and checks differ in their
  retry reasons, up to case and spacing: an attempt is never stored twice, and at most one of them
  came without a reason.\<close>

theorem attempts_never_repeat:
  assumes "skill_reach env (st, fs)" "i < length (ss_candidates (sf_store st))" "j < length (ss_candidates (sf_store st))" "i \<noteq> j"
    and "semantic_payload (sf_sha env) (cd_candidate (ss_candidates (sf_store st) ! i)) =
      semantic_payload (sf_sha env) (cd_candidate (ss_candidates (sf_store st) ! j))"
  shows "retry_key (sc_retry_reason (cd_candidate (ss_candidates (sf_store st) ! i))) \<noteq>
    retry_key (sc_retry_reason (cd_candidate (ss_candidates (sf_store st) ! j)))"
proof
  let ?cs = "ss_candidates (sf_store st)"
  assume "retry_key (sc_retry_reason (cd_candidate (?cs ! i))) = retry_key (sc_retry_reason (cd_candidate (?cs ! j)))"
  moreover have inv: "holding env st" using skill_reach_inv [OF assms(1)] by (simp add: world_inv_def)
  then have "candidate_ok env (?cs ! i)" "candidate_ok env (?cs ! j)" using assms(2,3) by (simp_all add: skills_inv_def list_all_length)
  ultimately have "cd_semantic_hash (?cs ! i) = cd_semantic_hash (?cs ! j)"
    using assms(5) attempt_hash_key [of "sc_retry_reason (cd_candidate (?cs ! i))" "sc_retry_reason (cd_candidate (?cs ! j))"]
    by (simp add: candidate_ok_def skill_candidate_semantic_hash_def)
  moreover have "distinct (map cd_semantic_hash ?cs)" using inv by (simp add: skills_inv_def)
  ultimately show False using assms(2-4) nth_eq_iff_index_eq [of "map cd_semantic_hash ?cs" i j] by simp
qed

text \<open>
  The ledger of skills only grows: from any state on, each table of a later state extends the
  table of the earlier one, and the benchmark and the decision of a candidate never change.\<close>

theorem skill_ledger_append_only:
  assumes "(skill_step env)\<^sup>*\<^sup>* (st, fs) (st', fs')"
  shows "prefix (ss_candidates (sf_store st)) (ss_candidates (sf_store st'))" "prefix (ss_registry (sf_store st)) (ss_registry (sf_store st'))"
    "prefix (ss_usage (sf_store st)) (ss_usage (sf_store st'))" "prefix (ss_lifecycle (sf_store st)) (ss_lifecycle (sf_store st'))"
    "prefix (ss_learnings (sf_store st)) (ss_learnings (sf_store st'))"
    and "get_benchmark i (sf_store st) = Some b \<Longrightarrow> get_benchmark i (sf_store st') = Some b"
    and "get_skill_decision i (sf_store st) = Some d \<Longrightarrow> get_skill_decision i (sf_store st') = Some d"
proof -
  have "skills_ext (sf_store (fst (st, fs))) (sf_store (fst (st', fs')))"
    using assms by (rule rtranclp_induct) (auto intro: skills_ext_trans dest: skill_step_ext)
  then have ext: "skills_ext (sf_store st) (sf_store st')" by simp
  then show "prefix (ss_candidates (sf_store st)) (ss_candidates (sf_store st'))" "prefix (ss_registry (sf_store st)) (ss_registry (sf_store st'))"
    "prefix (ss_usage (sf_store st)) (ss_usage (sf_store st'))" "prefix (ss_lifecycle (sf_store st)) (ss_lifecycle (sf_store st'))"
    "prefix (ss_learnings (sf_store st)) (ss_learnings (sf_store st'))"
    by (simp_all add: skills_ext_def)
  show "get_benchmark i (sf_store st') = Some b" if "get_benchmark i (sf_store st) = Some b" using get_benchmark_ext [OF that ext] .
  show "get_skill_decision i (sf_store st') = Some d" if "get_skill_decision i (sf_store st) = Some d"
    using get_skill_decision_ext [OF that ext] .
qed

section \<open>Lifecycle\<close>

definition executable :: "lifecycle_status \<Rightarrow> bool" where
  "executable x = (x \<in> {SKILL_ACTIVE, SKILL_STALE})"

lemma lifecycle_begin_through:
  assumes "get_record (sf_sha env) i (sf_store st) = Inr r" "clock_ok now i (sf_store st)" "lifecycle_id_free env st"
    and "validate_lifecycle (sf_policy env) action who reason r benchmark_passed = []" "action \<noteq> ARCHIVE"
    and "action = MARK_STALE \<Longrightarrow> sr_lifecycle_status r \<noteq> SKILL_STALE"
  shows "fst (lifecycle_begin env now i action who channel reason has_installer benchmark_passed st) =
      Inr (Lifecycle_Done (r\<lparr>sr_lifecycle_status := action_status action\<rparr>))"
    and "sf_store (snd (lifecycle_begin env now i action who channel reason has_installer benchmark_passed st)) =
      sf_store st\<lparr>ss_lifecycle := ss_lifecycle (sf_store st) @ [lifecycle_event env now i action who channel reason (sf_counter st)]\<rparr>"
proof -
  obtain st' where st': "lifecycle_finish env now i action who channel reason st = (Inr (r\<lparr>sr_lifecycle_status := action_status action\<rparr>), st')"
    "sf_store st' = sf_store st\<lparr>ss_lifecycle := ss_lifecycle (sf_store st) @ [lifecycle_event env now i action who channel reason (sf_counter st)]\<rparr>"
    using lifecycle_finish_effect [OF assms(1-3)] by blast
  have "lifecycle_begin env now i action who channel reason has_installer benchmark_passed st =
      (Inr (Lifecycle_Done (r\<lparr>sr_lifecycle_status := action_status action\<rparr>)), st')"
    using assms st'(1) by (auto simp: lifecycle_begin_def bindS_def read_skills_def blocked_def comp_simps)
  with st'(2) show "fst (lifecycle_begin env now i action who channel reason has_installer benchmark_passed st) =
      Inr (Lifecycle_Done (r\<lparr>sr_lifecycle_status := action_status action\<rparr>))"
    and "sf_store (snd (lifecycle_begin env now i action who channel reason has_installer benchmark_passed st)) =
      sf_store st\<lparr>ss_lifecycle := ss_lifecycle (sf_store st) @ [lifecycle_event env now i action who channel reason (sf_counter st)]\<rparr>"
    by simp_all
qed

text \<open>The records afterwards: the one acted on has its new status, the others are as before.\<close>

lemma get_record_lifecycle:
  assumes "sf_store st' = sf_store st\<lparr>ss_lifecycle := ss_lifecycle (sf_store st) @ [lifecycle_event env now i action who channel reason n]\<rparr>"
    and "clock_ok now i (sf_store st)" "get_record (sf_sha env) j (sf_store st) = Inr q"
  shows "get_record (sf_sha env) j (sf_store st') = Inr (if j = i then q\<lparr>sr_lifecycle_status := action_status action\<rparr> else q)"
  using get_record_after [of "lifecycle_event env now i action who channel reason n", OF _ assms(3)] assms(1,2) by (simp add: lifecycle_event_def)

lemma record_usage_blocked:
  assumes "get_record (sf_sha env) (su_skill_id u) (sf_store st) = Inr r" "\<not> executable (sr_lifecycle_status r)"
  shows "record_usage env now u st =
    (Inl (Skill_Blocked [''skill is not executable in lifecycle state '' @ lifecycle_value (sr_lifecycle_status r)]), st)"
  using assms by (cases "sr_lifecycle_status r") (simp_all add: record_usage_def bindS_def read_skills_def blocked_def comp_simps executable_def)

lemma record_usage_accepted:
  assumes "get_record (sf_sha env) (su_skill_id u) (sf_store st) = Inr r" "executable (sr_lifecycle_status r)"
    "su_usage_id u \<notin> su_usage_id ` set (ss_usage (sf_store st))"
  shows "\<exists>saved st'. record_usage env now u st = (Inr saved, st') \<and> su_usage_id saved = su_usage_id u"
proof -
  have "su_skill_id u \<in> sr_skill_id ` set (ss_registry (sf_store st))" using assms(1) by (rule get_record_member)
  with assms have "wp (record_usage env now u) (\<lambda>_. False) (\<lambda>x _. su_usage_id x = su_usage_id u) st"
    by (auto simp: record_usage_def wp_simps executable_def add_usage_def Let_def)
  then show ?thesis by (auto simp: wp_def split: prod.splits sum.splits)
qed

lemma stale_mark_effect:
  assumes "get_record (sf_sha env) (su_skill_id u) (sf_store st) = Inr r" "\<not> executable (sr_lifecycle_status r)"
    and "12 \<le> length (strip reason)" "clock_ok now (su_skill_id u) (sf_store st)" "lifecycle_id_free env st"
    and "su_usage_id u \<notin> su_usage_id ` set (ss_usage (sf_store st))"
  shows "\<exists>e. fst (record_usage env now u st) = Inl e"
    and "\<exists>r'. fst (lifecycle_begin env now (su_skill_id u) MARK_STALE who channel reason has_installer False st) = Inr (Lifecycle_Done r') \<and>
        sr_lifecycle_status r' = SKILL_STALE"
    and "\<exists>saved. fst (record_usage env now u (snd (lifecycle_begin env now (su_skill_id u) MARK_STALE who channel reason has_installer False st))) = Inr saved"
proof -
  let ?st = "snd (lifecycle_begin env now (su_skill_id u) MARK_STALE who channel reason has_installer False st)"
  show "\<exists>e. fst (record_usage env now u st) = Inl e" using record_usage_blocked [OF assms(1,2)] by simp
  have ok: "validate_lifecycle (sf_policy env) MARK_STALE who reason r False = []" using assms(3) by (simp add: validate_lifecycle_def)
  have status: "sr_lifecycle_status r \<noteq> SKILL_STALE" using assms(2) by (auto simp: executable_def)
  note through = lifecycle_begin_through [OF assms(1,4,5) ok lifecycle_action.distinct(1) status, of channel has_installer]
  show "\<exists>r'. fst (lifecycle_begin env now (su_skill_id u) MARK_STALE who channel reason has_installer False st) = Inr (Lifecycle_Done r') \<and>
      sr_lifecycle_status r' = SKILL_STALE"
    using through(1) by simp
  have "get_record (sf_sha env) (su_skill_id u) (sf_store ?st) = Inr (r\<lparr>sr_lifecycle_status := SKILL_STALE\<rparr>)"
    using get_record_lifecycle [OF through(2) assms(4,1)] by simp
  moreover have "su_usage_id u \<notin> su_usage_id ` set (ss_usage (sf_store ?st))" using assms(6) through(2) by simp
  ultimately show "\<exists>saved. fst (record_usage env now u ?st) = Inr saved"
    using record_usage_accepted [of env u ?st "r\<lparr>sr_lifecycle_status := SKILL_STALE\<rparr>" now] by (auto simp: executable_def)
qed

text \<open>
  A skill that is archived or superseded refuses usage, but any principal, trusted or not, can
  mark it stale, and from then on it is executable again: the trusted principal and the passing
  benchmark that a reactivation asks for are not needed.\<close>

theorem stale_mark_revives:
  assumes "get_record (sf_sha env) (su_skill_id u) (sf_store st) = Inr r" "\<not> executable (sr_lifecycle_status r)"
    and "12 \<le> length (strip reason)" "clock_ok now (su_skill_id u) (sf_store st)" "lifecycle_id_free env st"
    and "su_usage_id u \<notin> su_usage_id ` set (ss_usage (sf_store st))"
  shows "(\<exists>e. fst (record_usage env now u st) = Inl e) \<and>
    (\<exists>r'. fst (lifecycle_begin env now (su_skill_id u) MARK_STALE who channel reason has_installer False st) = Inr (Lifecycle_Done r') \<and>
        sr_lifecycle_status r' = SKILL_STALE) \<and>
    (\<exists>saved. fst (record_usage env now u (snd (lifecycle_begin env now (su_skill_id u) MARK_STALE who channel reason has_installer False st))) = Inr saved)"
  by (intro conjI stale_mark_effect [OF assms])

text \<open>
  Reactivating an archived skill does not look at the other skills of its name: when another one
  is executable, both are afterwards, although an activation refuses exactly that.\<close>

theorem reactivation_doubles_name:
  assumes "get_record (sf_sha env) i (sf_store st) = Inr r" "sr_lifecycle_status r = SKILL_ARCHIVED"
    and "get_record (sf_sha env) j (sf_store st) = Inr q" "executable (sr_lifecycle_status q)" "sm_name (sr_manifest q) = sm_name (sr_manifest r)"
    and "who \<in> set (sk_trusted_principals (sf_policy env))" "12 \<le> length (strip reason)" "clock_ok now i (sf_store st)" "lifecycle_id_free env st"
  shows "get_record (sf_sha env) i (sf_store (snd (lifecycle_begin env now i REACTIVATE who channel reason has_installer True st))) =
      Inr (r\<lparr>sr_lifecycle_status := SKILL_ACTIVE\<rparr>)"
    and "get_record (sf_sha env) j (sf_store (snd (lifecycle_begin env now i REACTIVATE who channel reason has_installer True st))) = Inr q"
proof -
  have ok: "validate_lifecycle (sf_policy env) REACTIVATE who reason r True = []" using assms(2,6,7) by (simp add: validate_lifecycle_def)
  have "i \<noteq> j" using assms(1-4) by (auto simp: executable_def)
  note store = lifecycle_begin_through(2) [OF assms(1,8,9) ok, of channel has_installer, simplified]
  show "get_record (sf_sha env) i (sf_store (snd (lifecycle_begin env now i REACTIVATE who channel reason has_installer True st))) =
      Inr (r\<lparr>sr_lifecycle_status := SKILL_ACTIVE\<rparr>)"
    using get_record_lifecycle [OF store assms(8,1)] by simp
  show "get_record (sf_sha env) j (sf_store (snd (lifecycle_begin env now i REACTIVATE who channel reason has_installer True st))) = Inr q"
    using get_record_lifecycle [OF store assms(8,3)] \<open>i \<noteq> j\<close> by simp
qed

section \<open>Two changes in one second\<close>

definition same_second :: "instant \<Rightarrow> string \<Rightarrow> skill_store \<Rightarrow> bool" where
  "same_second now i s = (list_all (\<lambda>e. sl_skill_id e = i \<longrightarrow> sl_created_at e \<le> now) (ss_lifecycle s) \<and>
     list_ex (\<lambda>e. sl_skill_id e = i \<and> sl_created_at e = now) (ss_lifecycle s))"

lemma status_of_last:
  "foldl (\<lambda>st e. action_status (sl_action e)) x es = (if es = [] then x else action_status (sl_action (last es)))"
  by (induction es rule: rev_induct) simp_all

lemma decorate_same_second:
  assumes "same_second (sl_created_at e) (sl_skill_id e) s"
  shows "decorate_record (s\<lparr>ss_lifecycle := ss_lifecycle s @ [e]\<rparr>) r = decorate_record s r"
proof (cases "sr_skill_id r = sl_skill_id e")
  case True
  let ?es = "lifecycle_events (sr_skill_id r) s"
  have es: "lifecycle_events (sr_skill_id r) (s\<lparr>ss_lifecycle := ss_lifecycle s @ [e]\<rparr>) = insort_key sl_created_at e ?es"
    using True by (simp add: lifecycle_events_def)
  obtain y where "y \<in> set ?es" "sl_created_at e \<le> sl_created_at y"
    using assms True by (auto simp: same_second_def lifecycle_events_def list_ex_iff)
  then have "last (insort_key sl_created_at e ?es) = last ?es" "?es \<noteq> []"
    using insort_key_not_last [of y ?es sl_created_at e] by auto
  then show ?thesis by (simp add: decorate_record_def es status_of_last insort_not_Nil)
qed (simp add: decorate_record_def lifecycle_events_def)

lemma get_record_same_second:
  assumes "same_second (sl_created_at e) (sl_skill_id e) s"
  shows "get_record sha i (s\<lparr>ss_lifecycle := ss_lifecycle s @ [e]\<rparr>) = get_record sha i s"
proof -
  have "read_record sha (s\<lparr>ss_lifecycle := ss_lifecycle s @ [e]\<rparr>) = read_record sha s"
    by (rule ext) (simp add: read_record_def decorate_same_second [OF assms])
  then show ?thesis by (simp add: get_record_def)
qed

text \<open>
  C37: When a skill already has a lifecycle event of the current second, and none of a later one,
  the next change is recorded and announced but has no effect: whatever the action, the record is
  returned, and read afterwards, with the status it had before, because rows of one second are
  read latest insertion first. The drawn identifier must be new.\<close>

theorem same_second_change_lost:
  assumes "get_record (sf_sha env) i (sf_store st) = Inr r" "same_second now i (sf_store st)" "lifecycle_id_free env st"
  shows "\<exists>st'. lifecycle_finish env now i action who channel reason st = (Inr r, st') \<and>
    sf_store st' = sf_store st\<lparr>ss_lifecycle := ss_lifecycle (sf_store st) @ [lifecycle_event env now i action who channel reason (sf_counter st)]\<rparr> \<and>
    get_record (sf_sha env) i (sf_store st') = Inr r"
proof -
  let ?e = "lifecycle_event env now i action who channel reason (sf_counter st)"
  let ?s = "sf_store st\<lparr>ss_lifecycle := ss_lifecycle (sf_store st) @ [?e]\<rparr>"
  have add: "add_lifecycle ?e (sf_store st) = (Inr ?e, ?s)"
    using assms(3) get_record_member [OF assms(1)] by (simp add: add_lifecycle_def lifecycle_event_def lifecycle_id_free_def)
  have get: "get_record (sf_sha env) i ?s = Inr r"
    using get_record_same_second [of ?e "sf_store st" "sf_sha env" i] assms(1,2) by (simp add: lifecycle_event_def)
  have "wp (lifecycle_finish env now i action who channel reason) (\<lambda>_. False) (\<lambda>x st'. x = r \<and> sf_store st' = ?s) st"
    using add get by (simp add: lifecycle_finish_def wp_simps lifecycle_event_def)
  with get show ?thesis by (auto simp: wp_def split: prod.splits sum.splits)
qed

text \<open>When the curator finds an active skill stale: idle for the whole window, or failing too often over enough uses.\<close>

definition stale_due :: "skill_policy \<Rightarrow> instant \<Rightarrow> skill_record \<Rightarrow> skill_usage list \<Rightarrow> bool" where
  "stale_due pol now r us =
     ((case us of [] \<Rightarrow> sr_activated_at r | u # _ \<Rightarrow> (case su_used_at u of None \<Rightarrow> sr_activated_at r | Some t \<Rightarrow> t))
        + sk_stale_after_days_without_usage pol * 86400 \<le> now \<or>
      us \<noteq> [] \<and> sk_minimum_usage_for_failure_review pol \<le> int (length us) \<and>
        sk_maximum_failure_rate pol * of_nat (length us) < of_nat (length (filter (\<lambda>u. \<not> su_success u) us)) \<or>
      us = [] \<and> sk_minimum_usage_for_failure_review pol \<le> 0 \<and> sk_maximum_failure_rate pol < 1)"

lemma failure_rate:
  fixes m :: rat
  assumes "us \<noteq> []"
  shows "m < 1 - of_int (int (length (filter P us))) / of_int (int (length us)) \<longleftrightarrow>
    m * of_nat (length us) < of_nat (length (filter (\<lambda>u. \<not> P u) us))"
proof -
  have n: "0 < (of_nat (length us) :: rat)" using assms by simp
  have "length us = length (filter P us) + length (filter (\<lambda>u. \<not> P u) us)" by (simp add: sum_length_filter_compl)
  then have f: "(of_nat (length (filter (\<lambda>u. \<not> P u) us)) :: rat) = of_nat (length us) - of_nat (length (filter P us))"
    by (simp add: of_nat_add)
  show ?thesis unfolding f using n by (simp add: field_simps)
qed

lemma review_recommends:
  assumes "get_record (sf_sha env) i s = Inr r"
  shows "\<exists>v. review env reviewed i s = Inr v \<and> lr_current_status v = sr_lifecycle_status r \<and>
    (lr_recommended_status v = SKILL_STALE \<and> sr_lifecycle_status r = SKILL_ACTIVE \<longleftrightarrow>
      sr_lifecycle_status r = SKILL_ACTIVE \<and> stale_due (sf_policy env) reviewed r (usages i s))"
  using assms failure_rate [of "usages i s" "sk_maximum_failure_rate (sf_policy env)" su_success]
  by (cases "usages i s") (auto simp: review_def stale_due_def Let_def algebra_simps split: option.splits)

lemma review_effect:
  assumes "get_record (sf_sha env) i (sf_store st) = Inr r" "clock_ok now i (sf_store st)" "lifecycle_id_free env st"
  shows "sr_lifecycle_status r = SKILL_ACTIVE \<Longrightarrow> stale_due (sf_policy env) reviewed r (usages i (sf_store st)) \<Longrightarrow>
      fst (apply_review env reviewed now i st) = Inr (r\<lparr>sr_lifecycle_status := SKILL_STALE\<rparr>) \<and>
      (\<exists>e. sf_store (snd (apply_review env reviewed now i st)) = sf_store st\<lparr>ss_lifecycle := ss_lifecycle (sf_store st) @ [e]\<rparr> \<and>
        sl_skill_id e = i \<and> sl_action e = MARK_STALE)"
    and "\<not> (sr_lifecycle_status r = SKILL_ACTIVE \<and> stale_due (sf_policy env) reviewed r (usages i (sf_store st))) \<Longrightarrow>
      apply_review env reviewed now i st = (Inr r, st)"
proof -
  obtain v where v: "review env reviewed i (sf_store st) = Inr v" "lr_current_status v = sr_lifecycle_status r"
    "lr_recommended_status v = SKILL_STALE \<and> sr_lifecycle_status r = SKILL_ACTIVE \<longleftrightarrow>
      sr_lifecycle_status r = SKILL_ACTIVE \<and> stale_due (sf_policy env) reviewed r (usages i (sf_store st))"
    using review_recommends [OF assms(1)] by blast
  show "apply_review env reviewed now i st = (Inr r, st)"
    if "\<not> (sr_lifecycle_status r = SKILL_ACTIVE \<and> stale_due (sf_policy env) reviewed r (usages i (sf_store st)))"
    using that v assms(1) by (auto simp: apply_review_def bindS_def read_skills_def comp_simps)
  let ?reason = "''Curator marked skill stale from bounded usage telemetry review.''"
  let ?e = "lifecycle_event env now i MARK_STALE ''curator'' ''internal'' ?reason (sf_counter st)"
  let ?s = "sf_store st\<lparr>ss_lifecycle := ss_lifecycle (sf_store st) @ [?e]\<rparr>"
  have add: "add_lifecycle ?e (sf_store st) = (Inr ?e, ?s)"
    using assms(3) get_record_member [OF assms(1)] by (simp add: add_lifecycle_def lifecycle_event_def lifecycle_id_free_def)
  have get: "get_record (sf_sha env) i ?s = Inr (r\<lparr>sr_lifecycle_status := SKILL_STALE\<rparr>)"
    using get_record_after [of ?e, OF _ assms(1)] assms(2) by (simp add: lifecycle_event_def)
  show "fst (apply_review env reviewed now i st) = Inr (r\<lparr>sr_lifecycle_status := SKILL_STALE\<rparr>) \<and>
      (\<exists>e. sf_store (snd (apply_review env reviewed now i st)) = sf_store st\<lparr>ss_lifecycle := ss_lifecycle (sf_store st) @ [e]\<rparr> \<and>
        sl_skill_id e = i \<and> sl_action e = MARK_STALE)"
    if due: "sr_lifecycle_status r = SKILL_ACTIVE" "stale_due (sf_policy env) reviewed r (usages i (sf_store st))"
  proof -
    have "wp (apply_review env reviewed now i) (\<lambda>_. False) (\<lambda>x st'. x = r\<lparr>sr_lifecycle_status := SKILL_STALE\<rparr> \<and> sf_store st' = ?s) st"
      using v due add get by (simp add: apply_review_def wp_simps lifecycle_event_def)
    moreover have "sl_skill_id ?e = i" "sl_action ?e = MARK_STALE" by (simp_all add: lifecycle_event_def)
    ultimately show ?thesis by (auto simp: wp_def split: prod.splits sum.splits)
  qed
qed

text \<open>
  C32: For a readable skill, a review as of any instant by the curator alone marks it stale when it
  is active and, as of that instant, was idle for the whole freshness window, or failed more
  often than the policy allows over at least the policy's minimum of uses, or has no use at all
  under a policy whose minimum is not positive and whose failure rate is below one; every other
  review returns the record and leaves the factory as it was. The clock must have passed the
  second of the skill's last lifecycle event, and the drawn identifier must be new.\<close>

theorem curator_review:
  assumes "get_record (sf_sha env) i (sf_store st) = Inr r" "clock_ok now i (sf_store st)" "lifecycle_id_free env st"
  shows "if sr_lifecycle_status r = SKILL_ACTIVE \<and> stale_due (sf_policy env) reviewed r (usages i (sf_store st))
    then fst (apply_review env reviewed now i st) = Inr (r\<lparr>sr_lifecycle_status := SKILL_STALE\<rparr>) \<and>
      (\<exists>e. sf_store (snd (apply_review env reviewed now i st)) = sf_store st\<lparr>ss_lifecycle := ss_lifecycle (sf_store st) @ [e]\<rparr> \<and>
        sl_skill_id e = i \<and> sl_action e = MARK_STALE)
    else apply_review env reviewed now i st = (Inr r, st)"
  using review_effect [OF assms] by presburger

section \<open>A rejection during the installation\<close>

text \<open>The identifier the next registry record gets, in no table yet.\<close>

definition next_skill_id :: "skill_env \<Rightarrow> skill_state \<Rightarrow> string" where
  "next_skill_id env st = new_id ''skill'' (sf_hex env (sf_counter st))"

definition skill_id_free :: "skill_env \<Rightarrow> skill_state \<Rightarrow> bool" where
  "skill_id_free env st = (next_skill_id env st \<notin> sr_skill_id ` set (ss_registry (sf_store st)) \<and>
     next_skill_id env st \<notin> sl_skill_id ` set (ss_lifecycle (sf_store st)))"

lemma rejected_install:
  assumes "skill_reach env (st, fs)" "Flight_Decide (Await_Install c prior b who channel reason) \<in> set fs"
    and "get_skill_decision (sc_candidate_id c) (sf_store st) = Some d" "sd_decision d = SKILL_REJECT"
    and "sc_candidate_id c \<notin> sr_candidate_id ` set (ss_registry (sf_store st))" "skill_id_free env st"
  shows "\<exists>e. fst (decide_install env now c prior b who channel reason receipt st) = Inr (Await_Rollback receipt (Skill_Decision_Conflict e))"
    and "\<exists>r. get_record (sf_sha env) (next_skill_id env st) (sf_store (snd (decide_install env now c prior b who channel reason receipt st))) = Inr r \<and>
        sr_lifecycle_status r = SKILL_ACTIVE \<and> sr_candidate_id r = sc_candidate_id c"
proof -
  let ?r = "\<lparr>sr_candidate_id = sc_candidate_id c, sr_manifest = sc_manifest c, sr_provenance = sc_provenance c,
       sr_artifact_hash = skill_manifest_hash (sf_sha env) (sc_manifest c), sr_principal = who, sr_reason = reason,
       sr_install_receipt = receipt, sr_skill_id = next_skill_id env st, sr_activated_at = now, sr_lifecycle_status = SKILL_ACTIVE\<rparr>"
  let ?s = "sf_store st\<lparr>ss_registry := ss_registry (sf_store st) @ [?r]\<rparr>"
  have "sc_candidate_id c \<in> candidate_ids (sf_store st)"
    using skill_reach_inv [OF assms(1)] assms(2) by (force simp: world_inv_def vetted_def candidate_ids_def)
  then have add: "add_record ?r (sf_store st) = (Inr ?r, ?s)" using assms(5,6) by (simp add: add_record_def skill_id_free_def)
  have conflict: "add_skill_decision x ?s = (Inl (Skill_Decision_Conflict (''candidate '' @ sc_candidate_id c @ '' already has a terminal decision'')), ?s)"
    if "sd_candidate_id x = sc_candidate_id c" "sd_decision x = ACTIVATE" for x
    using that assms(3,4) by (simp add: add_skill_decision_def get_skill_decision_def)
  obtain e st' where reg: "register_skill env now c prior who channel reason receipt st = (Inl (Skill_Decision_Conflict e), st')" "sf_store st' = ?s"
    by (simp add: register_skill_def bindS_def skill_hex_def on_skills_def add [unfolded next_skill_id_def] conflict [unfolded next_skill_id_def] next_skill_id_def)
  then have inst: "decide_install env now c prior b who channel reason receipt st = (Inr (Await_Rollback receipt (Skill_Decision_Conflict e)), st')"
    by (simp add: decide_install_def)
  then show "\<exists>e. fst (decide_install env now c prior b who channel reason receipt st) = Inr (Await_Rollback receipt (Skill_Decision_Conflict e))"
    by simp
  have none: "find (\<lambda>r. sr_skill_id r = next_skill_id env st) (ss_registry (sf_store st)) = None"
    using assms(6) by (force simp: find_None_iff skill_id_free_def)
  have "filter (\<lambda>e. sl_skill_id e = next_skill_id env st) (ss_lifecycle (sf_store st)) = []"
    using assms(6) by (force simp: filter_empty_conv skill_id_free_def)
  with none have "get_record (sf_sha env) (next_skill_id env st) ?s = Inr ?r"
    by (simp add: get_record_def find_append of_option_def read_record_def decorate_record_def lifecycle_events_def)
  then show "\<exists>r. get_record (sf_sha env) (next_skill_id env st) (sf_store (snd (decide_install env now c prior b who channel reason receipt st))) = Inr r \<and>
        sr_lifecycle_status r = SKILL_ACTIVE \<and> sr_candidate_id r = sc_candidate_id c"
    using inst reg(2) by simp
qed

text \<open>
  C38: When a candidate is rejected while the installer of its activation is awaited, the activation
  ends with a conflict and the undone installation, but the record it has inserted before that stays
  in the registry as an active skill.\<close>

theorem rejected_install_stays_active:
  assumes "skill_reach env (st, fs)" "Flight_Decide (Await_Install c prior b who channel reason) \<in> set fs"
    and "get_skill_decision (sc_candidate_id c) (sf_store st) = Some d" "sd_decision d = SKILL_REJECT"
    and "sc_candidate_id c \<notin> sr_candidate_id ` set (ss_registry (sf_store st))" "skill_id_free env st"
  shows "(\<exists>e. fst (decide_install env now c prior b who channel reason receipt st) = Inr (Await_Rollback receipt (Skill_Decision_Conflict e))) \<and>
    (\<exists>r. get_record (sf_sha env) (next_skill_id env st) (sf_store (snd (decide_install env now c prior b who channel reason receipt st))) = Inr r \<and>
        sr_lifecycle_status r = SKILL_ACTIVE \<and> sr_candidate_id r = sc_candidate_id c)"
  by (intro conjI rejected_install [OF assms])

section \<open>A run\<close>

definition sample_skill_env :: skill_env where
  "sample_skill_env = \<lparr>sf_sha = filter (\<lambda>c. c \<in> set ''0123456789''), sf_fmt3 = (\<lambda>_. ''0''), sf_float = (\<lambda>_. ''0''), sf_hex = nat_str,
     sf_policy = shipped_skill_policy, sf_has_bus = False\<rparr>"

definition sample_manifest :: "string \<Rightarrow> skill_manifest" where
  "sample_manifest version = \<lparr>sm_name = ''lint'', sm_version = version, sm_summary = ''s'', sm_instructions = ''i'',
     sm_usage = \<lparr>uc_capabilities = [''code.lint''], uc_input_schema = [], uc_output_schema = [], uc_side_effects = [],
       uc_runtime_requirements = []\<rparr>, sm_tags = [], sm_metadata = []\<rparr>"

definition sample_check :: "check_kind \<Rightarrow> check_command" where
  "sample_check k = \<lparr>ck_argv = [''t''], ck_kind = k, ck_name = ''t'', ck_timeout_seconds = 60\<rparr>"

definition sample_skill_request :: "string \<Rightarrow> string option \<Rightarrow> skill_request" where
  "sample_skill_request version retry = \<lparr>sq_manifest = sample_manifest version,
     sq_provenance = \<lparr>sv_trigger_type = CAPABILITY_GAP, sv_trigger_fingerprint = ''gap'', sv_evidence_ids = [''e''], sv_observed_count = 1,
       sv_successful_count = 0, sv_source_workflow = None, sv_generator_id = ''g'', sv_prior_skill_id = None, sv_metadata = []\<rparr>,
     sq_deterministic_checks = [sample_check DETERMINISTIC], sq_heldout_checks = [sample_check HELDOUT], sq_rationale = ''r'',
     sq_retry_reason = retry\<rparr>"

definition sample_skill_candidate :: "string \<Rightarrow> nat \<Rightarrow> instant \<Rightarrow> skill_candidate" where
  "sample_skill_candidate version n t = (let q = sample_skill_request version None in
     \<lparr>sc_manifest = sq_manifest q, sc_provenance = sq_provenance q, sc_deterministic_checks = sq_deterministic_checks q,
      sc_heldout_checks = sq_heldout_checks q, sc_rationale = sq_rationale q, sc_retry_reason = sq_retry_reason q,
      sc_candidate_id = new_id ''skill-candidate'' (nat_str n), sc_created_at = t, sc_status = SKILL_DRAFT, sc_benchmark_id = None,
      sc_decision_id = None, sc_skill_id = None\<rparr>)"

definition sample_skill_result :: "string \<Rightarrow> string \<Rightarrow> skill_benchmark" where
  "sample_skill_result c i = \<lparr>sb_candidate_id = c, sb_sandbox_id = ''box'', sb_baseline_score = 0, sb_candidate_score = 1, sb_improvement = 1,
     sb_regression_count = 0, sb_checks = [\<lparr>cx_name = ''t'', cx_kind = HELDOUT, cx_phase = ''candidate'', cx_passed = True, cx_exit_code = 0,
       cx_duration_seconds = 0, cx_stdout = [], cx_stderr = []\<rparr>], sb_passed = True, sb_blockers = [], sb_metadata = [],
     sb_benchmark_id = i, sb_created_at = Some 105\<rparr>"

definition sample_skill_reason :: string where
  "sample_skill_reason = ''reviewed and safe''"

definition sample_receipt :: install_receipt where
  "sample_receipt = \<lparr>ir_adapter_id = ''a'', ir_install_path = ''p'', ir_activation_pointer = ''q'', ir_previous_pointer_content = None,
     ir_metadata = []\<rparr>"

definition sample_skill_row :: "string \<Rightarrow> nat \<Rightarrow> instant \<Rightarrow> candidate_row" where
  "sample_skill_row version n t = \<lparr>cd_candidate = sample_skill_candidate version n t, cd_artifact_hash = version, cd_semantic_hash = version\<rparr>"

definition sample_learning :: "string option \<Rightarrow> string \<Rightarrow> string \<Rightarrow> string \<Rightarrow> (string, json) dict \<Rightarrow> instant \<Rightarrow> skill_learning" where
  "sample_learning skill c outcome summary meta t = \<lparr>lg_skill_id = skill, lg_candidate_id = Some c, lg_fingerprint = ''gap'', lg_outcome = outcome,
     lg_summary = summary, lg_metadata = meta, lg_created_at = t\<rparr>"

definition sample_passed :: "string \<Rightarrow> string \<Rightarrow> instant \<Rightarrow> skill_learning" where
  "sample_passed c b t = sample_learning None c ''benchmark-passed'' ''Skill benchmark passed.''
     [(''benchmark_id'', JStr b), (''improvement'', JFloat ''0'')] t"

definition sample_learned :: "string \<Rightarrow> string \<Rightarrow> string \<Rightarrow> string \<Rightarrow> instant \<Rightarrow> skill_learning" where
  "sample_learned skill c d b t = sample_learning (Some skill) c ''activated'' sample_skill_reason [(''decision_id'', JStr d), (''benchmark_id'', JStr b)] t"

definition sample_skill_decision :: "string \<Rightarrow> skill_decision_type \<Rightarrow> string \<Rightarrow> instant \<Rightarrow> string option \<Rightarrow> skill_decision" where
  "sample_skill_decision c x i t skill = \<lparr>sd_candidate_id = c, sd_decision = x, sd_principal = ''founder'', sd_channel = ''cli'',
     sd_reason = sample_skill_reason, sd_decision_id = i, sd_decided_at = t, sd_skill_id = skill\<rparr>"

definition sample_record :: "skill_candidate \<Rightarrow> string \<Rightarrow> string \<Rightarrow> instant \<Rightarrow> skill_record" where
  "sample_record c hash i t = \<lparr>sr_candidate_id = sc_candidate_id c, sr_manifest = sc_manifest c, sr_provenance = sc_provenance c,
     sr_artifact_hash = hash, sr_principal = ''founder'', sr_reason = sample_skill_reason, sr_install_receipt = sample_receipt,
     sr_skill_id = i, sr_activated_at = t, sr_lifecycle_status = SKILL_ACTIVE\<rparr>"

definition sample_skills :: "candidate_row list \<Rightarrow> skill_benchmark list \<Rightarrow> skill_decision list \<Rightarrow> skill_record list \<Rightarrow> skill_lifecycle list
    \<Rightarrow> skill_learning list \<Rightarrow> nat \<Rightarrow> skill_state" where
  "sample_skills cs bs ds rs es ls n = \<lparr>sf_store = \<lparr>ss_candidates = cs, ss_benchmarks = bs, ss_decisions = ds, ss_registry = rs, ss_usage = [],
     ss_lifecycle = es, ss_learnings = ls\<rparr>, sf_journal = [], sf_counter = n\<rparr>"

abbreviation candidate_1 :: string where "candidate_1 \<equiv> ''skill-candidate.0''"
abbreviation candidate_2 :: string where "candidate_2 \<equiv> ''skill-candidate.4''"
abbreviation draft_1 :: skill_candidate where "draft_1 \<equiv> sample_skill_candidate ''1'' 0 100"
abbreviation draft_2 :: skill_candidate where "draft_2 \<equiv> sample_skill_candidate ''2'' 4 150"
abbreviation result_1 :: skill_benchmark where "result_1 \<equiv> sample_skill_result candidate_1 ''b''"
abbreviation result_2 :: skill_benchmark where "result_2 \<equiv> sample_skill_result candidate_2 ''c''"

definition verified_1 :: skill_candidate where
  "verified_1 = draft_1\<lparr>sc_status := SKILL_VERIFIED, sc_benchmark_id := Some ''b''\<rparr>"

definition verified_2 :: skill_candidate where
  "verified_2 = draft_2\<lparr>sc_status := SKILL_VERIFIED, sc_benchmark_id := Some ''c''\<rparr>"

definition install_1 :: decide_step where
  "install_1 = Await_Install verified_1 None result_1 ''founder'' ''cli'' sample_skill_reason"

definition install_2 :: decide_step where
  "install_2 = Await_Install verified_2 None result_2 ''founder'' ''cli'' sample_skill_reason"

definition sample_proposed :: skill_state where
  "sample_proposed = sample_skills [sample_skill_row ''1'' 0 100] [] [] [] [] [] 1"

definition sample_retried :: skill_state where
  "sample_retried = sample_skills [sample_skill_row ''1'' 0 100, \<lparr>cd_candidate = (sample_skill_candidate ''1'' 1 180)\<lparr>sc_retry_reason := Some ''Try 7''\<rparr>,
     cd_artifact_hash = ''1'', cd_semantic_hash = ''17''\<rparr>] [] [] [] [] [] 2"

definition sample_benchmarked :: skill_state where
  "sample_benchmarked = sample_skills [sample_skill_row ''1'' 0 100] [result_1] [] [] [] [sample_passed candidate_1 ''b'' 110] 1"

text \<open>The candidate rejected while its installer is awaited.\<close>

definition sample_refused :: skill_state where
  "sample_refused = sample_skills [sample_skill_row ''1'' 0 100] [result_1] [sample_skill_decision candidate_1 SKILL_REJECT ''skill-decision.1'' 125 None] [] []
     [sample_passed candidate_1 ''b'' 110,
      sample_learning None candidate_1 ''rejected'' sample_skill_reason [(''decision_id'', JStr ''skill-decision.1'')] 125] 2"

definition sample_activated :: skill_state where
  "sample_activated = sample_skills [sample_skill_row ''1'' 0 100] [result_1]
     [sample_skill_decision candidate_1 ACTIVATE ''skill-decision.2'' 130 (Some ''skill.1'')]
     [sample_record verified_1 ''1'' ''skill.1'' 130] []
     [sample_passed candidate_1 ''b'' 110, sample_learned ''skill.1'' candidate_1 ''skill-decision.2'' ''b'' 130] 3"

definition sample_skill_archive :: skill_lifecycle where
  "sample_skill_archive = \<lparr>sl_skill_id = ''skill.1'', sl_action = ARCHIVE, sl_principal = ''founder'', sl_channel = ''cli'', sl_reason = sample_skill_reason,
     sl_lifecycle_id = ''skill-lifecycle.3'', sl_created_at = 140\<rparr>"

definition sample_archived :: skill_state where
  "sample_archived = sample_skills [sample_skill_row ''1'' 0 100] [result_1]
     [sample_skill_decision candidate_1 ACTIVATE ''skill-decision.2'' 130 (Some ''skill.1'')]
     [sample_record verified_1 ''1'' ''skill.1'' 130] [sample_skill_archive]
     [sample_passed candidate_1 ''b'' 110, sample_learned ''skill.1'' candidate_1 ''skill-decision.2'' ''b'' 130] 4"

text \<open>A second skill of the same name, activated while the first is archived.\<close>

definition sample_second :: "skill_benchmark list \<Rightarrow> skill_decision list \<Rightarrow> skill_record list \<Rightarrow> skill_learning list \<Rightarrow> nat \<Rightarrow> skill_state" where
  "sample_second bs ds rs ls n = sample_skills [sample_skill_row ''1'' 0 100, sample_skill_row ''2'' 4 150] (result_1 # bs)
     (sample_skill_decision candidate_1 ACTIVATE ''skill-decision.2'' 130 (Some ''skill.1'') # ds)
     (sample_record verified_1 ''1'' ''skill.1'' 130 # rs) [sample_skill_archive]
     (sample_passed candidate_1 ''b'' 110 # sample_learned ''skill.1'' candidate_1 ''skill-decision.2'' ''b'' 130 # ls) n"

definition sample_two :: skill_state where
  "sample_two = sample_second [result_2] [sample_skill_decision candidate_2 ACTIVATE ''skill-decision.6'' 170 (Some ''skill.5'')]
     [sample_record verified_2 ''2'' ''skill.5'' 170]
     [sample_passed candidate_2 ''c'' 160, sample_learned ''skill.5'' candidate_2 ''skill-decision.6'' ''c'' 170] 7"

lemma sample_valid:
  "v \<in> {''1'', ''2''} \<Longrightarrow> validate_candidate (sf_sha sample_skill_env) shipped_skill_policy (sample_skill_candidate v 0 0) None = []"
  by (elim insertE emptyE; simp; code_simp)

lemma sample_valid_all:
  "v \<in> {''1'', ''2''} \<Longrightarrow>
    validate_candidate (sf_sha sample_skill_env) (sf_policy sample_skill_env) ((sample_skill_candidate v n t)\<lparr>sc_retry_reason := x\<rparr>) None = []"
  using sample_valid [of v]
  by (simp add: validate_candidate_def candidate_blockers_def trigger_blockers_def sample_skill_candidate_def sample_skill_request_def sample_skill_env_def Let_def)

lemma sample_hash: "skill_manifest_hash (sf_sha sample_skill_env) (sample_manifest ''1'') = ''1''" "skill_manifest_hash (sf_sha sample_skill_env) (sample_manifest ''2'') = ''2''"
  by code_simp+

lemma sample_semantic:
  "skill_candidate_semantic_hash (sf_sha sample_skill_env) (sample_skill_candidate ''1'' 0 0) = ''1''"
  "skill_candidate_semantic_hash (sf_sha sample_skill_env) (sample_skill_candidate ''2'' 0 0) = ''2''"
  by code_simp+

lemma sample_semantic_all:
  assumes "v \<in> {''1'', ''2''}"
  shows "skill_candidate_semantic_hash (sf_sha sample_skill_env) ((sample_skill_candidate v n t)\<lparr>sc_retry_reason := x\<rparr>) = v"
proof -
  have "skill_candidate_semantic_hash (sf_sha sample_skill_env) ((sample_skill_candidate v n t)\<lparr>sc_retry_reason := x\<rparr>) =
      skill_candidate_semantic_hash (sf_sha sample_skill_env) (sample_skill_candidate v 0 0)"
    by (simp add: skill_candidate_semantic_hash_def semantic_payload_def sample_skill_candidate_def Let_def)
  with assms sample_semantic show ?thesis by auto
qed

lemma sample_propose_general:
  assumes "v \<in> {''1'', ''2''}" "c = (sample_skill_candidate v (sf_counter st) now)\<lparr>sc_retry_reason := x\<rparr>"
    and "candidates_for_name (sf_sha sample_skill_env) ''lint'' 100 (sf_store st) = Inr previous"
    and "\<forall>p \<in> set previous. \<not> failed_candidate (sf_store st) (sc_candidate_id p)"
    and "add_candidate (sf_sha sample_skill_env) c (attempt_hash sample_skill_env v x) (sf_store st) = (Inr c, s')"
  shows "propose sample_skill_env now (sample_skill_request v x) st = (Inr c, st\<lparr>sf_store := s', sf_counter := Suc (sf_counter st)\<rparr>)"
proof -
  let ?q = "sample_skill_request v x"
  have c: "\<lparr>sc_manifest = sq_manifest ?q, sc_provenance = sq_provenance ?q, sc_deterministic_checks = sq_deterministic_checks ?q,
      sc_heldout_checks = sq_heldout_checks ?q, sc_rationale = sq_rationale ?q, sc_retry_reason = x,
      sc_candidate_id = new_id ''skill-candidate'' (nat_str (sf_counter st)), sc_created_at = now, sc_status = SKILL_DRAFT, sc_benchmark_id = None,
      sc_decision_id = None, sc_skill_id = None\<rparr> = c"
    by (simp add: assms(2) sample_skill_candidate_def sample_skill_request_def Let_def)
  have q: "sv_prior_skill_id (sq_provenance ?q) = None" "sm_name (sq_manifest ?q) = ''lint''" "sq_retry_reason ?q = x"
    by (simp_all add: sample_skill_request_def sample_manifest_def)
  have env: "sf_hex sample_skill_env = nat_str" "\<not> sf_has_bus sample_skill_env" by (simp_all add: sample_skill_env_def)
  have "\<not> list_ex (\<lambda>p. skill_candidate_semantic_hash (sf_sha sample_skill_env) p = v \<and> failed_candidate (sf_store st) (sc_candidate_id p)) previous"
    using assms(4) by (auto simp: list_ex_iff)
  then show ?thesis
    using assms(3,5) sample_valid_all [OF assms(1)] sample_semantic_all [OF assms(1)]
    by (simp add: propose_def prior_record_def Let_def bindS_def skill_hex_def read_skills_def on_skills_def blocked_def skill_emit_def
        comp_simps q env c [unfolded assms(2)] assms(2) ostr_or_def)
qed

lemma sample_skill_propose: "snd (propose sample_skill_env 100 (sample_skill_request ''1'' None) initial_skills) = sample_proposed"
proof -
  have "propose sample_skill_env 100 (sample_skill_request ''1'' None) initial_skills =
      (Inr (draft_1\<lparr>sc_retry_reason := None\<rparr>), initial_skills\<lparr>sf_store := sf_store sample_proposed, sf_counter := Suc (sf_counter initial_skills)\<rparr>)"
    by (rule sample_propose_general [where previous = "[]"]) (simp, code_simp, code_simp, simp, code_simp)
  then show ?thesis by (simp add: sample_proposed_def sample_skills_def initial_skills_def)
qed

lemma sample_propose_retry: "snd (propose sample_skill_env 180 (sample_skill_request ''1'' (Some ''Try 7'')) sample_proposed) = sample_retried"
proof -
  have "propose sample_skill_env 180 (sample_skill_request ''1'' (Some ''Try 7'')) sample_proposed =
      (Inr ((sample_skill_candidate ''1'' 1 180)\<lparr>sc_retry_reason := Some ''Try 7''\<rparr>),
       sample_proposed\<lparr>sf_store := sf_store sample_retried, sf_counter := Suc (sf_counter sample_proposed)\<rparr>)"
    by (rule sample_propose_general [where previous = "[draft_1]"]) (simp, code_simp, code_simp, code_simp, code_simp)
  then show ?thesis by (simp add: sample_proposed_def sample_retried_def sample_skills_def)
qed

lemma sample_propose_second: "snd (propose sample_skill_env 150 (sample_skill_request ''2'' None) sample_archived) = sample_second [] [] [] [] 5"
proof -
  have "propose sample_skill_env 150 (sample_skill_request ''2'' None) sample_archived =
      (Inr (draft_2\<lparr>sc_retry_reason := None\<rparr>),
       sample_archived\<lparr>sf_store := sf_store (sample_second [] [] [] [] 5), sf_counter := Suc (sf_counter sample_archived)\<rparr>)"
    by (rule sample_propose_general [where previous = "[verified_1\<lparr>sc_status := SKILL_CANDIDATE_ACTIVE, sc_decision_id := Some ''skill-decision.2'',
         sc_skill_id := Some ''skill.1''\<rparr>]"]) (simp, code_simp, code_simp, code_simp, code_simp)
  then show ?thesis by (simp add: sample_archived_def sample_second_def sample_skills_def)
qed

lemma sample_benchmark_1:
  "benchmark_begin sample_skill_env candidate_1 sample_proposed = (Inr (Await_Sandbox draft_1 None), sample_proposed)"
  by code_simp

lemma sample_benchmark_2:
  "snd (benchmark_finish sample_skill_env 110 draft_1 result_1 sample_proposed) = sample_benchmarked"
  by code_simp

lemma sample_benchmark_3:
  "benchmark_begin sample_skill_env candidate_2 (sample_second [] [] [] [] 5) = (Inr (Await_Sandbox draft_2 None), sample_second [] [] [] [] 5)"
  by code_simp

lemma sample_benchmark_4:
  "snd (benchmark_finish sample_skill_env 160 draft_2 result_2 (sample_second [] [] [] [] 5)) =
    sample_second [result_2] [] [] [sample_passed candidate_2 ''c'' 160] 5"
  by code_simp

lemmas sample_benchmark = sample_benchmark_1 sample_benchmark_2 sample_benchmark_3 sample_benchmark_4

lemma sample_decide_1:
  "decide_begin sample_skill_env 120 candidate_1 True ''founder'' ''cli'' sample_skill_reason True sample_benchmarked =
    (Inr install_1, sample_benchmarked)"
  by code_simp

lemma sample_decide_2:
  "decide_flights (fst (decide_begin sample_skill_env 125 candidate_1 False ''founder'' ''cli'' sample_skill_reason True sample_benchmarked)) = []"
  by code_simp

lemma sample_decide_3:
  "snd (decide_begin sample_skill_env 125 candidate_1 False ''founder'' ''cli'' sample_skill_reason True sample_benchmarked) = sample_refused"
  by code_simp

lemma sample_decide_4:
  "decide_begin sample_skill_env 165 candidate_2 True ''founder'' ''cli'' sample_skill_reason True
    (sample_second [result_2] [] [] [sample_passed candidate_2 ''c'' 160] 5) =
    (Inr install_2, sample_second [result_2] [] [] [sample_passed candidate_2 ''c'' 160] 5)"
  by code_simp

lemmas sample_decide = sample_decide_1 sample_decide_2 sample_decide_3 sample_decide_4

lemma sample_installed_1:
  "decide_flights (fst (decide_install sample_skill_env 130 verified_1 None result_1 ''founder'' ''cli'' sample_skill_reason sample_receipt
    sample_benchmarked)) = []"
  by code_simp

lemma sample_installed_2:
  "snd (decide_install sample_skill_env 130 verified_1 None result_1 ''founder'' ''cli'' sample_skill_reason sample_receipt sample_benchmarked) =
    sample_activated"
  by code_simp

lemma sample_installed_3:
  "decide_flights (fst (decide_install sample_skill_env 170 verified_2 None result_2 ''founder'' ''cli'' sample_skill_reason sample_receipt
    (sample_second [result_2] [] [] [sample_passed candidate_2 ''c'' 160] 5))) = []"
  by code_simp

lemma sample_installed_4:
  "snd (decide_install sample_skill_env 170 verified_2 None result_2 ''founder'' ''cli'' sample_skill_reason sample_receipt
    (sample_second [result_2] [] [] [sample_passed candidate_2 ''c'' 160] 5)) = sample_two"
  by code_simp

lemmas sample_installed = sample_installed_1 sample_installed_2 sample_installed_3 sample_installed_4

lemma sample_archive_1:
  "lifecycle_flights (fst (lifecycle_begin sample_skill_env 140 ''skill.1'' ARCHIVE ''founder'' ''cli'' sample_skill_reason False False sample_activated)) = []"
  by code_simp

lemma sample_archive_2:
  "snd (lifecycle_begin sample_skill_env 140 ''skill.1'' ARCHIVE ''founder'' ''cli'' sample_skill_reason False False sample_activated) = sample_archived"
  by code_simp

lemmas sample_archive = sample_archive_1 sample_archive_2

section \<open>Reachability and instances\<close>

lemma sample_step_install: "skill_step sample_skill_env (sample_benchmarked, []) (sample_benchmarked, [Flight_Decide install_1])"
  using skill_step.decide [OF sample_decide(1), of "[]"] by (simp add: install_1_def)

lemma sample_step_activate: "skill_step sample_skill_env (sample_benchmarked, [Flight_Decide install_1]) (sample_activated, [])"
  using skill_step.installed [OF install_1_def [THEN arg_cong, of Flight_Decide] _ prod.collapse [symmetric],
      where fs = "[Flight_Decide install_1]" and env = sample_skill_env and now = 130 and receipt = sample_receipt and st = sample_benchmarked]
  by (simp add: sample_installed)

lemma sample_reach_proposed: "skill_reach sample_skill_env (sample_proposed, [])" "skill_reach sample_skill_env (sample_retried, [])"
proof -
  show p: "skill_reach sample_skill_env (sample_proposed, [])"
    using skill_reach.step [OF skill_reach.start skill_step.propose] sample_skill_propose by metis
  show "skill_reach sample_skill_env (sample_retried, [])"
    using skill_reach.step [OF p skill_step.propose] sample_propose_retry by metis
qed

text \<open>A candidate, its benchmark and the call of the installer.\<close>

lemma sample_reach_flight:
  assumes "skill_reach sample_skill_env (st, [])"
    and "benchmark_begin sample_skill_env i st = (Inr (Await_Sandbox c None), st)" "snd (benchmark_finish sample_skill_env t c result st) = st'"
  shows "skill_reach sample_skill_env (st', [])"
proof -
  have "skill_reach sample_skill_env (st, [Flight_Sandbox c])"
    using skill_reach.step [OF assms(1) skill_step.benchmark [OF assms(2)]] by simp
  from skill_reach.step [OF this skill_step.benchmarked, of c t result] show ?thesis using assms(3) by simp
qed

lemma sample_reach_benchmarked: "skill_reach sample_skill_env (sample_benchmarked, [])"
  using sample_reach_flight [OF sample_reach_proposed(1) sample_benchmark(1,2)] .

lemma sample_reach_install: "skill_reach sample_skill_env (sample_benchmarked, [Flight_Decide install_1])"
  using sample_reach_benchmarked sample_step_install by (rule skill_reach.step)

lemma sample_reach_activated: "skill_reach sample_skill_env (sample_activated, [])"
  using sample_reach_install sample_step_activate by (rule skill_reach.step)

lemma sample_reach_refused: "skill_reach sample_skill_env (sample_refused, [Flight_Decide install_1])"
  using skill_reach.step [OF sample_reach_install skill_step.decide [OF prod.collapse [symmetric]]] sample_decide(2,3)
  by (metis append_Nil)

lemma sample_reach_archived: "skill_reach sample_skill_env (sample_archived, [])"
  using skill_reach.step [OF sample_reach_activated skill_step.lifecycle [OF prod.collapse [symmetric]]] sample_archive
  by (metis append_Nil)

lemma sample_reach_two: "skill_reach sample_skill_env (sample_two, [])"
proof -
  let ?b = "sample_second [result_2] [] [] [sample_passed candidate_2 ''c'' 160] 5"
  have "skill_reach sample_skill_env (sample_second [] [] [] [] 5, [])"
    using skill_reach.step [OF sample_reach_archived skill_step.propose] sample_propose_second by metis
  from sample_reach_flight [OF this sample_benchmark(3,4)] have "skill_reach sample_skill_env (?b, [])" .
  from skill_reach.step [OF this skill_step.decide [OF sample_decide(4)]]
  have flight: "skill_reach sample_skill_env (?b, [Flight_Decide install_2])" by (simp add: install_2_def)
  have "skill_step sample_skill_env (?b, [Flight_Decide install_2]) (sample_two, [])"
    using skill_step.installed [OF install_2_def [THEN arg_cong, of Flight_Decide] _ prod.collapse [symmetric],
        where fs = "[Flight_Decide install_2]" and env = sample_skill_env and now = 170 and receipt = sample_receipt and st = ?b]
    by (simp add: sample_installed)
  with flight show ?thesis by (rule skill_reach.step)
qed

theorem registered_skill_vetted_witness:
  "(\<exists>b. get_benchmark candidate_1 (sf_store sample_activated) = Some b \<and> sb_passed b \<and> 7 / 10 \<le> sb_candidate_score b) \<and>
   ''founder'' \<in> set (sk_trusted_principals shipped_skill_policy)"
proof -
  have r: "sample_record verified_1 ''1'' ''skill.1'' 130 \<in> set (ss_registry (sf_store sample_activated))"
    by (simp add: sample_activated_def sample_skills_def)
  have id: "sr_candidate_id (sample_record verified_1 ''1'' ''skill.1'' 130) = candidate_1" by code_simp
  have "sf_policy sample_skill_env = shipped_skill_policy" "sk_minimum_candidate_score shipped_skill_policy = 7 / 10"
    "sr_principal (sample_record verified_1 ''1'' ''skill.1'' 130) = ''founder''"
    by (simp_all add: sample_skill_env_def shipped_skill_policy_def sample_record_def)
  with registered_skill_vetted [OF sample_reach_activated r] show ?thesis unfolding id by auto
qed

theorem attempts_never_repeat_witness: "retry_key None \<noteq> retry_key (Some ''Try 7'')"
proof -
  have "semantic_payload (sf_sha sample_skill_env) (cd_candidate (ss_candidates (sf_store sample_retried) ! 0)) =
      semantic_payload (sf_sha sample_skill_env) (cd_candidate (ss_candidates (sf_store sample_retried) ! 1))"
    by (simp add: semantic_payload_def sample_retried_def sample_skills_def sample_skill_row_def sample_skill_candidate_def Let_def)
  from attempts_never_repeat [OF sample_reach_proposed(2) _ _ _ this] show ?thesis
    by (simp add: sample_retried_def sample_skills_def sample_skill_row_def sample_skill_candidate_def sample_skill_request_def Let_def)
qed

theorem skill_ledger_append_only_witness: "get_benchmark candidate_1 (sf_store sample_activated) = Some result_1"
proof -
  have run: "(skill_step sample_skill_env)\<^sup>*\<^sup>* (sample_benchmarked, []) (sample_activated, [])"
    using sample_step_install sample_step_activate by (meson rtranclp.simps)
  have "get_benchmark candidate_1 (sf_store sample_benchmarked) = Some result_1"
    by (simp add: get_benchmark_def sample_benchmarked_def sample_skills_def sample_skill_result_def)
  from skill_ledger_append_only(6) [OF run this] show ?thesis .
qed

definition sample_usage :: skill_usage where
  "sample_usage = \<lparr>su_skill_id = ''skill.1'', su_runtime_id = ''r'', su_success = True, su_duration_seconds = 1, su_session_id = None,
     su_event_id = None, su_error_fingerprint = None, su_metadata = [], su_usage_id = ''u'', su_used_at = None\<rparr>"

lemma sample_manifest_of: "sc_manifest verified_1 = sample_manifest ''1''" "sc_manifest verified_2 = sample_manifest ''2''"
  by (simp_all add: verified_1_def verified_2_def sample_skill_candidate_def sample_skill_request_def Let_def)

lemma sample_get:
  "get_record (sf_sha sample_skill_env) ''skill.1'' (sf_store sample_activated) = Inr (sample_record verified_1 ''1'' ''skill.1'' 130)"
  "get_record (sf_sha sample_skill_env) ''skill.1'' (sf_store sample_archived) =
    Inr ((sample_record verified_1 ''1'' ''skill.1'' 130)\<lparr>sr_lifecycle_status := SKILL_ARCHIVED\<rparr>)"
  "get_record (sf_sha sample_skill_env) ''skill.1'' (sf_store sample_two) =
    Inr ((sample_record verified_1 ''1'' ''skill.1'' 130)\<lparr>sr_lifecycle_status := SKILL_ARCHIVED\<rparr>)"
  "get_record (sf_sha sample_skill_env) ''skill.5'' (sf_store sample_two) = Inr (sample_record verified_2 ''2'' ''skill.5'' 170)"
  by (simp_all add: get_record_def read_record_def of_option_def decorate_record_def lifecycle_events_def sample_activated_def sample_archived_def
      sample_two_def sample_second_def sample_skills_def sample_record_def sample_skill_archive_def sample_manifest_of sample_hash)

lemma sample_reason_length: "12 \<le> length (strip sample_skill_reason)"
  by code_simp

theorem stale_mark_revives_witness:
  "\<exists>saved. fst (record_usage sample_skill_env 200 sample_usage (snd (lifecycle_begin sample_skill_env 200 ''skill.1'' MARK_STALE ''mallory'' ''chat''
      sample_skill_reason False False sample_archived))) = Inr saved"
proof -
  have id: "su_skill_id sample_usage = ''skill.1''" by (simp add: sample_usage_def)
  have "\<not> executable (sr_lifecycle_status ((sample_record verified_1 ''1'' ''skill.1'' 130)\<lparr>sr_lifecycle_status := SKILL_ARCHIVED\<rparr>))"
    by (simp add: executable_def)
  moreover have "clock_ok 200 ''skill.1'' (sf_store sample_archived)" "lifecycle_id_free sample_skill_env sample_archived" by code_simp+
  moreover have "su_usage_id sample_usage \<notin> su_usage_id ` set (ss_usage (sf_store sample_archived))"
    by (simp add: sample_archived_def sample_skills_def)
  ultimately show ?thesis using stale_mark_revives [of sample_skill_env sample_usage, unfolded id, OF sample_get(2) _ sample_reason_length] by blast
qed

theorem reactivation_doubles_name_witness:
  "get_record (sf_sha sample_skill_env) ''skill.1'' (sf_store (snd (lifecycle_begin sample_skill_env 200 ''skill.1'' REACTIVATE ''founder'' ''cli''
      sample_skill_reason False True sample_two))) = Inr (sample_record verified_1 ''1'' ''skill.1'' 130) \<and>
   get_record (sf_sha sample_skill_env) ''skill.5'' (sf_store (snd (lifecycle_begin sample_skill_env 200 ''skill.1'' REACTIVATE ''founder'' ''cli''
      sample_skill_reason False True sample_two))) = Inr (sample_record verified_2 ''2'' ''skill.5'' 170)"
proof -
  have "executable (sr_lifecycle_status (sample_record verified_2 ''2'' ''skill.5'' 170))" by (simp add: executable_def sample_record_def)
  moreover have "sm_name (sr_manifest (sample_record verified_2 ''2'' ''skill.5'' 170)) =
      sm_name (sr_manifest ((sample_record verified_1 ''1'' ''skill.1'' 130)\<lparr>sr_lifecycle_status := SKILL_ARCHIVED\<rparr>))"
    by code_simp
  moreover have "''founder'' \<in> set (sk_trusted_principals (sf_policy sample_skill_env))" by (simp add: sample_skill_env_def shipped_skill_policy_def)
  moreover have "clock_ok 200 ''skill.1'' (sf_store sample_two)" "lifecycle_id_free sample_skill_env sample_two" by code_simp+
  moreover have "(sample_record verified_1 ''1'' ''skill.1'' 130)\<lparr>sr_lifecycle_status := SKILL_ACTIVE\<rparr> = sample_record verified_1 ''1'' ''skill.1'' 130"
    by (simp add: sample_record_def)
  ultimately show ?thesis
    using reactivation_doubles_name [OF sample_get(3) _ sample_get(4), of "''founder''" sample_skill_reason 200 "''cli''" False] sample_reason_length by simp
qed

theorem same_second_change_lost_witness:
  "\<exists>st'. lifecycle_finish sample_skill_env 140 ''skill.1'' REACTIVATE ''founder'' ''cli'' sample_skill_reason sample_archived =
      (Inr ((sample_record verified_1 ''1'' ''skill.1'' 130)\<lparr>sr_lifecycle_status := SKILL_ARCHIVED\<rparr>), st')"
proof -
  have "same_second 140 ''skill.1'' (sf_store sample_archived)" "lifecycle_id_free sample_skill_env sample_archived" by code_simp+
  from same_second_change_lost [OF sample_get(2) this, of REACTIVATE "''founder''" "''cli''" sample_skill_reason] show ?thesis by blast
qed

theorem curator_review_witness:
  "fst (apply_review sample_skill_env 2592130 2592131 ''skill.1'' sample_activated) =
    Inr ((sample_record verified_1 ''1'' ''skill.1'' 130)\<lparr>sr_lifecycle_status := SKILL_STALE\<rparr>)"
proof -
  have "clock_ok 2592131 ''skill.1'' (sf_store sample_activated)" "lifecycle_id_free sample_skill_env sample_activated" by code_simp+
  moreover have "stale_due (sf_policy sample_skill_env) 2592130 (sample_record verified_1 ''1'' ''skill.1'' 130) (usages ''skill.1'' (sf_store sample_activated))"
    by code_simp
  moreover have "sr_lifecycle_status (sample_record verified_1 ''1'' ''skill.1'' 130) = SKILL_ACTIVE" by (simp add: sample_record_def)
  ultimately show ?thesis using curator_review [OF sample_get(1)] by presburger
qed

theorem rejected_install_stays_active_witness:
  "\<exists>r. get_record (sf_sha sample_skill_env) ''skill.2'' (sf_store (snd (decide_install sample_skill_env 130 verified_1 None result_1 ''founder'' ''cli''
      sample_skill_reason sample_receipt sample_refused))) = Inr r \<and> sr_lifecycle_status r = SKILL_ACTIVE \<and> sr_candidate_id r = candidate_1"
proof -
  have flight: "Flight_Decide (Await_Install verified_1 None result_1 ''founder'' ''cli'' sample_skill_reason) \<in> set [Flight_Decide install_1]"
    by (simp add: install_1_def)
  have c: "sc_candidate_id verified_1 = candidate_1" by code_simp
  have "get_skill_decision candidate_1 (sf_store sample_refused) =
      Some (sample_skill_decision candidate_1 SKILL_REJECT ''skill-decision.1'' 125 None)"
    by (simp add: get_skill_decision_def sample_refused_def sample_skills_def sample_skill_decision_def)
  moreover have "sd_decision (sample_skill_decision candidate_1 SKILL_REJECT ''skill-decision.1'' 125 None) = SKILL_REJECT"
    by (simp add: sample_skill_decision_def)
  moreover have "candidate_1 \<notin> sr_candidate_id ` set (ss_registry (sf_store sample_refused))" by (simp add: sample_refused_def sample_skills_def)
  moreover have "skill_id_free sample_skill_env sample_refused" by code_simp
  moreover have "next_skill_id sample_skill_env sample_refused = ''skill.2''" by code_simp
  ultimately show ?thesis
    using rejected_install_stays_active [OF sample_reach_refused flight, unfolded c, of _ 130 sample_receipt] by metis
qed

end
