(* ===== verification/Capability_Lifecycle.thy ===== *)
theory Capability_Lifecycle
  imports Contracts_Actions "HOL-Library.Product_Lexorder"
begin

text \<open>
  \<open>capabilities/lifecycle.py\<close>: the stages a mutation surface goes through for a principal, kept as
  records in memory and as an append-only log of JSON lines from which they are rebuilt. Values that
  come from the log or from a caller are JSON values; what \<open>dict\<close> makes of a list of pairs is left
  out (such an \<open>evidence\<close> is an error here). The time is the text \<open>_utc_now\<close> returns.
\<close>

section \<open>Stages\<close>

definition STAGES :: "string list" where
  "STAGES = [''implemented'', ''wired'', ''conformed'', ''active'', ''founder-proven'']"

fun index_of :: "'a \<Rightarrow> 'a list \<Rightarrow> nat option" where
  "index_of x [] = None"
| "index_of x (y # ys) = (if x = y then Some 0 else map_option Suc (index_of x ys))"

definition STAGE_INDEX :: "string \<Rightarrow> nat option" where
  "STAGE_INDEX stage = index_of stage STAGES"

definition stage_index :: "string \<Rightarrow> nat option" where
  "stage_index stage = STAGE_INDEX (casefold stage)"

definition next_stage :: "string \<Rightarrow> string option option" where
  "next_stage stage = map_option (\<lambda>i. if Suc i < length STAGES then Some (STAGES ! Suc i) else None) (stage_index stage)"

definition REQUIRED_EVIDENCE :: "string \<Rightarrow> string list" where
  "REQUIRED_EVIDENCE stage =
     (if stage = ''implemented'' then [''source_present'']
      else if stage = ''wired'' then [''runtime_constructed'', ''path_reachable'']
      else if stage = ''conformed'' then [''canary_receipt'']
      else if stage = ''active'' then [''config_enabled'', ''policy_eligible'']
      else if stage = ''founder-proven'' then [''founder_acceptance'', ''end_to_end_receipt''] else [])"

definition KNOWN_MUTATION_SURFACES :: "string list" where
  "KNOWN_MUTATION_SURFACES = [''living-mcp.mutation'']"

datatype lifecycle_error = Lifecycle_Blocked "string list" | Lifecycle_Value_Error string | Lifecycle_Type_Error

section \<open>Validation\<close>

definition or_text :: "json \<Rightarrow> string \<Rightarrow> string" where
  "or_text v dflt = (if truthy v then py_str v else dflt)"

definition safe_id_char :: "char \<Rightarrow> bool" where
  "safe_id_char c = (let n = (of_char c :: nat) in
     (97 \<le> n \<and> n \<le> 122) \<or> (65 \<le> n \<and> n \<le> 90) \<or> (48 \<le> n \<and> n \<le> 57) \<or> c \<in> {CHR ''_'', CHR ''.'', CHR ''-''})"

definition validate_surface :: "json \<Rightarrow> lifecycle_error + string" where
  "validate_surface surface =
     (let value = casefold (strip (or_text surface [])) in
      if value \<notin> set KNOWN_MUTATION_SURFACES then Inl (Lifecycle_Value_Error (''unknown mutation surface: '' @ py_str surface)) else Inr value)"

definition validate_principal :: "json \<Rightarrow> lifecycle_error + string" where
  "validate_principal principal_id =
     (let value = casefold (strip (or_text principal_id [])) in
      if value = [] \<or> \<not> list_all safe_id_char value \<or> 64 < length value
      then Inl (Lifecycle_Value_Error (''invalid principal_id: '' @ py_repr principal_id)) else Inr value)"

definition validate_evidence :: "string \<Rightarrow> (string, json) dict \<Rightarrow> bool \<times> string list" where
  "validate_evidence stage evidence =
     (let stage = casefold stage; required = REQUIRED_EVIDENCE stage in
      if required = [] then (False, [''unknown stage: '' @ stage])
      else let blockers = filter (\<lambda>k. \<not> truthy (json_get evidence k)) required in (blockers = [], blockers))"

section \<open>Records\<close>

record lifecycle_transition =
  lt_surface :: string
  lt_principal_id :: string
  lt_from_stage :: string
  lt_to_stage :: string
  lt_evidence_ids :: "string list"
  lt_ts :: string
  lt_note :: json

definition transition_dict :: "lifecycle_transition \<Rightarrow> (string, json) dict" where
  "transition_dict t = [(''surface'', JStr (lt_surface t)), (''principal_id'', JStr (lt_principal_id t)),
     (''from_stage'', JStr (lt_from_stage t)), (''to_stage'', JStr (lt_to_stage t)),
     (''evidence_ids'', JList (map JStr (lt_evidence_ids t))), (''ts'', JStr (lt_ts t)), (''note'', lt_note t)]"

record capability_record =
  cr_surface :: string
  cr_principal_id :: string
  cr_stage :: string
  cr_updated_at :: string
  cr_transitions :: "lifecycle_transition list"
  cr_evidence :: "(string, json) dict"

definition founder_proven :: "capability_record \<Rightarrow> bool" where
  "founder_proven r = (cr_stage r = ''founder-proven'')"

definition record_dict :: "capability_record \<Rightarrow> (string, json) dict" where
  "record_dict r = [(''schema'', JStr ''aether.capability-lifecycle.v1''), (''surface'', JStr (cr_surface r)),
     (''principal_id'', JStr (cr_principal_id r)), (''stage'', JStr (cr_stage r)), (''updated_at'', JStr (cr_updated_at r)),
     (''transitions'', JList (map (\<lambda>t. JObj (transition_dict t)) (cr_transitions r))),
     (''evidence_keys'', JList (map JStr (sort (keys (cr_evidence r)))))]"

record capability_tracker =
  ct_log :: "text_file option"
  ct_records :: "(string \<times> string, capability_record) dict"

section \<open>The log\<close>

definition spaced_ascii :: fmt where
  "spaced_ascii = Fmt True '' ''"

definition entry_ids :: "json \<Rightarrow> lifecycle_error + string list" where
  "entry_ids v =
     (if \<not> truthy v then Inr []
      else case v of JList xs \<Rightarrow> Inr (map py_str xs) | JStr s \<Rightarrow> Inr (map (\<lambda>c. [c]) s) | JObj kvs \<Rightarrow> Inr (keys kvs)
      | _ \<Rightarrow> Inl Lifecycle_Type_Error)"

definition entry_evidence :: "json \<Rightarrow> lifecycle_error + (string, json) dict" where
  "entry_evidence v = (if \<not> truthy v then Inr [] else case v of JObj kvs \<Rightarrow> Inr kvs | _ \<Rightarrow> Inl Lifecycle_Type_Error)"

definition apply_entry :: "string \<Rightarrow> json \<Rightarrow> (string \<times> string, capability_record) dict
    \<Rightarrow> lifecycle_error + (string \<times> string, capability_record) dict" where
  "apply_entry now entry rs =
     (case entry of
        JObj e \<Rightarrow>
          bindE (validate_surface (json_get e ''surface'')) (\<lambda>surface.
          bindE (validate_principal (json_get e ''principal_id'')) (\<lambda>principal_id.
          bindE (entry_ids (json_get e ''evidence_ids'')) (\<lambda>ids.
          bindE (entry_evidence (json_get e ''evidence'')) (\<lambda>evidence.
          let old = dict_get rs (surface, principal_id);
              stage = casefold (or_text (json_get e ''to_stage'') []);
              ts = or_text (json_get e ''ts'') now;
              t = \<lparr>lt_surface = surface, lt_principal_id = principal_id,
                lt_from_stage = or_text (json_get e ''from_stage'') (case old of None \<Rightarrow> ''implemented'' | Some r \<Rightarrow> cr_stage r),
                lt_to_stage = stage, lt_evidence_ids = ids, lt_ts = ts, lt_note = json_get e ''note''\<rparr> in
          Inr (dict_set (surface, principal_id) \<lparr>cr_surface = surface, cr_principal_id = principal_id, cr_stage = stage,
            cr_updated_at = ts, cr_transitions = (case old of None \<Rightarrow> [] | Some r \<Rightarrow> cr_transitions r) @ [t],
            cr_evidence = evidence\<rparr> rs)))))
      | _ \<Rightarrow> Inl Lifecycle_Type_Error)"

definition append_line :: "text_file \<Rightarrow> json \<Rightarrow> text_file" where
  "append_line f row = Some ((case f of None \<Rightarrow> [] | Some s \<Rightarrow> s) @ dumps spaced_ascii row @ [CHR 0x0A])"

definition read_entries :: "text_file \<Rightarrow> json list" where
  "read_entries f = (case f of None \<Rightarrow> [] | Some s \<Rightarrow> List.map_filter loads (splitlines s))"

fun apply_entries :: "string \<Rightarrow> json list \<Rightarrow> (string \<times> string, capability_record) dict
    \<Rightarrow> lifecycle_error + (string \<times> string, capability_record) dict" where
  "apply_entries now [] rs = Inr rs"
| "apply_entries now (e # es) rs = bindE (apply_entry now e rs) (apply_entries now es)"

definition load_tracker :: "string \<Rightarrow> text_file option \<Rightarrow> lifecycle_error + capability_tracker" where
  "load_tracker now log =
     (case log of None \<Rightarrow> Inr \<lparr>ct_log = None, ct_records = []\<rparr>
      | Some f \<Rightarrow> bindE (apply_entries now (read_entries f) []) (\<lambda>rs. Inr \<lparr>ct_log = Some f, ct_records = rs\<rparr>))"

section \<open>Queries\<close>

definition tracked_record :: "json \<Rightarrow> json \<Rightarrow> capability_tracker \<Rightarrow> lifecycle_error + capability_record option" where
  "tracked_record surface principal_id t =
     bindE (validate_surface surface) (\<lambda>s. bindE (validate_principal principal_id) (\<lambda>p. Inr (dict_get (ct_records t) (s, p))))"

definition tracked_records :: "capability_tracker \<Rightarrow> capability_record list" where
  "tracked_records t = map snd (sort_key fst (ct_records t))"

definition surface_state :: "json \<Rightarrow> capability_tracker \<Rightarrow> lifecycle_error + json" where
  "surface_state surface t =
     bindE (validate_surface surface) (\<lambda>s.
     let rs = filter (\<lambda>r. cr_surface r = s) (tracked_records t); founder = filter founder_proven rs in
     Inr (JObj [(''schema'', JStr ''aether.capability-lifecycle.v1''), (''surface'', JStr s),
       (''principals'', JList (map (\<lambda>r. JObj (record_dict r)) rs)),
       (''founder_proven_principal'', case founder of [] \<Rightarrow> JNull | r # _ \<Rightarrow> JStr (cr_principal_id r))]))"

section \<open>Transitions\<close>

definition quoted :: "string \<Rightarrow> string" where
  "quoted s = CHR 0x27 # s @ [CHR 0x27]"

definition single_principal_gate :: "string \<Rightarrow> string \<Rightarrow> string \<Rightarrow> capability_tracker \<Rightarrow> string list" where
  "single_principal_gate surface principal_id to_stage t =
     (let siblings = filter (\<lambda>r. cr_surface r = surface \<and> cr_principal_id r \<noteq> principal_id) (tracked_records t);
          proven = map cr_principal_id (filter founder_proven siblings) in
      if to_stage = ''founder-proven'' \<and> proven \<noteq> []
      then [''single-principal gate: '' @ quoted (hd proven) @ '' is already founder-proven on '' @ quoted surface]
      else if siblings \<noteq> [] \<and> to_stage = ''active'' \<and> proven = []
      then [''single-principal gate: no founder-proven principal on '' @ quoted surface @ '' yet; second principal cannot become active'']
      else [])"

definition control_char :: "char \<Rightarrow> bool" where
  "control_char c = ((of_char c :: nat) < 32)"

definition clean_note :: "string option \<Rightarrow> string option" where
  "clean_note note =
     (let text = take 200 (map (\<lambda>c. if control_char c then CHR '' '' else c) (strip (ostr_or note []))) in
      if ostr_or note [] = [] \<or> text = [] then None else Some text)"

definition safe_evidence :: "(string, json) dict \<Rightarrow> (string, json) dict" where
  "safe_evidence evidence = map (\<lambda>kv. (fst kv, JBool True)) evidence"

definition advance_blockers :: "string \<Rightarrow> string \<Rightarrow> string \<Rightarrow> (string, json) dict \<Rightarrow> capability_tracker \<Rightarrow> string list" where
  "advance_blockers surface principal_id to_stage evidence t =
     (let current = (case dict_get (ct_records t) (surface, principal_id) of None \<Rightarrow> ''implemented'' | Some r \<Rightarrow> cr_stage r) in
      case STAGE_INDEX to_stage of
        None \<Rightarrow> [''unknown stage: '' @ to_stage]
      | Some i \<Rightarrow>
          if to_stage = current then [''already at stage: '' @ to_stage]
          else if i = 0 then [''cannot transition below implemented'']
          else if current \<noteq> STAGES ! (i - 1)
          then [''expected stage '' @ quoted (STAGES ! (i - 1)) @ '' but observed '' @ quoted current]
          else case validate_evidence to_stage evidence of
            (ok, blockers) \<Rightarrow>
              if \<not> ok then map (\<lambda>b. ''missing evidence for '' @ quoted to_stage @ '': '' @ b) blockers
              else single_principal_gate surface principal_id to_stage t)"

definition advance_entry :: "string \<Rightarrow> string \<Rightarrow> string \<Rightarrow> string \<Rightarrow> (string, json) dict \<Rightarrow> string option \<Rightarrow> capability_tracker \<Rightarrow> json" where
  "advance_entry now surface principal_id to_stage evidence note t =
     JObj (transition_dict \<lparr>lt_surface = surface, lt_principal_id = principal_id,
       lt_from_stage = (case dict_get (ct_records t) (surface, principal_id) of None \<Rightarrow> ''implemented'' | Some r \<Rightarrow> cr_stage r),
       lt_to_stage = to_stage, lt_evidence_ids = sort (keys evidence), lt_ts = now, lt_note = json_opt (clean_note note)\<rparr>
       @ [(''evidence'', JObj (safe_evidence evidence))])"

definition advance :: "string \<Rightarrow> json \<Rightarrow> json \<Rightarrow> string \<Rightarrow> (string, json) dict \<Rightarrow> string option \<Rightarrow> capability_tracker
    \<Rightarrow> (lifecycle_error + capability_record) \<times> capability_tracker" where
  "advance now surface principal_id to_stage evidence note t =
     (case bindE (validate_surface surface) (\<lambda>s. bindE (validate_principal principal_id) (\<lambda>p.
        let stage = casefold to_stage; blockers = advance_blockers s p stage evidence t in
        if blockers \<noteq> [] then Inl (Lifecycle_Blocked blockers)
        else let e = advance_entry now s p stage evidence note t in
          bindE (apply_entry now e (ct_records t)) (\<lambda>rs. Inr (s, p, e, rs)))) of
        Inl err \<Rightarrow> (Inl err, t)
      | Inr (s, p, e, rs) \<Rightarrow>
          (of_option Lifecycle_Type_Error (dict_get rs (s, p)),
           t\<lparr>ct_records := rs, ct_log := map_option (\<lambda>f. append_line f e) (ct_log t)\<rparr>))"

end
