(* ===== verification/Capability_Lifecycle_Properties.thy ===== *)
theory Capability_Lifecycle_Properties
  imports Capability_Lifecycle Failure_Store
begin

text \<open>
  What the tracker of capability stages guarantees in every state its own calls produce: the ladder of
  stages with its evidence, the single-principal gate and where it locks, and that the log rebuilds the
  records.
\<close>

section \<open>Stages and identifiers\<close>

lemma index_of_Some: "distinct xs \<Longrightarrow> index_of x xs = Some i \<longleftrightarrow> i < length xs \<and> xs ! i = x"
proof (induction xs arbitrary: i)
  case (Cons y ys)
  then show ?case by (cases i) (auto simp: nth_Cons' in_set_conv_nth)
qed simp

lemma STAGE_INDEX_Some: "STAGE_INDEX stage = Some i \<longleftrightarrow> i < 5 \<and> STAGES ! i = stage"
  unfolding STAGE_INDEX_def by (subst index_of_Some) (simp_all add: STAGES_def numeral_eq_Suc)

lemma stages [simp]:
  "STAGES ! 0 = ''implemented''" "STAGES ! Suc 0 = ''wired''" "STAGES ! 2 = ''conformed''" "STAGES ! 3 = ''active''"
  "STAGES ! 4 = ''founder-proven''"
  by (simp_all add: STAGES_def)

lemma stage_inject: "i < 5 \<Longrightarrow> j < 5 \<Longrightarrow> STAGES ! i = STAGES ! j \<longleftrightarrow> i = j"
  by (subst nth_eq_iff_index_eq) (simp_all add: STAGES_def)

lemma casefold_stage: "i < 5 \<Longrightarrow> casefold (STAGES ! i) = STAGES ! i"
  by (auto simp: STAGES_def casefold_def fold_char_def less_Suc_eq numeral_eq_Suc)

lemma safe_casefold:
  assumes "list_all safe_id_char s" "s = casefold x"
  shows "casefold s = s"
proof -
  have "fold_char c = [c]" if c: "c \<in> set s" for c
  proof -
    obtain d where "c \<in> set (fold_char d)" using c assms(2) by (auto simp: casefold_def)
    then have "\<not> (65 \<le> (of_char c :: nat) \<and> (of_char c :: nat) \<le> 90)"
      by (auto simp: fold_char_def Let_def split: if_splits)
    moreover have "safe_id_char c" using assms(1) c by (simp add: list_all_iff)
    ultimately show ?thesis by (auto simp: fold_char_def safe_id_char_def Let_def)
  qed
  then show ?thesis unfolding casefold_def by (induction s) auto
qed

lemma safe_strip:
  assumes "list_all safe_id_char s"
  shows "strip s = s"
proof -
  have "\<not> py_space c" if "c \<in> set s" for c
    using assms that by (auto simp: list_all_iff safe_id_char_def py_space_def Let_def)
  then have "dropWhile py_space s = s" "dropWhile py_space (rev s) = rev s"
    by (metis dropWhile_eq_self_iff hd_in_set, metis dropWhile_eq_self_iff hd_in_set set_rev)
  then show ?thesis by (simp add: strip_def)
qed

lemma or_text_same: "or_text (JStr s) d = (if s = [] then d else s)"
  by (simp add: or_text_def)

lemma or_text_JStr [simp]: "or_text (JStr s) [] = s" "or_text (JStr s) s = s"
  by (simp_all add: or_text_def)

lemma validated_surface:
  assumes "validate_surface x = Inr s"
  shows "validate_surface (JStr s) = Inr s"
proof -
  have "s = ''living-mcp.mutation''" using assms by (auto simp: validate_surface_def Let_def KNOWN_MUTATION_SURFACES_def split: if_splits)
  moreover have "validate_surface (JStr ''living-mcp.mutation'') = Inr ''living-mcp.mutation''" by code_simp
  ultimately show ?thesis by simp
qed

lemma validated_principal:
  assumes "validate_principal x = Inr p"
  shows "validate_principal (JStr p) = Inr p"
proof -
  have p: "p = casefold (strip (or_text x []))" "list_all safe_id_char p" "p \<noteq> []" "length p \<le> 64"
    using assms by (auto simp: validate_principal_def Let_def split: if_splits)
  then show ?thesis using safe_strip [OF p(2)] safe_casefold [OF p(2,1)] by (simp add: validate_principal_def Let_def)
qed

section \<open>The effect of a call\<close>

definition current_stage :: "capability_tracker \<Rightarrow> string \<Rightarrow> string \<Rightarrow> string" where
  "current_stage t s p = (case dict_get (ct_records t) (s, p) of None \<Rightarrow> ''implemented'' | Some r \<Rightarrow> cr_stage r)"

definition advanced :: "string \<Rightarrow> string \<Rightarrow> string \<Rightarrow> string \<Rightarrow> (string, json) dict \<Rightarrow> string option \<Rightarrow> capability_tracker \<Rightarrow> capability_record" where
  "advanced now s p stage evidence note t =
     \<lparr>cr_surface = s, cr_principal_id = p, cr_stage = stage, cr_updated_at = now,
      cr_transitions = (case dict_get (ct_records t) (s, p) of None \<Rightarrow> [] | Some r \<Rightarrow> cr_transitions r) @
        [\<lparr>lt_surface = s, lt_principal_id = p, lt_from_stage = current_stage t s p, lt_to_stage = stage, lt_evidence_ids = sort (keys evidence),
          lt_ts = now, lt_note = json_opt (clean_note note)\<rparr>],
      cr_evidence = safe_evidence evidence\<rparr>"

lemma entry_simps [simp]:
  "entry_ids (JList (map JStr ks)) = Inr ks" "entry_evidence (JObj kvs) = Inr kvs"
  by (auto simp: entry_ids_def entry_evidence_def comp_def map_idI)

lemma apply_advance_entry:
  assumes "validate_surface (JStr s) = Inr s" "validate_principal (JStr p) = Inr p" "casefold stage = stage"
  shows "apply_entry now (advance_entry now s p stage evidence note t) (ct_records t) =
    Inr (dict_set (s, p) (advanced now s p stage evidence note t) (ct_records t))"
  using assms
  by (cases "dict_get (ct_records t) (s, p)")
    (simp_all add: apply_entry_def advance_entry_def transition_dict_def json_get_def advanced_def current_stage_def or_text_same Let_def)

lemma advance_cases:
  obtains (refused) e where "advance now surface principal_id to_stage evidence note t = (Inl e, t)"
  | (accepted) s p where
    "validate_surface (JStr s) = Inr s" "validate_principal (JStr p) = Inr p"
    "advance_blockers s p (casefold to_stage) evidence t = []"
    "advance now surface principal_id to_stage evidence note t =
      (Inr (advanced now s p (casefold to_stage) evidence note t),
       t\<lparr>ct_records := dict_set (s, p) (advanced now s p (casefold to_stage) evidence note t) (ct_records t),
         ct_log := map_option (\<lambda>f. append_line f (advance_entry now s p (casefold to_stage) evidence note t)) (ct_log t)\<rparr>)"
proof (cases "validate_surface surface")
  case (Inl e)
  then show ?thesis using refused by (simp add: advance_def)
next
  case surface: (Inr s)
  show ?thesis
  proof (cases "validate_principal principal_id")
    case (Inl e)
    then show ?thesis using refused surface by (simp add: advance_def)
  next
    case (Inr p)
    show ?thesis
    proof (cases "advance_blockers s p (casefold to_stage) evidence t = []")
      case False
      then show ?thesis using refused surface Inr by (simp add: advance_def Let_def)
    next
      case True
      then obtain i where "STAGE_INDEX (casefold to_stage) = Some i" by (auto simp: advance_blockers_def Let_def split: option.splits)
      then have fold: "casefold (casefold to_stage) = casefold to_stage" using casefold_stage STAGE_INDEX_Some by metis
      note valid = validated_surface [OF surface] validated_principal [OF Inr]
      show ?thesis
        by (rule accepted [OF valid True])
          (use surface Inr True in \<open>simp add: advance_def Let_def apply_advance_entry [OF valid fold]\<close>)
    qed
  qed
qed

text \<open>What an accepted call has checked.\<close>

lemma accepted_stage:
  assumes "advance_blockers s p stage evidence t = []"
  obtains i where "i < 4" "stage = STAGES ! Suc i" "current_stage t s p = STAGES ! i"
    "set (REQUIRED_EVIDENCE stage) \<subseteq> set (keys evidence)" "single_principal_gate s p stage t = []"
proof -
  obtain j where j: "STAGE_INDEX stage = Some j" using assms by (auto simp: advance_blockers_def Let_def split: option.splits)
  then have stage: "j < 5" "STAGES ! j = stage" by (simp_all add: STAGE_INDEX_Some)
  then have "casefold stage = stage" using casefold_stage by blast
  moreover have ok: "j \<noteq> 0" "current_stage t s p = STAGES ! (j - 1)" "validate_evidence stage evidence = (True, [])"
    "single_principal_gate s p stage t = []"
    using assms j by (auto simp: advance_blockers_def Let_def current_stage_def validate_evidence_def split: if_splits option.splits)
  ultimately have "\<forall>k \<in> set (REQUIRED_EVIDENCE stage). truthy (json_get evidence k)"
    by (auto simp: validate_evidence_def Let_def filter_empty_conv split: if_splits)
  then have "set (REQUIRED_EVIDENCE stage) \<subseteq> set (keys evidence)"
    by (force simp: json_get_def dest: map_of_SomeD split: option.splits)
  with that [of "j - 1"] ok stage show ?thesis by simp
qed

inductive tracked :: "capability_tracker \<Rightarrow> bool" where
  start: "tracked \<lparr>ct_log = l, ct_records = []\<rparr>" if "l \<in> {None, Some None}"
| advance: "tracked t \<Longrightarrow> now \<noteq> [] \<Longrightarrow> distinct (keys evidence) \<Longrightarrow>
    tracked (snd (advance now surface principal_id to_stage evidence note t))"

section \<open>The ladder\<close>

definition ladder :: "capability_record \<Rightarrow> bool" where
  "ladder r = (let n = length (cr_transitions r) in 0 < n \<and> n < 5 \<and> cr_stage r = STAGES ! n \<and>
     (\<forall>i < n. lt_from_stage (cr_transitions r ! i) = STAGES ! i \<and> lt_to_stage (cr_transitions r ! i) = STAGES ! Suc i \<and>
       set (REQUIRED_EVIDENCE (STAGES ! Suc i)) \<subseteq> set (lt_evidence_ids (cr_transitions r ! i))))"

definition tracker_inv :: "capability_tracker \<Rightarrow> bool" where
  "tracker_inv t = (distinct (keys (ct_records t)) \<and>
     (\<forall>k r. (k, r) \<in> set (ct_records t) \<longrightarrow> k = (cr_surface r, cr_principal_id r) \<and> ladder r))"

lemma ladder_first:
  "stage = STAGES ! Suc 0 \<Longrightarrow> lt_from_stage x = STAGES ! 0 \<Longrightarrow> lt_to_stage x = stage \<Longrightarrow> set (REQUIRED_EVIDENCE stage) \<subseteq> set (lt_evidence_ids x) \<Longrightarrow>
    cr_stage r = stage \<Longrightarrow> cr_transitions r = [x] \<Longrightarrow> ladder r"
  by (simp add: ladder_def)

lemma ladder_next:
  assumes "ladder q" "cr_stage q = STAGES ! i" "i < 4" "stage = STAGES ! Suc i" "lt_from_stage x = STAGES ! i" "lt_to_stage x = stage"
    "set (REQUIRED_EVIDENCE stage) \<subseteq> set (lt_evidence_ids x)" "cr_stage r = stage" "cr_transitions r = cr_transitions q @ [x]"
  shows "ladder r"
proof -
  have "length (cr_transitions q) = i" using assms(1-3) by (auto simp: ladder_def Let_def stage_inject)
  then show ?thesis using assms by (auto simp: ladder_def Let_def nth_append less_Suc_eq)
qed

lemma ladder_advanced:
  assumes "tracker_inv t" "advance_blockers s p stage evidence t = []"
  shows "ladder (advanced now s p stage evidence note t)"
proof -
  obtain i where i: "i < 4" "stage = STAGES ! Suc i" "current_stage t s p = STAGES ! i"
    "set (REQUIRED_EVIDENCE stage) \<subseteq> set (keys evidence)"
    using assms(2) by (rule accepted_stage)
  show ?thesis
  proof (cases "dict_get (ct_records t) (s, p)")
    case None
    then have "i = 0" using i stage_inject [of 0 i] by (simp add: current_stage_def)
    then show ?thesis using i None by (intro ladder_first) (auto simp: advanced_def)
  next
    case (Some q)
    then have "ladder q" using assms(1) map_of_SomeD [OF Some] by (simp add: tracker_inv_def)
    moreover have "cr_stage q = STAGES ! i" using Some i(3) by (simp add: current_stage_def)
    ultimately show ?thesis
      by (rule ladder_next [OF _ _ i(1,2)]) (use i(4) in \<open>simp_all add: advanced_def Some i(3)\<close>)
  qed
qed

lemma tracker_inv_advance:
  assumes "tracker_inv t"
  shows "tracker_inv (snd (advance now surface principal_id to_stage evidence note t))"
proof (rule advance_cases [of now surface principal_id to_stage evidence "note" t])
  fix e
  assume "advance now surface principal_id to_stage evidence note t = (Inl e, t)"
  then show ?thesis using assms by simp
next
  fix s p
  let ?r = "advanced now s p (casefold to_stage) evidence note t"
  assume b: "advance_blockers s p (casefold to_stage) evidence t = []"
    and a: "advance now surface principal_id to_stage evidence note t =
      (Inr ?r, t\<lparr>ct_records := dict_set (s, p) ?r (ct_records t),
         ct_log := map_option (\<lambda>f. append_line f (advance_entry now s p (casefold to_stage) evidence note t)) (ct_log t)\<rparr>)"
  have "cr_surface ?r = s" "cr_principal_id ?r = p" by (simp_all add: advanced_def)
  with assms ladder_advanced [OF assms b, of now "note"] show ?thesis by (auto simp: a tracker_inv_def dest!: set_dict_set)
qed

lemma tracked_inv: "tracked t \<Longrightarrow> tracker_inv t"
  by (induction rule: tracked.induct) (simp_all add: tracker_inv_advance, simp add: tracker_inv_def)

lemma set_tracked_records: "set (tracked_records t) = snd ` set (ct_records t)"
  by (simp add: tracked_records_def)

text \<open>
  C29: Whatever is called, a record of the tracker stands on the ladder of stages: it has one recorded
  transition for every stage it has passed, in order and without a gap, and each of them names all the
  evidence its stage requires.\<close>

theorem stages_climbed_in_order:
  assumes "tracked t" "r \<in> set (tracked_records t)"
  shows "\<exists>n. 0 < n \<and> n < length STAGES \<and> cr_stage r = STAGES ! n \<and> map lt_from_stage (cr_transitions r) = take n STAGES \<and>
    map lt_to_stage (cr_transitions r) = take n (tl STAGES) \<and>
    list_all (\<lambda>x. set (REQUIRED_EVIDENCE (lt_to_stage x)) \<subseteq> set (lt_evidence_ids x)) (cr_transitions r)"
proof -
  have l: "ladder r" using assms tracked_inv by (fastforce simp: tracker_inv_def set_tracked_records)
  let ?n = "length (cr_transitions r)"
  have len: "length STAGES = 5" by (simp add: STAGES_def)
  have "map lt_from_stage (cr_transitions r) = take ?n STAGES" "map lt_to_stage (cr_transitions r) = take ?n (tl STAGES)"
    using l len by (auto simp: ladder_def Let_def nth_tl intro!: nth_equalityI)
  moreover have "list_all (\<lambda>x. set (REQUIRED_EVIDENCE (lt_to_stage x)) \<subseteq> set (lt_evidence_ids x)) (cr_transitions r)"
    using l by (auto simp: ladder_def Let_def list_all_length)
  ultimately show ?thesis using l len by (intro exI [of _ ?n]) (simp add: ladder_def Let_def)
qed

section \<open>The single-principal gate\<close>

definition operating :: "capability_record \<Rightarrow> bool" where
  "operating r = (cr_stage r \<in> {''active'', ''founder-proven''})"

definition gate_inv :: "capability_tracker \<Rightarrow> bool" where
  "gate_inv t = (\<forall>r \<in> snd ` set (ct_records t). \<forall>q \<in> snd ` set (ct_records t).
     cr_surface r = cr_surface q \<and> cr_principal_id r \<noteq> cr_principal_id q \<longrightarrow>
       \<not> (founder_proven r \<and> founder_proven q) \<and>
       (operating r \<and> operating q \<longrightarrow> (\<exists>w \<in> snd ` set (ct_records t). cr_surface w = cr_surface r \<and> founder_proven w)))"

text \<open>What the gate lets through.\<close>

lemma gate_passed:
  assumes "single_principal_gate s p stage t = []" "q \<in> snd ` set (ct_records t)" "cr_surface q = s" "cr_principal_id q \<noteq> p"
  shows "stage = ''founder-proven'' \<Longrightarrow> \<not> founder_proven q"
    and "stage = ''active'' \<Longrightarrow> \<exists>w \<in> snd ` set (ct_records t). cr_surface w = s \<and> cr_principal_id w \<noteq> p \<and> founder_proven w"
  using assms by (auto simp: single_principal_gate_def Let_def set_tracked_records filter_empty_conv split: if_splits)

text \<open>The records after an accepted call: the new one, and the others as they were.\<close>

lemma records_after:
  assumes "tracker_inv t" "cr_surface r' = s" "cr_principal_id r' = p"
  shows "snd ` set (dict_set (s, p) r' (ct_records t)) =
    insert r' {r \<in> snd ` set (ct_records t). (cr_surface r, cr_principal_id r) \<noteq> (s, p)}"
  using assms(1) by (force simp: tracker_inv_def image_iff set_dict_set_eq)

lemma proven_not_replaced:
  assumes "tracker_inv t" "advance_blockers s p stage evidence t = []" "w \<in> snd ` set (ct_records t)" "founder_proven w"
  shows "(cr_surface w, cr_principal_id w) \<noteq> (s, p)"
proof
  assume "(cr_surface w, cr_principal_id w) = (s, p)"
  then have "dict_get (ct_records t) (s, p) = Some w" using assms(1,3) by (force simp: tracker_inv_def)
  then have "current_stage t s p = ''founder-proven''" using assms(4) by (simp add: current_stage_def founder_proven_def)
  moreover obtain i where "i < 4" "current_stage t s p = STAGES ! i" using assms(2) by (rule accepted_stage)
  ultimately show False using stage_inject [of i 4] by simp
qed

lemma gate_inv_step:
  assumes "tracker_inv t" "gate_inv t" "advance_blockers s p stage evidence t = []" "cr_surface r' = s" "cr_principal_id r' = p" "cr_stage r' = stage"
    and "ct_records t' = dict_set (s, p) r' (ct_records t)"
  shows "gate_inv t'"
proof -
  let ?R = "snd ` set (ct_records t)"
  let ?N = "{r \<in> ?R. (cr_surface r, cr_principal_id r) \<noteq> (s, p)}"
  have R': "snd ` set (ct_records t') = insert r' ?N" using records_after [OF assms(1,4,5)] assms(7) by simp
  have gate: "single_principal_gate s p stage t = []" using assms(3) by (rule accepted_stage)
  have proven: "w \<in> ?N" if "w \<in> ?R" "founder_proven w" for w using proven_not_replaced [OF assms(1,3)] that by blast
  have new: "\<not> (founder_proven r' \<and> founder_proven q) \<and>
      (operating r' \<and> operating q \<longrightarrow> (\<exists>w \<in> insert r' ?N. cr_surface w = s \<and> founder_proven w))"
    if "q \<in> ?N" "cr_surface q = s" for q
  proof -
    have q: "q \<in> ?R" "cr_principal_id q \<noteq> p" using that by auto
    have "\<exists>w \<in> insert r' ?N. cr_surface w = s \<and> founder_proven w" if op: "operating r'"
    proof (cases "stage = ''active''")
      case True
      then obtain w where "w \<in> ?R" "cr_surface w = s" "founder_proven w" using gate_passed(2) [OF gate q(1) \<open>cr_surface q = s\<close> q(2)] by blast
      with proven show ?thesis by blast
    next
      case False
      with op assms(4,6) show ?thesis by (auto simp: operating_def founder_proven_def)
    qed
    moreover have "\<not> (founder_proven r' \<and> founder_proven q)"
      using gate_passed(1) [OF gate q(1) that(2) q(2)] assms(6) by (auto simp: founder_proven_def)
    ultimately show ?thesis by blast
  qed
  have old: "\<not> (founder_proven r \<and> founder_proven q) \<and>
      (operating r \<and> operating q \<longrightarrow> (\<exists>w \<in> insert r' ?N. cr_surface w = cr_surface r \<and> founder_proven w))"
    if "r \<in> ?N" "q \<in> ?N" "cr_surface r = cr_surface q" "cr_principal_id r \<noteq> cr_principal_id q" for r q
  proof -
    have "\<not> (founder_proven r \<and> founder_proven q) \<and> (operating r \<and> operating q \<longrightarrow> (\<exists>w \<in> ?R. cr_surface w = cr_surface r \<and> founder_proven w))"
      using assms(2) that unfolding gate_inv_def by blast
    with proven show ?thesis by blast
  qed
  show ?thesis unfolding gate_inv_def R'
  proof (intro ballI impI, elim conjE)
    fix r q
    assume rq: "r \<in> insert r' ?N" "q \<in> insert r' ?N" "cr_surface r = cr_surface q" "cr_principal_id r \<noteq> cr_principal_id q"
    then consider "r = r'" "q \<in> ?N" | "q = r'" "r \<in> ?N" | "r \<in> ?N" "q \<in> ?N" by blast
    then show "\<not> (founder_proven r \<and> founder_proven q) \<and>
        (operating r \<and> operating q \<longrightarrow> (\<exists>w \<in> insert r' ?N. cr_surface w = cr_surface r \<and> founder_proven w))"
    proof cases
      case 1
      with new [of q] rq(3) assms(4) show ?thesis by simp
    next
      case 2
      with new [of r] rq(3) assms(4) show ?thesis by auto
    next
      case 3
      with old rq(3,4) show ?thesis by blast
    qed
  qed
qed

lemma gate_inv_advance:
  assumes "tracker_inv t" "gate_inv t"
  shows "gate_inv (snd (advance now surface principal_id to_stage evidence nt t))"
proof (rule advance_cases [of now surface principal_id to_stage evidence nt t])
  fix s p
  let ?r = "advanced now s p (casefold to_stage) evidence nt t"
  assume b: "advance_blockers s p (casefold to_stage) evidence t = []"
    and a: "advance now surface principal_id to_stage evidence nt t =
      (Inr ?r, t\<lparr>ct_records := dict_set (s, p) ?r (ct_records t),
         ct_log := map_option (\<lambda>f. append_line f (advance_entry now s p (casefold to_stage) evidence nt t)) (ct_log t)\<rparr>)"
  show ?thesis by (rule gate_inv_step [OF assms b, of ?r]) (simp_all add: a advanced_def)
qed (use assms in simp)

lemma tracked_gate: "tracked t \<Longrightarrow> gate_inv t"
  by (induction rule: tracked.induct) (simp add: gate_inv_def, simp add: gate_inv_advance tracked_inv)

text \<open>
  C30: On a surface at most one principal is ever founder-proven, and whenever two principals of a
  surface are active or beyond, one principal of that surface is founder-proven.\<close>

theorem single_principal_proven:
  assumes "tracked t" "r \<in> set (tracked_records t)" "q \<in> set (tracked_records t)" "cr_surface r = cr_surface q"
    "cr_principal_id r \<noteq> cr_principal_id q"
  shows "\<not> (founder_proven r \<and> founder_proven q) \<and>
    (operating r \<and> operating q \<longrightarrow> (\<exists>w \<in> set (tracked_records t). cr_surface w = cr_surface r \<and> founder_proven w))"
  using tracked_gate [OF assms(1)] assms(2-) unfolding gate_inv_def set_tracked_records by blast

text \<open>
  The gate can lock a surface for good: once two principals are recorded on it and none of them is
  active, each of them is the other's second principal.
\<close>

type_synonym advance_call = "string \<times> json \<times> json \<times> string \<times> (string, json) dict \<times> string option"

fun advance_all :: "advance_call list \<Rightarrow> capability_tracker \<Rightarrow> capability_tracker" where
  "advance_all [] t = t"
| "advance_all ((now, surface, principal_id, to_stage, evidence, nt) # cs) t =
     advance_all cs (snd (advance now surface principal_id to_stage evidence nt t))"

definition locked :: "string \<Rightarrow> capability_tracker \<Rightarrow> bool" where
  "locked s t = ((\<exists>r \<in> snd ` set (ct_records t). \<exists>q \<in> snd ` set (ct_records t).
      cr_surface r = s \<and> cr_surface q = s \<and> cr_principal_id r \<noteq> cr_principal_id q) \<and>
    (\<forall>w \<in> snd ` set (ct_records t). cr_surface w = s \<longrightarrow> \<not> operating w))"

lemma locked_not_operating:
  assumes "tracker_inv t" "locked s t" "advance_blockers s p stage evidence t = []"
  shows "stage \<notin> {''active'', ''founder-proven''}"
proof
  assume "stage \<in> {''active'', ''founder-proven''}"
  obtain i where i: "i < 4" "stage = STAGES ! Suc i" "current_stage t s p = STAGES ! i" "single_principal_gate s p stage t = []"
    using assms(3) by (rule accepted_stage)
  have quiet: "\<not> operating w" if "w \<in> snd ` set (ct_records t)" "cr_surface w = s" for w using assms(2) that unfolding locked_def by blast
  consider "stage = ''active''" | "stage = ''founder-proven''" using \<open>stage \<in> _\<close> by blast
  then show False
  proof cases
    case 1
    obtain q where q: "q \<in> snd ` set (ct_records t)" "cr_surface q = s" "cr_principal_id q \<noteq> p"
      using assms(2) unfolding locked_def by metis
    obtain w where "w \<in> snd ` set (ct_records t)" "cr_surface w = s" "founder_proven w"
      using gate_passed(2) [OF i(4) q 1] by blast
    with quiet show False by (auto simp: operating_def founder_proven_def)
  next
    case 2
    then have "current_stage t s p = ''active''" using i stage_inject [of "Suc i" 4] by (simp add: numeral_eq_Suc STAGES_def)
    then obtain w where w: "dict_get (ct_records t) (s, p) = Some w" "cr_stage w = ''active''"
      by (auto simp: current_stage_def split: option.splits)
    then have "cr_surface w = s" "w \<in> snd ` set (ct_records t)"
      using assms(1) map_of_SomeD [OF w(1)] by (auto simp: tracker_inv_def image_iff intro: bexI [of _ "((s, p), w)"])
    with quiet w(2) show False by (auto simp: operating_def)
  qed
qed

lemma locked_step:
  assumes "tracker_inv t" "locked s t" "advance_blockers s' p stage evidence t = []" "cr_surface r' = s'" "cr_principal_id r' = p" "cr_stage r' = stage"
    and "ct_records t' = dict_set (s', p) r' (ct_records t)"
  shows "locked s t'"
proof -
  let ?R = "snd ` set (ct_records t)"
  have R': "snd ` set (ct_records t') = insert r' {r \<in> ?R. (cr_surface r, cr_principal_id r) \<noteq> (s', p)}"
    using records_after [OF assms(1,4,5)] assms(7) by simp
  have ids: "\<exists>x \<in> snd ` set (ct_records t'). cr_surface x = cr_surface r \<and> cr_principal_id x = cr_principal_id r" if "r \<in> ?R" for r
    unfolding R' using that assms(4,5) by (cases "(cr_surface r, cr_principal_id r) = (s', p)") auto
  obtain r q where "r \<in> ?R" "q \<in> ?R" "cr_surface r = s" "cr_surface q = s" "cr_principal_id r \<noteq> cr_principal_id q"
    using assms(2) unfolding locked_def by blast
  with ids [of r] ids [of q] have "\<exists>r \<in> snd ` set (ct_records t'). \<exists>q \<in> snd ` set (ct_records t').
      cr_surface r = s \<and> cr_surface q = s \<and> cr_principal_id r \<noteq> cr_principal_id q" by metis
  moreover have "\<not> operating r'" if "s' = s"
    using locked_not_operating [OF assms(1), of s p stage evidence] assms(2,3,6) that by (auto simp: operating_def)
  ultimately show ?thesis using assms(2,4) unfolding locked_def R' by auto
qed

lemma locked_advance:
  assumes "tracker_inv t" "locked s t"
  shows "locked s (snd (advance now surface principal_id to_stage evidence nt t))"
proof (rule advance_cases [of now surface principal_id to_stage evidence nt t])
  fix s' p
  let ?r = "advanced now s' p (casefold to_stage) evidence nt t"
  assume b: "advance_blockers s' p (casefold to_stage) evidence t = []"
    and a: "advance now surface principal_id to_stage evidence nt t =
      (Inr ?r, t\<lparr>ct_records := dict_set (s', p) ?r (ct_records t),
         ct_log := map_option (\<lambda>f. append_line f (advance_entry now s' p (casefold to_stage) evidence nt t)) (ct_log t)\<rparr>)"
  show ?thesis by (rule locked_step [OF assms b, of ?r]) (simp_all add: a advanced_def)
qed (use assms in simp)

lemma locked_advance_all: "tracker_inv t \<Longrightarrow> locked s t \<Longrightarrow> locked s (advance_all cs t)"
  by (induction cs t rule: advance_all.induct) (simp_all add: locked_advance tracker_inv_advance)

text \<open>
  When two principals are recorded on a surface before one of them is active, no call will ever
  make a principal of that surface active: each waits for the other to be founder-proven first.\<close>

theorem surface_locked_for_good:
  assumes "tracked t" "r \<in> set (tracked_records t)" "q \<in> set (tracked_records t)" "cr_surface r = s" "cr_surface q = s"
    "cr_principal_id r \<noteq> cr_principal_id q" "\<forall>w \<in> set (tracked_records t). cr_surface w = s \<longrightarrow> \<not> operating w"
    "w \<in> set (tracked_records (advance_all cs t))" "cr_surface w = s"
  shows "\<not> operating w"
proof -
  have "locked s t" using assms(2-7) unfolding locked_def set_tracked_records by blast
  from locked_advance_all [OF tracked_inv [OF assms(1)] this] assms(8,9) show ?thesis
    unfolding locked_def set_tracked_records by blast
qed

section \<open>The log\<close>

text \<open>A line of the log is pure ASCII with every control character escaped, so no value can break it.\<close>

lemma esc_ascii_no_break: "\<forall>d \<in> set (esc_char True c). \<not> line_break d"
proof (cases "c = CHR 0x85")
  case True
  then show ?thesis by (auto simp: esc_char_def Let_def line_break_def hex_char_def digit_char_def)
next
  case False
  then show ?thesis by (rule esc_char_no_break)
qed

lemma quote_ascii_no_break: "\<forall>d \<in> set (quote True s). \<not> line_break d"
  using esc_ascii_no_break by (auto simp: quote_def line_break_def)

lemma dump_ascii_no_break: "wf_json v \<Longrightarrow> \<forall>d \<in> set (dump spaced_ascii v). \<not> line_break d"
proof (induction v)
  case (JInt i)
  then show ?case using int_str_lit(3) num_char_no_break by auto
next
  case (JFloat t)
  then have "float_lit t \<or> t \<in> {''NaN'', ''Infinity'', ''-Infinity''}" by (simp add: float_text_def)
  then show ?case using float_lit_num [of t] num_char_no_break by (auto simp: line_break_def)
next
  case (JStr s)
  then show ?case using quote_ascii_no_break by (simp add: spaced_ascii_def)
next
  case (JList xs)
  then have "\<forall>d \<in> set (join '', '' (map (dump spaced_ascii) xs)). \<not> line_break d"
    by (intro join_no_break) (auto simp: line_break_def)
  then show ?case by (auto simp: spaced_ascii_def line_break_def)
next
  case (JObj kvs)
  let ?m = "\<lambda>kv. quote True (fst kv) @ CHR '':'' # '' '' @ dump spaced_ascii (snd kv)"
  have "\<not> line_break (CHR '':'')" "\<not> line_break (CHR '' '')" by (simp_all add: line_break_def)
  moreover have "\<forall>d \<in> set (dump spaced_ascii (snd kv)). \<not> line_break d" if "kv \<in> set kvs" for kv
    using JObj that by (intro JObj.IH [of kv]) (auto simp: snds.simps)
  ultimately have "\<forall>x \<in> set (map ?m kvs). \<forall>d \<in> set x. \<not> line_break d"
    using quote_ascii_no_break by auto
  then have "\<forall>d \<in> set (join '', '' (map ?m kvs)). \<not> line_break d"
    by (intro join_no_break) (auto simp: line_break_def)
  then show ?case by (auto simp: dump_JObj spaced_ascii_def line_break_def)
qed (auto simp: line_break_def)

interpretation lifecycle_log: append_log append_line "\<lambda>f. Inr (read_entries f) :: string + json list" norm wf_json wf_file
proof
  fix f :: text_file and r :: json and rs
  assume f: "wf_file f" and r: "wf_json r"
  let ?s = "case f of None \<Rightarrow> [] | Some s \<Rightarrow> s"
  show "wf_file (append_line f r)" by (simp add: wf_file_def append_line_def)
  assume "Inr (read_entries f) = (Inr rs :: string + json list)"
  then have rs: "List.map_filter loads (splitlines ?s) = rs"
    by (cases f) (simp_all add: read_entries_def splitlines_def)
  have "\<forall>c \<in> set (dumps spaced_ascii r). \<not> line_break c" using r dump_ascii_no_break [of "norm r"] by (simp add: dumps_def)
  moreover have "?s = [] \<or> last ?s = CHR 0x0A" using f by (simp add: wf_file_def split: option.splits)
  ultimately have "splitlines (?s @ dumps spaced_ascii r @ [CHR 0x0A]) = splitlines ?s @ [dumps spaced_ascii r]" by (rule splitlines_append [rotated])
  moreover have "wf_fmt spaced_ascii" by (simp add: wf_fmt_def spaced_ascii_def json_ws_def)
  ultimately show "Inr (read_entries (append_line f r)) = (Inr (rs @ [norm r]) :: string + json list)"
    using rs loads_dumps [OF _ r] by (simp add: read_entries_def append_line_def map_filter_def)
qed

text \<open>What the log gives back: the evidence comes with its keys sorted, all else unchanged.\<close>

definition reload :: "capability_record \<Rightarrow> capability_record" where
  "reload r = r\<lparr>cr_evidence := norm_dict (cr_evidence r)\<rparr>"

abbreviation reload_all :: "(string \<times> string, capability_record) dict \<Rightarrow> (string \<times> string, capability_record) dict" where
  "reload_all \<equiv> map (map_prod id reload)"

lemma reload_dict_set: "reload_all (dict_set k r rs) = dict_set k (reload r) (reload_all rs)"
  by (induction k r rs rule: dict_set.induct) simp_all

lemma reload_dict_get: "dict_get (reload_all rs) k = map_option reload (dict_get rs k)"
  by (induction rs) auto

lemma apply_entries_append:
  "apply_entries now (es @ fs) rs = bindE (apply_entries now es rs) (apply_entries now fs)"
proof (induction es arbitrary: rs)
  case (Cons e es)
  then show ?case by (cases "apply_entry now e rs") simp_all
qed simp

lemma apply_logged_entry:
  assumes "validate_surface (JStr s) = Inr s" "validate_principal (JStr p) = Inr p" "casefold stage = stage" "now \<noteq> []"
    "distinct (keys evidence)" "current_stage t s p \<noteq> []"
  shows "apply_entry now' (norm (advance_entry now s p stage evidence nt t)) (reload_all (ct_records t)) =
    Inr (dict_set (s, p) (reload (advanced now s p stage evidence nt t)) (reload_all (ct_records t)))"
proof -
  obtain e where e: "advance_entry now s p stage evidence nt t = JObj e" by (simp add: advance_entry_def)
  then have d: "distinct (keys e)" by (auto simp: advance_entry_def transition_dict_def)
  have "json_get e ''surface'' = JStr s" "json_get e ''principal_id'' = JStr p" "json_get e ''to_stage'' = JStr stage"
    "json_get e ''from_stage'' = JStr (current_stage t s p)" "json_get e ''evidence_ids'' = JList (map JStr (sort (keys evidence)))"
    "json_get e ''ts'' = JStr now" "json_get e ''note'' = json_opt (clean_note nt)" "json_get e ''evidence'' = JObj (safe_evidence evidence)"
    using e by (auto simp: advance_entry_def transition_dict_def json_get_def current_stage_def split: option.splits)
  moreover have "norm (json_opt x) = json_opt x" for x :: "string option" by (cases x) simp_all
  moreover have "entry_ids (JList (map (norm \<circ> JStr) ks)) = Inr ks" for ks using entry_simps(1) [of ks] by (simp add: comp_def)
  ultimately show ?thesis using assms
    by (cases "dict_get (ct_records t) (s, p)")
      (simp_all add: apply_entry_def e norm_dict_json json_get_norm_dict [OF d] reload_dict_get or_text_def casefold_def Let_def advanced_def reload_def
        del: norm.simps(7))
qed

lemma advance_entry_wf:
  "distinct (keys evidence) \<Longrightarrow> wf_json (advance_entry now s p stage evidence nt t)"
  by (auto simp: advance_entry_def transition_dict_def safe_evidence_def comp_def json_opt_def split: option.splits)

definition log_inv :: "capability_tracker \<Rightarrow> bool" where
  "log_inv t = (\<forall>f. ct_log t = Some f \<longrightarrow> wf_file f \<and> (\<forall>now. apply_entries now (read_entries f) [] = Inr (reload_all (ct_records t))))"

lemma log_inv_advance:
  assumes "tracker_inv t" "log_inv t" "now \<noteq> []" "distinct (keys evidence)"
  shows "log_inv (snd (advance now surface principal_id to_stage evidence nt t))"
proof (rule advance_cases [of now surface principal_id to_stage evidence nt t])
  fix s p
  let ?stage = "casefold to_stage"
  let ?r = "advanced now s p ?stage evidence nt t" and ?e = "advance_entry now s p ?stage evidence nt t"
  assume v: "validate_surface (JStr s) = Inr s" "validate_principal (JStr p) = Inr p"
    and b: "advance_blockers s p ?stage evidence t = []"
    and a: "advance now surface principal_id to_stage evidence nt t =
      (Inr ?r, t\<lparr>ct_records := dict_set (s, p) ?r (ct_records t), ct_log := map_option (\<lambda>f. append_line f ?e) (ct_log t)\<rparr>)"
  obtain i where i: "i < 4" "?stage = STAGES ! Suc i" "current_stage t s p = STAGES ! i" using b by (rule accepted_stage)
  have "STAGES ! i \<noteq> []" using i(1) by (auto simp: STAGES_def less_Suc_eq numeral_eq_Suc)
  then have "current_stage t s p \<noteq> []" "casefold ?stage = ?stage" using i casefold_stage [of "Suc i"] by simp_all
  then have entry: "apply_entry n (norm ?e) (reload_all (ct_records t)) = Inr (dict_set (s, p) (reload ?r) (reload_all (ct_records t)))" for n
    using apply_logged_entry v assms(3,4) by blast
  show ?thesis unfolding log_inv_def
  proof (intro allI impI)
    fix f'
    assume "ct_log (snd (advance now surface principal_id to_stage evidence nt t)) = Some f'"
    then obtain f where f: "ct_log t = Some f" "f' = append_line f ?e" by (auto simp: a)
    then have wf: "wf_file f" and old: "apply_entries n (read_entries f) [] = Inr (reload_all (ct_records t))" for n
      using assms(2) by (simp_all add: log_inv_def)
    have "wf_json ?e" using assms(4) by (rule advance_entry_wf)
    with wf have "read_entries f' = read_entries f @ [norm ?e]" "wf_file f'"
      using lifecycle_log.read_append lifecycle_log.wf_append f(2) by simp_all
    then show "wf_file f' \<and> (\<forall>n. apply_entries n (read_entries f') [] =
        Inr (reload_all (ct_records (snd (advance now surface principal_id to_stage evidence nt t)))))"
      by (simp add: a apply_entries_append old entry reload_dict_set)
  qed
qed (use assms in simp)

lemma tracked_log: "tracked t \<Longrightarrow> log_inv t"
proof (induction rule: tracked.induct)
  case (start l)
  then show ?case by (auto simp: log_inv_def wf_file_def read_entries_def)
qed (simp add: log_inv_advance tracked_inv)

text \<open>
  C31: A tracker opened on the log another tracker has written, at whatever time, has that tracker's
  records with their transitions, stages and times; only the keys of the stored evidence come back
  sorted.\<close>

theorem log_rebuilds_tracker:
  assumes "tracked t" "ct_log t = Some f"
  shows "load_tracker now (ct_log t) = Inr (t\<lparr>ct_records := map (\<lambda>(k, r). (k, r\<lparr>cr_evidence := norm_dict (cr_evidence r)\<rparr>)) (ct_records t)\<rparr>)"
proof -
  have "reload_all rs = map (\<lambda>(k, r). (k, r\<lparr>cr_evidence := norm_dict (cr_evidence r)\<rparr>)) rs" for rs
    by (simp add: reload_def map_prod_def case_prod_unfold)
  with tracked_log [OF assms(1)] assms(2) show ?thesis by (simp add: load_tracker_def log_inv_def)
qed

section \<open>Witnesses\<close>

definition ladder_call :: "string \<Rightarrow> string \<Rightarrow> advance_call" where
  "ladder_call principal_id stage = (''2026-01-01T00:00:00+00:00'', JStr ''living-mcp.mutation'', JStr principal_id, stage,
     map (\<lambda>k. (k, JStr ''receipt-1'')) (REQUIRED_EVIDENCE (casefold stage)), Some ''checked'')"

definition sample_calls :: "advance_call list" where
  "sample_calls = [ladder_call ''Hermes'' ''WIRED'', ladder_call ''hermes'' ''conformed'', ladder_call ''codex'' ''wired'']"

definition sample_proven :: "advance_call list" where
  "sample_proven = map (ladder_call ''hermes'') (tl STAGES) @ [ladder_call ''codex'' ''wired'']"

definition sample_tracker :: "text_file option \<Rightarrow> advance_call list \<Rightarrow> capability_tracker" where
  "sample_tracker log cs = advance_all cs \<lparr>ct_log = log, ct_records = []\<rparr>"

definition sample_ok :: "advance_call list \<Rightarrow> bool" where
  "sample_ok cs = list_all (\<lambda>(now, surface, principal_id, to_stage, evidence, nt). now \<noteq> [] \<and> distinct (keys evidence)) cs"

lemma tracked_advance_all: "tracked t \<Longrightarrow> sample_ok cs \<Longrightarrow> tracked (advance_all cs t)"
  unfolding sample_ok_def by (induction cs t rule: advance_all.induct) (simp_all add: tracked.advance)

lemma sample_tracked:
  assumes "l \<in> {None, Some None}"
  shows "tracked (sample_tracker l sample_calls)" "tracked (sample_tracker l sample_proven)"
proof -
  have "sample_ok sample_calls" "sample_ok sample_proven" by code_simp+
  then show "tracked (sample_tracker l sample_calls)" "tracked (sample_tracker l sample_proven)"
    using assms unfolding sample_tracker_def by (simp_all only: tracked_advance_all tracked.start)
qed

definition sample_of :: "string \<Rightarrow> advance_call list \<Rightarrow> capability_record" where
  "sample_of p cs = the (dict_get (ct_records (sample_tracker None cs)) (''living-mcp.mutation'', p))"

definition sample_ids :: "string \<Rightarrow> advance_call list \<Rightarrow> bool" where
  "sample_ids p cs = (case dict_get (ct_records (sample_tracker None cs)) (''living-mcp.mutation'', p) of
     None \<Rightarrow> False | Some r \<Rightarrow> cr_surface r = ''living-mcp.mutation'' \<and> cr_principal_id r = p)"

lemma sample_member:
  assumes "sample_ids p cs"
  shows "sample_of p cs \<in> set (tracked_records (sample_tracker None cs))" "cr_surface (sample_of p cs) = ''living-mcp.mutation''"
    "cr_principal_id (sample_of p cs) = p"
  using assms by (force simp: sample_ids_def sample_of_def set_tracked_records dest: map_of_SomeD split: option.splits)+

lemma sample_calls_ids: "sample_ids ''hermes'' sample_calls \<and> sample_ids ''codex'' sample_calls"
  by code_simp

lemma sample_proven_ids: "sample_ids ''hermes'' sample_proven \<and> sample_ids ''codex'' sample_proven"
  by code_simp

lemma sample_calls_stages: "map (cr_stage \<circ> snd) (ct_records (sample_tracker None sample_calls)) = [''conformed'', ''wired'']"
  by code_simp

lemmas sample_values = sample_calls_ids [THEN conjunct1] sample_calls_ids [THEN conjunct2]
  sample_proven_ids [THEN conjunct1] sample_proven_ids [THEN conjunct2] sample_calls_stages

lemmas sample_records = sample_values(1-4) [THEN sample_member(1)]
lemmas ladder_names = sample_values(1-4) [THEN sample_member(2)] sample_values(1-4) [THEN sample_member(3)]

theorem stages_climbed_in_order_witness:
  "\<exists>n. 0 < n \<and> n < length STAGES \<and> cr_stage (sample_of ''hermes'' sample_calls) = STAGES ! n \<and>
    map lt_from_stage (cr_transitions (sample_of ''hermes'' sample_calls)) = take n STAGES"
  using stages_climbed_in_order [OF sample_tracked(1) sample_records(1)] by blast

theorem single_principal_proven_witness:
  "\<not> (founder_proven (sample_of ''hermes'' sample_proven) \<and> founder_proven (sample_of ''codex'' sample_proven))"
  using single_principal_proven [OF sample_tracked(2) sample_records(3,4)] by (simp add: ladder_names)

theorem surface_locked_for_good_witness:
  "\<not> operating (sample_of ''hermes'' (sample_calls @ [ladder_call ''hermes'' ''active'']))"
proof -
  have run: "sample_tracker None (sample_calls @ [c]) = advance_all [c] (sample_tracker None sample_calls)" for c
    by (simp add: sample_tracker_def sample_calls_def ladder_call_def)
  have "sample_ids ''hermes'' (sample_calls @ [ladder_call ''hermes'' ''active''])" by code_simp
  note w = sample_member [OF this, unfolded run]
  have "\<forall>w \<in> set (tracked_records (sample_tracker None sample_calls)). cr_surface w = ''living-mcp.mutation'' \<longrightarrow> \<not> operating w"
    using sample_values(5) by (auto simp: set_tracked_records operating_def map_eq_Cons_conv)
  then show ?thesis
    using surface_locked_for_good [OF sample_tracked(1) sample_records(1,2) _ _ _ _ w(1,2)] by (simp add: ladder_names)
qed

lemma advance_all_log: "(ct_log (advance_all cs t) = None) = (ct_log t = None)"
proof (induction cs t rule: advance_all.induct)
  case (2 now surface principal_id to_stage evidence nt cs t)
  have "(ct_log (snd (advance now surface principal_id to_stage evidence nt t)) = None) = (ct_log t = None)"
    by (rule advance_cases [of now surface principal_id to_stage evidence nt t]) simp_all
  with 2 show ?case by simp
qed simp

theorem log_rebuilds_tracker_witness:
  "load_tracker ''2030-01-01T00:00:00+00:00'' (ct_log (sample_tracker (Some None) sample_proven)) =
    Inr (sample_tracker (Some None) sample_proven\<lparr>ct_records :=
      map (\<lambda>(k, r). (k, r\<lparr>cr_evidence := norm_dict (cr_evidence r)\<rparr>)) (ct_records (sample_tracker (Some None) sample_proven))\<rparr>)"
proof -
  have "ct_log (sample_tracker (Some None) sample_proven) \<noteq> None" by (simp add: sample_tracker_def advance_all_log)
  then obtain f where "ct_log (sample_tracker (Some None) sample_proven) = Some f" by blast
  then show ?thesis by (intro log_rebuilds_tracker) (simp_all add: sample_tracked)
qed

end
