(* ===== verification/Capability_Schema.thy ===== *)
theory Capability_Schema
  imports Contracts_Actions
begin

text \<open>
  \<open>_validate_schema\<close> of \<open>capabilities/router.py\<close>: the part of JSON Schema with which the input of a
  skill is checked, and a reference definition of the values a schema admits. A schema is a JSON
  object, a value any Python value. Where the schema itself is malformed Python raises; the cases are
  a \<open>type\<close> that cannot be hashed, a \<open>required\<close> that cannot be iterated or has a list or an object in
  it, and \<open>properties\<close> that are no object.
\<close>

section \<open>The check\<close>

definition type_map :: "string list" where
  "type_map = [''object'', ''array'', ''string'', ''integer'', ''number'', ''boolean'', ''null'']"

text \<open>\<open>isinstance\<close>: a \<open>bool\<close> is an \<open>int\<close>, a member of a \<open>StrEnum\<close> a \<open>str\<close>.\<close>

definition has_type :: "string \<Rightarrow> pyval \<Rightarrow> bool" where
  "has_type t v =
     (case v of
        PDict kvs \<Rightarrow> t = ''object''
      | PList xs \<Rightarrow> t = ''array''
      | PStr s \<Rightarrow> t = ''string''
      | PStrEnum s \<Rightarrow> t = ''string''
      | PInt i \<Rightarrow> t \<in> {''integer'', ''number''}
      | PBool b \<Rightarrow> t \<in> {''integer'', ''number'', ''boolean''}
      | PFloat f \<Rightarrow> t = ''number''
      | PNone \<Rightarrow> t = ''null''
      | _ \<Rightarrow> False)"

datatype schema_error = Schema_Type_Error | Schema_Attribute_Error

text \<open>\<open>expected\<close>, where it names a type of the map.\<close>

definition schema_type :: "(string, json) dict \<Rightarrow> schema_error + string option" where
  "schema_type schema =
     (case json_get schema ''type'' of
        JStr t \<Rightarrow> Inr (if t \<in> set type_map then Some t else None)
      | JList xs \<Rightarrow> Inl Schema_Type_Error
      | JObj kvs \<Rightarrow> Inl Schema_Type_Error
      | _ \<Rightarrow> Inr None)"

definition required_keys :: "(string, json) dict \<Rightarrow> schema_error + json list" where
  "required_keys schema =
     (let v = json_get schema ''required'' in
      if \<not> truthy v then Inr []
      else case v of JList xs \<Rightarrow> Inr xs | JStr s \<Rightarrow> Inr (map (\<lambda>c. JStr [c]) s) | JObj kvs \<Rightarrow> Inr (map JStr (keys kvs))
      | _ \<Rightarrow> Inl Schema_Type_Error)"

definition missing_key :: "string \<Rightarrow> (string, pyval) dict \<Rightarrow> json \<Rightarrow> schema_error + string list" where
  "missing_key path kvs k =
     (case k of
        JStr s \<Rightarrow> Inr (if s \<in> set (keys kvs) then [] else [path @ ''.'' @ s @ '' is required''])
      | JList xs \<Rightarrow> Inl Schema_Type_Error
      | JObj d \<Rightarrow> Inl Schema_Type_Error
      | _ \<Rightarrow> Inr [path @ ''.'' @ py_str k @ '' is required''])"

definition schema_properties :: "(string, json) dict \<Rightarrow> schema_error + (string, json) dict" where
  "schema_properties schema =
     (let v = json_get schema ''properties'' in
      if \<not> truthy v then Inr [] else case v of JObj kvs \<Rightarrow> Inr kvs | _ \<Rightarrow> Inl Schema_Attribute_Error)"

lemma size_member: "(k, v) \<in> set kvs \<Longrightarrow> size v < size (JObj kvs)"
  by (induction kvs) auto

lemma size_get: "json_get schema k = v \<Longrightarrow> v \<noteq> JNull \<Longrightarrow> size v < size (JObj schema)"
  by (auto simp: json_get_def split: option.splits dest!: map_of_SomeD size_member)

lemma size_properties: "schema_properties schema = Inr props \<Longrightarrow> props \<noteq> [] \<Longrightarrow> size (JObj props) < size (JObj schema)"
  using size_get [of schema "''properties''"] by (auto simp: schema_properties_def Let_def split: if_splits json.splits)

function (sequential) validate_schema :: "pyval \<Rightarrow> (string, json) dict \<Rightarrow> string \<Rightarrow> schema_error + string list"
  and validate_properties :: "(string, pyval) dict \<Rightarrow> (string, json) dict \<Rightarrow> string \<Rightarrow> schema_error + string list"
  and validate_items :: "pyval list \<Rightarrow> (string, json) dict \<Rightarrow> string \<Rightarrow> nat \<Rightarrow> schema_error + string list" where
  "validate_schema v schema path =
     (if schema = [] then Inr []
      else case schema_type schema of
        Inl e \<Rightarrow> Inl e
      | Inr None \<Rightarrow> Inr []
      | Inr (Some t) \<Rightarrow>
          if \<not> has_type t v then Inr [path @ '' must be '' @ t]
          else case v of
            PDict kvs \<Rightarrow>
              (case bindE (required_keys schema) (\<lambda>ks. map_result (missing_key path kvs) ks) of
                 Inl e \<Rightarrow> Inl e
               | Inr missing \<Rightarrow>
                   (case schema_properties schema of
                      Inl e \<Rightarrow> Inl e
                    | Inr [] \<Rightarrow> Inr (concat missing)
                    | Inr (p # props) \<Rightarrow> bindE (validate_properties kvs (p # props) path) (\<lambda>es. Inr (concat missing @ es))))
          | PList xs \<Rightarrow> (case json_get schema ''items'' of JObj items \<Rightarrow> validate_items xs items path 0 | _ \<Rightarrow> Inr [])
          | _ \<Rightarrow> Inr [])"
| "validate_properties kvs [] path = Inr []"
| "validate_properties kvs ((key, child) # props) path =
     bindE (case (dict_get kvs key, child) of
         (Some x, JObj schema) \<Rightarrow> validate_schema x schema (path @ ''.'' @ key)
       | _ \<Rightarrow> Inr [])
       (\<lambda>es. bindE (validate_properties kvs props path) (\<lambda>fs. Inr (es @ fs)))"
| "validate_items [] schema path i = Inr []"
| "validate_items (x # xs) schema path i =
     bindE (validate_schema x schema (path @ ''['' @ nat_str i @ '']''))
       (\<lambda>es. bindE (validate_items xs schema path (Suc i)) (\<lambda>fs. Inr (es @ fs)))"
  by pat_completeness auto
termination
proof (relation "measures
    [case_sum (\<lambda>(v, schema, path). size (JObj schema)) (case_sum (\<lambda>(kvs, props, path). size (JObj props)) (\<lambda>(xs, schema, path, i). size (JObj schema))),
     case_sum (\<lambda>_. 0) (case_sum (\<lambda>_. 0) (\<lambda>_. 1)),
     case_sum (\<lambda>_. 0) (case_sum (\<lambda>_. 0) (\<lambda>(xs, schema, path, i). length xs))]")
qed (auto dest: size_properties size_get)

section \<open>The values a schema admits\<close>

inductive conforms :: "(string, json) dict \<Rightarrow> pyval \<Rightarrow> bool" where
  any: "schema_type schema = Inr None \<Longrightarrow> conforms schema v"
| atom: "schema_type schema = Inr (Some t) \<Longrightarrow> t \<notin> {''object'', ''array''} \<Longrightarrow> has_type t v \<Longrightarrow> conforms schema v"
| object: "schema_type schema = Inr (Some ''object'') \<Longrightarrow> required_keys schema = Inr (map JStr ks) \<Longrightarrow> set ks \<subseteq> set (keys kvs) \<Longrightarrow>
    schema_properties schema = Inr props \<Longrightarrow> (\<And>k child x. (k, JObj child) \<in> set props \<Longrightarrow> dict_get kvs k = Some x \<Longrightarrow> conforms child x) \<Longrightarrow>
    conforms schema (PDict kvs)"
| array: "schema_type schema = Inr (Some ''array'') \<Longrightarrow>
    (\<And>child x. json_get schema ''items'' = JObj child \<Longrightarrow> x \<in> set xs \<Longrightarrow> conforms child x) \<Longrightarrow> conforms schema (PList xs)"

text \<open>A schema none of whose parts is malformed.\<close>

inductive plain_schema :: "(string, json) dict \<Rightarrow> bool" where
  plain: "schema_type schema = Inr t \<Longrightarrow> required_keys schema = Inr (map JStr ks) \<Longrightarrow> schema_properties schema = Inr props \<Longrightarrow>
    (\<And>k child. (k, JObj child) \<in> set props \<Longrightarrow> plain_schema child) \<Longrightarrow>
    (\<And>child. json_get schema ''items'' = JObj child \<Longrightarrow> plain_schema child) \<Longrightarrow> plain_schema schema"

definition decides :: "(string, json) dict \<Rightarrow> bool" where
  "decides schema = (\<forall>v path. \<exists>es. validate_schema v schema path = Inr es \<and> (es = []) = conforms schema v)"

lemma validate_properties_decides:
  assumes "\<And>k child. (k, JObj child) \<in> set props \<Longrightarrow> decides child"
  shows "\<exists>es. validate_properties kvs props path = Inr es \<and>
    (es = []) = (\<forall>k child x. (k, JObj child) \<in> set props \<and> dict_get kvs k = Some x \<longrightarrow> conforms child x)"
  using assms
proof (induction props)
  case (Cons p props)
  obtain key child where p: "p = (key, child)" by (cases p)
  obtain fs where fs: "validate_properties kvs props path = Inr fs"
    "(fs = []) = (\<forall>k child x. (k, JObj child) \<in> set props \<and> dict_get kvs k = Some x \<longrightarrow> conforms child x)"
    using Cons by (meson list.set_intros(2))
  show ?case
  proof (cases "\<exists>x c. dict_get kvs key = Some x \<and> child = JObj c")
    case True
    then obtain x c where c: "dict_get kvs key = Some x" "child = JObj c" by blast
    then have "decides c" using Cons.prems p by (meson list.set_intros(1))
    then obtain es where "validate_schema x c (path @ ''.'' @ key) = Inr es" "(es = []) = conforms c x" unfolding decides_def by blast
    moreover have "(\<forall>k d y. (k, JObj d) \<in> set ((key, JObj c) # props) \<and> dict_get kvs k = Some y \<longrightarrow> conforms d y) =
        (conforms c x \<and> (\<forall>k d y. (k, JObj d) \<in> set props \<and> dict_get kvs k = Some y \<longrightarrow> conforms d y))"
      using c(1) by auto
    ultimately show ?thesis using c fs unfolding p by (simp del: validate_schema.simps)
  next
    case False
    then have "(case (dict_get kvs key, child) of (Some x, JObj schema) \<Rightarrow> validate_schema x schema (path @ ''.'' @ key) | _ \<Rightarrow> Inr []) = Inr []"
      by (auto split: option.splits json.splits)
    with False fs show ?thesis by (auto simp: p simp del: validate_schema.simps)
  qed
qed simp

lemma validate_items_decides:
  assumes "decides child"
  shows "\<exists>es. validate_items xs child path i = Inr es \<and> (es = []) = (\<forall>x \<in> set xs. conforms child x)"
proof (induction xs arbitrary: i)
  case (Cons x xs)
  obtain es where "validate_schema x child (path @ ''['' @ nat_str i @ '']'') = Inr es" "(es = []) = conforms child x"
    using assms unfolding decides_def by blast
  moreover obtain fs where "validate_items xs child path (Suc i) = Inr fs" "(fs = []) = (\<forall>x \<in> set xs. conforms child x)"
    using Cons by blast
  ultimately show ?case by auto
qed simp

lemma missing_keys:
  "map_result (missing_key path kvs) (map JStr ks) =
    Inr (map (\<lambda>k. if k \<in> set (keys kvs) then [] else [path @ ''.'' @ k @ '' is required'']) ks)"
  by (induction ks) (simp_all add: missing_key_def)

lemma JStr_inject: "map JStr ks = map JStr ls \<longleftrightarrow> ks = ls"
  by (simp add: inj_map_eq_map inj_def)

inductive_simps conforms_object: "conforms schema (PDict kvs)"
inductive_simps conforms_array: "conforms schema (PList xs)"

lemma conforms_object_iff:
  assumes "schema_type schema = Inr (Some ''object'')" "required_keys schema = Inr (map JStr ks)" "schema_properties schema = Inr props"
  shows "conforms schema (PDict kvs) =
    (set ks \<subseteq> set (keys kvs) \<and> (\<forall>k child x. (k, JObj child) \<in> set props \<and> dict_get kvs k = Some x \<longrightarrow> conforms child x))"
  using assms by (subst conforms_object) (auto simp: JStr_inject)

lemma conforms_array_iff:
  "schema_type schema = Inr (Some ''array'') \<Longrightarrow>
    conforms schema (PList xs) = (\<forall>child x. json_get schema ''items'' = JObj child \<and> x \<in> set xs \<longrightarrow> conforms child x)"
  by (subst conforms_array) auto

lemma validate_schema_typed:
  "schema_type schema = Inr (Some t) \<Longrightarrow> schema \<noteq> []"
  by (auto simp: schema_type_def json_get_def)

lemma conforms_typed: "conforms schema v \<Longrightarrow> schema_type schema = Inr (Some t) \<Longrightarrow> has_type t v"
  by (induction rule: conforms.induct) (auto simp: has_type_def)

lemma plain_decides:
  assumes "plain_schema schema"
  shows "decides schema"
  using assms
proof (induction rule: plain_schema.induct)
  case (plain schema t ks props)
  show ?case unfolding decides_def
  proof (intro allI)
    fix v path
    show "\<exists>es. validate_schema v schema path = Inr es \<and> (es = []) = conforms schema v"
    proof (cases t)
      case None
      with plain(1) show ?thesis by (simp add: conforms.any)
    next
      case (Some ty)
      have ne: "schema \<noteq> []" using validate_schema_typed plain(1) Some by blast
      consider (wrong) "\<not> has_type ty v" | (dict) kvs where "ty = ''object''" "v = PDict kvs" | (list) xs where "ty = ''array''" "v = PList xs"
        | (other) "has_type ty v" "ty \<notin> {''object'', ''array''}" "\<forall>kvs. v \<noteq> PDict kvs" "\<forall>xs. v \<noteq> PList xs"
        by (cases v) (auto simp: has_type_def)
      then show ?thesis
      proof cases
        case wrong
        then have "\<not> conforms schema v" using conforms_typed plain(1) Some by blast
        with wrong ne plain(1) Some show ?thesis by simp
      next
        case (dict kvs)
        have ty: "schema_type schema = Inr (Some ''object'')" using plain(1) Some dict by simp
        obtain es where "validate_properties kvs props path = Inr es"
          "(es = []) = (\<forall>k child x. (k, JObj child) \<in> set props \<and> dict_get kvs k = Some x \<longrightarrow> conforms child x)"
          using validate_properties_decides plain.IH(1) by blast
        then show ?thesis using ne ty plain(2,3) dict(2)
          by (cases props) (auto simp: has_type_def missing_keys conforms_object_iff [OF ty plain(2,3)])
      next
        case (list xs)
        have ty: "schema_type schema = Inr (Some ''array'')" using plain(1) Some list by simp
        show ?thesis
        proof (cases "\<exists>child. json_get schema ''items'' = JObj child")
          case True
          then obtain child where c: "json_get schema ''items'' = JObj child" by blast
          then obtain es where "validate_items xs child path 0 = Inr es" "(es = []) = (\<forall>x \<in> set xs. conforms child x)"
            using validate_items_decides plain.IH(2) by blast
          with c ne ty list show ?thesis by (auto simp: has_type_def conforms_array_iff)
        next
          case False
          then have "(case json_get schema ''items'' of JObj items \<Rightarrow> validate_items xs items path 0 | _ \<Rightarrow> Inr []) = Inr []"
            by (auto split: json.splits)
          with False ne ty list show ?thesis by (simp add: has_type_def conforms_array_iff)
        qed
      next
        case other
        then have "conforms schema v" using plain(1) Some conforms.atom by blast
        with other ne plain(1) Some show ?thesis by (auto split: pyval.splits)
      qed
    qed
  qed
qed

text \<open>
  C28: For a schema without malformed parts the check returns for every value and every path, and it
  returns no error exactly for the values that \<open>conforms\<close> admits. Under a known type these are the values
  of the type: an object with every required key and, under each declared property it has, an admitted
  value; an array with admitted items; any value of another type. Under no type, or an unknown one, they
  are all values, whatever keys and properties the schema lists besides.\<close>

theorem schema_check_decides:
  assumes "plain_schema schema"
  shows "\<exists>es. validate_schema v schema path = Inr es \<and> (es = [] \<longleftrightarrow> conforms schema v)"
  using plain_decides [OF assms] unfolding decides_def by blast

text \<open>A schema that names a list of types makes the check raise, whatever the value.\<close>

lemma union_type_raises:
  "dict_get schema ''type'' = Some (JList ts) \<Longrightarrow> validate_schema v schema path = Inl Schema_Type_Error"
  by (auto simp: schema_type_def json_get_def)

definition sample_schema :: "(string, json) dict" where
  "sample_schema = [(''type'', JStr ''object''), (''required'', JList [JStr ''name'']),
     (''properties'', JObj [(''name'', JObj [(''type'', JStr ''string'')]),
       (''tags'', JObj [(''type'', JStr ''array''), (''items'', JObj [(''type'', JStr ''string'')])])])]"

theorem schema_check_decides_witness:
  "conforms sample_schema (PDict [(''name'', PStr ''Aether''), (''tags'', PList [PStr ''x''])]) \<and>
   \<not> conforms sample_schema (PDict [(''name'', PStr ''Aether''), (''tags'', PList [PInt 1])])"
proof -
  have str: "plain_schema [(''type'', JStr ''string'')]"
    by (rule plain_schema.plain [of _ "Some ''string''" "[]" "[]"])
      (simp_all add: schema_type_def required_keys_def schema_properties_def json_get_def type_map_def truthy_def)
  have lst: "plain_schema [(''type'', JStr ''array''), (''items'', JObj [(''type'', JStr ''string'')])]"
    by (rule plain_schema.plain [of _ "Some ''array''" "[]" "[]"])
      (use str in \<open>simp_all add: schema_type_def required_keys_def schema_properties_def json_get_def type_map_def truthy_def\<close>)
  have plain: "plain_schema sample_schema"
    by (rule plain_schema.plain [of _ "Some ''object''" "[''name'']"])
      (use str lst in \<open>auto simp: sample_schema_def schema_type_def required_keys_def schema_properties_def json_get_def type_map_def truthy_def\<close>)
  have "validate_schema (PDict [(''name'', PStr ''Aether''), (''tags'', PList [PStr ''x''])]) sample_schema ''input'' = Inr []"
    "validate_schema (PDict [(''name'', PStr ''Aether''), (''tags'', PList [PInt 1])]) sample_schema ''input'' = Inr [''input.tags[0] must be string'']"
    by code_simp+
  moreover have "conforms sample_schema v = (validate_schema v sample_schema ''input'' = Inr [])" for v
    using schema_check_decides [OF plain, of v "''input''"] by (elim exE conjE) (simp del: validate_schema.simps)
  ultimately show ?thesis by (simp del: validate_schema.simps)
qed

declare validate_schema.simps [simp del]

end
