(* ===== verification/Capability_Router.thy ===== *)
theory Capability_Router
  imports Capability_Schema Skill_Factory Action_Path "HOL-Library.Product_Lexorder"
begin

text \<open>
  \<open>contracts/capabilities.py\<close> and \<open>capabilities/router.py\<close>: the choice of an active skill for a
  capability, its execution through the governed action executor with fallback, and the executor that
  offers routing to model providers.

  The executors are outside: \<open>run\<close> and \<open>base\<close> are what awaiting their \<open>execute\<close> does, which includes all
  that other tasks do meanwhile, so they may change the whole state; \<open>rs_world\<close> is what they act on
  beyond the skills and the journal. Only an await advances the clock. Scores are rational numbers. What
  \<open>dict\<close> makes of a list of pairs is left out: an \<open>input\<close> that is such a list is an error here.
\<close>

section \<open>Contracts\<close>

datatype route_status = ROUTE_SELECTED | ROUTE_PENDING_APPROVAL | ROUTE_COMPLETED | ROUTE_FALLBACK_COMPLETED | ROUTE_BLOCKED
  | ROUTE_NOT_FOUND | ROUTE_FAILED

primrec route_status_value :: "route_status \<Rightarrow> string" where
  "route_status_value ROUTE_SELECTED = ''selected''"
| "route_status_value ROUTE_PENDING_APPROVAL = ''pending-approval''"
| "route_status_value ROUTE_COMPLETED = ''completed''"
| "route_status_value ROUTE_FALLBACK_COMPLETED = ''fallback-completed''"
| "route_status_value ROUTE_BLOCKED = ''blocked''"
| "route_status_value ROUTE_NOT_FOUND = ''not-found''"
| "route_status_value ROUTE_FAILED = ''failed''"

record capability_requirement =
  rq_capability :: string
  rq_arguments :: "(string, pyval) dict"
  rq_required_runtime_features :: "string list"
  rq_allowed_side_effects :: "string list"
  rq_reason :: string
  rq_risk :: action_risk
  rq_reversible :: bool
  rq_allow_fallback :: bool
  rq_session_id :: "string option"
  rq_correlation_id :: "string option"
  rq_metadata :: "(string, pyval) dict"
  rq_requirement_id :: string

record runtime_profile =
  rp_routing_key :: string
  rp_adapter_id :: string
  rp_operations :: "string list"
  rp_runtime_features :: "string list"
  rp_supported_side_effects :: "string list"
  rp_healthy :: bool
  rp_priority :: int

record route_candidate =
  rc_skill_id :: string
  rc_candidate_id :: string
  rc_skill_name :: string
  rc_skill_version :: string
  rc_artifact_hash :: string
  rc_capability :: string
  rc_runtime_routing_key :: string
  rc_runtime_adapter_id :: string
  rc_score :: rat
  rc_usage_count :: nat
  rc_success_rate :: rat
  rc_blockers :: "string list"
  rc_metadata :: "(string, json) dict"

record route_decision =
  rd_requirement_id :: string
  rd_status :: route_status
  rd_candidates :: "route_candidate list"
  rd_selected :: "route_candidate option"
  rd_blockers :: "string list"
  rd_failure_fingerprint :: "string option"
  rd_decision_id :: string

record capability_execution =
  ce_requirement :: capability_requirement
  ce_decision :: route_decision
  ce_status :: route_status
  ce_ok :: bool
  ce_output :: pyval
  ce_error :: "string option"
  ce_selected_skill_id :: "string option"
  ce_attempts :: "(string, json) dict list"
  ce_action_result :: "action_result option"
  ce_failure_fingerprint :: "string option"

definition capability_requirement_fingerprint :: "digest \<Rightarrow> capability_requirement \<Rightarrow> string \<Rightarrow> string" where
  "capability_requirement_fingerprint sha q error = sha (dumps compact_utf8 (JObj [
     (''capability'', JStr (rq_capability q)), (''arguments'', json_safe (PDict (rq_arguments q))),
     (''required_runtime_features'', str_list (sort (rq_required_runtime_features q))),
     (''allowed_side_effects'', str_list (sort (rq_allowed_side_effects q))), (''error'', JStr (strip error))]))"

definition side_effect_scopes :: "string list \<Rightarrow> action_scope list" where
  "side_effect_scopes side_effects = EXECUTE # List.map_filter (\<lambda>x. scope_of (lower (strip x))) side_effects"

definition scopes_for_side_effects :: "string list \<Rightarrow> action_scope list" where
  "scopes_for_side_effects side_effects = sort_key scope_value (remdups (side_effect_scopes side_effects))"

section \<open>Policy and state\<close>

record router_policy =
  ro_maximum_attempts :: int
  ro_success_rate_weight :: rat
  ro_require_healthy_runtime :: bool
  ro_require_all_runtime_features :: bool
  ro_require_all_side_effects_supported :: bool
  ro_require_input_schema_validation :: bool
  ro_require_output_schema_validation :: bool
  ro_fallback_enabled :: bool
  ro_do_not_fallback_on_pending_approval :: bool
  ro_action_operation :: string

definition shipped_router_policy :: router_policy where
  "shipped_router_policy = \<lparr>ro_maximum_attempts = 2, ro_success_rate_weight = 1 / 10, ro_require_healthy_runtime = True,
     ro_require_all_runtime_features = True, ro_require_all_side_effects_supported = True, ro_require_input_schema_validation = True,
     ro_require_output_schema_validation = True, ro_fallback_enabled = True, ro_do_not_fallback_on_pending_approval = True,
     ro_action_operation = ''skill.execute''\<rparr>"

record router_env =
  rv_skills :: skill_env
  rv_policy :: router_policy
  rv_profiles :: "runtime_profile list"

record 'w router_state =
  rs_skills :: skill_state
  rs_now :: instant
  rs_world :: 'w

datatype routing_error = Router_Skill_Error skill_error | Router_Schema_Error schema_error | Router_Type_Error | Router_Executor_Error string string

type_synonym ('w, 'a) routed = "('w router_state, routing_error, 'a) comp"
type_synonym 'w action_runner = "action_proposal \<Rightarrow> ('w, action_result) routed"

datatype route_event = CAPABILITY_REQUIRED | SKILL_ROUTE_SELECTED | SKILL_ROUTE_BLOCKED | SKILL_FALLBACK_SELECTED
  | SKILL_EXECUTION_VERIFIED | SKILL_EXECUTION_FAILED

primrec route_event_value :: "route_event \<Rightarrow> string" where
  "route_event_value CAPABILITY_REQUIRED = ''capability.required''"
| "route_event_value SKILL_ROUTE_SELECTED = ''skill.route.selected''"
| "route_event_value SKILL_ROUTE_BLOCKED = ''skill.route.blocked''"
| "route_event_value SKILL_FALLBACK_SELECTED = ''skill.fallback.selected''"
| "route_event_value SKILL_EXECUTION_VERIFIED = ''skill.execution.verified''"
| "route_event_value SKILL_EXECUTION_FAILED = ''skill.execution.failed''"

definition route_hex :: "router_env \<Rightarrow> ('w, string) routed" where
  "route_hex env st =
     (let k = rs_skills st in (Inr (sf_hex (rv_skills env) (sf_counter k)), st\<lparr>rs_skills := k\<lparr>sf_counter := Suc (sf_counter k)\<rparr>\<rparr>))"

definition route_store :: "(skill_store \<Rightarrow> skill_error + 'a) \<Rightarrow> ('w, 'a) routed" where
  "route_store f st = liftE Router_Skill_Error (f (sf_store (rs_skills st))) st"

definition route_emit :: "router_env \<Rightarrow> route_event \<Rightarrow> (string, json) dict \<Rightarrow> string \<Rightarrow> string option \<Rightarrow> string option
    \<Rightarrow> ('w, string option) routed" where
  "route_emit env t payload severity correlation causation =
     (if \<not> sf_has_bus (rv_skills env) then ret causation
      else bindS (route_hex env) (\<lambda>hex. bindS (getS rs_now) (\<lambda>now.
        let e = canon_event (make_event hex now (route_event_value t) ''aether.capability-router'' payload severity correlation causation) in
        bindS (modS (\<lambda>st. st\<lparr>rs_skills := rs_skills st\<lparr>sf_journal := sf_journal (rs_skills st) @ [e]\<rparr>\<rparr>)) (\<lambda>_.
        ret (Some (ev_id e))))))"

section \<open>Selection\<close>

definition set_minus :: "string list \<Rightarrow> string list \<Rightarrow> string list" where
  "set_minus xs ys = sort (remdups (filter (\<lambda>x. x \<notin> set ys) xs))"

definition compatibility_blockers :: "router_policy \<Rightarrow> skill_record \<Rightarrow> capability_requirement \<Rightarrow> runtime_profile \<Rightarrow> string list" where
  "compatibility_blockers pol r q p =
     (let usage = sm_usage (sr_manifest r);
          missing_features = set_minus (rq_required_runtime_features q @ uc_runtime_requirements usage) (rp_runtime_features p);
          unsupported = set_minus (uc_side_effects usage) (rp_supported_side_effects p);
          disallowed = set_minus (uc_side_effects usage) (rq_allowed_side_effects q) in
      (if ro_require_healthy_runtime pol \<and> \<not> rp_healthy p then [''runtime adapter is unhealthy: '' @ rp_adapter_id p] else []) @
      (if ro_action_operation pol \<notin> set (rp_operations p)
       then [''runtime does not support '' @ ro_action_operation pol @ '': '' @ rp_adapter_id p] else []) @
      (if missing_features \<noteq> [] \<and> ro_require_all_runtime_features pol
       then [''runtime missing features: '' @ join '', '' missing_features] else []) @
      (if unsupported \<noteq> [] \<and> ro_require_all_side_effects_supported pol
       then [''runtime does not support side effects: '' @ join '', '' unsupported] else []) @
      (if rq_allowed_side_effects q \<noteq> [] \<and> disallowed \<noteq> []
       then [''skill requests disallowed side effects: '' @ join '', '' disallowed] else []))"

definition usage_rate :: "skill_usage list \<Rightarrow> rat" where
  "usage_rate us = (if us = [] then 1 / 2 else of_nat (length (filter su_success us)) / of_nat (length us))"

definition route_candidate_of :: "router_policy \<Rightarrow> skill_store \<Rightarrow> string \<Rightarrow> capability_requirement \<Rightarrow> skill_record \<Rightarrow> runtime_profile
    \<Rightarrow> route_candidate" where
  "route_candidate_of pol s required q r p =
     (let us = usages (sr_skill_id r) s; rate = usage_rate us in
      \<lparr>rc_skill_id = sr_skill_id r, rc_candidate_id = sr_candidate_id r, rc_skill_name = sm_name (sr_manifest r),
       rc_skill_version = sm_version (sr_manifest r), rc_artifact_hash = sr_artifact_hash r, rc_capability = required,
       rc_runtime_routing_key = rp_routing_key p, rc_runtime_adapter_id = rp_adapter_id p,
       rc_score = 1 + rate * ro_success_rate_weight pol - of_int (rp_priority p) / 100000, rc_usage_count = length us,
       rc_success_rate = rate, rc_blockers = compatibility_blockers pol r q p,
       rc_metadata = [(''runtime_features'', str_list (rp_runtime_features p)),
         (''side_effects'', str_list (uc_side_effects (sm_usage (sr_manifest r))))]\<rparr>)"

text \<open>The body of the loop over the records: the blockers and the candidates a record contributes.\<close>

definition route_record :: "router_env \<Rightarrow> skill_store \<Rightarrow> string \<Rightarrow> capability_requirement \<Rightarrow> skill_record
    \<Rightarrow> schema_error + string list \<times> route_candidate list" where
  "route_record env s required q r =
     (let usage = sm_usage (sr_manifest r) in
      if sr_lifecycle_status r \<noteq> SKILL_ACTIVE \<or> required \<notin> set (uc_capabilities usage) then Inr ([], [])
      else bindE (validate_schema (PDict (rq_arguments q)) (uc_input_schema usage) ''input'') (\<lambda>errors.
        if errors \<noteq> [] \<and> ro_require_input_schema_validation (rv_policy env)
        then Inr (map (\<lambda>e. sr_skill_id r @ '': '' @ e) errors, [])
        else Inr ([], map (route_candidate_of (rv_policy env) s required q r) (rv_profiles env))))"

definition route_key :: "route_candidate \<Rightarrow> int \<times> rat \<times> string \<times> string" where
  "route_key c = (if rc_blockers c = [] then - 1 else 0, - rc_score c, rc_skill_name c, rc_skill_id c)"

text \<open>\<open>route\<close>, apart from the identifier of the decision, which is the last argument.\<close>

definition route_over :: "router_env \<Rightarrow> capability_requirement \<Rightarrow> skill_store \<Rightarrow> string \<Rightarrow> routing_error + route_decision" where
  "route_over env q s decision_id =
     (let required = strip (rq_capability q); sha = sf_sha (rv_skills env);
          decision = \<lparr>rd_requirement_id = rq_requirement_id q, rd_status = ROUTE_BLOCKED, rd_candidates = [], rd_selected = None,
            rd_blockers = [], rd_failure_fingerprint = None, rd_decision_id = decision_id\<rparr> in
      if required = []
      then Inr (decision\<lparr>rd_blockers := [''capability is required''],
        rd_failure_fingerprint := Some (capability_requirement_fingerprint sha q ''empty capability'')\<rparr>)
      else case list_records sha 5000 s of
        Inl e \<Rightarrow> Inl (Router_Skill_Error e)
      | Inr records \<Rightarrow>
          (case map_result (route_record env s required q) records of
             Inl e \<Rightarrow> Inl (Router_Schema_Error e)
           | Inr parts \<Rightarrow>
               (let global_blockers = concat (map fst parts);
                    candidates = sort_key route_key (concat (map snd parts)) in
                case filter (\<lambda>c. rc_blockers c = []) candidates of
                  [] \<Rightarrow>
                    (let found = from_keys (global_blockers @ concat (map rc_blockers candidates));
                         blockers = (if found = [] then [''no active compatible skill provides capability '' @ required] else found) in
                     Inr (decision\<lparr>rd_status := (if candidates \<noteq> [] \<or> global_blockers \<noteq> [] then ROUTE_BLOCKED else ROUTE_NOT_FOUND),
                       rd_candidates := candidates, rd_blockers := blockers,
                       rd_failure_fingerprint := Some (capability_requirement_fingerprint sha q (join ''; '' blockers))\<rparr>))
                | c # _ \<Rightarrow> Inr (decision\<lparr>rd_status := ROUTE_SELECTED, rd_candidates := candidates, rd_selected := Some c\<rparr>))))"

definition capability_route :: "router_env \<Rightarrow> capability_requirement \<Rightarrow> ('w, route_decision) routed" where
  "capability_route env q = bindS (getS (\<lambda>st. route_over env q (sf_store (rs_skills st)))) (\<lambda>decide.
     case decide [] of Inl e \<Rightarrow> throw e
     | Inr _ \<Rightarrow> bindS (route_hex env) (\<lambda>hex. liftE id (decide (new_id ''route'' hex))))"

section \<open>Execution\<close>

definition RISK_ORDER :: "action_risk \<Rightarrow> nat" where
  "RISK_ORDER r = (case r of LOW \<Rightarrow> 0 | MEDIUM \<Rightarrow> 1 | HIGH \<Rightarrow> 2 | CRITICAL \<Rightarrow> 3)"

definition derived_risk :: "action_risk \<Rightarrow> string list \<Rightarrow> action_risk" where
  "derived_risk requested side_effects =
     (let derived = (if ''network'' \<in> set side_effects then HIGH
        else if set side_effects \<inter> {''write'', ''memory''} \<noteq> {} then MEDIUM else LOW) in
      if RISK_ORDER derived \<le> RISK_ORDER requested then requested else derived)"

definition skill_proposal :: "router_env \<Rightarrow> capability_requirement \<Rightarrow> route_candidate \<Rightarrow> skill_record \<Rightarrow> string option \<Rightarrow> string
    \<Rightarrow> action_proposal" where
  "skill_proposal env q c r selected_event hex =
     (let side_effects = uc_side_effects (sm_usage (sr_manifest r)) in
      \<lparr>ap_target = RUNTIME, ap_operation = ro_action_operation (rv_policy env),
       ap_arguments = [(''skill_id'', PStr (sr_skill_id r)), (''artifact_hash'', PStr (sr_artifact_hash r)),
         (''capability'', PStr (rq_capability q)), (''input'', PDict (rq_arguments q)), (''requirement_id'', PStr (rq_requirement_id q))],
       ap_required_scopes = scopes_for_side_effects side_effects,
       ap_reason = str_or (strip (rq_reason q)) (''Execute active Aether skill for capability '' @ rq_capability q),
       ap_risk = derived_risk (rq_risk q) side_effects,
       ap_reversible = (rq_reversible q \<and> set side_effects \<inter> {''write'', ''network'', ''memory''} = {}),
       ap_correlation_id = rq_correlation_id q,
       ap_retry_reason = (let s = pv_get_or (rq_metadata q) ''retry_reason'' [] in if s = [] then None else Some s),
       ap_metadata = dict_update (rq_metadata q) [(''runtime_id'', PStr (rc_runtime_routing_key c)), (''skill_id'', PStr (rc_skill_id c)),
         (''skill_artifact_hash'', PStr (rc_artifact_hash c)), (''capability_requirement_id'', PStr (rq_requirement_id q)),
         (''session_id'', opt_str (rq_session_id q)), (''route_event_id'', opt_str selected_event)],
       ap_action_id = new_id ''act'' hex\<rparr>)"

definition attempt_entry :: "nat \<Rightarrow> route_candidate \<Rightarrow> action_result \<Rightarrow> (string, json) dict" where
  "attempt_entry index c r = [(''attempt'', JInt (int index + 1)), (''skill_id'', JStr (rc_skill_id c)),
     (''runtime_adapter_id'', JStr (rc_runtime_adapter_id c)), (''action_id'', JStr (ar_action_id r)), (''ok'', JBool (ar_ok r)),
     (''status'', JStr (ar_status r)), (''failure_fingerprint'', json_opt (ar_failure_fingerprint r))]"

text \<open>After the loop: no attempt succeeded. The last attempt is the one made for \<open>selected\<close>.\<close>

definition execution_failed :: "router_env \<Rightarrow> capability_requirement \<Rightarrow> route_decision \<Rightarrow> string option \<Rightarrow> (string, json) dict list
    \<Rightarrow> string option \<Rightarrow> action_result option \<Rightarrow> ('w, capability_execution) routed" where
  "execution_failed env q d required_event attempts selected last_result =
     (let error = (case last_result of None \<Rightarrow> Some ''No compatible skill execution was attempted'' | Some r \<Rightarrow> ar_error r);
          computed = capability_requirement_fingerprint (sf_sha (rv_skills env)) q (ostr_or error ''skill execution failed'');
          fp = (case last_result of None \<Rightarrow> computed | Some r \<Rightarrow> ostr_or (ar_failure_fingerprint r) computed) in
      bindS (route_emit env SKILL_EXECUTION_FAILED [(''requirement_id'', JStr (rq_requirement_id q)),
        (''selected_skill_id'', json_opt selected), (''attempts'', JList (map JObj attempts)), (''error'', json_opt error),
        (''failure_fingerprint'', JStr fp)] ''error'' (rq_correlation_id q) required_event) (\<lambda>_.
      ret \<lparr>ce_requirement = q, ce_decision = d\<lparr>rd_status := ROUTE_FAILED\<rparr>, ce_status = ROUTE_FAILED, ce_ok = False, ce_output = PNone,
        ce_error = error, ce_selected_skill_id = selected, ce_attempts = attempts, ce_action_result = last_result,
        ce_failure_fingerprint = Some fp\<rparr>))"

definition attempt_done :: "capability_requirement \<Rightarrow> route_decision \<Rightarrow> route_candidate \<Rightarrow> (string, json) dict list \<Rightarrow> action_result
    \<Rightarrow> route_status \<Rightarrow> bool \<Rightarrow> capability_execution" where
  "attempt_done q d c attempts r status ok =
     \<lparr>ce_requirement = q, ce_decision = d\<lparr>rd_status := status, rd_selected := Some c\<rparr>, ce_status = status, ce_ok = ok,
      ce_output = (if ok then ar_output r else PNone), ce_error = (if ok then None else ar_error r),
      ce_selected_skill_id = Some (rc_skill_id c), ce_attempts = attempts, ce_action_result = Some r, ce_failure_fingerprint = None\<rparr>"

text \<open>One round up to the await: the event, the record as the store has it now, and the proposal.\<close>

definition attempt_propose :: "router_env \<Rightarrow> capability_requirement \<Rightarrow> string option \<Rightarrow> nat \<Rightarrow> route_candidate
    \<Rightarrow> ('w, string option \<times> action_proposal) routed" where
  "attempt_propose env q required_event index c =
     bindS (route_emit env (if index = 0 then SKILL_ROUTE_SELECTED else SKILL_FALLBACK_SELECTED)
       [(''requirement_id'', JStr (rq_requirement_id q)), (''skill_id'', JStr (rc_skill_id c)), (''candidate_id'', JStr (rc_candidate_id c)),
        (''runtime_adapter_id'', JStr (rc_runtime_adapter_id c)), (''score'', JFloat (sf_float (rv_skills env) (rc_score c))),
        (''attempt'', JInt (int index + 1))] ''info'' (rq_correlation_id q) required_event) (\<lambda>selected_event.
     bindS (route_store (get_record (sf_sha (rv_skills env)) (rc_skill_id c))) (\<lambda>r.
     bindS (route_hex env) (\<lambda>hex. ret (selected_event, skill_proposal env q c r selected_event hex))))"

primrec attempt_skills :: "router_env \<Rightarrow> 'w action_runner \<Rightarrow> capability_requirement \<Rightarrow> route_decision \<Rightarrow> string option
    \<Rightarrow> route_candidate list \<Rightarrow> nat \<Rightarrow> (string, json) dict list \<Rightarrow> string option \<Rightarrow> action_result option \<Rightarrow> ('w, capability_execution) routed" where
  "attempt_skills env run q d required_event [] index attempts selected last_result =
     execution_failed env q d required_event attempts selected last_result"
| "attempt_skills env run q d required_event (c # cs) index attempts selected last_result =
     bindS (attempt_propose env q required_event index c) (\<lambda>(selected_event, proposal).
     bindS (run proposal) (\<lambda>r.
     let attempts = attempts @ [attempt_entry index c r] in
     if ar_status r = ''pending-approval'' \<and> ro_do_not_fallback_on_pending_approval (rv_policy env)
     then ret (attempt_done q d c attempts r ROUTE_PENDING_APPROVAL False)
     else if ar_ok r then
       let status = (if index = 0 then ROUTE_COMPLETED else ROUTE_FALLBACK_COMPLETED); v = pv_get (ar_metadata r) ''event_id'' in
       bindS (route_emit env SKILL_EXECUTION_VERIFIED [(''requirement_id'', JStr (rq_requirement_id q)), (''skill_id'', JStr (rc_skill_id c)),
         (''runtime_adapter_id'', JStr (rc_runtime_adapter_id c)), (''action_id'', JStr (ar_action_id r)), (''fallback'', JBool (0 < index))]
         ''info'' (rq_correlation_id q)
         (Some (if pv_truthy v then pv_str v else case selected_event of None \<Rightarrow> ''None'' | Some i \<Rightarrow> i))) (\<lambda>_.
       ret (attempt_done q d c attempts r status True))
     else attempt_skills env run q d required_event cs (Suc index) attempts (Some (rc_skill_id c)) (Some r)))"

definition py_prefix :: "int \<Rightarrow> 'a list \<Rightarrow> 'a list" where
  "py_prefix n xs = take (nat (if n < 0 then int (length xs) + n else n)) xs"

definition attempt_limit :: "router_policy \<Rightarrow> capability_requirement \<Rightarrow> int" where
  "attempt_limit pol q = (if rq_allow_fallback q \<and> ro_fallback_enabled pol then ro_maximum_attempts pol else 1)"

definition capability_execute :: "router_env \<Rightarrow> 'w action_runner \<Rightarrow> capability_requirement \<Rightarrow> ('w, capability_execution) routed" where
  "capability_execute env run q =
     bindS (route_emit env CAPABILITY_REQUIRED [(''requirement_id'', JStr (rq_requirement_id q)), (''capability'', JStr (rq_capability q)),
       (''required_runtime_features'', str_list (rq_required_runtime_features q)),
       (''allowed_side_effects'', str_list (rq_allowed_side_effects q))] ''info'' (rq_correlation_id q) None) (\<lambda>required_event.
     bindS (capability_route env q) (\<lambda>d.
     if rd_selected d = None then
       bindS (route_emit env SKILL_ROUTE_BLOCKED [(''requirement_id'', JStr (rq_requirement_id q)),
         (''status'', JStr (route_status_value (rd_status d))), (''blockers'', str_list (rd_blockers d)),
         (''failure_fingerprint'', json_opt (rd_failure_fingerprint d))] ''warning'' (rq_correlation_id q) required_event) (\<lambda>_.
       ret \<lparr>ce_requirement = q, ce_decision = d, ce_status = rd_status d, ce_ok = False, ce_output = PNone,
         ce_error = Some (join ''; '' (rd_blockers d)), ce_selected_skill_id = None, ce_attempts = [], ce_action_result = None,
         ce_failure_fingerprint = rd_failure_fingerprint d\<rparr>)
     else attempt_skills env run q d required_event
       (py_prefix (attempt_limit (rv_policy env) q) (filter (\<lambda>c. rc_blockers c = []) (rd_candidates d))) 0 [] None None))"

section \<open>The executor offered to model providers\<close>

definition ROUTE_OPERATION :: string where
  "ROUTE_OPERATION = ''capability.route''"

definition route_capability :: action_capability where
  "route_capability = \<lparr>cap_target = RUNTIME, cap_operation = ROUTE_OPERATION,
     cap_description = ''Route a capability requirement to an active governed Aether skill.'', cap_required_scopes = [], cap_reversible = True,
     cap_input_schema = [(''type'', PStr ''object''), (''required'', PList [PStr ''capability'', PStr ''input'']),
       (''properties'', PDict [(''capability'', PDict [(''type'', PStr ''string'')]), (''input'', PDict [(''type'', PStr ''object'')]),
         (''required_runtime_features'', PDict [(''type'', PStr ''array'')]), (''allowed_side_effects'', PDict [(''type'', PStr ''array'')]),
         (''allow_fallback'', PDict [(''type'', PStr ''boolean'')])])],
     cap_routing_key = None, cap_cancel_supported = False\<rparr>"

definition routed_capabilities :: "router_env \<Rightarrow> action_capability list \<Rightarrow> action_capability list" where
  "routed_capabilities env base = filter (\<lambda>c. cap_operation c \<noteq> ro_action_operation (rv_policy env)) base @ [route_capability]"

definition text_items :: "pyval \<Rightarrow> routing_error + string list" where
  "text_items v =
     (if \<not> pv_truthy v then Inr []
      else case v of PList xs \<Rightarrow> Inr (map pv_str xs) | PTuple xs \<Rightarrow> Inr (map pv_str xs) | PSet xs t \<Rightarrow> Inr (map pv_str xs)
      | PStr s \<Rightarrow> Inr (map (\<lambda>c. [c]) s) | PStrEnum s \<Rightarrow> Inr (map (\<lambda>c. [c]) s) | PDict kvs \<Rightarrow> Inr (keys kvs) | _ \<Rightarrow> Inl Router_Type_Error)"

definition dict_items :: "pyval \<Rightarrow> routing_error + (string, pyval) dict" where
  "dict_items v = (if \<not> pv_truthy v then Inr [] else case v of PDict kvs \<Rightarrow> Inr kvs | _ \<Rightarrow> Inl Router_Type_Error)"

definition routed_requirement :: "action_proposal \<Rightarrow> string \<Rightarrow> routing_error + capability_requirement" where
  "routed_requirement p hex =
     (let arguments = ap_arguments p in
      bindE (dict_items (pv_get arguments ''input'')) (\<lambda>input.
      bindE (text_items (pv_get arguments ''required_runtime_features'')) (\<lambda>features.
      bindE (text_items (pv_get arguments ''allowed_side_effects'')) (\<lambda>allowed.
      Inr \<lparr>rq_capability = pv_get_or arguments ''capability'' [], rq_arguments = input, rq_required_runtime_features = features,
        rq_allowed_side_effects = allowed, rq_reason = ap_reason p, rq_risk = ap_risk p, rq_reversible = ap_reversible p,
        rq_allow_fallback = (case dict_get arguments ''allow_fallback'' of None \<Rightarrow> True | Some v \<Rightarrow> pv_truthy v),
        rq_session_id = (let s = pv_get_or (ap_metadata p) ''session_id'' [] in if s = [] then None else Some s),
        rq_correlation_id = ap_correlation_id p, rq_metadata = dict_set ''retry_reason'' (opt_str (ap_retry_reason p)) (ap_metadata p),
        rq_requirement_id = new_id ''capability'' hex\<rparr>))))"

definition route_metadata :: "capability_requirement \<Rightarrow> capability_execution \<Rightarrow> (string, pyval) dict" where
  "route_metadata q x = [(''capability_requirement_id'', PStr (rq_requirement_id q)),
     (''route_status'', PStr (route_status_value (ce_status x))), (''selected_skill_id'', opt_str (ce_selected_skill_id x)),
     (''route_attempts'', PList (map (\<lambda>a. of_json (JObj a)) (ce_attempts x)))]"

definition routed_execute :: "router_env \<Rightarrow> (action_proposal \<Rightarrow> action_approval option \<Rightarrow> ('w, action_result) routed) \<Rightarrow> 'w action_runner
    \<Rightarrow> action_proposal \<Rightarrow> action_approval option \<Rightarrow> ('w, action_result) routed" where
  "routed_execute env base run p approval =
     (if ap_operation p \<noteq> ROUTE_OPERATION then base p approval
      else case routed_requirement p [] of
        Inl e \<Rightarrow> throw e
      | Inr _ \<Rightarrow>
          bindS (route_hex env) (\<lambda>hex.
          bindS (liftE id (routed_requirement p hex)) (\<lambda>q.
          bindS (capability_execute env run q) (\<lambda>x.
          ret (case ce_action_result x of
              Some r \<Rightarrow> r\<lparr>ar_metadata := dict_update (ar_metadata r) (route_metadata q x)\<rparr>
            | None \<Rightarrow> \<lparr>ar_action_id = ap_action_id p, ar_ok = ce_ok x, ar_status = route_status_value (ce_status x), ar_output = ce_output x,
                ar_error = ce_error x, ar_metadata = route_metadata q x, ar_failure_fingerprint = ce_failure_fingerprint x\<rparr>)))))"

definition routed_save_continuation :: "(string \<Rightarrow> (string, pyval) dict \<Rightarrow> ('w, unit) routed) \<Rightarrow> string \<Rightarrow> (string, pyval) dict \<Rightarrow> ('w, unit) routed" where
  "routed_save_continuation base approval_id continuation = base approval_id continuation"

end
