(* ===== verification/Capability_Router_Properties.thy ===== *)
theory Capability_Router_Properties
  imports Capability_Router Skill_Properties
begin

text \<open>
  What the router guarantees: which skills it may select, that no constitutionally protected
  capability is ever routed, that every attempt is one governed proposal for exactly the skill the
  store has, and when it falls back to another skill.
\<close>

section \<open>Selection\<close>

lemma map_result_InrD: "map_result f xs = Inr ys \<Longrightarrow> y \<in> set ys \<Longrightarrow> \<exists>x \<in> set xs. f x = Inr y"
proof (induction xs arbitrary: ys)
  case (Cons x xs)
  then show ?case by (cases "f x"; cases "map_result f xs") auto
qed simp

lemma set_minus_Nil [simp]: "set_minus xs ys = [] \<longleftrightarrow> set xs \<subseteq> set ys"
proof -
  have "set_minus xs ys = [] \<longleftrightarrow> set (set_minus xs ys) = {}" by (simp only: set_empty)
  then show ?thesis by (auto simp: set_minus_def)
qed

lemma compatible_iff:
  "compatibility_blockers pol r q p = [] \<longleftrightarrow>
    (ro_require_healthy_runtime pol \<longrightarrow> rp_healthy p) \<and> ro_action_operation pol \<in> set (rp_operations p) \<and>
    (ro_require_all_runtime_features pol \<longrightarrow>
      set (rq_required_runtime_features q) \<union> set (uc_runtime_requirements (sm_usage (sr_manifest r))) \<subseteq> set (rp_runtime_features p)) \<and>
    (ro_require_all_side_effects_supported pol \<longrightarrow> set (uc_side_effects (sm_usage (sr_manifest r))) \<subseteq> set (rp_supported_side_effects p)) \<and>
    (rq_allowed_side_effects q \<noteq> [] \<longrightarrow> set (uc_side_effects (sm_usage (sr_manifest r))) \<subseteq> set (rq_allowed_side_effects q))"
  by (auto simp: compatibility_blockers_def Let_def)

lemma list_records_member:
  assumes "list_records sha n s = Inr rs" "r \<in> set rs"
  shows "\<exists>r\<^sub>0 \<in> set (ss_registry s). skill_manifest_hash sha (sr_manifest r\<^sub>0) = sr_artifact_hash r\<^sub>0 \<and> r = decorate_record s r\<^sub>0"
  using map_result_InrD [OF assms [unfolded list_records_def]]
  by (fastforce simp: read_record_def dest: in_set_takeD split: if_splits)

definition offers :: "router_env \<Rightarrow> capability_requirement \<Rightarrow> skill_store \<Rightarrow> skill_record \<Rightarrow> bool" where
  "offers env q s r = (\<exists>rs. list_records (sf_sha (rv_skills env)) 5000 s = Inr rs \<and> r \<in> set rs \<and> sr_lifecycle_status r = SKILL_ACTIVE \<and>
     strip (rq_capability q) \<in> set (uc_capabilities (sm_usage (sr_manifest r))) \<and>
     (ro_require_input_schema_validation (rv_policy env) \<longrightarrow>
       validate_schema (PDict (rq_arguments q)) (uc_input_schema (sm_usage (sr_manifest r))) ''input'' = Inr []))"

lemma route_record_candidate:
  assumes "route_record env s required q r = Inr (bs, cs)" "c \<in> set cs"
  shows "sr_lifecycle_status r = SKILL_ACTIVE" "required \<in> set (uc_capabilities (sm_usage (sr_manifest r)))"
    "ro_require_input_schema_validation (rv_policy env) \<Longrightarrow>
      validate_schema (PDict (rq_arguments q)) (uc_input_schema (sm_usage (sr_manifest r))) ''input'' = Inr []"
    "\<exists>p \<in> set (rv_profiles env). c = route_candidate_of (rv_policy env) s required q r p"
  using assms
  by (auto simp: route_record_def Let_def bindE_Inr_conv split: if_splits)

lemma route_over_cases:
  assumes "route_over env q s i = Inr d"
  obtains (empty) "rd_candidates d = []" "rd_selected d = None"
  | (routed) rs parts where "list_records (sf_sha (rv_skills env)) 5000 s = Inr rs"
    "map_result (route_record env s (strip (rq_capability q)) q) rs = Inr parts"
    "rd_candidates d = sort_key route_key (concat (map snd parts))"
    "rd_selected d = (case filter (\<lambda>c. rc_blockers c = []) (rd_candidates d) of [] \<Rightarrow> None | c # _ \<Rightarrow> Some c)"
  using assms by (auto simp: route_over_def Let_def split: if_splits sum.splits list.splits)

lemma route_over_candidate:
  assumes "route_over env q s i = Inr d" "c \<in> set (rd_candidates d)"
  obtains r p where "offers env q s r" "p \<in> set (rv_profiles env)" "c = route_candidate_of (rv_policy env) s (strip (rq_capability q)) q r p"
  using assms(1)
proof (cases rule: route_over_cases)
  case (routed rs parts)
  obtain part where part: "part \<in> set parts" "c \<in> set (snd part)" using assms(2) routed(3) by auto
  obtain r where r: "r \<in> set rs" "route_record env s (strip (rq_capability q)) q r = Inr part" using map_result_InrD [OF routed(2) part(1)] by blast
  note c = route_record_candidate [of env s _ q r "fst part" "snd part", OF _ part(2)]
  have "offers env q s r" unfolding offers_def using routed(1) r c by auto
  moreover obtain p where "p \<in> set (rv_profiles env)" "c = route_candidate_of (rv_policy env) s (strip (rq_capability q)) q r p"
    using c(4) r(2) by auto
  ultimately show ?thesis by (rule that)
qed (use assms(2) in simp)

lemma sorted_key_hd: "sorted (map k (x # xs)) \<Longrightarrow> y \<in> set (x # xs) \<Longrightarrow> k x \<le> k y"
  by (cases "y = x") auto

lemma sorted_filter_key: "sorted (map k xs) \<Longrightarrow> sorted (map k (filter P xs))"
  by (induction xs) auto

lemma route_selected_best:
  assumes "route_over env q s i = Inr d" "rd_selected d = Some b" "c \<in> set (rd_candidates d)" "rc_blockers c = []"
  shows "rc_score c \<le> rc_score b"
  using assms(1)
proof (cases rule: route_over_cases)
  case (routed rs parts)
  let ?cs = "filter (\<lambda>c. rc_blockers c = []) (rd_candidates d)"
  obtain cs where cs: "?cs = b # cs" using assms(2) routed(4) by (auto split: list.splits)
  then have "b \<in> set ?cs" by simp
  then have b: "rc_blockers b = []" by simp
  have "sorted (map route_key (b # cs))" unfolding cs [symmetric] by (rule sorted_filter_key) (simp add: routed(3))
  moreover have "c \<in> set (b # cs)" unfolding cs [symmetric] using assms(3,4) by simp
  ultimately have "route_key b \<le> route_key c" by (rule sorted_key_hd)
  then show "rc_score c \<le> rc_score b" using assms(4) b by (auto simp: route_key_def)
qed (use assms(2) in simp)

text \<open>
  What makes a candidate admissible for a requirement under the shipped policy: the skill behind it
  is active in the store, has an artifact that matches its hash, provides the capability and accepts the
  input; the runtime behind it is healthy, executes skills, and has every feature and side effect, all of
  them allowed by the requirement when it lists any.
\<close>

definition admissible :: "router_env \<Rightarrow> capability_requirement \<Rightarrow> skill_store \<Rightarrow> route_candidate \<Rightarrow> bool" where
  "admissible env q s c = (\<exists>r\<^sub>0 \<in> set (ss_registry s). \<exists>p \<in> set (rv_profiles env). let usage = sm_usage (sr_manifest r\<^sub>0) in
      rc_skill_id c = sr_skill_id r\<^sub>0 \<and> rc_artifact_hash c = skill_manifest_hash (sf_sha (rv_skills env)) (sr_manifest r\<^sub>0) \<and>
      sr_lifecycle_status (decorate_record s r\<^sub>0) = SKILL_ACTIVE \<and> strip (rq_capability q) \<in> set (uc_capabilities usage) \<and>
      validate_schema (PDict (rq_arguments q)) (uc_input_schema usage) ''input'' = Inr [] \<and>
      rc_runtime_routing_key c = rp_routing_key p \<and> rp_healthy p \<and> ''skill.execute'' \<in> set (rp_operations p) \<and>
      set (rq_required_runtime_features q) \<union> set (uc_runtime_requirements usage) \<subseteq> set (rp_runtime_features p) \<and>
      set (uc_side_effects usage) \<subseteq> set (rp_supported_side_effects p) \<and>
      (rq_allowed_side_effects q \<noteq> [] \<longrightarrow> set (uc_side_effects usage) \<subseteq> set (rq_allowed_side_effects q)))"

lemma unblocked_admissible:
  assumes "rv_policy env = shipped_router_policy" "route_over env q s i = Inr d" "c \<in> set (rd_candidates d)" "rc_blockers c = []"
  shows "admissible env q s c"
proof -
  obtain r p where rp: "offers env q s r" "p \<in> set (rv_profiles env)" "c = route_candidate_of (rv_policy env) s (strip (rq_capability q)) q r p"
    using route_over_candidate [OF assms(2,3)] .
  then obtain r\<^sub>0 where r\<^sub>0: "r\<^sub>0 \<in> set (ss_registry s)" "skill_manifest_hash (sf_sha (rv_skills env)) (sr_manifest r\<^sub>0) = sr_artifact_hash r\<^sub>0"
    "r = decorate_record s r\<^sub>0"
    unfolding offers_def using list_records_member by blast
  have "compatibility_blockers (rv_policy env) r q p = []" using rp(3) assms(4) by (simp add: route_candidate_of_def Let_def)
  note compat = this [unfolded compatible_iff assms(1) shipped_router_policy_def, simplified]
  have m: "sr_manifest r = sr_manifest r\<^sub>0" "sr_skill_id r = sr_skill_id r\<^sub>0"
    unfolding r\<^sub>0(3) by (simp_all add: decorate_record_def)
  have o: "sr_lifecycle_status (decorate_record s r\<^sub>0) = SKILL_ACTIVE" "strip (rq_capability q) \<in> set (uc_capabilities (sm_usage (sr_manifest r\<^sub>0)))"
    "validate_schema (PDict (rq_arguments q)) (uc_input_schema (sm_usage (sr_manifest r\<^sub>0))) ''input'' = Inr []"
    using rp(1) unfolding offers_def m r\<^sub>0(3) [symmetric] assms(1) by (auto simp: shipped_router_policy_def)
  have "rc_skill_id c = sr_skill_id r\<^sub>0 \<and> rc_artifact_hash c = skill_manifest_hash (sf_sha (rv_skills env)) (sr_manifest r\<^sub>0) \<and>
      rc_runtime_routing_key c = rp_routing_key p"
    unfolding rp(3) r\<^sub>0(2) by (simp add: route_candidate_of_def Let_def m) (simp add: r\<^sub>0(3) decorate_record_def)
  with o compat [unfolded m] r\<^sub>0(1) rp(2) show ?thesis
    unfolding admissible_def Let_def by blast
qed

lemma route_selected:
  assumes "route_over env q s i = Inr d"
  shows "case rd_selected d of
      None \<Rightarrow> filter (\<lambda>c. rc_blockers c = []) (rd_candidates d) = []
    | Some b \<Rightarrow> b \<in> set (rd_candidates d) \<and> rc_blockers b = []"
  using assms
proof (cases rule: route_over_cases)
  case (routed rs parts)
  let ?cs = "filter (\<lambda>c. rc_blockers c = []) (rd_candidates d)"
  show ?thesis
  proof (cases ?cs)
    case (Cons b cs)
    then have "b \<in> set ?cs" "rd_selected d = Some b" using routed(4) by simp_all
    then show ?thesis by simp
  qed (use routed(4) in simp)
qed simp

text \<open>
  C26: Under the shipped policy, the skill a routing decision selects is admissible: active when the
  router decided, with an artifact that matches its hash, providing the required capability, accepting the
  input, on a healthy runtime that supports the operation, every feature and every side effect, all of
  them allowed by the requirement when it lists any. So is every unblocked candidate, the ones kept for
  a fallback, none of them scores higher than the selected one, and nothing is selected only when no
  candidate is unblocked.\<close>

theorem routed_skill_admissible:
  assumes "rv_policy env = shipped_router_policy" "route_over env q s i = Inr d"
  shows "case rd_selected d of
      None \<Rightarrow> filter (\<lambda>c. rc_blockers c = []) (rd_candidates d) = []
    | Some b \<Rightarrow> b \<in> set (rd_candidates d) \<and> rc_blockers b = [] \<and> admissible env q s b \<and>
        (\<forall>c \<in> set (filter (\<lambda>c. rc_blockers c = []) (rd_candidates d)). admissible env q s c \<and> rc_score c \<le> rc_score b)"
  using route_selected [OF assms(2)] unblocked_admissible [OF assms] route_selected_best [OF assms(2)]
  by (cases "rd_selected d") simp_all

text \<open>
  C7: Together with the skill factory: whatever was proposed, benchmarked, decided and installed
  before, a capability the constitution protects is provided by no routable skill, so a requirement for
  it is never given a candidate.\<close>

theorem protected_capability_never_routed:
  assumes "skill_reach (rv_skills env) (st, fs)" "strip (rq_capability q) \<in> set (sk_protected_capabilities (sf_policy (rv_skills env)))"
    and "route_over env q (sf_store st) i = Inr d"
  shows "rd_candidates d = [] \<and> rd_selected d = None"
proof -
  have "c \<notin> set (rd_candidates d)" for c
  proof
    assume "c \<in> set (rd_candidates d)"
    then obtain r where "offers env q (sf_store st) r" using route_over_candidate [OF assms(3)] by metis
    then obtain r\<^sub>0 where "r\<^sub>0 \<in> set (ss_registry (sf_store st))" "strip (rq_capability q) \<in> set (uc_capabilities (sm_usage (sr_manifest r\<^sub>0)))"
      unfolding offers_def using list_records_member by (force simp: decorate_record_def)
    then show False using registry_vetted(4) [OF assms(1)] assms(2) by blast
  qed
  then have "rd_candidates d = []" by (metis list.set_intros(1) neq_Nil_conv)
  moreover from assms(3) this have "rd_selected d = None" by (cases rule: route_over_cases) simp_all
  ultimately show ?thesis ..
qed

section \<open>Execution\<close>

text \<open>
  The executor is observed through the world it acts on: every call is noted with the proposal, the
  skills as they were at that moment, and the answer. What else it does is left open.
\<close>

type_synonym call_log = "(action_proposal \<times> skill_store \<times> (routing_error + action_result)) list"

definition recorded :: "call_log action_runner \<Rightarrow> bool" where
  "recorded run = (\<forall>p st. rs_world (snd (run p st)) = rs_world st @ [(p, sf_store (rs_skills st), fst (run p st))])"

abbreviation skills_of :: "'w router_state \<Rightarrow> skill_store" where
  "skills_of st \<equiv> sf_store (rs_skills st)"

lemma route_emit_frame:
  obtains x st' where "route_emit env t payload severity co ca st = (Inr x, st')" "rs_world st' = rs_world st" "skills_of st' = skills_of st"
  by (cases "sf_has_bus (rv_skills env)") (simp_all add: route_emit_def route_hex_def comp_simps bindS_def Let_def)

lemma attempt_propose_cases:
  obtains (raised) e st' where "attempt_propose env q ev i c st = (Inl e, st')" "rs_world st' = rs_world st"
  | (proposed) r se hex st' where "get_record (sf_sha (rv_skills env)) (rc_skill_id c) (skills_of st) = Inr r"
    "attempt_propose env q ev i c st = (Inr (se, skill_proposal env q c r se hex), st')" "rs_world st' = rs_world st" "skills_of st' = skills_of st"
proof -
  let ?t = "if i = 0 then SKILL_ROUTE_SELECTED else SKILL_FALLBACK_SELECTED"
  let ?pl = "[(''requirement_id'', JStr (rq_requirement_id q)), (''skill_id'', JStr (rc_skill_id c)), (''candidate_id'', JStr (rc_candidate_id c)),
    (''runtime_adapter_id'', JStr (rc_runtime_adapter_id c)), (''score'', JFloat (sf_float (rv_skills env) (rc_score c))), (''attempt'', JInt (int i + 1))]"
  obtain se st1 where e: "route_emit env ?t ?pl ''info'' (rq_correlation_id q) ev st = (Inr se, st1)" "rs_world st1 = rs_world st"
    "skills_of st1 = skills_of st" by (rule route_emit_frame)
  show ?thesis
  proof (cases "get_record (sf_sha (rv_skills env)) (rc_skill_id c) (skills_of st)")
    case (Inl x)
    with e have "attempt_propose env q ev i c st = (Inl (Router_Skill_Error x), st1)"
      by (simp add: attempt_propose_def bindS_def route_store_def comp_simps)
    then show ?thesis using raised e(2) by blast
  next
    case (Inr r)
    with e have "attempt_propose env q ev i c st =
        (Inr (se, skill_proposal env q c r se (sf_hex (rv_skills env) (sf_counter (rs_skills st1)))), snd (route_hex env st1))"
      by (simp add: attempt_propose_def bindS_def route_store_def route_hex_def comp_simps Let_def)
    moreover have "rs_world (snd (route_hex env st1)) = rs_world st" "skills_of (snd (route_hex env st1)) = skills_of st"
      using e(2,3) by (simp_all add: route_hex_def Let_def)
    ultimately show ?thesis using proposed Inr by blast
  qed
qed

definition accepted :: "router_policy \<Rightarrow> routing_error + action_result \<Rightarrow> bool" where
  "accepted pol a = (\<exists>r. a = Inr r \<and> ar_ok r \<and> \<not> (ar_status r = ''pending-approval'' \<and> ro_do_not_fallback_on_pending_approval pol))"

definition refused :: "router_policy \<Rightarrow> routing_error + action_result \<Rightarrow> bool" where
  "refused pol a = (\<exists>r. a = Inr r \<and> \<not> ar_ok r \<and> \<not> (ar_status r = ''pending-approval'' \<and> ro_do_not_fallback_on_pending_approval pol))"

text \<open>A call of the log is the attempt made for a candidate.\<close>

definition attempt_for :: "router_env \<Rightarrow> capability_requirement \<Rightarrow> route_candidate
    \<Rightarrow> action_proposal \<times> skill_store \<times> (routing_error + action_result) \<Rightarrow> bool" where
  "attempt_for env q c x = (\<exists>r se hex. get_record (sf_sha (rv_skills env)) (rc_skill_id c) (fst (snd x)) = Inr r \<and>
     fst x = skill_proposal env q c r se hex)"

definition attempts_log :: "router_env \<Rightarrow> capability_requirement \<Rightarrow> route_candidate list \<Rightarrow> call_log \<Rightarrow> bool" where
  "attempts_log env q cs calls = (length calls \<le> length cs \<and> (\<forall>k < length calls. attempt_for env q (cs ! k) (calls ! k)) \<and>
     (\<forall>x \<in> set (butlast calls). refused (rv_policy env) (snd (snd x))))"

text \<open>The entry of an execution's report that is about one call: its number, skill and answer.\<close>

definition reports_call :: "nat \<Rightarrow> action_proposal \<times> skill_store \<times> (routing_error + action_result) \<Rightarrow> (string, json) dict \<Rightarrow> bool" where
  "reports_call k x e = (\<exists>i r. snd (snd x) = Inr r \<and>
     dict_get (ap_arguments (fst x)) ''skill_id'' = Some (PStr i) \<and> dict_get e ''skill_id'' = Some (JStr i) \<and>
     dict_get e ''attempt'' = Some (JInt (int k + 1)) \<and> dict_get e ''action_id'' = Some (JStr (ar_action_id r)) \<and>
     dict_get e ''ok'' = Some (JBool (ar_ok r)) \<and> dict_get e ''status'' = Some (JStr (ar_status r)) \<and>
     dict_get e ''failure_fingerprint'' = Some (json_opt (ar_failure_fingerprint r)))"

definition reports_calls :: "nat \<Rightarrow> call_log \<Rightarrow> (string, json) dict list \<Rightarrow> bool" where
  "reports_calls i calls es = (length es = length calls \<and> (\<forall>k < length calls. reports_call (i + k) (calls ! k) (es ! k)))"

lemma reports_calls_Nil [simp]: "reports_calls i [] es = (es = [])"
  by (auto simp: reports_calls_def)

lemma reports_calls_Cons [simp]:
  "reports_calls i (x # calls) (e # es) = (reports_call i x e \<and> reports_calls (Suc i) calls es)"
  by (auto simp: reports_calls_def nth_Cons All_less_Suc2 split: nat.splits)

definition routing_outcome :: "router_policy \<Rightarrow> nat \<Rightarrow> (string, json) dict list \<Rightarrow> call_log \<Rightarrow> routing_error + capability_execution \<Rightarrow> bool" where
  "routing_outcome pol i att calls res = (\<forall>x. res = Inr x \<longrightarrow> (\<exists>es. ce_attempts x = att @ es \<and> reports_calls i calls es) \<and>
     ce_ok x = (calls \<noteq> [] \<and> accepted pol (snd (snd (last calls)))))"

lemma attempt_reported:
  assumes "get_record (sf_sha (rv_skills env)) (rc_skill_id c) s = Inr r"
  shows "reports_call i (skill_proposal env q c r se hex, t, Inr b) (attempt_entry i c b)"
proof -
  have "sr_skill_id r = rc_skill_id c"
    using assms by (auto simp: get_record_def of_option_def read_record_def decorate_record_def dest!: find_SomeD split: option.splits if_splits)
  then show ?thesis by (simp add: reports_call_def skill_proposal_def attempt_entry_def Let_def)
qed

lemma attempts_log_Nil [simp]: "attempts_log env q cs []"
  by (simp add: attempts_log_def)

lemma attempts_log_one: "attempt_for env q c x \<Longrightarrow> attempts_log env q (c # cs) [x]"
  by (simp add: attempts_log_def)

lemma attempts_log_Cons:
  assumes "attempt_for env q c x" "refused (rv_policy env) (snd (snd x))" "attempts_log env q cs calls"
  shows "attempts_log env q (c # cs) (x # calls)"
  using assms by (auto simp: attempts_log_def nth_Cons split: nat.splits)

lemma not_both: "refused pol a \<Longrightarrow> \<not> accepted pol a"
  by (auto simp: refused_def accepted_def)

lemma execution_failed_frame:
  "\<exists>x st'. execution_failed env q d ev att sel lst st = (Inr x, st') \<and> rs_world st' = rs_world st \<and> ce_attempts x = att \<and> \<not> ce_ok x"
  by (cases "sf_has_bus (rv_skills env)")
    (simp_all add: execution_failed_def route_emit_def route_hex_def comp_simps bindS_def Let_def)

lemma attempt_skills_log:
  assumes "recorded run" "attempt_skills env run q d ev cs i att sel lst st = (res, st')"
  shows "\<exists>calls. rs_world st' = rs_world st @ calls \<and> attempts_log env q cs calls \<and> routing_outcome (rv_policy env) i att calls res"
  using assms(2)
proof (induction cs arbitrary: i att sel lst st)
  case Nil
  with execution_failed_frame [of env q d ev att sel lst st] show ?case by (auto simp: routing_outcome_def)
next
  case (Cons c cs)
  show ?case
  proof (rule attempt_propose_cases [of env q ev i c st])
    fix e st1
    assume "attempt_propose env q ev i c st = (Inl e, st1)" "rs_world st1 = rs_world st"
    with Cons.prems show ?thesis by (auto simp: bindS_def routing_outcome_def intro!: exI [of _ "[]"])
  next
    fix r se hex st1
    let ?p = "skill_proposal env q c r se hex"
    assume g: "get_record (sf_sha (rv_skills env)) (rc_skill_id c) (skills_of st) = Inr r"
      and p: "attempt_propose env q ev i c st = (Inr (se, ?p), st1)" and w: "rs_world st1 = rs_world st" "skills_of st1 = skills_of st"
    obtain a st2 where run: "run ?p st1 = (a, st2)" by (cases "run ?p st1")
    let ?x = "(?p, skills_of st, a)"
    have "rs_world (snd (run ?p st1)) = rs_world st1 @ [(?p, skills_of st1, fst (run ?p st1))]" using assms(1) unfolding recorded_def by blast
    with run w have w2: "rs_world st2 = rs_world st @ [?x]" by simp
    have fr: "attempt_for env q c ?x" unfolding attempt_for_def using g by auto
    have rep: "reports_call i ?x (attempt_entry i c b)" if "a = Inr b" for b using attempt_reported [OF g] that by simp
    show ?thesis
    proof (cases a)
      case (Inl e)
      with Cons.prems p run w2 attempts_log_one [OF fr] show ?thesis by (auto simp: bindS_def routing_outcome_def)
    next
      case (Inr b)
      let ?att = "att @ [attempt_entry i c b]"
      consider (pending) "ar_status b = ''pending-approval''" "ro_do_not_fallback_on_pending_approval (rv_policy env)"
        | (ok) "accepted (rv_policy env) a" "ar_ok b" | (no) "refused (rv_policy env) a" "\<not> ar_ok b"
        unfolding accepted_def refused_def Inr by blast
      then show ?thesis
      proof cases
        case pending
        with Cons.prems p run Inr have "res = Inr (attempt_done q d c ?att b ROUTE_PENDING_APPROVAL False)" "st' = st2"
          by (simp_all add: bindS_def comp_simps Let_def)
        with pending Inr w2 attempts_log_one [OF fr] rep [OF Inr] show ?thesis by (auto simp: routing_outcome_def attempt_done_def accepted_def)
      next
        case ok
        then have np: "\<not> (ar_status b = ''pending-approval'' \<and> ro_do_not_fallback_on_pending_approval (rv_policy env))"
          unfolding accepted_def Inr by blast
        obtain t where "res = Inr (attempt_done q d c ?att b t True)" "rs_world st' = rs_world st2"
          using Cons.prems p run Inr ok np
          by (auto simp: bindS_def comp_simps Let_def route_emit_def route_hex_def split: if_splits)
        with ok Inr w2 attempts_log_one [OF fr] rep [OF Inr] show ?thesis by (auto simp: routing_outcome_def attempt_done_def)
      next
        case no
        then have np: "\<not> (ar_status b = ''pending-approval'' \<and> ro_do_not_fallback_on_pending_approval (rv_policy env))"
          unfolding refused_def Inr by blast
        with no Cons.prems p run Inr
        have "attempt_skills env run q d ev cs (Suc i) ?att (Some (rc_skill_id c)) (Some b) st2 = (res, st')"
          by (auto simp: bindS_def Let_def split: if_splits)
        then obtain calls where calls: "rs_world st' = rs_world st2 @ calls" "attempts_log env q cs calls"
          "routing_outcome (rv_policy env) (Suc i) ?att calls res" using Cons.IH by blast
        have "attempts_log env q (c # cs) (?x # calls)" using attempts_log_Cons [OF fr _ calls(2)] no(1) by simp
        moreover have "routing_outcome (rv_policy env) i att (?x # calls) res"
          using calls(3) not_both [OF no(1)] rep [OF Inr] by (auto simp: routing_outcome_def Inr)
        ultimately show ?thesis using calls(1) w2 by (intro exI [of _ "?x # calls"]) simp
      qed
    qed
  qed
qed

lemma capability_route_cases:
  obtains (raised) e where "capability_route env q st = (Inl e, st)"
  | (decided) d i st' where "capability_route env q st = (Inr d, st')" "route_over env q (skills_of st) i = Inr d"
    "rs_world st' = rs_world st" "skills_of st' = skills_of st"
proof (cases "route_over env q (skills_of st) []")
  case (Inl e)
  then show ?thesis by (intro raised) (simp add: capability_route_def comp_simps)
next
  case (Inr d)
  let ?i = "new_id ''route'' (sf_hex (rv_skills env) (sf_counter (rs_skills st)))" and ?st = "snd (route_hex env st)"
  have "\<exists>d'. route_over env q (skills_of st) ?i = Inr d'"
    using Inr by (auto simp: route_over_def Let_def split: if_splits sum.splits list.splits)
  then obtain d' where d': "route_over env q (skills_of st) ?i = Inr d'" by blast
  with Inr have "capability_route env q st = (Inr d', ?st)"
    by (simp add: capability_route_def bindS_def comp_simps route_hex_def Let_def)
  moreover have "rs_world ?st = rs_world st" "skills_of ?st = skills_of st" by (simp_all add: route_hex_def Let_def)
  ultimately show ?thesis using decided d' by blast
qed

lemma capability_execute_log:
  assumes "recorded run" "capability_execute env run q st = (res, st')"
  obtains (none) "rs_world st' = rs_world st" "\<forall>x. res = Inr x \<longrightarrow> ce_attempts x = [] \<and> \<not> ce_ok x"
  | (some) d i calls where "route_over env q (skills_of st) i = Inr d" "rs_world st' = rs_world st @ calls"
    "attempts_log env q (py_prefix (attempt_limit (rv_policy env) q) (filter (\<lambda>c. rc_blockers c = []) (rd_candidates d))) calls"
    "routing_outcome (rv_policy env) 0 [] calls res"
proof -
  let ?pl = "[(''requirement_id'', JStr (rq_requirement_id q)), (''capability'', JStr (rq_capability q)),
       (''required_runtime_features'', str_list (rq_required_runtime_features q)),
       (''allowed_side_effects'', str_list (rq_allowed_side_effects q))]"
  obtain ev st1 where e: "route_emit env CAPABILITY_REQUIRED ?pl ''info'' (rq_correlation_id q) None st = (Inr ev, st1)"
    "rs_world st1 = rs_world st" "skills_of st1 = skills_of st" by (rule route_emit_frame)
  show ?thesis
  proof (rule capability_route_cases [of env q st1])
    fix x
    assume "capability_route env q st1 = (Inl x, st1)"
    with e assms(2) have "res = Inl x" "rs_world st' = rs_world st" by (auto simp: capability_execute_def bindS_def)
    then show ?thesis by (intro none) simp_all
  next
    fix d i st2
    assume d: "capability_route env q st1 = (Inr d, st2)" "route_over env q (skills_of st1) i = Inr d" "rs_world st2 = rs_world st1"
    show ?thesis
    proof (cases "rd_selected d")
      case None
      let ?pb = "[(''requirement_id'', JStr (rq_requirement_id q)), (''status'', JStr (route_status_value (rd_status d))),
        (''blockers'', str_list (rd_blockers d)), (''failure_fingerprint'', json_opt (rd_failure_fingerprint d))]"
      obtain y st3 where "route_emit env SKILL_ROUTE_BLOCKED ?pb ''warning'' (rq_correlation_id q) ev st2 = (Inr y, st3)" "rs_world st3 = rs_world st2"
        by (rule route_emit_frame)
      with None d e assms(2) have "rs_world st' = rs_world st" "\<forall>x. res = Inr x \<longrightarrow> ce_attempts x = [] \<and> \<not> ce_ok x"
        by (auto simp: capability_execute_def bindS_def comp_simps)
      then show ?thesis by (rule none)
    next
      case (Some c)
      with d(1) e assms(2) have "attempt_skills env run q d ev
          (py_prefix (attempt_limit (rv_policy env) q) (filter (\<lambda>c. rc_blockers c = []) (rd_candidates d))) 0 [] None None st2 = (res, st')"
        by (simp add: capability_execute_def bindS_def)
      from attempt_skills_log [OF assms(1) this] d(2,3) e(2,3) some show ?thesis by auto
    qed
  qed
qed

lemma py_prefix_length: "0 \<le> n \<Longrightarrow> length (py_prefix n xs) \<le> nat n"
  by (simp add: py_prefix_def)

text \<open>
  C27: Executing a requirement, under a policy whose maximum of attempts is not negative, ends after at
  most as many calls of the action executor as the policy allows, one when fallback is off, whatever the
  executor does; another skill is tried only after an answer that did not succeed and, when the policy says
  not to fall back on a pending approval, does not wait for one. An execution that reports has one entry
  per call, in order, with its number, the skill it was proposed for, and the action, success, status and
  failure its answer gave; and it reports success exactly when the last call succeeded (and is not such a
  wait).\<close>

theorem fallback_bounded:
  assumes "recorded run" "rs_world st = []" "0 \<le> ro_maximum_attempts (rv_policy env)" "capability_execute env run q st = (res, st')"
  shows "length (rs_world st') \<le> nat (attempt_limit (rv_policy env) q) \<and>
    (\<forall>(p, s, a) \<in> set (butlast (rs_world st')). \<exists>r. a = Inr r \<and> \<not> ar_ok r \<and>
      (ro_do_not_fallback_on_pending_approval (rv_policy env) \<longrightarrow> ar_status r \<noteq> ''pending-approval'')) \<and>
    (\<forall>x. res = Inr x \<longrightarrow> length (ce_attempts x) = length (rs_world st') \<and>
      (\<forall>k < length (rs_world st'). reports_call k (rs_world st' ! k) (ce_attempts x ! k)) \<and>
      (ce_ok x \<longleftrightarrow> (\<exists>p s r. rs_world st' \<noteq> [] \<and> last (rs_world st') = (p, s, Inr r) \<and> ar_ok r \<and>
        \<not> (ar_status r = ''pending-approval'' \<and> ro_do_not_fallback_on_pending_approval (rv_policy env)))))"
  using assms(1,4)
proof (cases rule: capability_execute_log)
  case none
  then show ?thesis using assms(2) by simp
next
  case (some d i calls)
  have w: "rs_world st' = calls" using some(2) assms(2) by simp
  have "0 \<le> attempt_limit (rv_policy env) q" using assms(3) by (simp add: attempt_limit_def)
  from py_prefix_length [OF this] some(3) have "length calls \<le> nat (attempt_limit (rv_policy env) q)"
    unfolding attempts_log_def by (meson le_trans)
  moreover have "\<forall>x \<in> set (butlast calls). refused (rv_policy env) (snd (snd x))" using some(3) by (simp add: attempts_log_def)
  then have "\<forall>(p, s, a) \<in> set (butlast calls). \<exists>r. a = Inr r \<and> \<not> ar_ok r \<and>
      (ro_do_not_fallback_on_pending_approval (rv_policy env) \<longrightarrow> ar_status r \<noteq> ''pending-approval'')"
    unfolding refused_def by fastforce
  moreover have "length (ce_attempts x) = length calls" "\<forall>k < length calls. reports_call k (calls ! k) (ce_attempts x ! k)"
    "ce_ok x \<longleftrightarrow> (\<exists>p s r. calls \<noteq> [] \<and> last calls = (p, s, Inr r) \<and> ar_ok r \<and>
      \<not> (ar_status r = ''pending-approval'' \<and> ro_do_not_fallback_on_pending_approval (rv_policy env)))" if "res = Inr x" for x
    using some(4) that by (cases "last calls"; auto simp: routing_outcome_def reports_calls_def accepted_def)+
  ultimately show ?thesis unfolding w by blast
qed

section \<open>The proposals\<close>

lemma scope_of_iff: "scope_of t = Some s \<longleftrightarrow> scope_value s = t"
proof
  assume "scope_of t = Some s"
  then show "scope_value s = t" by (auto simp: scope_of_def enum_of_def split: if_splits)
qed auto

lemma set_map_filter: "set (List.map_filter f xs) = {y. \<exists>x \<in> set xs. f x = Some y}"
proof (induction xs)
  case (Cons x xs)
  then show ?case by (cases "f x") (auto simp: List.map_filter_simps)
qed (simp add: List.map_filter_simps)

lemma set_scopes: "set (scopes_for_side_effects es) = insert EXECUTE {s. \<exists>x \<in> set es. scope_value s = lower (strip x)}"
  by (auto simp: scopes_for_side_effects_def side_effect_scopes_def set_map_filter scope_of_iff)

text \<open>The risk is derived from the side effects as written, the scopes from their normalised text.\<close>

lemma capital_network: "NETWORK \<in> set (scopes_for_side_effects [''Network''])" "derived_risk LOW [''Network''] = LOW"
  by code_simp+

lemma derived_risk_covers: "RISK_ORDER requested \<le> RISK_ORDER (derived_risk requested es)"
  "''network'' \<in> set es \<Longrightarrow> RISK_ORDER HIGH \<le> RISK_ORDER (derived_risk requested es)"
  by (auto simp: derived_risk_def Let_def)

lemma get_record_sound:
  assumes "get_record sha i s = Inr r"
  shows "sr_skill_id r = i" "sr_artifact_hash r = skill_manifest_hash sha (sr_manifest r)"
  using assms by (auto simp: get_record_def of_option_def read_record_def decorate_record_def dest!: find_SomeD split: option.splits if_splits)

text \<open>
  C6: Every action the router hands to the executor is a governed runtime action for a skill that the
  routing decision admitted. It names that skill and the hash of the manifest the store holds at that
  moment, requires the execute scope and the scope of each of its side effects, has at least the
  requested risk, and a high one where the skill names the network; it is reversible only for a skill
  without writes, network and memory.\<close>

theorem attempts_are_exact:
  assumes "recorded run" "rs_world st = []" "capability_execute env run q st = (res, st')" "(p, s, a) \<in> set (rs_world st')"
  shows "\<exists>r d i. route_over env q (skills_of st) i = Inr d \<and>
    (\<exists>c \<in> set (rd_candidates d). rc_blockers c = [] \<and> rc_skill_id c = sr_skill_id r \<and>
      dict_get (ap_metadata p) ''runtime_id'' = Some (PStr (rc_runtime_routing_key c))) \<and>
    get_record (sf_sha (rv_skills env)) (sr_skill_id r) s = Inr r \<and>
    ap_target p = RUNTIME \<and> ap_operation p = ro_action_operation (rv_policy env) \<and>
    dict_get (ap_arguments p) ''skill_id'' = Some (PStr (sr_skill_id r)) \<and>
    dict_get (ap_arguments p) ''artifact_hash'' = Some (PStr (skill_manifest_hash (sf_sha (rv_skills env)) (sr_manifest r))) \<and>
    dict_get (ap_arguments p) ''input'' = Some (PDict (rq_arguments q)) \<and>
    (let es = set (uc_side_effects (sm_usage (sr_manifest r))) in
      set (ap_required_scopes p) = insert EXECUTE {k. \<exists>x \<in> es. scope_value k = lower (strip x)} \<and>
      RISK_ORDER (rq_risk q) \<le> RISK_ORDER (ap_risk p) \<and> (''network'' \<in> es \<longrightarrow> RISK_ORDER HIGH \<le> RISK_ORDER (ap_risk p)) \<and>
      (ap_reversible p \<longrightarrow> rq_reversible q \<and> es \<inter> {''write'', ''network'', ''memory''} = {}))"
  using assms(1,3)
proof (cases rule: capability_execute_log)
  case none
  then show ?thesis using assms(2,4) by simp
next
  case (some d i calls)
  let ?cs = "py_prefix (attempt_limit (rv_policy env) q) (filter (\<lambda>c. rc_blockers c = []) (rd_candidates d))"
  have "(p, s, a) \<in> set calls" using some(2) assms(2,4) by simp
  then obtain k where k: "k < length calls" "calls ! k = (p, s, a)" by (auto simp: in_set_conv_nth)
  with some(3) have c: "?cs ! k \<in> set ?cs" "attempt_for env q (?cs ! k) (p, s, a)" unfolding attempts_log_def by (auto intro!: nth_mem)
  then have adm: "?cs ! k \<in> set (rd_candidates d)" "rc_blockers (?cs ! k) = []" by (auto simp: py_prefix_def dest!: in_set_takeD)
  from c(2) obtain r se hex where r: "get_record (sf_sha (rv_skills env)) (rc_skill_id (?cs ! k)) s = Inr r"
    "p = skill_proposal env q (?cs ! k) r se hex" unfolding attempt_for_def by auto
  note id = get_record_sound [OF r(1)]
  show ?thesis
  proof (intro exI conjI)
    show "route_over env q (skills_of st) i = Inr d" by (rule some(1))
    show "\<exists>c \<in> set (rd_candidates d). rc_blockers c = [] \<and> rc_skill_id c = sr_skill_id r \<and>
        dict_get (ap_metadata p) ''runtime_id'' = Some (PStr (rc_runtime_routing_key c))"
      using adm id(1) by (intro bexI [of _ "?cs ! k"]) (simp_all add: r(2) skill_proposal_def Let_def dict_update_def)
    show "get_record (sf_sha (rv_skills env)) (sr_skill_id r) s = Inr r" using r(1) id(1) by simp
  qed (use derived_risk_covers in \<open>auto simp: r(2) skill_proposal_def Let_def set_scopes id(2)\<close>)
qed

text \<open>
  An attempt reads the record again but not its status: a skill archived while an earlier attempt was
  awaited is still executed.
\<close>

lemma attempt_ignores_status:
  assumes "get_record (sf_sha (rv_skills env)) (rc_skill_id c) (skills_of st) = Inr r" "sr_lifecycle_status r = SKILL_ARCHIVED"
  shows "\<exists>se hex st'. attempt_propose env q ev i c st = (Inr (se, skill_proposal env q c r se hex), st')"
proof (rule attempt_propose_cases [of env q ev i c st])
  fix e st'
  assume "attempt_propose env q ev i c st = (Inl e, st')"
  with assms(1) show ?thesis
    by (cases "sf_has_bus (rv_skills env)")
      (simp_all add: attempt_propose_def route_emit_def route_hex_def route_store_def bindS_def comp_simps Let_def)
qed (use assms(1) in auto)

text \<open>
  Model providers see the base capabilities without the operation that executes a skill, and one more,
  the routing of a capability.
\<close>

lemma skill_execution_hidden:
  "ROUTE_OPERATION \<noteq> ro_action_operation (rv_policy env) \<Longrightarrow>
    set (routed_capabilities env base) =
      insert route_capability {c \<in> set base. cap_operation c \<noteq> ro_action_operation (rv_policy env)} \<and>
    ro_action_operation (rv_policy env) \<notin> cap_operation ` set (routed_capabilities env base)"
  by (auto simp: routed_capabilities_def route_capability_def)

section \<open>Witnesses\<close>

definition route_profile :: "string \<Rightarrow> int \<Rightarrow> runtime_profile" where
  "route_profile key priority = \<lparr>rp_routing_key = key, rp_adapter_id = key @ ''-adapter'', rp_operations = [''skill.execute''],
     rp_runtime_features = [''json-io''], rp_supported_side_effects = [''read''], rp_healthy = True, rp_priority = priority\<rparr>"

definition sample_router :: router_env where
  "sample_router = \<lparr>rv_skills = sample_skill_env, rv_policy = shipped_router_policy,
     rv_profiles = [route_profile ''local'' 100, route_profile ''remote'' 200]\<rparr>"

definition sample_need :: "string \<Rightarrow> capability_requirement" where
  "sample_need capability = \<lparr>rq_capability = capability, rq_arguments = [], rq_required_runtime_features = [''json-io''],
     rq_allowed_side_effects = [], rq_reason = ''lint'', rq_risk = LOW, rq_reversible = True, rq_allow_fallback = True,
     rq_session_id = None, rq_correlation_id = None, rq_metadata = [], rq_requirement_id = ''capability.1''\<rparr>"

definition failing :: "call_log action_runner" where
  "failing p st = (let a = Inr \<lparr>ar_action_id = ap_action_id p, ar_ok = False, ar_status = ''failed'', ar_output = PNone,
       ar_error = Some ''e'', ar_metadata = [], ar_failure_fingerprint = None\<rparr> in
     (a, st\<lparr>rs_world := rs_world st @ [(p, sf_store (rs_skills st), a)]\<rparr>))"

definition sample_routing :: "call_log router_state" where
  "sample_routing = \<lparr>rs_skills = sample_activated, rs_now = 200, rs_world = []\<rparr>"

lemma failing_recorded: "recorded failing"
  by (simp add: recorded_def failing_def Let_def)

definition sample_route :: "string \<Rightarrow> routing_error + route_decision" where
  "sample_route capability = route_over sample_router (sample_need capability) (sf_store sample_activated) ''route.9''"

definition sample_choice :: "string list option" where
  "sample_choice = (case sample_route ''code.lint'' of Inl e \<Rightarrow> None
     | Inr d \<Rightarrow> Some (map (\<lambda>c. rc_skill_id c @ ''@'' @ rc_runtime_routing_key c) (filter (\<lambda>c. rc_blockers c = []) (rd_candidates d))))"

lemma sample_choice_value: "sample_choice = Some [''skill.1@local'', ''skill.1@remote'']"
  by code_simp

theorem routed_skill_admissible_witness:
  "\<exists>d b. sample_route ''code.lint'' = Inr d \<and> rd_selected d = Some b \<and>
    admissible sample_router (sample_need ''code.lint'') (sf_store sample_activated) b"
proof -
  obtain d where d: "sample_route ''code.lint'' = Inr d" "filter (\<lambda>c. rc_blockers c = []) (rd_candidates d) \<noteq> []"
    using sample_choice_value by (auto simp: sample_choice_def split: sum.splits)
  have "rv_policy sample_router = shipped_router_policy" by (simp add: sample_router_def)
  from routed_skill_admissible [OF this d(1) [unfolded sample_route_def]] d show ?thesis
    by (cases "rd_selected d") auto
qed

theorem protected_capability_never_routed_witness:
  "\<exists>d. sample_route ''identity.modify'' = Inr d \<and> rd_candidates d = []"
proof -
  have "\<not> isl (sample_route ''identity.modify'')" by code_simp
  then obtain d where d: "sample_route ''identity.modify'' = Inr d" by (cases "sample_route ''identity.modify''") auto
  have "skill_reach (rv_skills sample_router) (sample_activated, [])" using sample_reach_activated by (simp add: sample_router_def)
  moreover have "strip (rq_capability (sample_need ''identity.modify'')) \<in> set (sk_protected_capabilities (sf_policy (rv_skills sample_router)))" by code_simp
  ultimately show ?thesis using protected_capability_never_routed d unfolding sample_route_def by blast
qed

definition sample_execution :: "(routing_error + capability_execution) \<times> call_log router_state" where
  "sample_execution = capability_execute sample_router failing (sample_need ''code.lint'') sample_routing"

lemma sample_execution_run:
  "rs_world sample_routing = []" "capability_execute sample_router failing (sample_need ''code.lint'') sample_routing = (fst sample_execution, snd sample_execution)"
  by (simp_all add: sample_routing_def sample_execution_def)

lemma sample_execution_calls: "length (rs_world (snd sample_execution)) = 2"
  by code_simp

theorem fallback_bounded_witness:
  "\<exists>x. fst sample_execution = Inr x \<and> length (ce_attempts x) = 2 \<and> length (rs_world (snd sample_execution)) = 2 \<and> \<not> ce_ok x \<and>
    reports_call 0 (rs_world (snd sample_execution) ! 0) (ce_attempts x ! 0) \<and> reports_call 1 (rs_world (snd sample_execution) ! 1) (ce_attempts x ! 1)"
proof -
  have "\<not> isl (fst sample_execution)" by code_simp
  then obtain x where x: "fst sample_execution = Inr x" by (cases "fst sample_execution") auto
  have "\<not> (case snd (snd (last (rs_world (snd sample_execution)))) of Inl _ \<Rightarrow> True | Inr r \<Rightarrow> ar_ok r)" by code_simp
  moreover have "0 \<le> ro_maximum_attempts (rv_policy sample_router)" by code_simp
  from fallback_bounded [OF failing_recorded sample_execution_run(1) this sample_execution_run(2)] x sample_execution_calls
  have "length (ce_attempts x) = 2 \<and> (\<forall>k < 2. reports_call k (rs_world (snd sample_execution) ! k) (ce_attempts x ! k))"
    "ce_ok x \<Longrightarrow> \<exists>p s r. last (rs_world (snd sample_execution)) = (p, s, Inr r) \<and> ar_ok r"
    by auto
  ultimately show ?thesis using x sample_execution_calls by auto
qed

theorem attempts_are_exact_witness:
  "\<exists>p s a. (p, s, a) \<in> set (rs_world (snd sample_execution)) \<and> ap_target p = RUNTIME \<and> EXECUTE \<in> set (ap_required_scopes p)"
proof -
  obtain p s a where x: "(p, s, a) \<in> set (rs_world (snd sample_execution))"
    using sample_execution_calls by (cases "rs_world (snd sample_execution)") auto
  from attempts_are_exact [OF failing_recorded sample_execution_run x] have "ap_target p = RUNTIME" "EXECUTE \<in> set (ap_required_scopes p)"
    by (auto simp: Let_def)
  with x show ?thesis by blast
qed

end
