(* ===== verification/Evolution_Store.thy ===== *)
theory Evolution_Store
  imports Skill_Contracts "HOL-Library.Sublist"
begin

text \<open>
  \<open>contracts/evolution.py\<close>, \<open>evolution/governance.py\<close> and \<open>SQLiteEvolutionStore\<close> of \<open>evolution/store.py\<close>:
  the evidence of the internal evolution loop, the rules of its governor, and append-only tables in
  the order of insertion, whose triggers refuse updates and deletions. Scores and ratios are rational
  numbers; \<open>fmt3\<close> and \<open>pct\<close> stand for the formats \<open>:.3f\<close> and \<open>:.1%\<close> in messages. A JSON column holds the
  value it encodes. An absent time stamp is \<open>None\<close>. Rows of the same second come in the order of
  insertion. Check commands and results are those of \<open>Skill_Contracts\<close>.
\<close>

section \<open>Contracts\<close>

datatype evo_trigger_type = EVO_FAILURE | EVO_CAPABILITY_GAP

primrec evo_trigger_value :: "evo_trigger_type \<Rightarrow> string" where
  "evo_trigger_value EVO_FAILURE = ''failure''"
| "evo_trigger_value EVO_CAPABILITY_GAP = ''capability-gap''"

datatype evo_target_type = EVO_CODE | EVO_SKILL | EVO_PROMPT | EVO_WORKFLOW | EVO_TOOL

primrec evo_target_value :: "evo_target_type \<Rightarrow> string" where
  "evo_target_value EVO_CODE = ''code''"
| "evo_target_value EVO_SKILL = ''skill''"
| "evo_target_value EVO_PROMPT = ''prompt''"
| "evo_target_value EVO_WORKFLOW = ''workflow''"
| "evo_target_value EVO_TOOL = ''tool''"

datatype evo_status = EVO_PROPOSED | EVO_VERIFIED | EVO_REJECTED | EVO_PROMOTED | EVO_ROLLED_BACK

datatype evo_decision_type = EVO_PROMOTE | EVO_REJECT

primrec evo_decision_value :: "evo_decision_type \<Rightarrow> string" where
  "evo_decision_value EVO_PROMOTE = ''promote''"
| "evo_decision_value EVO_REJECT = ''reject''"

record evo_trigger =
  et_trigger_type :: evo_trigger_type
  et_fingerprint :: string
  et_summary :: string
  et_evidence_ids :: "string list"
  et_prior_learning_ids :: "string list"
  et_metadata :: "(string, json) dict"
  et_trigger_id :: string
  et_created_at :: "instant option"

record evo_candidate =
  ec_trigger_id :: string
  ec_trigger_fingerprint :: string
  ec_target_type :: evo_target_type
  ec_target_path :: string
  ec_baseline_hash :: string
  ec_candidate_hash :: string
  ec_baseline_content :: string
  ec_candidate_content :: string
  ec_diff :: string
  ec_rationale :: string
  ec_generator_id :: string
  ec_deterministic_checks :: "check_command list"
  ec_heldout_checks :: "check_command list"
  ec_retry_reason :: "string option"
  ec_metadata :: "(string, json) dict"
  ec_candidate_id :: string
  ec_created_at :: "instant option"
  ec_status :: evo_status
  ec_evaluation_id :: "string option"
  ec_decision_id :: "string option"
  ec_lineage_id :: "string option"

record evo_evaluation =
  ee_candidate_id :: string
  ee_sandbox_id :: string
  ee_baseline_score :: rat
  ee_candidate_score :: rat
  ee_improvement :: rat
  ee_regression_count :: int
  ee_checks :: "check_result list"
  ee_passed :: bool
  ee_blockers :: "string list"
  ee_metadata :: "(string, json) dict"
  ee_evaluation_id :: string
  ee_created_at :: "instant option"

record evo_decision =
  ed_candidate_id :: string
  ed_decision :: evo_decision_type
  ed_principal :: string
  ed_channel :: string
  ed_reason :: string
  ed_decision_id :: string
  ed_decided_at :: instant
  ed_lineage_id :: "string option"

record evo_lineage =
  el_candidate_id :: string
  el_target_path :: string
  el_parent_hash :: string
  el_promoted_hash :: string
  el_backup_path :: string
  el_principal :: string
  el_reason :: string
  el_lineage_id :: string
  el_promoted_at :: instant
  el_rolled_back_at :: "instant option"
  el_rollback_principal :: "string option"
  el_rollback_reason :: "string option"

record evo_learning =
  en_fingerprint :: string
  en_outcome :: string
  en_summary :: string
  en_candidate_id :: "string option"
  en_lineage_id :: "string option"
  en_metadata :: "(string, json) dict"
  en_learning_id :: string
  en_created_at :: instant

record promotion_receipt =
  po_target_path :: string
  po_parent_hash :: string
  po_promoted_hash :: string
  po_backup_path :: string

definition content_hash :: "digest \<Rightarrow> string \<Rightarrow> string" where
  "content_hash sha content = sha content"

definition evo_semantic_hash :: "digest \<Rightarrow> evo_candidate \<Rightarrow> string" where
  "evo_semantic_hash sha c = sha (dumps compact_utf8 (JObj [
     (''trigger_fingerprint'', JStr (ec_trigger_fingerprint c)), (''target_type'', JStr (evo_target_value (ec_target_type c))),
     (''target_path'', JStr (ec_target_path c)), (''baseline_hash'', JStr (ec_baseline_hash c)), (''candidate_hash'', JStr (ec_candidate_hash c)),
     (''checks'', JList (map (\<lambda>k. str_list (ck_argv k)) (ec_deterministic_checks c @ ec_heldout_checks c)))]))"

section \<open>Paths\<close>

text \<open>\<open>PurePosixPath\<close>: the root and the components, without empty ones and without \<open>.\<close>.\<close>

fun path_split :: "string \<Rightarrow> string \<Rightarrow> string list" where
  "path_split acc [] = [rev acc]"
| "path_split acc (c # s) = (if c = CHR ''/'' then rev acc # path_split [] s else path_split (c # acc) s)"

definition path_parts :: "string \<Rightarrow> string list" where
  "path_parts s = filter (\<lambda>p. p \<notin> {[], ''.''}) (path_split [] s)"

definition path_root :: "string \<Rightarrow> string" where
  "path_root s =
     (if starts_with ''//'' s \<and> \<not> starts_with ''///'' s then ''//'' else if starts_with ''/'' s then ''/'' else [])"

definition posix_slashes :: "string \<Rightarrow> string" where
  "posix_slashes s = map (\<lambda>c. if c = CHR 0x5C then CHR ''/'' else c) s"

text \<open>\<open>path == protected or protected in path.parents\<close>.\<close>

definition path_within :: "string \<Rightarrow> string \<Rightarrow> bool" where
  "path_within directory path = (path_root directory = path_root path \<and> prefix (path_parts directory) (path_parts path))"

definition path_name :: "string \<Rightarrow> string" where
  "path_name path = (if path_parts path = [] then [] else last (path_parts path))"

definition safe_relative :: "string \<Rightarrow> bool" where
  "safe_relative path = (path_root path = [] \<and> ''..'' \<notin> set (path_parts path) \<and> path_parts path \<noteq> [])"

section \<open>Governance\<close>

record evo_policy =
  ep_protected_paths :: "string list"
  ep_protected_names :: "string list"
  ep_allowed_target_types :: "string list"
  ep_max_candidate_bytes :: int
  ep_max_growth_ratio :: rat
  ep_max_commands_per_phase :: int
  ep_max_command_timeout_seconds :: int
  ep_minimum_improvement :: rat
  ep_maximum_regressions :: int
  ep_trusted_principals :: "string list"

text \<open>What \<open>internal_evolution.yaml\<close> sets.\<close>

definition shipped_evo_policy :: evo_policy where
  "shipped_evo_policy = \<lparr>
     ep_protected_paths = [''src/aether/dna'', ''src/aether/bootstrap'', ''src/aether/governance'', ''project-docs'', ''LASTSTANDINGPOINT.md''],
     ep_protected_names = [''north_star.yaml'', ''aether.core.json'', ''Genome.md''],
     ep_allowed_target_types = [''code'', ''skill'', ''prompt'', ''workflow'', ''tool''], ep_max_candidate_bytes = 262144,
     ep_max_growth_ratio = 35 / 100, ep_max_commands_per_phase = 8, ep_max_command_timeout_seconds = 600, ep_minimum_improvement = 1 / 100,
     ep_maximum_regressions = 0, ep_trusted_principals = [''founder'', ''operator'']\<rparr>"

definition evo_candidate_blockers :: "(rat \<Rightarrow> string) \<Rightarrow> evo_policy \<Rightarrow> evo_candidate \<Rightarrow> string list" where
  "evo_candidate_blockers pct pol c =
     (let path = posix_slashes (ec_target_path c); candidate_bytes = utf8_length (ec_candidate_content c);
          baseline_size = max 1 (utf8_length (ec_baseline_content c));
          growth = of_int (candidate_bytes - baseline_size) / of_int baseline_size in
      (if \<not> safe_relative path then [''target path must be a safe relative path''] else []) @
      (if path_name path \<in> set (ep_protected_names pol) then [''protected artifact cannot evolve: '' @ path_name path] else []) @
      concat (map (\<lambda>p. if path_within p path then [''protected path cannot evolve: '' @ p] else []) (ep_protected_paths pol)) @
      (if evo_target_value (ec_target_type c) \<notin> set (ep_allowed_target_types pol)
       then [''target type is not allowed: '' @ evo_target_value (ec_target_type c)] else []) @
      (if ep_max_candidate_bytes pol < candidate_bytes then [''candidate exceeds maximum size: '' @ int_str candidate_bytes] else []) @
      (if ep_max_growth_ratio pol < growth then [''candidate growth exceeds limit: '' @ pct growth] else []) @
      (if ec_deterministic_checks c = [] then [''deterministic checks are required''] else []) @
      (if ec_heldout_checks c = [] then [''held-out checks are required''] else []) @
      (if ep_max_commands_per_phase pol < int (length (ec_deterministic_checks c)) then [''too many deterministic commands''] else []) @
      (if ep_max_commands_per_phase pol < int (length (ec_heldout_checks c)) then [''too many held-out commands''] else []) @
      concat (map (\<lambda>k. if ep_max_command_timeout_seconds pol < ck_timeout_seconds k
         then [''command timeout exceeds policy: '' @ ck_name k] else []) (ec_deterministic_checks c @ ec_heldout_checks c)) @
      (if ec_baseline_hash c = ec_candidate_hash c then [''candidate does not change the baseline''] else []))"

definition validate_evo_candidate :: "(rat \<Rightarrow> string) \<Rightarrow> evo_policy \<Rightarrow> evo_candidate \<Rightarrow> string list" where
  "validate_evo_candidate pct pol c = from_keys (evo_candidate_blockers pct pol c)"

definition evo_evaluation_blockers :: "(rat \<Rightarrow> string) \<Rightarrow> evo_policy \<Rightarrow> evo_evaluation \<Rightarrow> string list" where
  "evo_evaluation_blockers fmt3 pol e =
     ee_blockers e @
     (if \<not> ee_passed e then [''evaluation did not pass''] else []) @
     (if ee_improvement e < ep_minimum_improvement pol
      then [''improvement '' @ fmt3 (ee_improvement e) @ '' is below minimum '' @ fmt3 (ep_minimum_improvement pol)] else []) @
     (if ep_maximum_regressions pol < ee_regression_count e then [''regressions exceed policy: '' @ int_str (ee_regression_count e)] else []) @
     (if \<not> list_ex (\<lambda>x. cx_kind x = HELDOUT \<and> cx_phase x = ''candidate'') (ee_checks e)
      then [''held-out candidate results are missing''] else [])"

definition validate_evaluation :: "(rat \<Rightarrow> string) \<Rightarrow> evo_policy \<Rightarrow> evo_evaluation \<Rightarrow> string list" where
  "validate_evaluation fmt3 pol e = from_keys (evo_evaluation_blockers fmt3 pol e)"

definition validate_evo_decision :: "evo_policy \<Rightarrow> string \<Rightarrow> string \<Rightarrow> string list" where
  "validate_evo_decision pol who reason =
     (if who \<notin> set (ep_trusted_principals pol) then [''principal is not trusted for evolution promotion: '' @ who] else []) @
     (if length (strip reason) < 12 then [''decision reason must be explicit''] else [])"

section \<open>The store\<close>

record evo_candidate_row =
  ew_candidate :: evo_candidate
  ew_semantic_hash :: string

record evo_rollback =
  eb_lineage_id :: string
  eb_principal :: string
  eb_reason :: string
  eb_rolled_back_at :: instant

record evo_store =
  es_triggers :: "evo_trigger list"
  es_candidates :: "evo_candidate_row list"
  es_evaluations :: "evo_evaluation list"
  es_decisions :: "evo_decision list"
  es_lineage :: "evo_lineage list"
  es_rollbacks :: "evo_rollback list"
  es_learnings :: "evo_learning list"

definition empty_evolution :: evo_store where
  "empty_evolution = \<lparr>es_triggers = [], es_candidates = [], es_evaluations = [], es_decisions = [], es_lineage = [], es_rollbacks = [],
     es_learnings = []\<rparr>"

datatype evo_error = Evo_Not_Found string | Evo_Decision_Conflict string | Evo_Blocked "string list" | Evo_Sql_Error

type_synonym 'a evo_op = "evo_store \<Rightarrow> (evo_error + 'a) \<times> evo_store"

definition add_trigger :: "instant \<Rightarrow> evo_trigger \<Rightarrow> evo_trigger evo_op" where
  "add_trigger now t s =
     (let n = t\<lparr>et_created_at := Some (case et_created_at t of None \<Rightarrow> now | Some x \<Rightarrow> x)\<rparr> in
      if et_trigger_id n \<in> et_trigger_id ` set (es_triggers s) then (Inl Evo_Sql_Error, s)
      else (Inr n, s\<lparr>es_triggers := es_triggers s @ [n]\<rparr>))"

definition get_trigger :: "string \<Rightarrow> evo_store \<Rightarrow> evo_error + evo_trigger" where
  "get_trigger i s = of_option (Evo_Not_Found i) (find (\<lambda>t. et_trigger_id t = i) (es_triggers s))"

definition newest :: "('a \<Rightarrow> instant) \<Rightarrow> 'a list \<Rightarrow> 'a list" where
  "newest time xs = sort_key (\<lambda>x. - time x) xs"

definition stamp :: "instant option \<Rightarrow> instant" where
  "stamp t = (case t of None \<Rightarrow> 0 | Some x \<Rightarrow> x)"

definition list_triggers :: "nat \<Rightarrow> evo_store \<Rightarrow> evo_trigger list" where
  "list_triggers limit s = take limit (newest (\<lambda>t. stamp (et_created_at t)) (es_triggers s))"

definition get_evaluation :: "string \<Rightarrow> evo_store \<Rightarrow> evo_evaluation option" where
  "get_evaluation i s = find (\<lambda>e. ee_candidate_id e = i) (es_evaluations s)"

definition evo_candidate_ids :: "evo_store \<Rightarrow> string set" where
  "evo_candidate_ids s = (\<lambda>r. ec_candidate_id (ew_candidate r)) ` set (es_candidates s)"

definition add_evaluation :: "instant \<Rightarrow> evo_evaluation \<Rightarrow> evo_evaluation evo_op" where
  "add_evaluation now e s =
     (let n = e\<lparr>ee_created_at := Some (case ee_created_at e of None \<Rightarrow> now | Some x \<Rightarrow> x)\<rparr> in
      if ee_evaluation_id n \<in> ee_evaluation_id ` set (es_evaluations s) \<or> get_evaluation (ee_candidate_id n) s \<noteq> None
         \<or> ee_candidate_id n \<notin> evo_candidate_ids s
      then ((case get_evaluation (ee_candidate_id n) s of Some x \<Rightarrow> Inr x | None \<Rightarrow> Inl Evo_Sql_Error), s)
      else (Inr n, s\<lparr>es_evaluations := es_evaluations s @ [n]\<rparr>))"

definition get_evo_decision :: "string \<Rightarrow> evo_store \<Rightarrow> evo_decision option" where
  "get_evo_decision i s = find (\<lambda>d. ed_candidate_id d = i) (es_decisions s)"

definition add_evo_decision :: "evo_decision \<Rightarrow> evo_decision evo_op" where
  "add_evo_decision d s =
     (if ed_decision_id d \<in> ed_decision_id ` set (es_decisions s) \<or> get_evo_decision (ed_candidate_id d) s \<noteq> None
         \<or> ed_candidate_id d \<notin> evo_candidate_ids s
      then ((case get_evo_decision (ed_candidate_id d) s of
          Some x \<Rightarrow> if ed_decision x = ed_decision d then Inr x
            else Inl (Evo_Decision_Conflict (''candidate '' @ ed_candidate_id d @ '' already has a terminal decision''))
        | None \<Rightarrow> Inl (Evo_Decision_Conflict (''candidate '' @ ed_candidate_id d @ '' already has a terminal decision''))), s)
      else (Inr d, s\<lparr>es_decisions := es_decisions s @ [d]\<rparr>))"

definition add_lineage :: "evo_lineage \<Rightarrow> evo_lineage evo_op" where
  "add_lineage l s =
     (if el_lineage_id l \<in> el_lineage_id ` set (es_lineage s) \<or> el_candidate_id l \<in> el_candidate_id ` set (es_lineage s)
         \<or> el_candidate_id l \<notin> evo_candidate_ids s
      then (Inl Evo_Sql_Error, s)
      else (Inr l, s\<lparr>es_lineage := es_lineage s @ [l\<lparr>el_rolled_back_at := None, el_rollback_principal := None, el_rollback_reason := None\<rparr>]\<rparr>))"

definition row_lineage :: "evo_store \<Rightarrow> evo_lineage \<Rightarrow> evo_lineage" where
  "row_lineage s l =
     (case find (\<lambda>b. eb_lineage_id b = el_lineage_id l) (es_rollbacks s) of
        None \<Rightarrow> l\<lparr>el_rolled_back_at := None, el_rollback_principal := None, el_rollback_reason := None\<rparr>
      | Some b \<Rightarrow> l\<lparr>el_rolled_back_at := Some (eb_rolled_back_at b), el_rollback_principal := Some (eb_principal b),
          el_rollback_reason := Some (eb_reason b)\<rparr>)"

definition get_lineage :: "string \<Rightarrow> evo_store \<Rightarrow> evo_error + evo_lineage" where
  "get_lineage i s = bindE (of_option (Evo_Not_Found i) (find (\<lambda>l. el_lineage_id l = i) (es_lineage s))) (\<lambda>l. Inr (row_lineage s l))"

definition lineage_for_candidate :: "string \<Rightarrow> evo_store \<Rightarrow> evo_lineage option" where
  "lineage_for_candidate i s = map_option (row_lineage s) (find (\<lambda>l. el_candidate_id l = i) (es_lineage s))"

definition add_rollback :: "instant \<Rightarrow> string \<Rightarrow> string \<Rightarrow> string \<Rightarrow> evo_lineage evo_op" where
  "add_rollback now i who reason s =
     (if i \<in> eb_lineage_id ` set (es_rollbacks s) \<or> i \<notin> el_lineage_id ` set (es_lineage s)
      then (Inl (Evo_Decision_Conflict (''lineage '' @ i @ '' already rolled back'')), s)
      else let s' = s\<lparr>es_rollbacks := es_rollbacks s @
          [\<lparr>eb_lineage_id = i, eb_principal = who, eb_reason = reason, eb_rolled_back_at = now\<rparr>]\<rparr> in (get_lineage i s', s'))"

definition add_evo_learning :: "evo_learning \<Rightarrow> evo_learning evo_op" where
  "add_evo_learning l s =
     (if en_learning_id l \<in> en_learning_id ` set (es_learnings s) then (Inl Evo_Sql_Error, s)
      else (Inr l, s\<lparr>es_learnings := es_learnings s @ [l]\<rparr>))"

definition learnings_for_fingerprint :: "string \<Rightarrow> nat \<Rightarrow> evo_store \<Rightarrow> evo_learning list" where
  "learnings_for_fingerprint fingerprint limit s =
     take limit (newest en_created_at (filter (\<lambda>l. en_fingerprint l = fingerprint) (es_learnings s)))"

definition decorate_evo_candidate :: "evo_store \<Rightarrow> evo_candidate \<Rightarrow> evo_candidate" where
  "decorate_evo_candidate s c =
     (let evaluation = get_evaluation (ec_candidate_id c) s; decision = get_evo_decision (ec_candidate_id c) s;
          lineage = lineage_for_candidate (ec_candidate_id c) s in
      c\<lparr>ec_status :=
          (if (case lineage of Some l \<Rightarrow> el_rolled_back_at l \<noteq> None | None \<Rightarrow> False) then EVO_ROLLED_BACK
           else case decision of
             Some d \<Rightarrow> (case ed_decision d of EVO_PROMOTE \<Rightarrow> EVO_PROMOTED | EVO_REJECT \<Rightarrow> EVO_REJECTED)
           | None \<Rightarrow> if (case evaluation of Some e \<Rightarrow> ee_passed e | None \<Rightarrow> False) then EVO_VERIFIED else EVO_PROPOSED),
        ec_evaluation_id := map_option ee_evaluation_id evaluation, ec_decision_id := map_option ed_decision_id decision,
        ec_lineage_id := map_option el_lineage_id lineage\<rparr>)"

definition add_evo_candidate :: "instant \<Rightarrow> evo_candidate \<Rightarrow> string \<Rightarrow> evo_candidate evo_op" where
  "add_evo_candidate now c semantic_hash s =
     (let n = c\<lparr>ec_created_at := Some (case ec_created_at c of None \<Rightarrow> now | Some x \<Rightarrow> x)\<rparr> in
      if ec_candidate_id n \<in> evo_candidate_ids s \<or> semantic_hash \<in> ew_semantic_hash ` set (es_candidates s)
         \<or> ec_trigger_id n \<notin> et_trigger_id ` set (es_triggers s)
      then ((case find (\<lambda>r. ew_semantic_hash r = semantic_hash) (es_candidates s) of
          Some r \<Rightarrow> Inr (ew_candidate r) | None \<Rightarrow> Inl Evo_Sql_Error), s)
      else (Inr n, s\<lparr>es_candidates := es_candidates s @ [\<lparr>ew_candidate = n, ew_semantic_hash = semantic_hash\<rparr>]\<rparr>))"

definition get_evo_candidate :: "string \<Rightarrow> evo_store \<Rightarrow> evo_error + evo_candidate" where
  "get_evo_candidate i s =
     bindE (of_option (Evo_Not_Found i) (find (\<lambda>r. ec_candidate_id (ew_candidate r) = i) (es_candidates s)))
       (\<lambda>r. Inr (decorate_evo_candidate s (ew_candidate r)))"

definition list_evo_candidates :: "nat \<Rightarrow> evo_store \<Rightarrow> evo_candidate list" where
  "list_evo_candidates limit s =
     map (\<lambda>r. decorate_evo_candidate s (ew_candidate r)) (take limit (newest (\<lambda>r. stamp (ec_created_at (ew_candidate r))) (es_candidates s)))"

definition candidates_for_fingerprint :: "string \<Rightarrow> evo_store \<Rightarrow> evo_candidate list" where
  "candidates_for_fingerprint fingerprint s =
     map (\<lambda>r. decorate_evo_candidate s (ew_candidate r)) (newest (\<lambda>r. stamp (ec_created_at (ew_candidate r)))
       (filter (\<lambda>r. ec_trigger_fingerprint (ew_candidate r) = fingerprint) (es_candidates s)))"

end
