(* ===== verification/Evolution_Engine.thy ===== *)
theory Evolution_Engine
  imports Evolution_Store State_Result
begin

text \<open>
  \<open>evolution/engine.py\<close> and \<open>evolution/intake.py\<close>. The coroutines are cut at their awaits:
  \<open>evaluate_begin\<close> ends with the call of the sandbox;
  \<open>evo_decide_begin\<close> with the call of the promoter, \<open>promote_finish\<close> takes its receipt and ends with the
  candidate or with the call that undoes the promotion and then raises;
  \<open>rollback_begin\<close> and \<open>rollback_finish\<close> enclose the rollback of the promoter. A piece reads the clock
  once. \<open>difflib\<close> is the parameter \<open>vo_diff\<close>: its text is stored and shown, nothing depends on it.
\<close>

section \<open>State\<close>

datatype evo_event = IMPROVEMENT_PROPOSED | IMPROVEMENT_VERIFIED | EVOLUTION_TRIGGER_REGISTERED | EVOLUTION_EVALUATION_FAILED
  | EVOLUTION_IMPROVEMENT_REJECTED | EVOLUTION_IMPROVEMENT_PROMOTED | EVOLUTION_IMPROVEMENT_ROLLED_BACK

primrec evo_event_value :: "evo_event \<Rightarrow> string" where
  "evo_event_value IMPROVEMENT_PROPOSED = ''evolution.improvement.proposed''"
| "evo_event_value IMPROVEMENT_VERIFIED = ''evolution.improvement.verified''"
| "evo_event_value EVOLUTION_TRIGGER_REGISTERED = ''evolution.trigger.registered''"
| "evo_event_value EVOLUTION_EVALUATION_FAILED = ''evolution.evaluation.failed''"
| "evo_event_value EVOLUTION_IMPROVEMENT_REJECTED = ''evolution.improvement.rejected''"
| "evo_event_value EVOLUTION_IMPROVEMENT_PROMOTED = ''evolution.improvement.promoted''"
| "evo_event_value EVOLUTION_IMPROVEMENT_ROLLED_BACK = ''evolution.improvement.rolled-back''"

record evo_env =
  vo_sha :: digest
  vo_diff :: "string \<Rightarrow> string \<Rightarrow> string \<Rightarrow> string"
  vo_pct :: "rat \<Rightarrow> string"
  vo_fmt3 :: "rat \<Rightarrow> string"
  vo_float :: "rat \<Rightarrow> string"
  vo_hex :: "nat \<Rightarrow> string"
  vo_policy :: evo_policy
  vo_has_bus :: bool

record evo_state =
  vs_store :: evo_store
  vs_journal :: "event list"
  vs_counter :: nat

definition initial_evolution :: evo_state where
  "initial_evolution = \<lparr>vs_store = empty_evolution, vs_journal = [], vs_counter = 0\<rparr>"

type_synonym 'a evolving = "(evo_state, evo_error, 'a) comp"

definition evo_hex :: "evo_env \<Rightarrow> string evolving" where
  "evo_hex env st = (Inr (vo_hex env (vs_counter st)), st\<lparr>vs_counter := Suc (vs_counter st)\<rparr>)"

definition on_evolution :: "'a evo_op \<Rightarrow> 'a evolving" where
  "on_evolution f st = (case f (vs_store st) of (r, s) \<Rightarrow> (r, st\<lparr>vs_store := s\<rparr>))"

definition read_evolution :: "(evo_store \<Rightarrow> evo_error + 'a) \<Rightarrow> 'a evolving" where
  "read_evolution f st = (f (vs_store st), st)"

definition evo_blocked :: "string list \<Rightarrow> unit evolving" where
  "evo_blocked blockers = (if blockers \<noteq> [] then throw (Evo_Blocked blockers) else ret ())"

definition evo_emit :: "evo_env \<Rightarrow> instant \<Rightarrow> evo_event \<Rightarrow> (string, json) dict \<Rightarrow> string \<Rightarrow> unit evolving" where
  "evo_emit env now t payload severity =
     (if vo_has_bus env then
        bindS (evo_hex env) (\<lambda>hex. modS (\<lambda>st. st\<lparr>vs_journal := vs_journal st @
          [canon_event (make_event hex now (evo_event_value t) ''aether.evolution.internal'' payload severity None None)]\<rparr>))
      else ret ())"

definition evo_learn :: "evo_env \<Rightarrow> instant \<Rightarrow> string \<Rightarrow> string \<Rightarrow> string \<Rightarrow> string option \<Rightarrow> string option \<Rightarrow> (string, json) dict
    \<Rightarrow> evo_learning evolving" where
  "evo_learn env now fingerprint outcome summary candidate lineage metadata =
     bindS (evo_hex env) (\<lambda>hex. on_evolution (add_evo_learning \<lparr>en_fingerprint = fingerprint, en_outcome = outcome, en_summary = summary,
       en_candidate_id = candidate, en_lineage_id = lineage, en_metadata = metadata, en_learning_id = new_id ''evo-learning'' hex,
       en_created_at = now\<rparr>))"

section \<open>Triggers and candidates\<close>

definition register_trigger :: "evo_env \<Rightarrow> instant \<Rightarrow> evo_trigger \<Rightarrow> evo_trigger evolving" where
  "register_trigger env now t =
     bindS (getS (\<lambda>st. learnings_for_fingerprint (et_fingerprint t) 20 (vs_store st))) (\<lambda>prior.
     bindS (on_evolution (add_trigger now (t\<lparr>et_prior_learning_ids := map en_learning_id prior\<rparr>))) (\<lambda>saved.
     bindS (evo_emit env now EVOLUTION_TRIGGER_REGISTERED [(''trigger_id'', JStr (et_trigger_id saved)),
       (''trigger_type'', JStr (evo_trigger_value (et_trigger_type saved))), (''fingerprint'', JStr (et_fingerprint saved)),
       (''summary'', JStr (et_summary saved)), (''prior_learning_ids'', str_list (et_prior_learning_ids saved))] ''info'') (\<lambda>_.
     ret saved)))"

record evo_request =
  eq_trigger_id :: string
  eq_target_type :: evo_target_type
  eq_target_path :: string
  eq_baseline_content :: string
  eq_candidate_content :: string
  eq_rationale :: string
  eq_generator_id :: string
  eq_deterministic_checks :: "check_command list"
  eq_heldout_checks :: "check_command list"
  eq_retry_reason :: "string option"
  eq_metadata :: "(string, json) dict"

definition requested_candidate :: "evo_env \<Rightarrow> evo_request \<Rightarrow> evo_trigger \<Rightarrow> string \<Rightarrow> evo_candidate" where
  "requested_candidate env q t hex =
     \<lparr>ec_trigger_id = et_trigger_id t, ec_trigger_fingerprint = et_fingerprint t, ec_target_type = eq_target_type q,
      ec_target_path = posix_slashes (eq_target_path q), ec_baseline_hash = content_hash (vo_sha env) (eq_baseline_content q),
      ec_candidate_hash = content_hash (vo_sha env) (eq_candidate_content q), ec_baseline_content = eq_baseline_content q,
      ec_candidate_content = eq_candidate_content q, ec_diff = vo_diff env (eq_target_path q) (eq_baseline_content q) (eq_candidate_content q),
      ec_rationale = eq_rationale q, ec_generator_id = eq_generator_id q, ec_deterministic_checks = eq_deterministic_checks q,
      ec_heldout_checks = eq_heldout_checks q, ec_retry_reason = eq_retry_reason q, ec_metadata = eq_metadata q,
      ec_candidate_id = new_id ''evo-candidate'' hex, ec_created_at = None, ec_status = EVO_PROPOSED, ec_evaluation_id = None,
      ec_decision_id = None, ec_lineage_id = None\<rparr>"

definition evo_failed_before :: "evo_store \<Rightarrow> string \<Rightarrow> bool" where
  "evo_failed_before s i =
     ((case get_evaluation i s of Some e \<Rightarrow> \<not> ee_passed e | None \<Rightarrow> False) \<or>
      (case get_evo_decision i s of Some d \<Rightarrow> ed_decision d = EVO_REJECT | None \<Rightarrow> False))"

definition evo_attempt_hash :: "evo_env \<Rightarrow> string \<Rightarrow> string option \<Rightarrow> string" where
  "evo_attempt_hash env semantic_hash retry_reason =
     (if blank (ostr_or retry_reason []) then semantic_hash
      else vo_sha env (semantic_hash @ '':'' @ squeeze (casefold (ostr_or retry_reason []))))"

definition propose_candidate :: "evo_env \<Rightarrow> instant \<Rightarrow> evo_request \<Rightarrow> evo_candidate evolving" where
  "propose_candidate env now q =
     bindS (read_evolution (get_trigger (eq_trigger_id q))) (\<lambda>t.
     bindS (evo_hex env) (\<lambda>hex.
     let c = requested_candidate env q t hex; semantic = evo_semantic_hash (vo_sha env) c in
     bindS (evo_blocked (validate_evo_candidate (vo_pct env) (vo_policy env) c)) (\<lambda>_.
     bindS (getS (\<lambda>st. list_ex (\<lambda>p. evo_semantic_hash (vo_sha env) p = semantic \<and> evo_failed_before (vs_store st) (ec_candidate_id p))
       (candidates_for_fingerprint (et_fingerprint t) (vs_store st)))) (\<lambda>failed.
     bindS (evo_blocked (if failed \<and> blank (ostr_or (eq_retry_reason q) [])
       then [''the same failed candidate cannot be repeated without an explicit retry reason''] else [])) (\<lambda>_.
     bindS (on_evolution (add_evo_candidate now c (evo_attempt_hash env semantic (eq_retry_reason q)))) (\<lambda>saved.
     bindS (evo_emit env now IMPROVEMENT_PROPOSED [(''candidate_id'', JStr (ec_candidate_id saved)), (''trigger_id'', JStr (ec_trigger_id saved)),
       (''target_path'', JStr (ec_target_path saved)), (''baseline_hash'', JStr (ec_baseline_hash saved)),
       (''candidate_hash'', JStr (ec_candidate_hash saved)), (''generator_id'', JStr (ec_generator_id saved)), (''diff'', JStr (ec_diff saved))]
       ''info'') (\<lambda>_.
     ret saved)))))))"

section \<open>Evaluation\<close>

datatype evaluate_step = Evaluate_Done evo_evaluation | Await_Evaluation evo_candidate

definition evaluate_begin :: "string \<Rightarrow> evaluate_step evolving" where
  "evaluate_begin i =
     bindS (read_evolution (get_evo_candidate i)) (\<lambda>c.
     bindS (getS (\<lambda>st. get_evaluation i (vs_store st))) (\<lambda>existing.
     ret (case existing of Some e \<Rightarrow> Evaluate_Done e | None \<Rightarrow> Await_Evaluation c)))"

definition normalized_evaluation :: "evo_env \<Rightarrow> instant \<Rightarrow> evo_evaluation \<Rightarrow> evo_evaluation" where
  "normalized_evaluation env now e =
     (let blockers = validate_evaluation (vo_fmt3 env) (vo_policy env) e in
      e\<lparr>ee_passed := (blockers = []), ee_blockers := from_keys (ee_blockers e @ blockers),
        ee_created_at := Some (case ee_created_at e of None \<Rightarrow> now | Some t \<Rightarrow> t)\<rparr>)"

definition evaluate_finish :: "evo_env \<Rightarrow> instant \<Rightarrow> evo_candidate \<Rightarrow> evo_evaluation \<Rightarrow> evo_evaluation evolving" where
  "evaluate_finish env now c e =
     bindS (on_evolution (add_evaluation now (normalized_evaluation env now e))) (\<lambda>saved.
     bindS (evo_emit env now (if ee_passed saved then IMPROVEMENT_VERIFIED else EVOLUTION_EVALUATION_FAILED)
       [(''candidate_id'', JStr (ec_candidate_id c)), (''evaluation_id'', JStr (ee_evaluation_id saved)),
        (''baseline_score'', JFloat (vo_float env (ee_baseline_score saved))), (''candidate_score'', JFloat (vo_float env (ee_candidate_score saved))),
        (''improvement'', JFloat (vo_float env (ee_improvement saved))), (''regression_count'', JInt (ee_regression_count saved)),
        (''passed'', JBool (ee_passed saved)), (''blockers'', str_list (ee_blockers saved))]
       (if ee_passed saved then ''info'' else ''warning'')) (\<lambda>_.
     bindS (if ee_passed saved then ret ()
       else bindS (evo_learn env now (ec_trigger_fingerprint c) ''evaluation-failed''
         (''Candidate failed governed evaluation: '' @ join ''; '' (ee_blockers saved)) (Some (ec_candidate_id c)) None
         [(''evaluation_id'', JStr (ee_evaluation_id saved))]) (\<lambda>_. ret ())) (\<lambda>_.
     ret saved)))"

section \<open>Decision, promotion, rollback\<close>

datatype evo_decide_step = Evo_Done evo_candidate | Await_Promote evo_candidate evo_evaluation string string string | Await_Undo evo_lineage evo_error

definition evo_decide_begin :: "evo_env \<Rightarrow> instant \<Rightarrow> string \<Rightarrow> bool \<Rightarrow> string \<Rightarrow> string \<Rightarrow> string \<Rightarrow> bool \<Rightarrow> evo_decide_step evolving" where
  "evo_decide_begin env now i approved who channel reason has_promoter =
     bindS (read_evolution (get_evo_candidate i)) (\<lambda>c.
     bindS (getS (\<lambda>st. get_evo_decision i (vs_store st))) (\<lambda>existing.
     case existing of
       Some d \<Rightarrow>
         if ed_decision d \<noteq> (if approved then EVO_PROMOTE else EVO_REJECT)
         then throw (Evo_Decision_Conflict (''candidate '' @ i @ '' already has terminal decision '' @ evo_decision_value (ed_decision d)))
         else bindS (read_evolution (get_evo_candidate i)) (\<lambda>c. ret (Evo_Done c))
     | None \<Rightarrow>
         bindS (evo_blocked (validate_evo_decision (vo_policy env) who reason)) (\<lambda>_.
         if \<not> approved then
           bindS (evo_hex env) (\<lambda>hex.
           bindS (on_evolution (add_evo_decision \<lparr>ed_candidate_id = i, ed_decision = EVO_REJECT, ed_principal = who, ed_channel = channel,
             ed_reason = reason, ed_decision_id = new_id ''evo-decision'' hex, ed_decided_at = now, ed_lineage_id = None\<rparr>)) (\<lambda>decision.
           bindS (evo_learn env now (ec_trigger_fingerprint c) ''rejected'' reason (Some i) None
             [(''decision_id'', JStr (ed_decision_id decision))]) (\<lambda>_.
           bindS (evo_emit env now EVOLUTION_IMPROVEMENT_REJECTED [(''candidate_id'', JStr i), (''decision_id'', JStr (ed_decision_id decision)),
             (''principal'', JStr who), (''reason'', JStr reason)] ''info'') (\<lambda>_.
           bindS (read_evolution (get_evo_candidate i)) (\<lambda>c. ret (Evo_Done c))))))
         else
           bindS (getS (\<lambda>st. get_evaluation i (vs_store st))) (\<lambda>evaluation.
           case evaluation of
             None \<Rightarrow> throw (Evo_Blocked [''candidate has not been evaluated''])
           | Some e \<Rightarrow>
               bindS (evo_blocked (validate_evaluation (vo_fmt3 env) (vo_policy env) e)) (\<lambda>_.
               bindS (evo_blocked (if has_promoter then [] else [''a production promoter adapter is required''])) (\<lambda>_.
               ret (Await_Promote c e who channel reason)))))))"

text \<open>What stands between \<open>try\<close> and \<open>except\<close>.\<close>

definition record_promotion :: "evo_env \<Rightarrow> instant \<Rightarrow> evo_lineage \<Rightarrow> string \<Rightarrow> evo_decision evolving" where
  "record_promotion env now l channel =
     bindS (on_evolution (add_lineage l)) (\<lambda>l.
     bindS (evo_hex env) (\<lambda>hex.
     on_evolution (add_evo_decision \<lparr>ed_candidate_id = el_candidate_id l, ed_decision = EVO_PROMOTE, ed_principal = el_principal l,
       ed_channel = channel, ed_reason = el_reason l, ed_decision_id = new_id ''evo-decision'' hex, ed_decided_at = now,
       ed_lineage_id = Some (el_lineage_id l)\<rparr>)))"

definition promote_finish :: "evo_env \<Rightarrow> instant \<Rightarrow> evo_candidate \<Rightarrow> evo_evaluation \<Rightarrow> string \<Rightarrow> string \<Rightarrow> string \<Rightarrow> promotion_receipt
    \<Rightarrow> evo_decide_step evolving" where
  "promote_finish env now c e who channel reason receipt =
     bindS (evo_hex env) (\<lambda>hex st.
       let l = \<lparr>el_candidate_id = ec_candidate_id c, el_target_path = po_target_path receipt, el_parent_hash = po_parent_hash receipt,
         el_promoted_hash = po_promoted_hash receipt, el_backup_path = po_backup_path receipt, el_principal = who, el_reason = reason,
         el_lineage_id = new_id ''evo-lineage'' hex, el_promoted_at = now, el_rolled_back_at = None, el_rollback_principal = None,
         el_rollback_reason = None\<rparr> in
       case record_promotion env now l channel st of
         (Inl err, st') \<Rightarrow> (Inr (Await_Undo l err), st')
       | (Inr d, st') \<Rightarrow>
           bindS (evo_learn env now (ec_trigger_fingerprint c) ''promoted'' reason (Some (ec_candidate_id c)) (Some (el_lineage_id l))
             [(''evaluation_id'', JStr (ee_evaluation_id e)), (''decision_id'', JStr (ed_decision_id d)),
              (''improvement'', JFloat (vo_float env (ee_improvement e)))]) (\<lambda>_.
           bindS (evo_emit env now EVOLUTION_IMPROVEMENT_PROMOTED [(''candidate_id'', JStr (ec_candidate_id c)),
             (''decision_id'', JStr (ed_decision_id d)), (''lineage_id'', JStr (el_lineage_id l)), (''target_path'', JStr (el_target_path l)),
             (''parent_hash'', JStr (el_parent_hash l)), (''promoted_hash'', JStr (el_promoted_hash l)), (''principal'', JStr who)]
             ''info'') (\<lambda>_.
           bindS (read_evolution (get_evo_candidate (ec_candidate_id c))) (\<lambda>c'. ret (Evo_Done c')))) st')"

datatype rollback_step = Rollback_Done evo_lineage | Await_Restore evo_lineage

definition rollback_begin :: "evo_env \<Rightarrow> string \<Rightarrow> string \<Rightarrow> string \<Rightarrow> rollback_step evolving" where
  "rollback_begin env i who reason =
     bindS (evo_blocked (validate_evo_decision (vo_policy env) who reason)) (\<lambda>_.
     bindS (read_evolution (get_lineage i)) (\<lambda>l.
     ret (if el_rolled_back_at l \<noteq> None then Rollback_Done l else Await_Restore l)))"

definition rollback_finish :: "evo_env \<Rightarrow> instant \<Rightarrow> string \<Rightarrow> evo_lineage \<Rightarrow> string \<Rightarrow> string \<Rightarrow> string \<Rightarrow> evo_lineage evolving" where
  "rollback_finish env now i l who channel reason =
     bindS (on_evolution (add_rollback now i who reason)) (\<lambda>updated.
     bindS (read_evolution (get_evo_candidate (el_candidate_id l))) (\<lambda>c.
     bindS (evo_learn env now (ec_trigger_fingerprint c) ''rolled-back'' reason (Some (ec_candidate_id c)) (Some i)
       [(''channel'', JStr channel)]) (\<lambda>_.
     bindS (evo_emit env now EVOLUTION_IMPROVEMENT_ROLLED_BACK [(''candidate_id'', JStr (ec_candidate_id c)), (''lineage_id'', JStr i),
       (''principal'', JStr who), (''reason'', JStr reason)] ''warning'') (\<lambda>_.
     ret updated))))"

definition evolution_status :: "evo_store \<Rightarrow> (string, int) dict" where
  "evolution_status s =
     (let cs = list_evo_candidates 1000 s; count = (\<lambda>k. int (length (filter (\<lambda>c. ec_status c = k) cs))) in
      [(''triggers'', int (length (list_triggers 1000 s))), (''candidates'', int (length cs)), (''proposed'', count EVO_PROPOSED),
       (''verified'', count EVO_VERIFIED), (''promoted'', count EVO_PROMOTED), (''rejected'', count EVO_REJECTED),
       (''rolled_back'', count EVO_ROLLED_BACK)])"

section \<open>Intake\<close>

definition FAILURE_EVENTS :: "string list" where
  "FAILURE_EVENTS = [''action.failed'', ''action.retry.blocked'', ''sense.path.failed'', ''runtime.result.failed'', ''evolution.evaluation.failed'']"

definition evolution_fingerprint :: "digest \<Rightarrow> string \<Rightarrow> string \<Rightarrow> string option \<Rightarrow> (string, json) dict \<Rightarrow> string" where
  "evolution_fingerprint sha category summary target details = sha (dumps compact_utf8 (JObj [
     (''category'', JStr (casefold (strip category))), (''summary'', JStr (squeeze (casefold summary))),
     (''target'', JStr (casefold (strip (ostr_or target [])))), (''details'', JObj details)]))"

definition trigger_from_event :: "digest \<Rightarrow> event \<Rightarrow> string \<Rightarrow> evo_trigger option" where
  "trigger_from_event sha e hex =
     (if ev_type e \<notin> set FAILURE_EVENTS then None
      else let payload = ev_payload e;
               summary = get_or payload ''error'' (get_or payload ''reason'' (get_or payload ''message'' (ev_type e)));
               target = get_or payload ''target'' (get_or payload ''operation'' (get_or payload ''adapter_id'' []));
               fingerprint = str_or (get_or payload ''failure_fingerprint'' [])
                 (evolution_fingerprint sha (ev_type e) summary (Some target) [(''error_type'', json_get payload ''error_type'')]) in
        Some \<lparr>et_trigger_type = EVO_FAILURE, et_fingerprint = fingerprint, et_summary = summary, et_evidence_ids = [ev_id e],
          et_prior_learning_ids = [],
          et_metadata = [(''event_type'', JStr (ev_type e)), (''actor'', JStr (ev_actor e)), (''severity'', JStr (ev_severity e)),
            (''correlation_id'', json_opt (ev_correlation e)), (''target'', JStr target)],
          et_trigger_id = new_id ''evo-trigger'' hex, et_created_at = None\<rparr>)"

definition capability_gap :: "digest \<Rightarrow> string \<Rightarrow> string \<Rightarrow> string list \<Rightarrow> (string, json) dict \<Rightarrow> string \<Rightarrow> evo_trigger" where
  "capability_gap sha summary target evidence_ids metadata hex =
     \<lparr>et_trigger_type = EVO_CAPABILITY_GAP, et_fingerprint = evolution_fingerprint sha ''capability-gap'' summary (Some target) [],
      et_summary = summary, et_evidence_ids = evidence_ids, et_prior_learning_ids = [],
      et_metadata = dict_update [(''target'', JStr target)] metadata, et_trigger_id = new_id ''evo-trigger'' hex, et_created_at = None\<rparr>"

end
