(* ===== verification/Evolution_Local.thy ===== *)
theory Evolution_Local
  imports Evolution_Engine
begin

text \<open>
  \<open>evolution/local.py\<close> of the gateway: \<open>LocalEvolutionSandbox\<close> and \<open>LocalArtifactPromoter\<close>. The sandbox runs the
  checks of a candidate in two copies of the workspace; what a check command does in its copy is the
  parameter \<open>run\<close>, which gives for a phase and a command the exit code and the output, or the timeout.
\<close>

section \<open>Files\<close>

text \<open>
  The files of a POSIX machine by their absolute path: names are case sensitive, and there are no
  symbolic links (which the code resolves, and refuses in a workspace it copies). Where names are not
  case sensitive, a protected file can be named in another spelling, which the check of the governor
  lets pass. \<open>read_text\<close> opens in text mode, which turns a carriage return, with or without a line feed
  after it, into a line feed; \<open>write_text\<close> writes as it is given (on Windows it would turn line feeds into
  carriage return and line feed).
\<close>

type_synonym files = "string list \<Rightarrow> string option"

fun universal_newlines :: "string \<Rightarrow> string" where
  "universal_newlines [] = []"
| "universal_newlines (c # s) =
     (if c = CHR 0x0D then CHR 0x0A # universal_newlines (if s \<noteq> [] \<and> hd s = CHR 0x0A then tl s else s)
      else c # universal_newlines s)"

definition resolve :: "string list \<Rightarrow> string list \<Rightarrow> string list" where
  "resolve base parts = foldl (\<lambda>acc p. if p = ''..'' then butlast acc else acc @ [p]) base parts"

definition join_path :: "string list \<Rightarrow> string \<Rightarrow> string list" where
  "join_path base relative = (if path_root relative \<noteq> [] then path_parts relative else base @ path_parts relative)"

definition path_text :: "string list \<Rightarrow> string" where
  "path_text parts = ''/'' @ join ''/'' parts"

definition safe_target :: "string list \<Rightarrow> string \<Rightarrow> string + string list" where
  "safe_target workspace_root relative =
     (let target = resolve [] (join_path workspace_root relative) in
      if prefix workspace_root target then Inr target else Inl ''target escapes the configured evolution workspace'')"

definition with_name :: "string list \<Rightarrow> string \<Rightarrow> string list" where
  "with_name path name = butlast path @ [name]"

section \<open>The sandbox\<close>

datatype run_outcome = Exited int string string rat | Timed_Out rat

type_synonym runner = "string \<Rightarrow> string list \<Rightarrow> check_command \<Rightarrow> run_outcome"

definition validated_argv :: "string \<Rightarrow> string list \<Rightarrow> string + string list" where
  "validated_argv executable argv =
     (if length argv < 3 then Inl ''evolution check command is incomplete''
      else if argv ! 0 \<notin> {''{python}'', ''python'', ''python3'', executable} then Inl ''only the configured Python interpreter may run evolution checks''
      else if argv ! 1 \<noteq> ''-m'' \<or> argv ! 2 \<notin> {''pytest'', ''unittest'', ''compileall''}
      then Inl ''only python -m pytest|unittest|compileall checks are allowed''
      else if list_ex (\<lambda>x. x \<in> {''-c'', ''--pdb'', ''--trace''}) (drop 3 argv) then Inl ''unsafe Python check option is not allowed''
      else Inr (executable # drop 1 argv))"

definition last_chars :: "nat \<Rightarrow> string \<Rightarrow> string" where
  "last_chars n s = (if n = 0 then s else drop (length s - n) s)"

definition check_outcome :: "nat \<Rightarrow> check_command \<Rightarrow> string \<Rightarrow> run_outcome \<Rightarrow> check_result" where
  "check_outcome max_output_chars k phase outcome =
     (case (case outcome of Exited code out err t \<Rightarrow> (code, out, err, t) | Timed_Out t \<Rightarrow> (124, [], ''command timed out'', t)) of
        (code, out, err, t) \<Rightarrow> \<lparr>cx_name = ck_name k, cx_kind = ck_kind k, cx_phase = phase, cx_passed = (code = 0), cx_exit_code = code,
          cx_duration_seconds = t, cx_stdout = last_chars max_output_chars out, cx_stderr = last_chars max_output_chars err\<rparr>)"

definition run_command :: "string \<Rightarrow> nat \<Rightarrow> runner \<Rightarrow> string \<Rightarrow> check_command \<Rightarrow> string + check_result" where
  "run_command executable max_output_chars run phase k =
     bindE (validated_argv executable (ck_argv k)) (\<lambda>argv. Inr (check_outcome max_output_chars k phase (run phase argv k)))"

primrec run_phase :: "string \<Rightarrow> nat \<Rightarrow> runner \<Rightarrow> string \<Rightarrow> check_command list \<Rightarrow> string + check_result list" where
  "run_phase executable max_output_chars run phase [] = Inr []"
| "run_phase executable max_output_chars run phase (k # ks) =
     bindE (run_command executable max_output_chars run phase k) (\<lambda>x.
     bindE (run_phase executable max_output_chars run phase ks) (\<lambda>xs. Inr (x # xs)))"

definition score :: "check_result list \<Rightarrow> rat" where
  "score xs = of_nat (length (filter cx_passed xs)) / of_nat (max 1 (length xs))"

definition regressions :: "check_result list \<Rightarrow> check_result list \<Rightarrow> nat" where
  "regressions before after = length (filter (\<lambda>(x, y). cx_passed x \<and> \<not> cx_passed y) (zip before after))"

definition sandbox_evaluation :: "string list \<Rightarrow> evo_candidate \<Rightarrow> string \<Rightarrow> string \<Rightarrow> check_result list \<Rightarrow> evo_evaluation" where
  "sandbox_evaluation sandbox_root c sandbox_id hex results =
     (let before = filter (\<lambda>x. cx_phase x = ''baseline'') results; after = filter (\<lambda>x. cx_phase x = ''candidate'') results;
          n = regressions before after;
          blockers = (if \<not> list_all cx_passed after then [''candidate did not pass every deterministic and held-out check''] else []) @
            (if n \<noteq> 0 then [''candidate introduced '' @ int_str (int n) @ '' regression(s)''] else []) in
      \<lparr>ee_candidate_id = ec_candidate_id c, ee_sandbox_id = sandbox_id, ee_baseline_score = score before, ee_candidate_score = score after,
       ee_improvement = score after - score before, ee_regression_count = int n, ee_checks = results, ee_passed = (blockers = []),
       ee_blockers = blockers,
       ee_metadata = [(''adapter_id'', JStr ''aether.evolution.sandbox.local-filesystem''),
         (''baseline_dir'', JStr (path_text (sandbox_root @ [sandbox_id, ''baseline'']))),
         (''candidate_dir'', JStr (path_text (sandbox_root @ [sandbox_id, ''candidate'']))),
         (''isolation'', JStr ''filesystem-copy-plus-command-allowlist''), (''network_isolation'', JBool False)],
       ee_evaluation_id = new_id ''evo-eval'' hex, ee_created_at = None\<rparr>)"

definition sandbox_evaluate :: "digest \<Rightarrow> string \<Rightarrow> nat \<Rightarrow> runner \<Rightarrow> string list \<Rightarrow> string list \<Rightarrow> evo_candidate \<Rightarrow> string \<Rightarrow> string \<Rightarrow> files
    \<Rightarrow> string + evo_evaluation" where
  "sandbox_evaluate sha executable max_output_chars run workspace_root sandbox_root c hex hex' fs =
     bindE (safe_target workspace_root (ec_target_path c)) (\<lambda>source_target.
     case fs source_target of
       None \<Rightarrow> Inl (''target does not exist: '' @ ec_target_path c)
     | Some actual \<Rightarrow>
         if content_hash sha (universal_newlines actual) \<noteq> ec_baseline_hash c then Inl ''workspace baseline changed after candidate proposal''
         else let sandbox_id = new_id ''evo-sandbox'' hex; ks = ec_deterministic_checks c @ ec_heldout_checks c in
           bindE (safe_target (sandbox_root @ [sandbox_id, ''candidate'']) (ec_target_path c)) (\<lambda>_.
           bindE (run_phase executable max_output_chars run ''baseline'' ks) (\<lambda>before.
           bindE (run_phase executable max_output_chars run ''candidate'' ks) (\<lambda>after.
           Inr (sandbox_evaluation sandbox_root c sandbox_id hex' (before @ after))))))"

section \<open>The promoter\<close>

definition replace_file :: "string list \<Rightarrow> string list \<Rightarrow> string \<Rightarrow> files \<Rightarrow> files" where
  "replace_file temporary target content fs = (fs(temporary := None))(target \<mapsto> content)"

definition file_name :: "string list \<Rightarrow> string" where
  "file_name path = (if path = [] then [] else last path)"

definition promote :: "digest \<Rightarrow> string list \<Rightarrow> string list \<Rightarrow> evo_candidate \<Rightarrow> files \<Rightarrow> (string + promotion_receipt) \<times> files" where
  "promote sha workspace_root backup_root c fs =
     (case safe_target workspace_root (ec_target_path c) of
        Inl e \<Rightarrow> (Inl e, fs)
      | Inr target \<Rightarrow>
          (case fs target of
             None \<Rightarrow> (Inl (''target does not exist: '' @ ec_target_path c), fs)
           | Some text \<Rightarrow>
               let baseline = universal_newlines text; backup = join_path (backup_root @ [ec_candidate_id c]) (ec_target_path c) in
               if content_hash sha baseline \<noteq> ec_baseline_hash c
               then (Inl ''production baseline changed; candidate must be regenerated'', fs)
               else if content_hash sha (ec_candidate_content c) \<noteq> ec_candidate_hash c then (Inl ''candidate content hash mismatch'', fs)
               else (Inr \<lparr>po_target_path = ec_target_path c, po_parent_hash = ec_baseline_hash c, po_promoted_hash = ec_candidate_hash c,
                   po_backup_path = path_text backup\<rparr>,
                 replace_file (with_name target (''.'' @ file_name target @ ''.'' @ ec_candidate_id c @ ''.tmp'')) target (ec_candidate_content c)
                   (fs(resolve [] backup \<mapsto> baseline)))))"

definition restore :: "digest \<Rightarrow> string list \<Rightarrow> evo_lineage \<Rightarrow> files \<Rightarrow> (string + unit) \<times> files" where
  "restore sha workspace_root l fs =
     (case safe_target workspace_root (el_target_path l) of
        Inl e \<Rightarrow> (Inl e, fs)
      | Inr target \<Rightarrow>
          (case fs target of
             None \<Rightarrow> (Inl ''promoted target no longer exists'', fs)
           | Some current \<Rightarrow>
               if content_hash sha (universal_newlines current) \<noteq> el_promoted_hash l
               then (Inl ''current artifact diverged after promotion; automatic rollback is blocked'', fs)
               else (case fs (resolve [] (path_parts (el_backup_path l))) of
                   None \<Rightarrow> (Inl ''rollback backup is missing'', fs)
                 | Some text \<Rightarrow>
                     let baseline = universal_newlines text in
                     if content_hash sha baseline \<noteq> el_parent_hash l then (Inl ''rollback backup hash mismatch'', fs)
                     else (Inr (), replace_file (with_name target (''.'' @ file_name target @ ''.'' @ el_lineage_id l @ ''.rollback.tmp''))
                       target baseline fs))))"

end
