(* ===== verification/Evolution_Safety.thy ===== *)
theory Evolution_Safety
  imports Evolution_Local Skill_Safety
begin

text \<open>
  The evolution engine with the local promoter as a transition system: the calls of the engine,
  interleaved at the awaits of sandbox and promoter, over the files of the machine. What is promoted
  was vetted, and no protected file ever changes.
\<close>

section \<open>Unique columns\<close>

lemma get_evaluation_append:
  "get_evaluation i (s\<lparr>es_evaluations := es_evaluations s @ [e]\<rparr>) =
    (case get_evaluation i s of None \<Rightarrow> if ee_candidate_id e = i then Some e else None | Some x \<Rightarrow> Some x)"
  by (simp add: get_evaluation_def find_append split: option.split)

lemma get_evo_decision_append:
  "get_evo_decision i (s\<lparr>es_decisions := es_decisions s @ [d]\<rparr>) =
    (case get_evo_decision i s of None \<Rightarrow> if ed_candidate_id d = i then Some d else None | Some x \<Rightarrow> Some x)"
  by (simp add: get_evo_decision_def find_append split: option.split)

lemma evaluations_one_row: "one_row (add_evaluation now) get_evaluation ee_candidate_id"
proof
  fix r r' s s' i x
  show "get_evaluation (ee_candidate_id r) s' = Some r'" if "add_evaluation now r s = (Inr r', s')"
    using that by (auto simp: add_evaluation_def Let_def get_evaluation_append split: if_splits option.splits)
  show "get_evaluation i (snd (add_evaluation now r s)) = Some x" if "get_evaluation i s = Some x"
    using that by (simp add: add_evaluation_def Let_def get_evaluation_append)
  show "get_evaluation i (snd (add_evaluation now r s)) = get_evaluation i s" if "i \<noteq> ee_candidate_id r"
    using that by (simp add: add_evaluation_def Let_def get_evaluation_append split: option.split)
qed

interpretation evaluations: one_row "add_evaluation now" get_evaluation ee_candidate_id for now
  by (rule evaluations_one_row)

interpretation evo_decisions: one_row add_evo_decision get_evo_decision ed_candidate_id
proof
  fix r r' s s' i x
  show "get_evo_decision (ed_candidate_id r) s' = Some r'" if "add_evo_decision r s = (Inr r', s')"
    using that by (auto simp: add_evo_decision_def get_evo_decision_append split: if_splits option.splits)
  show "get_evo_decision i (snd (add_evo_decision r s)) = Some x" if "get_evo_decision i s = Some x"
    using that by (simp add: add_evo_decision_def get_evo_decision_append)
  show "get_evo_decision i (snd (add_evo_decision r s)) = get_evo_decision i s" if "i \<noteq> ed_candidate_id r"
    using that by (simp add: add_evo_decision_def get_evo_decision_append split: option.split)
qed

section \<open>What is recorded stays\<close>

definition evo_ext :: "evo_store \<Rightarrow> evo_store \<Rightarrow> bool" where
  "evo_ext s s' = (prefix (es_candidates s) (es_candidates s') \<and>
     (\<forall>i e. get_evaluation i s = Some e \<longrightarrow> get_evaluation i s' = Some e) \<and>
     (\<forall>i d. get_evo_decision i s = Some d \<longrightarrow> get_evo_decision i s' = Some d))"

lemma evo_ext_refl [simp]: "evo_ext s s"
  by (simp add: evo_ext_def)

lemma evo_ext_trans: "evo_ext s s' \<Longrightarrow> evo_ext s' s'' \<Longrightarrow> evo_ext s s''"
  unfolding evo_ext_def by (meson prefix_order.trans)

lemma evo_ext_neutral:
  "es_candidates s' = es_candidates s \<Longrightarrow> es_evaluations s' = es_evaluations s \<Longrightarrow> es_decisions s' = es_decisions s \<Longrightarrow> evo_ext s s'"
  by (simp add: evo_ext_def get_evaluation_def get_evo_decision_def)

lemma evo_ext_add:
  "evo_ext s (snd (add_trigger now t s))" "evo_ext s (snd (add_evo_candidate now c h s))" "evo_ext s (snd (add_evaluation now e s))"
  "evo_ext s (snd (add_evo_decision d s))" "evo_ext s (snd (add_lineage l s))" "evo_ext s (snd (add_rollback now i who reason s))"
  "evo_ext s (snd (add_evo_learning n s))"
proof -
  show "evo_ext s (snd (add_trigger now t s))" "evo_ext s (snd (add_lineage l s))" "evo_ext s (snd (add_rollback now i who reason s))"
    "evo_ext s (snd (add_evo_learning n s))"
    by (rule evo_ext_neutral; simp add: add_trigger_def add_lineage_def add_rollback_def add_evo_learning_def Let_def)+
  show "evo_ext s (snd (add_evo_candidate now c h s))"
    by (simp add: evo_ext_def add_evo_candidate_def Let_def get_evaluation_def get_evo_decision_def)
  have "es_candidates (snd (add_evaluation now e s)) = es_candidates s" "get_evo_decision i (snd (add_evaluation now e s)) = get_evo_decision i s" for i
    by (simp_all add: add_evaluation_def Let_def get_evo_decision_def)
  then show "evo_ext s (snd (add_evaluation now e s))" by (simp add: evo_ext_def evaluations.put_stays)
  have "es_candidates (snd (add_evo_decision d s)) = es_candidates s" "get_evaluation i (snd (add_evo_decision d s)) = get_evaluation i s" for i
    by (simp_all add: add_evo_decision_def get_evaluation_def)
  then show "evo_ext s (snd (add_evo_decision d s))" by (simp add: evo_ext_def evo_decisions.put_stays)
qed

lemma get_evaluation_ext: "get_evaluation i s = Some e \<Longrightarrow> evo_ext s s' \<Longrightarrow> get_evaluation i s' = Some e"
  by (simp add: evo_ext_def)

abbreviation evo_since :: "evo_store \<Rightarrow> evo_state \<Rightarrow> bool" where
  "evo_since s st \<equiv> evo_ext s (vs_store st)"

lemma evo_since_on: "(\<And>s. evo_ext s (snd (f s))) \<Longrightarrow> keeps (evo_since s0) (on_evolution f)"
  unfolding keeps_def on_evolution_def using evo_ext_trans by (auto simp: case_prod_beta)

lemma evo_read_keeps [keeps_intros]: "keeps P (read_evolution f)" "keeps P (evo_blocked bs)"
  by (simp_all add: keeps_def read_evolution_def evo_blocked_def comp_simps)

lemma evo_hex_emit_store:
  "vs_store (snd (evo_hex env st)) = vs_store st" "vs_store (snd (evo_emit env now t p sev st)) = vs_store st"
  by (simp_all add: evo_hex_def evo_emit_def bindS_def comp_simps)

lemma evo_hex_keeps [keeps_intros]:
  "keeps (\<lambda>st. P (vs_store st)) (evo_hex env)" "keeps (\<lambda>st. P (vs_store st)) (evo_emit env now t p sev)"
  by (simp_all add: keeps_def evo_hex_emit_store)

lemmas evo_since_adds [keeps_intros] = evo_ext_add [THEN evo_since_on]

lemma evo_since_learn [keeps_intros]: "keeps (evo_since s) (evo_learn env now fp out summary c l md)"
  unfolding evo_learn_def by (intro keeps_intros)

lemma evo_since_calls:
  "keeps (evo_since s) (register_trigger env now t)" "keeps (evo_since s) (propose_candidate env now q)"
  "keeps (evo_since s) (evaluate_begin i)" "keeps (evo_since s) (evaluate_finish env now c e)"
  "keeps (evo_since s) (evo_decide_begin env now i approved who channel reason has_promoter)"
  "keeps (evo_since s) (record_promotion env now l channel)"
  "keeps (evo_since s) (rollback_begin env i who reason)" "keeps (evo_since s) (rollback_finish env now i l who channel reason)"
  unfolding register_trigger_def propose_candidate_def evaluate_begin_def evaluate_finish_def evo_decide_begin_def record_promotion_def
    rollback_begin_def rollback_finish_def
  by (intro keeps_intros)+

lemma keeps_caught:
  assumes "keeps P m" "\<And>x. keeps P (k x)"
  shows "keeps P (\<lambda>st. case m st of (Inl e, st') \<Rightarrow> (Inr (h e), st') | (Inr x, st') \<Rightarrow> k x st')"
  unfolding keeps_def
proof (intro allI impI)
  fix st
  assume "P st"
  obtain r st' where r: "m st = (r, st')" by fastforce
  then have "P st'" using keepsD [OF assms(1) \<open>P st\<close>] by blast
  then show "P (snd (case m st of (Inl e, st') \<Rightarrow> (Inr (h e), st') | (Inr x, st') \<Rightarrow> k x st'))"
    using assms(2) unfolding r keeps_def by (auto split: sum.split)
qed

lemma wp_caught:
  assumes "P (snd (m st))" "\<And>x. keeps P (k x)"
  shows "wp (\<lambda>st. case m st of (Inl e, st') \<Rightarrow> (Inr (h e), st') | (Inr x, st') \<Rightarrow> k x st') P (\<lambda>_. P) st"
proof (cases "m st")
  case (Pair r st')
  then have "P (snd (k x st'))" for x using assms unfolding keeps_def by simp
  then show ?thesis using assms(1) unfolding wp_def Pair by (auto split: sum.split prod.split) (metis snd_conv)+
qed

lemma evo_since_promote: "keeps (evo_since s) (promote_finish env now c e who channel reason receipt)"
  unfolding promote_finish_def Let_def by (intro keeps_intros keeps_caught evo_since_calls)

section \<open>What the governor has seen\<close>

definition evo_path_ok :: "evo_policy \<Rightarrow> string \<Rightarrow> bool" where
  "evo_path_ok pol path = (safe_relative path \<and> path_name path \<notin> set (ep_protected_names pol) \<and>
     (\<forall>p \<in> set (ep_protected_paths pol). \<not> path_within p path))"

lemma concat_ifs_Nil: "concat (map (\<lambda>x. if P x then [f x] else []) xs) = [] \<longleftrightarrow> (\<forall>x \<in> set xs. \<not> P x)"
  by (induction xs) auto

lemma valid_path:
  assumes "validate_evo_candidate pct pol c = []" "posix_slashes (ec_target_path c) = ec_target_path c"
  shows "evo_path_ok pol (ec_target_path c)"
proof -
  have "evo_candidate_blockers pct pol c = []" using assms(1) by (simp add: validate_evo_candidate_def)
  then have a: "(if \<not> safe_relative (ec_target_path c) then [''target path must be a safe relative path''] else []) = []"
    and b: "(if path_name (ec_target_path c) \<in> set (ep_protected_names pol) then [''protected artifact cannot evolve: '' @ path_name (ec_target_path c)] else []) = []"
    and c: "concat (map (\<lambda>p. if path_within p (ec_target_path c) then [''protected path cannot evolve: '' @ p] else []) (ep_protected_paths pol)) = []"
    unfolding evo_candidate_blockers_def Let_def assms(2) by (simp_all only: append_is_Nil_conv)
  from a b c [unfolded concat_ifs_Nil] show ?thesis by (auto simp: evo_path_ok_def split: if_splits)
qed

definition evo_vetted :: "evo_env \<Rightarrow> evo_store \<Rightarrow> string \<Rightarrow> string \<Rightarrow> string \<Rightarrow> bool" where
  "evo_vetted env s i who reason =
     ((\<exists>row \<in> set (es_candidates s). ec_candidate_id (ew_candidate row) = i) \<and>
      (\<exists>e. get_evaluation i s = Some e \<and> validate_evaluation (vo_fmt3 env) (vo_policy env) e = []) \<and>
      validate_evo_decision (vo_policy env) who reason = [])"

lemma evo_vetted_ext:
  assumes "evo_vetted env s i who reason" "evo_ext s s'"
  shows "evo_vetted env s' i who reason"
proof -
  have "set (es_candidates s) \<subseteq> set (es_candidates s')" using assms(2) by (simp add: evo_ext_def set_mono_prefix)
  then show ?thesis using assms get_evaluation_ext unfolding evo_vetted_def by blast
qed

definition evo_row_ok :: "evo_env \<Rightarrow> evo_candidate_row \<Rightarrow> bool" where
  "evo_row_ok env row = (validate_evo_candidate (vo_pct env) (vo_policy env) (ew_candidate row) = [] \<and>
     posix_slashes (ec_target_path (ew_candidate row)) = ec_target_path (ew_candidate row) \<and> ec_candidate_id (ew_candidate row) \<noteq> ''..'')"

definition lineage_ok :: "evo_env \<Rightarrow> evo_store \<Rightarrow> evo_lineage \<Rightarrow> bool" where
  "lineage_ok env s l = (evo_vetted env s (el_candidate_id l) (el_principal l) (el_reason l) \<and> evo_path_ok (vo_policy env) (el_target_path l))"

definition evo_inv :: "evo_env \<Rightarrow> evo_store \<Rightarrow> bool" where
  "evo_inv env s = (list_all (evo_row_ok env) (es_candidates s) \<and>
     list_all (\<lambda>e. ee_passed e \<longleftrightarrow> validate_evaluation (vo_fmt3 env) (vo_policy env) e = []) (es_evaluations s) \<and>
     list_all (lineage_ok env s) (es_lineage s) \<and> distinct (map el_candidate_id (es_lineage s)) \<and>
     list_all (\<lambda>b. validate_evo_decision (vo_policy env) (eb_principal b) (eb_reason b) = []) (es_rollbacks s) \<and>
     distinct (map eb_lineage_id (es_rollbacks s)))"

lemma lineage_ok_ext: "list_all (lineage_ok env s) ls \<Longrightarrow> evo_ext s s' \<Longrightarrow> list_all (lineage_ok env s') ls"
  using evo_vetted_ext by (fastforce simp: list_all_iff lineage_ok_def)

lemma evo_inv_empty: "evo_inv env empty_evolution"
  by (simp add: evo_inv_def empty_evolution_def)

lemma evo_inv_neutral:
  assumes "evo_inv env s"
  shows "evo_inv env (snd (add_trigger now t s))" "evo_inv env (snd (add_evo_decision d s))" "evo_inv env (snd (add_evo_learning n s))"
proof -
  have same: "evo_inv env s'" if "evo_ext s s'" "es_candidates s' = es_candidates s" "es_evaluations s' = es_evaluations s"
    "es_lineage s' = es_lineage s" "es_rollbacks s' = es_rollbacks s" for s'
    using assms lineage_ok_ext [OF _ that(1), of env "es_lineage s"] that(2-) by (simp add: evo_inv_def)
  show "evo_inv env (snd (add_trigger now t s))" by (rule same [OF evo_ext_add(1)]) (simp_all add: add_trigger_def Let_def)
  show "evo_inv env (snd (add_evo_decision d s))" by (rule same [OF evo_ext_add(4)]) (simp_all add: add_evo_decision_def)
  show "evo_inv env (snd (add_evo_learning n s))" by (rule same [OF evo_ext_add(7)]) (simp_all add: add_evo_learning_def)
qed

lemma evo_inv_candidate:
  assumes "evo_inv env s" "validate_evo_candidate (vo_pct env) (vo_policy env) c = []" "posix_slashes (ec_target_path c) = ec_target_path c"
    and "ec_candidate_id c \<noteq> ''..''"
  shows "evo_inv env (snd (add_evo_candidate now c h s))"
proof -
  have "list_all (lineage_ok env (snd (add_evo_candidate now c h s))) (es_lineage s)"
    using assms(1) lineage_ok_ext evo_ext_add(2) by (fastforce simp: evo_inv_def)
  moreover have "validate_evo_candidate pct pol (c\<lparr>ec_created_at := x\<rparr>) = validate_evo_candidate pct pol c" for pct pol x
    by (simp add: validate_evo_candidate_def evo_candidate_blockers_def)
  ultimately show ?thesis using assms by (auto simp: evo_inv_def add_evo_candidate_def evo_row_ok_def Let_def)
qed

lemma evo_inv_evaluation:
  assumes "evo_inv env s" "ee_passed e \<longleftrightarrow> validate_evaluation (vo_fmt3 env) (vo_policy env) e = []"
  shows "evo_inv env (snd (add_evaluation now e s))"
proof -
  have "list_all (lineage_ok env (snd (add_evaluation now e s))) (es_lineage s)"
    using assms(1) lineage_ok_ext evo_ext_add(3) by (fastforce simp: evo_inv_def)
  moreover have "validate_evaluation fmt pol (e\<lparr>ee_created_at := x\<rparr>) = validate_evaluation fmt pol e" for fmt pol x
    by (simp add: validate_evaluation_def evo_evaluation_blockers_def)
  ultimately show ?thesis using assms by (auto simp: evo_inv_def add_evaluation_def Let_def)
qed

lemma evo_inv_lineage:
  assumes "evo_inv env s" "lineage_ok env s l"
  shows "evo_inv env (snd (add_lineage l s))"
proof -
  have "list_all (lineage_ok env (snd (add_lineage l s))) (l # es_lineage s)"
    using assms lineage_ok_ext [OF _ evo_ext_add(5), of env s "l # es_lineage s" l] by (simp add: evo_inv_def)
  then show ?thesis using assms by (auto simp: evo_inv_def add_lineage_def lineage_ok_def)
qed

lemma evo_inv_rollback:
  assumes "evo_inv env s" "validate_evo_decision (vo_policy env) who reason = []"
  shows "evo_inv env (snd (add_rollback now i who reason s))"
proof -
  have "list_all (lineage_ok env (snd (add_rollback now i who reason s))) (es_lineage s)"
    using assms(1) lineage_ok_ext evo_ext_add(6) by (fastforce simp: evo_inv_def)
  then show ?thesis using assms by (auto simp: evo_inv_def add_rollback_def Let_def)
qed

section \<open>The invariant of all calls\<close>

abbreviation evo_holding :: "evo_env \<Rightarrow> evo_state \<Rightarrow> bool" where
  "evo_holding env st \<equiv> evo_inv env (vs_store st)"

lemma evo_holding_on: "(\<And>s. evo_inv env s \<Longrightarrow> evo_inv env (snd (f s))) \<Longrightarrow> keeps (evo_holding env) (on_evolution f)"
  by (auto simp: keeps_def on_evolution_def case_prod_beta)

lemma evo_holding_adds [keeps_intros]:
  "keeps (evo_holding env) (on_evolution (add_trigger now t))" "keeps (evo_holding env) (on_evolution (add_evo_decision d))"
  "keeps (evo_holding env) (on_evolution (add_evo_learning n))"
  by (rule evo_holding_on, erule evo_inv_neutral)+

lemma evo_holding_learn [keeps_intros]: "keeps (evo_holding env) (evo_learn env' now fp out summary c l md)"
  unfolding evo_learn_def by (intro keeps_intros)

lemma evo_holding_calls:
  "keeps (evo_holding env) (register_trigger env now t)" "keeps (evo_holding env) (evaluate_begin i)"
  "keeps (evo_holding env) (evo_decide_begin env now i approved who channel reason has_promoter)"
  "keeps (evo_holding env) (rollback_begin env i who reason)"
  unfolding register_trigger_def evaluate_begin_def evo_decide_begin_def rollback_begin_def by (intro keeps_intros)+

lemma wp_evolution [wp_simps]:
  "wp (evo_hex env) E Q st = Q (vo_hex env (vs_counter st)) (st\<lparr>vs_counter := Suc (vs_counter st)\<rparr>)"
  "wp (on_evolution f) E Q' st = (case fst (f (vs_store st)) of Inl e \<Rightarrow> E (st\<lparr>vs_store := snd (f (vs_store st))\<rparr>)
     | Inr x \<Rightarrow> Q' x (st\<lparr>vs_store := snd (f (vs_store st))\<rparr>))"
  "wp (read_evolution g) E R st = (case g (vs_store st) of Inl e \<Rightarrow> E st | Inr x \<Rightarrow> R x st)"
  "wp (evo_blocked bs) E S st = (if bs \<noteq> [] then E st else S () st)"
  "wp (evo_emit env now t payload severity) E S st = S () (snd (evo_emit env now t payload severity st))"
  by (simp_all add: wp_def evo_hex_def on_evolution_def read_evolution_def evo_blocked_def comp_simps case_prod_beta evo_emit_def
      bindS_def split: sum.splits)

lemma posix_slashes_idem [simp]: "posix_slashes (posix_slashes s) = posix_slashes s"
  by (simp add: posix_slashes_def)

lemma evo_holding_propose: "keeps (evo_holding env) (propose_candidate env now q)"
  unfolding keeps_def
proof (intro allI impI, rule wpD)
  fix st
  assume "evo_holding env st"
  then show "wp (propose_candidate env now q) (evo_holding env) (\<lambda>_. evo_holding env) st"
    by (auto simp: propose_candidate_def wp_simps Let_def evo_inv_candidate evo_hex_emit_store requested_candidate_def new_id_def split: sum.split)
qed

lemma normalized_evaluation_verdict:
  "ee_passed (normalized_evaluation env now e) \<longleftrightarrow>
    validate_evaluation (vo_fmt3 env) (vo_policy env) (normalized_evaluation env now e) = []"
  by (auto simp: normalized_evaluation_def Let_def validate_evaluation_def evo_evaluation_blockers_def)

lemma evo_holding_evaluate: "keeps (evo_holding env) (evaluate_finish env now c e)"
  unfolding evaluate_finish_def
  by (intro keeps_intros evo_holding_on evo_inv_evaluation) (simp_all add: normalized_evaluation_verdict)

lemma evo_holding_rollback:
  "validate_evo_decision (vo_policy env) who reason = [] \<Longrightarrow> keeps (evo_holding env) (rollback_finish env now i l who channel reason)"
  unfolding rollback_finish_def by (intro keeps_intros evo_holding_on evo_inv_rollback)

lemma evo_holding_record:
  assumes "evo_holding env st" "lineage_ok env (vs_store st) l"
  shows "evo_holding env (snd (record_promotion env now l channel st))"
proof (rule wpD)
  show "wp (record_promotion env now l channel) (evo_holding env) (\<lambda>_. evo_holding env) st"
    using evo_inv_lineage [OF assms] by (simp add: record_promotion_def wp_simps evo_inv_neutral split: sum.split)
qed

lemma evo_holding_promote:
  assumes "evo_holding env st" "evo_vetted env (vs_store st) (ec_candidate_id c) who reason" "evo_path_ok (vo_policy env) (po_target_path receipt)"
  shows "evo_holding env (snd (promote_finish env now c e who channel reason receipt st))"
  unfolding promote_finish_def
proof (rule wpD, unfold wp_bindS wp_evolution, goal_cases)
  case 1
  define l where "l = \<lparr>el_candidate_id = ec_candidate_id c, el_target_path = po_target_path receipt, el_parent_hash = po_parent_hash receipt,
         el_promoted_hash = po_promoted_hash receipt, el_backup_path = po_backup_path receipt, el_principal = who, el_reason = reason,
         el_lineage_id = new_id ''evo-lineage'' (vo_hex env (vs_counter st)), el_promoted_at = now, el_rolled_back_at = None,
         el_rollback_principal = None, el_rollback_reason = None\<rparr>"
  define st1 where "st1 = st\<lparr>vs_counter := Suc (vs_counter st)\<rparr>"
  have held: "evo_holding env (snd (record_promotion env now l channel st1))"
    by (rule evo_holding_record) (use assms in \<open>simp_all add: st1_def l_def lineage_ok_def\<close>)
  show ?case
    unfolding Let_def l_def [symmetric] st1_def [symmetric]
    by (rule wp_caught, rule held) (intro keeps_intros)
qed

section \<open>Files\<close>

definition protected_file :: "evo_policy \<Rightarrow> string list \<Rightarrow> string list \<Rightarrow> bool" where
  "protected_file pol workspace path = ((\<exists>d \<in> set (ep_protected_paths pol). prefix (workspace @ path_parts d) path) \<or>
     (path \<noteq> [] \<and> last path \<in> set (ep_protected_names pol)))"

text \<open>
  No protected path is absolute, and no protected name is that of a hidden file, like the temporary
  files of the promoter.
\<close>

definition plain_policy :: "evo_policy \<Rightarrow> bool" where
  "plain_policy pol = ((\<forall>d \<in> set (ep_protected_paths pol). path_root d = [] \<and> \<not> starts_with ''.'' (path_name d)) \<and>
     (\<forall>n \<in> set (ep_protected_names pol). \<not> starts_with ''.'' n))"

definition backups_apart :: "evo_policy \<Rightarrow> string list \<Rightarrow> string list \<Rightarrow> bool" where
  "backups_apart pol workspace backups = (''..'' \<notin> set workspace \<and> ''..'' \<notin> set backups \<and>
     (\<forall>d \<in> set (ep_protected_paths pol). \<not> prefix (workspace @ path_parts d) backups \<and> \<not> prefix backups (workspace @ path_parts d)))"

lemma resolve_plain: "''..'' \<notin> set parts \<Longrightarrow> resolve base parts = base @ parts"
  by (induction parts arbitrary: base) (auto simp: resolve_def)

lemma safe_target_plain:
  assumes "safe_relative path" "''..'' \<notin> set workspace"
  shows "safe_target workspace path = Inr (workspace @ path_parts path)"
  using assms by (auto simp: safe_relative_def safe_target_def join_path_def resolve_plain)

lemma target_unprotected:
  assumes "evo_path_ok pol path" "plain_policy pol"
  shows "\<not> protected_file pol workspace (workspace @ path_parts path)"
  using assms by (auto simp: evo_path_ok_def protected_file_def plain_policy_def path_within_def safe_relative_def path_name_def)

lemma temporary_unprotected:
  assumes "evo_path_ok pol path" "plain_policy pol"
  shows "\<not> protected_file pol workspace (with_name (workspace @ path_parts path) (''.'' @ s))"
proof
  let ?t = "workspace @ path_parts path"
  assume "protected_file pol workspace (with_name ?t (''.'' @ s))"
  then obtain d where d: "d \<in> set (ep_protected_paths pol)" "prefix (workspace @ path_parts d) (butlast ?t @ [''.'' @ s])"
    using assms(2) by (auto simp: protected_file_def with_name_def plain_policy_def)
  have "\<not> prefix (workspace @ path_parts d) ?t" using target_unprotected [OF assms, of workspace] d(1) by (auto simp: protected_file_def)
  moreover have "prefix (butlast ?t) ?t" by (rule prefix_order.trans [OF _ prefixI [OF append_butlast_last_id [symmetric]]]) (use assms in \<open>auto simp: evo_path_ok_def safe_relative_def\<close>)
  ultimately have eq: "workspace @ path_parts d = butlast ?t @ [''.'' @ s]" using d(2) by (auto simp: prefix_snoc dest: prefix_order.trans)
  then have "path_parts d \<noteq> []" using \<open>\<not> prefix (workspace @ path_parts d) ?t\<close> by auto
  then have "path_name d = ''.'' @ s" using arg_cong [OF eq, of last] by (simp add: path_name_def)
  then show False using assms(2) d(1) by (auto simp: plain_policy_def)
qed

lemma backup_unprotected:
  assumes "evo_path_ok pol path" "plain_policy pol" "backups_apart pol workspace backups"
  shows "\<not> protected_file pol workspace (backups @ i # path_parts path)"
proof
  let ?b = "backups @ i # path_parts path"
  assume "protected_file pol workspace ?b"
  then obtain d where "d \<in> set (ep_protected_paths pol)" "prefix (workspace @ path_parts d) ?b"
    using assms(1) by (auto simp: protected_file_def evo_path_ok_def safe_relative_def path_name_def)
  moreover have "prefix backups ?b" by simp
  ultimately show False using assms(3) prefix_same_cases unfolding backups_apart_def by blast
qed

section \<open>What the promoter writes\<close>

text \<open>The files a promotion or a rollback may change.\<close>

definition replaced :: "string list \<Rightarrow> string \<Rightarrow> string list \<Rightarrow> bool" where
  "replaced workspace path p = (p = workspace @ path_parts path \<or> (\<exists>s. p = with_name (workspace @ path_parts path) (''.'' @ s)))"

lemma promote_frame:
  assumes "safe_relative (ec_target_path c)" "''..'' \<notin> set workspace" "''..'' \<notin> set backups" "ec_candidate_id c \<noteq> ''..''"
    and "\<not> replaced workspace (ec_target_path c) p" "p \<noteq> backups @ ec_candidate_id c # path_parts (ec_target_path c)"
  shows "snd (promote sha workspace backups c fs) p = fs p"
proof -
  have "resolve [] (join_path (backups @ [ec_candidate_id c]) (ec_target_path c)) = backups @ ec_candidate_id c # path_parts (ec_target_path c)"
    using assms(1,3,4) by (simp add: join_path_def safe_relative_def resolve_plain)
  then show ?thesis using assms(5,6)
    by (auto simp: promote_def safe_target_plain [OF assms(1,2)] replaced_def replace_file_def Let_def split: option.split)
qed

lemma restore_frame:
  assumes "safe_relative (el_target_path l)" "''..'' \<notin> set workspace" "\<not> replaced workspace (el_target_path l) p"
  shows "snd (restore sha workspace l fs) p = fs p"
  using assms(3) by (auto simp: restore_def safe_target_plain [OF assms(1,2)] replaced_def replace_file_def Let_def split: option.split)

lemma replaced_unprotected: "evo_path_ok pol path \<Longrightarrow> plain_policy pol \<Longrightarrow> protected_file pol workspace p \<Longrightarrow> \<not> replaced workspace path p"
  using target_unprotected temporary_unprotected by (auto simp: replaced_def)

lemma promote_protected:
  assumes "evo_path_ok pol (ec_target_path c)" "ec_candidate_id c \<noteq> ''..''" "plain_policy pol" "backups_apart pol workspace backups"
    and "protected_file pol workspace p"
  shows "snd (promote sha workspace backups c fs) p = fs p"
proof (rule promote_frame)
  show "p \<noteq> backups @ ec_candidate_id c # path_parts (ec_target_path c)" using assms(5) backup_unprotected [OF assms(1,3,4)] by blast
qed (use assms replaced_unprotected in \<open>auto simp: evo_path_ok_def backups_apart_def\<close>)

lemma restore_protected:
  assumes "evo_path_ok pol (el_target_path l)" "plain_policy pol" "backups_apart pol workspace backups" "protected_file pol workspace p"
  shows "snd (restore sha workspace l fs) p = fs p"
  by (rule restore_frame) (use assms replaced_unprotected in \<open>auto simp: evo_path_ok_def backups_apart_def\<close>)

end
