(* ===== verification/Evolution_Properties.thy ===== *)
theory Evolution_Properties
  imports Evolution_Safety
begin

text \<open>
  The evolution engine with the local promoter as a transition system, and its properties: what is
  promoted was vetted, no protected file changes, a rollback restores what a promotion replaced.
\<close>

section \<open>Calls and awaits\<close>

datatype evo_flight = Flight_Evaluate evo_candidate | Flight_Promote evo_candidate evo_evaluation string string string
  | Flight_Undo evo_lineage | Flight_Restore string evo_lineage string string string

fun evaluate_flights :: "evo_error + evaluate_step \<Rightarrow> evo_flight list" where
  "evaluate_flights (Inr (Await_Evaluation c)) = [Flight_Evaluate c]"
| "evaluate_flights _ = []"

fun evo_decide_flights :: "evo_error + evo_decide_step \<Rightarrow> evo_flight list" where
  "evo_decide_flights (Inr (Await_Promote c e who channel reason)) = [Flight_Promote c e who channel reason]"
| "evo_decide_flights (Inr (Await_Undo l err)) = [Flight_Undo l]"
| "evo_decide_flights _ = []"

fun rollback_flights :: "string \<Rightarrow> string \<Rightarrow> string \<Rightarrow> string \<Rightarrow> evo_error + rollback_step \<Rightarrow> evo_flight list" where
  "rollback_flights i who channel reason (Inr (Await_Restore l)) = [Flight_Restore i l who channel reason]"
| "rollback_flights i who channel reason _ = []"

type_synonym evo_world = "evo_state \<times> files \<times> evo_flight list"

text \<open>
  Any evaluation may come back from a sandbox. An await that ends with an exception of the sandbox, or
  with the exception of the promoter that leaves the files alone, is \<open>given_up\<close>; so is a flight after the
  undone promotion, which raises.
\<close>

inductive evo_step :: "evo_env \<Rightarrow> string list \<Rightarrow> string list \<Rightarrow> evo_world \<Rightarrow> evo_world \<Rightarrow> bool" for env workspace backups where
  trigger: "evo_step env workspace backups (st, fs, ws) (snd (register_trigger env now t st), fs, ws)"
| propose: "evo_step env workspace backups (st, fs, ws) (snd (propose_candidate env now q st), fs, ws)"
| evaluate: "evaluate_begin i st = (r, st') \<Longrightarrow> evo_step env workspace backups (st, fs, ws) (st', fs, evaluate_flights r @ ws)"
| evaluated: "Flight_Evaluate c \<in> set ws \<Longrightarrow>
    evo_step env workspace backups (st, fs, ws) (snd (evaluate_finish env now c e st), fs, remove1 (Flight_Evaluate c) ws)"
| decide: "evo_decide_begin env now i approved who channel reason has_promoter st = (r, st') \<Longrightarrow>
    evo_step env workspace backups (st, fs, ws) (st', fs, evo_decide_flights r @ ws)"
| promoted: "f = Flight_Promote c e who channel reason \<Longrightarrow> f \<in> set ws \<Longrightarrow>
    promote (vo_sha env) workspace backups c fs = (Inr receipt, fs') \<Longrightarrow>
    promote_finish env now c e who channel reason receipt st = (r, st') \<Longrightarrow>
    evo_step env workspace backups (st, fs, ws) (st', fs', evo_decide_flights r @ remove1 f ws)"
| undone: "Flight_Undo l \<in> set ws \<Longrightarrow>
    evo_step env workspace backups (st, fs, ws) (st, snd (restore (vo_sha env) workspace l fs), remove1 (Flight_Undo l) ws)"
| roll_back: "rollback_begin env i who reason st = (r, st') \<Longrightarrow>
    evo_step env workspace backups (st, fs, ws) (st', fs, rollback_flights i who channel reason r @ ws)"
| restored: "f = Flight_Restore i l who channel reason \<Longrightarrow> f \<in> set ws \<Longrightarrow> restore (vo_sha env) workspace l fs = (Inr (), fs') \<Longrightarrow>
    evo_step env workspace backups (st, fs, ws) (snd (rollback_finish env now i l who channel reason st), fs', remove1 f ws)"
| given_up: "f \<in> set ws \<Longrightarrow> evo_step env workspace backups (st, fs, ws) (st, fs, remove1 f ws)"

inductive evo_reach :: "evo_env \<Rightarrow> string list \<Rightarrow> string list \<Rightarrow> files \<Rightarrow> evo_world \<Rightarrow> bool" for env workspace backups files where
  start: "evo_reach env workspace backups files (initial_evolution, files, [])"
| step: "evo_reach env workspace backups files w \<Longrightarrow> evo_step env workspace backups w w' \<Longrightarrow> evo_reach env workspace backups files w'"

section \<open>Flights\<close>

fun evo_flight_ok :: "evo_env \<Rightarrow> evo_store \<Rightarrow> evo_flight \<Rightarrow> bool" where
  "evo_flight_ok env s (Flight_Evaluate c) = True"
| "evo_flight_ok env s (Flight_Promote c e who channel reason) = (evo_vetted env s (ec_candidate_id c) who reason \<and>
     evo_path_ok (vo_policy env) (ec_target_path c) \<and> ec_candidate_id c \<noteq> ''..'')"
| "evo_flight_ok env s (Flight_Undo l) = evo_path_ok (vo_policy env) (el_target_path l)"
| "evo_flight_ok env s (Flight_Restore i l who channel reason) = (evo_path_ok (vo_policy env) (el_target_path l) \<and>
     validate_evo_decision (vo_policy env) who reason = [])"

definition evo_world_ok :: "evo_env \<Rightarrow> evo_world \<Rightarrow> bool" where
  "evo_world_ok env w = (case w of (st, fs, ws) \<Rightarrow> evo_inv env (vs_store st) \<and> list_all (evo_flight_ok env (vs_store st)) ws)"

lemma evo_flight_ok_ext: "evo_flight_ok env s f \<Longrightarrow> evo_ext s s' \<Longrightarrow> evo_flight_ok env s' f"
  by (cases f) (auto intro: evo_vetted_ext)

lemma evo_flights_ext: "list_all (evo_flight_ok env s) ws \<Longrightarrow> evo_ext s s' \<Longrightarrow> list_all (evo_flight_ok env s') (remove1 f ws)"
  using evo_flight_ok_ext by (fastforce simp: list_all_iff dest: notin_set_remove1)

lemma get_evo_candidateD:
  assumes "get_evo_candidate i s = Inr c" "evo_inv env s"
  shows "ec_candidate_id c = i" "evo_path_ok (vo_policy env) (ec_target_path c)" "i \<noteq> ''..''"
    "\<exists>row \<in> set (es_candidates s). ec_candidate_id (ew_candidate row) = i"
proof -
  obtain row where row: "row \<in> set (es_candidates s)" "ec_candidate_id (ew_candidate row) = i" "c = decorate_evo_candidate s (ew_candidate row)"
    using assms(1) by (auto simp: get_evo_candidate_def bindE_def of_option_def dest!: find_SomeD split: option.splits sum.splits)
  then have "evo_row_ok env row" using assms(2) by (auto simp: evo_inv_def list_all_iff)
  then show "ec_candidate_id c = i" "evo_path_ok (vo_policy env) (ec_target_path c)" "i \<noteq> ''..''"
    "\<exists>row \<in> set (es_candidates s). ec_candidate_id (ew_candidate row) = i"
    using row valid_path by (auto simp: evo_row_ok_def decorate_evo_candidate_def Let_def)
qed

lemma decide_flight_ok:
  assumes "evo_holding env st" "evo_decide_begin env now i approved who channel reason has_promoter st = (r, st')"
  shows "list_all (evo_flight_ok env (vs_store st')) (evo_decide_flights r)"
proof -
  have "wp (evo_decide_begin env now i approved who channel reason has_promoter) (\<lambda>_. True)
      (\<lambda>x st'. list_all (evo_flight_ok env (vs_store st')) (evo_decide_flights (Inr x))) st"
    using get_evo_candidateD [OF _ assms(1)]
    by (auto simp: evo_decide_begin_def evo_learn_def wp_simps evo_vetted_def split: sum.split option.split)
  then show ?thesis using assms(2) by (cases r) (auto simp: wp_def)
qed

lemma promote_receipt: "promote sha workspace backups c fs = (Inr receipt, fs') \<Longrightarrow> po_target_path receipt = ec_target_path c"
  by (auto simp: promote_def Let_def split: sum.splits option.splits if_splits)

lemma wp_caught_post:
  assumes "\<And>err st'. Q (h err) st'" "\<And>x st'. wp (k x) E Q st'"
  shows "wp (\<lambda>st. case m st of (Inl e, st') \<Rightarrow> (Inr (h e), st') | (Inr x, st') \<Rightarrow> k x st') E Q st"
proof (cases "m st")
  case (Pair r st')
  show ?thesis
  proof (cases r)
    case (Inl err)
    then show ?thesis using assms(1) Pair by (simp add: wp_def)
  next
    case (Inr x)
    then show ?thesis using assms(2) [of x st'] Pair by (simp add: wp_def)
  qed
qed

lemma undo_flight_ok:
  assumes "evo_path_ok (vo_policy env) (po_target_path receipt)" "promote_finish env now c e who channel reason receipt st = (r, st')"
  shows "list_all (evo_flight_ok env s) (evo_decide_flights r)"
proof -
  have "wp (promote_finish env now c e who channel reason receipt) (\<lambda>_. True) (\<lambda>x _. list_all (evo_flight_ok env s) (evo_decide_flights (Inr x))) st"
    unfolding promote_finish_def wp_bindS wp_evolution Let_def
    by (rule wp_caught_post) (use assms(1) in \<open>auto simp: wp_simps evo_learn_def split: sum.split\<close>)
  then show ?thesis using assms(2) by (cases r) (auto simp: wp_def)
qed

lemma rollback_flight_ok:
  assumes "evo_holding env st" "rollback_begin env i who reason st = (r, st')"
  shows "list_all (evo_flight_ok env s) (rollback_flights i who channel reason r)"
proof -
  have "evo_path_ok (vo_policy env) (el_target_path l)" if "get_lineage i (vs_store st) = Inr l" for l
    using that assms(1) by (auto simp: get_lineage_def bindE_def of_option_def row_lineage_def evo_inv_def list_all_iff lineage_ok_def
        dest!: find_SomeD split: option.splits sum.splits)
  then have "wp (rollback_begin env i who reason) (\<lambda>_. True) (\<lambda>x _. list_all (evo_flight_ok env s) (rollback_flights i who channel reason (Inr x))) st"
    by (auto simp: rollback_begin_def wp_simps split: sum.split)
  then show ?thesis using assms(2) by (cases r) (auto simp: wp_def)
qed

section \<open>The invariant of the system\<close>

lemma evo_world_calls:
  assumes "evo_world_ok env (st, fs, ws)" "\<And>s. keeps (evo_since s) m" "keeps (evo_holding env) m" "m st = (r, st')"
    and "list_all (evo_flight_ok env (vs_store st')) new"
  shows "evo_world_ok env (st', fs', new @ remove1 f ws)" "evo_world_ok env (st', fs', new @ ws)"
proof -
  have since: "evo_since (vs_store st) st'" using keepsD [OF assms(2) _ assms(4)] by simp
  have old: "evo_holding env st" "list_all (evo_flight_ok env (vs_store st)) ws" using assms(1) by (simp_all add: evo_world_ok_def)
  have held: "evo_holding env st'" by (rule keepsD [OF assms(3) old(1) assms(4)])
  have "list_all (evo_flight_ok env (vs_store st')) ws" using old(2) evo_flight_ok_ext [OF _ since] by (auto simp: list_all_iff)
  with held assms(5) evo_flights_ext [OF old(2) since, of f]
  show "evo_world_ok env (st', fs', new @ remove1 f ws)" "evo_world_ok env (st', fs', new @ ws)" by (simp_all add: evo_world_ok_def)
qed

lemma evo_step_ok: "evo_step env workspace backups w w' \<Longrightarrow> evo_world_ok env w \<Longrightarrow> evo_world_ok env w'"
proof (induction rule: evo_step.induct)
  case (trigger st fs ws now t)
  then show ?case using evo_world_calls(2) [OF _ evo_since_calls(1) evo_holding_calls(1) prod.collapse [symmetric], where new = "[]"] by simp
next
  case (propose st fs ws now q)
  then show ?case using evo_world_calls(2) [OF _ evo_since_calls(2) evo_holding_propose prod.collapse [symmetric], where new = "[]"] by simp
next
  case (evaluate i st r st' fs ws)
  have "list_all (evo_flight_ok env s) (evaluate_flights r)" for s by (induction r rule: evaluate_flights.induct) simp_all
  then show ?case using evo_world_calls(2) [OF evaluate(2) evo_since_calls(3) evo_holding_calls(2) evaluate(1)] by blast
next
  case (evaluated c ws st fs now e)
  then show ?case using evo_world_calls(1) [OF _ evo_since_calls(4) evo_holding_evaluate prod.collapse [symmetric], where new = "[]"] by simp
next
  case (decide now i approved who channel reason has_promoter st r st' fs ws)
  then have "evo_holding env st" by (simp add: evo_world_ok_def)
  then show ?case using evo_world_calls(2) [OF decide(2) evo_since_calls(5) evo_holding_calls(3) decide(1)] decide_flight_ok decide(1) by blast
next
  case (promoted f c e who channel reason ws fs receipt fs' now st r st')
  then have ok: "evo_holding env st" "evo_flight_ok env (vs_store st) (Flight_Promote c e who channel reason)"
    by (auto simp: evo_world_ok_def list_all_iff)
  then have "evo_holding env st'" using evo_holding_promote [of env st c who reason receipt now e channel] promoted(4) promote_receipt [OF promoted(3)] by simp
  moreover have "evo_since (vs_store st) st'" using keepsD [OF evo_since_promote _ promoted(4)] by simp
  ultimately show ?case using promoted(5) evo_flights_ext undo_flight_ok [OF _ promoted(4)] ok(2) promote_receipt [OF promoted(3)]
    by (auto simp: evo_world_ok_def)
next
  case (undone l ws st fs)
  then show ?case by (auto simp: evo_world_ok_def list_all_iff dest: notin_set_remove1)
next
  case (roll_back i who reason st r st' fs ws channel)
  then have "evo_holding env st" by (simp add: evo_world_ok_def)
  then show ?case using evo_world_calls(2) [OF roll_back(2) evo_since_calls(7) evo_holding_calls(4) roll_back(1)] rollback_flight_ok roll_back(1) by blast
next
  case (restored f i l who channel reason ws fs fs' st now)
  then have "validate_evo_decision (vo_policy env) who reason = []" by (auto simp: evo_world_ok_def list_all_iff)
  then show ?case using evo_world_calls(1) [OF restored(4) evo_since_calls(8) evo_holding_rollback prod.collapse [symmetric], where new = "[]"] by simp
next
  case (given_up f ws st fs)
  then show ?case by (auto simp: evo_world_ok_def list_all_iff dest: notin_set_remove1)
qed

lemma evo_step_ext: "evo_step env workspace backups w w' \<Longrightarrow> evo_ext (vs_store (fst w)) (vs_store (fst w'))"
proof (induction rule: evo_step.induct)
  case (trigger st fs ws now t)
  show ?case using keepsD [OF evo_since_calls(1) evo_ext_refl prod.collapse [symmetric]] by simp
next
  case (propose st fs ws now q)
  show ?case using keepsD [OF evo_since_calls(2) evo_ext_refl prod.collapse [symmetric]] by simp
next
  case (evaluate i st r st' fs ws)
  then show ?case using keepsD [OF evo_since_calls(3) evo_ext_refl] by fastforce
next
  case (evaluated c ws st fs now e)
  show ?case using keepsD [OF evo_since_calls(4) evo_ext_refl prod.collapse [symmetric]] by simp
next
  case (decide now i approved who channel reason has_promoter st r st' fs ws)
  then show ?case using keepsD [OF evo_since_calls(5) evo_ext_refl] by fastforce
next
  case (promoted f c e who channel reason ws fs receipt fs' now st r st')
  then show ?case using keepsD [OF evo_since_promote evo_ext_refl] by fastforce
next
  case (roll_back i who reason st r st' fs ws channel)
  then show ?case using keepsD [OF evo_since_calls(7) evo_ext_refl] by fastforce
next
  case (restored f i l who channel reason ws fs fs' st now)
  show ?case using keepsD [OF evo_since_calls(8) evo_ext_refl prod.collapse [symmetric]] by simp
qed simp_all

lemma evo_reach_ok: "evo_reach env workspace backups files w \<Longrightarrow> evo_world_ok env w"
proof (induction rule: evo_reach.induct)
  case start
  show ?case by (simp add: evo_world_ok_def initial_evolution_def evo_inv_empty)
next
  case (step w w')
  then show ?case using evo_step_ok by blast
qed

lemma evo_step_protected:
  assumes "evo_step env workspace backups w w'" "evo_world_ok env w" "plain_policy (vo_policy env)"
    and "backups_apart (vo_policy env) workspace backups" "protected_file (vo_policy env) workspace p"
  shows "fst (snd w') p = fst (snd w) p"
  using assms
proof (induction rule: evo_step.induct)
  case (promoted f c e who channel reason ws fs receipt fs' now st r st')
  then have "evo_flight_ok env (vs_store st) (Flight_Promote c e who channel reason)" by (auto simp: evo_world_ok_def list_all_iff)
  then show ?case using promote_protected [OF _ _ promoted(6-8), of c "vo_sha env" fs] promoted(3) by simp
next
  case (undone l ws st fs)
  then have "evo_flight_ok env (vs_store st) (Flight_Undo l)" by (auto simp: evo_world_ok_def list_all_iff)
  then show ?case using restore_protected [OF _ undone(3-5), of l "vo_sha env" fs] by simp
next
  case (restored f i l who channel reason ws fs fs' st now)
  then have "evo_flight_ok env (vs_store st) (Flight_Restore i l who channel reason)" by (auto simp: evo_world_ok_def list_all_iff)
  then show ?case using restore_protected [OF _ restored(5-7), of l "vo_sha env" fs] restored(3) by simp
qed simp_all

section \<open>The text of a path\<close>

definition plain_part :: "string \<Rightarrow> bool" where
  "plain_part s = (CHR ''/'' \<notin> set s \<and> s \<notin> {[], ''.'', ''..''})"

lemma plain_parts_dots: "list_all plain_part parts \<Longrightarrow> ''..'' \<notin> set parts"
  by (induction parts) (auto simp: plain_part_def)

lemma path_split_part: "CHR ''/'' \<notin> set s \<Longrightarrow> path_split acc s = [rev acc @ s]"
  by (induction s arbitrary: acc) auto

lemma path_split_append: "CHR ''/'' \<notin> set s \<Longrightarrow> path_split acc (s @ CHR ''/'' # t) = (rev acc @ s) # path_split [] t"
  by (induction s arbitrary: acc) auto

lemma path_split_join: "list_all plain_part parts \<Longrightarrow> parts \<noteq> [] \<Longrightarrow> path_split [] (join ''/'' parts) = parts"
proof (induction parts rule: induct_list012)
  case (3 x y zs)
  then show ?case using path_split_append [of x "[]" "join ''/'' (y # zs)"] by (simp add: plain_part_def)
qed (simp_all add: plain_part_def path_split_part)

lemma path_parts_text: "list_all plain_part parts \<Longrightarrow> path_parts (path_text parts) = parts"
proof (cases parts)
  case (Cons x xs)
  assume plain: "list_all plain_part parts"
  then have "filter (\<lambda>p. p \<notin> {[], ''.''}) parts = parts" by (auto simp: plain_part_def list_all_iff intro!: filter_True)
  then show ?thesis using path_split_join [OF plain] Cons by (simp add: path_parts_def path_text_def)
qed (simp add: path_parts_def path_text_def)

lemma path_parts_plain: "''..'' \<notin> set (path_parts s) \<Longrightarrow> list_all plain_part (path_parts s)"
proof -
  have "CHR ''/'' \<notin> set acc \<Longrightarrow> p \<in> set (path_split acc s) \<Longrightarrow> CHR ''/'' \<notin> set p" for p acc s
    by (induction acc s rule: path_split.induct) (auto split: if_splits)
  from this [of "[]"] show "''..'' \<notin> set (path_parts s) \<Longrightarrow> list_all plain_part (path_parts s)"
    by (auto simp: path_parts_def plain_part_def list_all_iff)
qed

section \<open>Promotion and rollback\<close>

lemma universal_newlines_plain: "CHR 0x0D \<notin> set s \<Longrightarrow> universal_newlines s = s"
  by (induction s rule: universal_newlines.induct) auto

lemma target_not_temporary: "parts \<noteq> [] \<Longrightarrow> with_name (ws @ parts) (''.'' @ file_name (ws @ parts) @ s) \<noteq> ws @ parts"
proof
  assume "parts \<noteq> []" "with_name (ws @ parts) (''.'' @ file_name (ws @ parts) @ s) = ws @ parts"
  from arg_cong [OF this(2), of last] \<open>parts \<noteq> []\<close> have "''.'' @ last parts @ s = last parts" by (simp add: with_name_def file_name_def)
  from arg_cong [OF this, of length] show False by simp
qed

lemma promoteD:
  assumes "promote sha workspace backups c fs = (Inr receipt, fs')" "safe_relative (ec_target_path c)"
    and "list_all plain_part workspace" "list_all plain_part (backups @ [ec_candidate_id c])"
  defines "target \<equiv> workspace @ path_parts (ec_target_path c)"
    and "backup \<equiv> backups @ ec_candidate_id c # path_parts (ec_target_path c)"
  obtains old where "fs target = Some old" "sha (universal_newlines old) = ec_baseline_hash c"
    "sha (ec_candidate_content c) = ec_candidate_hash c"
    "receipt = \<lparr>po_target_path = ec_target_path c, po_parent_hash = ec_baseline_hash c, po_promoted_hash = ec_candidate_hash c,
       po_backup_path = path_text backup\<rparr>"
    "fs' = replace_file (with_name target (''.'' @ file_name target @ ''.'' @ ec_candidate_id c @ ''.tmp'')) target (ec_candidate_content c)
       (fs(backup \<mapsto> universal_newlines old))"
proof -
  have dots: "''..'' \<notin> set workspace" "''..'' \<notin> set (backups @ [ec_candidate_id c])"
    using plain_parts_dots [OF assms(3)] plain_parts_dots [OF assms(4)] by blast+
  have paths: "join_path (backups @ [ec_candidate_id c]) (ec_target_path c) = backup" "resolve [] backup = backup"
    using assms(2) dots by (simp_all add: backup_def join_path_def safe_relative_def resolve_plain)
  note run = assms(1) [unfolded promote_def safe_target_plain [OF assms(2) dots(1)] target_def [symmetric] sum.case Let_def paths content_hash_def]
  then obtain old where old: "fs target = Some old" by (cases "fs target") simp_all
  note rest = run [unfolded old option.case]
  have hashes: "sha (universal_newlines old) = ec_baseline_hash c" "sha (ec_candidate_content c) = ec_candidate_hash c"
    using rest by (simp_all split: if_splits)
  show thesis using rest unfolding hashes by (intro that [OF old hashes]) simp_all
qed

definition lineage_of :: "promotion_receipt \<Rightarrow> evo_lineage \<Rightarrow> bool" where
  "lineage_of receipt l = (el_target_path l = po_target_path receipt \<and> el_parent_hash l = po_parent_hash receipt \<and>
     el_promoted_hash l = po_promoted_hash receipt \<and> el_backup_path l = po_backup_path receipt)"

text \<open>The backups stand neither in the workspace nor around it.\<close>

abbreviation roots_apart :: "string list \<Rightarrow> string list \<Rightarrow> bool" where
  "roots_apart workspace backups \<equiv> parallel workspace backups \<and> list_all plain_part workspace \<and> list_all plain_part backups"

lemma apart_paths: "parallel workspace backups \<Longrightarrow> backups @ ys \<noteq> workspace @ xs"
  by (metis parallelE prefixI prefix_same_cases)

lemma with_name_append: "parts \<noteq> [] \<Longrightarrow> with_name (ws @ parts) s = ws @ with_name parts s"
  by (simp add: with_name_def butlast_append)

lemma promoted_files:
  assumes "promote sha workspace backups c fs = (Inr receipt, fs')" "safe_relative (ec_target_path c)"
    and "roots_apart workspace backups" "plain_part (ec_candidate_id c)"
  defines "target \<equiv> workspace @ path_parts (ec_target_path c)"
    and "backup \<equiv> backups @ ec_candidate_id c # path_parts (ec_target_path c)"
  obtains old where "fs target = Some old" "sha (universal_newlines old) = ec_baseline_hash c"
    "sha (ec_candidate_content c) = ec_candidate_hash c" "fs' target = Some (ec_candidate_content c)"
    "fs' backup = Some (universal_newlines old)" "po_target_path receipt = ec_target_path c" "po_parent_hash receipt = ec_baseline_hash c"
    "po_promoted_hash receipt = ec_candidate_hash c" "po_backup_path receipt = path_text backup"
proof -
  have nonempty: "path_parts (ec_target_path c) \<noteq> []" using assms(2) by (simp add: safe_relative_def)
  have plain: "list_all plain_part workspace" "list_all plain_part (backups @ [ec_candidate_id c])" using assms(3,4) by simp_all
  have ne: "backup \<noteq> target" "backup \<noteq> with_name target s" for s
    unfolding backup_def target_def with_name_append [OF nonempty] by (rule apart_paths [OF conjunct1 [OF assms(3)]])+
  from promoteD [OF assms(1,2) plain, folded target_def backup_def] obtain old where
    old: "fs target = Some old" "sha (universal_newlines old) = ec_baseline_hash c" "sha (ec_candidate_content c) = ec_candidate_hash c"
      "receipt = \<lparr>po_target_path = ec_target_path c, po_parent_hash = ec_baseline_hash c, po_promoted_hash = ec_candidate_hash c,
         po_backup_path = path_text backup\<rparr>"
      "fs' = replace_file (with_name target (''.'' @ file_name target @ ''.'' @ ec_candidate_id c @ ''.tmp'')) target (ec_candidate_content c)
         (fs(backup \<mapsto> universal_newlines old))"
    by blast
  show thesis by (rule that [OF old(1-3)]) (use ne in \<open>simp_all add: old(4,5) replace_file_def\<close>)
qed

lemma restore_eq:
  assumes "safe_relative (el_target_path l)" "''..'' \<notin> set workspace" "fs (workspace @ path_parts (el_target_path l)) = Some current"
  shows "sha (universal_newlines current) \<noteq> el_promoted_hash l \<Longrightarrow>
      restore sha workspace l fs = (Inl ''current artifact diverged after promotion; automatic rollback is blocked'', fs)"
    and "sha (universal_newlines current) = el_promoted_hash l \<Longrightarrow> fs (resolve [] (path_parts (el_backup_path l))) = Some saved \<Longrightarrow>
      sha (universal_newlines saved) = el_parent_hash l \<Longrightarrow> fst (restore sha workspace l fs) = Inr () \<and>
      snd (restore sha workspace l fs) (workspace @ path_parts (el_target_path l)) = Some (universal_newlines saved)"
  by (simp_all add: restore_def safe_target_plain [OF assms(1,2)] assms(3) content_hash_def replace_file_def)

section \<open>The verdict of the sandbox\<close>

definition check_passes :: "string \<Rightarrow> runner \<Rightarrow> string \<Rightarrow> check_command \<Rightarrow> bool" where
  "check_passes executable run phase k =
     (case validated_argv executable (ck_argv k) of
        Inl e \<Rightarrow> False
      | Inr argv \<Rightarrow> (case run phase argv k of Exited code out err t \<Rightarrow> code = 0 | Timed_Out t \<Rightarrow> False))"

lemma run_command_result:
  "run_command executable n run phase k = Inr x \<Longrightarrow>
    cx_passed x = check_passes executable run phase k \<and> cx_phase x = phase \<and> cx_kind x = ck_kind k"
  by (auto simp: run_command_def bindE_def check_outcome_def check_passes_def split: sum.splits run_outcome.splits)

lemma run_phase_results:
  "run_phase executable n run phase ks = Inr xs \<Longrightarrow> map cx_passed xs = map (check_passes executable run phase) ks \<and>
    map cx_kind xs = map ck_kind ks \<and> list_all (\<lambda>x. cx_phase x = phase) xs"
proof (induction ks arbitrary: xs)
  case (Cons k ks)
  then obtain y ys where "run_command executable n run phase k = Inr y" "run_phase executable n run phase ks = Inr ys" "xs = y # ys"
    by (auto simp: bindE_def split: sum.splits)
  then show ?case using Cons.IH [of ys] run_command_result by fastforce
qed simp

lemma list_all_map_eq: "map f xs = map g ys \<Longrightarrow> list_all f xs = list_all g ys"
  by (induction ys arbitrary: xs) auto

lemma list_ex_map_eq: "map f xs = map g ys \<Longrightarrow> list_ex (\<lambda>x. P (f x)) xs = list_ex (\<lambda>y. P (g y)) ys"
  by (induction ys arbitrary: xs) auto

lemma score_one: "xs \<noteq> [] \<Longrightarrow> list_all cx_passed xs \<Longrightarrow> score xs = 1"
  by (simp add: score_def list_all_iff max_def Suc_le_eq)

lemma score_gap:
  assumes "xs \<noteq> []" "length xs \<le> 16"
  shows "1 / 100 \<le> 1 - score xs \<longleftrightarrow> \<not> list_all cx_passed xs"
proof (cases "list_all cx_passed xs")
  case False
  then have less: "length (filter cx_passed xs) < length xs" using length_filter_less by (auto simp: list_all_iff)
  have "(of_nat (length (filter cx_passed xs)) :: rat) + 1 \<le> of_nat (length xs)" using less by (metis Suc_leI of_nat_Suc of_nat_le_iff add.commute)
  moreover have "(of_nat (length xs) :: rat) \<le> 16" "(1 :: rat) \<le> of_nat (length xs)" using assms by (simp_all add: Suc_le_eq flip: of_nat_Suc)
  ultimately have "1 / 100 \<le> 1 - score xs" using assms(1) by (simp add: score_def max_def Suc_le_eq field_simps)
  then show ?thesis using False by simp
next
  case True
  then show ?thesis using score_one [OF assms(1)] by simp
qed

lemma no_regressions: "list_all cx_passed after \<Longrightarrow> regressions before after = 0"
  by (auto simp: regressions_def list_all_iff filter_empty_conv dest!: set_zip_rightD)

lemma sandbox_evaluation_verdict:
  assumes "xs \<noteq> []" "length xs \<le> 16" "length ys = length xs"
    and "list_all (\<lambda>x. cx_phase x = ''baseline'') xs" "list_all (\<lambda>x. cx_phase x = ''candidate'') ys"
  shows "validate_evaluation fmt3 shipped_evo_policy (sandbox_evaluation root_dir c sid hex (xs @ ys)) = [] \<longleftrightarrow>
    list_all cx_passed ys \<and> \<not> list_all cx_passed xs \<and> list_ex (\<lambda>y. cx_kind y = HELDOUT) ys"
proof -
  have split: "filter (\<lambda>x. cx_phase x = ''baseline'') (xs @ ys) = xs" "filter (\<lambda>x. cx_phase x = ''candidate'') (xs @ ys) = ys"
    using assms(4,5) by (auto simp: list_all_iff filter_empty_conv intro!: filter_True)
  have held: "list_ex (\<lambda>x. cx_kind x = HELDOUT \<and> cx_phase x = ''candidate'') (xs @ ys) \<longleftrightarrow> list_ex (\<lambda>y. cx_kind y = HELDOUT) ys"
    using assms(4,5) by (auto simp: list_ex_iff list_all_iff)
  have ys: "ys \<noteq> []" using assms(1,3) by auto
  define e where "e = sandbox_evaluation root_dir c sid hex (xs @ ys)"
  have fields: "ee_passed e = (ee_blockers e = [])" "ee_improvement e = score ys - score xs" "ee_regression_count e = int (regressions xs ys)"
    "ee_checks e = xs @ ys" "ee_blockers e = [] \<longleftrightarrow> list_all cx_passed ys \<and> regressions xs ys = 0"
    unfolding e_def sandbox_evaluation_def split Let_def by simp_all
  have "validate_evaluation fmt3 shipped_evo_policy e = [] \<longleftrightarrow> ee_blockers e = [] \<and> 1 / 100 \<le> score ys - score xs \<and>
      regressions xs ys = 0 \<and> list_ex (\<lambda>y. cx_kind y = HELDOUT) ys"
    unfolding validate_evaluation_def evo_evaluation_blockers_def held [symmetric] fields(1-4) by (auto simp: shipped_evo_policy_def)
  also have "\<dots> \<longleftrightarrow> list_all cx_passed ys \<and> \<not> list_all cx_passed xs \<and> list_ex (\<lambda>y. cx_kind y = HELDOUT) ys"
    unfolding fields(5) using score_gap [OF assms(1,2)] score_one [OF ys] no_regressions [of ys xs] by auto
  finally show ?thesis unfolding e_def .
qed

section \<open>A run of the engine\<close>

definition sample_evo_env :: evo_env where
  "sample_evo_env = \<lparr>vo_sha = filter (\<lambda>c. c \<in> set ''0123456789''), vo_diff = (\<lambda>_ _ _. ''d''), vo_pct = (\<lambda>_. ''0''), vo_fmt3 = (\<lambda>_. ''0''),
     vo_float = (\<lambda>_. ''0''), vo_hex = nat_str, vo_policy = shipped_evo_policy, vo_has_bus = False\<rparr>"

definition sample_evo_check :: "check_kind \<Rightarrow> check_command" where
  "sample_evo_check k = \<lparr>ck_argv = [''python'', ''-m'', ''pytest''], ck_kind = k, ck_name = ''t'', ck_timeout_seconds = 60\<rparr>"

definition sample_evo_trigger :: evo_trigger where
  "sample_evo_trigger = \<lparr>et_trigger_type = EVO_FAILURE, et_fingerprint = ''f'', et_summary = ''s'', et_evidence_ids = [''e''],
     et_prior_learning_ids = [], et_metadata = [], et_trigger_id = ''t'', et_created_at = Some 10\<rparr>"

definition sample_evo_request :: "string \<Rightarrow> evo_request" where
  "sample_evo_request content = \<lparr>eq_trigger_id = ''t'', eq_target_type = EVO_CODE, eq_target_path = ''m.py'', eq_baseline_content = ''1'',
     eq_candidate_content = content, eq_rationale = ''r'', eq_generator_id = ''g'', eq_deterministic_checks = [sample_evo_check DETERMINISTIC],
     eq_heldout_checks = [sample_evo_check HELDOUT], eq_retry_reason = None, eq_metadata = []\<rparr>"

definition sample_evo_candidate :: evo_candidate where
  "sample_evo_candidate = (requested_candidate sample_evo_env (sample_evo_request ''2'') sample_evo_trigger ''0'')\<lparr>ec_created_at := Some 20\<rparr>"

definition sample_evo_evaluation :: evo_evaluation where
  "sample_evo_evaluation = \<lparr>ee_candidate_id = ''evo-candidate.0'', ee_sandbox_id = ''box'', ee_baseline_score = 0, ee_candidate_score = 1,
     ee_improvement = 1, ee_regression_count = 0, ee_checks = [\<lparr>cx_name = ''t'', cx_kind = HELDOUT, cx_phase = ''candidate'', cx_passed = True,
       cx_exit_code = 0, cx_duration_seconds = 0, cx_stdout = [], cx_stderr = []\<rparr>], ee_passed = True, ee_blockers = [], ee_metadata = [],
     ee_evaluation_id = ''e'', ee_created_at = Some 30\<rparr>"

definition sample_evolved :: "evo_candidate_row list \<Rightarrow> evo_evaluation list \<Rightarrow> evo_decision list \<Rightarrow> evo_lineage list \<Rightarrow> evo_learning list \<Rightarrow> nat \<Rightarrow> evo_state" where
  "sample_evolved cs es ds ls ns n = \<lparr>vs_store = \<lparr>es_triggers = [sample_evo_trigger], es_candidates = cs, es_evaluations = es, es_decisions = ds,
     es_lineage = ls, es_rollbacks = [], es_learnings = ns\<rparr>, vs_journal = [], vs_counter = n\<rparr>"

definition sample_evo_rows :: "evo_candidate_row list" where
  "sample_evo_rows = [\<lparr>ew_candidate = sample_evo_candidate, ew_semantic_hash = ''12''\<rparr>]"

lemma sample_evo_1: "snd (register_trigger sample_evo_env 10 sample_evo_trigger initial_evolution) = sample_evolved [] [] [] [] [] 0"
  by code_simp

lemma sample_evo_2: "snd (propose_candidate sample_evo_env 20 (sample_evo_request ''2'') (sample_evolved [] [] [] [] [] 0)) = sample_evolved sample_evo_rows [] [] [] [] 1"
  by code_simp

lemma sample_evo_3: "snd (evaluate_finish sample_evo_env 30 sample_evo_candidate sample_evo_evaluation (sample_evolved sample_evo_rows [] [] [] [] 1)) = sample_evolved sample_evo_rows [sample_evo_evaluation] [] [] [] 1"
  by code_simp

definition sample_evo_files :: files where
  "sample_evo_files p = (if p = [''w'', ''m.py''] then Some ''1'' else if p = [''w'', ''north_star.yaml''] then Some ''n'' else None)"

definition sample_evo_verified :: evo_candidate where
  "sample_evo_verified = sample_evo_candidate\<lparr>ec_status := EVO_VERIFIED, ec_evaluation_id := Some ''e''\<rparr>"

definition sample_evo_receipt :: promotion_receipt where
  "sample_evo_receipt = \<lparr>po_target_path = ''m.py'', po_parent_hash = ''1'', po_promoted_hash = ''2'', po_backup_path = ''/b/evo-candidate.0/m.py''\<rparr>"

definition sample_evo_lineage :: evo_lineage where
  "sample_evo_lineage = \<lparr>el_candidate_id = ''evo-candidate.0'', el_target_path = ''m.py'', el_parent_hash = ''1'', el_promoted_hash = ''2'',
     el_backup_path = ''/b/evo-candidate.0/m.py'', el_principal = ''founder'', el_reason = ''reviewed and safe'', el_lineage_id = ''evo-lineage.1'',
     el_promoted_at = 50, el_rolled_back_at = None, el_rollback_principal = None, el_rollback_reason = None\<rparr>"

abbreviation sample_evo_checked :: evo_state where
  "sample_evo_checked \<equiv> sample_evolved sample_evo_rows [sample_evo_evaluation] [] [] [] 1"

abbreviation sample_evo_promoted :: "(evo_error + evo_decide_step) \<times> evo_state" where
  "sample_evo_promoted \<equiv> promote_finish sample_evo_env 50 sample_evo_verified sample_evo_evaluation ''founder'' ''cli'' ''reviewed and safe''
     sample_evo_receipt sample_evo_checked"

abbreviation sample_evo_fs :: "(string + promotion_receipt) \<times> files" where
  "sample_evo_fs \<equiv> promote (vo_sha sample_evo_env) [''w''] [''b''] sample_evo_verified sample_evo_files"

lemma sample_evo_evaluate:
  "evaluate_begin ''evo-candidate.0'' (sample_evolved sample_evo_rows [] [] [] [] 1) = (Inr (Await_Evaluation sample_evo_candidate), sample_evolved sample_evo_rows [] [] [] [] 1)"
  by code_simp

lemma sample_evo_decide:
  "evo_decide_begin sample_evo_env 40 ''evo-candidate.0'' True ''founder'' ''cli'' ''reviewed and safe'' True sample_evo_checked =
    (Inr (Await_Promote sample_evo_verified sample_evo_evaluation ''founder'' ''cli'' ''reviewed and safe''), sample_evo_checked)"
  by code_simp

lemma sample_evo_promote: "fst sample_evo_fs = Inr sample_evo_receipt"
  by code_simp

lemma sample_evo_replaced: "snd sample_evo_fs [''w'', ''m.py''] = Some ''2''"
  by code_simp

lemma sample_evo_finished: "evo_decide_flights (fst sample_evo_promoted) = []" "es_lineage (vs_store (snd sample_evo_promoted)) = [sample_evo_lineage]"
  by code_simp+

lemma sample_evo_reach: "evo_reach sample_evo_env [''w''] [''b''] sample_evo_files (snd sample_evo_promoted, snd sample_evo_fs, [])"
proof -
  let ?R = "evo_reach sample_evo_env [''w''] [''b''] sample_evo_files"
  have "?R (sample_evolved [] [] [] [] [] 0, sample_evo_files, [])"
    using evo_reach.step [OF evo_reach.start evo_step.trigger] sample_evo_1 by metis
  then have "?R (sample_evolved sample_evo_rows [] [] [] [] 1, sample_evo_files, [])"
    using evo_reach.step [OF _ evo_step.propose] sample_evo_2 by metis
  from evo_reach.step [OF this evo_step.evaluate [OF sample_evo_evaluate]]
  have "?R (sample_evolved sample_evo_rows [] [] [] [] 1, sample_evo_files, [Flight_Evaluate sample_evo_candidate])" by simp
  from evo_reach.step [OF this evo_step.evaluated, of sample_evo_candidate 30 sample_evo_evaluation, unfolded sample_evo_3]
  have "?R (sample_evo_checked, sample_evo_files, [])" by simp
  from evo_reach.step [OF this evo_step.decide [OF sample_evo_decide]]
  have flight: "?R (sample_evo_checked, sample_evo_files,
      [Flight_Promote sample_evo_verified sample_evo_evaluation ''founder'' ''cli'' ''reviewed and safe''])" by simp
  have "sample_evo_fs = (Inr sample_evo_receipt, snd sample_evo_fs)" using sample_evo_promote by (metis prod.collapse)
  then have "evo_step sample_evo_env [''w''] [''b''] (sample_evo_checked, sample_evo_files,
      [Flight_Promote sample_evo_verified sample_evo_evaluation ''founder'' ''cli'' ''reviewed and safe''])
      (snd sample_evo_promoted, snd sample_evo_fs, evo_decide_flights (fst sample_evo_promoted) @
        remove1 (Flight_Promote sample_evo_verified sample_evo_evaluation ''founder'' ''cli'' ''reviewed and safe'')
          [Flight_Promote sample_evo_verified sample_evo_evaluation ''founder'' ''cli'' ''reviewed and safe''])"
    by (intro evo_step.promoted [OF refl _ _ prod.collapse [symmetric]]) simp_all
  from evo_reach.step [OF flight this, unfolded sample_evo_finished(1)] show ?thesis by simp
qed

lemma shipped_plain: "plain_policy shipped_evo_policy"
  by code_simp

lemma sample_backups_apart: "backups_apart shipped_evo_policy [''w''] [''b'']"
  by code_simp

lemma sample_evo_roots: "roots_apart [''w''] [''b'']" "safe_relative ''m.py''" "plain_part ''evo-candidate.0''"
  by (simp_all add: parallel_def plain_part_def safe_relative_def path_root_def path_parts_def)

definition sample_cr_candidate :: evo_candidate where
  "sample_cr_candidate = sample_evo_candidate\<lparr>ec_candidate_content := [CHR ''2'', CHR 0x0D], ec_candidate_hash := [CHR ''2'', CHR 0x0D]\<rparr>"

abbreviation sample_cr_fs :: "(string + promotion_receipt) \<times> files" where
  "sample_cr_fs \<equiv> promote (\<lambda>s. s) [''w''] [''b''] sample_cr_candidate sample_evo_files"

definition sample_runner :: runner where
  "sample_runner phase argv k = (if phase = ''candidate'' then Exited 0 [] [] 1 else Exited 1 [] ''failed'' 1)"

abbreviation sample_verdict :: "string + evo_evaluation" where
  "sample_verdict \<equiv> sandbox_evaluate (vo_sha sample_evo_env) ''/usr/bin/python'' 100 sample_runner [''w''] [''s''] sample_evo_candidate ''1'' ''2''
     sample_evo_files"

section \<open>Properties\<close>

text \<open>
  C8: No protected file ever changes. Whatever triggers, proposals, evaluations, decisions and rollbacks
  run, however they interleave at their awaits, and whatever the sandbox reports, a file under a
  protected path of the workspace, and a file with a protected name anywhere, holds what it held at
  the start, if the backups are kept apart from the protected paths. The protected
  paths of the policy must be relative, and neither they nor the protected names begin with a dot, as in the
  shipped policy; file names are case sensitive.\<close>

theorem protected_files_never_change:
  assumes "evo_reach env workspace backups files (st, fs, ws)" "plain_policy (vo_policy env)"
    and "backups_apart (vo_policy env) workspace backups" "protected_file (vo_policy env) workspace p"
  shows "fs p = files p"
proof -
  have "fst (snd w) p = files p" if "evo_reach env workspace backups files w" for w
    using that
  proof (induction rule: evo_reach.induct)
    case (step w w')
    then show ?case using evo_step_protected [OF step(2) evo_reach_ok [OF step(1)] assms(2-4)] by simp
  qed simp
  from this [OF assms(1)] show ?thesis by simp
qed

theorem protected_files_never_change_witness:
  "snd sample_evo_fs [''w'', ''m.py''] = Some ''2'' \<and> snd sample_evo_fs [''w'', ''north_star.yaml''] = Some ''n''"
proof -
  have policy: "vo_policy sample_evo_env = shipped_evo_policy" by (simp add: sample_evo_env_def)
  have "protected_file shipped_evo_policy [''w''] [''w'', ''north_star.yaml'']" by code_simp
  then have "snd sample_evo_fs [''w'', ''north_star.yaml''] = sample_evo_files [''w'', ''north_star.yaml'']"
    using protected_files_never_change [OF sample_evo_reach] shipped_plain sample_backups_apart unfolding policy by blast
  then show ?thesis by (simp add: sample_evo_replaced sample_evo_files_def)
qed

text \<open>
  C23: Whatever was promoted was vetted: for every lineage row of a reachable store there are the
  candidate, which the governor found without a blocker, and its one evaluation, which passed with
  the improvement the policy asks for and no more regressions than it allows; and a trusted
  principal gave an explicit reason.\<close>

theorem promoted_was_vetted:
  assumes "evo_reach env workspace backups files (st, fs, ws)" "l \<in> set (es_lineage (vs_store st))"
  shows "(\<exists>row \<in> set (es_candidates (vs_store st)). ec_candidate_id (ew_candidate row) = el_candidate_id l \<and>
      validate_evo_candidate (vo_pct env) (vo_policy env) (ew_candidate row) = []) \<and>
    (\<exists>e. get_evaluation (el_candidate_id l) (vs_store st) = Some e \<and> ee_passed e \<and> ep_minimum_improvement (vo_policy env) \<le> ee_improvement e \<and>
      ee_regression_count e \<le> ep_maximum_regressions (vo_policy env)) \<and>
    el_principal l \<in> set (ep_trusted_principals (vo_policy env)) \<and> 12 \<le> length (strip (el_reason l))"
proof -
  have inv: "evo_inv env (vs_store st)" using evo_reach_ok [OF assms(1)] by (simp add: evo_world_ok_def)
  then have vetted: "evo_vetted env (vs_store st) (el_candidate_id l) (el_principal l) (el_reason l)"
    using assms(2) by (auto simp: evo_inv_def list_all_iff lineage_ok_def)
  then obtain row where row: "row \<in> set (es_candidates (vs_store st))" "ec_candidate_id (ew_candidate row) = el_candidate_id l"
    by (auto simp: evo_vetted_def)
  then have "validate_evo_candidate (vo_pct env) (vo_policy env) (ew_candidate row) = []"
    using inv by (auto simp: evo_inv_def list_all_iff evo_row_ok_def)
  moreover obtain e where "get_evaluation (el_candidate_id l) (vs_store st) = Some e" "validate_evaluation (vo_fmt3 env) (vo_policy env) e = []"
    using vetted by (auto simp: evo_vetted_def)
  then have "get_evaluation (el_candidate_id l) (vs_store st) = Some e \<and> ee_passed e \<and> ep_minimum_improvement (vo_policy env) \<le> ee_improvement e \<and>
      ee_regression_count e \<le> ep_maximum_regressions (vo_policy env)"
    by (auto simp: validate_evaluation_def evo_evaluation_blockers_def split: if_splits)
  moreover have "el_principal l \<in> set (ep_trusted_principals (vo_policy env))" "12 \<le> length (strip (el_reason l))"
    using vetted by (auto simp: evo_vetted_def validate_evo_decision_def split: if_splits)
  ultimately show ?thesis using row by blast
qed

theorem promoted_was_vetted_witness:
  "es_lineage (vs_store (snd sample_evo_promoted)) = [sample_evo_lineage] \<and>
    el_principal sample_evo_lineage \<in> set (ep_trusted_principals (vo_policy sample_evo_env)) \<and>
    12 \<le> length (strip (el_reason sample_evo_lineage))"
proof -
  have "sample_evo_lineage \<in> set (es_lineage (vs_store (snd sample_evo_promoted)))" unfolding sample_evo_finished(2) by simp
  from promoted_was_vetted [OF sample_evo_reach this] show ?thesis using sample_evo_finished(2) by blast
qed

text \<open>
  C25: A rollback undoes a promotion. If the promoter replaced a file and neither the old nor the new
  text has a carriage return, the rollback of the lineage recorded from the receipt, while nobody
  changed the file, succeeds and the file holds its old text again. The target must be a safe relative
  path, the candidate's id a plain name, and the backups kept apart from the workspace.\<close>

theorem rollback_restores:
  assumes "promote sha workspace backups c fs = (Inr receipt, fs')" "safe_relative (ec_target_path c)"
    and "roots_apart workspace backups" "plain_part (ec_candidate_id c)" "lineage_of receipt l"
    and "fs (workspace @ path_parts (ec_target_path c)) = Some old" "CHR 0x0D \<notin> set old" "CHR 0x0D \<notin> set (ec_candidate_content c)"
  shows "fst (restore sha workspace l fs') = Inr () \<and> snd (restore sha workspace l fs') (workspace @ path_parts (ec_target_path c)) = Some old"
proof -
  from promoted_files [OF assms(1-4)] obtain prior where facts: "fs (workspace @ path_parts (ec_target_path c)) = Some prior"
    "sha (universal_newlines prior) = ec_baseline_hash c" "sha (ec_candidate_content c) = ec_candidate_hash c"
    "fs' (workspace @ path_parts (ec_target_path c)) = Some (ec_candidate_content c)"
    "fs' (backups @ ec_candidate_id c # path_parts (ec_target_path c)) = Some (universal_newlines prior)"
    "po_target_path receipt = ec_target_path c" "po_parent_hash receipt = ec_baseline_hash c" "po_promoted_hash receipt = ec_candidate_hash c"
    "po_backup_path receipt = path_text (backups @ ec_candidate_id c # path_parts (ec_target_path c))"
    by blast
  have "prior = old" using facts(1) assms(6) by simp
  have parts: "list_all plain_part (backups @ ec_candidate_id c # path_parts (ec_target_path c))"
    using assms(2-4) path_parts_plain by (simp add: safe_relative_def)
  have safe: "safe_relative (el_target_path l)" "''..'' \<notin> set workspace"
    using assms(2,3,5) facts(6) plain_parts_dots [of workspace] by (simp_all add: lineage_of_def)
  have current: "fs' (workspace @ path_parts (el_target_path l)) = Some (ec_candidate_content c)"
    using assms(5) facts(4,6) by (simp add: lineage_of_def)
  have hash: "sha (universal_newlines (ec_candidate_content c)) = el_promoted_hash l"
    using assms(5) facts(3,8) universal_newlines_plain [OF assms(8)] by (simp add: lineage_of_def)
  have "path_parts (el_backup_path l) = backups @ ec_candidate_id c # path_parts (ec_target_path c)"
    using assms(5) facts(9) path_parts_text [OF parts] by (simp add: lineage_of_def)
  then have saved: "fs' (resolve [] (path_parts (el_backup_path l))) = Some old" "sha (universal_newlines old) = el_parent_hash l"
    using assms(5) facts(2,5,7) resolve_plain [OF plain_parts_dots [OF parts], of "[]"] universal_newlines_plain [OF assms(7)] \<open>prior = old\<close>
    by (simp_all add: lineage_of_def)
  have "path_parts (el_target_path l) = path_parts (ec_target_path c)" using assms(5) facts(6) by (simp add: lineage_of_def)
  then show ?thesis using restore_eq(2) [OF safe current hash saved] universal_newlines_plain [OF assms(7)] by simp
qed

theorem rollback_restores_witness:
  "snd sample_evo_fs [''w'', ''m.py''] = Some ''2'' \<and>
    fst (restore (vo_sha sample_evo_env) [''w''] sample_evo_lineage (snd sample_evo_fs)) = Inr () \<and>
    snd (restore (vo_sha sample_evo_env) [''w''] sample_evo_lineage (snd sample_evo_fs)) [''w'', ''m.py''] = Some ''1''"
proof -
  have c: "ec_target_path sample_evo_verified = ''m.py''" "ec_candidate_id sample_evo_verified = ''evo-candidate.0''"
    "ec_candidate_content sample_evo_verified = ''2''" by code_simp+
  have p: "path_parts ''m.py'' = [''m.py'']" by code_simp
  have "sample_evo_fs = (Inr sample_evo_receipt, snd sample_evo_fs)" using sample_evo_promote by (metis prod.collapse)
  from rollback_restores [OF this, where l = sample_evo_lineage and old = "''1''", unfolded c p]
  show ?thesis using sample_evo_replaced sample_evo_roots
    by (simp add: lineage_of_def sample_evo_receipt_def sample_evo_lineage_def sample_evo_files_def)
qed

text \<open>
  C39: A promoted text with a carriage return cannot be rolled back. The promoter writes the text as it is
  and compares what it reads back in text mode, where the carriage return has become a line feed, with
  the hash of what it wrote: unless the two hashes collide, every rollback of the untouched file is refused
  as a divergence.\<close>

theorem carriage_return_blocks_rollback:
  assumes "promote sha workspace backups c fs = (Inr receipt, fs')" "safe_relative (ec_target_path c)"
    and "roots_apart workspace backups" "plain_part (ec_candidate_id c)" "lineage_of receipt l"
    and "sha (universal_newlines (ec_candidate_content c)) \<noteq> sha (ec_candidate_content c)"
  shows "restore sha workspace l fs' = (Inl ''current artifact diverged after promotion; automatic rollback is blocked'', fs')"
proof -
  from promoted_files [OF assms(1-4)] have facts: "sha (ec_candidate_content c) = ec_candidate_hash c"
    "fs' (workspace @ path_parts (ec_target_path c)) = Some (ec_candidate_content c)"
    "po_target_path receipt = ec_target_path c" "po_promoted_hash receipt = ec_candidate_hash c"
    by blast+
  show ?thesis
    by (rule restore_eq(1) [where current = "ec_candidate_content c"])
      (use assms facts plain_parts_dots [of workspace] in \<open>simp_all add: lineage_of_def\<close>)
qed

theorem carriage_return_blocks_rollback_witness:
  "restore (\<lambda>s. s) [''w''] (sample_evo_lineage\<lparr>el_promoted_hash := [CHR ''2'', CHR 0x0D]\<rparr>) (snd sample_cr_fs) =
    (Inl ''current artifact diverged after promotion; automatic rollback is blocked'', snd sample_cr_fs)"
proof -
  have c: "ec_target_path sample_cr_candidate = ''m.py''" "ec_candidate_id sample_cr_candidate = ''evo-candidate.0''"
    "ec_candidate_content sample_cr_candidate = [CHR ''2'', CHR 0x0D]" by code_simp+
  have "fst sample_cr_fs = Inr (sample_evo_receipt\<lparr>po_promoted_hash := [CHR ''2'', CHR 0x0D]\<rparr>)" by code_simp
  then have "sample_cr_fs = (Inr (sample_evo_receipt\<lparr>po_promoted_hash := [CHR ''2'', CHR 0x0D]\<rparr>), snd sample_cr_fs)" by (metis prod.collapse)
  from carriage_return_blocks_rollback [OF this, unfolded c] show ?thesis using sample_evo_roots
    by (simp add: lineage_of_def sample_evo_receipt_def sample_evo_lineage_def)
qed

text \<open>
  C24: What the governor accepts from the local sandbox. With the shipped policy, for a candidate without
  blockers, the evaluation of the sandbox is accepted exactly when every check exits with 0 in the copy
  with the candidate, some check does not in the copy without it, and a check is a held-out one: an
  improvement of a hundredth is one more check that passes.\<close>

theorem sandbox_verdict:
  assumes "validate_evo_candidate pct shipped_evo_policy c = []"
    and "sandbox_evaluate sha executable n run workspace sandboxes c hex hex' fs = Inr e"
  shows "validate_evaluation fmt3 shipped_evo_policy e = [] \<longleftrightarrow>
    list_all (check_passes executable run ''candidate'') (ec_deterministic_checks c @ ec_heldout_checks c) \<and>
    \<not> list_all (check_passes executable run ''baseline'') (ec_deterministic_checks c @ ec_heldout_checks c) \<and>
    list_ex (\<lambda>k. ck_kind k = HELDOUT) (ec_deterministic_checks c @ ec_heldout_checks c)"
proof -
  define ks where "ks = ec_deterministic_checks c @ ec_heldout_checks c"
  from assms(2) obtain xs ys sid where runs: "run_phase executable n run ''baseline'' ks = Inr xs" "run_phase executable n run ''candidate'' ks = Inr ys"
    and e: "e = sandbox_evaluation sandboxes c sid hex' (xs @ ys)"
    by (auto simp: sandbox_evaluate_def bindE_def Let_def ks_def split: sum.splits option.splits if_splits)
  note xs = run_phase_results [OF runs(1)] and ys = run_phase_results [OF runs(2)]
  have sizes: "ks \<noteq> []" "length ks \<le> 16" using assms(1) unfolding ks_def
    by (auto simp: validate_evo_candidate_def evo_candidate_blockers_def Let_def shipped_evo_policy_def split: if_splits)
  have lengths: "length xs = length ks" "length ys = length xs"
    using xs ys by (metis length_map)+
  have "list_all cx_passed xs \<longleftrightarrow> list_all (check_passes executable run ''baseline'') ks"
    "list_all cx_passed ys \<longleftrightarrow> list_all (check_passes executable run ''candidate'') ks"
    "list_ex (\<lambda>y. cx_kind y = HELDOUT) ys \<longleftrightarrow> list_ex (\<lambda>k. ck_kind k = HELDOUT) ks"
    using xs ys list_all_map_eq list_ex_map_eq [of cx_kind ys ck_kind ks "\<lambda>k. k = HELDOUT"] by blast+
  moreover have "xs \<noteq> []" "length xs \<le> 16" using sizes lengths by auto
  ultimately show ?thesis
    using sandbox_evaluation_verdict [of xs ys fmt3 sandboxes c sid hex'] xs ys lengths(2) unfolding e ks_def [symmetric] by simp
qed

theorem sandbox_verdict_witness:
  "\<exists>e. sample_verdict = Inr e \<and> validate_evaluation (\<lambda>_. ''0'') shipped_evo_policy e = []"
proof -
  have "\<not> isl sample_verdict" by code_simp
  then obtain e where e: "sample_verdict = Inr e" by (cases sample_verdict) simp_all
  have "validate_evo_candidate (\<lambda>_. ''0'') shipped_evo_policy sample_evo_candidate = []" by code_simp
  from sandbox_verdict [OF this e, of "\<lambda>_. ''0''"] show ?thesis using e
    by (simp add: sample_evo_candidate_def requested_candidate_def sample_evo_request_def sample_evo_check_def check_passes_def validated_argv_def
        sample_runner_def)
qed

end
