(* ===== verification/Spec2Isabelle.thy ===== *)
theory Spec2Isabelle
  imports Ledger Approval_Inbox Provider_Runtime Mission_Properties Oauth_Properties Skill_Properties
    Capability_Lifecycle_Properties Capability_Router_Properties Evolution_Properties
begin

text \<open>
  A verification library for the governed core of Aether: what turns a proposal into an executed
  action, what it leaves as evidence, what plans such actions as missions, and who may reach its
  tools from outside.

  \<^bold>\<open>The program.\<close> Every action is an \<open>ActionProposal\<close>. The \<^emph>\<open>governed action path\<close>
  (\<open>actions/path.py\<close>) validates it, refuses a blind retry of a recorded failure
  (\<open>actions/failure.py\<close>), asks \<^emph>\<open>governance\<close> (\<open>governance/*.py\<close>: the North Star authority, the
  kernel, the action governor) and then executes it as a task, returns a denial, or stores it in
  the \<^emph>\<open>pending action store\<close> (\<open>PendingActionStore\<close> of \<open>actions/approval.py\<close>). The \<^emph>\<open>approval
  inbox\<close> (\<open>TrustedApprovalInbox\<close>) decides a pending action, claims it once and resumes it with an
  approval bound to its hash. Everything is written to the \<^emph>\<open>event bus\<close> (\<open>events/bus.py\<close>), whose
  journal is a \<^emph>\<open>JSON-lines file\<close> (\<open>utils/jsonio.py\<close>); the \<^emph>\<open>ledger\<close> (\<open>ledger/*.py\<close>) is such a file
  with a hash chain. The \<^emph>\<open>mission orchestrator\<close> (\<open>missions/*.py\<close>) validates opportunities and
  plans, has them reviewed, executes their steps through the action path within budgets, and
  accounts for their value. The \<^emph>\<open>provider router\<close> (\<open>resilience/*.py\<close>) calls model providers with
  retries, budgets, circuit breakers and fallbacks. The \<^emph>\<open>OAuth edge\<close> (\<open>oauth_edge/*.py\<close> of the
  gateway) gives registered clients tokens once the Founder has approved them in the same pending
  action store, and passes requests with enough scopes on to the tool server. The \<^emph>\<open>skill factory\<close>
  (\<open>skills/*.py\<close>) turns repeated work into skills: candidates with evidence, a benchmark in a sandbox,
  a trusted decision, a registry, and a curator that retires what is unused or fails. The \<^emph>\<open>capability
  router\<close> (\<open>capabilities/router.py\<close>) chooses an active skill for a capability and executes it through
  the action path, with fallbacks; the \<^emph>\<open>capability lifecycle\<close> (\<open>capabilities/lifecycle.py\<close>) records how
  far each principal has brought a mutation surface. The \<^emph>\<open>evolution engine\<close> (\<open>evolution/*.py\<close>) proposes
  changes of single files, has them evaluated in a sandbox, and promotes what a trusted principal
  approves through a promoter that replaces the file and can roll it back.

  \<^bold>\<open>Theories.\<close>
  \<^item> \<open>Aether_Prelude\<close>: Python strings, dictionaries (association lists in insertion order), numbers
    as text, identifiers (\<open>utils/ids.py\<close>), time stamps (\<open>utils/time.py\<close>), results with errors.
    \<open>State_Result\<close>: computations that change a state and can raise, with their rules.
  \<^item> \<open>Aether_Json\<close>: \<open>json.dumps\<close> and \<open>json.loads\<close> on text; the locale \<open>text_codec\<close> states the round
    trip and is interpreted for the three styles of printing the code uses.
  \<^item> \<open>Jsonl_File\<close> (\<open>utils/jsonio.py\<close>): the locale \<open>append_log\<close> of append and read, interpreted here
    for the file and in \<open>Event_Bus\<close> (\<open>events/bus.py\<close>) for the journal. \<open>Ledger\<close> (\<open>ledger/*.py\<close>):
    entries, append and \<open>verify\<close>; no change to a verified ledger goes unnoticed, and appending keeps
    it verified.
  \<^item> \<open>Contracts_Actions\<close> (\<open>contracts/actions.py\<close>): proposals, their payload and canonical hash; the
    hash binds the action and a stored proposal is read back. \<open>Failure_Store\<close> (\<open>actions/failure.py\<close>).
    \<open>Governance\<close>: the scores and vetoes, the decision, and who can approve what.
  \<^item> \<open>Approval_Store\<close> (\<open>actions/approval.py\<close>): the two tables and every method. The locale
    \<open>approval_gate\<close> is the abstract automaton of an approval - pending, decided, executing, final -
    and the store refines it: an approval is claimed at most once, final states stay.
  \<^item> \<open>Action_Path\<close> (\<open>actions/path.py\<close>): \<open>execute\<close>, \<open>cancel_action\<close>, \<open>reconcile_action\<close> cut at their
    awaits, and the execution task. \<open>Action_Path_Safety\<close>: the transition system of these pieces and
    its invariants: every task was started by a call with the authority for it, cancellation is
    recorded once and first, late
    results are discarded, every answer becomes evidence.
  \<^item> \<open>Approval_Inbox\<close>: \<open>decide_and_resume\<close> on top of both, refining the store; an action is resumed
    at most once and its approval is the recorded one.
  \<^item> \<open>Py_Float\<close>, \<open>Provider_Resilience\<close> (\<open>resilience/provider.py\<close>), \<open>Provider_Runtime\<close>
    (\<open>resilience/runtime.py\<close>): bounds of the retry delay, the single probe of an open circuit, the
    choice of a fallback, the limits on reservations, and that \<open>invoke\<close> succeeds when a usable
    provider does.
  \<^item> \<open>Mission_Contracts\<close> (\<open>contracts/missions.py\<close>), \<open>Mission_Governance\<close> (\<open>missions/governance.py\<close>):
    the depth-first search decides cycles and a valid plan is never stuck. \<open>Mission_Store\<close>
    (\<open>missions/store.py\<close>): append-only tables. \<open>Mission_Orchestrator\<close> (\<open>missions/orchestrator.py\<close>, and
    the adapter \<open>missions/execution.py\<close> of the gateway): every method, \<open>run\<close> cut at its awaits.
    \<open>Mission_Safety\<close>: all calls as a transition system; the locale \<open>store_assertion\<close> gives what every
    call keeps, interpreted for evidence of value and for review. \<open>Mission_Properties\<close>: bounds on
    dispatch, review before execution and its gap, verified value.
  \<^item> \<open>Oauth_Codec\<close>: signed tokens as text (Base64, JSON) and that they verify as what was signed.
    \<open>Oauth_Tokens\<close> (\<open>oauth_edge/token_store.py\<close>, \<open>session.py\<close>), \<open>Oauth_Edge\<close> (\<open>registry.py\<close>,
    \<open>approval_inbox.py\<close>, the endpoints of \<open>server.py\<close>) and \<open>Oauth_Proxy\<close> (its MCP proxy).
    \<open>Oauth_Safety\<close>: all calls, interleaved with other users of the approval store, as a transition
    system; the invariant behind every code, and the locale \<open>edge_assertion\<close> of what each call keeps.
    \<open>Oauth_Properties\<close>: tokens need an approval of exactly the request; codes and refresh tokens are
    used once (two interpretations of the locale \<open>one_shot\<close>); refreshing never widens scopes; what the
    proxy forwards, and what escapes its check.
  \<^item> \<open>Skill_Contracts\<close> (\<open>contracts/skills.py\<close>, \<open>skills/governance.py\<close>), \<open>Skill_Store\<close>
    (\<open>skills/store.py\<close>), \<open>Skill_Factory\<close> (\<open>skills/factory.py\<close>): the records, the rules of the governor, the
    append-only tables and every method, coroutines cut at the awaits of sandbox and installer.
    \<open>Skill_Safety\<close>: the transition system, the locale \<open>one_row\<close> of a table with a unique column
    (interpreted for benchmarks and decisions), and the invariant that ties registry records to what
    the governor has seen. \<open>Skill_Properties\<close>: what a registered skill has passed, that attempts are
    not repeated, what the curator may do, and the gaps of the lifecycle.
  \<^item> \<open>Capability_Schema\<close> (\<open>_validate_schema\<close> of \<open>capabilities/router.py\<close>): the check of a skill's input and
    that it decides the values a schema admits. \<open>Capability_Router\<close> (\<open>contracts/capabilities.py\<close>,
    \<open>capabilities/router.py\<close>): selection, execution with fallback, and the executor offered to models.
    \<open>Capability_Router_Properties\<close>: which skills may be selected, that no protected capability is ever
    routed (with the invariant of the skill factory), and what is executed, how often and when.
  \<^item> \<open>Capability_Lifecycle\<close> (\<open>capabilities/lifecycle.py\<close>): stages, evidence, the single-principal gate and
    the log. \<open>Capability_Lifecycle_Properties\<close>: every record has climbed the ladder of stages with its
    evidence, one principal of a surface is proven, where the gate locks, and that the log, another
    interpretation of \<open>append_log\<close>, rebuilds the records.
  \<^item> \<open>Evolution_Store\<close> (\<open>contracts/evolution.py\<close>, \<open>evolution/governance.py\<close>, \<open>evolution/store.py\<close>) and
    \<open>Evolution_Engine\<close> (\<open>evolution/engine.py\<close>, \<open>evolution/intake.py\<close>): every method, coroutines cut at the
    awaits. \<open>Evolution_Local\<close> (\<open>evolution/local.py\<close> of the gateway): sandbox and promoter over the files of
    the machine. \<open>Evolution_Safety\<close>: two more interpretations of \<open>one_row\<close>, the invariant of the store, and
    which files the promoter writes. \<open>Evolution_Properties\<close>: engine and promoter as a transition system;
    protected files never change, what is promoted was vetted, what the sandbox's verdict means, and
    when a rollback restores the file.
  \<^item> This theory: the property that joins missions and approvals.

  \<^bold>\<open>Modelling.\<close> Strings are lists of characters below 256. Instants are whole seconds in the stores
  and rationals in the router and the OAuth edge, where the code computes with them; floats of money and delays are
  rationals, and the text Python prints for one is a parameter (\<open>me_float\<close>, \<open>fr\<close>); the scores of
  the North Star authority, where rounding matters, are the float values themselves. SHA-256 and
  HMAC are parameters; what needs a digest collision free says so for the texts at hand. A uuid, or
  what \<open>secrets\<close> returns, is read from a parameter by a counter; where identifiers must not repeat,
  this is assumed of the first \<open>N\<close> draws, since an identifier keeps sixteen characters of one. A coroutine is a sequence of functions, one per stretch between awaits,
  and the awaited answer is an argument of the next: the transition systems interleave the
  stretches of any number of calls. The capability router instead takes the awaited executor as a
  parameter that may change the whole state. A method of a SQLite store is one atomic step, since it holds
  the lock and one transaction; columns with JSON hold text in the approval store and the encoded
  value in the mission, skill and evolution stores. Files are a map from absolute paths to text, those
  of a POSIX machine: names are case sensitive, there are no symbolic links, reading in text mode
  translates carriage returns and writing changes nothing. (Where names are not case sensitive, another
  spelling of a protected path passes the check of the governor, which compares text; on Windows writing
  turns line feeds into carriage return and line feed.) Loops recurse on their data or, in \<open>invoke\<close>, the depth-first
  search and the schema check, on a measure with its termination proof; there is no fuel. Queries keep the \<open>LIMIT\<close> of
  the code, which the statement on dispatch therefore mentions.

  \<^bold>\<open>What the code does not do.\<close> Theorems state the deviations found: a line separator in a row makes
  a JSON-lines file unreadable; two concurrent cancellations record two intents; a result that JSON
  cannot encode leaves no evidence; a reservation released on a later day forgets the daily budget;
  pausing a mission evades its review; a cancelled mission can be approved and run; verified revenue
  can exceed realized revenue; a batch of tool calls escapes the scope check of the proxy; a denial of the proxy that cannot be
  logged or answered forwards the call, and bodies of other methods than POST are not looked at; a caller of
  the proxy can send identity headers of its own; a refresh without a client drops the client; anyone
  can mark an archived skill stale, which makes it executable again; a skill rejected while it is being
  installed stays registered; the second of two lifecycle changes of a skill in one second has no effect;
  a reactivation can make two skills of one name active; the
  single-principal gate locks a surface when two principals enter it before one is active; an input
  schema with a list of types makes the router raise; a side effect written with a capital gets its
  scope but not its risk; a skill archived during an attempt is still executed as a fallback;
  a promoted text with a carriage return cannot be rolled back.

  \<^bold>\<open>Not modelled.\<close> Tool executors and runtime adapters and the memory fabric (answers given as
  arguments); what the check commands of the sandboxes do; HTTP, MCP, chat and command-line front ends; subprocess, audio and
  browser handling; the loading of configuration files (policies are records); payload decoding of
  missions; the HTML of the OAuth pages; the knowledge, experiment and opportunity engines, which repeat the pattern of the skill factory over other tables; the scheduler of the runtime
  operations; the heuristics of the executive and consciousness modules, which state no contract.
\<close>

section \<open>Missions and approvals\<close>

lemma stored_approval:
  assumes "store_inv sha s" "store_get sha i s = Inr pa" "pa_status pa = CONSUMED"
  shows "row_status s i = Some CONSUMED \<and> (\<exists>c. records_of i s = [c] \<and> rc_decision c = APPROVED \<and>
    rc_action_hash c = canonical_action_hash sha (pa_proposal pa) \<and> \<not> blank (rc_principal c) \<and> \<not> blank (rc_reason c))"
proof -
  from store_get_row [OF assms(2)] obtain row where row: "find_row i s = Some row" "row_to_pending sha row = Inr pa"
    "pr_approval_id row = i" by blast
  then have "pr_status row = CONSUMED" "canonical_action_hash sha (pa_proposal pa) = pr_action_hash row"
    using row_to_pending_fields [OF row(2)] assms(3) by auto
  with store_inv_find [OF assms(1) row(1)] row show ?thesis by (auto simp: decided_row_def row_status_def)
qed

text \<open>
  C9: A mission continues after an approval only when the approved action was executed: whenever
  the adapter answers the orchestrator that the action of an approval succeeded, whatever
  operations the approval store has seen, the approval is consumed, and the store holds exactly one
  decision record for it, an approval by a named principal for a stated reason.\<close>

theorem mission_step_needs_consumed_approval:
  assumes "list_all wf_op ops" and "s = run_store sha dflt ops empty_store"
    and "approval_result sha i s = Inr (Some r)" and "ar_ok r"
  shows "row_status s i = Some CONSUMED \<and> (\<exists>c. records_of i s = [c] \<and> rc_decision c = APPROVED \<and>
    \<not> blank (rc_principal c) \<and> \<not> blank (rc_reason c))"
proof -
  have inv: "store_inv sha s"
    using store.inv_run [OF store_inv_empty assms(1)] assms(2) by (simp add: run_store_run)
  from assms(3,4) obtain pa where "store_get sha i s = Inr pa" "pa_status pa = CONSUMED"
    by (auto simp: approval_result_def split: sum.splits approval_error.splits if_splits option.splits)
  from stored_approval [OF inv this] show ?thesis by blast
qed

definition consumed_ops :: "store_op list" where
  "consumed_ops = sample_ops @ [Op_Finalize 20 ''approval.0123456789abcdef'' sample_result]"

lemma consumed_answer:
  "case approval_result id ''approval.0123456789abcdef'' (run_store id 900 consumed_ops empty_store) of
     Inr (Some r) \<Rightarrow> ar_ok r | _ \<Rightarrow> False"
  by code_simp

theorem mission_step_needs_consumed_approval_witness:
  "row_status (run_store id 900 consumed_ops empty_store) ''approval.0123456789abcdef'' = Some CONSUMED"
proof -
  have "list_all wf_op consumed_ops" by (simp add: consumed_ops_def sample_ops_def sample_result_def wf_result_def)
  moreover obtain r where "approval_result id ''approval.0123456789abcdef'' (run_store id 900 consumed_ops empty_store) = Inr (Some r)" "ar_ok r"
    using consumed_answer by (auto split: sum.splits option.splits)
  ultimately show ?thesis using mission_step_needs_consumed_approval [OF _ refl] by blast
qed

end
